(* ===== verification/Prelude.thy ===== *)
theory Prelude
  imports Main "HOL-Library.Char_ord" "HOL-Library.List_Lexorder" "HOL-Library.Sublist"
    "HOL-Library.AList" "HOL-Library.Multiset"
begin

text \<open>
  Shared vocabulary of the development: results of code that may raise, the Python idioms the
  modelled sources use again and again (\<open>tuple(sorted(set(xs)))\<close>, \<open>str.startswith\<close>, membership of
  a value in a dict), and the generic lemmas on results and lists that the component theories rely
  on. A Python \<open>str\<close> is a \<open>string\<close> whose characters are code points below 256; a \<open>dict\<close> whose
  order or contents are serialised is an association list with Python's update order
  (\<open>AList.update\<close>), any other \<open>dict\<close> or table is a map.
\<close>

named_theorems result_simps \<open>inversion rules for computations that may raise\<close>
named_theorems shape_simps \<open>unfolding rules for record well-formedness checks\<close>

section \<open>Results: code that may raise\<close>

type_synonym ('e, 'a) result = "'e + 'a"

definition rbind :: "('e, 'a) result \<Rightarrow> ('a \<Rightarrow> ('e, 'b) result) \<Rightarrow> ('e, 'b) result" where
  "rbind m f = (case m of Inl e \<Rightarrow> Inl e | Inr x \<Rightarrow> f x)"

definition ensure :: "bool \<Rightarrow> 'e \<Rightarrow> ('e, unit) result" where
  "ensure b e = (if b then Inr () else Inl e)"

fun rmap :: "('a \<Rightarrow> ('e, 'b) result) \<Rightarrow> 'a list \<Rightarrow> ('e, 'b list) result" where
  "rmap f [] = Inr []"
| "rmap f (x # xs) = rbind (f x) (\<lambda>y. rbind (rmap f xs) (\<lambda>ys. Inr (y # ys)))"

fun sequence :: "('e, 'a) result list \<Rightarrow> ('e, 'a list) result" where
  "sequence [] = Inr []"
| "sequence (r # rs) = rbind r (\<lambda>y. rbind (sequence rs) (\<lambda>ys. Inr (y # ys)))"

definition rcatch :: "('e, 'a) result \<Rightarrow> ('e \<Rightarrow> 'f) \<Rightarrow> ('f, 'a) result" where
  "rcatch m h = (case m of Inl e \<Rightarrow> Inl (h e) | Inr x \<Rightarrow> Inr x)"

definition is_ok :: "('e, 'a) result \<Rightarrow> bool" where
  "is_ok m = (case m of Inl _ \<Rightarrow> False | Inr _ \<Rightarrow> True)"

definition of_option :: "'e \<Rightarrow> 'a option \<Rightarrow> ('e, 'a) result" where
  "of_option e m = (case m of None \<Rightarrow> Inl e | Some x \<Rightarrow> Inr x)"

section \<open>Python idioms\<close>

definition sorted_set :: "'a::linorder list \<Rightarrow> 'a list" where
  "sorted_set xs = sort (remdups xs)"

definition starts_with :: "string \<Rightarrow> string \<Rightarrow> bool" where
  "starts_with s p = prefix p s"

definition unique :: "'a list \<Rightarrow> bool" where
  "unique xs = (length xs = length (remdups xs))"

fun splitc :: "char \<Rightarrow> string \<Rightarrow> string list" where
  "splitc c [] = [[]]"
| "splitc c (x # xs) =
     (if x = c then [] # splitc c xs
      else (case splitc c xs of [] \<Rightarrow> [[x]] | w # ws \<Rightarrow> (x # w) # ws))"

fun joins :: "string \<Rightarrow> string list \<Rightarrow> string" where
  "joins sep [] = []"
| "joins sep [w] = w"
| "joins sep (w # v # ws) = w @ sep @ joins sep (v # ws)"

section \<open>Lemmas on results\<close>

lemma rbind_simps [simp]: "rbind (Inl e) f = Inl e" "rbind (Inr x) f = f x"
  by (simp_all add: rbind_def)

lemma ensure_simps [simp]: "ensure True e = Inr ()" "ensure False e = Inl e"
  by (simp_all add: ensure_def)

lemma rbind_Inr_iff [result_simps]:
  "rbind m f = Inr y \<longleftrightarrow> (\<exists>x. m = Inr x \<and> f x = Inr y)"
  by (cases m) auto

lemma rbind_Inl_iff [result_simps]:
  "rbind m f = Inl e \<longleftrightarrow> m = Inl e \<or> (\<exists>x. m = Inr x \<and> f x = Inl e)"
  by (cases m) auto

lemma ensure_Inr_iff [result_simps]: "ensure b e = Inr u \<longleftrightarrow> b"
  by (cases b) auto

lemma ensure_Inl_iff [result_simps]: "ensure b e = Inl e' \<longleftrightarrow> \<not> b \<and> e' = e"
  by (cases b) auto

lemma rcatch_Inr_iff [result_simps]: "rcatch m h = Inr x \<longleftrightarrow> m = Inr x"
  by (cases m) (auto simp: rcatch_def)

lemma rcatch_Inl_iff [result_simps]: "rcatch m h = Inl x \<longleftrightarrow> (\<exists>e. m = Inl e \<and> x = h e)"
  by (cases m) (auto simp: rcatch_def)

lemma rcatch_simps [simp]: "rcatch (Inl e) h = Inl (h e)" "rcatch (Inr x) h = Inr x"
  by (simp_all add: rcatch_def)

lemma of_option_Inr_iff [result_simps]: "of_option e m = Inr x \<longleftrightarrow> m = Some x"
  by (cases m) (auto simp: of_option_def)

lemma of_option_Inl_iff [result_simps]: "of_option e m = Inl e' \<longleftrightarrow> m = None \<and> e' = e"
  by (cases m) (auto simp: of_option_def)

lemma of_option_simps [simp]: "of_option e None = Inl e" "of_option e (Some x) = Inr x"
  by (simp_all add: of_option_def)

lemma is_ok_simps [simp]: "is_ok (Inl e) = False" "is_ok (Inr x) = True"
  by (simp_all add: is_ok_def)

lemma is_ok_iff: "is_ok m \<longleftrightarrow> (\<exists>x. m = Inr x)"
  by (cases m) auto

lemma rmap_Inr_iff:
  "rmap f xs = Inr ys \<longleftrightarrow> length xs = length ys \<and> (\<forall>i < length xs. f (xs ! i) = Inr (ys ! i))"
proof (induction xs arbitrary: ys)
  case Nil
  then show ?case by auto
next
  case (Cons x xs)
  show ?case
  proof (cases ys)
    case Nil
    then show ?thesis by (auto simp: result_simps)
  next
    case (Cons y ys')
    then show ?thesis
      using Cons.IH [of ys'] by (auto simp: result_simps nth_Cons split: nat.splits)
  qed
qed

lemma rmap_Inr_ex: "\<forall>x\<in>set xs. \<exists>y. f x = Inr y \<Longrightarrow> \<exists>ys. rmap f xs = Inr ys"
  by (induction xs) (auto simp: result_simps)

lemma rmap_mem: "rmap f xs = Inr ys \<Longrightarrow> x \<in> set xs \<Longrightarrow> \<exists>y\<in>set ys. f x = Inr y"
  by (induction xs arbitrary: ys) (auto simp: result_simps)

lemma rmap_cong_pure: "(\<And>x. x \<in> set xs \<Longrightarrow> f x = Inr (g x)) \<Longrightarrow> rmap f xs = Inr (map g xs)"
  by (induction xs) auto

lemma sequence_map: "sequence (map f xs) = rmap f xs"
  by (induction xs) auto

section \<open>Lemmas on the Python idioms\<close>

lemma set_sorted_set [simp]: "set (sorted_set xs) = set xs"
  by (simp add: sorted_set_def)

lemma distinct_sorted_set [simp]: "distinct (sorted_set xs)"
  by (simp add: sorted_set_def)

lemma sorted_sorted_set [simp]: "sorted (sorted_set xs)"
  by (simp add: sorted_set_def)

lemma sorted_set_cong: "set xs = set ys \<Longrightarrow> sorted_set xs = sorted_set ys"
  by (rule sorted_distinct_set_unique) auto

lemma sorted_set_idem [simp]: "sorted_set (sorted_set xs) = sorted_set xs"
  by (rule sorted_set_cong) simp

lemma sorted_set_empty [simp]: "sorted_set xs = [] \<longleftrightarrow> xs = []"
  by (metis set_empty set_sorted_set)

lemma unique_iff [simp]: "unique xs \<longleftrightarrow> distinct xs"
  unfolding unique_def by (metis length_remdups_card_conv card_distinct distinct_card)

lemma splitc_nonempty [simp]: "splitc c xs \<noteq> []"
  by (cases xs) (auto split: list.splits)

lemma joins_splitc: "joins [c] (splitc c xs) = xs"
proof (induction xs)
  case (Cons x xs)
  show ?case
  proof (cases "splitc c xs")
    case (Cons w ws)
    with \<open>joins [c] (splitc c xs) = xs\<close> show ?thesis by (cases ws) auto
  qed simp
qed simp

lemma splitc_no_sep: "w \<in> set (splitc c xs) \<Longrightarrow> c \<notin> set w"
proof (induction xs arbitrary: w)
  case (Cons x xs)
  then show ?case by (cases "splitc c xs") (auto split: if_splits)
qed simp

lemma splitc_append_sep: "c \<notin> set w \<Longrightarrow> splitc c (w @ c # xs) = w # splitc c xs"
  by (induction w) auto

lemma splitc_single: "c \<notin> set w \<Longrightarrow> splitc c w = [w]"
  by (induction w) auto

lemma splitc_joins:
  "ws \<noteq> [] \<Longrightarrow> (\<And>w. w \<in> set ws \<Longrightarrow> c \<notin> set w) \<Longrightarrow> splitc c (joins [c] ws) = ws"
  by (induction "[c]" ws rule: joins.induct) (auto simp: splitc_append_sep splitc_single)

lemma map_of_update_alist: "map_of (AList.update k v al) = (map_of al)(k \<mapsto> v)"
  by (rule update_conv')

lemma distinct_keys_update: "distinct (map fst al) \<Longrightarrow> distinct (map fst (AList.update k v al))"
  by (rule distinct_update)

lemma map_of_zip_fst: "map_of al k = Some v \<Longrightarrow> k \<in> fst ` set al"
  by (metis map_of_SomeD fst_conv image_eqI)

lemma update_new_key: "k \<notin> fst ` set al \<Longrightarrow> AList.update k v al = al @ [(k, v)]"
  by (induction al) auto

lemma keys_update: "k \<in> fst ` set al \<Longrightarrow> map fst (AList.update k v al) = map fst al"
  by (induction al) auto

section \<open>Growing tables\<close>

definition grows :: "('a \<Rightarrow> 'a \<Rightarrow> bool) \<Rightarrow> 'a list \<Rightarrow> 'a list \<Rightarrow> bool" where
  "grows R xs ys \<longleftrightarrow> list_all2 R xs (take (length xs) ys)"

lemma grows_map: "(\<And>x. x \<in> set xs \<Longrightarrow> R x (f x)) \<Longrightarrow> grows R xs (map f xs)"
  by (simp add: grows_def list_all2_conv_all_nth)

lemma grows_length: "grows R xs ys \<Longrightarrow> length xs \<le> length ys"
  by (auto simp: grows_def dest: list_all2_lengthD)

lemma grows_nth: "grows R xs ys \<longleftrightarrow> length xs \<le> length ys \<and> (\<forall>i < length xs. R (xs ! i) (ys ! i))"
  by (auto simp: grows_def list_all2_conv_all_nth)

lemma find_grows:
  assumes "grows R xs ys" "\<And>x y. R x y \<Longrightarrow> P x = P y" "find P xs = Some x"
  shows "\<exists>y. find P ys = Some y \<and> R x y"
proof -
  have "list_all2 R xs zs \<Longrightarrow> find P xs = Some x \<Longrightarrow> \<exists>y. find P (zs @ ws) = Some y \<and> R x y" for zs ws
    by (induction rule: list_all2_induct) (auto simp: assms(2) split: if_splits)
  with assms(1,3) show ?thesis
    unfolding grows_def by (metis append_take_drop_id)
qed

text \<open>What a table whose rows only change along an order promises to its readers.\<close>

locale row_order =
  fixes le :: "'r \<Rightarrow> 'r \<Rightarrow> bool"
  assumes le_refl: "le r r"
    and le_trans: "le r s \<Longrightarrow> le s t \<Longrightarrow> le r t"
begin

lemma grows_refl: "grows le xs xs"
  by (simp add: grows_nth le_refl)

lemma grows_append: "grows le xs (xs @ ys)"
  by (simp add: grows_nth nth_append le_refl)

lemma grows_trans: "grows le xs ys \<Longrightarrow> grows le ys zs \<Longrightarrow> grows le xs zs"
  unfolding grows_nth using le_trans by (meson less_le_trans order_trans)

lemma grows_steps:
  assumes "step\<^sup>*\<^sup>* s s'" "ok s" "\<And>a b. step a b \<Longrightarrow> ok a \<Longrightarrow> grows le (table a) (table b) \<and> ok b"
  shows "grows le (table s) (table s') \<and> ok s'"
  using assms(1,2)
proof (induction rule: rtranclp_induct)
  case (step b c)
  then show ?case using assms(3) [of b c] grows_trans by blast
qed (simp add: grows_refl)

end

lemma find_append: "find P (xs @ ys) = (case find P xs of None \<Rightarrow> find P ys | Some x \<Rightarrow> Some x)"
  by (induction xs) auto

lemma find_unique_key: "r \<in> set xs \<Longrightarrow> distinct (map f xs) \<Longrightarrow> f r = k \<Longrightarrow> find (\<lambda>r. f r = k) xs = Some r"
  by (induction xs) auto

end
