(* ===== verification/Canonical.thy ===== *)
theory Canonical
  imports Prelude
begin

text \<open>
  Model of \<open>src/raytsystem/contracts/base.py\<close>: canonical JSON, content-derived identifiers, the
  string and path constraints of the contracts, and the fields every versioned model carries.

  \<^item> \<open>jval\<close> is the JSON value that \<open>_canonical_value\<close> produces; \<open>pyval\<close> is the Python value it
    takes, with a constructor per branch of its \<open>isinstance\<close> chain.
  \<^item> \<open>datetime\<close> is an aware timestamp as microseconds since 1970-01-01T00:00:00Z.
  \<^item> Every function that hashes takes the digest \<open>sha\<close> (\<open>hashlib.sha256(...).hexdigest\<close>) as its
    first argument, so the theorems hold for every digest function; what a theorem needs of the
    digest is a hypothesis of that theorem.
  \<^item> \<open>strip\<close> is the whitespace stripping the models ask their validation library for
    (\<open>str_strip_whitespace=True\<close>); it is an argument of the constructors that use it.
  \<^item> The string constraints are those of the annotated types \<open>Sha256\<close>, \<open>NonEmptyStr\<close>,
    \<open>Identifier\<close> and \<open>RelativePath\<close>.
\<close>

section \<open>Definitions\<close>

type_synonym bytes = string
type_synonym digest = "bytes \<Rightarrow> string"
type_synonym datetime = int

datatype py_error = ValueError | TypeError | IndexError | KeyError

subsection \<open>Decimal rendering of numbers\<close>

definition digit_char :: "nat \<Rightarrow> char" where
  "digit_char d = char_of (48 + d)"

fun show_nat :: "nat \<Rightarrow> string" where
  "show_nat n = (if n < 10 then [digit_char n] else show_nat (n div 10) @ [digit_char (n mod 10)])"

declare show_nat.simps [simp del]

definition show_int :: "int \<Rightarrow> string" where
  "show_int i = (if i < 0 then CHR ''-'' # show_nat (nat (- i)) else show_nat (nat i))"

definition pad :: "nat \<Rightarrow> nat \<Rightarrow> string" where
  "pad w n = (let s = show_nat n in replicate (w - length s) CHR ''0'' @ s)"

subsection \<open>Timestamps\<close>

text \<open>The proleptic Gregorian date of a day number counted from 1970-01-01.\<close>

definition civil_of_days :: "int \<Rightarrow> int \<times> int \<times> int" where
  "civil_of_days n =
     (let z = n + 719468;
          era = z div 146097;
          doe = z mod 146097;
          yoe = (doe - doe div 1460 + doe div 36524 - doe div 146096) div 365;
          doy = doe - (365 * yoe + yoe div 4 - yoe div 100);
          mp = (5 * doy + 2) div 153;
          d = doy - (153 * mp + 2) div 5 + 1;
          m = (if mp < 10 then mp + 3 else mp - 9);
          y = yoe + era * 400 + (if m \<le> 2 then 1 else 0)
      in (y, m, d))"

definition iso_millis :: "datetime \<Rightarrow> string" where
  "iso_millis t =
     (let (y, m, d) = civil_of_days (t div 86400000000);
          r = t mod 86400000000;
          num = (\<lambda>w i. pad w (nat i))
      in num 4 y @ ''-'' @ num 2 m @ ''-'' @ num 2 d @ ''T'' @
         num 2 (r div 3600000000) @ '':'' @ num 2 (r div 60000000 mod 60) @ '':'' @
         num 2 (r div 1000000 mod 60) @ ''.'' @ num 3 (r div 1000 mod 1000) @ ''Z'')"

subsection \<open>Fixed-point rendering of decimals\<close>

text \<open>
  A finite \<open>Decimal\<close> is a sign, a coefficient and an exponent. \<open>normalize\<close> rounds the coefficient
  to the 28 digits of the default context (half even) and strips trailing zeros; \<open>format(_, "f")\<close>
  writes it without exponent.
\<close>

record decimal =
  dec_neg :: bool
  dec_coeff :: nat
  dec_exp :: int

fun strip_zeros :: "nat \<Rightarrow> int \<Rightarrow> nat \<times> int" where
  "strip_zeros c e = (if c \<noteq> 0 \<and> c mod 10 = 0 then strip_zeros (c div 10) (e + 1) else (c, e))"

declare strip_zeros.simps [simp del]

definition round_half_even :: "nat \<Rightarrow> nat \<Rightarrow> nat" where
  "round_half_even c k =
     (let p = 10 ^ k; q = c div p; r = c mod p
      in if 2 * r > p \<or> (2 * r = p \<and> odd q) then q + 1 else q)"

definition dec_normalize :: "decimal \<Rightarrow> decimal" where
  "dec_normalize d =
     (if dec_coeff d = 0 then d\<lparr>dec_exp := 0\<rparr>
      else let n = length (show_nat (dec_coeff d));
               k = n - 28;
               (c, e) = strip_zeros (round_half_even (dec_coeff d) k) (dec_exp d + int k)
           in d\<lparr>dec_coeff := c, dec_exp := e\<rparr>)"

definition dec_format :: "decimal \<Rightarrow> string" where
  "dec_format d =
     (let s = show_nat (dec_coeff d);
          body = (if dec_exp d \<ge> 0 then s @ replicate (nat (dec_exp d)) CHR ''0''
                  else let k = nat (- dec_exp d);
                           z = replicate (Suc k - length s) CHR ''0'' @ s;
                           n = length z - k
                       in take n z @ ''.'' @ drop n z)
      in (if dec_neg d then CHR ''-'' # body else body))"

subsection \<open>Canonical values and their bytes\<close>

datatype jval =
    JNull
  | JBool bool
  | JInt int
  | JStr string
  | JList "jval list"
  | JObj "(string \<times> jval) list"

text \<open>The keys of a Python dict are distinct; the association lists of a JSON value are dicts.\<close>

primrec wf_json :: "jval \<Rightarrow> bool" where
  "wf_json JNull = True"
| "wf_json (JBool b) = True"
| "wf_json (JInt i) = True"
| "wf_json (JStr s) = True"
| "wf_json (JList xs) = list_all id (map wf_json xs)"
| "wf_json (JObj kvs) = (distinct (map fst kvs) \<and> list_all snd (map (map_prod id wf_json) kvs))"

text \<open>The escapes \<open>json.dumps(ensure_ascii=False)\<close> writes inside a string.\<close>

definition hex_char :: "nat \<Rightarrow> char" where
  "hex_char d = char_of (if d < 10 then 48 + d else 87 + d)"

definition escape_char :: "char \<Rightarrow> string" where
  "escape_char c =
     (let n = of_char c :: nat in
      if n = 34 then [CHR 0x5C, CHR 0x22]
      else if n = 92 then [CHR 0x5C, CHR 0x5C]
      else if n = 8 then [CHR 0x5C, CHR ''b'']
      else if n = 9 then [CHR 0x5C, CHR ''t'']
      else if n = 10 then [CHR 0x5C, CHR ''n'']
      else if n = 12 then [CHR 0x5C, CHR ''f'']
      else if n = 13 then [CHR 0x5C, CHR ''r'']
      else if n < 32 then
        CHR 0x5C # ''u00'' @ [hex_char (n div 16), hex_char (n mod 16)]
      else [c])"

definition quote :: "string \<Rightarrow> string" where
  "quote s = CHR 0x22 # concat (map escape_char s) @ [CHR 0x22]"

primrec dumps :: "jval \<Rightarrow> string" where
  "dumps JNull = ''null''"
| "dumps (JBool b) = (if b then ''true'' else ''false'')"
| "dumps (JInt i) = show_int i"
| "dumps (JStr s) = quote s"
| "dumps (JList xs) = ''['' @ joins '','' (map dumps xs) @ '']''"
| "dumps (JObj kvs) =
     ''{'' @ joins '',''
       (map (\<lambda>p. quote (fst p) @ '':'' @ snd p) (sort_key fst (map (map_prod id dumps) kvs))) @ ''}''"

definition utf8_char :: "char \<Rightarrow> bytes" where
  "utf8_char c =
     (let n = of_char c :: nat
      in if n < 128 then [c] else [char_of (192 + n div 64), char_of (128 + n mod 64)])"

definition utf8 :: "string \<Rightarrow> bytes" where
  "utf8 s = concat (map utf8_char s)"

definition json_bytes :: "jval \<Rightarrow> bytes" where
  "json_bytes v = utf8 (dumps v)"

datatype pyval =
    PNone
  | PBool bool
  | PInt int
  | PStr string
  | PEnum string
  | PDatetime bool datetime  \<comment> \<open>whether it carries a zone, and the instant\<close>
  | PDecimal decimal
  | PFloat bool              \<comment> \<open>whether it is finite\<close>
  | PModel "(string \<times> pyval) list"
  | PMap "(string \<times> pyval) list"
  | PSet "pyval list"
  | PSeq "pyval list"
  | POther

primrec canonical_value :: "pyval \<Rightarrow> (py_error, jval) result" where
  "canonical_value PNone = Inr JNull"
| "canonical_value (PBool b) = Inr (JBool b)"
| "canonical_value (PInt i) = Inr (JInt i)"
| "canonical_value (PStr s) = Inr (JStr s)"
| "canonical_value (PEnum s) = Inr (JStr s)"
| "canonical_value (PDatetime aware t) =
     (if aware then Inr (JStr (iso_millis t)) else Inl ValueError)"
| "canonical_value (PDecimal d) = Inr (JStr (dec_format (dec_normalize d)))"
| "canonical_value (PFloat fin) = (if fin then Inl TypeError else Inl ValueError)"
| "canonical_value (PModel kvs) =
     rbind (sequence (map (\<lambda>p. rbind (snd p) (\<lambda>v. Inr (fst p, v)))
                          (map (map_prod id canonical_value) kvs))) (\<lambda>ps. Inr (JObj ps))"
| "canonical_value (PMap kvs) =
     rbind (sequence (map (\<lambda>p. rbind (snd p) (\<lambda>v. Inr (fst p, v)))
                          (map (map_prod id canonical_value) kvs))) (\<lambda>ps. Inr (JObj ps))"
| "canonical_value (PSet xs) =
     rbind (sequence (map canonical_value xs)) (\<lambda>vs. Inr (JList (sort_key json_bytes vs)))"
| "canonical_value (PSeq xs) =
     rbind (sequence (map canonical_value xs)) (\<lambda>vs. Inr (JList vs))"
| "canonical_value POther = Inl TypeError"

definition canonical_json_bytes :: "pyval \<Rightarrow> (py_error, bytes) result" where
  "canonical_json_bytes v = rbind (canonical_value v) (\<lambda>j. Inr (json_bytes j))"

definition SCHEMA_VERSION :: string where
  "SCHEMA_VERSION = ''1.4.0''"

definition ID_SCHEME_VERSION :: string where
  "ID_SCHEME_VERSION = ''1''"

definition sha256_hex :: "digest \<Rightarrow> bytes \<Rightarrow> string" where
  "sha256_hex sha b = sha b"

definition derive_id :: "digest \<Rightarrow> string \<Rightarrow> jval \<Rightarrow> string" where
  "derive_id sha kind identity =
     kind @ ''_'' @ sha256_hex sha (json_bytes (JObj
       [(''id_scheme_version'', JStr ID_SCHEME_VERSION),
        (''kind'', JStr kind),
        (''identity'', identity)]))"

subsection \<open>Constrained strings\<close>

definition lower_letter :: "char \<Rightarrow> bool" where
  "lower_letter c = (let n = of_char c :: nat in 97 \<le> n \<and> n \<le> 122)"

definition decimal_digit :: "char \<Rightarrow> bool" where
  "decimal_digit c = (let n = of_char c :: nat in 48 \<le> n \<and> n \<le> 57)"

definition is_Sha256 :: "string \<Rightarrow> bool" where
  "is_Sha256 s = (length s = 64 \<and>
     list_all (\<lambda>c. decimal_digit c \<or> c \<in> set ''abcdef'') s)"

definition is_NonEmptyStr :: "string \<Rightarrow> bool" where
  "is_NonEmptyStr s = (1 \<le> length s \<and> length s \<le> 4096)"

definition is_Identifier :: "string \<Rightarrow> bool" where
  "is_Identifier s =
     (case s of [] \<Rightarrow> False
      | c # r \<Rightarrow> lower_letter c \<and> 1 \<le> length r \<and> length r \<le> 255 \<and>
          list_all (\<lambda>x. lower_letter x \<or> decimal_digit x \<or> x \<in> set ''_:.@/-'') r)"

text \<open>\<open>PurePosixPath(value).parts\<close> of a relative path, and \<open>as_posix()\<close> of its parts.\<close>

definition posix_parts :: "string \<Rightarrow> string list" where
  "posix_parts s = filter (\<lambda>p. p \<noteq> [] \<and> p \<noteq> ''.'') (splitc CHR ''/'' s)"

definition validate_relative_path :: "string \<Rightarrow> (py_error, string) result" where
  "validate_relative_path v =
     (if v = [] \<or> CHR 0x00 \<in> set v \<or> CHR 0x5C \<in> set v then Inl ValueError
      else let parts = posix_parts v in
        if hd v = CHR ''/'' \<or> ''..'' \<in> set parts \<or> ''.'' \<in> set parts then Inl ValueError
        else if parts = [] then Inl IndexError
        else if CHR '':'' \<in> set (hd parts) then Inl ValueError
        else Inr (joins ''/'' parts))"

definition is_RelativePath :: "string \<Rightarrow> bool" where
  "is_RelativePath s = (s \<noteq> [] \<and> validate_relative_path s = Inr s)"

definition opt_ok :: "('a \<Rightarrow> bool) \<Rightarrow> 'a option \<Rightarrow> bool" where
  "opt_ok P m = (case m of None \<Rightarrow> True | Some x \<Rightarrow> P x)"

subsection \<open>Versioned models\<close>

record versioned_model =
  schema_name :: string
  schema_version :: string
  id_scheme_version :: string
  extensions :: "(string \<times> jval) list"

definition current_schema_major :: "string \<Rightarrow> bool" where
  "current_schema_major v =
     (takeWhile (\<lambda>c. c \<noteq> CHR ''.'') v = takeWhile (\<lambda>c. c \<noteq> CHR ''.'') SCHEMA_VERSION)"

definition versioned_ok :: "string \<Rightarrow> 'a versioned_model_scheme \<Rightarrow> bool" where
  "versioned_ok name m =
     (schema_name m = name \<and> current_schema_major (schema_version m) \<and> wf_json (JObj (extensions m)))"

definition versioned_fields :: "'a versioned_model_scheme \<Rightarrow> (string \<times> jval) list" where
  "versioned_fields m =
     [(''schema_name'', JStr (schema_name m)),
      (''schema_version'', JStr (schema_version m)),
      (''id_scheme_version'', JStr (id_scheme_version m)),
      (''extensions'', JObj (extensions m))]"

definition jopt :: "('a \<Rightarrow> jval) \<Rightarrow> 'a option \<Rightarrow> jval" where
  "jopt f m = (case m of None \<Rightarrow> JNull | Some x \<Rightarrow> f x)"

abbreviation jstrs :: "string list \<Rightarrow> jval" where
  "jstrs xs \<equiv> JList (map JStr xs)"

abbreviation jtime :: "datetime \<Rightarrow> jval" where
  "jtime t \<equiv> JStr (iso_millis t)"

datatype TrustClass = TRUST_PRIMARY | TRUST_OFFICIAL | TRUST_RESEARCH | TRUST_USER
  | TRUST_COMMUNITY | TRUST_GENERATED | TRUST_UNTRUSTED

datatype Sensitivity = PUBLIC | INTERNAL | CONFIDENTIAL | RESTRICTED | SECRET

fun TrustClass_value :: "TrustClass \<Rightarrow> string" where
  "TrustClass_value TRUST_PRIMARY = ''primary''"
| "TrustClass_value TRUST_OFFICIAL = ''official''"
| "TrustClass_value TRUST_RESEARCH = ''research''"
| "TrustClass_value TRUST_USER = ''user''"
| "TrustClass_value TRUST_COMMUNITY = ''community''"
| "TrustClass_value TRUST_GENERATED = ''generated''"
| "TrustClass_value TRUST_UNTRUSTED = ''untrusted''"

fun Sensitivity_value :: "Sensitivity \<Rightarrow> string" where
  "Sensitivity_value PUBLIC = ''public''"
| "Sensitivity_value INTERNAL = ''internal''"
| "Sensitivity_value CONFIDENTIAL = ''confidential''"
| "Sensitivity_value RESTRICTED = ''restricted''"
| "Sensitivity_value SECRET = ''secret''"

section \<open>Unambiguity of the canonical encoding\<close>

lemma of_char_lt [simp]: "(of_char c :: nat) < 256"
  using of_char_of [of "of_char c :: nat"] by (metis char_of_char mod_less_divisor zero_less_numeral)

lemma char_of_inject: "a < 256 \<Longrightarrow> b < 256 \<Longrightarrow> (char_of (a::nat) = char_of b) \<longleftrightarrow> a = b"
  by (metis mod_less of_char_of)

lemma of_char_digit [simp]: "d < 10 \<Longrightarrow> of_char (digit_char d) = (48 + d :: nat)"
  by (simp add: digit_char_def)

lemma of_char_hex: "d < 16 \<Longrightarrow> of_char (hex_char d) = (if d < 10 then 48 + d else 87 + d :: nat)"
  by (simp add: hex_char_def)

lemma hex_char_inject: "a < 16 \<Longrightarrow> b < 16 \<Longrightarrow> hex_char a = hex_char b \<Longrightarrow> a = b"
  by (drule arg_cong [of _ _ "of_char :: char \<Rightarrow> nat"]) (auto simp: of_char_hex split: if_splits)

text \<open>Natural numbers and integers: digits only, and the value can be read back.\<close>

lemma show_nat_digits: "c \<in> set (show_nat n) \<Longrightarrow> decimal_digit c"
proof (induction n rule: show_nat.induct)
  case (1 n)
  then show ?case
    by (subst (asm) (2) show_nat.simps) (auto simp: decimal_digit_def Let_def split: if_splits)
qed

lemma show_nat_nonempty [simp]: "show_nat n \<noteq> []"
  by (subst show_nat.simps) auto

definition read_nat :: "string \<Rightarrow> nat" where
  "read_nat s = foldl (\<lambda>a c. 10 * a + (of_char c - 48)) 0 s"

lemma read_show_nat: "read_nat (show_nat n) = n"
proof (induction n rule: show_nat.induct)
  case (1 n)
  then show ?case
    by (subst show_nat.simps) (auto simp: read_nat_def)
qed

lemma show_nat_inject: "show_nat m = show_nat n \<longleftrightarrow> m = n"
  by (metis read_show_nat)

definition ends_token :: "string \<Rightarrow> bool" where
  "ends_token r = (case r of [] \<Rightarrow> True | c # _ \<Rightarrow> c \<in> set '',]}'')"

lemma ends_token_simps [simp]:
  "ends_token []" "ends_token (CHR '','' # r)" "ends_token (CHR '']'' # r)" "ends_token (CHR ''}'' # r)"
  by (simp_all add: ends_token_def)

lemma ends_token_no_digit: "ends_token (c # r) \<Longrightarrow> \<not> decimal_digit c"
  by (auto simp: ends_token_def decimal_digit_def)

lemma takeWhile_show_nat: "ends_token r \<Longrightarrow> takeWhile decimal_digit (show_nat n @ r) = show_nat n"
  by (cases r) (auto simp: takeWhile_append show_nat_digits ends_token_no_digit)

lemma show_nat_prefix:
  assumes "show_nat m @ r = show_nat n @ s" "ends_token r" "ends_token s"
  shows "m = n \<and> r = s"
proof -
  have "show_nat m = show_nat n"
    using assms by (metis takeWhile_show_nat)
  with assms(1) show ?thesis by (simp add: show_nat_inject)
qed

lemma hd_show_nat: "show_nat n = c # cs \<Longrightarrow> decimal_digit c"
  by (metis list.set_intros(1) show_nat_digits)

lemma show_nat_not_minus: "show_nat n @ r \<noteq> CHR ''-'' # t"
  using hd_show_nat [of n] by (cases "show_nat n") (auto simp: decimal_digit_def)

lemma show_int_prefix:
  assumes "show_int i @ r = show_int j @ s" "ends_token r" "ends_token s"
  shows "i = j \<and> r = s"
  using assms show_nat_not_minus show_nat_not_minus [symmetric]
  by (auto simp: show_int_def split: if_splits dest!: show_nat_prefix)

text \<open>Strings: the escapes form a prefix code that never starts with the closing quote.\<close>

lemma escape_char_hd: "escape_char c = x # xs \<Longrightarrow> x \<noteq> CHR 0x22"
  by (auto simp: escape_char_def Let_def char_of_inject split: if_splits)

lemma escape_char_nonempty [simp]: "escape_char c \<noteq> []"
  by (auto simp: escape_char_def Let_def)

lemma escape_char_prefix:
  assumes "escape_char c @ x = escape_char d @ y"
  shows "c = d \<and> x = y"
proof -
  have inj: "(of_char c :: nat) = of_char d \<Longrightarrow> c = d" by (metis char_of_char)
  have hex: "n = m" if "n < 32" "m < 32" "hex_char (n div 16) = hex_char (m div 16)"
      "hex_char (n mod 16) = hex_char (m mod 16)" for n m :: nat
  proof -
    have "n div 16 = m div 16"
      by (rule hex_char_inject) (use that in auto)
    moreover have "n mod 16 = m mod 16"
      by (rule hex_char_inject) (use that in auto)
    ultimately show ?thesis by (metis div_mult_mod_eq)
  qed
  have "(of_char c :: nat) = of_char d \<and> x = y"
    using assms by (auto simp: escape_char_def Let_def split: if_splits intro: inj dest: hex)
  with inj show ?thesis by blast
qed


lemma concat_escape_prefix:
  "concat (map escape_char a) @ CHR 0x22 # r = concat (map escape_char b) @ CHR 0x22 # s \<Longrightarrow>
   a = b \<and> r = s"
proof (induction a arbitrary: b)
  case Nil
  show ?case
  proof (cases b)
    case (Cons d b')
    with Nil.prems escape_char_hd [of d] show ?thesis by (cases "escape_char d") auto
  qed (use Nil.prems in simp)
next
  case (Cons c a)
  show ?case
  proof (cases b)
    case Nil
    with Cons.prems escape_char_hd [of c] show ?thesis by (cases "escape_char c") auto
  next
    case (Cons d b')
    with Cons.prems have "escape_char c @ (concat (map escape_char a) @ CHR 0x22 # r) =
        escape_char d @ (concat (map escape_char b') @ CHR 0x22 # s)"
      by simp
    from escape_char_prefix [OF this] Cons.IH [of b'] Cons show ?thesis by simp
  qed
qed

lemma quote_prefix: "quote a @ r = quote b @ s \<Longrightarrow> a = b \<and> r = s"
  by (rule concat_escape_prefix) (simp add: quote_def)

lemma quote_inject [simp]: "quote a = quote b \<longleftrightarrow> a = b"
  using quote_prefix [of a "[]" b "[]"] by auto

lemma utf8_char_prefix:
  assumes "utf8_char c @ x = utf8_char d @ y"
  shows "c = d \<and> x = y"
proof -
  have inj: "(of_char c :: nat) = of_char d \<Longrightarrow> c = d" by (metis char_of_char)
  have two: "n = m" if "n < 256" "m < 256" "char_of (192 + n div 64) = char_of (192 + m div 64)"
      "char_of (128 + n mod 64) = char_of (128 + m mod 64)" for n m :: nat
  proof -
    have "192 + n div 64 < 256" "192 + m div 64 < 256" "128 + n mod 64 < 256" "128 + m mod 64 < 256"
      using that(1,2) by auto
    with that(3,4) have "n div 64 = m div 64" "n mod 64 = m mod 64"
      by (metis add_left_cancel char_of_inject)+
    then show ?thesis by (metis div_mult_mod_eq)
  qed
  have lead: "c \<noteq> char_of (192 + n div 64)" if "(of_char c :: nat) < 128" "n < 256" for c and n :: nat
  proof
    assume "c = char_of (192 + n div 64)"
    then have "(of_char c :: nat) = (192 + n div 64) mod 256" by (metis of_char_of)
    moreover have "192 + n div 64 < 256" using that(2) by auto
    ultimately show False using that(1) by simp
  qed
  show ?thesis
  proof (cases "(of_char c :: nat) < 128"; cases "(of_char d :: nat) < 128")
    assume "(of_char c :: nat) < 128" "\<not> (of_char d :: nat) < 128"
    with assms lead [of c "of_char d"] show ?thesis by (simp add: utf8_char_def Let_def)
  next
    assume "\<not> (of_char c :: nat) < 128" "(of_char d :: nat) < 128"
    with assms lead [of d "of_char c"] show ?thesis by (simp add: utf8_char_def Let_def)
  next
    assume "\<not> (of_char c :: nat) < 128" "\<not> (of_char d :: nat) < 128"
    with assms two [of "of_char c" "of_char d"] inj show ?thesis by (simp add: utf8_char_def Let_def)
  qed (use assms in \<open>simp add: utf8_char_def Let_def\<close>)
qed

lemma utf8_char_nonempty [simp]: "utf8_char c \<noteq> []"
  by (simp add: utf8_char_def Let_def)

lemma utf8_inject: "utf8 a = utf8 b \<Longrightarrow> a = b"
proof (induction a arbitrary: b)
  case Nil
  then show ?case by (cases b) (auto simp: utf8_def)
next
  case (Cons c a)
  then show ?case
    using utf8_char_prefix [of c "utf8 a"] by (cases b) (auto simp: utf8_def)
qed

text \<open>JSON values in normal form: the keys of every object strictly increasing.\<close>

primrec normal :: "jval \<Rightarrow> bool" where
  "normal JNull = True"
| "normal (JBool b) = True"
| "normal (JInt i) = True"
| "normal (JStr s) = True"
| "normal (JList xs) = list_all id (map normal xs)"
| "normal (JObj kvs) =
     (sorted_wrt (<) (map fst kvs) \<and> list_all snd (map (map_prod id normal) kvs))"

lemma dumps_hd_ends: "dumps v @ r = c # t \<Longrightarrow> c \<notin> set '',]}:''"
proof (cases v)
  case (JInt i)
  moreover assume "dumps v @ r = c # t"
  ultimately show ?thesis
    using hd_show_nat [of "nat i"]
    by (cases "show_nat (nat i)") (auto simp: show_int_def decimal_digit_def split: if_splits)
qed (auto simp: quote_def split: if_splits)

lemma dumps_nonempty [simp]: "dumps v \<noteq> []"
  by (cases v) (auto simp: quote_def show_int_def)

text \<open>A comma-separated sequence up to a closing bracket determines its items.\<close>

lemma joins_Cons: "xs \<noteq> [] \<Longrightarrow> joins sep (x # xs) = x @ sep @ joins sep xs"
  by (cases xs) auto

lemma items_prefix:
  assumes "\<And>x y r s. x \<in> set xs \<Longrightarrow> y \<in> set ys \<Longrightarrow> f x @ r = f y @ s \<Longrightarrow>
      ends_token r \<Longrightarrow> ends_token s \<Longrightarrow> x = y \<and> r = s"
    and "\<And>x r c t. f x @ r = c # t \<Longrightarrow> c \<notin> set '',]}''"
    and "k \<in> set '']}''"
    and "joins '','' (map f xs) @ k # r = joins '','' (map f ys) @ k # s"
  shows "xs = ys \<and> r = s"
  using assms(1,4)
proof (induction xs arbitrary: ys)
  case Nil
  show ?case
  proof (cases ys)
    case Nil
    with Nil.prems(2) show ?thesis by simp
  next
    case (Cons y ys')
    then have "\<exists>t. f y @ t = k # r"
      using Nil.prems(2) by (cases ys') auto
    with assms(2,3) show ?thesis by auto
  qed
next
  case (Cons x xs)
  let ?tail = "\<lambda>zs u. (if zs = [] then k # u else CHR '','' # joins '','' (map f zs) @ k # u)"
  have split: "joins '','' (map f (z # zs)) @ k # u = f z @ ?tail zs u" for z zs u
    by (cases zs) (auto simp: joins_Cons)
  have tok: "ends_token (?tail zs u)" for zs u
    using assms(3) by auto
  show ?case
  proof (cases ys)
    case Nil
    with Cons.prems(2) split [of x xs r] have "f x @ ?tail xs r = k # s" by simp
    from assms(2) [OF this] assms(3) show ?thesis by auto
  next
    case (Cons y ys')
    have "f x @ ?tail xs r = f y @ ?tail ys' s"
      using Cons.prems(2) Cons split by (metis (no_types, lifting))
    then have eq: "x = y" "?tail xs r = ?tail ys' s"
      using Cons.prems(1) [of x y "?tail xs r" "?tail ys' s"] Cons tok by auto
    have "xs = ys' \<and> r = s"
    proof (cases "xs = [] \<or> ys' = []")
      case True
      with eq(2) assms(3) show ?thesis by (auto split: if_splits)
    next
      case False
      with eq(2) have "joins '','' (map f xs) @ k # r = joins '','' (map f ys') @ k # s"
        by simp
      with Cons.IH [of ys'] Cons.prems(1) Cons show ?thesis by (metis list.set_intros(2))
    qed
    with eq(1) Cons show ?thesis by simp
  qed
qed


lemma sort_key_normal:
  "sorted_wrt (<) (map fst kvs) \<Longrightarrow> sort_key fst (map (map_prod id f) kvs) = map (map_prod id f) kvs"
  for kvs :: "(string \<times> 'a) list"
  by (rule sort_key_id_if_sorted)
    (simp add: comp_def map_prod_def split_def strict_sorted_imp_sorted)

definition show_pair :: "string \<times> jval \<Rightarrow> string" where
  "show_pair p = quote (fst p) @ '':'' @ dumps (snd p)"

lemma dumps_JObj_normal:
  "sorted_wrt (<) (map fst kvs) \<Longrightarrow>
   dumps (JObj kvs) = ''{'' @ joins '','' (map show_pair kvs) @ ''}''"
  by (simp add: sort_key_normal comp_def show_pair_def [abs_def])

text \<open>The first character of an encoding tells the constructor.\<close>

fun jkind :: "jval \<Rightarrow> nat" where
  "jkind JNull = 0" | "jkind (JBool b) = (if b then 1 else 2)" | "jkind (JInt i) = 3"
| "jkind (JStr s) = 4" | "jkind (JList xs) = 5" | "jkind (JObj kvs) = 6"

definition char_kind :: "char \<Rightarrow> nat" where
  "char_kind c = (if c = CHR ''n'' then 0 else if c = CHR ''t'' then 1 else if c = CHR ''f'' then 2
     else if decimal_digit c \<or> c = CHR ''-'' then 3 else if c = CHR 0x22 then 4
     else if c = CHR ''['' then 5 else 6)"

lemma dumps_kind: "dumps v @ r = c # t \<Longrightarrow> char_kind c = jkind v"
proof (cases v)
  case (JInt i)
  moreover assume "dumps v @ r = c # t"
  ultimately have "decimal_digit c \<or> c = CHR ''-''"
    using hd_show_nat [of "nat i"]
    by (cases "show_nat (nat i)") (auto simp: show_int_def split: if_splits)
  with JInt show ?thesis by (auto simp: char_kind_def decimal_digit_def)
qed (auto simp: char_kind_def decimal_digit_def quote_def split: if_splits)

lemma dumps_same_kind:
  assumes "dumps v @ r = dumps w @ s"
  shows "jkind v = jkind w"
proof -
  obtain c t where "dumps v @ r = c # t" by (cases "dumps v") auto
  with assms dumps_kind show ?thesis by metis
qed

lemma show_pair_hd: "show_pair p @ r = c # t \<Longrightarrow> c \<notin> set '',]}''"
  by (auto simp: show_pair_def quote_def)

lemma dumps_prefix:
  "\<lbrakk>dumps v @ r = dumps w @ s; normal v; normal w; ends_token r; ends_token s\<rbrakk> \<Longrightarrow>
   v = w \<and> r = s"
proof (induction v arbitrary: w r s)
  case JNull
  then show ?case using dumps_same_kind [OF JNull(1)] by (cases w) (auto split: if_splits)
next
  case (JBool b)
  then show ?case using dumps_same_kind [OF JBool(1)] by (cases w) (auto split: if_splits)
next
  case (JInt i)
  then show ?case
    using dumps_same_kind [OF JInt(1)] by (cases w) (auto dest!: show_int_prefix split: if_splits)
next
  case (JStr a)
  then show ?case
    using dumps_same_kind [OF JStr(1)] by (cases w) (auto dest!: quote_prefix split: if_splits)
next
  case (JList xs)
  obtain ys where w: "w = JList ys"
    using dumps_same_kind [OF JList.prems(1)] by (cases w) (auto split: if_splits)
  have "xs = ys \<and> r = s"
  proof (rule items_prefix [where f = dumps and k = "CHR '']''"])
    fix x y r s
    assume "x \<in> set xs" "y \<in> set ys" "dumps x @ r = dumps y @ s" "ends_token r" "ends_token s"
    with JList w show "x = y \<and> r = s" by (auto simp: list_all_iff)
  qed (use JList.prems w dumps_hd_ends in auto)
  with w show ?case by simp
next
  case (JObj xs)
  obtain ys where w: "w = JObj ys"
    using dumps_same_kind [OF JObj.prems(1)] by (cases w) (auto split: if_splits)
  have sorted: "sorted_wrt (<) (map fst xs)" "sorted_wrt (<) (map fst ys)"
    using JObj.prems w by auto
  have "xs = ys \<and> r = s"
  proof (rule items_prefix [where f = show_pair and k = "CHR ''}''"])
    fix x y r s
    assume mem: "x \<in> set xs" "y \<in> set ys" and eq: "show_pair x @ r = show_pair y @ s"
      and tok: "ends_token r" "ends_token s"
    have "fst x = fst y \<and> '':'' @ dumps (snd x) @ r = '':'' @ dumps (snd y) @ s"
      by (rule quote_prefix) (use eq in \<open>simp add: show_pair_def\<close>)
    moreover have "normal (snd x)" "normal (snd y)"
      using mem JObj.prems w by (auto simp: list_all_iff)
    ultimately show "x = y \<and> r = s"
      using JObj.IH [of x "snd x" r "snd y" s] mem tok by (cases x; cases y) auto
  qed (use JObj.prems(1) w sorted show_pair_hd dumps_JObj_normal in auto)
  with w show ?case by simp
qed

lemma json_bytes_inject: "normal v \<Longrightarrow> normal w \<Longrightarrow> json_bytes v = json_bytes w \<Longrightarrow> v = w"
  using dumps_prefix [of v "[]" w "[]"] by (auto simp: json_bytes_def dest!: utf8_inject)


text \<open>Every object can be brought into normal form without changing its encoding.\<close>

primrec jnorm :: "jval \<Rightarrow> jval" where
  "jnorm JNull = JNull"
| "jnorm (JBool b) = JBool b"
| "jnorm (JInt i) = JInt i"
| "jnorm (JStr s) = JStr s"
| "jnorm (JList xs) = JList (map jnorm xs)"
| "jnorm (JObj kvs) = JObj (sort_key fst (map (map_prod id jnorm) kvs))"

lemma insort_key_map_prod:
  "insort_key fst (map_prod id f p) (map (map_prod id f) ps) =
   map (map_prod id f) (insort_key fst p ps)"
  by (induction ps) (auto simp: map_prod_def split_def)

lemma sort_key_map_prod:
  "sort_key fst (map (map_prod id f) ps) = map (map_prod id f) (sort_key fst ps)"
  for ps :: "('k::linorder \<times> 'a) list"
  by (induction ps) (simp_all add: insort_key_map_prod [unfolded id_def])

lemma dumps_jnorm: "dumps (jnorm v) = dumps v"
proof (induction v)
  case (JList xs)
  then have "map (dumps \<circ> jnorm) xs = map dumps xs" by auto
  then show ?case by (simp only: jnorm.simps dumps.simps map_map)
next
  case (JObj kvs)
  have eq: "map (map_prod id dumps) (map (map_prod id jnorm) kvs) = map (map_prod id dumps) kvs"
    using JObj by (auto simp: map_prod_def split_def)
  have "sort_key fst (map (map_prod id dumps) (sort_key fst (map (map_prod id jnorm) kvs))) =
      sort_key fst (map (map_prod id dumps) kvs)"
    by (simp only: sort_key_map_prod [symmetric] eq) (simp only: sort_key_id_if_sorted sorted_sort_key)
  then show ?case by (simp only: jnorm.simps dumps.simps)
qed simp_all

lemma normal_jnorm: "wf_json v \<Longrightarrow> normal (jnorm v)"
proof (induction v)
  case (JObj kvs)
  have keys: "map fst (map (map_prod id jnorm) kvs) = map fst kvs" by simp
  have "mset (map fst (sort_key fst (map (map_prod id jnorm) kvs))) = mset (map fst kvs)"
    by (metis keys mset_map mset_sort)
  then have "distinct (map fst (sort_key fst (map (map_prod id jnorm) kvs)))"
    using JObj.prems by (metis mset_eq_imp_distinct_iff wf_json.simps(6))
  with JObj show ?case
    by (auto simp: strict_sorted_iff list_all_iff)
qed (auto simp: list_all_iff)

lemma json_bytes_eq_iff:
  assumes "wf_json v" "wf_json w"
  shows "json_bytes v = json_bytes w \<longleftrightarrow> jnorm v = jnorm w"
proof -
  have "json_bytes v = json_bytes (jnorm v)" "json_bytes w = json_bytes (jnorm w)"
    by (simp_all add: json_bytes_def dumps_jnorm)
  with assms show ?thesis by (metis json_bytes_inject normal_jnorm)
qed

lemma map_of_sort_key_fst:
  assumes "distinct (map fst al)"
  shows "map_of (sort_key fst al) = map_of al"
proof -
  have "mset (map fst (sort_key fst al)) = mset (map fst al)"
    by (metis mset_map mset_sort)
  then have "distinct (map fst (sort_key fst al))"
    using assms by (metis mset_eq_imp_distinct_iff)
  then show ?thesis using assms by (simp add: map_of_inject_set)
qed

lemma map_of_map_prod: "map_of (map (map_prod id f) al) k = map_option f (map_of al k)"
  by (induction al) auto

text \<open>Objects with the same bytes agree, up to key order, on every field.\<close>

lemma json_field_eq:
  assumes "wf_json (JObj a)" "wf_json (JObj b)" "json_bytes (JObj a) = json_bytes (JObj b)"
  shows "map_option jnorm (map_of a k) = map_option jnorm (map_of b k)"
proof -
  have field: "map_of (sort_key fst (map (map_prod id jnorm) al)) k = map_option jnorm (map_of al k)"
    if "wf_json (JObj al)" for al
  proof -
    have "distinct (map fst (map (map_prod id jnorm) al))" using that by simp
    from map_of_sort_key_fst [OF this] map_of_map_prod show ?thesis by metis
  qed
  have "jnorm (JObj a) = jnorm (JObj b)"
    using assms json_bytes_eq_iff by blast
  then have "sort_key fst (map (map_prod id jnorm) a) = sort_key fst (map (map_prod id jnorm) b)"
    by simp
  with field assms(1,2) show ?thesis by metis
qed

definition id_material :: "string \<Rightarrow> jval \<Rightarrow> jval" where
  "id_material kind identity = JObj
     [(''id_scheme_version'', JStr ID_SCHEME_VERSION), (''kind'', JStr kind), (''identity'', identity)]"

lemma jnorm_id_material:
  "jnorm (id_material k v) = JObj
     [(''id_scheme_version'', JStr ID_SCHEME_VERSION), (''identity'', jnorm v), (''kind'', JStr k)]"
  by (simp add: id_material_def)

lemma derive_id_material:
  "derive_id sha k v = k @ ''_'' @ sha (json_bytes (id_material k v))"
  by (simp add: derive_id_def sha256_hex_def id_material_def)

lemma derive_id_binding:
  assumes "wf_json v" "wf_json w" "\<And>b. length (sha b) = 64"
    and "inj_on sha {json_bytes (id_material k v), json_bytes (id_material l w)}"
    and "derive_id sha k v = derive_id sha l w"
  shows "k = l \<and> jnorm v = jnorm w"
proof -
  have "sha (json_bytes (id_material k v)) = sha (json_bytes (id_material l w))"
  proof -
    have "(k @ ''_'') @ sha (json_bytes (id_material k v)) = (l @ ''_'') @ sha (json_bytes (id_material l w))"
      using assms(5) by (simp add: derive_id_material)
    then show ?thesis by (rule append_eq_append_conv [THEN iffD1, THEN conjunct2, rotated]) (simp add: assms(3))
  qed
  then have "json_bytes (id_material k v) = json_bytes (id_material l w)"
    by (rule inj_onD [OF assms(4)]) simp_all
  moreover have "wf_json (id_material k v)" "wf_json (id_material l w)"
    using assms(1,2) by (simp_all add: id_material_def)
  ultimately have "jnorm (id_material k v) = jnorm (id_material l w)"
    by (metis json_bytes_eq_iff)
  then show ?thesis by (simp add: jnorm_id_material)
qed

section \<open>Workspace-relative paths\<close>

lemma posix_parts_no_slash: "p \<in> set (posix_parts v) \<Longrightarrow> CHR ''/'' \<notin> set p"
  by (auto simp: posix_parts_def dest: splitc_no_sep)

lemma posix_parts_joins: "ws = posix_parts v \<Longrightarrow> ws \<noteq> [] \<Longrightarrow> posix_parts (joins ''/'' ws) = ws"
proof -
  assume ws: "ws = posix_parts v" "ws \<noteq> []"
  then have "splitc (CHR ''/'') (joins ''/'' ws) = ws"
    by (intro splitc_joins) (auto dest: posix_parts_no_slash)
  then show ?thesis using ws(1) by (simp add: posix_parts_def)
qed

lemma set_joins: "set (joins sep ws) \<subseteq> set sep \<union> \<Union> (set ` set ws)"
  by (induction sep ws rule: joins.induct) auto

lemma set_splitc: "\<Union> (set ` set (splitc c xs)) \<subseteq> set xs"
proof (induction xs)
  case (Cons x xs)
  then show ?case by (cases "splitc c xs") auto
qed simp

lemma hd_joins: "ws \<noteq> [] \<Longrightarrow> hd ws \<noteq> [] \<Longrightarrow> hd (joins sep ws) = hd (hd ws)"
  by (cases ws; cases "tl ws") auto

lemma joins_nonempty: "ws \<noteq> [] \<Longrightarrow> hd ws \<noteq> [] \<Longrightarrow> joins sep ws \<noteq> []"
  by (cases ws; cases "tl ws") auto

lemma validate_relative_path_idem:
  assumes "validate_relative_path v = Inr p"
  shows "validate_relative_path p = Inr p"
proof -
  let ?ws = "posix_parts v"
  from assms have v: "CHR 0x00 \<notin> set v" "CHR 0x5C \<notin> set v" "''..'' \<notin> set ?ws" "?ws \<noteq> []"
      "CHR '':'' \<notin> set (hd ?ws)" and p: "p = joins ''/'' ?ws"
    by (auto simp: validate_relative_path_def Let_def split: if_splits)
  have parts: "posix_parts p = ?ws" using v(4) p posix_parts_joins by simp
  have hd: "hd ?ws \<noteq> []" "CHR ''/'' \<notin> set (hd ?ws)" "hd ?ws \<in> set ?ws"
    using v(4) posix_parts_no_slash [of "hd ?ws" v] hd_in_set [of ?ws] by (auto simp: posix_parts_def)
  have sub: "set p \<subseteq> insert (CHR ''/'') (set v)"
    using set_joins [of "''/''" ?ws] set_splitc [of "CHR ''/''" v]
    unfolding p posix_parts_def by fastforce
  have "p \<noteq> []" "hd p \<noteq> CHR ''/''"
    using hd v(4) p by (auto simp: hd_joins joins_nonempty)
      (metis hd_in_set hd_joins)
  with sub v parts p show ?thesis
    by (auto simp: validate_relative_path_def Let_def posix_parts_def)
qed

section \<open>Length of an encoding\<close>

lemma length_concat_map_le: "(\<And>x. length (f x) \<le> k) \<Longrightarrow> length (concat (map f xs)) \<le> k * length xs"
  by (induction xs) (auto intro: add_mono)

lemma length_escape_char: "length (escape_char c) \<le> 6"
  by (auto simp: escape_char_def Let_def)

lemma length_quote: "length (quote s) \<le> 6 * length s + 2"
  using length_concat_map_le [of escape_char 6 s] length_escape_char by (simp add: quote_def)

lemma length_utf8: "length (utf8 s) \<le> 2 * length s"
  unfolding utf8_def by (rule length_concat_map_le) (auto simp: utf8_char_def Let_def)

lemma length_joins: "length (joins [c] ws) \<le> sum_list (map (\<lambda>w. length w + 1) ws)"
  by (induction "[c]" ws rule: joins.induct) auto

primrec json_bound :: "jval \<Rightarrow> nat" where
  "json_bound JNull = 4"
| "json_bound (JBool b) = 5"
| "json_bound (JInt i) = length (show_int i)"
| "json_bound (JStr s) = 6 * length s + 2"
| "json_bound (JList xs) = 2 + sum_list (map (\<lambda>n. n + 1) (map json_bound xs))"
| "json_bound (JObj kvs) =
     2 + sum_list (map (\<lambda>(k, n). 6 * length k + 4 + n) (map (map_prod id json_bound) kvs))"

lemma sum_list_sort_key: "sum_list (map f (sort_key g xs)) = (sum_list (map f xs) :: nat)"
  by (metis mset_map mset_sort sum_mset_sum_list)

lemma length_dumps: "length (dumps v) \<le> json_bound v"
proof (induction v)
  case (JStr s)
  then show ?case using length_quote [of s] by simp
next
  case (JList xs)
  have "length (joins '','' (map dumps xs)) \<le> sum_list (map (\<lambda>w. length w + 1) (map dumps xs))"
    by (rule length_joins)
  also have "\<dots> \<le> sum_list (map (\<lambda>n. n + 1) (map json_bound xs))"
    unfolding map_map by (rule sum_list_mono) (use JList in auto)
  finally show ?case by simp
next
  case (JObj kvs)
  let ?q = "\<lambda>p. quote (fst p) @ '':'' @ snd p"
  let ?ps = "map (map_prod id dumps) kvs"
  have "length (joins '','' (map ?q (sort_key fst ?ps))) \<le>
      sum_list (map (\<lambda>w. length w + 1) (map ?q (sort_key fst ?ps)))"
    by (rule length_joins)
  also have "\<dots> = sum_list (map (\<lambda>p. length (?q p) + 1) ?ps)"
    using sum_list_sort_key [of "\<lambda>p. length (?q p) + 1" fst ?ps] by (simp add: comp_def)
  also have "\<dots> \<le> sum_list (map (\<lambda>(k, n). 6 * length k + 4 + n) (map (map_prod id json_bound) kvs))"
    unfolding map_map
  proof (rule sum_list_mono)
    fix p assume p: "p \<in> set kvs"
    have "length (dumps (snd p)) \<le> json_bound (snd p)"
      by (rule JObj.IH [OF p]) (simp add: snds.simps)
    with length_quote [of "fst p"]
    show "((\<lambda>p. length (?q p) + 1) \<circ> map_prod id dumps) p \<le>
        ((\<lambda>(k, n). 6 * length k + 4 + n) \<circ> map_prod id json_bound) p"
      by (cases p) simp
  qed
  finally show ?case by simp
qed auto

lemma length_json_bytes: "length (json_bytes v) \<le> 2 * json_bound v"
  using length_utf8 [of "dumps v"] length_dumps [of v] by (simp add: json_bytes_def)

section \<open>Properties\<close>

text \<open>C18: the canonical encoding is unambiguous. Two JSON values have the same canonical bytes exactly
  when they are the same value up to the order of object keys.\<close>

theorem canonical_encoding_unambiguous:
  assumes "wf_json v" "wf_json w"
  shows "json_bytes v = json_bytes w \<longleftrightarrow> jnorm v = jnorm w"
  using json_bytes_eq_iff [OF assms] .

theorem canonical_encoding_unambiguous_witness:
  "(json_bytes (JObj [(''a'', JInt 1), (''b'', JNull)]) = json_bytes (JObj [(''b'', JNull), (''a'', JInt 1)])) =
   (jnorm (JObj [(''a'', JInt 1), (''b'', JNull)]) = jnorm (JObj [(''b'', JNull), (''a'', JInt 1)]))"
  by (rule canonical_encoding_unambiguous) simp_all

text \<open>a content-derived identifier binds its kind and its identity payload: where the digest does
  not collide on the two hashed byte strings, equal identifiers have equal kinds and payloads.\<close>

theorem derived_identifier_binds_content:
  assumes "wf_json v" "wf_json w" "\<And>b. length (sha b) = 64"
    and "inj_on sha {json_bytes (id_material k v), json_bytes (id_material l w)}"
    and "derive_id sha k v = derive_id sha l w"
  shows "k = l \<and> jnorm v = jnorm w"
  using derive_id_binding [OF assms] .

theorem derived_identifier_binds_content_witness:
  "''op'' = ''op'' \<and> jnorm (JObj [(''a'', JInt 1), (''b'', JNull)]) = jnorm (JObj [(''b'', JNull), (''a'', JInt 1)])"
proof (rule derived_identifier_binds_content [where sha = "\<lambda>b. replicate 64 CHR ''a''"])
  have "json_bytes (id_material ''op'' (JObj [(''a'', JInt 1), (''b'', JNull)])) =
      json_bytes (id_material ''op'' (JObj [(''b'', JNull), (''a'', JInt 1)]))"
    by (subst json_bytes_eq_iff) (simp_all add: id_material_def)
  then show "inj_on (\<lambda>b. replicate 64 CHR ''a'')
     {json_bytes (id_material ''op'' (JObj [(''a'', JInt 1), (''b'', JNull)])),
      json_bytes (id_material ''op'' (JObj [(''b'', JNull), (''a'', JInt 1)]))}"
    by simp
qed (simp_all add: derive_id_material)

text \<open>a path the validator accepts is in normal form (validating it again returns it unchanged)
  and stays inside the workspace: it is not empty, does not start at the root, has no parent
  segment, no NUL and no backslash.\<close>

theorem validated_path_is_safe:
  assumes "validate_relative_path v = Inr p"
  shows "validate_relative_path p = Inr p \<and> p \<noteq> [] \<and> hd p \<noteq> CHR ''/'' \<and> ''..'' \<notin> set (posix_parts p) \<and>
    CHR 0x00 \<notin> set p \<and> CHR 0x5C \<notin> set p"
proof -
  have idem: "validate_relative_path p = Inr p" by (rule validate_relative_path_idem [OF assms])
  then show ?thesis by (auto simp: validate_relative_path_def Let_def split: if_splits)
qed

theorem validated_path_is_safe_witness:
  "validate_relative_path ''a/b'' = Inr ''a/b'' \<and> ''a/b'' \<noteq> [] \<and> hd ''a/b'' \<noteq> CHR ''/'' \<and>
    ''..'' \<notin> set (posix_parts ''a/b'') \<and> CHR 0x00 \<notin> set ''a/b'' \<and> CHR 0x5C \<notin> set ''a/b''"
  by (rule validated_path_is_safe [of "''a/./b''"])
    (simp add: validate_relative_path_def posix_parts_def Let_def)

end
