(* ===== verification/Files.thy ===== *)
theory Files
  imports Canonical
begin

text \<open>
  Model of the file layer the ledgers are built on: \<open>security/paths.py\<close> (\<open>_lexical_relative\<close>,
  \<open>read_regular_file\<close>), \<open>io.py\<close> (\<open>ensure_safe_parent\<close>, \<open>write_bytes_atomic\<close>) and \<open>storage.py\<close>
  (\<open>publish_immutable\<close>, \<open>publish_content_addressed\<close>, generation identifiers and the
  \<open>ledger/CURRENT\<close> pointer).

  The workspace is a map from workspace-relative paths to nodes. A regular file carries its bytes
  and its extra hard links, split into those left behind by an interrupted publication of the same
  file (\<open>.<name>.*\<close> siblings) and foreign ones; every other node (symbolic link, directory, device)
  is \<open>Special\<close>. Device errors and concurrent writers during one call are outside the model.
\<close>

section \<open>Definitions\<close>

datatype node =
    Regular (node_bytes: bytes) (temp_links: nat) (foreign_links: nat)
  | Special

type_synonym fs = "string \<rightharpoonup> node"

datatype file_error = PathPolicyError | IntegrityError | UnsafeWritePath | FileValueError

definition py_isspace :: "char \<Rightarrow> bool" where
  "py_isspace c = (let n = of_char c :: nat in
     (9 \<le> n \<and> n \<le> 13) \<or> (28 \<le> n \<and> n \<le> 32) \<or> n = 133 \<or> n = 160)"

definition py_strip :: "string \<Rightarrow> string" where
  "py_strip s = rev (dropWhile py_isspace (rev (dropWhile py_isspace s)))"

definition ascii_decode :: "bytes \<Rightarrow> string option" where
  "ascii_decode b = (if list_all (\<lambda>c. (of_char c :: nat) < 128) b then Some b else None)"

text \<open>\<open>os.path.abspath\<close> on the parts of an absolute path: \<open>..\<close> drops the part before it.\<close>

fun collapse :: "string list \<Rightarrow> string list \<Rightarrow> string list" where
  "collapse acc [] = rev acc"
| "collapse acc (p # ps) = collapse (if p = ''..'' then tl acc else p # acc) ps"

definition contained_parts :: "string list \<Rightarrow> (file_error, string list) result" where
  "contained_parts rel =
     (if rel = [] \<or> list_ex (\<lambda>p. p \<in> {[], ''.'', ''..''}) rel
      then Inl PathPolicyError else Inr rel)"

definition lexical_relative :: "string list \<Rightarrow> string \<Rightarrow> (file_error, string list) result" where
  "lexical_relative root_parts raw =
     (if raw = [] \<or> CHR 0x00 \<in> set raw \<or> CHR 0x5C \<in> set raw then Inl PathPolicyError
      else if 2 \<le> length raw \<and> raw ! 1 = CHR '':'' then Inl PathPolicyError
      else let parts = posix_parts raw in
        rbind (if hd raw = CHR ''/''
               then let abs = collapse [] parts in
                 if prefix root_parts abs then Inr (drop (length root_parts) abs)
                 else Inl PathPolicyError
               else Inr parts)
          contained_parts)"

definition read_regular_file ::
    "string list \<Rightarrow> fs \<Rightarrow> string \<Rightarrow> nat \<Rightarrow> (file_error, bytes) result" where
  "read_regular_file root fs cand max_bytes =
     (if max_bytes = 0 then Inl FileValueError
      else rbind (lexical_relative root cand) (\<lambda>rel.
        case fs (joins ''/'' rel) of
          None \<Rightarrow> Inl PathPolicyError
        | Some Special \<Rightarrow> Inl PathPolicyError
        | Some (Regular data tmp foreign) \<Rightarrow>
            if tmp + foreign \<noteq> 0 then Inl PathPolicyError
            else if length data > max_bytes then Inl PathPolicyError
            else Inr data))"

definition publish_immutable :: "fs \<Rightarrow> string \<Rightarrow> bytes \<Rightarrow> (file_error, bool \<times> fs) result" where
  "publish_immutable fs path data =
     (case fs path of
        None \<Rightarrow> Inr (True, fs(path \<mapsto> Regular data 0 0))
      | Some Special \<Rightarrow> Inl UnsafeWritePath
      | Some (Regular existing tmp foreign) \<Rightarrow>
          if foreign \<noteq> 0 then Inl IntegrityError
          else if existing \<noteq> data then Inl IntegrityError
          else Inr (False, fs(path \<mapsto> Regular existing 0 0)))"

definition write_bytes_atomic :: "fs \<Rightarrow> string \<Rightarrow> bytes \<Rightarrow> (file_error, fs) result" where
  "write_bytes_atomic fs path data =
     (case fs path of
        Some Special \<Rightarrow> Inl UnsafeWritePath
      | _ \<Rightarrow> Inr (fs(path \<mapsto> Regular data 0 0)))"

definition publish_content_addressed ::
    "digest \<Rightarrow> fs \<Rightarrow> string \<Rightarrow> bytes \<Rightarrow> string \<Rightarrow> (file_error, string \<times> string \<times> bool \<times> fs) result" where
  "publish_content_addressed sha fs root data ext =
     (let d = sha256_hex sha data;
          path = root @ ''/'' @ take 2 d @ ''/'' @ d @ ext
      in rbind (publish_immutable fs path data) (\<lambda>(created, fs'). Inr (d, path, created, fs')))"

text \<open>The canonical knowledge generation pointer.\<close>

definition is_generation_id :: "string \<Rightarrow> bool" where
  "is_generation_id v = (take 4 v = ''gen_'' \<and> is_Sha256 (drop 4 v))"

definition validate_generation_id :: "string \<Rightarrow> bool \<Rightarrow> (file_error, string) result" where
  "validate_generation_id v allow_genesis =
     (if (allow_genesis \<and> v = ''genesis'') \<or> is_generation_id v then Inr v else Inl IntegrityError)"

definition generation_path :: "string \<Rightarrow> string" where
  "generation_path v = ''ledger/generations/'' @ v @ ''.json''"

definition read_current_pointer :: "string list \<Rightarrow> fs \<Rightarrow> (file_error, string) result" where
  "read_current_pointer root fs =
     rbind (rcatch (read_regular_file root fs ''ledger/CURRENT'' 512) (\<lambda>_. IntegrityError)) (\<lambda>data.
     rbind (of_option IntegrityError (ascii_decode data)) (\<lambda>pointer.
     let v = py_strip pointer in
     if pointer \<noteq> v @ [CHR 0x0A] then Inl IntegrityError
     else if v = [] \<or> list_ex py_isspace v then Inl IntegrityError
     else rbind (validate_generation_id v True) (\<lambda>_.
       rbind (rcatch (read_regular_file root fs (generation_path v) (16 * 1024 * 1024))
                     (\<lambda>_. IntegrityError)) (\<lambda>_. Inr v))))"

definition replace_current_generation :: "fs \<Rightarrow> string \<Rightarrow> (file_error, fs) result" where
  "replace_current_generation fs gid =
     rbind (validate_generation_id gid False) (\<lambda>_.
       case fs (generation_path gid) of
         Some (Regular _ _ _) \<Rightarrow> write_bytes_atomic fs ''ledger/CURRENT'' (gid @ [CHR 0x0A])
       | _ \<Rightarrow> Inl IntegrityError)"

text \<open>
  The contract of an immutable area: every file that was there keeps its bytes. \<open>preserved\<close> is
  what every publication promises about the rest of the workspace.
\<close>

definition preserved :: "fs \<Rightarrow> fs \<Rightarrow> bool" where
  "preserved fs fs' \<longleftrightarrow> (\<forall>p data tmp foreign. fs p = Some (Regular data tmp foreign) \<longrightarrow>
     (\<exists>tmp'. fs' p = Some (Regular data tmp' foreign) \<and> (tmp = 0 \<longrightarrow> tmp' = 0)))"

section \<open>Lemmas\<close>

lemma preserved_refl [simp]: "preserved fs fs"
  by (auto simp: preserved_def)

lemma preserved_trans [trans]: "preserved a b \<Longrightarrow> preserved b c \<Longrightarrow> preserved a c"
  unfolding preserved_def by meson

lemma publish_immutable_preserved:
  "publish_immutable fs path data = Inr (created, fs') \<Longrightarrow> preserved fs fs'"
  by (auto simp: publish_immutable_def preserved_def split: option.splits node.splits if_splits)

lemma publish_immutable_content:
  "publish_immutable fs path data = Inr (created, fs') \<Longrightarrow> fs' path = Some (Regular data 0 0)"
  by (auto simp: publish_immutable_def split: option.splits node.splits if_splits)

lemma publish_immutable_other:
  "publish_immutable fs path data = Inr (created, fs') \<Longrightarrow> p \<noteq> path \<Longrightarrow> fs' p = fs p"
  by (auto simp: publish_immutable_def split: option.splits node.splits if_splits)

lemma publish_immutable_again:
  "publish_immutable fs path data = Inr (created, fs') \<Longrightarrow>
   publish_immutable fs' path data = Inr (False, fs')"
  by (auto simp: publish_immutable_def fun_upd_idem split: option.splits node.splits if_splits)

lemma write_bytes_atomic_Inr:
  "write_bytes_atomic fs path data = Inr fs' \<longleftrightarrow>
   fs path \<noteq> Some Special \<and> fs' = fs(path \<mapsto> Regular data 0 0)"
  by (auto simp: write_bytes_atomic_def split: option.splits node.splits)

lemma read_regular_file_Inr_iff:
  "read_regular_file root fs cand m = Inr data \<longleftrightarrow>
   m \<noteq> 0 \<and> (\<exists>rel. lexical_relative root cand = Inr rel \<and>
     fs (joins ''/'' rel) = Some (Regular data 0 0) \<and> length data \<le> m)"
proof (cases "lexical_relative root cand")
  case (Inr rel)
  then show ?thesis
    by (cases "fs (joins ''/'' rel)"; cases "the (fs (joins ''/'' rel))")
      (auto simp: read_regular_file_def)
qed (simp add: read_regular_file_def)

lemma read_regular_file_preserved:
  "read_regular_file root fs cand m = Inr data \<Longrightarrow> preserved fs fs' \<Longrightarrow>
   read_regular_file root fs' cand m = Inr data"
  unfolding read_regular_file_Inr_iff preserved_def by blast

lemma read_regular_file_bounded:
  "read_regular_file root fs cand m = Inr data \<Longrightarrow> length data \<le> m"
  by (auto simp: read_regular_file_Inr_iff)

lemma lexical_relative_safe:
  assumes "lexical_relative root raw = Inr rel"
  shows "rel \<noteq> [] \<and> (\<forall>p\<in>set rel. p \<noteq> [] \<and> p \<noteq> ''.'' \<and> p \<noteq> ''..'')"
proof -
  from assms obtain r where "contained_parts r = Inr rel"
    by (auto simp: lexical_relative_def Let_def rbind_Inr_iff split: if_split_asm)
  then show ?thesis by (auto simp: contained_parts_def list_ex_iff split: if_split_asm)
qed

lemma py_strip_id:
  assumes "s \<noteq> [] \<Longrightarrow> \<not> py_isspace (hd s)" "s \<noteq> [] \<Longrightarrow> \<not> py_isspace (last s)"
  shows "py_strip s = s"
proof (cases "s = []")
  case False
  have "dropWhile py_isspace s = s"
    using assms(1) False by (cases s) auto
  moreover have "dropWhile py_isspace (rev s) = rev s"
    using assms(2) False by (cases s rule: rev_cases) auto
  ultimately show ?thesis by (simp add: py_strip_def)
qed (simp add: py_strip_def)

lemma py_strip_append_newline:
  assumes "s \<noteq> []" "\<not> py_isspace (hd s)" "\<not> py_isspace (last s)"
  shows "py_strip (s @ [CHR 0x0A]) = s"
proof -
  have "dropWhile py_isspace (s @ [CHR 0x0A]) = s @ [CHR 0x0A]"
    using assms(1,2) by (cases s) auto
  moreover have "py_isspace (CHR 0x0A)" by (simp add: py_isspace_def)
  moreover have "dropWhile py_isspace (rev s) = rev s"
    using assms(1,3) by (cases s rule: rev_cases) auto
  ultimately show ?thesis by (simp add: py_strip_def)
qed

section \<open>Properties\<close>

text \<open>a read that succeeds returns at most the number of bytes the caller allowed, from a regular
  file without further links whose path lies below the workspace root.\<close>

theorem read_is_contained:
  assumes "read_regular_file root fs cand m = Inr data"
  shows "length data \<le> m \<and> (\<exists>rel. rel \<noteq> [] \<and> list_all (\<lambda>p. p \<notin> {[], ''.'', ''..''}) rel \<and>
    fs (joins ''/'' rel) = Some (Regular data 0 0))"
proof -
  from assms obtain rel where rel: "lexical_relative root cand = Inr rel"
      "fs (joins ''/'' rel) = Some (Regular data 0 0)" "length data \<le> m"
    by (auto simp: read_regular_file_Inr_iff)
  with lexical_relative_safe [OF rel(1)] show ?thesis by (auto simp: list_all_iff)
qed

theorem read_is_contained_witness:
  "length ''hi'' \<le> 4 \<and> (\<exists>rel. rel \<noteq> [] \<and> list_all (\<lambda>p. p \<notin> {[], ''.'', ''..''}) rel \<and>
    [''a/b'' \<mapsto> Regular ''hi'' 0 0] (joins ''/'' rel) = Some (Regular ''hi'' 0 0))"
  by (rule read_is_contained [where root = "[''w'']" and cand = "''/w/x/../a/b''"])
    (simp add: read_regular_file_def lexical_relative_def posix_parts_def contained_parts_def Let_def)

text \<open>publishing an immutable object stores exactly its bytes, keeps the bytes of every file that
  was there, touches no other path, and publishing the same bytes again changes nothing.\<close>

theorem publish_immutable_stores:
  assumes "publish_immutable fs path data = Inr (created, fs')"
  shows "fs' = fs(path \<mapsto> Regular data 0 0) \<and> preserved fs fs' \<and>
    publish_immutable fs' path data = Inr (False, fs')"
  using publish_immutable_content [OF assms] publish_immutable_preserved [OF assms]
    publish_immutable_other [OF assms] publish_immutable_again [OF assms] by (simp add: fun_eq_iff)

theorem publish_immutable_stores_witness:
  "[''x'' \<mapsto> Regular ''d'' 0 0] = Map.empty(''x'' \<mapsto> Regular ''d'' 0 0) \<and>
   preserved Map.empty [''x'' \<mapsto> Regular ''d'' 0 0] \<and>
   publish_immutable [''x'' \<mapsto> Regular ''d'' 0 0] ''x'' ''d'' = Inr (False, [''x'' \<mapsto> Regular ''d'' 0 0])"
  by (rule publish_immutable_stores [where created = True]) (simp add: publish_immutable_def)

end
