(* ===== verification/Task_Contracts.thy ===== *)
theory Task_Contracts
  imports Files
begin

text \<open>
  Model of the task part of \<open>src/raytsystem/contracts/agentic.py\<close>: \<open>TaskStatus\<close>, \<open>TaskPriority\<close>,
  \<open>TaskEventKind\<close>, \<open>AgentTask\<close>, \<open>TaskEvent\<close> and \<open>TaskBoardGeneration\<close>, each with its field
  constraints, its model validator, its JSON form and, where it has one, its content-derived
  identifier. \<open>X_ok\<close> is what the constructor of \<open>X\<close> checks; \<open>make_X\<close> strips the string fields
  first and raises when the check fails.
\<close>

section \<open>Definitions\<close>

datatype TaskStatus = INBOX | PLANNED | READY | RUNNING | REVIEW | BLOCKED | DONE | CANCELLED

datatype TaskPriority = LOW | NORMAL | HIGH | URGENT

datatype TaskEventKind = EV_CREATED | EV_TRANSITIONED | EV_CANCELLED

fun TaskStatus_value :: "TaskStatus \<Rightarrow> string" where
  "TaskStatus_value INBOX = ''inbox''"
| "TaskStatus_value PLANNED = ''planned''"
| "TaskStatus_value READY = ''ready''"
| "TaskStatus_value RUNNING = ''running''"
| "TaskStatus_value REVIEW = ''review''"
| "TaskStatus_value BLOCKED = ''blocked''"
| "TaskStatus_value DONE = ''done''"
| "TaskStatus_value CANCELLED = ''cancelled''"

fun TaskPriority_value :: "TaskPriority \<Rightarrow> string" where
  "TaskPriority_value LOW = ''low''"
| "TaskPriority_value NORMAL = ''normal''"
| "TaskPriority_value HIGH = ''high''"
| "TaskPriority_value URGENT = ''urgent''"

fun TaskEventKind_value :: "TaskEventKind \<Rightarrow> string" where
  "TaskEventKind_value EV_CREATED = ''created''"
| "TaskEventKind_value EV_TRANSITIONED = ''transitioned''"
| "TaskEventKind_value EV_CANCELLED = ''cancelled''"

record agent_task = versioned_model +
  at_task_id :: string
  at_title :: string
  at_description :: string
  at_status :: TaskStatus
  at_priority :: TaskPriority
  at_project_id :: string
  at_mission_id :: "string option"
  at_assignee_ids :: "string list"
  at_skill_ids :: "string list"
  at_dependency_ids :: "string list"
  at_artifact_ids :: "string list"
  at_tags :: "string list"
  at_blocked_reason :: "string option"
  at_sensitivity :: Sensitivity
  at_created_by :: string
  at_revision :: int
  at_created_at :: datetime
  at_updated_at :: datetime

definition task_invariants :: "agent_task \<Rightarrow> bool" where
  "task_invariants t \<longleftrightarrow>
     unique (at_assignee_ids t) \<and> unique (at_skill_ids t) \<and> unique (at_dependency_ids t) \<and>
     unique (at_artifact_ids t) \<and> unique (at_tags t) \<and>
     at_task_id t \<notin> set (at_dependency_ids t) \<and>
     \<not> at_updated_at t < at_created_at t \<and>
     \<not> (at_status t = BLOCKED \<and> at_blocked_reason t = None) \<and>
     \<not> (at_status t \<noteq> BLOCKED \<and> at_blocked_reason t \<noteq> None)"

definition AgentTask_ok :: "agent_task \<Rightarrow> bool" where
  "AgentTask_ok t \<longleftrightarrow>
     versioned_ok ''AgentTaskV1'' t \<and> is_Identifier (at_task_id t) \<and> is_NonEmptyStr (at_title t) \<and>
     length (at_description t) \<le> 32768 \<and> is_Identifier (at_project_id t) \<and>
     opt_ok is_Identifier (at_mission_id t) \<and> list_all is_Identifier (at_assignee_ids t) \<and>
     list_all is_Identifier (at_skill_ids t) \<and> list_all is_Identifier (at_dependency_ids t) \<and>
     list_all is_Identifier (at_artifact_ids t) \<and> list_all is_Identifier (at_tags t) \<and>
     opt_ok is_NonEmptyStr (at_blocked_reason t) \<and> is_Identifier (at_created_by t) \<and>
     1 \<le> at_revision t \<and> task_invariants t"

definition strip_task :: "(string \<Rightarrow> string) \<Rightarrow> agent_task \<Rightarrow> agent_task" where
  "strip_task strip t = t\<lparr>
     schema_version := strip (schema_version t), id_scheme_version := strip (id_scheme_version t),
     at_task_id := strip (at_task_id t), at_title := strip (at_title t),
     at_description := strip (at_description t), at_project_id := strip (at_project_id t),
     at_mission_id := map_option strip (at_mission_id t),
     at_assignee_ids := map strip (at_assignee_ids t), at_skill_ids := map strip (at_skill_ids t),
     at_dependency_ids := map strip (at_dependency_ids t),
     at_artifact_ids := map strip (at_artifact_ids t), at_tags := map strip (at_tags t),
     at_blocked_reason := map_option strip (at_blocked_reason t),
     at_created_by := strip (at_created_by t)\<rparr>"

definition make_AgentTask :: "(string \<Rightarrow> string) \<Rightarrow> agent_task \<Rightarrow> agent_task option" where
  "make_AgentTask strip t = (let t' = strip_task strip t in if AgentTask_ok t' then Some t' else None)"

definition task_json :: "agent_task \<Rightarrow> jval" where
  "task_json t = JObj (versioned_fields t @
     [(''task_id'', JStr (at_task_id t)),
      (''title'', JStr (at_title t)),
      (''description'', JStr (at_description t)),
      (''status'', JStr (TaskStatus_value (at_status t))),
      (''priority'', JStr (TaskPriority_value (at_priority t))),
      (''project_id'', JStr (at_project_id t)),
      (''mission_id'', jopt JStr (at_mission_id t)),
      (''assignee_ids'', jstrs (at_assignee_ids t)),
      (''skill_ids'', jstrs (at_skill_ids t)),
      (''dependency_ids'', jstrs (at_dependency_ids t)),
      (''artifact_ids'', jstrs (at_artifact_ids t)),
      (''tags'', jstrs (at_tags t)),
      (''blocked_reason'', jopt JStr (at_blocked_reason t)),
      (''sensitivity'', JStr (Sensitivity_value (at_sensitivity t))),
      (''created_by'', JStr (at_created_by t)),
      (''revision'', JInt (at_revision t)),
      (''created_at'', jtime (at_created_at t)),
      (''updated_at'', jtime (at_updated_at t))])"

record task_event = versioned_model +
  te_event_id :: string
  te_event_kind :: TaskEventKind
  te_task_id :: string
  te_operation_key :: string
  te_idempotency_key :: string
  te_previous_event_id :: "string option"
  te_previous_task_sha256 :: "string option"
  te_task_sha256 :: string
  te_from_status :: "TaskStatus option"
  te_to_status :: TaskStatus
  te_actor :: string
  te_created_at :: datetime

definition event_invariants :: "task_event \<Rightarrow> bool" where
  "event_invariants e \<longleftrightarrow>
     (if te_event_kind e = EV_CREATED
      then te_from_status e = None \<and> te_previous_task_sha256 e = None \<and> te_to_status e = INBOX
      else te_from_status e \<noteq> None \<and> te_previous_task_sha256 e \<noteq> None) \<and>
     (if te_event_kind e = EV_CANCELLED then te_to_status e = CANCELLED
      else te_to_status e \<noteq> CANCELLED)"

definition TaskEvent_ok :: "task_event \<Rightarrow> bool" where
  "TaskEvent_ok e \<longleftrightarrow>
     versioned_ok ''TaskEventV1'' e \<and> is_Identifier (te_event_id e) \<and> is_Identifier (te_task_id e) \<and>
     is_Identifier (te_operation_key e) \<and> is_Identifier (te_idempotency_key e) \<and>
     opt_ok is_Identifier (te_previous_event_id e) \<and> opt_ok is_Sha256 (te_previous_task_sha256 e) \<and>
     is_Sha256 (te_task_sha256 e) \<and> is_Identifier (te_actor e) \<and> event_invariants e"

definition strip_event :: "(string \<Rightarrow> string) \<Rightarrow> task_event \<Rightarrow> task_event" where
  "strip_event strip e = e\<lparr>
     schema_version := strip (schema_version e), id_scheme_version := strip (id_scheme_version e),
     te_event_id := strip (te_event_id e), te_task_id := strip (te_task_id e),
     te_operation_key := strip (te_operation_key e),
     te_idempotency_key := strip (te_idempotency_key e),
     te_previous_event_id := map_option strip (te_previous_event_id e),
     te_previous_task_sha256 := map_option strip (te_previous_task_sha256 e),
     te_task_sha256 := strip (te_task_sha256 e), te_actor := strip (te_actor e)\<rparr>"

definition make_TaskEvent :: "(string \<Rightarrow> string) \<Rightarrow> task_event \<Rightarrow> task_event option" where
  "make_TaskEvent strip e =
     (let e' = strip_event strip e in if TaskEvent_ok e' then Some e' else None)"

definition event_fields :: "task_event \<Rightarrow> (string \<times> jval) list" where
  "event_fields e = versioned_fields e @
     [(''event_kind'', JStr (TaskEventKind_value (te_event_kind e))),
      (''task_id'', JStr (te_task_id e)),
      (''operation_key'', JStr (te_operation_key e)),
      (''idempotency_key'', JStr (te_idempotency_key e)),
      (''previous_event_id'', jopt JStr (te_previous_event_id e)),
      (''previous_task_sha256'', jopt JStr (te_previous_task_sha256 e)),
      (''task_sha256'', JStr (te_task_sha256 e)),
      (''from_status'', jopt (\<lambda>s. JStr (TaskStatus_value s)) (te_from_status e)),
      (''to_status'', JStr (TaskStatus_value (te_to_status e))),
      (''actor'', JStr (te_actor e)),
      (''created_at'', jtime (te_created_at e))]"

definition event_identity_payload :: "task_event \<Rightarrow> jval" where
  "event_identity_payload e = JObj (event_fields e)"

definition event_json :: "task_event \<Rightarrow> jval" where
  "event_json e = JObj ((''event_id'', JStr (te_event_id e)) # event_fields e)"

definition event_verify_id :: "digest \<Rightarrow> task_event \<Rightarrow> bool" where
  "event_verify_id sha e = (te_event_id e = derive_id sha ''tevt'' (event_identity_payload e))"

record task_generation = versioned_model +
  tg_generation_id :: string
  tg_parent_generation_id :: "string option"
  tg_parent_generation_sha256 :: "string option"
  tg_task_hashes :: "(string \<times> string) list"
  tg_latest_event_ids :: "(string \<times> string) list"
  tg_head_event_id :: "string option"
  tg_event_count :: int
  tg_created_at :: datetime

definition board_invariants :: "task_generation \<Rightarrow> bool" where
  "board_invariants g \<longleftrightarrow>
     (tg_parent_generation_id g = None) = (tg_parent_generation_sha256 g = None) \<and>
     \<not> (tg_parent_generation_id g = None \<and> tg_event_count g \<notin> {0, 1}) \<and>
     \<not> (tg_task_hashes g \<noteq> [] \<and> tg_event_count g < int (length (tg_task_hashes g))) \<and>
     fst ` set (tg_task_hashes g) = fst ` set (tg_latest_event_ids g) \<and>
     \<not> (tg_task_hashes g = [] \<and> tg_head_event_id g \<noteq> None) \<and>
     \<not> (tg_task_hashes g \<noteq> [] \<and> tg_head_event_id g = None) \<and>
     (case tg_head_event_id g of None \<Rightarrow> True
      | Some h \<Rightarrow> h \<in> snd ` set (tg_latest_event_ids g))"

text \<open>
  The two dicts of a board are compared and hashed without regard to their insertion order, so they
  are association lists with increasing keys; \<open>dict_set\<close> is the item assignment.
\<close>

fun dict_set :: "string \<Rightarrow> string \<Rightarrow> (string \<times> string) list \<Rightarrow> (string \<times> string) list" where
  "dict_set k v [] = [(k, v)]"
| "dict_set k v ((k', v') # al) =
     (if k < k' then (k, v) # (k', v') # al
      else if k = k' then (k, v) # al
      else (k', v') # dict_set k v al)"

definition dict_ok :: "(string \<Rightarrow> bool) \<Rightarrow> (string \<Rightarrow> bool) \<Rightarrow> (string \<times> string) list \<Rightarrow> bool" where
  "dict_ok P Q al \<longleftrightarrow> sorted_wrt (<) (map fst al) \<and> list_all (\<lambda>(k, v). P k \<and> Q v) al"

definition TaskBoardGeneration_ok :: "task_generation \<Rightarrow> bool" where
  "TaskBoardGeneration_ok g \<longleftrightarrow>
     versioned_ok ''TaskBoardGenerationV1'' g \<and> is_Identifier (tg_generation_id g) \<and>
     opt_ok is_Identifier (tg_parent_generation_id g) \<and>
     opt_ok is_Sha256 (tg_parent_generation_sha256 g) \<and>
     dict_ok is_Identifier is_Sha256 (tg_task_hashes g) \<and>
     dict_ok is_Identifier is_Identifier (tg_latest_event_ids g) \<and>
     opt_ok is_Identifier (tg_head_event_id g) \<and>
     0 \<le> tg_event_count g \<and> tg_event_count g \<le> 10000 \<and> board_invariants g"

definition strip_dict :: "(string \<Rightarrow> string) \<Rightarrow> (string \<times> string) list \<Rightarrow> (string \<times> string) list" where
  "strip_dict strip al = fold (\<lambda>(k, v) d. dict_set (strip k) (strip v) d) al []"

definition strip_generation :: "(string \<Rightarrow> string) \<Rightarrow> task_generation \<Rightarrow> task_generation" where
  "strip_generation strip g = g\<lparr>
     schema_version := strip (schema_version g), id_scheme_version := strip (id_scheme_version g),
     tg_generation_id := strip (tg_generation_id g),
     tg_parent_generation_id := map_option strip (tg_parent_generation_id g),
     tg_parent_generation_sha256 := map_option strip (tg_parent_generation_sha256 g),
     tg_task_hashes := strip_dict strip (tg_task_hashes g),
     tg_latest_event_ids := strip_dict strip (tg_latest_event_ids g),
     tg_head_event_id := map_option strip (tg_head_event_id g)\<rparr>"

definition make_TaskBoardGeneration ::
    "(string \<Rightarrow> string) \<Rightarrow> task_generation \<Rightarrow> task_generation option" where
  "make_TaskBoardGeneration strip g =
     (let g' = strip_generation strip g in if TaskBoardGeneration_ok g' then Some g' else None)"

definition generation_fields :: "task_generation \<Rightarrow> (string \<times> jval) list" where
  "generation_fields g = versioned_fields g @
     [(''parent_generation_id'', jopt JStr (tg_parent_generation_id g)),
      (''parent_generation_sha256'', jopt JStr (tg_parent_generation_sha256 g)),
      (''task_hashes'', JObj (map (map_prod id JStr) (tg_task_hashes g))),
      (''latest_event_ids'', JObj (map (map_prod id JStr) (tg_latest_event_ids g))),
      (''head_event_id'', jopt JStr (tg_head_event_id g)),
      (''event_count'', JInt (tg_event_count g)),
      (''created_at'', jtime (tg_created_at g))]"

definition generation_identity_payload :: "task_generation \<Rightarrow> jval" where
  "generation_identity_payload g = JObj (generation_fields g)"

definition generation_json :: "task_generation \<Rightarrow> jval" where
  "generation_json g = JObj ((''generation_id'', JStr (tg_generation_id g)) # generation_fields g)"

definition generation_verify_id :: "digest \<Rightarrow> task_generation \<Rightarrow> bool" where
  "generation_verify_id sha g =
     (tg_generation_id g = derive_id sha ''tgen'' (generation_identity_payload g))"

definition generation_manifest_sha256 :: "digest \<Rightarrow> task_generation \<Rightarrow> string" where
  "generation_manifest_sha256 sha g = sha256_hex sha (json_bytes (generation_json g))"

section \<open>Lemmas\<close>

lemma map_of_dict_set [simp]: "map_of (dict_set k v al) = (map_of al)(k \<mapsto> v)"
  by (induction k v al rule: dict_set.induct) (auto simp: fun_eq_iff)

lemma keys_dict_set [simp]: "fst ` set (dict_set k v al) = insert k (fst ` set al)"
  by (induction k v al rule: dict_set.induct) auto

lemma sorted_dict_set: "sorted_wrt (<) (map fst al) \<Longrightarrow> sorted_wrt (<) (map fst (dict_set k v al))"
proof (induction k v al rule: dict_set.induct)
  case (2 k v k' v' al)
  have "set (map fst (dict_set k v al)) = insert k (set (map fst al))"
    using keys_dict_set [of k v al] by simp
  with 2 show ?case by (auto simp del: keys_dict_set)
qed simp

lemma dict_ok_distinct: "dict_ok P Q al \<Longrightarrow> distinct (map fst al)"
  by (auto simp: dict_ok_def strict_sorted_iff)

end
