(* ===== verification/Task_Graph.thy ===== *)
theory Task_Graph
  imports Task_Contracts
begin

text \<open>
  Model of \<open>TaskService._validate_task_graph\<close> (\<open>src/raytsystem/tasking.py\<close>): dependency closure,
  completed dependencies of ready and running tasks, and the depth-first cycle check over
  \<open>dependency_ids\<close>. The recursive \<open>visit\<close> closes over the sets \<open>visiting\<close> and \<open>visited\<close>; the model
  passes them, processes the dependencies of one task as a list, and is total: each nested call
  enters a task that was not being visited. The main result is that the check accepts a board
  exactly when its dependency relation is closed, finished where it must be, and acyclic.
\<close>

section \<open>Definitions\<close>

datatype task_error = TaskLedgerError | TaskConflict | TaskTransitionRejected
  | TaskValidationError | TaskKeyError

type_synonym task_table = "(string \<times> agent_task) list"

function visit :: "task_table \<Rightarrow> string list \<Rightarrow> string list \<Rightarrow> string list \<Rightarrow>
    (task_error, string list) result" where
  "visit tasks [] visiting visited = Inr visited"
| "visit tasks (tid # rest) visiting visited =
     (if tid \<in> set visiting then Inl TaskLedgerError
      else if tid \<in> set visited then visit tasks rest visiting visited
      else case map_of tasks tid of
          None \<Rightarrow> Inl TaskKeyError
        | Some t \<Rightarrow>
            rbind (visit tasks (at_dependency_ids t) (tid # visiting) visited)
              (\<lambda>visited'. visit tasks rest visiting (tid # visited')))"
  by pat_completeness auto

text \<open>Each nested call enters a task of the table that was not being visited.\<close>

lemma visiting_decreases:
  assumes "map_of tasks tid = Some t" "tid \<notin> set visiting"
  shows "card (fst ` set tasks - insert tid (set visiting)) < card (fst ` set tasks - set visiting)"
proof (rule psubset_card_mono)
  show "fst ` set tasks - insert tid (set visiting) \<subset> fst ` set tasks - set visiting"
    using assms map_of_zip_fst [OF assms(1)] by blast
qed simp

termination visit
  by (relation "inv_image (less_than <*lex*> less_than)
        (\<lambda>(tasks, ds, visiting, visited). (card (fst ` set tasks - set visiting), length ds))")
    (auto simp: visiting_decreases)

definition is_done :: "task_table \<Rightarrow> string \<Rightarrow> bool" where
  "is_done tasks d = (case map_of tasks d of None \<Rightarrow> False | Some t \<Rightarrow> at_status t = DONE)"

definition validate_task_graph :: "task_table \<Rightarrow> (task_error, unit) result" where
  "validate_task_graph tasks =
     rbind (rmap (\<lambda>(tid, t).
         rbind (ensure (set (at_dependency_ids t) \<subseteq> fst ` set tasks) TaskLedgerError) (\<lambda>_.
         ensure (\<not> (at_status t \<in> {READY, RUNNING} \<and>
                   list_ex (\<lambda>d. \<not> is_done tasks d) (at_dependency_ids t))) TaskLedgerError))
       tasks) (\<lambda>_.
     rbind (visit tasks (sorted_set (map fst tasks)) [] []) (\<lambda>_. Inr ()))"

text \<open>Specification: the dependency relation of a board.\<close>

definition depends :: "task_table \<Rightarrow> (string \<times> string) set" where
  "depends tasks = {(a, d). \<exists>t. map_of tasks a = Some t \<and> d \<in> set (at_dependency_ids t)}"

definition closed_board :: "task_table \<Rightarrow> bool" where
  "closed_board tasks \<longleftrightarrow>
     (\<forall>(tid, t)\<in>set tasks. set (at_dependency_ids t) \<subseteq> fst ` set tasks)"

definition ready_board :: "task_table \<Rightarrow> bool" where
  "ready_board tasks \<longleftrightarrow>
     (\<forall>(tid, t)\<in>set tasks. at_status t \<in> {READY, RUNNING} \<longrightarrow>
        (\<forall>d\<in>set (at_dependency_ids t). is_done tasks d))"

text \<open>Tasks listed so that everything a task depends on comes after it.\<close>

fun topo :: "task_table \<Rightarrow> string list \<Rightarrow> bool" where
  "topo tasks [] = True"
| "topo tasks (x # xs) = (x \<notin> set xs \<and> depends tasks `` {x} \<subseteq> set xs \<and> topo tasks xs)"

section \<open>Lemmas\<close>

lemma visit_subset: "visit tasks ds visiting visited = Inr vs \<Longrightarrow> set visited \<union> set ds \<subseteq> set vs"
proof (induction tasks ds visiting visited arbitrary: vs rule: visit.induct)
  case (2 tasks tid rest visiting visited)
  show ?case
  proof (cases "tid \<in> set visited")
    case True
    with 2 show ?thesis by (auto split: if_splits)
  next
    case False
    with "2.prems" obtain t vs' where t: "map_of tasks tid = Some t" "tid \<notin> set visiting"
        "visit tasks (at_dependency_ids t) (tid # visiting) visited = Inr vs'"
        "visit tasks rest visiting (tid # vs') = Inr vs"
      by (auto simp: result_simps split: if_splits option.splits)
    from "2.IH"(2) [OF t(2) False t(1) t(3)] "2.IH"(3) [OF t(2) False t(1) t(4)]
    show ?thesis by auto
  qed
qed simp

lemma visit_new: "visit tasks ds visiting visited = Inr vs \<Longrightarrow> x \<in> set vs \<Longrightarrow> x \<in> set visiting \<Longrightarrow>
   x \<in> set visited"
proof (induction tasks ds visiting visited arbitrary: vs rule: visit.induct)
  case (2 tasks tid rest visiting visited)
  show ?case
  proof (cases "tid \<in> set visited")
    case True
    with 2 show ?thesis by (auto split: if_splits)
  next
    case False
    with "2.prems" obtain t vs' where t: "map_of tasks tid = Some t" "tid \<notin> set visiting"
        "visit tasks (at_dependency_ids t) (tid # visiting) visited = Inr vs'"
        "visit tasks rest visiting (tid # vs') = Inr vs"
      by (auto simp: result_simps split: if_splits option.splits)
    from "2.IH"(3) [OF t(2) False t(1) t(4)] "2.prems"(2,3) have "x \<in> set (tid # vs')" by simp
    with "2.IH"(2) [OF t(2) False t(1) t(3)] "2.prems"(3) t(2) show ?thesis by auto
  qed
qed simp

lemma visit_topo: "visit tasks ds visiting visited = Inr vs \<Longrightarrow> topo tasks visited \<Longrightarrow> topo tasks vs"
proof (induction tasks ds visiting visited arbitrary: vs rule: visit.induct)
  case (2 tasks tid rest visiting visited)
  show ?case
  proof (cases "tid \<in> set visited")
    case True
    with 2 show ?thesis by (auto split: if_splits)
  next
    case False
    with "2.prems" obtain t vs' where t: "map_of tasks tid = Some t" "tid \<notin> set visiting"
        "visit tasks (at_dependency_ids t) (tid # visiting) visited = Inr vs'"
        "visit tasks rest visiting (tid # vs') = Inr vs"
      by (auto simp: result_simps split: if_splits option.splits)
    have "tid \<notin> set vs'" using visit_new [OF t(3), of tid] False by auto
    moreover have "depends tasks `` {tid} \<subseteq> set vs'"
      using visit_subset [OF t(3)] t(1) by (auto simp: depends_def)
    ultimately have "topo tasks (tid # vs')"
      using "2.IH"(2) [OF t(2) False t(1) t(3)] "2.prems"(2) by simp
    with "2.IH"(3) [OF t(2) False t(1) t(4)] show ?thesis by simp
  qed
qed simp

lemma topo_trancl: "topo tasks xs \<Longrightarrow> (a, b) \<in> (depends tasks)\<^sup>+ \<Longrightarrow> a \<in> set xs \<Longrightarrow>
   a \<noteq> b \<and> b \<in> set xs"
proof (induction xs arbitrary: a b)
  case (Cons x xs)
  have step: "b \<in> set xs" if "(a, b) \<in> (depends tasks)\<^sup>+" "a \<in> set xs" for a b
    using that Cons by auto
  show ?case
  proof (cases "a = x")
    case True
    obtain c where c: "(a, c) \<in> depends tasks" "(c, b) \<in> (depends tasks)\<^sup>*"
      using Cons.prems(2) by (meson tranclD)
    then have "c \<in> set xs" using Cons.prems(1) True by auto
    with c(2) step have "b \<in> set xs" by (auto simp: rtrancl_eq_or_trancl)
    with Cons.prems(1) True show ?thesis by auto
  next
    case False
    with Cons show ?thesis by auto
  qed
qed simp

lemma visit_complete:
  assumes "acyclic (depends tasks)" "\<forall>(tid, t)\<in>set tasks. set (at_dependency_ids t) \<subseteq> fst ` set tasks"
  shows "set ds \<subseteq> fst ` set tasks \<Longrightarrow> (\<forall>v\<in>set visiting. \<forall>d\<in>set ds. (v, d) \<in> (depends tasks)\<^sup>+) \<Longrightarrow>
    \<exists>vs. visit tasks ds visiting visited = Inr vs"
  using assms
proof (induction tasks ds visiting visited rule: visit.induct)
  case (2 tasks tid rest visiting visited)
  have nv: "tid \<notin> set visiting"
    using "2.prems"(2,3) by (auto simp: acyclic_def)
  show ?case
  proof (cases "tid \<in> set visited")
    case True
    with 2 nv show ?thesis by auto
  next
    case False
    obtain t where t: "map_of tasks tid = Some t"
      using "2.prems"(1) by (metis insert_subset list.set(2) map_of_eq_None_iff not_None_eq)
    have dep: "(tid, d) \<in> depends tasks" if "d \<in> set (at_dependency_ids t)" for d
      using t that by (auto simp: depends_def)
    have "\<exists>vs'. visit tasks (at_dependency_ids t) (tid # visiting) visited = Inr vs'"
    proof (rule "2.IH"(2) [OF nv False t])
      show "set (at_dependency_ids t) \<subseteq> fst ` set tasks"
        using "2.prems"(4) map_of_SomeD [OF t] by auto
      show "\<forall>v\<in>set (tid # visiting). \<forall>d\<in>set (at_dependency_ids t). (v, d) \<in> (depends tasks)\<^sup>+"
        using "2.prems"(2) dep by (auto intro: trancl_into_trancl)
    qed (use "2.prems" in auto)
    then obtain vs' where vs': "visit tasks (at_dependency_ids t) (tid # visiting) visited = Inr vs'" ..
    have "\<exists>vs. visit tasks rest visiting (tid # vs') = Inr vs"
      by (rule "2.IH"(3) [OF nv False t]) (use "2.prems" in auto)
    with vs' t nv False show ?thesis by auto
  qed
qed simp

lemma visit_all_iff_acyclic:
  assumes "closed_board tasks"
  shows "is_ok (visit tasks (sorted_set (map fst tasks)) [] []) \<longleftrightarrow> acyclic (depends tasks)"
proof
  assume "is_ok (visit tasks (sorted_set (map fst tasks)) [] [])"
  then obtain vs where vs: "visit tasks (sorted_set (map fst tasks)) [] [] = Inr vs"
    by (auto simp: is_ok_iff)
  have "topo tasks vs" using visit_topo [OF vs] by simp
  moreover have "fst ` set tasks \<subseteq> set vs" using visit_subset [OF vs] by simp
  moreover have "a \<in> fst ` set tasks" if "(a, b) \<in> (depends tasks)\<^sup>+" for a b
    using tranclD [OF that] by (auto simp: depends_def dest!: map_of_zip_fst)
  ultimately show "acyclic (depends tasks)"
    unfolding acyclic_def using topo_trancl [of tasks vs] by blast
next
  assume "acyclic (depends tasks)"
  with assms visit_complete [of tasks "sorted_set (map fst tasks)" "[]" "[]"]
  show "is_ok (visit tasks (sorted_set (map fst tasks)) [] [])"
    by (auto simp: is_ok_iff closed_board_def)
qed

lemma rmap_unit_iff: "is_ok (rmap f xs) \<longleftrightarrow> (\<forall>x\<in>set xs. is_ok (f x))"
proof (induction xs)
  case (Cons x xs)
  then show ?case by (cases "f x"; cases "rmap f xs") auto
qed simp

lemma validate_task_graph_iff:
  "validate_task_graph tasks = Inr () \<longleftrightarrow>
     closed_board tasks \<and> ready_board tasks \<and> acyclic (depends tasks)"
proof -
  let ?f = "\<lambda>(tid, t).
         rbind (ensure (set (at_dependency_ids t) \<subseteq> fst ` set tasks) TaskLedgerError) (\<lambda>_.
         ensure (\<not> (at_status t \<in> {READY, RUNNING} \<and>
                   list_ex (\<lambda>d. \<not> is_done tasks d) (at_dependency_ids t))) TaskLedgerError)"
  have f: "is_ok (?f (tid, t)) \<longleftrightarrow> set (at_dependency_ids t) \<subseteq> fst ` set tasks \<and>
      (at_status t \<in> {READY, RUNNING} \<longrightarrow> (\<forall>d\<in>set (at_dependency_ids t). is_done tasks d))" for tid t
    by (auto simp: ensure_def rbind_def list_ex_iff)
  have loop: "is_ok (rmap ?f tasks) \<longleftrightarrow> closed_board tasks \<and> ready_board tasks"
    unfolding rmap_unit_iff closed_board_def ready_board_def using f by fastforce
  have "validate_task_graph tasks = Inr () \<longleftrightarrow>
      is_ok (rmap ?f tasks) \<and> is_ok (visit tasks (sorted_set (map fst tasks)) [] [])"
    by (cases "rmap ?f tasks"; cases "visit tasks (sorted_set (map fst tasks)) [] []")
      (simp_all add: validate_task_graph_def)
  with loop visit_all_iff_acyclic show ?thesis by blast
qed

section \<open>Properties\<close>

text \<open>C15: the graph check accepts a board exactly when every dependency is on the board, every ready
  or running task has only finished dependencies, and the dependency relation has no cycle.\<close>

theorem task_graph_check_exact:
  "validate_task_graph tasks = Inr () \<longleftrightarrow>
     closed_board tasks \<and> ready_board tasks \<and> acyclic (depends tasks)"
  by (rule validate_task_graph_iff)

end
