(* ===== verification/Task_Ledger.thy ===== *)
theory Task_Ledger
  imports Task_Graph
begin

text \<open>
  Model of \<open>TaskService\<close> (\<open>src/raytsystem/tasking.py\<close>): the append-only task ledger below
  \<open>ops/task-ledger\<close> with its content-addressed task objects, its event chain, its board generations
  and the \<open>CURRENT\<close> pointer. Every operation works on the bytes of the workspace (theory \<open>Files\<close>);
  a command returns its outcome together with the workspace it leaves, because objects published
  before a failing check stay on disk.

  What the service gets from outside is the record \<open>task_env\<close>: the digest, whitespace stripping, the
  injected sensitivity scanner (its decision on some bytes: whether it blocks and which sensitivity
  it names, or \<open>None\<close> when it raises) and, per contract, the decoding of JSON bytes into fields
  (\<open>None\<close> where decoding raises). The writer lock makes each command atomic, so it does not appear.
  The two \<open>while\<close> loops over the chain carry their own limits (\<open>max_events\<close>, 100000 visited events);
  the model keeps the limits and needs no further fuel.
\<close>

section \<open>Definitions\<close>

record task_env =
  env_sha :: digest
  env_strip :: "string \<Rightarrow> string"
  env_scan :: "bytes \<Rightarrow> (bool \<times> string) option"
  env_root :: "string list"
  env_parse_task :: "bytes \<Rightarrow> agent_task option"
  env_parse_event :: "bytes \<Rightarrow> task_event option"
  env_parse_generation :: "bytes \<Rightarrow> task_generation option"

fun transitions :: "TaskStatus \<Rightarrow> TaskStatus set" where
  "transitions INBOX = {PLANNED, CANCELLED}"
| "transitions PLANNED = {READY, BLOCKED, CANCELLED}"
| "transitions READY = {RUNNING, BLOCKED, CANCELLED}"
| "transitions RUNNING = {REVIEW, BLOCKED, CANCELLED}"
| "transitions REVIEW = {DONE, RUNNING, BLOCKED, CANCELLED}"
| "transitions BLOCKED = {PLANNED, READY, RUNNING, CANCELLED}"
| "transitions DONE = {}"
| "transitions CANCELLED = {}"

definition max_events :: nat where "max_events = 10000"
definition max_tasks :: nat where "max_tasks = 2500"
definition max_generation_bytes :: nat where "max_generation_bytes = 16 * 1024 * 1024"
definition service_version :: string where "service_version = ''1.0.0''"

definition task_path :: "string \<Rightarrow> string" where
  "task_path h = ''ops/task-ledger/objects/sha256/'' @ take 2 h @ ''/'' @ h @ ''.json''"

definition event_path :: "string \<Rightarrow> string" where
  "event_path i = ''ops/task-ledger/events/'' @ i @ ''.json''"

definition board_path :: "string \<Rightarrow> string" where
  "board_path i = ''ops/task-ledger/generations/'' @ i @ ''.json''"

definition pointer_path :: string where
  "pointer_path = ''ops/task-ledger/CURRENT''"

subsection \<open>Reading\<close>

definition read_task :: "task_env \<Rightarrow> fs \<Rightarrow> string \<Rightarrow> string \<Rightarrow> (task_error, agent_task) result" where
  "read_task E fs task_id task_sha256 =
     rbind (rcatch (read_regular_file (env_root E) fs (task_path task_sha256) (1024 * 1024))
                   (\<lambda>_. TaskLedgerError)) (\<lambda>data.
     rbind (of_option TaskLedgerError
              (Option.bind (env_parse_task E data) (make_AgentTask (env_strip E)))) (\<lambda>t.
     rbind (ensure (sha256_hex (env_sha E) data = task_sha256 \<and> data = json_bytes (task_json t) \<and>
                    at_task_id t = task_id) TaskLedgerError) (\<lambda>_. Inr t)))"

definition read_event :: "task_env \<Rightarrow> fs \<Rightarrow> string \<Rightarrow> (task_error, task_event) result" where
  "read_event E fs event_id =
     rbind (rcatch (read_regular_file (env_root E) fs (event_path event_id) (1024 * 1024))
                   (\<lambda>_. TaskLedgerError)) (\<lambda>data.
     rbind (of_option TaskLedgerError
              (Option.bind (env_parse_event E data) (make_TaskEvent (env_strip E)))) (\<lambda>e.
     rbind (ensure (data = json_bytes (event_json e) \<and> te_event_id e = event_id \<and>
                    event_verify_id (env_sha E) e) TaskLedgerError) (\<lambda>_. Inr e)))"

definition read_generation :: "task_env \<Rightarrow> fs \<Rightarrow> string \<Rightarrow> (task_error, task_generation) result" where
  "read_generation E fs generation_id =
     rbind (rcatch (read_regular_file (env_root E) fs (board_path generation_id) (16 * 1024 * 1024))
                   (\<lambda>_. TaskLedgerError)) (\<lambda>data.
     rbind (of_option TaskLedgerError
              (Option.bind (env_parse_generation E data) (make_TaskBoardGeneration (env_strip E)))) (\<lambda>g.
     rbind (ensure (data = json_bytes (generation_json g) \<and> length data \<le> max_generation_bytes \<and>
                    generation_verify_id (env_sha E) g) TaskLedgerError) (\<lambda>_.
     rbind (ensure (tg_generation_id g = generation_id) TaskLedgerError) (\<lambda>_. Inr g))))"

definition load_entry :: "task_env \<Rightarrow> fs \<Rightarrow> string \<times> string \<Rightarrow> (task_error, string \<times> agent_task) result" where
  "load_entry E fs = (\<lambda>(tid, h). rbind (read_task E fs tid h) (\<lambda>t. Inr (tid, t)))"

definition load_tasks :: "task_env \<Rightarrow> fs \<Rightarrow> task_generation option \<Rightarrow> (task_error, task_table) result" where
  "load_tasks E fs generation =
     (case generation of None \<Rightarrow> Inr []
      | Some g \<Rightarrow> rmap (load_entry E fs) (tg_task_hashes g))"

definition scan_task_payload :: "task_env \<Rightarrow> jval \<Rightarrow> (task_error, Sensitivity) result" where
  "scan_task_payload E payload =
     (case env_scan E (json_bytes payload) of
        None \<Rightarrow> Inl TaskTransitionRejected
      | Some (blocks, sens) \<Rightarrow>
          if blocks \<or> sens \<notin> {''internal'', ''public''} then Inl TaskTransitionRejected
          else Inr (if sens = ''public'' then PUBLIC else INTERNAL))"

subsection \<open>Command identities\<close>

definition create_payload ::
    "string \<Rightarrow> string \<Rightarrow> TaskPriority \<Rightarrow> string \<Rightarrow> string option \<Rightarrow> string list \<Rightarrow> string list \<Rightarrow>
     string list \<Rightarrow> string list \<Rightarrow> string \<Rightarrow> jval" where
  "create_payload title description priority project_id mission_id assignees skills deps tags actor =
     JObj [(''title'', JStr title),
           (''description'', JStr description),
           (''priority'', JStr (TaskPriority_value priority)),
           (''project_id'', JStr project_id),
           (''mission_id'', jopt JStr mission_id),
           (''assignee_ids'', jstrs assignees),
           (''skill_ids'', jstrs skills),
           (''dependency_ids'', jstrs deps),
           (''tags'', jstrs tags),
           (''actor'', JStr actor)]"

definition task_payload :: "agent_task \<Rightarrow> string \<Rightarrow> jval" where
  "task_payload t actor =
     create_payload (at_title t) (at_description t) (at_priority t) (at_project_id t)
       (at_mission_id t) (at_assignee_ids t) (at_skill_ids t) (at_dependency_ids t) (at_tags t) actor"

definition create_operation_key :: "digest \<Rightarrow> string \<Rightarrow> jval \<Rightarrow> string" where
  "create_operation_key sha idem payload =
     derive_id sha ''op'' (JObj
       [(''service'', JStr service_version),
        (''command'', JStr ''create_task''),
        (''idempotency_key'', JStr idem),
        (''payload'', payload)])"

definition transition_operation_key ::
    "digest \<Rightarrow> string \<Rightarrow> TaskStatus \<Rightarrow> string option \<Rightarrow> string \<Rightarrow> string \<Rightarrow> string" where
  "transition_operation_key sha task_id target blocked_reason actor idem =
     derive_id sha ''op'' (JObj
       [(''service'', JStr service_version),
        (''command'', JStr ''transition_task''),
        (''task_id'', JStr task_id),
        (''target'', JStr (TaskStatus_value target)),
        (''blocked_reason'', jopt JStr blocked_reason),
        (''actor'', JStr actor),
        (''idempotency_key'', JStr idem)])"

definition transition_payload :: "string \<Rightarrow> string option \<Rightarrow> string \<Rightarrow> TaskStatus \<Rightarrow> jval" where
  "transition_payload actor blocked_reason task_id target =
     JObj [(''actor'', JStr actor),
           (''blocked_reason'', jopt JStr blocked_reason),
           (''task_id'', JStr task_id),
           (''target'', JStr (TaskStatus_value target))]"

definition task_id_for :: "digest \<Rightarrow> string \<Rightarrow> string" where
  "task_id_for sha operation_key =
     derive_id sha ''task'' (JObj [(''operation_key'', JStr operation_key)])"

definition idempotency_id :: "digest \<Rightarrow> string \<Rightarrow> string \<Rightarrow> (task_error, string) result" where
  "idempotency_id sha value actor =
     (let cleaned = py_strip value in
      if cleaned = [] \<or> length (utf8 cleaned) > 512 \<or> CHR 0x00 \<in> set cleaned
      then Inl TaskTransitionRejected
      else Inr (derive_id sha ''idem'' (JObj [(''actor'', JStr actor), (''value'', JStr cleaned)])))"

definition normalize_timestamp :: "bool \<times> datetime \<Rightarrow> (task_error, datetime) result" where
  "normalize_timestamp v =
     (case v of (aware, t) \<Rightarrow> if aware then Inr (t - t mod 1000) else Inl TaskTransitionRejected)"

subsection \<open>Validation of the chain\<close>

definition validate_created_event ::
    "task_env \<Rightarrow> task_event \<Rightarrow> agent_task \<Rightarrow> task_generation option \<Rightarrow> (task_error, unit) result" where
  "validate_created_event E event task parent =
     (let payload = task_payload task (te_actor event) in
      rbind (scan_task_payload E payload) (\<lambda>recovered.
      rbind (scan_task_payload E (task_json task)) (\<lambda>_.
      let expected = create_operation_key (env_sha E) (te_idempotency_key event) payload;
          known = (case parent of None \<Rightarrow> {} | Some p \<Rightarrow> fst ` set (tg_task_hashes p))
      in ensure (te_operation_key event = expected \<and>
                 at_task_id task = task_id_for (env_sha E) (te_operation_key event) \<and>
                 at_status task = INBOX \<and> at_created_by task = te_actor event \<and>
                 at_created_at task = te_created_at event \<and>
                 at_updated_at task = te_created_at event \<and>
                 at_sensitivity task = recovered \<and> at_artifact_ids task = [] \<and>
                 extensions task = [] \<and> set (at_dependency_ids task) \<subseteq> known)
           TaskLedgerError)))"

text \<open>The fields a transition may not touch: all but status, blocked reason, revision and update time.\<close>

definition same_immutable_fields :: "agent_task \<Rightarrow> agent_task \<Rightarrow> bool" where
  "same_immutable_fields p t \<longleftrightarrow>
     p = t\<lparr>at_status := at_status p, at_blocked_reason := at_blocked_reason p,
           at_revision := at_revision p, at_updated_at := at_updated_at p\<rparr>"

definition dependency_done ::
    "task_env \<Rightarrow> fs \<Rightarrow> task_generation \<Rightarrow> string \<Rightarrow> (task_error, unit) result" where
  "dependency_done E fs generation d =
     rbind (of_option TaskLedgerError (map_of (tg_task_hashes generation) d)) (\<lambda>h.
     rbind (read_task E fs d h) (\<lambda>dep.
     ensure (at_status dep = DONE) TaskLedgerError))"

definition validate_transition_event ::
    "task_env \<Rightarrow> fs \<Rightarrow> task_event \<Rightarrow> agent_task \<Rightarrow> agent_task \<Rightarrow> task_generation \<Rightarrow>
     (task_error, unit) result" where
  "validate_transition_event E fs event previous task generation =
     rbind (scan_task_payload E
              (transition_payload (te_actor event) (at_blocked_reason task) (at_task_id task)
                 (at_status task))) (\<lambda>_.
     rbind (scan_task_payload E (task_json task)) (\<lambda>_.
     rbind (ensure (at_status task \<in> transitions (at_status previous) \<and>
                    te_operation_key event =
                      transition_operation_key (env_sha E) (at_task_id task) (at_status task)
                        (at_blocked_reason task) (te_actor event) (te_idempotency_key event) \<and>
                    same_immutable_fields previous task) TaskLedgerError) (\<lambda>_.
     if at_status task \<in> {READY, RUNNING} then
       rbind (rmap (dependency_done E fs generation) (at_dependency_ids task)) (\<lambda>_. Inr ())
     else Inr ())))"

definition changed_keys :: "(string \<times> string) list \<Rightarrow> (string \<times> string) list \<Rightarrow> string set" where
  "changed_keys cur par = {k \<in> fst ` set cur. map_of par k \<noteq> map_of cur k}"

definition validate_parent_link ::
    "task_env \<Rightarrow> fs \<Rightarrow> task_generation \<Rightarrow> task_event \<Rightarrow> agent_task \<Rightarrow> task_generation \<Rightarrow>
     (task_error, unit) result" where
  "validate_parent_link E fs current head task parent =
     rbind (ensure (Some (generation_manifest_sha256 (env_sha E) parent) =
                    tg_parent_generation_sha256 current) TaskLedgerError) (\<lambda>_.
     rbind (ensure (tg_event_count current = tg_event_count parent + 1) TaskLedgerError) (\<lambda>_.
     rbind (ensure (\<not> tg_created_at current < tg_created_at parent) TaskLedgerError) (\<lambda>_.
     rbind (ensure (te_previous_event_id head = tg_head_event_id parent) TaskLedgerError) (\<lambda>_.
     rbind (ensure (fst ` set (tg_task_hashes parent) \<subseteq> fst ` set (tg_task_hashes current) \<and>
                    changed_keys (tg_task_hashes current) (tg_task_hashes parent) = {te_task_id head} \<and>
                    changed_keys (tg_latest_event_ids current) (tg_latest_event_ids parent) =
                      {te_task_id head}) TaskLedgerError) (\<lambda>_.
     if te_event_kind head = EV_CREATED then
       rbind (ensure (te_task_id head \<notin> fst ` set (tg_task_hashes parent) \<and> at_revision task = 1)
                TaskLedgerError) (\<lambda>_. validate_created_event E head task (Some parent))
     else
       rbind (of_option TaskLedgerError (map_of (tg_task_hashes parent) (te_task_id head))) (\<lambda>ph.
       rbind (ensure (te_previous_task_sha256 head = Some ph) TaskLedgerError) (\<lambda>_.
       rbind (read_task E fs (te_task_id head) ph) (\<lambda>previous.
       rbind (ensure (te_from_status head = Some (at_status previous) \<and>
                      at_revision task = at_revision previous + 1 \<and>
                      at_created_at task = at_created_at previous \<and>
                      \<not> at_updated_at task < at_updated_at previous) TaskLedgerError) (\<lambda>_.
       validate_transition_event E fs head previous task current)))))))))"

definition read_head ::
    "task_env \<Rightarrow> fs \<Rightarrow> task_generation \<Rightarrow> string list \<Rightarrow> string list \<Rightarrow> string list \<Rightarrow>
     (task_error, task_event \<times> agent_task) result" where
  "read_head E fs current seen_events seen_ops seen_idems =
     rbind (of_option TaskLedgerError (tg_head_event_id current)) (\<lambda>head_id.
     rbind (ensure (head_id \<notin> set seen_events) TaskLedgerError) (\<lambda>_.
     rbind (read_event E fs head_id) (\<lambda>head.
     rbind (ensure (te_operation_key head \<notin> set seen_ops \<and>
                    te_idempotency_key head \<notin> set seen_idems) TaskLedgerError) (\<lambda>_.
     rbind (ensure (map_of (tg_latest_event_ids current) (te_task_id head) =
                    Some (te_event_id head)) TaskLedgerError) (\<lambda>_.
     rbind (ensure (map_of (tg_task_hashes current) (te_task_id head) =
                    Some (te_task_sha256 head)) TaskLedgerError) (\<lambda>_.
     rbind (read_task E fs (te_task_id head) (te_task_sha256 head)) (\<lambda>task.
     rbind (ensure (at_status task = te_to_status head \<and> at_updated_at task = te_created_at head)
              TaskLedgerError) (\<lambda>_.
     rbind (ensure (tg_created_at current = te_created_at head) TaskLedgerError) (\<lambda>_.
     Inr (head, task))))))))))"

definition validate_root ::
    "task_env \<Rightarrow> task_generation \<Rightarrow> task_event \<Rightarrow> agent_task \<Rightarrow> (task_error, unit) result" where
  "validate_root E current head task =
     rbind (ensure (tg_parent_generation_sha256 current = None \<and> tg_event_count current = 1 \<and>
                    length (tg_task_hashes current) = 1 \<and> te_previous_event_id head = None \<and>
                    te_event_kind head = EV_CREATED \<and> at_revision task = 1) TaskLedgerError) (\<lambda>_.
     validate_created_event E head task None)"

definition closure_step ::
    "task_env \<Rightarrow> fs \<Rightarrow> task_generation \<Rightarrow> string list \<Rightarrow> string list \<Rightarrow> string list \<Rightarrow>
     (task_error, task_event \<times> task_generation option) result" where
  "closure_step E fs current seen_events seen_ops seen_idems =
     rbind (read_head E fs current seen_events seen_ops seen_idems) (\<lambda>(head, task).
     case tg_parent_generation_id current of
       None \<Rightarrow> rbind (validate_root E current head task) (\<lambda>_. Inr (head, None))
     | Some pid \<Rightarrow>
         rbind (read_generation E fs pid) (\<lambda>parent.
         rbind (validate_parent_link E fs current head task parent) (\<lambda>_.
         Inr (head, Some parent))))"

function closure_loop ::
    "task_env \<Rightarrow> fs \<Rightarrow> task_generation \<Rightarrow> string list \<Rightarrow> string list \<Rightarrow> string list \<Rightarrow> string list \<Rightarrow>
     nat \<Rightarrow> (task_error, nat) result" where
  "closure_loop E fs current seen_gens seen_events seen_ops seen_idems steps =
     (if tg_generation_id current \<in> set seen_gens \<or> steps \<ge> max_events then Inl TaskLedgerError
      else rbind (closure_step E fs current seen_events seen_ops seen_idems) (\<lambda>(head, parent).
        case parent of
          None \<Rightarrow> Inr (Suc steps)
        | Some p \<Rightarrow>
            closure_loop E fs p (tg_generation_id current # seen_gens) (te_event_id head # seen_events)
              (te_operation_key head # seen_ops) (te_idempotency_key head # seen_idems) (Suc steps)))"
  by pat_completeness auto
termination
  by (relation "measure (\<lambda>(E, fs, current, gs, es, os, is, steps). max_events - steps)") auto

declare closure_loop.simps [simp del]

definition latest_entry ::
    "task_env \<Rightarrow> fs \<Rightarrow> task_generation \<Rightarrow> string \<times> string \<Rightarrow> (task_error, unit) result" where
  "latest_entry E fs g = (\<lambda>(tid, eid).
     rbind (read_event E fs eid) (\<lambda>event.
     rbind (of_option TaskKeyError (map_of (tg_task_hashes g) tid)) (\<lambda>h.
     rbind (ensure (te_task_id event = tid \<and> te_task_sha256 event = h) TaskLedgerError) (\<lambda>_.
     rbind (read_task E fs tid h) (\<lambda>task.
     ensure (te_to_status event = at_status task) TaskLedgerError)))))"

definition validate_latest_index :: "task_env \<Rightarrow> fs \<Rightarrow> task_generation \<Rightarrow> (task_error, unit) result" where
  "validate_latest_index E fs g =
     rbind (rmap (latest_entry E fs g) (tg_latest_event_ids g)) (\<lambda>_. Inr ())"

definition validate_generation_closure ::
    "task_env \<Rightarrow> fs \<Rightarrow> task_generation \<Rightarrow> (task_error, unit) result" where
  "validate_generation_closure E fs g =
     rbind (load_tasks E fs (Some g)) (\<lambda>tasks.
     rbind (validate_task_graph tasks) (\<lambda>_.
     rbind (validate_latest_index E fs g) (\<lambda>_.
     rbind (closure_loop E fs g [] [] [] [] 0) (\<lambda>steps.
     ensure (int steps = tg_event_count g) TaskLedgerError))))"

definition read_current_generation :: "task_env \<Rightarrow> fs \<Rightarrow> (task_error, task_generation option) result" where
  "read_current_generation E fs =
     (case fs pointer_path of
        None \<Rightarrow> Inr None
      | Some _ \<Rightarrow>
          rbind (rcatch (read_regular_file (env_root E) fs pointer_path 512) (\<lambda>_. TaskLedgerError)) (\<lambda>data.
          rbind (of_option TaskLedgerError (ascii_decode data)) (\<lambda>pointer.
          let generation_id = py_strip pointer in
          rbind (ensure (pointer = generation_id @ [CHR 0x0A] \<and> starts_with generation_id ''tgen_'')
                   TaskLedgerError) (\<lambda>_.
          rbind (read_generation E fs generation_id) (\<lambda>g.
          rbind (validate_generation_closure E fs g) (\<lambda>_. Inr (Some g)))))))"

subsection \<open>Looking up earlier commands\<close>

function find_operation ::
    "task_env \<Rightarrow> fs \<Rightarrow> string option \<Rightarrow> string \<Rightarrow> string \<Rightarrow> string list \<Rightarrow>
     (task_error, task_event option) result" where
  "find_operation E fs event_id operation_key idempotency_key visited =
     (case event_id of
        None \<Rightarrow> Inr None
      | Some eid \<Rightarrow>
          if eid \<in> set visited \<or> length visited \<ge> 100000 then Inl TaskLedgerError
          else rbind (read_event E fs eid) (\<lambda>event.
            if te_operation_key event = operation_key then Inr (Some event)
            else if te_idempotency_key event = idempotency_key then Inl TaskConflict
            else find_operation E fs (te_previous_event_id event) operation_key idempotency_key
                   (eid # visited)))"
  by pat_completeness auto
termination
  by (relation "measure (\<lambda>(E, fs, eid, ok, ik, visited). 100000 - length visited)") auto

declare find_operation.simps [simp del]

function generation_for_event ::
    "task_env \<Rightarrow> fs \<Rightarrow> task_generation \<Rightarrow> string \<Rightarrow> nat \<Rightarrow> (task_error, task_generation) result" where
  "generation_for_event E fs current event_id i =
     (if i \<ge> max_events then Inl TaskLedgerError
      else if tg_head_event_id current = Some event_id then Inr current
      else case tg_parent_generation_id current of
          None \<Rightarrow> Inl TaskLedgerError
        | Some pid \<Rightarrow>
            rbind (read_generation E fs pid) (\<lambda>p. generation_for_event E fs p event_id (Suc i)))"
  by pat_completeness auto
termination
  by (relation "measure (\<lambda>(E, fs, g, eid, i). max_events - i)") auto

declare generation_for_event.simps [simp del]

record task_command_result =
  tr_generation_id :: string
  tr_generation_sha256 :: string
  tr_event_id :: string
  tr_task :: agent_task
  tr_no_op :: bool

definition result_for_event ::
    "task_env \<Rightarrow> fs \<Rightarrow> task_generation option \<Rightarrow> task_event \<Rightarrow> bool \<Rightarrow>
     (task_error, task_command_result) result" where
  "result_for_event E fs generation event no_op =
     rbind (of_option TaskLedgerError generation) (\<lambda>g.
     rbind (generation_for_event E fs g (te_event_id event) 0) (\<lambda>rg.
     rbind (ensure (map_of (tg_task_hashes rg) (te_task_id event) = Some (te_task_sha256 event))
              TaskLedgerError) (\<lambda>_.
     rbind (read_task E fs (te_task_id event) (te_task_sha256 event)) (\<lambda>task.
     Inr \<lparr>tr_generation_id = tg_generation_id rg,
          tr_generation_sha256 = generation_manifest_sha256 (env_sha E) rg,
          tr_event_id = te_event_id event, tr_task = task, tr_no_op = no_op\<rparr>))))"

definition assert_expected ::
    "task_generation option \<Rightarrow> string option \<Rightarrow> (task_error, unit) result" where
  "assert_expected generation expected =
     ensure (expected = map_option tg_generation_id generation) TaskConflict"

subsection \<open>Snapshots and history\<close>

record task_board_snapshot =
  ts_generation_id :: "string option"
  ts_generation_sha256 :: "string option"
  ts_head_event_id :: "string option"
  ts_tasks :: "agent_task list"

definition snapshot :: "task_env \<Rightarrow> fs \<Rightarrow> (task_error, task_board_snapshot) result" where
  "snapshot E fs =
     rbind (read_current_generation E fs) (\<lambda>generation.
     case generation of
       None \<Rightarrow> Inr \<lparr>ts_generation_id = None, ts_generation_sha256 = None,
                    ts_head_event_id = None, ts_tasks = []\<rparr>
     | Some g \<Rightarrow>
         rbind (rmap (\<lambda>(tid, h). read_task E fs tid h) (sort_key fst (tg_task_hashes g))) (\<lambda>tasks.
         Inr \<lparr>ts_generation_id = Some (tg_generation_id g),
              ts_generation_sha256 = Some (generation_manifest_sha256 (env_sha E) g),
              ts_head_event_id = tg_head_event_id g, ts_tasks = tasks\<rparr>))"

function history_loop ::
    "task_env \<Rightarrow> fs \<Rightarrow> string \<Rightarrow> string option \<Rightarrow> string list \<Rightarrow> task_event list \<Rightarrow>
     (task_error, task_event list) result" where
  "history_loop E fs task_id event_id visited events =
     (case event_id of
        None \<Rightarrow> Inr events
      | Some eid \<Rightarrow>
          if eid \<in> set visited \<or> length visited \<ge> max_events then Inl TaskLedgerError
          else rbind (read_event E fs eid) (\<lambda>event.
            history_loop E fs task_id (te_previous_event_id event) (eid # visited)
              (if te_task_id event = task_id then event # events else events)))"
  by pat_completeness auto
termination
  by (relation "measure (\<lambda>(E, fs, tid, eid, visited, events). max_events - length visited)") auto

declare history_loop.simps [simp del]

definition history ::
    "task_env \<Rightarrow> fs \<Rightarrow> string \<Rightarrow> string option \<Rightarrow> (task_error, task_event list) result" where
  "history E fs task_id expected_generation_id =
     rbind (read_current_generation E fs) (\<lambda>generation.
     rbind (ensure (case expected_generation_id of None \<Rightarrow> True
                    | Some x \<Rightarrow> map_option tg_generation_id generation = Some x) TaskConflict) (\<lambda>_.
     case generation of
       None \<Rightarrow> Inl TaskTransitionRejected
     | Some g \<Rightarrow>
         rbind (ensure (task_id \<in> fst ` set (tg_task_hashes g)) TaskTransitionRejected) (\<lambda>_.
         history_loop E fs task_id (tg_head_event_id g) [] [])))"

subsection \<open>Commands\<close>

type_synonym 'a command = "(task_error, 'a) result \<times> fs"

definition publish_private :: "fs \<Rightarrow> string \<Rightarrow> bytes \<Rightarrow> (task_error, fs) result" where
  "publish_private fs path data =
     rbind (rcatch (publish_immutable fs path data) (\<lambda>_. TaskLedgerError)) (\<lambda>(_, fs'). Inr fs')"

definition build_event ::
    "task_env \<Rightarrow> task_generation option \<Rightarrow> agent_task \<Rightarrow> TaskEventKind \<Rightarrow> string \<Rightarrow> string \<Rightarrow> string \<Rightarrow>
     datetime \<Rightarrow> string option \<Rightarrow> TaskStatus option \<Rightarrow> task_event option" where
  "build_event E generation task event_kind operation_key idempotency_key actor timestamp
       previous_task_sha256 from_status =
     map_option (\<lambda>seed. seed\<lparr>te_event_id := derive_id (env_sha E) ''tevt'' (event_identity_payload seed)\<rparr>)
       (make_TaskEvent (env_strip E)
          \<lparr>schema_name = ''TaskEventV1'', schema_version = SCHEMA_VERSION,
           id_scheme_version = ID_SCHEME_VERSION, extensions = [],
           te_event_id = ''tevt_pending'', te_event_kind = event_kind,
           te_task_id = at_task_id task, te_operation_key = operation_key,
           te_idempotency_key = idempotency_key,
           te_previous_event_id = Option.bind generation tg_head_event_id,
           te_previous_task_sha256 = previous_task_sha256,
           te_task_sha256 = sha256_hex (env_sha E) (json_bytes (task_json task)),
           te_from_status = from_status, te_to_status = at_status task, te_actor = actor,
           te_created_at = timestamp\<rparr>)"

definition next_event_count :: "task_generation option \<Rightarrow> int" where
  "next_event_count generation = (case generation of None \<Rightarrow> 1 | Some g \<Rightarrow> tg_event_count g + 1)"

definition build_generation ::
    "task_env \<Rightarrow> task_generation option \<Rightarrow> agent_task \<Rightarrow> task_event \<Rightarrow> datetime \<Rightarrow>
     task_generation option" where
  "build_generation E generation task event timestamp =
     map_option (\<lambda>seed. seed\<lparr>tg_generation_id :=
           derive_id (env_sha E) ''tgen'' (generation_identity_payload seed)\<rparr>)
       (make_TaskBoardGeneration (env_strip E)
          \<lparr>schema_name = ''TaskBoardGenerationV1'', schema_version = SCHEMA_VERSION,
           id_scheme_version = ID_SCHEME_VERSION, extensions = [],
           tg_generation_id = ''tgen_pending'',
           tg_parent_generation_id = map_option tg_generation_id generation,
           tg_parent_generation_sha256 =
             map_option (generation_manifest_sha256 (env_sha E)) generation,
           tg_task_hashes =
             dict_set (at_task_id task) (sha256_hex (env_sha E) (json_bytes (task_json task)))
               (case generation of None \<Rightarrow> [] | Some g \<Rightarrow> tg_task_hashes g),
           tg_latest_event_ids =
             dict_set (at_task_id task) (te_event_id event)
               (case generation of None \<Rightarrow> [] | Some g \<Rightarrow> tg_latest_event_ids g),
           tg_head_event_id = Some (te_event_id event),
           tg_event_count = next_event_count generation,
           tg_created_at = timestamp\<rparr>)"

text \<open>
  The commit, stage by stage. Each stage that publishes returns the workspace it leaves, so that a
  later failure keeps what was published.
\<close>

definition commit_pointer ::
    "task_env \<Rightarrow> fs \<Rightarrow> task_generation option \<Rightarrow> agent_task \<Rightarrow> task_event \<Rightarrow> task_generation \<Rightarrow>
     task_command_result command" where
  "commit_pointer E fs generation task event next_generation =
     (case validate_generation_closure E fs next_generation of
        Inl e \<Rightarrow> (Inl e, fs)
      | Inr _ \<Rightarrow>
      (case read_current_generation E fs of
         Inl e \<Rightarrow> (Inl e, fs)
       | Inr current \<Rightarrow>
         if current \<noteq> generation then (Inl TaskConflict, fs)
         else (case write_bytes_atomic fs pointer_path (tg_generation_id next_generation @ [CHR 0x0A]) of
           Inl _ \<Rightarrow> (Inl TaskLedgerError, fs)
         | Inr fs' \<Rightarrow>
             (Inr \<lparr>tr_generation_id = tg_generation_id next_generation,
                   tr_generation_sha256 = generation_manifest_sha256 (env_sha E) next_generation,
                   tr_event_id = te_event_id event, tr_task = task, tr_no_op = False\<rparr>, fs'))))"

definition commit_generation ::
    "task_env \<Rightarrow> fs \<Rightarrow> task_generation option \<Rightarrow> agent_task \<Rightarrow> task_event \<Rightarrow> datetime \<Rightarrow>
     task_command_result command" where
  "commit_generation E fs generation task event timestamp =
     (if next_event_count generation > int max_events then (Inl TaskTransitionRejected, fs)
      else case build_generation E generation task event timestamp of
        None \<Rightarrow> (Inl TaskValidationError, fs)
      | Some next_generation \<Rightarrow>
          (let data = json_bytes (generation_json next_generation) in
           if length data > max_generation_bytes then (Inl TaskTransitionRejected, fs)
           else case publish_private fs (board_path (tg_generation_id next_generation)) data of
             Inl e \<Rightarrow> (Inl e, fs)
           | Inr fs' \<Rightarrow> commit_pointer E fs' generation task event next_generation))"

definition commit ::
    "task_env \<Rightarrow> fs \<Rightarrow> task_generation option \<Rightarrow> agent_task \<Rightarrow> TaskEventKind \<Rightarrow> string \<Rightarrow> string \<Rightarrow>
     string \<Rightarrow> datetime \<Rightarrow> string option \<Rightarrow> TaskStatus option \<Rightarrow> task_command_result command" where
  "commit E fs generation task event_kind operation_key idempotency_key actor timestamp
       previous_task_sha256 from_status =
     (let task_bytes = json_bytes (task_json task);
          task_sha256 = sha256_hex (env_sha E) task_bytes in
      case publish_private fs (task_path task_sha256) task_bytes of
        Inl e \<Rightarrow> (Inl e, fs)
      | Inr fs1 \<Rightarrow>
      (case build_event E generation task event_kind operation_key idempotency_key actor timestamp
             previous_task_sha256 from_status of
         None \<Rightarrow> (Inl TaskValidationError, fs1)
       | Some event \<Rightarrow>
         (case publish_private fs1 (event_path (te_event_id event)) (json_bytes (event_json event)) of
            Inl e \<Rightarrow> (Inl e, fs1)
          | Inr fs2 \<Rightarrow> commit_generation E fs2 generation task event timestamp)))"

record create_request =
  cr_title :: string
  cr_description :: string
  cr_priority :: TaskPriority
  cr_project_id :: string
  cr_mission_id :: "string option"
  cr_assignee_ids :: "string list"
  cr_skill_ids :: "string list"
  cr_dependency_ids :: "string list"
  cr_tags :: "string list"
  cr_actor :: string
  cr_idempotency_key :: string
  cr_expected_generation_id :: "string option"
  cr_now :: "bool \<times> datetime"

definition request_payload :: "create_request \<Rightarrow> jval" where
  "request_payload r =
     create_payload (cr_title r) (cr_description r) (cr_priority r) (cr_project_id r)
       (cr_mission_id r) (sorted_set (cr_assignee_ids r)) (sorted_set (cr_skill_ids r))
       (sorted_set (cr_dependency_ids r)) (sorted_set (cr_tags r)) (cr_actor r)"

text \<open>What \<open>create_task\<close> computes before it takes the writer lock.\<close>

definition prepare_create ::
    "task_env \<Rightarrow> create_request \<Rightarrow> (task_error, datetime \<times> Sensitivity \<times> string \<times> string) result" where
  "prepare_create E r =
     rbind (normalize_timestamp (cr_now r)) (\<lambda>timestamp.
     rbind (scan_task_payload E (request_payload r)) (\<lambda>sensitivity.
     rbind (idempotency_id (env_sha E) (cr_idempotency_key r) (cr_actor r)) (\<lambda>idem.
     Inr (timestamp, sensitivity, idem,
          create_operation_key (env_sha E) idem (request_payload r)))))"

definition new_task ::
    "task_env \<Rightarrow> create_request \<Rightarrow> string \<Rightarrow> Sensitivity \<Rightarrow> datetime \<Rightarrow> agent_task option" where
  "new_task E r operation_key sensitivity timestamp =
     make_AgentTask (env_strip E)
       \<lparr>schema_name = ''AgentTaskV1'', schema_version = SCHEMA_VERSION,
        id_scheme_version = ID_SCHEME_VERSION, extensions = [],
        at_task_id = task_id_for (env_sha E) operation_key, at_title = cr_title r,
        at_description = cr_description r, at_status = INBOX, at_priority = cr_priority r,
        at_project_id = cr_project_id r, at_mission_id = cr_mission_id r,
        at_assignee_ids = sorted_set (cr_assignee_ids r), at_skill_ids = sorted_set (cr_skill_ids r),
        at_dependency_ids = sorted_set (cr_dependency_ids r), at_artifact_ids = [],
        at_tags = sorted_set (cr_tags r), at_blocked_reason = None, at_sensitivity = sensitivity,
        at_created_by = cr_actor r, at_revision = 1, at_created_at = timestamp,
        at_updated_at = timestamp\<rparr>"

text \<open>The checks under the lock: a replay returns the earlier result, otherwise the task to commit.\<close>

definition check_create ::
    "task_env \<Rightarrow> fs \<Rightarrow> create_request \<Rightarrow> datetime \<Rightarrow> Sensitivity \<Rightarrow> string \<Rightarrow> string \<Rightarrow>
     (task_error, task_command_result + (task_generation option \<times> agent_task)) result" where
  "check_create E fs r timestamp sensitivity idem operation_key =
     rbind (read_current_generation E fs) (\<lambda>generation.
     rbind (find_operation E fs (Option.bind generation tg_head_event_id) operation_key idem []) (\<lambda>existing.
     case existing of
       Some event \<Rightarrow> rbind (result_for_event E fs generation event True) (\<lambda>res. Inr (Inl res))
     | None \<Rightarrow>
         rbind (assert_expected generation (cr_expected_generation_id r)) (\<lambda>_.
         rbind (load_tasks E fs generation) (\<lambda>known.
         rbind (ensure (\<not> length known \<ge> max_tasks) TaskTransitionRejected) (\<lambda>_.
         rbind (ensure (set (cr_dependency_ids r) \<subseteq> fst ` set known) TaskTransitionRejected) (\<lambda>_.
         rbind (of_option TaskTransitionRejected
                  (new_task E r operation_key sensitivity timestamp)) (\<lambda>task.
         Inr (Inr (generation, task)))))))))"

definition create_task :: "task_env \<Rightarrow> fs \<Rightarrow> create_request \<Rightarrow> task_command_result command" where
  "create_task E fs r =
     (case prepare_create E r of
        Inl e \<Rightarrow> (Inl e, fs)
      | Inr (timestamp, sensitivity, idem, operation_key) \<Rightarrow>
     (case check_create E fs r timestamp sensitivity idem operation_key of
        Inl e \<Rightarrow> (Inl e, fs)
      | Inr (Inl res) \<Rightarrow> (Inr res, fs)
      | Inr (Inr (generation, task)) \<Rightarrow>
          commit E fs generation task EV_CREATED operation_key idem (cr_actor r) timestamp None None))"

record transition_request =
  xr_task_id :: string
  xr_target :: TaskStatus
  xr_actor :: string
  xr_idempotency_key :: string
  xr_expected_generation_id :: string
  xr_blocked_reason :: "string option"
  xr_now :: "bool \<times> datetime"

definition prepare_transition ::
    "task_env \<Rightarrow> transition_request \<Rightarrow> (task_error, datetime \<times> string \<times> string) result" where
  "prepare_transition E r =
     rbind (normalize_timestamp (xr_now r)) (\<lambda>timestamp.
     rbind (idempotency_id (env_sha E) (xr_idempotency_key r) (xr_actor r)) (\<lambda>idem.
     rbind (scan_task_payload E
              (transition_payload (xr_actor r) (xr_blocked_reason r) (xr_task_id r) (xr_target r))) (\<lambda>_.
     Inr (timestamp, idem,
          transition_operation_key (env_sha E) (xr_task_id r) (xr_target r) (xr_blocked_reason r)
            (xr_actor r) idem))))"

definition next_task :: "task_env \<Rightarrow> transition_request \<Rightarrow> datetime \<Rightarrow> agent_task \<Rightarrow> agent_task option" where
  "next_task E r timestamp current =
     make_AgentTask (env_strip E)
       (current\<lparr>at_status := xr_target r,
                at_blocked_reason := (if xr_target r = BLOCKED then xr_blocked_reason r else None),
                at_revision := at_revision current + 1,
                at_updated_at := timestamp\<rparr>)"

definition check_dependencies :: "task_table \<Rightarrow> agent_task \<Rightarrow> TaskStatus \<Rightarrow> (task_error, unit) result" where
  "check_dependencies tasks current target =
     (if target \<in> {READY, RUNNING} then
        rbind (ensure (set (at_dependency_ids current) \<subseteq> fst ` set tasks) TaskLedgerError) (\<lambda>_.
        ensure (list_all (is_done tasks) (at_dependency_ids current)) TaskTransitionRejected)
      else Inr ())"

definition check_transition ::
    "task_env \<Rightarrow> fs \<Rightarrow> transition_request \<Rightarrow> datetime \<Rightarrow> string \<Rightarrow> string \<Rightarrow>
     (task_error, task_command_result +
        (task_generation option \<times> agent_task \<times> agent_task \<times> string option)) result" where
  "check_transition E fs r timestamp idem operation_key =
     rbind (read_current_generation E fs) (\<lambda>generation.
     rbind (find_operation E fs (Option.bind generation tg_head_event_id) operation_key idem []) (\<lambda>existing.
     case existing of
       Some event \<Rightarrow> rbind (result_for_event E fs generation event True) (\<lambda>res. Inr (Inl res))
     | None \<Rightarrow>
         rbind (assert_expected generation (Some (xr_expected_generation_id r))) (\<lambda>_.
         rbind (load_tasks E fs generation) (\<lambda>tasks.
         rbind (of_option TaskTransitionRejected (map_of tasks (xr_task_id r))) (\<lambda>current.
         rbind (ensure (xr_target r \<in> transitions (at_status current)) TaskTransitionRejected) (\<lambda>_.
         rbind (check_dependencies tasks current (xr_target r)) (\<lambda>_.
         rbind (ensure (\<not> timestamp < at_updated_at current) TaskTransitionRejected) (\<lambda>_.
         rbind (of_option TaskTransitionRejected (next_task E r timestamp current)) (\<lambda>task.
         Inr (Inr (generation, current, task,
           Option.bind generation (\<lambda>g. map_of (tg_task_hashes g) (xr_task_id r)))))))))))))"

definition transition_task :: "task_env \<Rightarrow> fs \<Rightarrow> transition_request \<Rightarrow> task_command_result command" where
  "transition_task E fs r =
     (case prepare_transition E r of
        Inl e \<Rightarrow> (Inl e, fs)
      | Inr (timestamp, idem, operation_key) \<Rightarrow>
     (case check_transition E fs r timestamp idem operation_key of
        Inl e \<Rightarrow> (Inl e, fs)
      | Inr (Inl res) \<Rightarrow> (Inr res, fs)
      | Inr (Inr (generation, current, task, previous_hash)) \<Rightarrow>
          commit E fs generation task
            (if xr_target r = CANCELLED then EV_CANCELLED else EV_TRANSITIONED)
            operation_key idem (xr_actor r) timestamp previous_hash (Some (at_status current))))"

end
