(* ===== verification/Ledger_Growth.thy ===== *)
theory Ledger_Growth
  imports Task_Ledger
begin

text \<open>
  The task ledger only grows: no command changes a published object, event or generation, only the
  pointer moves. Everything the service reads successfully it reads again, with the same result,
  after any later command. The lemmas lift this from single files to the validation of whole chains.
\<close>

section \<open>Growth of the ledger\<close>

text \<open>Every file but the pointer keeps its bytes.\<close>

definition ledger_ext :: "fs \<Rightarrow> fs \<Rightarrow> bool" where
  "ledger_ext fs fs' \<longleftrightarrow> (\<forall>p data tmp foreign. p \<noteq> pointer_path \<longrightarrow>
     fs p = Some (Regular data tmp foreign) \<longrightarrow>
     (\<exists>tmp'. fs' p = Some (Regular data tmp' foreign) \<and> (tmp = 0 \<longrightarrow> tmp' = 0)))"

lemma ledger_ext_refl [simp]: "ledger_ext fs fs"
  by (auto simp: ledger_ext_def)

lemma ledger_ext_trans: "ledger_ext a b \<Longrightarrow> ledger_ext b c \<Longrightarrow> ledger_ext a c"
  unfolding ledger_ext_def by meson

lemma ledger_ext_preserved: "preserved fs fs' \<Longrightarrow> ledger_ext fs fs'"
  unfolding ledger_ext_def preserved_def by blast

lemma ledger_ext_pointer: "ledger_ext fs (fs(pointer_path \<mapsto> n))"
  by (auto simp: ledger_ext_def)

definition ledger_area :: "string \<Rightarrow> bool" where
  "ledger_area a \<longleftrightarrow> a \<in> {''objects'', ''events'', ''generations''}"

lemma posix_parts_area:
  "ledger_area a \<Longrightarrow> posix_parts (''ops/task-ledger/'' @ a @ CHR ''/'' # s) =
     ''ops'' # ''task-ledger'' # a # posix_parts s"
  by (auto simp: posix_parts_def ledger_area_def)

lemma ledger_file_not_pointer:
  assumes "ledger_area a" "lexical_relative root (''ops/task-ledger/'' @ a @ CHR ''/'' # s) = Inr rel"
  shows "joins ''/'' rel \<noteq> pointer_path"
proof -
  have "rel = ''ops'' # ''task-ledger'' # a # posix_parts s"
    using assms(2) posix_parts_area [OF assms(1), of s]
    by (auto simp: lexical_relative_def Let_def contained_parts_def result_simps split: if_split_asm)
  then show ?thesis
    using assms(1) by (cases "posix_parts s") (auto simp: pointer_path_def ledger_area_def)
qed

lemma read_ledger_file_ext:
  assumes "read_regular_file root fs (''ops/task-ledger/'' @ a @ CHR ''/'' # s) m = Inr data"
    and "ledger_area a" "ledger_ext fs fs'"
  shows "read_regular_file root fs' (''ops/task-ledger/'' @ a @ CHR ''/'' # s) m = Inr data"
proof -
  from assms(1) obtain rel where rel: "m \<noteq> 0" "length data \<le> m"
      "lexical_relative root (''ops/task-ledger/'' @ a @ CHR ''/'' # s) = Inr rel"
      "fs (joins ''/'' rel) = Some (Regular data 0 0)"
    by (auto simp: read_regular_file_Inr_iff)
  moreover have "fs' (joins ''/'' rel) = Some (Regular data 0 0)"
    using assms(3) rel(4) ledger_file_not_pointer [OF assms(2) rel(3)]
    unfolding ledger_ext_def by blast
  ultimately show ?thesis by (auto simp: read_regular_file_Inr_iff)
qed

lemma task_path_area: "\<exists>s. task_path h = ''ops/task-ledger/'' @ ''objects'' @ CHR ''/'' # s"
  by (simp add: task_path_def)

lemma event_path_area: "\<exists>s. event_path h = ''ops/task-ledger/'' @ ''events'' @ CHR ''/'' # s"
  by (simp add: event_path_def)

lemma board_path_area: "\<exists>s. board_path h = ''ops/task-ledger/'' @ ''generations'' @ CHR ''/'' # s"
  by (simp add: board_path_def)

lemma read_area_ext:
  assumes "ledger_ext fs fs'" "ledger_area a" "\<exists>s. p = ''ops/task-ledger/'' @ a @ CHR ''/'' # s"
    and "read_regular_file root fs p m = Inr d"
  shows "read_regular_file root fs' p m = Inr d"
proof -
  from assms(3) obtain s where p: "p = ''ops/task-ledger/'' @ a @ CHR ''/'' # s" ..
  show ?thesis
    unfolding p by (rule read_ledger_file_ext [OF assms(4) [unfolded p] assms(2,1)])
qed

lemma ledger_areas: "ledger_area ''objects''" "ledger_area ''events''" "ledger_area ''generations''"
  by (simp_all add: ledger_area_def)

lemmas read_ledger_paths_ext =
  read_area_ext [OF _ ledger_areas(1) task_path_area]
  read_area_ext [OF _ ledger_areas(2) event_path_area]
  read_area_ext [OF _ ledger_areas(3) board_path_area]

lemma read_task_ext: "read_task E fs i h = Inr t \<Longrightarrow> ledger_ext fs fs' \<Longrightarrow> read_task E fs' i h = Inr t"
  by (auto simp: read_task_def result_simps dest: read_ledger_paths_ext(1))

lemma read_event_ext: "read_event E fs i = Inr e \<Longrightarrow> ledger_ext fs fs' \<Longrightarrow> read_event E fs' i = Inr e"
  by (auto simp: read_event_def result_simps dest: read_ledger_paths_ext(2))

lemma read_generation_ext:
  "read_generation E fs i = Inr g \<Longrightarrow> ledger_ext fs fs' \<Longrightarrow> read_generation E fs' i = Inr g"
  by (auto simp: read_generation_def result_simps dest: read_ledger_paths_ext(3))

lemmas ledger_reads_ext = read_task_ext read_event_ext read_generation_ext

lemma rmap_ext:
  "rmap f xs = Inr ys \<Longrightarrow> (\<And>x y. x \<in> set xs \<Longrightarrow> f x = Inr y \<Longrightarrow> g x = Inr y) \<Longrightarrow> rmap g xs = Inr ys"
  by (induction xs arbitrary: ys) (auto simp: result_simps)

lemma load_tasks_ext:
  assumes "load_tasks E fs g = Inr ts" "ledger_ext fs fs'"
  shows "load_tasks E fs' g = Inr ts"
proof -
  have "load_entry E fs p = Inr y \<Longrightarrow> load_entry E fs' p = Inr y" for p y
    using assms(2) by (auto simp: load_entry_def result_simps split: prod.splits dest: read_task_ext)
  with assms(1) show ?thesis
    by (auto simp: load_tasks_def split: option.splits elim: rmap_ext)
qed

lemma dependency_done_ext:
  assumes "rmap (dependency_done E fs g) ds = Inr us" "ledger_ext fs fs'"
  shows "rmap (dependency_done E fs' g) ds = Inr us"
  using assms(1)
  by (rule rmap_ext) (use assms(2) in \<open>auto simp: dependency_done_def result_simps dest: read_task_ext\<close>)

lemma validate_transition_event_ext:
  "validate_transition_event E fs e p t g = Inr () \<Longrightarrow> ledger_ext fs fs' \<Longrightarrow>
   validate_transition_event E fs' e p t g = Inr ()"
  unfolding validate_transition_event_def
  by (auto simp: result_simps split: if_splits dest: dependency_done_ext)

lemma validate_parent_link_ext:
  "validate_parent_link E fs c h t p = Inr () \<Longrightarrow> ledger_ext fs fs' \<Longrightarrow>
   validate_parent_link E fs' c h t p = Inr ()"
  unfolding validate_parent_link_def
  by (auto simp: result_simps split: if_splits intro: read_task_ext validate_transition_event_ext)

lemma read_head_ext:
  "read_head E fs c es os is = Inr x \<Longrightarrow> ledger_ext fs fs' \<Longrightarrow> read_head E fs' c es os is = Inr x"
  unfolding read_head_def by (auto simp: result_simps dest: read_task_ext read_event_ext)

lemma closure_step_ext:
  "closure_step E fs c es os is = Inr x \<Longrightarrow> ledger_ext fs fs' \<Longrightarrow> closure_step E fs' c es os is = Inr x"
  unfolding closure_step_def
  by (auto simp: result_simps split: option.splits)
    (meson read_head_ext read_generation_ext validate_parent_link_ext)+

lemma closure_loop_ext:
  "closure_loop E fs c gs es os is n = Inr m \<Longrightarrow> ledger_ext fs fs' \<Longrightarrow>
   closure_loop E fs' c gs es os is n = Inr m"
proof (induction E fs c gs es os "is" n rule: closure_loop.induct)
  case (1 E fs c gs es os "is" n)
  from "1.prems" obtain head parent where st: "tg_generation_id c \<notin> set gs" "\<not> n \<ge> max_events"
      "closure_step E fs c es os is = Inr (head, parent)"
    by (subst (asm) closure_loop.simps) (auto simp: result_simps split: if_splits)
  show ?case
  proof (cases parent)
    case None
    with st "1.prems" closure_step_ext [OF st(3) "1.prems"(2)] show ?thesis
      by (subst closure_loop.simps, subst (asm) closure_loop.simps) auto
  next
    case (Some p)
    with st "1.prems"(1) have "closure_loop E fs p (tg_generation_id c # gs) (te_event_id head # es)
        (te_operation_key head # os) (te_idempotency_key head # is) (Suc n) = Inr m"
      by (subst (asm) closure_loop.simps) auto
    then have "closure_loop E fs' p (tg_generation_id c # gs) (te_event_id head # es)
        (te_operation_key head # os) (te_idempotency_key head # is) (Suc n) = Inr m"
      by (rule "1.IH" [rotated 1]) (use st Some "1.prems"(2) in auto)
    with st Some closure_step_ext [OF st(3) "1.prems"(2)] show ?thesis
      by (subst closure_loop.simps) auto
  qed
qed

lemma latest_entry_ext:
  assumes "rmap (latest_entry E fs g) xs = Inr us" "ledger_ext fs fs'"
  shows "rmap (latest_entry E fs' g) xs = Inr us"
  using assms(1)
  by (rule rmap_ext)
    (use assms(2) in \<open>auto simp: latest_entry_def result_simps split: prod.splits
       dest: read_task_ext read_event_ext\<close>)

lemma validate_latest_index_ext:
  "validate_latest_index E fs g = Inr () \<Longrightarrow> ledger_ext fs fs' \<Longrightarrow> validate_latest_index E fs' g = Inr ()"
  unfolding validate_latest_index_def by (auto simp: result_simps dest: latest_entry_ext)

lemma validate_generation_closure_ext:
  "validate_generation_closure E fs g = Inr () \<Longrightarrow> ledger_ext fs fs' \<Longrightarrow>
   validate_generation_closure E fs' g = Inr ()"
  unfolding validate_generation_closure_def
  by (auto simp: result_simps dest: load_tasks_ext validate_latest_index_ext closure_loop_ext)

end
