(* ===== verification/Task_Board.thy ===== *)
theory Task_Board
  imports Ledger_Growth
begin

text \<open>
  What the task ledger promises: an abstract board, a map from task ids to tasks, that changes by
  creating a task in the inbox or by one legal transition. \<open>sound_board\<close> is the invariant of every
  run of the board. The second half shows that the chain validation of the service accepts a
  generation only if it is the end of a run of the abstract board with as many steps as the
  generation counts events.
\<close>

section \<open>The abstract task board\<close>

type_synonym board = "string \<rightharpoonup> agent_task"

definition board_depends :: "board \<Rightarrow> (string \<times> string) set" where
  "board_depends b = {(a, d). \<exists>t. b a = Some t \<and> d \<in> set (at_dependency_ids t)}"

definition finished :: "board \<Rightarrow> string \<Rightarrow> bool" where
  "finished b d \<longleftrightarrow> (\<exists>t. b d = Some t \<and> at_status t = DONE)"

inductive board_step :: "board \<Rightarrow> board \<Rightarrow> bool" where
  created:
    "\<lbrakk>b tid = None; at_status t = INBOX; at_revision t = 1; at_task_id t = tid;
      set (at_dependency_ids t) \<subseteq> dom b; tid \<notin> set (at_dependency_ids t)\<rbrakk>
     \<Longrightarrow> board_step b (b(tid \<mapsto> t))"
| transitioned:
    "\<lbrakk>b tid = Some p; at_status t \<in> transitions (at_status p); same_immutable_fields p t;
      at_revision t = at_revision p + 1; at_updated_at p \<le> at_updated_at t;
      at_status t \<in> {READY, RUNNING} \<longrightarrow> (\<forall>d\<in>set (at_dependency_ids t). finished b d)\<rbrakk>
     \<Longrightarrow> board_step b (b(tid \<mapsto> t))"

inductive board_run :: "board \<Rightarrow> nat \<Rightarrow> bool" where
  start: "board_run Map.empty 0"
| step: "board_run b n \<Longrightarrow> board_step b b' \<Longrightarrow> board_run b' (Suc n)"

inductive_cases board_stepE: "board_step b b'"

definition ready_tasks :: "board \<Rightarrow> bool" where
  "ready_tasks b \<longleftrightarrow> (\<forall>tid t d. b tid = Some t \<longrightarrow> at_status t \<in> {READY, RUNNING} \<longrightarrow>
     d \<in> set (at_dependency_ids t) \<longrightarrow> finished b d)"

definition sound_board :: "board \<Rightarrow> bool" where
  "sound_board b \<longleftrightarrow>
     acyclic (board_depends b) \<and> Range (board_depends b) \<subseteq> dom b \<and> ready_tasks b"

lemma same_immutable_deps: "same_immutable_fields p t \<Longrightarrow> at_dependency_ids t = at_dependency_ids p"
  unfolding same_immutable_fields_def
  by (drule arg_cong [of _ _ at_dependency_ids]) simp

lemma board_step_finished: "board_step b b' \<Longrightarrow> finished b d \<Longrightarrow> finished b' d"
  by (erule board_stepE) (auto simp: finished_def)

lemma board_step_ready:
  assumes "board_step b b'" "ready_tasks b"
  shows "ready_tasks b'"
  unfolding ready_tasks_def
proof (intro allI impI)
  fix tid t d
  assume t: "b' tid = Some t" "at_status t \<in> {READY, RUNNING}" "d \<in> set (at_dependency_ids t)"
  from assms(1) have "finished b d"
    by cases (use t assms(2) in \<open>auto simp: ready_tasks_def split: if_splits\<close>)
  with assms(1) show "finished b' d" by (rule board_step_finished)
qed

lemma acyclic_insert_source:
  assumes "acyclic r" "a \<notin> Range r" "a \<notin> D"
  shows "acyclic (r \<union> {a} \<times> D)"
proof (rule ccontr)
  assume "\<not> acyclic (r \<union> {a} \<times> D)"
  then obtain x where x: "(x, x) \<in> (r \<union> {a} \<times> D)\<^sup>+" by (auto simp: acyclic_def)
  have ran: "y \<noteq> a" if "(x, y) \<in> (r \<union> {a} \<times> D)\<^sup>+" for x y
    using that assms(2,3) by (induction rule: trancl_induct) auto
  have "(x, y) \<in> (r \<union> {a} \<times> D)\<^sup>+ \<Longrightarrow> x \<noteq> a \<Longrightarrow> (x, y) \<in> r\<^sup>+" for x y
  proof (induction rule: trancl_induct)
    case (step y z)
    then show ?case using ran [of x y] by (auto intro: trancl_into_trancl)
  qed auto
  with x ran [OF x] assms(1) show False by (auto simp: acyclic_def)
qed

lemma board_depends_transition:
  "b tid = Some p \<Longrightarrow> at_dependency_ids t = at_dependency_ids p \<Longrightarrow>
   board_depends (b(tid \<mapsto> t)) = board_depends b"
  by (auto simp: board_depends_def split: if_splits)

lemma board_depends_new:
  "b tid = None \<Longrightarrow> board_depends (b(tid \<mapsto> t)) = board_depends b \<union> {tid} \<times> set (at_dependency_ids t)"
  by (auto simp: board_depends_def split: if_splits)

lemma board_step_sound: "board_step b b' \<Longrightarrow> sound_board b \<Longrightarrow> sound_board b'"
proof (induction rule: board_step.induct)
  case (created b tid t)
  let ?b = "b(tid \<mapsto> t)"
  have st: "board_step b ?b" by (rule board_step.created) (use created in auto)
  have "acyclic (board_depends ?b)"
    using created acyclic_insert_source [of "board_depends b" tid "set (at_dependency_ids t)"]
    by (auto simp: board_depends_new sound_board_def)
  moreover have "Range (board_depends ?b) \<subseteq> dom ?b"
    using created by (auto simp: board_depends_new sound_board_def)
  moreover have "ready_tasks ?b"
    using created board_step_ready [OF st] by (simp add: sound_board_def)
  ultimately show ?case unfolding sound_board_def by blast
next
  case (transitioned b tid p t)
  let ?b = "b(tid \<mapsto> t)"
  have st: "board_step b ?b" by (rule board_step.transitioned) (use transitioned in auto)
  have eq: "board_depends ?b = board_depends b"
    using transitioned same_immutable_deps by (intro board_depends_transition) auto
  show ?case
    unfolding sound_board_def eq
    using transitioned board_step_ready [OF st] by (auto simp: sound_board_def)
qed

lemma board_run_sound: "board_run b n \<Longrightarrow> sound_board b"
proof (induction rule: board_run.induct)
  case start
  then show ?case by (simp add: sound_board_def board_depends_def ready_tasks_def acyclic_def)
qed (rule board_step_sound)

lemma board_step_terminal:
  "board_step b b' \<Longrightarrow> b tid = Some t \<Longrightarrow> at_status t \<in> {DONE, CANCELLED} \<Longrightarrow> b' tid = Some t"
  by (erule board_stepE) auto

inductive_simps board_run_0: "board_run b 0"
inductive_simps board_run_Suc: "board_run b (Suc n)"

section \<open>The ledger refines the board\<close>

definition ledger_view :: "task_env \<Rightarrow> fs \<Rightarrow> task_generation \<Rightarrow> board" where
  "ledger_view E fs g tid = (case map_of (tg_task_hashes g) tid of None \<Rightarrow> None
     | Some h \<Rightarrow> (case read_task E fs tid h of Inl _ \<Rightarrow> None | Inr t \<Rightarrow> Some t))"

definition loadable :: "task_env \<Rightarrow> fs \<Rightarrow> task_generation \<Rightarrow> bool" where
  "loadable E fs g \<longleftrightarrow>
     (\<forall>tid h. map_of (tg_task_hashes g) tid = Some h \<longrightarrow> is_ok (read_task E fs tid h))"

lemma read_task_sound:
  assumes "read_task E fs tid h = Inr t"
  shows "AgentTask_ok t" "at_task_id t = tid" "tid \<notin> set (at_dependency_ids t)"
  using assms
  by (auto simp: read_task_def result_simps make_AgentTask_def Let_def AgentTask_ok_def
      task_invariants_def bind_eq_Some_conv split: if_splits)

lemma ledger_view_dom: "loadable E fs g \<Longrightarrow> dom (ledger_view E fs g) = fst ` set (tg_task_hashes g)"
  unfolding dom_map_of_conv_image_fst [symmetric]
  by (fastforce simp: ledger_view_def loadable_def is_ok_iff split: option.splits sum.splits)

lemma changed_keys_same:
  assumes "changed_keys cur par = {x}" "k \<noteq> x" "fst ` set par \<subseteq> fst ` set cur"
  shows "map_of cur k = map_of par k"
proof (cases "k \<in> fst ` set cur")
  case True
  then have "map_of par k \<noteq> map_of cur k \<Longrightarrow> k \<in> changed_keys cur par" by (simp add: changed_keys_def)
  with assms(1,2) show ?thesis by (metis singletonD)
next
  case False
  with assms(3) show ?thesis by (metis map_of_eq_None_iff subsetD)
qed

lemma view_update:
  assumes "changed_keys (tg_task_hashes g) (tg_task_hashes p) = {tid}"
    "fst ` set (tg_task_hashes p) \<subseteq> fst ` set (tg_task_hashes g)"
    "map_of (tg_task_hashes g) tid = Some h" "read_task E fs tid h = Inr t"
  shows "ledger_view E fs g = (ledger_view E fs p)(tid \<mapsto> t)"
  using assms changed_keys_same [OF assms(1) _ assms(2)]
  by (auto simp: ledger_view_def fun_eq_iff)

lemma read_head_Inr:
  assumes "read_head E fs g es os is = Inr (e, t)"
  shows "tg_head_event_id g = Some (te_event_id e)" "read_event E fs (te_event_id e) = Inr e"
    "map_of (tg_task_hashes g) (te_task_id e) = Some (te_task_sha256 e)"
    "read_task E fs (te_task_id e) (te_task_sha256 e) = Inr t"
    "te_event_id e \<notin> set es" "te_operation_key e \<notin> set os" "te_idempotency_key e \<notin> set is"
    "tg_created_at g = te_created_at e"
  using assms by (auto simp: read_head_def result_simps read_event_def)

lemma root_step:
  assumes "read_head E fs g es os is = Inr (e, t)" "validate_root E g e t = Inr ()"
  shows "board_step Map.empty (ledger_view E fs g)"
proof -
  note h = read_head_Inr [OF assms(1)]
  from assms(2) have v: "length (tg_task_hashes g) = 1" "at_revision t = 1" "at_status t = INBOX"
      "at_dependency_ids t = []"
    by (auto simp: validate_root_def validate_created_event_def result_simps Let_def)
  from v(1) h(3) have al: "tg_task_hashes g = [(te_task_id e, te_task_sha256 e)]"
    by (cases "tg_task_hashes g") (auto split: if_splits)
  have "ledger_view E fs g = [te_task_id e \<mapsto> t]"
    using h(4) al by (auto simp: ledger_view_def fun_eq_iff)
  moreover have "board_step Map.empty [te_task_id e \<mapsto> t]"
    by (rule created) (use v read_task_sound [OF h(4)] in auto)
  ultimately show ?thesis by simp
qed

lemma dependency_done_view:
  assumes "rmap (dependency_done E fs g) ds = Inr us" "d \<in> set ds"
  shows "finished (ledger_view E fs g) d"
  using rmap_mem [OF assms]
  by (auto simp: dependency_done_def result_simps finished_def ledger_view_def)

lemma link_step:
  assumes "read_head E fs g es os is = Inr (e, t)" "validate_parent_link E fs g e t p = Inr ()"
    and "loadable E fs g"
  shows "loadable E fs p \<and> board_step (ledger_view E fs p) (ledger_view E fs g) \<and>
    tg_event_count g = tg_event_count p + 1"
proof -
  note h = read_head_Inr [OF assms(1)]
  let ?tid = "te_task_id e"
  from assms(2) have sub: "fst ` set (tg_task_hashes p) \<subseteq> fst ` set (tg_task_hashes g)"
    and ch: "changed_keys (tg_task_hashes g) (tg_task_hashes p) = {?tid}"
    and cnt: "tg_event_count g = tg_event_count p + 1"
    by (simp_all add: validate_parent_link_def result_simps)
  have view: "ledger_view E fs g = (ledger_view E fs p)(?tid \<mapsto> t)"
    by (rule view_update [OF ch sub h(3,4)])
  have self: "?tid \<notin> set (at_dependency_ids t)" "at_task_id t = ?tid"
    using read_task_sound [OF h(4)] by auto
  have others: "is_ok (read_task E fs k h')" if "map_of (tg_task_hashes p) k = Some h'" "k \<noteq> ?tid" for k h'
    using that assms(3) changed_keys_same [OF ch that(2) sub] by (auto simp: loadable_def)
  show ?thesis
  proof (cases "te_event_kind e = EV_CREATED")
    case True
    with assms(2) have c: "?tid \<notin> fst ` set (tg_task_hashes p)" "at_revision t = 1" "at_status t = INBOX"
        "set (at_dependency_ids t) \<subseteq> fst ` set (tg_task_hashes p)"
      by (auto simp: validate_parent_link_def validate_created_event_def result_simps Let_def)
    have none: "map_of (tg_task_hashes p) ?tid = None" using c(1) by (simp add: map_of_eq_None_iff)
    have load: "loadable E fs p" unfolding loadable_def using others none by (metis option.distinct(1))
    have "board_step (ledger_view E fs p) ((ledger_view E fs p)(?tid \<mapsto> t))"
      by (rule created) (use c none self ledger_view_dom [OF load] in \<open>auto simp: ledger_view_def\<close>)
    with view load cnt show ?thesis by simp
  next
    case False
    with assms(2) obtain ph prev where pr: "map_of (tg_task_hashes p) ?tid = Some ph"
        "read_task E fs ?tid ph = Inr prev" "at_revision t = at_revision prev + 1"
        "at_updated_at prev \<le> at_updated_at t"
        and vt: "validate_transition_event E fs e prev t g = Inr ()"
      by (auto simp: validate_parent_link_def result_simps not_less)
    have load: "loadable E fs p" unfolding loadable_def using others pr(1,2)
      by (metis is_ok_simps(2) option.inject)
    have deps: "finished (ledger_view E fs p) d"
      if "at_status t \<in> {READY, RUNNING}" "d \<in> set (at_dependency_ids t)" for d
    proof -
      have "finished (ledger_view E fs g) d"
        using vt that by (auto simp: validate_transition_event_def result_simps intro: dependency_done_view)
      moreover have "d \<noteq> ?tid" using self(1) that(2) by blast
      ultimately show ?thesis using view by (simp add: finished_def)
    qed
    have "board_step (ledger_view E fs p) ((ledger_view E fs p)(?tid \<mapsto> t))"
    proof (rule transitioned)
      show "ledger_view E fs p ?tid = Some prev" using pr by (simp add: ledger_view_def)
      show "at_status t \<in> transitions (at_status prev)" "same_immutable_fields prev t"
        using vt by (auto simp: validate_transition_event_def result_simps)
    qed (use pr deps in auto)
    with view load cnt show ?thesis by simp
  qed
qed

lemma closure_loop_run:
  "closure_loop E fs g gs es os is n = Inr m \<Longrightarrow> loadable E fs g \<Longrightarrow>
   n < m \<and> board_run (ledger_view E fs g) (m - n)"
proof (induction E fs g gs es os "is" n rule: closure_loop.induct)
  case (1 E fs g gs es os "is" n)
  from "1.prems"(1) obtain e parent where st: "\<not> (tg_generation_id g \<in> set gs \<or> max_events \<le> n)"
      "closure_step E fs g es os is = Inr (e, parent)"
    by (subst (asm) closure_loop.simps) (auto simp: result_simps split: if_splits)
  from st(2) obtain t where head: "read_head E fs g es os is = Inr (e, t)"
    by (auto simp: closure_step_def result_simps split: option.splits)
  show ?case
  proof (cases parent)
    case None
    with st(2) head have "validate_root E g e t = Inr ()"
      by (auto simp: closure_step_def result_simps split: option.splits)
    from root_step [OF head this] have "board_run (ledger_view E fs g) (Suc 0)"
      by (rule board_run.step [OF board_run.start])
    moreover have "m = Suc n"
      using "1.prems"(1) st None by (subst (asm) closure_loop.simps) auto
    ultimately show ?thesis by (simp add: Suc_diff_le)
  next
    case (Some p)
    with st(2) head have "validate_parent_link E fs g e t p = Inr ()"
      by (auto simp: closure_step_def result_simps split: option.splits)
    from link_step [OF head this "1.prems"(2)]
    have ls: "loadable E fs p" "board_step (ledger_view E fs p) (ledger_view E fs g)" by auto
    have "closure_loop E fs p (tg_generation_id g # gs) (te_event_id e # es)
        (te_operation_key e # os) (te_idempotency_key e # is) (Suc n) = Inr m"
      using "1.prems"(1) st Some by (subst (asm) closure_loop.simps) auto
    then have "Suc n < m \<and> board_run (ledger_view E fs p) (m - Suc n)"
      by (rule "1.IH" [rotated 1]) (use st Some ls in auto)
    with board_run.step [OF _ ls(2), of "m - Suc n"] show ?thesis by (simp add: Suc_diff_Suc)
  qed
qed

lemma load_tasks_loadable: "load_tasks E fs (Some g) = Inr ts \<Longrightarrow> loadable E fs g"
  unfolding load_tasks_def loadable_def
  by (auto simp: load_entry_def result_simps is_ok_iff dest!: rmap_mem map_of_SomeD)

lemma validate_generation_closure_run:
  assumes "validate_generation_closure E fs g = Inr ()"
  shows "board_run (ledger_view E fs g) (nat (tg_event_count g))"
proof -
  from assms obtain ts steps where c: "load_tasks E fs (Some g) = Inr ts"
      "closure_loop E fs g [] [] [] [] 0 = Inr steps" "int steps = tg_event_count g"
    by (auto simp: validate_generation_closure_def result_simps)
  from c(3) have "steps = nat (tg_event_count g)" by simp
  with closure_loop_run [OF c(2) load_tasks_loadable [OF c(1)]] show ?thesis by simp
qed

end
