(* ===== verification/Ledger_Commands.thy ===== *)
theory Ledger_Commands
  imports Task_Board
begin

text \<open>
  The commands of the task service: what a command does to the workspace whether it succeeds or
  fails, that a committed command is one step of the abstract board, and that repeating a committed
  command finds its event again. The hypotheses on the environment are \<open>sound_env\<close> (the digest is
  written as 64 hexadecimal digits, stripping leaves identifiers and digests alone) and, where a
  result is read back, that the new generation file decodes with its timestamp.
\<close>

section \<open>Commands and the workspace\<close>

lemma publish_private_Inr:
  assumes "publish_private fs path data = Inr fs'"
  shows "preserved fs fs'" "fs' path = Some (Regular data 0 0)" "p \<noteq> path \<Longrightarrow> fs' p = fs p"
  using assms publish_immutable_preserved publish_immutable_content publish_immutable_other
  by (auto simp: publish_private_def result_simps)

lemma ledger_paths_not_pointer [simp]:
  "task_path h \<noteq> pointer_path" "event_path i \<noteq> pointer_path" "board_path j \<noteq> pointer_path"
  by (simp_all add: task_path_def event_path_def board_path_def pointer_path_def)

lemmas pointer_not_ledger_path [simp] = ledger_paths_not_pointer [symmetric]

text \<open>What a command may do: keep every file, and move the pointer only when it succeeds.\<close>

definition command_frame :: "fs \<Rightarrow> task_command_result command \<Rightarrow> bool" where
  "command_frame fs c \<longleftrightarrow> ledger_ext fs (snd c) \<and>
     (case fst c of
        Inl e \<Rightarrow> snd c pointer_path = fs pointer_path \<and> preserved fs (snd c)
      | Inr res \<Rightarrow> if tr_no_op res then snd c = fs
          else snd c pointer_path = Some (Regular (tr_generation_id res @ [CHR 0x0A]) 0 0))"

lemma command_frame_after:
  assumes "command_frame fs1 c" "preserved fs fs1" "fs1 pointer_path = fs pointer_path"
    and "\<And>res. fst c = Inr res \<Longrightarrow> \<not> tr_no_op res"
  shows "command_frame fs c"
  using assms ledger_ext_trans [OF ledger_ext_preserved] preserved_trans
  by (auto simp: command_frame_def split: sum.splits)

lemma command_frame_fail [simp]: "command_frame fs (Inl e, fs)"
  by (simp add: command_frame_def)

lemma commit_pointer_frame: "command_frame fs (commit_pointer E fs g t e n)"
  by (auto simp: commit_pointer_def command_frame_def write_bytes_atomic_Inr ledger_ext_pointer
      split: sum.splits)

lemma commit_pointer_fresh: "fst (commit_pointer E fs g t e n) = Inr res \<Longrightarrow> \<not> tr_no_op res"
  by (auto simp: commit_pointer_def split: sum.splits if_splits)

lemma commit_generation_fresh: "fst (commit_generation E fs g t e ts) = Inr res \<Longrightarrow> \<not> tr_no_op res"
  by (auto simp: commit_generation_def Let_def commit_pointer_fresh
      split: sum.splits if_splits option.splits)

lemma commit_generation_frame: "command_frame fs (commit_generation E fs g t e ts)"
proof -
  have "command_frame fs (commit_pointer E fs' g t e n)"
    if "publish_private fs (board_path i) d = Inr fs'" for fs' i d n
    by (rule command_frame_after [OF commit_pointer_frame])
      (use publish_private_Inr [OF that] commit_pointer_fresh in auto)
  then show ?thesis
    by (auto simp: commit_generation_def Let_def split: option.splits sum.splits)
qed

lemma commit_fresh: "fst (commit E fs g t k ok ik a ts ph st) = Inr res \<Longrightarrow> \<not> tr_no_op res"
  by (auto simp: commit_def Let_def commit_generation_fresh split: sum.splits option.splits)

lemma commit_frame: "command_frame fs (commit E fs g t k ok ik a ts ph st)"
proof (cases "publish_private fs (task_path (sha256_hex (env_sha E) (json_bytes (task_json t))))
    (json_bytes (task_json t))")
  case (Inr fs1)
  note p1 = publish_private_Inr [OF Inr]
  have "command_frame fs1 (commit_generation E fs2 g t e ts)"
    if "publish_private fs1 (event_path i) d = Inr fs2" for fs2 i d e
    by (rule command_frame_after [OF commit_generation_frame])
      (use publish_private_Inr [OF that] commit_generation_fresh in auto)
  then have "command_frame fs1 (case build_event E g t k ok ik a ts ph st of
         None \<Rightarrow> (Inl TaskValidationError, fs1)
       | Some event \<Rightarrow>
         (case publish_private fs1 (event_path (te_event_id event)) (json_bytes (event_json event)) of
            Inl e \<Rightarrow> (Inl e, fs1)
          | Inr fs2 \<Rightarrow> commit_generation E fs2 g t event ts))"
    by (auto split: option.splits sum.splits)
  then have "command_frame fs1 (commit E fs g t k ok ik a ts ph st)"
    using Inr by (simp add: commit_def Let_def)
  then show ?thesis
    by (rule command_frame_after) (use p1 commit_fresh in auto)
qed (simp add: commit_def Let_def)

lemma result_for_event_no_op: "result_for_event E fs g e b = Inr res \<Longrightarrow> tr_no_op res = b"
  by (auto simp: result_for_event_def result_simps)

lemma check_create_replay:
  "check_create E fs r ts s i k = Inr (Inl res) \<Longrightarrow> tr_no_op res"
  by (auto simp: check_create_def result_simps dest: result_for_event_no_op split: option.splits)

lemma check_transition_replay:
  "check_transition E fs r ts i k = Inr (Inl res) \<Longrightarrow> tr_no_op res"
  by (auto simp: check_transition_def result_simps dest: result_for_event_no_op split: option.splits)

lemma create_task_frame: "command_frame fs (create_task E fs r)"
  by (auto simp: create_task_def commit_frame split: sum.splits)
    (simp add: command_frame_def check_create_replay)

lemma transition_task_frame: "command_frame fs (transition_task E fs r)"
  by (auto simp: transition_task_def commit_frame split: sum.splits)
    (simp_all add: command_frame_def check_transition_replay)

section \<open>Replaying a command\<close>

text \<open>The stages a successful commit went through.\<close>

lemma commit_Inr:
  assumes "commit E fs g t k ok ik a ts ph st = (Inr res, fs')"
  obtains fs1 fs2 fs3 event n where
    "build_event E g t k ok ik a ts ph st = Some event"
    "build_generation E g t event ts = Some n"
    "publish_private fs (task_path (sha256_hex (env_sha E) (json_bytes (task_json t))))
       (json_bytes (task_json t)) = Inr fs1"
    "publish_private fs1 (event_path (te_event_id event)) (json_bytes (event_json event)) = Inr fs2"
    "publish_private fs2 (board_path (tg_generation_id n)) (json_bytes (generation_json n)) = Inr fs3"
    "length (json_bytes (generation_json n)) \<le> max_generation_bytes"
    "validate_generation_closure E fs3 n = Inr ()"
    "read_current_generation E fs3 = Inr g"
    "fs' = fs3(pointer_path \<mapsto> Regular (tg_generation_id n @ [CHR 0x0A]) 0 0)"
    "res = \<lparr>tr_generation_id = tg_generation_id n,
            tr_generation_sha256 = generation_manifest_sha256 (env_sha E) n,
            tr_event_id = te_event_id event, tr_task = t, tr_no_op = False\<rparr>"
  using assms unfolding commit_def commit_generation_def commit_pointer_def Let_def
  by (auto simp: write_bytes_atomic_Inr split: sum.splits option.splits if_splits)

lemma jnorm_jopt_str: "jnorm (jopt JStr x) = jnorm (jopt JStr y) \<longleftrightarrow> x = y"
  by (cases x; cases y) (auto simp: jopt_def)

lemma jnorm_str_dict:
  assumes "sorted_wrt (<) (map fst al)"
  shows "jnorm (JObj (map (map_prod id JStr) al)) = JObj (map (map_prod id JStr) al)"
proof -
  have "map (map_prod id jnorm) (map (map_prod id JStr) al) = map (map_prod id JStr) al"
    by (auto simp: map_prod_def)
  moreover have "sorted (map fst (map (map_prod id JStr) al))"
    using assms strict_sorted_iff by (auto simp: comp_def)
  ultimately show ?thesis by (metis jnorm.simps(6) sort_key_id_if_sorted)
qed

lemma map_prod_JStr_inject: "map (map_prod id JStr) a = map (map_prod id JStr) b \<longleftrightarrow> a = b"
  by (rule inj_map_eq_map) (auto simp: inj_def)

lemma wf_str_dict: "dict_ok P Q al \<Longrightarrow> wf_json (JObj (map (map_prod id JStr) al))"
  using dict_ok_distinct [of P Q al] by (auto simp: comp_def list_all_iff)

lemma wf_jopt [simp]: "(\<And>y. wf_json (f y)) \<Longrightarrow> wf_json (jopt f x)"
  by (cases x) (auto simp: jopt_def)

lemma generation_json_wf:
  assumes "TaskBoardGeneration_ok g"
  shows "wf_json (generation_json (g\<lparr>tg_generation_id := i\<rparr>))"
  using assms wf_str_dict [of _ _ "tg_task_hashes g"] wf_str_dict [of _ _ "tg_latest_event_ids g"]
  by (auto simp: generation_json_def generation_fields_def versioned_fields_def
      TaskBoardGeneration_ok_def versioned_ok_def)

lemma generation_json_inject:
  assumes "TaskBoardGeneration_ok a" "TaskBoardGeneration_ok b" "extensions b = []"
    and eq: "json_bytes (generation_json a) = json_bytes (generation_json (b\<lparr>tg_generation_id := i\<rparr>))"
    and time: "tg_created_at a = tg_created_at b"
  shows "a = b\<lparr>tg_generation_id := i\<rparr>"
proof -
  have wf: "wf_json (generation_json a)" "wf_json (generation_json (b\<lparr>tg_generation_id := i\<rparr>))"
    using generation_json_wf [OF assms(1), of "tg_generation_id a"] generation_json_wf [OF assms(2)] by auto
  note field = json_field_eq [OF wf [unfolded generation_json_def] eq [unfolded generation_json_def],
      unfolded generation_fields_def versioned_fields_def]
  have d: "sorted_wrt (<) (map fst (tg_task_hashes g)) \<and> sorted_wrt (<) (map fst (tg_latest_event_ids g))"
    if "TaskBoardGeneration_ok g" for g
    using that by (auto simp: TaskBoardGeneration_ok_def dict_ok_def)
  have "tg_generation_id a = i" using field [of "''generation_id''"] by simp
  moreover have "schema_name a = schema_name b" using field [of "''schema_name''"] by simp
  moreover have "schema_version a = schema_version b" using field [of "''schema_version''"] by simp
  moreover have "id_scheme_version a = id_scheme_version b"
    using field [of "''id_scheme_version''"] by simp
  moreover have "extensions a = extensions b"
    using field [of "''extensions''"] assms(3)
    by (auto dest: arg_cong [of _ _ length])
  moreover have "tg_parent_generation_id a = tg_parent_generation_id b"
    using field [of "''parent_generation_id''"] by (simp add: jnorm_jopt_str)
  moreover have "tg_parent_generation_sha256 a = tg_parent_generation_sha256 b"
    using field [of "''parent_generation_sha256''"] by (simp add: jnorm_jopt_str)
  moreover have "tg_head_event_id a = tg_head_event_id b"
    using field [of "''head_event_id''"] by (simp add: jnorm_jopt_str)
  moreover have "tg_event_count a = tg_event_count b"
    using field [of "''event_count''"] by simp
  moreover have "tg_task_hashes a = tg_task_hashes b"
    using field [of "''task_hashes''"] d [OF assms(1)] d [OF assms(2)]
    by (simp add: jnorm_str_dict map_prod_JStr_inject del: jnorm.simps)
  moreover have "tg_latest_event_ids a = tg_latest_event_ids b"
    using field [of "''latest_event_ids''"] d [OF assms(1)] d [OF assms(2)]
    by (simp add: jnorm_str_dict map_prod_JStr_inject del: jnorm.simps)
  ultimately show ?thesis using time by simp
qed

lemma event_json_wf: "TaskEvent_ok e \<Longrightarrow> wf_json (event_json (e\<lparr>te_event_id := i\<rparr>))"
  by (auto simp: event_json_def event_fields_def versioned_fields_def TaskEvent_ok_def versioned_ok_def)

lemma event_json_fields:
  assumes "TaskEvent_ok a" "TaskEvent_ok b"
    and eq: "json_bytes (event_json a) = json_bytes (event_json (b\<lparr>te_event_id := i\<rparr>))"
  shows "te_event_id a = i" "te_operation_key a = te_operation_key b"
    "te_idempotency_key a = te_idempotency_key b" "te_task_id a = te_task_id b"
    "te_task_sha256 a = te_task_sha256 b" "te_previous_event_id a = te_previous_event_id b"
proof -
  have wf: "wf_json (event_json a)" "wf_json (event_json (b\<lparr>te_event_id := i\<rparr>))"
    using event_json_wf [OF assms(1), of "te_event_id a"] event_json_wf [OF assms(2)] by auto
  note field = json_field_eq [OF wf [unfolded event_json_def] eq [unfolded event_json_def],
      unfolded event_fields_def versioned_fields_def]
  show "te_event_id a = i" using field [of "''event_id''"] by simp
  show "te_operation_key a = te_operation_key b" using field [of "''operation_key''"] by simp
  show "te_idempotency_key a = te_idempotency_key b" using field [of "''idempotency_key''"] by simp
  show "te_task_id a = te_task_id b" using field [of "''task_id''"] by simp
  show "te_task_sha256 a = te_task_sha256 b" using field [of "''task_sha256''"] by simp
  show "te_previous_event_id a = te_previous_event_id b"
    using field [of "''previous_event_id''"] by (simp add: jnorm_jopt_str)
qed

section \<open>Identifiers and the paths they name\<close>

lemma sha_char:
  assumes "is_Sha256 s" "c \<in> set s"
  shows "lower_letter c \<or> decimal_digit c" "(of_char c :: nat) < 128" "\<not> py_isspace c"
    "c \<noteq> CHR ''/''" "c \<noteq> CHR 0x00" "c \<noteq> CHR 0x5C"
proof -
  have c: "decimal_digit c \<or> c \<in> set ''abcdef''"
    using assms by (auto simp: is_Sha256_def list_all_iff)
  show "lower_letter c \<or> decimal_digit c" "(of_char c :: nat) < 128" "\<not> py_isspace c"
      "c \<noteq> CHR ''/''" "c \<noteq> CHR 0x00" "c \<noteq> CHR 0x5C"
    using c by (auto simp: lower_letter_def decimal_digit_def py_isspace_def Let_def)
qed

lemma is_Identifier_sha:
  assumes "is_Sha256 s" "k \<in> {''op'', ''idem'', ''task'', ''tevt'', ''tgen''}"
  shows "is_Identifier (k @ ''_'' @ s)"
proof -
  have "list_all (\<lambda>x. lower_letter x \<or> decimal_digit x \<or> x \<in> set ''_:.@/-'') s"
    using sha_char(1) [OF assms(1)] by (auto simp: list_all_iff)
  moreover have "length s = 64" using assms(1) by (simp add: is_Sha256_def)
  ultimately show ?thesis
    using assms(2) by (auto simp: is_Identifier_def lower_letter_def)
qed

lemma sha_file_parts:
  assumes "is_Sha256 h"
  shows "lexical_relative root (''ops/task-ledger/generations/tgen_'' @ h @ ''.json'') =
      Inr [''ops'', ''task-ledger'', ''generations'', ''tgen_'' @ h @ ''.json'']" (is ?gen)
    and "lexical_relative root (''ops/task-ledger/events/tevt_'' @ h @ ''.json'') =
      Inr [''ops'', ''task-ledger'', ''events'', ''tevt_'' @ h @ ''.json'']" (is ?ev)
proof -
  let ?f = "''tgen_'' @ h @ ''.json''" and ?e = "''tevt_'' @ h @ ''.json''"
  have nz: "CHR ''/'' \<notin> set h" "CHR 0x00 \<notin> set h" "CHR 0x5C \<notin> set h"
    using sha_char [OF assms] by blast+
  have "splitc (CHR ''/'') ?f = [?f]" "splitc (CHR ''/'') ?e = [?e]"
    using nz by (intro splitc_single; simp)+
  then have parts:
      "posix_parts (''ops/task-ledger/generations/'' @ ?f) = [''ops'', ''task-ledger'', ''generations'', ?f]"
      "posix_parts (''ops/task-ledger/events/'' @ ?e) = [''ops'', ''task-ledger'', ''events'', ?e]"
    by (simp_all add: posix_parts_def)
  show ?gen using nz parts(1) by (simp add: lexical_relative_def contained_parts_def Let_def)
  show ?ev using nz parts(2) by (simp add: lexical_relative_def contained_parts_def Let_def)
qed

lemma task_file_parts:
  assumes "is_Sha256 h"
  shows "lexical_relative root (task_path h) =
    Inr [''ops'', ''task-ledger'', ''objects'', ''sha256'', take 2 h, h @ ''.json'']"
proof -
  have nz: "CHR ''/'' \<notin> set h" "CHR 0x00 \<notin> set h" "CHR 0x5C \<notin> set h"
    using sha_char [OF assms] by blast+
  then have t: "CHR ''/'' \<notin> set (take 2 h)" "CHR 0x00 \<notin> set (take 2 h)" "CHR 0x5C \<notin> set (take 2 h)"
    by (auto dest: in_set_takeD)
  have len: "length h = 64" using assms by (simp add: is_Sha256_def)
  have dots: "take 2 h \<noteq> []" "take 2 h \<noteq> ''.''" "take 2 h \<noteq> ''..''"
  proof -
    show "take 2 h \<noteq> []" "take 2 h \<noteq> ''.''" using len by (auto dest: arg_cong [of _ _ length])
    show "take 2 h \<noteq> ''..''"
    proof
      assume "take 2 h = ''..''"
      then have "CHR ''.'' \<in> set h" by (metis in_set_takeD list.set_intros(1))
      from sha_char(1) [OF assms this] show False by (simp add: lower_letter_def decimal_digit_def)
    qed
  qed
  have "splitc (CHR ''/'') (take 2 h @ CHR ''/'' # h @ ''.json'') = [take 2 h, h @ ''.json'']"
    using nz t by (simp add: splitc_append_sep splitc_single)
  with dots len have "posix_parts (''ops/task-ledger/objects/sha256/'' @ take 2 h @ ''/'' @ h @ ''.json'') =
      [''ops'', ''task-ledger'', ''objects'', ''sha256'', take 2 h, h @ ''.json'']"
    by (auto simp: posix_parts_def)
  with nz t dots len show ?thesis
    by (auto simp: lexical_relative_def contained_parts_def Let_def task_path_def)
qed

lemma read_task_same_bytes:
  assumes "read_task E fs tid h = Inr t" "fs (task_path h) = Some (Regular d 0 0)" "is_Sha256 h"
  shows "d = json_bytes (task_json t)"
proof -
  have "joins ''/'' [''ops'', ''task-ledger'', ''objects'', ''sha256'', take 2 h, h @ ''.json''] = task_path h"
    by (simp add: task_path_def)
  with task_file_parts [OF assms(3)] assms(1,2) show ?thesis
    by (auto simp: read_task_def result_simps read_regular_file_Inr_iff)
qed

lemma pointer_line:
  assumes "is_Sha256 h" "gid = ''tgen_'' @ h"
  shows "ascii_decode (gid @ [CHR 0x0A]) = Some (gid @ [CHR 0x0A])" "py_strip (gid @ [CHR 0x0A]) = gid"
    "starts_with gid ''tgen_''" "length (gid @ [CHR 0x0A]) \<le> 512"
proof -
  have "h \<noteq> []" "length h = 64" using assms(1) by (auto simp: is_Sha256_def)
  then have "\<not> py_isspace (last gid)" using sha_char(3) [OF assms(1), of "last h"] assms(2) by simp
  moreover have "\<not> py_isspace (hd gid)" using assms(2) by (simp add: py_isspace_def)
  ultimately show "py_strip (gid @ [CHR 0x0A]) = gid"
    using assms(2) by (intro py_strip_append_newline) auto
  show "ascii_decode (gid @ [CHR 0x0A]) = Some (gid @ [CHR 0x0A])"
    using assms(2) sha_char(2) [OF assms(1)] by (auto simp: ascii_decode_def list_all_iff)
qed (use assms in \<open>auto simp: starts_with_def is_Sha256_def\<close>)

lemma read_pointer:
  assumes "fs pointer_path = Some (Regular d 0 0)" "length d \<le> 512"
  shows "read_regular_file root fs pointer_path 512 = Inr d"
proof -
  have "lexical_relative root pointer_path = Inr [''ops'', ''task-ledger'', ''CURRENT'']"
    by (simp add: lexical_relative_def contained_parts_def Let_def pointer_path_def posix_parts_def)
  moreover have "joins ''/'' [''ops'', ''task-ledger'', ''CURRENT''] = pointer_path"
    by (simp add: pointer_path_def)
  ultimately show ?thesis using assms by (auto simp: read_regular_file_Inr_iff)
qed

lemma read_current_generation_at:
  assumes "is_Sha256 h" "gid = ''tgen_'' @ h" "fs pointer_path = Some (Regular (gid @ [CHR 0x0A]) 0 0)"
    and "read_generation E fs gid = Inr g" "validate_generation_closure E fs g = Inr ()"
  shows "read_current_generation E fs = Inr (Some g)"
  unfolding read_current_generation_def
  using assms(3-5) pointer_line [OF assms(1,2)] read_pointer [of fs "gid @ [CHR 0x0A]"] by simp

section \<open>The board after a commit\<close>

definition sound_env :: "task_env \<Rightarrow> bool" where
  "sound_env E \<longleftrightarrow> (\<forall>b. is_Sha256 (env_sha E b)) \<and> (\<forall>s. is_Identifier s \<or> is_Sha256 s \<longrightarrow> env_strip E s = s)"

lemma make_generation_ok: "make_TaskBoardGeneration s g = Some g' \<Longrightarrow> TaskBoardGeneration_ok g'"
  by (auto simp: make_TaskBoardGeneration_def Let_def split: if_splits)

lemma make_event_ok: "make_TaskEvent s e = Some e' \<Longrightarrow> TaskEvent_ok e' \<and> e' = strip_event s e"
  by (auto simp: make_TaskEvent_def Let_def split: if_splits)

lemma read_generation_ok: "read_generation E fs i = Inr g \<Longrightarrow> TaskBoardGeneration_ok g"
  by (auto simp: read_generation_def result_simps bind_eq_Some_conv dest: make_generation_ok)

lemma read_event_ok: "read_event E fs i = Inr e \<Longrightarrow> TaskEvent_ok e"
  by (auto simp: read_event_def result_simps bind_eq_Some_conv dest: make_event_ok)

lemma build_generation_Some:
  assumes "build_generation E g t event ts = Some n"
  obtains seed where "TaskBoardGeneration_ok seed" "n = seed\<lparr>tg_generation_id := tg_generation_id n\<rparr>"
    "tg_generation_id n = derive_id (env_sha E) ''tgen'' (generation_identity_payload seed)"
    "extensions seed = []" "tg_created_at seed = ts"
    "tg_head_event_id n = Some (env_strip E (te_event_id event))"
  using assms unfolding build_generation_def make_TaskBoardGeneration_def
  by (auto simp: Let_def strip_generation_def split: if_splits)

lemma build_generation_parent:
  "build_generation E g t event ts = Some n \<Longrightarrow>
   tg_parent_generation_id n = map_option (\<lambda>p. env_strip E (tg_generation_id p)) g"
  unfolding build_generation_def make_TaskBoardGeneration_def
  by (auto simp: Let_def strip_generation_def option.map_comp comp_def split: if_splits)

lemma build_event_Some:
  assumes "build_event E g t k ok ik a ts ph st = Some event"
  obtains seed where "TaskEvent_ok seed" "event = seed\<lparr>te_event_id := te_event_id event\<rparr>"
    "te_event_id event = derive_id (env_sha E) ''tevt'' (event_identity_payload seed)"
    "te_operation_key seed = env_strip E ok" "te_idempotency_key seed = env_strip E ik"
    "te_task_id seed = env_strip E (at_task_id t)"
    "te_task_sha256 seed = env_strip E (sha256_hex (env_sha E) (json_bytes (task_json t)))"
  using assms unfolding build_event_def make_TaskEvent_def
  by (auto simp: Let_def strip_event_def split: if_splits)

lemma sound_env_id:
  assumes "sound_env E" "k \<in> {''op'', ''idem'', ''task'', ''tevt'', ''tgen''}"
  shows "is_Identifier (derive_id (env_sha E) k v)" "env_strip E (derive_id (env_sha E) k v) = derive_id (env_sha E) k v"
proof -
  show "is_Identifier (derive_id (env_sha E) k v)"
    unfolding derive_id_def sha256_hex_def
    by (rule is_Identifier_sha) (use assms in \<open>simp_all add: sound_env_def\<close>)
  then show "env_strip E (derive_id (env_sha E) k v) = derive_id (env_sha E) k v"
    using assms(1) by (simp add: sound_env_def)
qed

text \<open>
  The next three lemmas follow a commit whose generation file decodes with its timestamp: the
  generation is the one the pointer names, its head event carries the operation key of the command,
  and a lookup of that key finds the event and rebuilds the result.
\<close>

lemma commit_current:
  assumes env: "sound_env E" and com: "commit E fs g t k ok ik a ts ph st = (Inr res, fs')"
    and rb: "read_generation E fs' (tr_generation_id res) = Inr n'" "tg_created_at n' = ts"
  shows "read_current_generation E fs' = Inr (Some n')"
    "validate_generation_closure E fs' n' = Inr ()"
    "tr_generation_id res = tg_generation_id n'"
    "tr_generation_sha256 res = generation_manifest_sha256 (env_sha E) n'"
    "tg_head_event_id n' = Some (tr_event_id res)" "tr_task res = t"
    "tg_parent_generation_id n' = map_option (\<lambda>p. env_strip E (tg_generation_id p)) g"
proof -
  from com obtain fs1 fs2 fs3 event n where c:
      "build_event E g t k ok ik a ts ph st = Some event" "build_generation E g t event ts = Some n"
      "publish_private fs2 (board_path (tg_generation_id n)) (json_bytes (generation_json n)) = Inr fs3"
      "validate_generation_closure E fs3 n = Inr ()"
      "fs' = fs3(pointer_path \<mapsto> Regular (tg_generation_id n @ [CHR 0x0A]) 0 0)"
      "res = \<lparr>tr_generation_id = tg_generation_id n,
            tr_generation_sha256 = generation_manifest_sha256 (env_sha E) n,
            tr_event_id = te_event_id event, tr_task = t, tr_no_op = False\<rparr>"
    by (rule commit_Inr) blast
  obtain seed where seed: "TaskBoardGeneration_ok seed" "n = seed\<lparr>tg_generation_id := tg_generation_id n\<rparr>"
      "tg_generation_id n = derive_id (env_sha E) ''tgen'' (generation_identity_payload seed)"
      "extensions seed = []" "tg_created_at seed = ts"
      "tg_head_event_id n = Some (env_strip E (te_event_id event))"
    by (rule build_generation_Some [OF c(2)])
  obtain ev where ev: "te_event_id event = derive_id (env_sha E) ''tevt'' (event_identity_payload ev)"
    by (rule build_event_Some [OF c(1)])
  obtain h where h: "is_Sha256 h" "tg_generation_id n = ''tgen_'' @ h"
    using seed(3) env by (auto simp: derive_id_def sha256_hex_def sound_env_def)
  have bytes: "json_bytes (generation_json n') = json_bytes (generation_json n)"
  proof -
    have "fs' (board_path (tg_generation_id n)) = Some (Regular (json_bytes (generation_json n)) 0 0)"
      using publish_private_Inr(2) [OF c(3)] c(5) by simp
    moreover have "joins ''/'' [''ops'', ''task-ledger'', ''generations'', ''tgen_'' @ h @ ''.json''] =
        board_path (tg_generation_id n)"
      using h by (simp add: board_path_def)
    moreover have "lexical_relative root (board_path (tg_generation_id n)) =
        Inr [''ops'', ''task-ledger'', ''generations'', ''tgen_'' @ h @ ''.json'']" for root
      using sha_file_parts(1) [OF h(1), of root] h(2) by (simp add: board_path_def)
    ultimately show ?thesis
      using rb(1) c(6) by (auto simp: read_generation_def result_simps read_regular_file_Inr_iff)
  qed
  have n': "n' = n"
    using generation_json_inject [OF read_generation_ok [OF rb(1)] seed(1,4), of "tg_generation_id n"]
      bytes seed(2,5) rb(2) by simp
  have ext: "ledger_ext fs3 fs'" unfolding c(5) by (rule ledger_ext_pointer)
  show closure: "validate_generation_closure E fs' n' = Inr ()"
    unfolding n' by (rule validate_generation_closure_ext [OF c(4) ext])
  show "read_current_generation E fs' = Inr (Some n')"
    by (rule read_current_generation_at [OF h _ _ closure]) (use rb(1) c(5,6) n' in auto)
  show "tg_head_event_id n' = Some (tr_event_id res)"
    using n' seed(6) ev env c(6) sound_env_id by simp
  show "tr_generation_id res = tg_generation_id n'"
    "tr_generation_sha256 res = generation_manifest_sha256 (env_sha E) n'" "tr_task res = t"
    using c(6) n' by simp_all
  show "tg_parent_generation_id n' = map_option (\<lambda>p. env_strip E (tg_generation_id p)) g"
    using build_generation_parent [OF c(2)] n' by simp
qed

lemma closure_head:
  assumes "validate_generation_closure E fs g = Inr ()"
  obtains e t where "read_head E fs g [] [] [] = Inr (e, t)"
proof -
  from assms obtain steps where "closure_loop E fs g [] [] [] [] 0 = Inr steps"
    by (auto simp: validate_generation_closure_def result_simps)
  then have "\<exists>e t. read_head E fs g [] [] [] = Inr (e, t)"
    by (subst (asm) closure_loop.simps) (auto simp: closure_step_def result_simps split: if_splits)
  with that show thesis by blast
qed

lemma read_event_same_bytes:
  assumes "read_event E fs i = Inr e" "fs (event_path i) = Some (Regular d 0 0)"
    and "is_Sha256 h" "i = ''tevt_'' @ h"
  shows "d = json_bytes (event_json e)"
proof -
  have "lexical_relative root (event_path i) = Inr [''ops'', ''task-ledger'', ''events'', i @ ''.json'']" for root
    using sha_file_parts(2) [OF assms(3), of root] assms(4) by (simp add: event_path_def)
  moreover have "joins ''/'' [''ops'', ''task-ledger'', ''events'', i @ ''.json''] = event_path i"
    by (simp add: event_path_def)
  ultimately show ?thesis
    using assms(1,2) by (auto simp: read_event_def result_simps read_regular_file_Inr_iff)
qed

text \<open>The head event of the new board is the event of the command, and its task the task committed.\<close>

lemma commit_head:
  assumes env: "sound_env E" and com: "commit E fs g t k ok ik a ts ph st = (Inr res, fs')"
    and rd: "read_event E fs' (tr_event_id res) = Inr e"
    and rt: "read_task E fs' (te_task_id e) (te_task_sha256 e) = Inr t'"
    and key: "is_Identifier ok" "is_Identifier ik"
  shows "te_operation_key e = ok" "te_idempotency_key e = ik"
    "json_bytes (task_json t') = json_bytes (task_json t)"
proof -
  let ?sha = "sha256_hex (env_sha E) (json_bytes (task_json t))"
  from com obtain fs1 fs2 fs3 event n where c:
      "build_event E g t k ok ik a ts ph st = Some event"
      "publish_private fs1 (event_path (te_event_id event)) (json_bytes (event_json event)) = Inr fs2"
      "publish_private fs2 (board_path (tg_generation_id n)) (json_bytes (generation_json n)) = Inr fs3"
      "fs' = fs3(pointer_path \<mapsto> Regular (tg_generation_id n @ [CHR 0x0A]) 0 0)"
      "tr_event_id res = te_event_id event"
      "publish_private fs (task_path ?sha) (json_bytes (task_json t)) = Inr fs1"
    by (rule commit_Inr) auto
  obtain seed where ev: "TaskEvent_ok seed" "event = seed\<lparr>te_event_id := te_event_id event\<rparr>"
      "te_event_id event = derive_id (env_sha E) ''tevt'' (event_identity_payload seed)"
      "te_operation_key seed = env_strip E ok" "te_idempotency_key seed = env_strip E ik"
      "te_task_sha256 seed = env_strip E ?sha"
    by (rule build_event_Some [OF c(1)]) blast
  obtain h where h: "is_Sha256 h" "te_event_id event = ''tevt_'' @ h"
    using ev(3) env by (auto simp: derive_id_def sha256_hex_def sound_env_def)
  have paths: "event_path i \<noteq> board_path j" "task_path x \<noteq> board_path j" "task_path x \<noteq> event_path i" for i j x
    by (simp_all add: event_path_def board_path_def task_path_def)
  have "fs' (event_path (te_event_id event)) = Some (Regular (json_bytes (event_json event)) 0 0)"
    using paths publish_private_Inr(2) [OF c(2)] publish_private_Inr(3) [OF c(3)] c(4) by simp
  from read_event_same_bytes [OF rd _ h(1)] this h(2) c(5)
  have "json_bytes (event_json e) = json_bytes (event_json (seed\<lparr>te_event_id := te_event_id event\<rparr>))"
    using ev(2) by simp
  note fields = event_json_fields [OF read_event_ok [OF rd] ev(1) this]
  show "te_operation_key e = ok" "te_idempotency_key e = ik"
    using fields ev(4,5) key env by (simp_all add: sound_env_def)
  have sha: "is_Sha256 ?sha" "te_task_sha256 e = ?sha"
    using fields ev(6) env by (simp_all add: sound_env_def sha256_hex_def)
  have "fs' (task_path ?sha) = Some (Regular (json_bytes (task_json t)) 0 0)"
    using paths publish_private_Inr(2) [OF c(6)] publish_private_Inr(3) [OF c(2)]
      publish_private_Inr(3) [OF c(3)] c(4) by simp
  with read_task_same_bytes [OF rt [unfolded sha(2)] _ sha(1)]
  show "json_bytes (task_json t') = json_bytes (task_json t)" by simp
qed

lemma commit_replay:
  assumes env: "sound_env E" and com: "commit E fs g t k ok ik a ts ph st = (Inr res, fs')"
    and rb: "read_generation E fs' (tr_generation_id res) = Inr n'" "tg_created_at n' = ts"
    and key: "is_Identifier ok" "is_Identifier ik"
  obtains e t' where "read_current_generation E fs' = Inr (Some n')"
    "read_event E fs' (te_event_id e) = Inr e" "tg_head_event_id n' = Some (te_event_id e)"
    "te_operation_key e = ok" "te_idempotency_key e = ik"
    "json_bytes (task_json t') = json_bytes (task_json (tr_task res))"
    "result_for_event E fs' (Some n') e True = Inr (res\<lparr>tr_task := t', tr_no_op := True\<rparr>)"
proof -
  note cur = commit_current [OF env com rb]
  obtain e t' where hd: "read_head E fs' n' [] [] [] = Inr (e, t')"
    by (rule closure_head [OF cur(2)])
  note h = read_head_Inr [OF hd]
  have id: "te_event_id e = tr_event_id res" using h(1) cur(5) by simp
  note head = commit_head [OF env com h(2) [unfolded id] h(4) key]
  have "generation_for_event E fs' n' (te_event_id e) 0 = Inr n'"
    using h(1) by (simp add: generation_for_event.simps max_events_def)
  then have "result_for_event E fs' (Some n') e True = Inr (res\<lparr>tr_task := t', tr_no_op := True\<rparr>)"
    using h(3,4) cur(3,4) id by (simp add: result_for_event_def)
  with that cur(1,6) h(1,2) head show thesis by simp
qed

lemma find_operation_head:
  assumes "read_event E fs eid = Inr e"
  shows "te_operation_key e = ok \<Longrightarrow> find_operation E fs (Some eid) ok ik [] = Inr (Some e)"
    and "te_operation_key e \<noteq> ok \<Longrightarrow> te_idempotency_key e = ik \<Longrightarrow>
      find_operation E fs (Some eid) ok ik [] = Inl TaskConflict"
  using assms by (simp_all add: find_operation.simps)

section \<open>Commands as steps of the abstract board\<close>

definition current_board :: "task_env \<Rightarrow> fs \<Rightarrow> board" where
  "current_board E fs = (case read_current_generation E fs of
     Inr (Some g) \<Rightarrow> ledger_view E fs g | _ \<Rightarrow> Map.empty)"

lemma ledger_view_ext:
  assumes "loadable E fs g" "ledger_ext fs fs'"
  shows "ledger_view E fs' g = ledger_view E fs g"
proof
  fix tid
  show "ledger_view E fs' g tid = ledger_view E fs g tid"
    using assms(1) read_task_ext [OF _ assms(2)]
    by (fastforce simp: ledger_view_def loadable_def is_ok_iff split: option.splits)
qed

lemma closure_loadable: "validate_generation_closure E fs g = Inr () \<Longrightarrow> loadable E fs g"
  by (auto simp: validate_generation_closure_def result_simps dest: load_tasks_loadable)

lemma read_current_Some:
  assumes "read_current_generation E fs = Inr (Some g)"
  shows "validate_generation_closure E fs g = Inr ()"
    "read_generation E fs (tg_generation_id g) = Inr g" "is_Identifier (tg_generation_id g)"
proof -
  from assms obtain i where i: "read_generation E fs i = Inr g"
      "validate_generation_closure E fs g = Inr ()"
    by (auto simp: read_current_generation_def result_simps Let_def split: option.splits)
  then show "validate_generation_closure E fs g = Inr ()"
    "read_generation E fs (tg_generation_id g) = Inr g" "is_Identifier (tg_generation_id g)"
    using read_generation_ok [OF i(1)]
    by (auto simp: read_generation_def result_simps TaskBoardGeneration_ok_def)
qed

lemma closure_parent_step:
  assumes "validate_generation_closure E fs n = Inr ()"
  shows "tg_parent_generation_id n = None \<Longrightarrow> board_step Map.empty (ledger_view E fs n)"
    and "tg_parent_generation_id n = Some pid \<Longrightarrow> read_generation E fs pid = Inr p \<Longrightarrow>
      board_step (ledger_view E fs p) (ledger_view E fs n)"
proof -
  from assms obtain steps where loop: "closure_loop E fs n [] [] [] [] 0 = Inr steps"
    by (auto simp: validate_generation_closure_def result_simps)
  then obtain x where step: "closure_step E fs n [] [] [] = Inr x"
    by (subst (asm) closure_loop.simps) (auto simp: result_simps split: if_splits)
  note load = closure_loadable [OF assms]
  show "board_step Map.empty (ledger_view E fs n)" if "tg_parent_generation_id n = None"
    using step that by (auto simp: closure_step_def result_simps intro: root_step)
  show "board_step (ledger_view E fs p) (ledger_view E fs n)"
    if "tg_parent_generation_id n = Some pid" "read_generation E fs pid = Inr p"
    using step that link_step [OF _ _ load] by (auto simp: closure_step_def result_simps)
qed

lemma commit_refines:
  assumes env: "sound_env E" and com: "commit E fs g t k ok ik a ts ph st = (Inr res, fs')"
    and rb: "read_generation E fs' (tr_generation_id res) = Inr n'" "tg_created_at n' = ts"
    and cur: "read_current_generation E fs = Inr g"
  shows "board_step (current_board E fs) (current_board E fs')"
proof -
  have ext: "ledger_ext fs fs'"
    using commit_frame [of fs E g t k ok ik a ts ph st] com by (simp add: command_frame_def)
  note now = commit_current [OF env com rb]
  have view': "current_board E fs' = ledger_view E fs' n'"
    using now(1) by (simp add: current_board_def)
  show ?thesis
  proof (cases g)
    case None
    with cur have "current_board E fs = Map.empty" by (simp add: current_board_def)
    moreover have "tg_parent_generation_id n' = None"
      using now(7) None by simp
    ultimately show ?thesis using closure_parent_step(1) [OF now(2)] view' by simp
  next
    case (Some p)
    note p = read_current_Some [OF cur [unfolded Some]]
    have "tg_parent_generation_id n' = Some (tg_generation_id p)"
      using now(7) Some p(3) env by (simp add: sound_env_def)
    moreover have "read_generation E fs' (tg_generation_id p) = Inr p"
      by (rule read_generation_ext [OF p(2) ext])
    ultimately have "board_step (ledger_view E fs' p) (ledger_view E fs' n')"
      by (rule closure_parent_step(2) [OF now(2)])
    moreover have "current_board E fs = ledger_view E fs' p"
      using cur Some ledger_view_ext [OF closure_loadable [OF p(1)] ext] by (simp add: current_board_def)
    ultimately show ?thesis using view' by simp
  qed
qed

lemma is_Identifier_op: "prepare_create E r = Inr (ts, s, i, k) \<Longrightarrow> sound_env E \<Longrightarrow> is_Identifier i \<and> is_Identifier k"
  by (auto simp: prepare_create_def result_simps idempotency_id_def create_operation_key_def Let_def
      sound_env_id split: if_splits)

lemma is_Identifier_op': "prepare_transition E r = Inr (ts, i, k) \<Longrightarrow> sound_env E \<Longrightarrow> is_Identifier i \<and> is_Identifier k"
  by (auto simp: prepare_transition_def result_simps idempotency_id_def transition_operation_key_def Let_def
      sound_env_id split: if_splits)

lemma make_AgentTask_updated: "make_AgentTask s t = Some t' \<Longrightarrow> at_updated_at t' = at_updated_at t"
  by (auto simp: make_AgentTask_def Let_def strip_task_def split: if_splits)

lemma commit_task: "commit E fs g t k ok ik a ts ph st = (Inr res, fs') \<Longrightarrow> tr_task res = t"
  by (erule commit_Inr) simp

lemma create_task_fresh:
  assumes "create_task E fs r = (Inr res, fs')" "\<not> tr_no_op res"
  obtains ts s i k g t where "prepare_create E r = Inr (ts, s, i, k)"
    "read_current_generation E fs = Inr g" "new_task E r k s ts = Some t" "at_updated_at t = ts"
    "commit E fs g t EV_CREATED k i (cr_actor r) ts None None = (Inr res, fs')"
proof -
  from assms obtain ts s i k g t where c: "prepare_create E r = Inr (ts, s, i, k)"
      "check_create E fs r ts s i k = Inr (Inr (g, t))"
      "commit E fs g t EV_CREATED k i (cr_actor r) ts None None = (Inr res, fs')"
    by (auto simp: create_task_def dest: check_create_replay split: sum.splits)
  from c(2) have "read_current_generation E fs = Inr g" "new_task E r k s ts = Some t"
    by (auto simp: check_create_def result_simps split: option.splits)
  moreover from this(2) have "at_updated_at t = ts"
    by (auto simp: new_task_def dest: make_AgentTask_updated)
  ultimately show thesis using c that by blast
qed

lemma transition_task_fresh:
  assumes "transition_task E fs r = (Inr res, fs')" "\<not> tr_no_op res"
  obtains ts i k g cur t ph kind st where "prepare_transition E r = Inr (ts, i, k)"
    "read_current_generation E fs = Inr g" "next_task E r ts cur = Some t" "at_updated_at t = ts"
    "xr_target r \<in> transitions (at_status cur)"
    "commit E fs g t kind k i (xr_actor r) ts ph st = (Inr res, fs')"
proof -
  from assms obtain ts i k g cur t ph where c: "prepare_transition E r = Inr (ts, i, k)"
      "check_transition E fs r ts i k = Inr (Inr (g, cur, t, ph))"
      "commit E fs g t (if xr_target r = CANCELLED then EV_CANCELLED else EV_TRANSITIONED)
         k i (xr_actor r) ts ph (Some (at_status cur)) = (Inr res, fs')"
    by (auto simp: transition_task_def dest: check_transition_replay split: sum.splits)
  from c(2) have "read_current_generation E fs = Inr g" "next_task E r ts cur = Some t"
      "xr_target r \<in> transitions (at_status cur)"
    by (auto simp: check_transition_def result_simps split: option.splits)
  moreover from this(2) have "at_updated_at t = ts"
    by (auto simp: next_task_def dest: make_AgentTask_updated)
  ultimately show thesis using c that by blast
qed

section \<open>Commands as data\<close>

datatype task_command = Create create_request | Transition transition_request

fun run_command :: "task_env \<Rightarrow> fs \<Rightarrow> task_command \<Rightarrow> task_command_result command" where
  "run_command E fs (Create r) = create_task E fs r"
| "run_command E fs (Transition r) = transition_task E fs r"

lemma run_command_frame: "command_frame fs (run_command E fs c)"
  by (cases c) (simp_all add: create_task_frame transition_task_frame)

text \<open>What both commands do before and after the commit.\<close>

fun command_keys :: "task_env \<Rightarrow> task_command \<Rightarrow> (task_error, string \<times> string) result" where
  "command_keys E (Create r) = rbind (prepare_create E r) (\<lambda>(_, _, i, k). Inr (i, k))"
| "command_keys E (Transition r) = rbind (prepare_transition E r) (\<lambda>(_, i, k). Inr (i, k))"

lemma command_keys_Identifier:
  assumes "command_keys E c = Inr (i, k)" "sound_env E"
  shows "is_Identifier i" "is_Identifier k"
  using assms is_Identifier_op is_Identifier_op' by (cases c; force simp: result_simps)+

lemma run_command_fresh:
  assumes "run_command E fs c = (Inr res, fs')" "\<not> tr_no_op res"
  obtains g t kind i k a ts ph st where "command_keys E c = Inr (i, k)"
    "read_current_generation E fs = Inr g" "at_updated_at (tr_task res) = ts"
    "commit E fs g t kind k i a ts ph st = (Inr res, fs')"
proof (cases c)
  case (Create r)
  with assms show thesis
    by (auto intro!: that elim!: create_task_fresh simp: commit_task)
next
  case (Transition r)
  with assms show thesis
    by (auto intro!: that elim!: transition_task_fresh simp: commit_task)
qed

lemma run_command_lookup:
  assumes "command_keys E c = Inr (i, k)" "read_current_generation E fs = Inr (Some g)"
  shows "find_operation E fs (tg_head_event_id g) k i [] = Inr (Some e) \<Longrightarrow>
      result_for_event E fs (Some g) e True = Inr res \<Longrightarrow> run_command E fs c = (Inr res, fs)"
    and "find_operation E fs (tg_head_event_id g) k i [] = Inl err \<Longrightarrow> run_command E fs c = (Inl err, fs)"
  using assms
  by (cases c; auto simp: result_simps create_task_def transition_task_def check_create_def
      check_transition_def)+

text \<open>After a committed command the board is current, and its head event is that of the command.\<close>

lemma run_command_committed:
  assumes "sound_env E" "run_command E fs c = (Inr res, fs')" "\<not> tr_no_op res"
    and "read_generation E fs' (tr_generation_id res) = Inr g" "tg_created_at g = at_updated_at (tr_task res)"
  obtains i k e t where "command_keys E c = Inr (i, k)" "read_current_generation E fs' = Inr (Some g)"
    "read_event E fs' (te_event_id e) = Inr e" "tg_head_event_id g = Some (te_event_id e)"
    "te_operation_key e = k" "te_idempotency_key e = i"
    "json_bytes (task_json t) = json_bytes (task_json (tr_task res))"
    "result_for_event E fs' (Some g) e True = Inr (res\<lparr>tr_task := t, tr_no_op := True\<rparr>)"
proof -
  obtain g0 t kind i k a ts ph st where c: "command_keys E c = Inr (i, k)"
      "at_updated_at (tr_task res) = ts" "commit E fs g0 t kind k i a ts ph st = (Inr res, fs')"
    by (rule run_command_fresh [OF assms(2,3)])
  have "tg_created_at g = ts" using assms(5) c(2) by simp
  from commit_replay [OF assms(1) c(3) assms(4) this] command_keys_Identifier [OF c(1) assms(1)] c(1) that
  show thesis by metis
qed

lemma run_command_step:
  assumes "sound_env E" "run_command E fs c = (Inr res, fs')" "\<not> tr_no_op res"
    and "read_generation E fs' (tr_generation_id res) = Inr g" "tg_created_at g = at_updated_at (tr_task res)"
  shows "board_step (current_board E fs) (current_board E fs')"
proof -
  obtain g0 t kind i k a ts ph st where c: "read_current_generation E fs = Inr g0"
      "at_updated_at (tr_task res) = ts" "commit E fs g0 t kind k i a ts ph st = (Inr res, fs')"
    by (rule run_command_fresh [OF assms(2,3)])
  have "tg_created_at g = ts" using assms(5) c(2) by simp
  from commit_refines [OF assms(1) c(3) assms(4) this c(1)] show ?thesis .
qed

end
