(* ===== verification/Ledger_History.thy ===== *)
theory Ledger_History
  imports Ledger_Commands
begin

text \<open>
  The history of the ledger: a command that has committed stays in the chain of every later generation, whatever
  commands follow, and the lookup of its operation key walks the chain back to it.
\<close>

section \<open>Later generations\<close>

text \<open>\<open>g\<close> is the generation \<open>g'\<close> or one that its parent links lead to.\<close>

inductive ancestor :: "task_env \<Rightarrow> fs \<Rightarrow> task_generation \<Rightarrow> task_generation \<Rightarrow> bool" for E fs g where
  here: "ancestor E fs g g"
| parent: "ancestor E fs g p \<Longrightarrow> tg_parent_generation_id g' = Some i \<Longrightarrow> read_generation E fs i = Inr p \<Longrightarrow> ancestor E fs g g'"

lemma ancestor_ext: "ancestor E fs g g' \<Longrightarrow> ledger_ext fs fs' \<Longrightarrow> ancestor E fs' g g'"
  by (induction rule: ancestor.induct) (auto intro: ancestor.intros read_generation_ext)

lemma closure_loop_step:
  assumes "closure_loop E fs cur gs es os is n = Inr m"
  obtains head parent where "n < max_events" "closure_step E fs cur es os is = Inr (head, parent)"
    "\<And>p. parent = Some p \<Longrightarrow> closure_loop E fs p (tg_generation_id cur # gs) (te_event_id head # es)
        (te_operation_key head # os) (te_idempotency_key head # is) (Suc n) = Inr m"
proof -
  note run = assms [unfolded closure_loop.simps [of E fs cur gs es os "is" n]]
  from run obtain head parent where c: "closure_step E fs cur es os is = Inr (head, parent)"
    by (cases "closure_step E fs cur es os is") (auto split: if_splits)
  show thesis by (rule that [OF _ c]) (use run c in \<open>auto split: if_splits\<close>)
qed

lemma closure_step_Inr:
  assumes "closure_step E fs cur es os is = Inr (head, parent)"
  shows "\<exists>t. read_head E fs cur es os is = Inr (head, t)"
    "parent = (case tg_parent_generation_id cur of None \<Rightarrow> None
       | Some i \<Rightarrow> (case read_generation E fs i of Inl _ \<Rightarrow> None | Inr p \<Rightarrow> Some p))"
    "parent = Some p \<Longrightarrow> te_previous_event_id head = tg_head_event_id p"
  using assms by (auto simp: closure_step_def validate_parent_link_def result_simps split: option.splits sum.splits)

text \<open>The walk from a later generation meets no other event with the key, and ends at the event it was committed with.\<close>

lemma lookup_in_chain:
  assumes "ancestor E fs g cur" "read_head E fs g gs0 os0 is0 = Inr (e, t)"
    and "closure_loop E fs cur gs es os is n = Inr m"
  shows "te_event_id e \<notin> set es \<and> te_operation_key e \<notin> set os \<and> te_idempotency_key e \<notin> set is \<and>
    (set visited \<subseteq> set es \<longrightarrow> length visited \<le> n \<longrightarrow>
       find_operation E fs (tg_head_event_id cur) (te_operation_key e) (te_idempotency_key e) visited = Inr (Some e)) \<and>
    (j \<le> n \<longrightarrow> generation_for_event E fs cur (te_event_id e) j = Inr g)"
  using assms(1,3)
proof (induction arbitrary: gs es os "is" n visited j rule: ancestor.induct)
  case here
  from here obtain head parent where st: "n < max_events" "closure_step E fs g es os is = Inr (head, parent)"
    by (rule closure_loop_step) blast
  obtain t' where hd: "read_head E fs g es os is = Inr (head, t')" using closure_step_Inr(1) [OF st(2)] by blast
  note h = read_head_Inr [OF hd] and h0 = read_head_Inr [OF assms(2)]
  have e: "head = e" using h(1,2) h0(1,2) by auto
  have "find_operation E fs (tg_head_event_id g) (te_operation_key e) (te_idempotency_key e) visited = Inr (Some e)"
    if "set visited \<subseteq> set es" "length visited \<le> n"
  proof -
    have "te_event_id e \<notin> set visited" "length visited < 100000" using that h(5) e st(1) by (auto simp: max_events_def)
    then show ?thesis using h0(1,2) by (subst find_operation.simps) simp
  qed
  moreover have "generation_for_event E fs g (te_event_id e) j = Inr g" if "j \<le> n"
    using that st(1) h0(1) by (subst generation_for_event.simps) simp
  ultimately show ?case using h(5-7) e by blast
next
  case (parent p cur i)
  obtain head par where st: "n < max_events" "closure_step E fs cur es os is = Inr (head, par)"
    "\<And>p. par = Some p \<Longrightarrow> closure_loop E fs p (tg_generation_id cur # gs) (te_event_id head # es)
        (te_operation_key head # os) (te_idempotency_key head # is) (Suc n) = Inr m"
    by (rule closure_loop_step [OF parent.prems]) blast
  obtain t' where hd: "read_head E fs cur es os is = Inr (head, t')" using closure_step_Inr(1) [OF st(2)] by blast
  note h = read_head_Inr [OF hd]
  have par: "par = Some p" using closure_step_Inr(2) [OF st(2)] parent.hyps(2,3) by simp
  note prev = closure_step_Inr(3) [OF st(2) par]
  note IH = parent.IH [OF st(3) [OF par]]
  have new: "te_event_id e \<noteq> te_event_id head" "te_operation_key head \<noteq> te_operation_key e"
      "te_idempotency_key head \<noteq> te_idempotency_key e"
    using IH [of "[]" 0] by auto
  have "find_operation E fs (tg_head_event_id cur) (te_operation_key e) (te_idempotency_key e) visited = Inr (Some e)"
    if "set visited \<subseteq> set es" "length visited \<le> n"
  proof -
    have "te_event_id head \<notin> set visited" "length visited < 100000" using that h(5) st(1) by (auto simp: max_events_def)
    moreover have "find_operation E fs (tg_head_event_id p) (te_operation_key e) (te_idempotency_key e) (te_event_id head # visited) = Inr (Some e)"
      using IH [of "te_event_id head # visited" 0] that by auto
    ultimately show ?thesis using h(1,2) new prev by (subst find_operation.simps) simp
  qed
  moreover have "generation_for_event E fs cur (te_event_id e) j = Inr g" if "j \<le> n"
  proof -
    have "generation_for_event E fs p (te_event_id e) (Suc j) = Inr g" using IH [of "[]" "Suc j"] that by simp
    then show ?thesis
      using that st(1) h(1) new(1) parent.hyps(2,3) by (subst generation_for_event.simps) auto
  qed
  ultimately show ?case using IH [of "[]" 0] by auto
qed

section \<open>Later commands\<close>

text \<open>A command of the service, whatever its outcome.\<close>

inductive ledger_step :: "task_env \<Rightarrow> fs \<Rightarrow> fs \<Rightarrow> bool" for E where
  command: "run_command E fs c = (r, fs') \<Longrightarrow> ledger_step E fs fs'"

lemma step_ext: "ledger_step E fs fs' \<Longrightarrow> ledger_ext fs fs'"
  by (erule ledger_step.cases) (metis command_frame_def run_command_frame snd_conv)

lemma steps_ext: "(ledger_step E)\<^sup>*\<^sup>* fs fs' \<Longrightarrow> ledger_ext fs fs'"
  by (induction rule: rtranclp_induct) (auto intro: ledger_ext_trans step_ext)

text \<open>The pointer names a published generation that descends from \<open>g\<close>.\<close>

definition descends :: "task_env \<Rightarrow> task_generation \<Rightarrow> fs \<Rightarrow> bool" where
  "descends E g fs \<longleftrightarrow> (\<exists>h d. is_Sha256 h \<and> fs pointer_path = Some (Regular (''tgen_'' @ h @ [CHR 0x0A]) 0 0) \<and>
     fs (board_path (''tgen_'' @ h)) = Some (Regular d 0 0) \<and>
     (\<forall>g'. read_generation E fs (''tgen_'' @ h) = Inr g' \<longrightarrow> ancestor E fs g g'))"

lemma board_file:
  assumes "is_Sha256 h"
  shows "lexical_relative root (board_path (''tgen_'' @ h)) = Inr [''ops'', ''task-ledger'', ''generations'', ''tgen_'' @ h @ ''.json'']"
    "joins ''/'' [''ops'', ''task-ledger'', ''generations'', ''tgen_'' @ h @ ''.json''] = board_path (''tgen_'' @ h)"
  using sha_file_parts(1) [OF assms] by (simp_all add: board_path_def)

lemma read_generation_bytes:
  assumes "is_Sha256 h" "read_generation E fs (''tgen_'' @ h) = Inr g" "fs (board_path (''tgen_'' @ h)) = Some (Regular d 0 0)"
  shows "d = json_bytes (generation_json g)"
  using board_file [OF assms(1)] assms(2,3) by (auto simp: read_generation_def result_simps read_regular_file_Inr_iff)

lemma read_generation_file:
  assumes "is_Sha256 h" "fs (board_path (''tgen_'' @ h)) = fs' (board_path (''tgen_'' @ h))"
  shows "read_generation E fs (''tgen_'' @ h) = read_generation E fs' (''tgen_'' @ h)"
  using board_file [OF assms(1)] assms(2) by (simp add: read_generation_def read_regular_file_def)

lemma read_current_descends:
  assumes "descends E g fs" "read_current_generation E fs = Inr (Some g')"
  shows "ancestor E fs g g'"
proof -
  from assms(1) obtain h where h: "is_Sha256 h" "fs pointer_path = Some (Regular (''tgen_'' @ h @ [CHR 0x0A]) 0 0)"
      "\<forall>g'. read_generation E fs (''tgen_'' @ h) = Inr g' \<longrightarrow> ancestor E fs g g'"
    by (auto simp: descends_def)
  note line = pointer_line [OF h(1) refl]
  have "read_generation E fs (''tgen_'' @ h) = Inr g'"
    using assms(2) h(2) line(1-3) read_pointer [of fs "''tgen_'' @ h @ [CHR 0x0A]"] line(4)
    by (auto simp: read_current_generation_def result_simps Let_def)
  with h(3) show ?thesis by blast
qed

lemma descends_ext:
  assumes "descends E g fs" "ledger_ext fs fs'" "fs' pointer_path = fs pointer_path"
  shows "descends E g fs'"
proof -
  from assms(1) obtain h d where h: "is_Sha256 h" "fs pointer_path = Some (Regular (''tgen_'' @ h @ [CHR 0x0A]) 0 0)"
      "fs (board_path (''tgen_'' @ h)) = Some (Regular d 0 0)" "\<forall>g'. read_generation E fs (''tgen_'' @ h) = Inr g' \<longrightarrow> ancestor E fs g g'"
    by (auto simp: descends_def)
  have stored: "fs' (board_path (''tgen_'' @ h)) = Some (Regular d 0 0)"
    using assms(2) h(3) ledger_paths_not_pointer(3) unfolding ledger_ext_def by blast
  then have "read_generation E fs' (''tgen_'' @ h) = read_generation E fs (''tgen_'' @ h)"
    using h(3) by (intro read_generation_file [OF h(1)]) simp
  then show ?thesis
    using h stored assms(3) ancestor_ext [OF _ assms(2)] unfolding descends_def by auto
qed

lemma generation_json_parent:
  assumes "TaskBoardGeneration_ok a" "TaskBoardGeneration_ok b"
    and eq: "json_bytes (generation_json a) = json_bytes (generation_json (b\<lparr>tg_generation_id := i\<rparr>))"
  shows "tg_parent_generation_id a = tg_parent_generation_id b"
proof -
  have wf: "wf_json (generation_json a)" "wf_json (generation_json (b\<lparr>tg_generation_id := i\<rparr>))"
    using generation_json_wf [OF assms(1), of "tg_generation_id a"] generation_json_wf [OF assms(2)] by auto
  from json_field_eq [OF wf [unfolded generation_json_def] eq [unfolded generation_json_def],
      unfolded generation_fields_def versioned_fields_def, of "''parent_generation_id''"]
  show ?thesis by (simp add: jnorm_jopt_str)
qed

lemma commit_descends:
  assumes env: "sound_env E" and com: "commit E fs p t k ok ik a ts ph st = (Inr res, fs')" and "descends E g fs"
  shows "descends E g fs'"
proof -
  from com obtain fs1 fs2 fs3 event n where c:
      "build_generation E p t event ts = Some n"
      "publish_private fs (task_path (sha256_hex (env_sha E) (json_bytes (task_json t)))) (json_bytes (task_json t)) = Inr fs1"
      "publish_private fs1 (event_path (te_event_id event)) (json_bytes (event_json event)) = Inr fs2"
      "publish_private fs2 (board_path (tg_generation_id n)) (json_bytes (generation_json n)) = Inr fs3"
      "read_current_generation E fs3 = Inr p" "fs' = fs3(pointer_path \<mapsto> Regular (tg_generation_id n @ [CHR 0x0A]) 0 0)"
    by (rule commit_Inr) blast
  have "ledger_ext fs fs3"
    using publish_private_Inr(1) [OF c(2)] publish_private_Inr(1) [OF c(3)] publish_private_Inr(1) [OF c(4)]
    by (intro ledger_ext_preserved) (blast intro: preserved_trans)
  moreover have "fs3 pointer_path = fs pointer_path"
    using publish_private_Inr(3) [OF c(2)] publish_private_Inr(3) [OF c(3)] publish_private_Inr(3) [OF c(4)] by simp
  ultimately have fs3: "descends E g fs3" by (rule descends_ext [OF assms(3)])
  then obtain q where q: "p = Some q" "ancestor E fs3 g q"
    using c(5) read_current_descends [OF fs3] by (cases p) (auto simp: descends_def read_current_generation_def result_simps Let_def)
  note cur = read_current_Some [OF c(5) [unfolded q(1)]]
  obtain seed where seed: "TaskBoardGeneration_ok seed" "n = seed\<lparr>tg_generation_id := tg_generation_id n\<rparr>"
      "tg_generation_id n = derive_id (env_sha E) ''tgen'' (generation_identity_payload seed)"
    by (rule build_generation_Some [OF c(1)]) blast
  obtain h where h: "is_Sha256 h" "tg_generation_id n = ''tgen_'' @ h"
    using seed(3) env by (auto simp: derive_id_def sha256_hex_def sound_env_def)
  have stored: "fs' (board_path (''tgen_'' @ h)) = Some (Regular (json_bytes (generation_json n)) 0 0)"
    using publish_private_Inr(2) [OF c(4)] c(6) h(2) by simp
  have "tg_parent_generation_id n = Some (tg_generation_id q)"
    using build_generation_parent [OF c(1)] q(1) cur(3) env by (simp add: sound_env_def)
  then have up: "tg_parent_generation_id seed = Some (tg_generation_id q)"
    by (subst (asm) seed(2)) simp
  have ext: "ledger_ext fs3 fs'" unfolding c(6) by (rule ledger_ext_pointer)
  have "ancestor E fs' g n'" if "read_generation E fs' (''tgen_'' @ h) = Inr n'" for n'
  proof (rule ancestor.parent [OF ancestor_ext [OF q(2) ext] _ read_generation_ext [OF cur(2) ext]])
    have "json_bytes (generation_json n') = json_bytes (generation_json (seed\<lparr>tg_generation_id := tg_generation_id n\<rparr>))"
      using read_generation_bytes [OF h(1) that stored] seed(2) by simp
    from generation_json_parent [OF read_generation_ok [OF that] seed(1) this] up
    show "tg_parent_generation_id n' = Some (tg_generation_id q)" by simp
  qed
  then show ?thesis using h stored c(6) unfolding descends_def by auto
qed

lemma step_descends:
  assumes "ledger_step E fs fs'" "sound_env E" "descends E g fs"
  shows "descends E g fs'"
  using assms(1)
proof cases
  case (command c r)
  show ?thesis
  proof (cases "\<exists>res. r = Inr res \<and> \<not> tr_no_op res")
    case True
    then obtain res where "run_command E fs c = (Inr res, fs')" "\<not> tr_no_op res" using command by blast
    then show ?thesis by (rule run_command_fresh) (rule commit_descends [OF assms(2) _ assms(3)])
  next
    case False
    have "fs' pointer_path = fs pointer_path"
      using run_command_frame [of fs E c] False command by (auto simp: command_frame_def split: sum.splits)
    then show ?thesis by (rule descends_ext [OF assms(3) step_ext [OF assms(1)]])
  qed
qed

text \<open>A committed command is found from every later generation that the service accepts.\<close>

lemma committed_descends:
  assumes "sound_env E" "run_command E fs c = (Inr res, fs')" "\<not> tr_no_op res"
    and "read_generation E fs' (tr_generation_id res) = Inr g"
  shows "descends E g fs'"
proof -
  obtain g0 t kind i k a ts ph st where "commit E fs g0 t kind k i a ts ph st = (Inr res, fs')"
    by (rule run_command_fresh [OF assms(2,3)])
  then obtain fs2 fs3 event n where c: "build_generation E g0 t event ts = Some n"
      "publish_private fs2 (board_path (tg_generation_id n)) (json_bytes (generation_json n)) = Inr fs3"
      "fs' = fs3(pointer_path \<mapsto> Regular (tg_generation_id n @ [CHR 0x0A]) 0 0)" "tr_generation_id res = tg_generation_id n"
    by (rule commit_Inr) auto
  obtain seed where "tg_generation_id n = derive_id (env_sha E) ''tgen'' (generation_identity_payload seed)"
    by (rule build_generation_Some [OF c(1)]) blast
  then obtain h where h: "is_Sha256 h" "tg_generation_id n = ''tgen_'' @ h"
    using assms(1) by (auto simp: derive_id_def sha256_hex_def sound_env_def)
  have "fs' (board_path (''tgen_'' @ h)) = Some (Regular (json_bytes (generation_json n)) 0 0)"
    using publish_private_Inr(2) [OF c(2)] c(3) h(2) by simp
  then show ?thesis using h c(3,4) assms(4) unfolding descends_def by (auto intro: ancestor.here)
qed

lemma committed_found:
  assumes "sound_env E" "run_command E fs c = (Inr res, fs1)" "\<not> tr_no_op res"
    and "read_generation E fs1 (tr_generation_id res) = Inr g" "tg_created_at g = at_updated_at (tr_task res)"
    and "(ledger_step E)\<^sup>*\<^sup>* fs1 fs2" "read_current_generation E fs2 = Inr (Some g2)"
  obtains i k e t where "command_keys E c = Inr (i, k)" "find_operation E fs2 (tg_head_event_id g2) k i [] = Inr (Some e)"
    "json_bytes (task_json t) = json_bytes (task_json (tr_task res))"
    "result_for_event E fs2 (Some g2) e True = Inr (res\<lparr>tr_task := t, tr_no_op := True\<rparr>)"
proof -
  obtain i k e t where c: "command_keys E c = Inr (i, k)" "read_current_generation E fs1 = Inr (Some g)"
      "read_event E fs1 (te_event_id e) = Inr e" "tg_head_event_id g = Some (te_event_id e)"
      "te_operation_key e = k" "te_idempotency_key e = i" "json_bytes (task_json t) = json_bytes (task_json (tr_task res))"
      "result_for_event E fs1 (Some g) e True = Inr (res\<lparr>tr_task := t, tr_no_op := True\<rparr>)"
    by (rule run_command_committed [OF assms(1-5)])
  have "descends E g fs2"
    using assms(6) by (induction rule: rtranclp_induct) (auto intro: committed_descends [OF assms(1-4)] step_descends [OF _ assms(1)])
  then have anc: "ancestor E fs2 g g2" by (rule read_current_descends [OF _ assms(7)])
  note ext = steps_ext [OF assms(6)]
  from closure_head [OF read_current_Some(1) [OF c(2)]] obtain e' t' where hd1: "read_head E fs1 g [] [] [] = Inr (e', t')" by blast
  note hd = read_head_ext [OF hd1 ext]
  have "te_event_id e' = te_event_id e" using read_head_Inr(1) [OF hd1] c(4) by simp
  then have "Inr e' = read_event E fs1 (te_event_id e)" using read_head_Inr(2) [OF hd1] by metis
  then have e: "e' = e" unfolding c(3) by (rule sum.inject(2) [THEN iffD1])
  from read_current_Some(1) [OF assms(7)] obtain m where loop: "closure_loop E fs2 g2 [] [] [] [] 0 = Inr m"
    by (auto simp: validate_generation_closure_def result_simps)
  note found = lookup_in_chain [OF anc hd loop, of "[]" 0, unfolded e]
  show thesis
  proof (rule that [OF c(1) _ c(7)])
    show "find_operation E fs2 (tg_head_event_id g2) k i [] = Inr (Some e)" using found c(5,6) by simp
    have "generation_for_event E fs1 g (te_event_id e) 0 = Inr g"
      using c(4) by (subst generation_for_event.simps) (simp add: max_events_def)
    moreover have "read_task E fs1 (te_task_id e) (te_task_sha256 e) = Inr t'" "read_task E fs2 (te_task_id e) (te_task_sha256 e) = Inr t'"
      using read_head_Inr(4) [OF hd] read_head_Inr(4) [OF hd1] e by simp_all
    moreover have "generation_for_event E fs2 g2 (te_event_id e) 0 = Inr g" using found by simp
    ultimately show "result_for_event E fs2 (Some g2) e True = Inr (res\<lparr>tr_task := t, tr_no_op := True\<rparr>)"
      using c(8) by (simp add: result_for_event_def)
  qed
qed

end
