(* ===== verification/Ledger_Properties.thy ===== *)
theory Ledger_Properties
  imports Ledger_History
begin

text \<open>
  The properties of the task ledger, and a small workspace on which their hypotheses hold: one task
  created on an empty ledger, with a digest that is constant and decoders that return the one
  object of each kind.
\<close>

section \<open>A sample ledger\<close>

definition sample_request :: create_request where
  "sample_request = \<lparr>cr_title = ''t'', cr_description = '''', cr_priority = NORMAL, cr_project_id = ''pr'',
     cr_mission_id = None, cr_assignee_ids = [], cr_skill_ids = [], cr_dependency_ids = [], cr_tags = [],
     cr_actor = ''me'', cr_idempotency_key = ''k'', cr_expected_generation_id = None, cr_now = (True, 0)\<rparr>"

definition A64 :: string where "A64 = replicate 64 CHR ''a''"

definition sid :: "string \<Rightarrow> string" where "sid k = k @ ''_'' @ A64"

definition sample_task :: agent_task where
  "sample_task = \<lparr>schema_name = ''AgentTaskV1'', schema_version = SCHEMA_VERSION,
        id_scheme_version = ID_SCHEME_VERSION, extensions = [],
        at_task_id = sid ''task'', at_title = ''t'',
        at_description = '''', at_status = INBOX, at_priority = NORMAL,
        at_project_id = ''pr'', at_mission_id = None,
        at_assignee_ids = [], at_skill_ids = [],
        at_dependency_ids = [], at_artifact_ids = [],
        at_tags = [], at_blocked_reason = None, at_sensitivity = INTERNAL,
        at_created_by = ''me'', at_revision = 1, at_created_at = 0, at_updated_at = 0\<rparr>"

definition sample_event :: task_event where
  "sample_event = \<lparr>schema_name = ''TaskEventV1'', schema_version = SCHEMA_VERSION,
           id_scheme_version = ID_SCHEME_VERSION, extensions = [],
           te_event_id = sid ''tevt'', te_event_kind = EV_CREATED,
           te_task_id = sid ''task'', te_operation_key = sid ''op'',
           te_idempotency_key = sid ''idem'',
           te_previous_event_id = None,
           te_previous_task_sha256 = None,
           te_task_sha256 = A64,
           te_from_status = None, te_to_status = INBOX, te_actor = ''me'',
           te_created_at = 0\<rparr>"

definition sample_generation :: task_generation where
  "sample_generation = \<lparr>schema_name = ''TaskBoardGenerationV1'', schema_version = SCHEMA_VERSION,
           id_scheme_version = ID_SCHEME_VERSION, extensions = [],
           tg_generation_id = sid ''tgen'',
           tg_parent_generation_id = None,
           tg_parent_generation_sha256 = None,
           tg_task_hashes = [(sid ''task'', A64)],
           tg_latest_event_ids = [(sid ''task'', sid ''tevt'')],
           tg_head_event_id = Some (sid ''tevt''),
           tg_event_count = 1,
           tg_created_at = 0\<rparr>"

text \<open>A second request with the same idempotency key; the digest tells its operation key apart.\<close>

definition other_request :: create_request where
  "other_request = sample_request\<lparr>cr_title := ''u''\<rparr>"

definition create_material :: "create_request \<Rightarrow> jval" where
  "create_material r = JObj
     [(''service'', JStr service_version), (''command'', JStr ''create_task''),
      (''idempotency_key'', JStr (sid ''idem'')), (''payload'', request_payload r)]"

definition sample_sha :: digest where
  "sample_sha b = (if b = json_bytes (id_material ''op'' (create_material other_request))
     then replicate 64 CHR ''b'' else A64)"

definition sample_env :: task_env where
  "sample_env = \<lparr>env_sha = sample_sha, env_strip = id, env_scan = (\<lambda>_. Some (False, ''internal'')), env_root = [],
    env_parse_task = (\<lambda>_. Some sample_task), env_parse_event = (\<lambda>_. Some sample_event),
    env_parse_generation = (\<lambda>_. Some sample_generation)\<rparr>"

lemma show_int_1: "show_int 1 = ''1''" by code_simp
lemma iso_millis_0: "iso_millis 0 = ''1970-01-01T00:00:00.000Z''" by code_simp
lemmas sample_defs = sample_task_def sample_event_def sample_generation_def sid_def A64_def SCHEMA_VERSION_def ID_SCHEME_VERSION_def

lemma sample_task_size: "length (json_bytes (task_json sample_task)) \<le> 1048576"
  by (rule order_trans [OF length_json_bytes])
   (simp add: task_json_def versioned_fields_def sample_defs jopt_def iso_millis_0 show_int_1)
lemma sample_event_size: "length (json_bytes (event_json sample_event)) \<le> 1048576"
  by (rule order_trans [OF length_json_bytes])
   (simp add: event_json_def event_fields_def versioned_fields_def sample_defs jopt_def iso_millis_0 show_int_1)
lemma sample_generation_size: "length (json_bytes (generation_json sample_generation)) \<le> max_generation_bytes"
  by (rule order_trans [OF length_json_bytes])
   (simp add: generation_json_def generation_fields_def versioned_fields_def sample_defs jopt_def iso_millis_0 show_int_1 max_generation_bytes_def)
lemma sample_task_ok: "AgentTask_ok sample_task" by code_simp
lemma sample_event_ok: "TaskEvent_ok sample_event" by code_simp
lemma sample_generation_ok: "TaskBoardGeneration_ok sample_generation" by code_simp

lemma sha_A64: "is_Sha256 A64" by code_simp

lemma sample_env_sel [simp]:
  "env_sha sample_env = sample_sha" "env_strip sample_env = id"
  "env_scan sample_env b = Some (False, ''internal'')"
  "env_parse_task sample_env b = Some sample_task" "env_parse_event sample_env b = Some sample_event"
  "env_parse_generation sample_env b = Some sample_generation"
  by (simp_all add: sample_env_def)

lemma sound_sample_env: "sound_env sample_env"
proof -
  have "is_Sha256 (replicate 64 CHR ''b'')" by code_simp
  then show ?thesis by (simp add: sound_env_def sample_sha_def sha_A64)
qed

lemma wf_create_payload [simp]: "wf_json (create_payload t d p i m as ss ds gs a)"
  by (simp add: create_payload_def list_all_iff)

lemma wf_create_material [simp]: "wf_json (create_material r)"
  by (simp add: create_material_def request_payload_def)

text \<open>The digest is constant on every object that is not the key material of the second request.\<close>

lemma sample_sha_object:
  assumes "wf_json (JObj al)" "map_of al ''kind'' \<noteq> Some (JStr ''op'')"
  shows "sample_sha (json_bytes (JObj al)) = A64"
proof (rule ccontr)
  assume "sample_sha (json_bytes (JObj al)) \<noteq> A64"
  then have "json_bytes (JObj al) = json_bytes (id_material ''op'' (create_material other_request))"
    by (auto simp: sample_sha_def split: if_splits)
  from json_field_eq [OF assms(1) _ this [unfolded id_material_def], of "''kind''"] assms(2)
  obtain v where "map_of al ''kind'' = Some v" "jnorm v = JStr ''op''" by auto
  then show False using assms(2) by (cases v) auto
qed

lemma derive_sample [simp]:
  assumes "wf_json v" "k \<noteq> ''op''"
  shows "derive_id sample_sha k v = sid k"
  using assms sample_sha_object [of "[(''id_scheme_version'', JStr ID_SCHEME_VERSION), (''kind'', JStr k), (''identity'', v)]"]
  by (simp add: derive_id_def sha256_hex_def sid_def)

lemma derive_sample_op:
  assumes "wf_json v" "jnorm v \<noteq> jnorm (create_material other_request)"
  shows "derive_id sample_sha ''op'' v = sid ''op''"
proof -
  have "json_bytes (id_material ''op'' v) \<noteq> json_bytes (id_material ''op'' (create_material other_request))"
    using assms json_bytes_eq_iff [of "id_material ''op'' v" "id_material ''op'' (create_material other_request)"]
    by (simp add: id_material_def)
  then show ?thesis by (simp add: derive_id_material sample_sha_def sid_def)
qed

lemma sample_op [simp]:
  "create_operation_key sample_sha (sid ''idem'') (request_payload sample_request) = sid ''op''"
  "create_operation_key sample_sha (sid ''idem'') (request_payload other_request) = ''op_'' @ replicate 64 CHR ''b''"
proof -
  have fold: "create_operation_key sha (sid ''idem'') (request_payload r) = derive_id sha ''op'' (create_material r)"
    for sha r by (simp add: create_operation_key_def create_material_def)
  have "jnorm (create_material sample_request) \<noteq> jnorm (create_material other_request)"
    by (simp add: create_material_def request_payload_def create_payload_def sample_request_def other_request_def)
  then show "create_operation_key sample_sha (sid ''idem'') (request_payload sample_request) = sid ''op''"
    unfolding fold by (simp add: derive_sample_op)
  show "create_operation_key sample_sha (sid ''idem'') (request_payload other_request) = ''op_'' @ replicate 64 CHR ''b''"
    unfolding fold by (simp add: derive_id_material sample_sha_def)
qed

lemma task_json_wf: "AgentTask_ok t \<Longrightarrow> wf_json (task_json t)"
  by (auto simp: task_json_def versioned_fields_def AgentTask_ok_def versioned_ok_def list_all_iff)

lemma sample_sha_files [simp]:
  "sample_sha (json_bytes (task_json sample_task)) = A64"
  "sample_sha (json_bytes (generation_json sample_generation)) = A64"
proof -
  have "wf_json (task_json sample_task)" "wf_json (generation_json sample_generation)"
    using task_json_wf [OF sample_task_ok]
      generation_json_wf [OF sample_generation_ok, of "tg_generation_id sample_generation"] by simp_all
  then show "sample_sha (json_bytes (task_json sample_task)) = A64"
    "sample_sha (json_bytes (generation_json sample_generation)) = A64"
    unfolding task_json_def generation_json_def generation_fields_def versioned_fields_def
    by (intro sample_sha_object; simp)+
qed

lemma wf_identity_payload [simp]:
  "wf_json (event_identity_payload sample_event)" "wf_json (generation_identity_payload sample_generation)"
  "wf_json (event_identity_payload (sample_event\<lparr>te_event_id := i\<rparr>))"
  "wf_json (generation_identity_payload (sample_generation\<lparr>tg_generation_id := i\<rparr>))"
  by (simp_all add: event_identity_payload_def event_fields_def generation_identity_payload_def
      generation_fields_def versioned_fields_def sample_event_def sample_generation_def)

lemma strip_id: "strip_task id t = t" "strip_event id e = e"
  by (simp_all add: strip_task_def strip_event_def option.map_id0)

lemma strip_gen: "strip_generation id sample_generation = sample_generation"
  by (simp add: strip_generation_def sample_generation_def strip_dict_def option.map_id0 id_def)

lemma sid_evt: "sid ''tevt'' = ''tevt_'' @ A64" and sid_gen: "sid ''tgen'' = ''tgen_'' @ A64"
  by (simp_all add: sid_def)

lemma read_ledger_at:
  assumes "is_Sha256 h"
  shows "fs (task_path h) = Some (Regular d 0 0) \<Longrightarrow> length d \<le> m \<Longrightarrow> 0 < m \<Longrightarrow>
      read_regular_file root fs (task_path h) m = Inr d"
    and "fs (event_path (''tevt_'' @ h)) = Some (Regular d 0 0) \<Longrightarrow> length d \<le> m \<Longrightarrow> 0 < m \<Longrightarrow>
      read_regular_file root fs (event_path (''tevt_'' @ h)) m = Inr d"
    and "fs (board_path (''tgen_'' @ h)) = Some (Regular d 0 0) \<Longrightarrow> length d \<le> m \<Longrightarrow> 0 < m \<Longrightarrow>
      read_regular_file root fs (board_path (''tgen_'' @ h)) m = Inr d"
  using task_file_parts [OF assms, of root] sha_file_parts [OF assms, of root]
  by (auto simp: read_regular_file_Inr_iff task_path_def event_path_def board_path_def)

lemmas read_sid_at = read_ledger_at(1) [OF sha_A64]
  read_ledger_at(2) [OF sha_A64, folded sid_evt] read_ledger_at(3) [OF sha_A64, folded sid_gen]

definition sample_board_fs :: fs where
  "sample_board_fs = [task_path A64 \<mapsto> Regular (json_bytes (task_json sample_task)) 0 0,
     event_path (sid ''tevt'') \<mapsto> Regular (json_bytes (event_json sample_event)) 0 0,
     board_path (sid ''tgen'') \<mapsto> Regular (json_bytes (generation_json sample_generation)) 0 0]"

lemma ledger_paths_distinct [simp]:
  "task_path a \<noteq> event_path b" "task_path a \<noteq> board_path c" "event_path b \<noteq> board_path c"
  "event_path b \<noteq> task_path a" "board_path c \<noteq> task_path a" "board_path c \<noteq> event_path b"
  by (simp_all add: task_path_def event_path_def board_path_def)

definition sample_files :: "fs \<Rightarrow> bool" where
  "sample_files fs \<longleftrightarrow> fs (task_path A64) = Some (Regular (json_bytes (task_json sample_task)) 0 0) \<and>
     fs (event_path (sid ''tevt'')) = Some (Regular (json_bytes (event_json sample_event)) 0 0) \<and>
     fs (board_path (sid ''tgen'')) = Some (Regular (json_bytes (generation_json sample_generation)) 0 0)"

lemma sample_reads:
  assumes "sample_files fs"
  shows "read_task sample_env fs (sid ''task'') A64 = Inr sample_task"
    "read_event sample_env fs (sid ''tevt'') = Inr sample_event"
    "read_generation sample_env fs (sid ''tgen'') = Inr sample_generation"
proof -
  have at: "at_task_id sample_task = sid ''task''" "te_event_id sample_event = sid ''tevt''"
     "tg_generation_id sample_generation = sid ''tgen''"
    by (simp_all add: sample_task_def sample_event_def sample_generation_def)
  show "read_task sample_env fs (sid ''task'') A64 = Inr sample_task"
    using read_sid_at(1) assms sample_task_size sample_task_ok
    by (simp add: read_task_def make_AgentTask_def strip_id sha256_hex_def sample_files_def at)
  show "read_event sample_env fs (sid ''tevt'') = Inr sample_event"
    using read_sid_at(2) assms sample_event_size sample_event_ok
    by (simp add: read_event_def make_TaskEvent_def strip_id sample_files_def at event_verify_id_def)
  show "read_generation sample_env fs (sid ''tgen'') = Inr sample_generation"
    using read_sid_at(3) assms sample_generation_size sample_generation_ok
    by (simp add: read_generation_def make_TaskBoardGeneration_def strip_gen sample_files_def at
        generation_verify_id_def max_generation_bytes_def)
qed

lemma sample_closure:
  assumes "sample_files fs"
  shows "validate_generation_closure sample_env fs sample_generation = Inr ()"
proof -
  note rd = sample_reads [OF assms]
  have "load_tasks sample_env fs (Some sample_generation) = Inr [(sid ''task'', sample_task)]"
    using rd by (simp add: load_tasks_def load_entry_def sample_generation_def)
  moreover have "validate_task_graph [(sid ''task'', sample_task)] = Inr ()"
    by (simp add: validate_task_graph_def sample_task_def sorted_set_def)
  moreover have "validate_latest_index sample_env fs sample_generation = Inr ()"
    using rd by (simp add: validate_latest_index_def latest_entry_def sample_generation_def
        sample_event_def sample_task_def)
  moreover have "read_head sample_env fs sample_generation [] [] [] = Inr (sample_event, sample_task)"
    using rd by (simp add: read_head_def sample_generation_def sample_event_def sample_task_def)
  moreover have "validate_root sample_env sample_generation sample_event sample_task = Inr ()"
  proof -
    have sel: "te_actor sample_event = ''me''" "te_idempotency_key sample_event = sid ''idem''"
        "te_operation_key sample_event = sid ''op''"
      by (simp_all add: sample_event_def)
    have payload: "task_payload sample_task ''me'' = request_payload sample_request"
      by (simp add: task_payload_def request_payload_def sample_task_def sample_request_def sorted_set_def)
    have "validate_created_event sample_env sample_event sample_task None = Inr ()"
      unfolding validate_created_event_def sel payload sample_env_sel sample_op
      by (simp add: Let_def scan_task_payload_def task_id_for_def sample_event_def sample_task_def)
    then show ?thesis
      by (simp add: validate_root_def sample_generation_def sample_event_def sample_task_def)
  qed
  moreover have "tg_parent_generation_id sample_generation = None" "tg_event_count sample_generation = 1"
    by (simp_all add: sample_generation_def)
  ultimately show ?thesis
    by (simp add: validate_generation_closure_def closure_loop.simps closure_step_def max_events_def)
qed

lemma sample_prepare:
  "prepare_create sample_env sample_request = Inr (0, INTERNAL, sid ''idem'', sid ''op'')"
  "prepare_create sample_env other_request =
     Inr (0, INTERNAL, sid ''idem'', ''op_'' @ replicate 64 CHR ''b'')"
proof -
  have k: "py_strip ''k'' = ''k''" "length (utf8 ''k'') = 1" by code_simp+
  have sel: "cr_now sample_request = (True, 0)" "cr_idempotency_key sample_request = ''k''"
    "cr_now other_request = (True, 0)" "cr_idempotency_key other_request = ''k''"
    by (simp_all add: sample_request_def other_request_def)
  show "prepare_create sample_env sample_request = Inr (0, INTERNAL, sid ''idem'', sid ''op'')"
    "prepare_create sample_env other_request =
       Inr (0, INTERNAL, sid ''idem'', ''op_'' @ replicate 64 CHR ''b'')"
    by (simp_all add: prepare_create_def sel normalize_timestamp_def scan_task_payload_def
      idempotency_id_def k)
qed

lemma sample_check:
  "check_create sample_env Map.empty sample_request 0 INTERNAL (sid ''idem'') (sid ''op'') =
   Inr (Inr (None, sample_task))"
proof -
  have "new_task sample_env sample_request (sid ''op'') INTERNAL 0 = Some sample_task"
    using sample_task_ok by (simp add: new_task_def make_AgentTask_def strip_id sample_request_def sample_task_def
        task_id_for_def sorted_set_def)
  then show ?thesis
    by (simp add: check_create_def read_current_generation_def find_operation.simps assert_expected_def
        load_tasks_def sample_request_def max_tasks_def)
qed

definition sample_result :: task_command_result where
  "sample_result = \<lparr>tr_generation_id = sid ''tgen'', tr_generation_sha256 = A64,
     tr_event_id = sid ''tevt'', tr_task = sample_task, tr_no_op = False\<rparr>"

lemma sample_event_seed: "sample_event\<lparr>te_event_id := i\<rparr> =
   \<lparr>schema_name = ''TaskEventV1'', schema_version = SCHEMA_VERSION,
    id_scheme_version = ID_SCHEME_VERSION, extensions = [], te_event_id = i,
    te_event_kind = EV_CREATED, te_task_id = sid ''task'', te_operation_key = sid ''op'',
    te_idempotency_key = sid ''idem'', te_previous_event_id = None, te_previous_task_sha256 = None,
    te_task_sha256 = A64, te_from_status = None, te_to_status = INBOX, te_actor = ''me'',
    te_created_at = 0\<rparr>"
  by (simp add: sample_event_def)

lemma sample_generation_seed: "sample_generation\<lparr>tg_generation_id := i\<rparr> =
   \<lparr>schema_name = ''TaskBoardGenerationV1'', schema_version = SCHEMA_VERSION,
    id_scheme_version = ID_SCHEME_VERSION, extensions = [], tg_generation_id = i,
    tg_parent_generation_id = None, tg_parent_generation_sha256 = None,
    tg_task_hashes = [(sid ''task'', A64)], tg_latest_event_ids = [(sid ''task'', sid ''tevt'')],
    tg_head_event_id = Some (sid ''tevt''), tg_event_count = 1, tg_created_at = 0\<rparr>"
  by (simp add: sample_generation_def)

lemma sample_commit:
  "commit sample_env Map.empty None sample_task EV_CREATED (sid ''op'') (sid ''idem'') ''me'' 0 None None =
   (Inr sample_result, sample_board_fs(pointer_path \<mapsto> Regular ((sid ''tgen'') @ [CHR 0x0A]) 0 0))"
proof -
  have "TaskEvent_ok (sample_event\<lparr>te_event_id := ''tevt_pending''\<rparr>)"
      "TaskBoardGeneration_ok (sample_generation\<lparr>tg_generation_id := ''tgen_pending''\<rparr>)"
    using sample_event_ok sample_generation_ok by (auto simp: TaskEvent_ok_def event_invariants_def versioned_ok_def
        TaskBoardGeneration_ok_def board_invariants_def is_Identifier_def lower_letter_def
        split: option.splits)
  note ok = this
  have sel: "at_task_id sample_task = sid ''task''" "at_status sample_task = INBOX"
      "te_event_id sample_event = sid ''tevt''"
    by (simp_all add: sample_task_def sample_event_def)
  have seed: "strip_generation id (sample_generation\<lparr>tg_generation_id := i\<rparr>) = sample_generation\<lparr>tg_generation_id := i\<rparr>" for i
    by (simp add: strip_generation_def sample_generation_def strip_dict_def)
  have ids: "sample_event\<lparr>te_event_id := sid ''tevt''\<rparr> = sample_event"
      "sample_generation\<lparr>tg_generation_id := sid ''tgen''\<rparr> = sample_generation"
      "te_event_id sample_event = sid ''tevt''" "tg_generation_id sample_generation = sid ''tgen''"
    by (simp_all add: sample_event_def sample_generation_def)
  have e: "build_event sample_env None sample_task EV_CREATED (sid ''op'') (sid ''idem'') ''me'' 0
        None None = Some sample_event"
    using ok(1) unfolding build_event_def sel sha256_hex_def sample_env_sel sample_sha_files
      sample_event_seed [symmetric] Option.bind.bind_lzero make_TaskEvent_def strip_id Let_def
    by (simp add: ids)
  have g: "build_generation sample_env None sample_task sample_event 0 = Some sample_generation"
    using ok(2) unfolding build_generation_def sel sha256_hex_def sample_env_sel sample_sha_files
      next_event_count_def option.map option.case dict_set.simps
      sample_generation_seed [symmetric] make_TaskBoardGeneration_def seed Let_def
    by (simp add: ids)
  have c: "sample_files sample_board_fs" by (simp add: sample_files_def sample_board_fs_def)
  have fs: "Map.empty(task_path A64 \<mapsto> Regular (json_bytes (task_json sample_task)) 0 0,
     event_path (sid ''tevt'') \<mapsto> Regular (json_bytes (event_json sample_event)) 0 0,
     board_path (sid ''tgen'') \<mapsto> Regular (json_bytes (generation_json sample_generation)) 0 0) = sample_board_fs"
     by (simp add: sample_board_fs_def)
  have p: "sample_board_fs pointer_path = None" by (simp add: sample_board_fs_def)
  show ?thesis
    using sample_closure [OF c] sample_generation_size
    by (simp add: commit_def publish_private_def publish_immutable_def sha256_hex_def e g ids Let_def
      commit_generation_def commit_pointer_def next_event_count_def max_events_def fs p
      read_current_generation_def write_bytes_atomic_def sample_result_def generation_manifest_sha256_def not_less)
qed

lemma sample_create: "create_task sample_env Map.empty sample_request =
  (Inr sample_result, sample_board_fs(pointer_path \<mapsto> Regular ((sid ''tgen'') @ [CHR 0x0A]) 0 0))"
proof -
  have "cr_actor sample_request = ''me''" by (simp add: sample_request_def)
  then show ?thesis using sample_commit by (simp add: create_task_def sample_prepare sample_check)
qed

definition sample_fs :: fs where
  "sample_fs = sample_board_fs(pointer_path \<mapsto> Regular (sid ''tgen'' @ [CHR 0x0A]) 0 0)"

text \<open>The sample command commits, and its generation reads back; these are the facts the witnesses use.\<close>

lemma sample_run: "run_command sample_env Map.empty (Create sample_request) = (Inr sample_result, sample_fs)"
  using sample_create by (simp add: sample_fs_def)

lemma sample_run_back:
  "\<not> tr_no_op sample_result"
  "read_generation sample_env sample_fs (tr_generation_id sample_result) = Inr sample_generation"
  "tg_created_at sample_generation = at_updated_at (tr_task sample_result)"
proof -
  have files: "sample_files sample_fs"
    by (simp add: sample_files_def sample_fs_def sample_board_fs_def)
  show "\<not> tr_no_op sample_result"
    "read_generation sample_env sample_fs (tr_generation_id sample_result) = Inr sample_generation"
    "tg_created_at sample_generation = at_updated_at (tr_task sample_result)"
    using sample_reads(3) [OF files]
    by (simp_all add: sample_result_def sample_generation_def sample_task_def)
qed

lemma sample_current: "read_current_generation sample_env sample_fs = Inr (Some sample_generation)"
proof (rule read_current_generation_at [OF sha_A64, where gid = "sid ''tgen''"])
  have files: "sample_files sample_fs"
    by (simp add: sample_files_def sample_fs_def sample_board_fs_def)
  show "read_generation sample_env sample_fs (sid ''tgen'') = Inr sample_generation"
    by (rule sample_reads(3) [OF files])
  show "validate_generation_closure sample_env sample_fs sample_generation = Inr ()"
    by (rule sample_closure [OF files])
qed (simp_all add: sid_def sample_fs_def)

section \<open>Properties\<close>

text \<open>C1: a ledger the service accepts is the end of a run of the abstract task board that has as
  many steps as the current generation counts events: every task was created in the inbox, every
  later state came from a legal transition, with immutable fields kept and revisions counted. Its
  dependency graph is closed and acyclic, and ready or running tasks have finished dependencies.\<close>

theorem accepted_ledger_is_board_run:
  assumes "read_current_generation E fs = Inr (Some g)"
  shows "board_run (ledger_view E fs g) (nat (tg_event_count g)) \<and> sound_board (ledger_view E fs g)"
  using validate_generation_closure_run [OF read_current_Some(1) [OF assms]] board_run_sound by blast

theorem accepted_ledger_is_board_run_witness:
  "board_run (ledger_view sample_env sample_fs sample_generation) (nat (tg_event_count sample_generation)) \<and>
   sound_board (ledger_view sample_env sample_fs sample_generation)"
  using accepted_ledger_is_board_run [OF sample_current] .

text \<open>C12: refinement. A create or transition command that commits is one step of the abstract board
  from the board read before the command to the board read after it.\<close>

theorem task_command_refines_board:
  assumes "sound_env E" "run_command E fs c = (Inr res, fs')" "\<not> tr_no_op res"
    and "read_generation E fs' (tr_generation_id res) = Inr g"
    and "tg_created_at g = at_updated_at (tr_task res)"
  shows "board_step (current_board E fs) (current_board E fs')"
  using run_command_step [OF assms] .

theorem task_command_refines_board_witness:
  "board_step (current_board sample_env Map.empty) (current_board sample_env sample_fs)"
  using task_command_refines_board [OF sound_sample_env sample_run sample_run_back] .

text \<open>C16: idempotence over the history. However many commands follow a committed command, and whatever
  their outcomes, repeating it on a ledger that the service accepts finds it in the chain, changes nothing
  and returns its generation, event and task, marked as a no-op: no command is executed twice.\<close>

theorem task_command_replay:
  assumes "sound_env E" "run_command E fs c = (Inr res, fs1)" "\<not> tr_no_op res"
    and "read_generation E fs1 (tr_generation_id res) = Inr g" "tg_created_at g = at_updated_at (tr_task res)"
    and "(ledger_step E)\<^sup>*\<^sup>* fs1 fs2" "read_current_generation E fs2 = Inr (Some g2)"
  shows "\<exists>t. run_command E fs2 c = (Inr (res\<lparr>tr_task := t, tr_no_op := True\<rparr>), fs2) \<and>
    json_bytes (task_json t) = json_bytes (task_json (tr_task res))"
proof -
  obtain i k e t where c: "command_keys E c = Inr (i, k)" "find_operation E fs2 (tg_head_event_id g2) k i [] = Inr (Some e)"
      "json_bytes (task_json t) = json_bytes (task_json (tr_task res))"
      "result_for_event E fs2 (Some g2) e True = Inr (res\<lparr>tr_task := t, tr_no_op := True\<rparr>)"
    by (rule committed_found [OF assms])
  from run_command_lookup(1) [OF c(1) assms(7) c(2,4)] c(3) show ?thesis by blast
qed

text \<open>a command that reuses the idempotency key of the command just committed with another
  operation key is refused as a conflict and leaves the workspace as it was.\<close>

theorem task_command_key_conflict:
  assumes "sound_env E" "run_command E fs c = (Inr res, fs')" "\<not> tr_no_op res"
    and "read_generation E fs' (tr_generation_id res) = Inr g"
    and "tg_created_at g = at_updated_at (tr_task res)"
    and "command_keys E c = Inr (i, k)" "command_keys E c' = Inr (i, k')" "k' \<noteq> k"
  shows "run_command E fs' c' = (Inl TaskConflict, fs')"
proof -
  obtain i0 k0 e t where c: "command_keys E c = Inr (i0, k0)" "read_current_generation E fs' = Inr (Some g)"
      "read_event E fs' (te_event_id e) = Inr e" "tg_head_event_id g = Some (te_event_id e)"
      "te_operation_key e = k0" "te_idempotency_key e = i0"
    by (rule run_command_committed [OF assms(1-5)])
  have "find_operation E fs' (tg_head_event_id g) k' i [] = Inl TaskConflict"
    unfolding c(4) by (rule find_operation_head(2) [OF c(3)]) (use c assms(6,8) in auto)
  from run_command_lookup(2) [OF assms(7) c(2) this] show ?thesis .
qed

theorem task_command_key_conflict_witness:
  "run_command sample_env sample_fs (Create other_request) = (Inl TaskConflict, sample_fs)"
proof (rule task_command_key_conflict [OF sound_sample_env sample_run sample_run_back])
  show "command_keys sample_env (Create sample_request) = Inr (sid ''idem'', sid ''op'')"
    "command_keys sample_env (Create other_request) = Inr (sid ''idem'', ''op_'' @ replicate 64 CHR ''b'')"
    by (simp_all only: command_keys.simps sample_prepare rbind_simps case_prod_conv)
  show "''op_'' @ replicate 64 CHR ''b'' \<noteq> sid ''op''" by (simp add: sid_def A64_def)
qed

text \<open>The later command of the sample history reuses the key and is refused.\<close>

lemma sample_later: "(ledger_step sample_env)\<^sup>*\<^sup>* sample_fs sample_fs"
  by (rule r_into_rtranclp, rule ledger_step.command [OF task_command_key_conflict_witness])

theorem task_command_replay_witness:
  "\<exists>t. run_command sample_env sample_fs (Create sample_request) =
      (Inr (sample_result\<lparr>tr_task := t, tr_no_op := True\<rparr>), sample_fs) \<and>
    json_bytes (task_json t) = json_bytes (task_json (tr_task sample_result))"
  using task_command_replay [OF sound_sample_env sample_run sample_run_back sample_later sample_current] .

text \<open>C17: whatever a command does, no published file changes. A failing command leaves the pointer
  as it was, a replay leaves the whole workspace as it was, and a command that commits leaves the
  pointer naming the generation it returns.\<close>

theorem task_command_frame: "command_frame fs (run_command E fs c)"
  by (rule run_command_frame)

end
