(* ===== verification/Json_Text.thy ===== *)
theory Json_Text
  imports Canonical
begin

text \<open>
  Model of \<open>json.loads\<close> on the texts the stores keep, the reader that belongs to the canonical
  encoder of theory \<open>Canonical\<close>. It follows the scanner of the standard library: whitespace is
  skipped around tokens, a string ends at the first unescaped quote and may not contain control
  characters, an integer has no leading zeros, a repeated key of an object keeps its first position
  and its last value. \<open>None\<close> stands for a text the reader rejects and for a text whose value has no
  counterpart in \<open>jval\<close>: a number with a fraction or an exponent, a character above code point 255.
  The recursion carries the length of the text as its bound; theorem \<open>loads_dumps\<close> shows that this is
  enough for every canonical text.
\<close>

section \<open>Definitions\<close>

fun skip_ws :: "string \<Rightarrow> string" where
  "skip_ws [] = []"
| "skip_ws (c # s) = (if c \<in> set [CHR '' '', CHR 0x09, CHR 0x0A, CHR 0x0D] then skip_ws s else c # s)"

definition hex_value :: "char \<Rightarrow> nat option" where
  "hex_value c =
     (let n = of_char c :: nat in
      if 48 \<le> n \<and> n \<le> 57 then Some (n - 48)
      else if 97 \<le> n \<and> n \<le> 102 then Some (n - 87)
      else if 65 \<le> n \<and> n \<le> 70 then Some (n - 55)
      else None)"

fun hex_digits :: "string \<Rightarrow> nat \<Rightarrow> nat option" where
  "hex_digits [] acc = Some acc"
| "hex_digits (c # s) acc =
     (case hex_value c of None \<Rightarrow> None | Some d \<Rightarrow> hex_digits s (16 * acc + d))"

text \<open>The escape after a backslash: the character it denotes and the rest of the text.\<close>

definition unescape :: "string \<Rightarrow> (char \<times> string) option" where
  "unescape s =
     (case s of
        [] \<Rightarrow> None
      | e # t \<Rightarrow>
          if e = CHR ''u'' then
            (if length t < 4 then None
             else case hex_digits (take 4 t) 0 of
                    None \<Rightarrow> None
                  | Some n \<Rightarrow> if n < 256 then Some (char_of n, drop 4 t) else None)
          else if e \<in> {CHR 0x22, CHR 0x5C, CHR ''/''} then Some (e, t)
          else if e = CHR ''b'' then Some (CHR 0x08, t)
          else if e = CHR ''f'' then Some (CHR 0x0C, t)
          else if e = CHR ''n'' then Some (CHR 0x0A, t)
          else if e = CHR ''r'' then Some (CHR 0x0D, t)
          else if e = CHR ''t'' then Some (CHR 0x09, t)
          else None)"

lemma unescape_shorter: "unescape s = Some (c, t) \<Longrightarrow> length t < length s"
  by (auto simp: unescape_def split: list.splits if_splits option.splits)

text \<open>The text of a string after its opening quote.\<close>

function parse_string :: "string \<Rightarrow> (string \<times> string) option" where
  "parse_string [] = None"
| "parse_string (c # s) =
     (if c = CHR 0x22 then Some ([], s)
      else if c = CHR 0x5C then
        (case unescape s of
           None \<Rightarrow> None
         | Some (d, t) \<Rightarrow> map_option (map_prod (Cons d) id) (parse_string t))
      else if of_char c < (32 :: nat) then None
      else map_option (map_prod (Cons c) id) (parse_string s))"
  by pat_completeness auto
termination
  by (relation "measure length") (auto dest: unescape_shorter)

definition parse_nat :: "string \<Rightarrow> (nat \<times> string) option" where
  "parse_nat s =
     (let ds = takeWhile decimal_digit s; r = dropWhile decimal_digit s in
      if ds = [] then None
      else if hd ds = CHR ''0'' then Some (0, tl s)
      else Some (read_nat ds, r))"

text \<open>A number that goes on with a fraction or an exponent is a float.\<close>

definition float_tail :: "string \<Rightarrow> bool" where
  "float_tail r =
     (case r of
        c # d # t \<Rightarrow> c = CHR ''.'' \<and> decimal_digit d \<or>
          c \<in> {CHR ''e'', CHR ''E''} \<and>
            (decimal_digit d \<or> d \<in> {CHR ''+'', CHR ''-''} \<and> t \<noteq> [] \<and> decimal_digit (hd t))
      | _ \<Rightarrow> False)"

definition parse_int :: "string \<Rightarrow> (jval \<times> string) option" where
  "parse_int s =
     (let neg = s \<noteq> [] \<and> hd s = CHR ''-'' in
      case parse_nat (if neg then tl s else s) of
        None \<Rightarrow> None
      | Some (n, r) \<Rightarrow> if float_tail r then None else Some (JInt (if neg then - int n else int n), r))"

definition dict_of :: "(string \<times> jval) list \<Rightarrow> (string \<times> jval) list" where
  "dict_of ps = fold (\<lambda>p. AList.update (fst p) (snd p)) ps []"

fun parse_value :: "nat \<Rightarrow> string \<Rightarrow> (jval \<times> string) option"
  and parse_items :: "nat \<Rightarrow> string \<Rightarrow> (jval list \<times> string) option"
  and parse_members :: "nat \<Rightarrow> string \<Rightarrow> ((string \<times> jval) list \<times> string) option" where
  "parse_value 0 s = None"
| "parse_value (Suc n) s =
     (if s = [] then None
      else if hd s = CHR 0x22 then map_option (map_prod JStr id) (parse_string (tl s))
      else if hd s = CHR ''['' then
        (let t = skip_ws (tl s) in
         if t \<noteq> [] \<and> hd t = CHR '']'' then Some (JList [], tl t)
         else map_option (map_prod JList id) (parse_items n t))
      else if hd s = CHR ''{'' then
        (let t = skip_ws (tl s) in
         if t \<noteq> [] \<and> hd t = CHR ''}'' then Some (JObj [], tl t)
         else map_option (map_prod (JObj \<circ> dict_of) id) (parse_members n t))
      else if starts_with s ''null'' then Some (JNull, drop 4 s)
      else if starts_with s ''true'' then Some (JBool True, drop 4 s)
      else if starts_with s ''false'' then Some (JBool False, drop 5 s)
      else parse_int s)"
| "parse_items 0 s = None"
| "parse_items (Suc n) s =
     (case parse_value n s of
        None \<Rightarrow> None
      | Some (v, r) \<Rightarrow>
          (case skip_ws r of
             [] \<Rightarrow> None
           | c # t \<Rightarrow>
               if c = CHR '','' then map_option (map_prod (Cons v) id) (parse_items n (skip_ws t))
               else if c = CHR '']'' then Some ([v], t)
               else None))"
| "parse_members 0 s = None"
| "parse_members (Suc n) s =
     (if s = [] \<or> hd s \<noteq> CHR 0x22 then None
      else case parse_string (tl s) of
        None \<Rightarrow> None
      | Some (k, r) \<Rightarrow>
          (case skip_ws r of
             [] \<Rightarrow> None
           | d # u \<Rightarrow>
               if d \<noteq> CHR '':'' then None
               else case parse_value n (skip_ws u) of
                 None \<Rightarrow> None
               | Some (v, w) \<Rightarrow>
                   (case skip_ws w of
                      [] \<Rightarrow> None
                    | c # t \<Rightarrow>
                        if c = CHR '','' then
                          map_option (map_prod (Cons (k, v)) id) (parse_members n (skip_ws t))
                        else if c = CHR ''}'' then Some ([(k, v)], t)
                        else None)))"

definition loads :: "string \<Rightarrow> jval option" where
  "loads s =
     (case parse_value (Suc (length s)) (skip_ws s) of
        None \<Rightarrow> None
      | Some (v, r) \<Rightarrow> if skip_ws r = [] then Some v else None)"

section \<open>Reading back what was written\<close>

lemma skip_ws_id: "s = [] \<or> hd s \<notin> set [CHR '' '', CHR 0x09, CHR 0x0A, CHR 0x0D] \<Longrightarrow> skip_ws s = s"
  by (cases s) auto

lemma of_char_small_eq: "of_char c = (n::nat) \<Longrightarrow> c = char_of n"
  by auto

lemma hex_value_hex_char: "d < 16 \<Longrightarrow> hex_value (hex_char d) = Some d"
  by (auto simp: hex_value_def of_char_hex)

lemma hex_value_zero: "hex_value CHR ''0'' = Some 0"
  by code_simp

lemma unescape_u00:
  assumes "n < 32"
  shows "unescape (CHR ''u'' # CHR ''0'' # CHR ''0'' # hex_char (n div 16) # hex_char (n mod 16) # r) =
    Some (char_of n, r)"
proof -
  have "hex_value (hex_char (n div 16)) = Some (n div 16)" "hex_value (hex_char (n mod 16)) = Some (n mod 16)"
    using assms by (simp_all add: hex_value_hex_char)
  then have "hex_digits [CHR ''0'', CHR ''0'', hex_char (n div 16), hex_char (n mod 16)] 0 = Some n"
    by (simp add: hex_value_zero)
  with assms show ?thesis by (simp add: unescape_def)
qed

lemma escaped_chars:
  "char_of (34::nat) = CHR 0x22" "char_of (92::nat) = CHR 0x5C" "char_of (8::nat) = CHR 0x08"
  "char_of (9::nat) = CHR 0x09" "char_of (10::nat) = CHR 0x0A" "char_of (12::nat) = CHR 0x0C"
  "char_of (13::nat) = CHR 0x0D"
  by code_simp+

lemma parse_string_escape:
  "parse_string (escape_char c @ r) = map_option (map_prod (Cons c) id) (parse_string r)"
proof -
  let ?n = "of_char c :: nat"
  consider "?n = 34" | "?n = 92" | "?n = 8" | "?n = 9" | "?n = 10" | "?n = 12" | "?n = 13"
    | "?n < 32" "?n \<notin> {8, 9, 10, 12, 13}" | "32 \<le> ?n" "?n \<noteq> 34" "?n \<noteq> 92" by fastforce
  then show ?thesis
  proof cases
    case 8
    then have "escape_char c = CHR 0x5C # ''u00'' @ [hex_char (?n div 16), hex_char (?n mod 16)]"
      by (simp add: escape_char_def Let_def)
    with unescape_u00 [OF 8(1), of r] show ?thesis by simp
  next
    case 9
    then have "escape_char c = [c]" by (simp add: escape_char_def)
    moreover have "c \<noteq> CHR 0x22" "c \<noteq> CHR 0x5C" using 9 by auto
    ultimately show ?thesis using 9 by simp
  qed (auto dest!: of_char_small_eq simp: escape_char_def unescape_def escaped_chars)
qed

lemma parse_string_quote: "parse_string (concat (map escape_char s) @ CHR 0x22 # r) = Some (s, r)"
  by (induction s) (simp_all add: parse_string_escape)

lemma show_nat_hd_zero: "hd (show_nat n) = CHR ''0'' \<Longrightarrow> n = 0"
proof (induction n rule: show_nat.induct)
  case (1 n)
  show ?case
  proof (cases "n < 10")
    case True
    with 1 have "digit_char n = CHR ''0''" by (simp add: show_nat.simps [of n])
    then have "of_char (digit_char n) = (48 :: nat)" by simp
    with True show ?thesis by simp
  next
    case False
    with 1 show ?thesis by (simp add: show_nat.simps [of n])
  qed
qed

lemma show_nat_zero: "show_nat 0 = [CHR ''0'']"
  by code_simp

lemma parse_nat_show: "ends_token r \<Longrightarrow> parse_nat (show_nat n @ r) = Some (n, r)"
proof -
  assume r: "ends_token r"
  have tw: "takeWhile decimal_digit (show_nat n @ r) = show_nat n" by (rule takeWhile_show_nat [OF r])
  have dw: "dropWhile decimal_digit (show_nat n @ r) = r"
    using takeWhile_dropWhile_id [of decimal_digit "show_nat n @ r"] tw by simp
  show ?thesis
  proof (cases "n = 0")
    case True
    then show ?thesis using tw dw by (simp add: parse_nat_def show_nat_zero)
  next
    case False
    with show_nat_hd_zero [of n] tw dw show ?thesis by (auto simp: parse_nat_def read_show_nat Let_def)
  qed
qed

lemma float_tail_end: "ends_token r \<Longrightarrow> \<not> float_tail r"
  by (auto simp: float_tail_def ends_token_def split: list.splits)

lemma parse_int_show: "ends_token r \<Longrightarrow> parse_int (show_int i @ r) = Some (JInt i, r)"
proof (cases "i < 0")
  case True
  moreover assume "ends_token r"
  ultimately show ?thesis
    using parse_nat_show [of r "nat (- i)"] float_tail_end [of r] by (simp add: parse_int_def show_int_def)
next
  case False
  moreover assume r: "ends_token r"
  moreover have "hd (show_nat (nat i) @ r) \<noteq> CHR ''-''"
    using hd_show_nat [of "nat i"] by (cases "show_nat (nat i)") (auto simp: decimal_digit_def)
  ultimately show ?thesis
    using parse_nat_show [OF r, of "nat i"] float_tail_end [OF r]
    by (simp add: parse_int_def show_int_def)
qed

lemma dict_of_distinct: "distinct (map fst ps) \<Longrightarrow> dict_of ps = ps"
proof -
  have "distinct (map fst (acc @ ps)) \<Longrightarrow> fold (\<lambda>p. AList.update (fst p) (snd p)) ps acc = acc @ ps" for acc
  proof (induction ps arbitrary: acc)
    case (Cons p ps)
    have "AList.update (fst p) (snd p) acc = acc @ [p]"
      using Cons.prems by (subst update_new_key) (auto simp: image_iff)
    with Cons show ?case by simp
  qed simp
  from this [of "[]"] show "distinct (map fst ps) \<Longrightarrow> dict_of ps = ps" by (simp add: dict_of_def)
qed

text \<open>The first character of an encoded value tells the reader which branch to take.\<close>

lemma dumps_not_ws: "hd (dumps v @ r) \<notin> set [CHR '' '', CHR 0x09, CHR 0x0A, CHR 0x0D]"
proof (cases v)
  case (JInt i)
  then show ?thesis
    using hd_show_nat [of "nat i"]
    by (cases "show_nat (nat i)") (auto simp: show_int_def decimal_digit_def)
qed (auto simp: quote_def)

lemma skip_ws_dumps [simp]: "skip_ws (dumps v @ r) = dumps v @ r"
  by (rule skip_ws_id) (use dumps_not_ws in auto)

lemma parse_value_int:
  assumes "ends_token r"
  shows "parse_value (Suc n) (show_int i @ r) = Some (JInt i, r)"
proof -
  obtain c t where ct: "show_int i @ r = c # t" "decimal_digit c \<or> c = CHR ''-''"
  proof (cases "i < 0")
    case True
    with that show ?thesis by (simp add: show_int_def)
  next
    case False
    obtain c t where "show_nat (nat i) = c # t" by (cases "show_nat (nat i)") auto
    with False hd_show_nat [of "nat i" c t] that show ?thesis by (simp add: show_int_def)
  qed
  then have "\<not> starts_with (c # t) ''null''" "\<not> starts_with (c # t) ''true''" "\<not> starts_with (c # t) ''false''"
    "c \<notin> {CHR 0x22, CHR ''['', CHR ''{''}"
    by (auto simp: starts_with_def decimal_digit_def)
  with parse_int_show [OF assms, of i] ct(1) show ?thesis by simp
qed

lemma skip_ws_items [simp]:
  "xs \<noteq> [] \<Longrightarrow> skip_ws (joins '','' (map dumps xs) @ r) = joins '','' (map dumps xs) @ r"
proof (cases xs)
  case (Cons x xs')
  then obtain t where "joins '','' (map dumps xs) = dumps x @ t" by (cases xs') auto
  then show ?thesis by simp
qed simp

lemma hd_members: "ps \<noteq> [] \<Longrightarrow> hd (joins '','' (map show_pair ps) @ r) = CHR 0x22"
proof (cases ps)
  case (Cons p ps')
  then obtain t where "joins '','' (map show_pair ps) = show_pair p @ t" by (cases ps') auto
  then show ?thesis by (simp add: show_pair_def quote_def)
qed simp

lemma skip_ws_members [simp]:
  "ps \<noteq> [] \<Longrightarrow> skip_ws (joins '','' (map show_pair ps) @ r) = joins '','' (map show_pair ps) @ r"
  by (rule skip_ws_id) (simp add: hd_members)

lemma parse_items_dumps:
  assumes "\<And>x n r. x \<in> set xs \<Longrightarrow> length (dumps x) < n \<Longrightarrow> ends_token r \<Longrightarrow>
      parse_value n (dumps x @ r) = Some (x, r)"
    and "xs \<noteq> []" "length (joins '','' (map dumps xs)) + 1 < n"
  shows "parse_items n (joins '','' (map dumps xs) @ CHR '']'' # r) = Some (xs, r)"
  using assms
proof (induction xs arbitrary: n)
  case (Cons x xs)
  then obtain m where n: "n = Suc m" by (cases n) auto
  show ?case
  proof (cases "xs = []")
    case True
    with Cons.prems n have "parse_value m (dumps x @ CHR '']'' # r) = Some (x, CHR '']'' # r)" by auto
    with True n show ?thesis by simp
  next
    case False
    let ?rest = "joins '','' (map dumps xs) @ CHR '']'' # r"
    have eq: "joins '','' (map dumps (x # xs)) = dumps x @ CHR '','' # joins '','' (map dumps xs)"
      using False by (simp add: joins_Cons)
    with Cons.prems n have "parse_value m (dumps x @ CHR '','' # ?rest) = Some (x, CHR '','' # ?rest)" by auto
    moreover have "parse_items m ?rest = Some (xs, r)"
      using Cons.IH [of m] Cons.prems False n eq by auto
    ultimately show ?thesis using n eq False by simp
  qed
qed simp

lemma parse_members_dumps:
  assumes "\<And>p n r. p \<in> set ps \<Longrightarrow> length (dumps (snd p)) < n \<Longrightarrow> ends_token r \<Longrightarrow>
      parse_value n (dumps (snd p) @ r) = Some (snd p, r)"
    and "ps \<noteq> []" "length (joins '','' (map show_pair ps)) + 1 < n"
  shows "parse_members n (joins '','' (map show_pair ps) @ CHR ''}'' # r) = Some (ps, r)"
  using assms
proof (induction ps arbitrary: n)
  case (Cons p ps)
  then obtain m where n: "n = Suc m" by (cases n) auto
  have pair: "show_pair p @ t = CHR 0x22 # concat (map escape_char (fst p)) @ CHR 0x22 # CHR '':'' # dumps (snd p) @ t" for t
    by (simp add: show_pair_def quote_def)
  have len: "length (dumps (snd p)) < length (show_pair p)" by (simp add: show_pair_def)
  show ?case
  proof (cases "ps = []")
    case True
    with Cons.prems n len have "parse_value m (dumps (snd p) @ CHR ''}'' # r) = Some (snd p, CHR ''}'' # r)" by auto
    with True n show ?thesis by (simp add: pair parse_string_quote)
  next
    case False
    let ?rest = "joins '','' (map show_pair ps) @ CHR ''}'' # r"
    have eq: "joins '','' (map show_pair (p # ps)) = show_pair p @ CHR '','' # joins '','' (map show_pair ps)"
      using False by (simp add: joins_Cons)
    with Cons.prems n len have
      "parse_value m (dumps (snd p) @ CHR '','' # ?rest) = Some (snd p, CHR '','' # ?rest)" by auto
    moreover have "parse_members m ?rest = Some (ps, r)"
      using Cons.IH [of m] Cons.prems False n eq by auto
    ultimately show ?thesis using n eq False by (simp add: pair parse_string_quote)
  qed
qed simp

lemma parse_value_dumps:
  "normal v \<Longrightarrow> length (dumps v) < n \<Longrightarrow> ends_token r \<Longrightarrow> parse_value n (dumps v @ r) = Some (v, r)"
proof (induction v arbitrary: n r)
  case (JInt i)
  then show ?case using parse_value_int [of r "n - 1" i] by (cases n) (simp_all del: parse_value.simps)
next
  case (JList xs)
  then obtain m where n: "n = Suc m" by (cases n) auto
  show ?case
  proof (cases xs)
    case Nil
    with n show ?thesis by simp
  next
    case (Cons x xs')
    let ?t = "joins '','' (map dumps xs) @ CHR '']'' # r"
    have "hd ?t \<noteq> CHR '']''"
      using dumps_hd_ends [of x] Cons by (cases "dumps x"; cases xs') (auto simp: joins_Cons)
    moreover have "parse_items m ?t = Some (xs, r)"
      by (rule parse_items_dumps) (use JList n Cons in \<open>auto simp: list_all_iff\<close>)
    moreover have "xs \<noteq> []" using Cons by simp
    ultimately show ?thesis using n by (simp add: Let_def)
  qed
next
  case (JObj ps)
  then obtain m where n: "n = Suc m" by (cases n) auto
  have sorted: "sorted_wrt (<) (map fst ps)" using JObj.prems by simp
  then have dict: "dict_of ps = ps" by (intro dict_of_distinct) (simp add: strict_sorted_iff)
  note enc = dumps_JObj_normal [OF sorted]
  show ?case
  proof (cases ps)
    case Nil
    with n show ?thesis by simp
  next
    case (Cons p ps')
    let ?t = "joins '','' (map show_pair ps) @ CHR ''}'' # r"
    have "hd ?t = CHR 0x22" "skip_ws ?t = ?t" using Cons by (simp_all only: hd_members skip_ws_members list.distinct not_False_eq_True)
    moreover have "parse_members m ?t = Some (ps, r)"
    proof (rule parse_members_dumps)
      show "length (joins '','' (map show_pair ps)) + 1 < m" using JObj.prems n by (simp add: enc del: dumps.simps)
    next
      fix q k t
      assume q: "q \<in> set ps" "length (dumps (snd q)) < k" "ends_token t"
      moreover have "normal (snd q)" using q(1) JObj.prems(1) by (auto simp: list_all_iff)
      ultimately show "parse_value k (dumps (snd q) @ t) = Some (snd q, t)"
        using JObj.IH [of q "snd q" k t] by (simp add: prod_set_defs)
    qed (use Cons in simp)
    ultimately show ?thesis using n by (simp add: enc dict del: dumps.simps)
  qed
qed (auto simp: starts_with_def quote_def parse_string_quote dest!: gr_implies_not0 [THEN not0_implies_Suc])

lemma loads_normal: "normal v \<Longrightarrow> loads (dumps v) = Some v"
  using parse_value_dumps [of v "Suc (length (dumps v))" "[]"] skip_ws_dumps [of v "[]"]
  by (simp add: loads_def del: skip_ws_dumps)

lemma loads_wf: "wf_json v \<Longrightarrow> loads (dumps v) = Some (jnorm v)"
  using loads_normal [OF normal_jnorm] dumps_jnorm by simp

section \<open>Properties\<close>

text \<open>C22: reading a canonical text gives back the value it was written from: the value itself when its
  objects are in key order, and otherwise the same value with every object brought into key order.\<close>

theorem loads_dumps:
  assumes "wf_json v"
  shows "loads (dumps v) = Some (jnorm v) \<and> (normal v \<longrightarrow> loads (dumps v) = Some v)"
  using loads_wf [OF assms] loads_normal by blast

theorem loads_dumps_witness:
  "loads (dumps (JObj [(''b'', JInt (- 12)), (''a'', JList [JStr ''x'', JNull])])) =
     Some (JObj [(''a'', JList [JStr ''x'', JNull]), (''b'', JInt (- 12))])"
  using loads_dumps [of "JObj [(''b'', JInt (- 12)), (''a'', JList [JStr ''x'', JNull])]"]
  by simp

end
