(* ===== verification/Platform_Store.thy ===== *)
theory Platform_Store
  imports Files Json_Text
begin

text \<open>
  Model of \<open>src/raytsystem/platform_store.py\<close>, the operational store: versioned records with a head
  per record, the hash-chained audit events and the idempotency receipts. A table is the list of its
  rows in insertion order; primary keys, unique constraints and the foreign key of the heads are
  checks of the operations that insert. A write operation is one transaction: it returns its result
  and the database after the commit, or the error, after which the database is the one before. The
  current time is an argument. Operations that write are those of a handle opened for writing; the
  read-only handle offers the queries only. Payloads are JSON objects (theory \<open>Canonical\<close>); what a
  query returns has been read back from the stored text (theory \<open>Json_Text\<close>).
\<close>

section \<open>Definitions\<close>

datatype store_error =
    PlatformStoreError | PlatformStoreUnavailable
  | StoreValueError | StoreIntegrityError | StoreOperationalError

type_synonym dict = "(string \<times> jval) list"

record record_row =
  rr_kind :: string
  rr_record_id :: string
  rr_revision :: int
  rr_payload_json :: string
  rr_payload_sha256 :: string
  rr_state :: string
  rr_created_at :: string

record head_row =
  hr_kind :: string
  hr_record_id :: string
  hr_revision :: int
  hr_payload_sha256 :: string

record event_row =
  ae_event_id :: string
  ae_stream_id :: string
  ae_aggregate_id :: string
  ae_sequence :: int
  ae_event_type :: string
  ae_actor_id :: string
  ae_payload_schema :: string
  ae_payload_json :: string
  ae_payload_sha256 :: string
  ae_sensitivity :: string
  ae_causation_id :: "string option"
  ae_correlation_id :: "string option"
  ae_previous_event_sha256 :: "string option"
  ae_recorded_at :: string

record receipt_row =
  rt_scope :: string
  rt_idempotency_key :: string
  rt_request_sha256 :: string
  rt_receipt_json :: string
  rt_created_at :: string

record journal_row =
  mj_migration_id :: string
  mj_migration_sha256 :: string
  mj_from_version :: int
  mj_to_version :: int
  mj_state :: string
  mj_applied_at :: string

record platform_db =
  pf_user_version :: int
  pf_tables :: "string list"
  pf_meta :: "(string \<times> string) list"
  pf_journal :: "journal_row list"
  pf_events :: "event_row list"
  pf_records :: "record_row list"
  pf_heads :: "head_row list"
  pf_receipts :: "receipt_row list"

record stored_record =
  sr_kind :: string
  sr_record_id :: string
  sr_revision :: int
  sr_payload :: dict
  sr_payload_sha256 :: string
  sr_state :: string
  sr_created_at :: string

type_synonym 'a store_txn = "(store_error, 'a \<times> platform_db) result"

definition PLATFORM_SCHEMA_VERSION :: int where "PLATFORM_SCHEMA_VERSION = 1"

definition schema_tables :: "string list" where
  "schema_tables = [''platform_meta'', ''migration_journal'', ''audit_events'', ''records'',
     ''record_heads'', ''idempotency_receipts'']"

definition fresh_db :: platform_db where
  "fresh_db = \<lparr>pf_user_version = 0, pf_tables = [], pf_meta = [], pf_journal = [], pf_events = [],
     pf_records = [], pf_heads = [], pf_receipts = []\<rparr>"

definition validate_token :: "string \<Rightarrow> (store_error, unit) result" where
  "validate_token value =
     ensure (value \<noteq> [] \<and> length value \<le> 256 \<and> \<not> list_ex py_isspace value) StoreValueError"

definition validate_tokens :: "string list \<Rightarrow> (store_error, unit) result" where
  "validate_tokens values = rbind (rmap validate_token values) (\<lambda>_. Inr ())"

subsection \<open>Opening\<close>

definition verify_schema :: "platform_db \<Rightarrow> (store_error, unit) result" where
  "verify_schema db =
     (if pf_user_version db \<noteq> PLATFORM_SCHEMA_VERSION then Inl PlatformStoreUnavailable
      else if \<not> set schema_tables \<subseteq> set (pf_tables db) then Inl PlatformStoreUnavailable
      else Inr ())"

definition migration_payload :: jval where
  "migration_payload = JObj
     [(''migration_id'', JStr ''platform_schema_0001''), (''from_version'', JInt 0), (''to_version'', JInt 1)]"

definition create_tables :: "digest \<Rightarrow> datetime \<Rightarrow> platform_db \<Rightarrow> (store_error, platform_db) result" where
  "create_tables sha now db =
     (if list_ex (\<lambda>t. t \<in> set (pf_tables db)) schema_tables then Inl StoreOperationalError
      else Inr (db\<lparr>pf_tables := pf_tables db @ schema_tables,
        pf_journal := [\<lparr>mj_migration_id = ''platform_schema_0001'',
          mj_migration_sha256 = sha256_hex sha (json_bytes migration_payload),
          mj_from_version = 0, mj_to_version = 1, mj_state = ''applied'', mj_applied_at = iso_millis now\<rparr>],
        pf_meta := [(''created_at'', iso_millis now)],
        pf_user_version := PLATFORM_SCHEMA_VERSION\<rparr>))"

definition initialize :: "digest \<Rightarrow> datetime \<Rightarrow> platform_db \<Rightarrow> (store_error, platform_db) result" where
  "initialize sha now db =
     (if pf_user_version db > PLATFORM_SCHEMA_VERSION then Inl PlatformStoreError
      else rbind (if pf_user_version db = 0 then create_tables sha now db else Inr db) (\<lambda>db'.
        rbind (verify_schema db') (\<lambda>_. Inr db')))"

text \<open>The database file, absent before the first writer creates it.\<close>

definition open_platform_store_read_only :: "platform_db option \<Rightarrow> platform_db option" where
  "open_platform_store_read_only file =
     (case file of None \<Rightarrow> None | Some db \<Rightarrow> if is_ok (verify_schema db) then Some db else None)"

definition initialize_platform_store ::
    "digest \<Rightarrow> datetime \<Rightarrow> platform_db option \<Rightarrow> (store_error, platform_db) result" where
  "initialize_platform_store sha now file =
     initialize sha now (case file of None \<Rightarrow> fresh_db | Some db \<Rightarrow> db)"

subsection \<open>Records\<close>

definition find_head :: "platform_db \<Rightarrow> string \<Rightarrow> string \<Rightarrow> head_row option" where
  "find_head db kind record_id =
     find (\<lambda>h. (hr_kind h, hr_record_id h) = (kind, record_id)) (pf_heads db)"

definition find_record :: "platform_db \<Rightarrow> string \<Rightarrow> string \<Rightarrow> int \<Rightarrow> record_row option" where
  "find_record db kind record_id revision =
     find (\<lambda>r. (rr_kind r, rr_record_id r, rr_revision r) = (kind, record_id, revision)) (pf_records db)"

text \<open>\<open>INSERT ... ON CONFLICT(kind, record_id) DO UPDATE\<close> on the heads.\<close>

definition upsert_head :: "head_row \<Rightarrow> head_row list \<Rightarrow> head_row list" where
  "upsert_head h hs =
     (if list_ex (\<lambda>g. (hr_kind g, hr_record_id g) = (hr_kind h, hr_record_id h)) hs
      then map (\<lambda>g. if (hr_kind g, hr_record_id g) = (hr_kind h, hr_record_id h)
                    then g\<lparr>hr_revision := hr_revision h, hr_payload_sha256 := hr_payload_sha256 h\<rparr> else g) hs
      else hs @ [h])"

definition append_record ::
    "digest \<Rightarrow> datetime \<Rightarrow> string \<Rightarrow> string \<Rightarrow> dict \<Rightarrow> string \<Rightarrow> int option \<Rightarrow> platform_db \<Rightarrow>
     stored_record store_txn" where
  "append_record sha now kind record_id payload state expected_revision db =
     rbind (validate_tokens [kind, record_id]) (\<lambda>_.
     let rendered = dumps (JObj payload);
         payload_sha256 = sha256_hex sha (json_bytes (JObj payload));
         created_at = iso_millis now;
         prior_revision = map_option hr_revision (find_head db kind record_id);
         revision = (case prior_revision of None \<Rightarrow> 1 | Some r \<Rightarrow> r + 1)
     in if expected_revision \<noteq> prior_revision then Inl PlatformStoreError
        else if find_record db kind record_id revision \<noteq> None then Inl StoreIntegrityError
        else Inr (\<lparr>sr_kind = kind, sr_record_id = record_id, sr_revision = revision, sr_payload = payload,
                   sr_payload_sha256 = payload_sha256, sr_state = state, sr_created_at = created_at\<rparr>,
                  db\<lparr>pf_records := pf_records db @
                        [\<lparr>rr_kind = kind, rr_record_id = record_id, rr_revision = revision,
                          rr_payload_json = rendered, rr_payload_sha256 = payload_sha256,
                          rr_state = state, rr_created_at = created_at\<rparr>],
                     pf_heads := upsert_head \<lparr>hr_kind = kind, hr_record_id = record_id,
                        hr_revision = revision, hr_payload_sha256 = payload_sha256\<rparr> (pf_heads db)\<rparr>))"

definition stored_record_of :: "digest \<Rightarrow> record_row \<Rightarrow> (store_error, stored_record) result" where
  "stored_record_of sha row =
     (case loads (rr_payload_json row) of
        None \<Rightarrow> Inl StoreValueError
      | Some (JObj payload) \<Rightarrow>
          (if sha256_hex sha (json_bytes (JObj payload)) \<noteq> rr_payload_sha256 row then Inl PlatformStoreError
           else Inr \<lparr>sr_kind = rr_kind row, sr_record_id = rr_record_id row, sr_revision = rr_revision row,
                     sr_payload = payload, sr_payload_sha256 = rr_payload_sha256 row,
                     sr_state = rr_state row, sr_created_at = rr_created_at row\<rparr>)
      | Some _ \<Rightarrow> Inl PlatformStoreError)"

definition join_head :: "platform_db \<Rightarrow> head_row \<Rightarrow> record_row option" where
  "join_head db h = find_record db (hr_kind h) (hr_record_id h) (hr_revision h)"

definition head :: "digest \<Rightarrow> platform_db \<Rightarrow> string \<Rightarrow> string \<Rightarrow> (store_error, stored_record option) result" where
  "head sha db kind record_id =
     rbind (validate_tokens [kind, record_id]) (\<lambda>_.
     case Option.bind (find_head db kind record_id) (join_head db) of
       None \<Rightarrow> Inr None
     | Some row \<Rightarrow> rbind (stored_record_of sha row) (\<lambda>r. Inr (Some r)))"

text \<open>\<open>ORDER BY created_at DESC, record_id\<close>: a stable descending sort of the rows in id order.\<close>

definition newest_first :: "record_row list \<Rightarrow> record_row list" where
  "newest_first rows = rev (sort_key rr_created_at (rev (sort_key rr_record_id rows)))"

definition list_heads ::
    "digest \<Rightarrow> platform_db \<Rightarrow> string \<Rightarrow> string option \<Rightarrow> int \<Rightarrow> int \<Rightarrow> (store_error, stored_record list) result" where
  "list_heads sha db kind state limit offset =
     rbind (validate_token kind) (\<lambda>_.
     rbind (ensure (1 \<le> limit \<and> limit \<le> 500 \<and> 0 \<le> offset \<and> offset \<le> 1000000) StoreValueError) (\<lambda>_.
     rbind (case state of None \<Rightarrow> Inr () | Some s \<Rightarrow> validate_token s) (\<lambda>_.
     let rows = List.map_filter (join_head db) (filter (\<lambda>h. hr_kind h = kind) (pf_heads db));
         chosen = filter (\<lambda>r. case state of None \<Rightarrow> True | Some s \<Rightarrow> rr_state r = s) rows
     in rmap (stored_record_of sha) (take (nat limit) (drop (nat offset) (newest_first chosen))))))"

subsection \<open>Audit events\<close>

definition event_identity :: "event_row \<Rightarrow> dict" where
  "event_identity row =
     [(''stream_id'', JStr (ae_stream_id row)),
      (''aggregate_id'', JStr (ae_aggregate_id row)),
      (''sequence'', JInt (ae_sequence row)),
      (''event_type'', JStr (ae_event_type row)),
      (''actor_id'', JStr (ae_actor_id row)),
      (''payload_schema'', JStr (ae_payload_schema row)),
      (''payload_sha256'', JStr (ae_payload_sha256 row)),
      (''sensitivity'', JStr (ae_sensitivity row)),
      (''causation_id'', jopt JStr (ae_causation_id row)),
      (''correlation_id'', jopt JStr (ae_correlation_id row)),
      (''previous_event_sha256'', jopt JStr (ae_previous_event_sha256 row)),
      (''recorded_at'', JStr (ae_recorded_at row))]"

definition event_material :: "event_row \<Rightarrow> jval" where
  "event_material row = JObj ((''event_id'', JStr (ae_event_id row)) # event_identity row)"

definition event_row_hash :: "digest \<Rightarrow> event_row \<Rightarrow> string" where
  "event_row_hash sha row = sha256_hex sha (json_bytes (event_material row))"

definition stream_rows :: "platform_db \<Rightarrow> string \<Rightarrow> event_row list" where
  "stream_rows db stream_id = sort_key ae_sequence (filter (\<lambda>r. ae_stream_id r = stream_id) (pf_events db))"

record event_request =
  er_stream_id :: string
  er_aggregate_id :: string
  er_event_type :: string
  er_actor_id :: string
  er_payload_schema :: string
  er_payload :: dict
  er_sensitivity :: string
  er_causation_id :: "string option"
  er_correlation_id :: "string option"

definition next_event :: "digest \<Rightarrow> datetime \<Rightarrow> event_row option \<Rightarrow> event_request \<Rightarrow> event_row" where
  "next_event sha now previous q =
     (let row = \<lparr>ae_event_id = [],
            ae_stream_id = er_stream_id q, ae_aggregate_id = er_aggregate_id q,
            ae_sequence = (case previous of None \<Rightarrow> 1 | Some p \<Rightarrow> ae_sequence p + 1),
            ae_event_type = er_event_type q, ae_actor_id = er_actor_id q,
            ae_payload_schema = er_payload_schema q,
            ae_payload_json = dumps (JObj (er_payload q)),
            ae_payload_sha256 = sha256_hex sha (json_bytes (JObj (er_payload q))),
            ae_sensitivity = er_sensitivity q, ae_causation_id = er_causation_id q,
            ae_correlation_id = er_correlation_id q,
            ae_previous_event_sha256 = map_option (event_row_hash sha) previous,
            ae_recorded_at = iso_millis now\<rparr>
      in row\<lparr>ae_event_id := derive_id sha ''aevt'' (JObj (event_identity row))\<rparr>)"

definition last_event :: "platform_db \<Rightarrow> string \<Rightarrow> event_row option" where
  "last_event db stream_id =
     (let rows = stream_rows db stream_id in if rows = [] then None else Some (last rows))"

definition append_event :: "digest \<Rightarrow> datetime \<Rightarrow> event_request \<Rightarrow> platform_db \<Rightarrow> dict store_txn" where
  "append_event sha now q db =
     rbind (validate_tokens [er_stream_id q, er_aggregate_id q, er_event_type q, er_actor_id q,
              er_payload_schema q]) (\<lambda>_.
     let row = next_event sha now (last_event db (er_stream_id q)) q
     in if list_ex (\<lambda>r. ae_event_id r = ae_event_id row \<or>
             (ae_stream_id r, ae_sequence r) = (ae_stream_id row, ae_sequence row)) (pf_events db)
        then Inl StoreIntegrityError
        else Inr ((''event_id'', JStr (ae_event_id row)) # event_identity row,
                  db\<lparr>pf_events := pf_events db @ [row]\<rparr>))"

definition event_payload :: "event_row \<Rightarrow> (store_error, dict) result" where
  "event_payload row =
     (case loads (ae_payload_json row) of
        None \<Rightarrow> Inl StoreValueError
      | Some (JObj payload) \<Rightarrow> Inr
          [(''event_id'', JStr (ae_event_id row)),
           (''stream_id'', JStr (ae_stream_id row)),
           (''aggregate_id'', JStr (ae_aggregate_id row)),
           (''sequence'', JInt (ae_sequence row)),
           (''event_type'', JStr (ae_event_type row)),
           (''actor_id'', JStr (ae_actor_id row)),
           (''payload_schema'', JStr (ae_payload_schema row)),
           (''payload'', JObj payload),
           (''payload_sha256'', JStr (ae_payload_sha256 row)),
           (''sensitivity'', JStr (ae_sensitivity row)),
           (''causation_id'', jopt JStr (ae_causation_id row)),
           (''correlation_id'', jopt JStr (ae_correlation_id row)),
           (''previous_event_sha256'', jopt JStr (ae_previous_event_sha256 row)),
           (''recorded_at'', JStr (ae_recorded_at row))]
      | Some _ \<Rightarrow> Inl PlatformStoreError)"

definition list_events :: "platform_db \<Rightarrow> string \<Rightarrow> int \<Rightarrow> (store_error, dict list) result" where
  "list_events db stream_id limit =
     rbind (validate_token stream_id) (\<lambda>_.
     rbind (ensure (1 \<le> limit \<and> limit \<le> 1000) StoreValueError) (\<lambda>_.
     rmap event_payload (take (nat limit) (stream_rows db stream_id))))"

definition event_count :: "platform_db \<Rightarrow> nat" where
  "event_count db = length (pf_events db)"

fun verify_chain :: "digest \<Rightarrow> int \<Rightarrow> string option \<Rightarrow> event_row list \<Rightarrow> bool" where
  "verify_chain sha expected_sequence previous_hash [] = True"
| "verify_chain sha expected_sequence previous_hash (row # rows) =
     (if ae_sequence row \<noteq> expected_sequence then False
      else if ae_previous_event_sha256 row \<noteq> previous_hash then False
      else if sha256_hex sha (utf8 (ae_payload_json row)) \<noteq> ae_payload_sha256 row then False
      else if ae_event_id row \<noteq> derive_id sha ''aevt'' (JObj (event_identity row)) then False
      else verify_chain sha (expected_sequence + 1) (Some (event_row_hash sha row)) rows)"

definition verify_event_stream :: "digest \<Rightarrow> platform_db \<Rightarrow> string \<Rightarrow> bool" where
  "verify_event_stream sha db stream_id = verify_chain sha 1 None (stream_rows db stream_id)"

subsection \<open>Idempotency receipts and the snapshot identifier\<close>

definition find_receipt :: "platform_db \<Rightarrow> string \<Rightarrow> string \<Rightarrow> receipt_row option" where
  "find_receipt db scope key = find (\<lambda>r. (rt_scope r, rt_idempotency_key r) = (scope, key)) (pf_receipts db)"

definition idempotent_receipt ::
    "digest \<Rightarrow> datetime \<Rightarrow> string \<Rightarrow> string \<Rightarrow> dict \<Rightarrow> dict option \<Rightarrow> platform_db \<Rightarrow> dict option store_txn" where
  "idempotent_receipt sha now scope key request receipt db =
     rbind (validate_tokens [scope, key]) (\<lambda>_.
     let request_sha256 = sha256_hex sha (json_bytes (JObj request)) in
     case find_receipt db scope key of
       Some existing \<Rightarrow>
         (if rt_request_sha256 existing \<noteq> request_sha256 then Inl PlatformStoreError
          else case loads (rt_receipt_json existing) of
                 None \<Rightarrow> Inl StoreValueError
               | Some (JObj loaded) \<Rightarrow> Inr (Some loaded, db)
               | Some _ \<Rightarrow> Inl PlatformStoreError)
     | None \<Rightarrow>
         (case receipt of
            None \<Rightarrow> Inr (None, db)
          | Some r \<Rightarrow> Inr (Some r, db\<lparr>pf_receipts := pf_receipts db @
              [\<lparr>rt_scope = scope, rt_idempotency_key = key, rt_request_sha256 = request_sha256,
                rt_receipt_json = dumps (JObj r), rt_created_at = iso_millis now\<rparr>]\<rparr>)))"

definition head_entry :: "head_row \<Rightarrow> jval" where
  "head_entry h = JObj
     [(''kind'', JStr (hr_kind h)), (''record_id'', JStr (hr_record_id h)),
      (''revision'', JInt (hr_revision h)), (''payload_sha256'', JStr (hr_payload_sha256 h))]"

definition stream_entry :: "platform_db \<Rightarrow> string \<Rightarrow> jval" where
  "stream_entry db stream_id = JObj
     [(''stream_id'', JStr stream_id),
      (''sequence'', JInt (Max (set (map ae_sequence (filter (\<lambda>r. ae_stream_id r = stream_id) (pf_events db))))))]"

definition snapshot_id :: "digest \<Rightarrow> platform_db \<Rightarrow> string" where
  "snapshot_id sha db = derive_id sha ''pview'' (JObj
     [(''heads'', JList (map head_entry (sort_key hr_kind (sort_key hr_record_id (pf_heads db))))),
      (''event_heads'', JList (map (stream_entry db) (sorted_set (map ae_stream_id (pf_events db)))))])"

section \<open>The invariant of the store\<close>

definition record_rows :: "platform_db \<Rightarrow> string \<Rightarrow> string \<Rightarrow> record_row list" where
  "record_rows db kind record_id =
     filter (\<lambda>r. (rr_kind r, rr_record_id r) = (kind, record_id)) (pf_records db)"

definition event_rows :: "platform_db \<Rightarrow> string \<Rightarrow> event_row list" where
  "event_rows db stream_id = filter (\<lambda>r. ae_stream_id r = stream_id) (pf_events db)"

definition row_ok :: "digest \<Rightarrow> record_row \<Rightarrow> bool" where
  "row_ok sha r \<longleftrightarrow> (\<exists>p. wf_json (JObj p) \<and> rr_payload_json r = dumps (JObj p) \<and>
     rr_payload_sha256 r = sha256_hex sha (json_bytes (JObj p)))"

definition head_of_rows :: "string \<Rightarrow> string \<Rightarrow> record_row list \<Rightarrow> head_row option" where
  "head_of_rows kind record_id rows =
     (if rows = [] then None
      else Some \<lparr>hr_kind = kind, hr_record_id = record_id, hr_revision = int (length rows),
                 hr_payload_sha256 = rr_payload_sha256 (last rows)\<rparr>)"

definition records_ok :: "digest \<Rightarrow> platform_db \<Rightarrow> bool" where
  "records_ok sha db \<longleftrightarrow>
     (\<forall>r\<in>set (pf_records db). row_ok sha r) \<and>
     (\<forall>kind record_id.
        map rr_revision (record_rows db kind record_id) =
          map int [1..<Suc (length (record_rows db kind record_id))] \<and>
        find_head db kind record_id = head_of_rows kind record_id (record_rows db kind record_id))"

definition events_ok :: "digest \<Rightarrow> platform_db \<Rightarrow> bool" where
  "events_ok sha db \<longleftrightarrow> (\<forall>s. verify_chain sha 1 None (event_rows db s))"

definition receipts_ok :: "platform_db \<Rightarrow> bool" where
  "receipts_ok db \<longleftrightarrow>
     (\<forall>r\<in>set (pf_receipts db). \<exists>p. wf_json (JObj p) \<and> rt_receipt_json r = dumps (JObj p))"

definition store_ok :: "digest \<Rightarrow> platform_db \<Rightarrow> bool" where
  "store_ok sha db \<longleftrightarrow> records_ok sha db \<and> events_ok sha db \<and> receipts_ok db"

inductive store_step :: "digest \<Rightarrow> platform_db \<Rightarrow> platform_db \<Rightarrow> bool" for sha where
  Record: "append_record sha now kind rid payload state expected db = Inr (r, db') \<Longrightarrow>
     wf_json (JObj payload) \<Longrightarrow> store_step sha db db'"
| Event: "append_event sha now q db = Inr (e, db') \<Longrightarrow> store_step sha db db'"
| Receipt: "idempotent_receipt sha now scope key request receipt db = Inr (x, db') \<Longrightarrow>
     opt_ok (\<lambda>p. wf_json (JObj p)) receipt \<Longrightarrow> store_step sha db db'"

section \<open>The audit chain\<close>

lemma verify_chain_sequence:
  "verify_chain sha n h rows \<Longrightarrow> map ae_sequence rows = map (\<lambda>i. n + int i) [0..<length rows]"
proof (induction rows arbitrary: n h)
  case (Cons row rows)
  then have "map ae_sequence rows = map (\<lambda>i. n + 1 + int i) [0..<length rows]" and "ae_sequence row = n"
    by (auto split: if_splits)
  then show ?case by (simp add: map_upt_Suc del: upt_Suc)
qed simp

lemma verify_chain_append:
  "verify_chain sha n h (rows @ [row]) \<longleftrightarrow>
     verify_chain sha n h rows \<and> ae_sequence row = n + int (length rows) \<and>
     ae_previous_event_sha256 row = (if rows = [] then h else Some (event_row_hash sha (last rows))) \<and>
     sha256_hex sha (utf8 (ae_payload_json row)) = ae_payload_sha256 row \<and>
     ae_event_id row = derive_id sha ''aevt'' (JObj (event_identity row))"
  by (induction rows arbitrary: n h) auto

lemma stream_rows_event_rows:
  assumes "verify_chain sha n h (event_rows db s)"
  shows "stream_rows db s = event_rows db s"
  unfolding stream_rows_def
proof (subst event_rows_def [symmetric], rule sort_key_id_if_sorted)
  show "sorted (map ae_sequence (event_rows db s))"
    unfolding verify_chain_sequence [OF assms] by (simp add: sorted_iff_nth_mono)
qed

lemma verify_event_stream_ok: "events_ok sha db \<Longrightarrow> verify_event_stream sha db s"
  unfolding events_ok_def verify_event_stream_def using stream_rows_event_rows by metis

lemma event_rows_snoc:
  "event_rows (db\<lparr>pf_events := pf_events db @ [row]\<rparr>) s =
     event_rows db s @ (if ae_stream_id row = s then [row] else [])"
  by (simp add: event_rows_def)

lemma next_event_fields:
  "ae_stream_id (next_event sha now p q) = er_stream_id q"
  "ae_sequence (next_event sha now p q) = (case p of None \<Rightarrow> 1 | Some e \<Rightarrow> ae_sequence e + 1)"
  "ae_previous_event_sha256 (next_event sha now p q) = map_option (event_row_hash sha) p"
  "sha256_hex sha (utf8 (ae_payload_json (next_event sha now p q))) = ae_payload_sha256 (next_event sha now p q)"
  "ae_event_id (next_event sha now p q) = derive_id sha ''aevt'' (JObj (event_identity (next_event sha now p q)))"
  by (simp_all add: next_event_def event_identity_def Let_def json_bytes_def del: dumps.simps)

lemma last_event_chain:
  assumes "verify_chain sha 1 None (event_rows db s)"
  shows "last_event db s = (if event_rows db s = [] then None else Some (last (event_rows db s)))"
    "event_rows db s \<noteq> [] \<Longrightarrow> ae_sequence (last (event_rows db s)) = int (length (event_rows db s))"
proof -
  show "last_event db s = (if event_rows db s = [] then None else Some (last (event_rows db s)))"
    using stream_rows_event_rows [OF assms] by (simp add: last_event_def)
  assume ne: "event_rows db s \<noteq> []"
  have "ae_sequence (last (event_rows db s)) = last (map ae_sequence (event_rows db s))"
    by (rule last_map [symmetric]) (rule ne)
  also have "\<dots> = int (length (event_rows db s))"
    unfolding verify_chain_sequence [OF assms] using ne by (simp add: last_conv_nth) (simp add: of_nat_diff Suc_leI)
  finally show "ae_sequence (last (event_rows db s)) = int (length (event_rows db s))" .
qed

lemma append_event_Inr:
  "append_event sha now q db = Inr (e, db') \<Longrightarrow>
     db' = db\<lparr>pf_events := pf_events db @ [next_event sha now (last_event db (er_stream_id q)) q]\<rparr>"
  by (auto simp: append_event_def Let_def result_simps split: if_splits)

lemma append_event_events_ok:
  assumes "events_ok sha db" "append_event sha now q db = Inr (e, db')"
  shows "events_ok sha db'"
proof -
  let ?row = "next_event sha now (last_event db (er_stream_id q)) q"
  have db': "db' = db\<lparr>pf_events := pf_events db @ [?row]\<rparr>" by (rule append_event_Inr [OF assms(2)])
  have chain: "verify_chain sha 1 None (event_rows db s)" for s using assms(1) by (simp add: events_ok_def)
  have "verify_chain sha 1 None (event_rows db (er_stream_id q) @ [?row])"
    unfolding verify_chain_append
    using chain [of "er_stream_id q"] last_event_chain [OF chain [of "er_stream_id q"]]
    by (simp add: next_event_fields)
  with chain show ?thesis by (simp add: events_ok_def db' event_rows_snoc next_event_fields)
qed

section \<open>Records and their heads\<close>

lemma find_conj: "find (\<lambda>x. P x \<and> Q x) xs = find Q (filter P xs)"
  by (induction xs) auto

lemma find_record_rows:
  "find_record db kind rid revision = find (\<lambda>r. rr_revision r = revision) (record_rows db kind rid)"
  unfolding find_record_def record_rows_def find_conj [symmetric] by (simp add: conj_assoc)

lemma find_upsert_head:
  "find (\<lambda>g. (hr_kind g, hr_record_id g) = k) (upsert_head h hs) =
     (if k = (hr_kind h, hr_record_id h)
      then Some (case find (\<lambda>g. (hr_kind g, hr_record_id g) = k) hs of
             None \<Rightarrow> h | Some g \<Rightarrow> g\<lparr>hr_revision := hr_revision h, hr_payload_sha256 := hr_payload_sha256 h\<rparr>)
      else find (\<lambda>g. (hr_kind g, hr_record_id g) = k) hs)"
proof -
  let ?key = "\<lambda>g. (hr_kind g, hr_record_id g)"
  let ?upd = "\<lambda>g. if ?key g = ?key h then g\<lparr>hr_revision := hr_revision h, hr_payload_sha256 := hr_payload_sha256 h\<rparr> else g"
  have same: "?key (?upd g) = ?key g" for g by simp
  have upd: "find (\<lambda>g. ?key g = k) (map ?upd hs) = map_option ?upd (find (\<lambda>g. ?key g = k) hs)" for hs
  proof (induction hs)
    case (Cons g hs)
    then show ?case using same [of g] by (simp only: list.map find.simps option.map split: if_split) auto
  qed simp
  have hit: "find (\<lambda>g. ?key g = k) hs = Some g \<Longrightarrow> ?key g = k" for g
    by (auto simp: find_Some_iff)
  show ?thesis
  proof (cases "list_ex (\<lambda>g. ?key g = ?key h) hs")
    case True
    then have some: "\<exists>g. find (\<lambda>g. ?key g = ?key h) hs = Some g"
      by (metis (mono_tags, lifting) find_None_iff list_ex_iff not_None_eq)
    show ?thesis
    proof (cases "k = ?key h")
      case same: True
      with some obtain g where g: "find (\<lambda>g. ?key g = k) hs = Some g" by blast
      from hit [OF g] same have "?key g = ?key h" by simp
      with True upd [of hs] same g show ?thesis unfolding upsert_head_def by simp
    next
      case diff: False
      have "map_option ?upd (find (\<lambda>g. ?key g = k) hs) = find (\<lambda>g. ?key g = k) hs"
      proof (cases "find (\<lambda>g. ?key g = k) hs")
        case (Some g)
        with hit [OF Some] diff have "?key g \<noteq> ?key h" by simp
        with Some show ?thesis by (simp only: option.map if_False)
      qed simp
      with True upd [of hs] diff show ?thesis unfolding upsert_head_def by (simp only: if_True if_False)
    qed
  next
    case False
    then have "find (\<lambda>g. ?key g = ?key h) hs = None"
      by (metis (mono_tags, lifting) find_None_iff list_ex_iff)
    with False show ?thesis unfolding upsert_head_def by (auto simp: find_append split: option.splits)
  qed
qed

lemma append_record_Inr:
  assumes "append_record sha now kind rid payload state expected db = Inr (r, db')"
  obtains row where "rr_kind row = kind" "rr_record_id row = rid"
    "rr_revision row = (case map_option hr_revision (find_head db kind rid) of None \<Rightarrow> 1 | Some n \<Rightarrow> n + 1)"
    "rr_payload_json row = dumps (JObj payload)"
    "rr_payload_sha256 row = sha256_hex sha (json_bytes (JObj payload))"
    "rr_state row = state" "rr_created_at row = iso_millis now"
    "expected = map_option hr_revision (find_head db kind rid)"
    "r = \<lparr>sr_kind = kind, sr_record_id = rid, sr_revision = rr_revision row, sr_payload = payload,
          sr_payload_sha256 = rr_payload_sha256 row, sr_state = state, sr_created_at = iso_millis now\<rparr>"
    "db' = db\<lparr>pf_records := pf_records db @ [row],
         pf_heads := upsert_head \<lparr>hr_kind = kind, hr_record_id = rid, hr_revision = rr_revision row,
            hr_payload_sha256 = rr_payload_sha256 row\<rparr> (pf_heads db)\<rparr>"
    "is_ok (validate_tokens [kind, rid])"
proof -
  let ?row = "\<lparr>rr_kind = kind, rr_record_id = rid,
     rr_revision = (case map_option hr_revision (find_head db kind rid) of None \<Rightarrow> 1 | Some n \<Rightarrow> n + 1),
     rr_payload_json = dumps (JObj payload), rr_payload_sha256 = sha256_hex sha (json_bytes (JObj payload)),
     rr_state = state, rr_created_at = iso_millis now\<rparr>"
  show thesis
    by (rule that [of ?row])
      (use assms in \<open>auto simp: append_record_def Let_def result_simps is_ok_iff split: if_splits simp del: dumps.simps\<close>)
qed

lemma record_rows_snoc:
  "pf_records db' = pf_records db @ [row] \<Longrightarrow>
   record_rows db' kind rid =
     record_rows db kind rid @ (if (rr_kind row, rr_record_id row) = (kind, rid) then [row] else [])"
  by (simp add: record_rows_def)

lemma append_record_rows:
  assumes "records_ok sha db" "append_record sha now kind rid payload state expected db = Inr (r, db')"
  shows "\<exists>row. record_rows db' kind rid = record_rows db kind rid @ [row] \<and>
      rr_payload_json row = dumps (JObj payload) \<and> rr_state row = state \<and>
      rr_revision row = int (length (record_rows db kind rid)) + 1 \<and>
      rr_payload_sha256 row = sha256_hex sha (json_bytes (JObj payload)) \<and>
      sr_revision r = rr_revision row \<and>
      expected = (if record_rows db kind rid = [] then None else Some (int (length (record_rows db kind rid))))"
    "(k, i) \<noteq> (kind, rid) \<Longrightarrow> record_rows db' k i = record_rows db k i"
proof -
  obtain row where row: "rr_kind row = kind" "rr_record_id row = rid"
    "rr_revision row = (case map_option hr_revision (find_head db kind rid) of None \<Rightarrow> 1 | Some n \<Rightarrow> n + 1)"
    "rr_payload_json row = dumps (JObj payload)" "rr_state row = state"
    "rr_payload_sha256 row = sha256_hex sha (json_bytes (JObj payload))"
    "expected = map_option hr_revision (find_head db kind rid)" "sr_revision r = rr_revision row"
    "pf_records db' = pf_records db @ [row]"
    by (rule append_record_Inr [OF assms(2)]) auto
  have head: "find_head db kind rid = head_of_rows kind rid (record_rows db kind rid)"
    using assms(1) by (simp add: records_ok_def)
  show "(k, i) \<noteq> (kind, rid) \<Longrightarrow> record_rows db' k i = record_rows db k i"
    using record_rows_snoc [OF row(9)] row(1,2) by auto
  show "\<exists>row. record_rows db' kind rid = record_rows db kind rid @ [row] \<and>
      rr_payload_json row = dumps (JObj payload) \<and> rr_state row = state \<and>
      rr_revision row = int (length (record_rows db kind rid)) + 1 \<and>
      rr_payload_sha256 row = sha256_hex sha (json_bytes (JObj payload)) \<and>
      sr_revision r = rr_revision row \<and>
      expected = (if record_rows db kind rid = [] then None else Some (int (length (record_rows db kind rid))))"
    using record_rows_snoc [OF row(9)] row head by (intro exI [of _ row]) (auto simp: head_of_rows_def)
qed

lemma append_record_records_ok:
  assumes ok: "records_ok sha db" and step: "append_record sha now kind rid payload state expected db = Inr (r, db')"
    and wf: "wf_json (JObj payload)"
  shows "records_ok sha db'"
proof -
  obtain row where row: "rr_kind row = kind" "rr_record_id row = rid"
    "rr_payload_json row = dumps (JObj payload)" "rr_payload_sha256 row = sha256_hex sha (json_bytes (JObj payload))"
    "pf_records db' = pf_records db @ [row]"
    "pf_heads db' = upsert_head \<lparr>hr_kind = kind, hr_record_id = rid, hr_revision = rr_revision row,
            hr_payload_sha256 = rr_payload_sha256 row\<rparr> (pf_heads db)"
    by (rule append_record_Inr [OF step]) auto
  have rows: "record_rows db' kind rid = record_rows db kind rid @ [row]"
    using record_rows_snoc [OF row(5)] row(1,2) by simp
  have rev: "rr_revision row = int (length (record_rows db kind rid)) + 1"
    using append_record_rows(1) [OF ok step] rows by auto
  have old: "map rr_revision (record_rows db k i) = map int [1..<Suc (length (record_rows db k i))]"
    "find_head db k i = head_of_rows k i (record_rows db k i)" for k i
    using ok by (auto simp: records_ok_def)
  have head: "find_head db' k i = (if (k, i) = (kind, rid) then
      Some \<lparr>hr_kind = kind, hr_record_id = rid, hr_revision = rr_revision row, hr_payload_sha256 = rr_payload_sha256 row\<rparr>
      else find_head db k i)" for k i
    unfolding find_head_def row(6) find_upsert_head
    using old(2) [of kind rid] by (auto simp: find_head_def head_of_rows_def split: option.splits if_splits)
  have "map rr_revision (record_rows db' k i) = map int [1..<Suc (length (record_rows db' k i))] \<and>
     find_head db' k i = head_of_rows k i (record_rows db' k i)" for k i
  proof (cases "(k, i) = (kind, rid)")
    case True
    then show ?thesis using rows old(1) [of kind rid] head [of k i] rev by (simp add: head_of_rows_def)
  next
    case False
    then show ?thesis using append_record_rows(2) [OF ok step False] old [of k i] head [of k i] by auto
  qed
  moreover have "row_ok sha row" using row wf by (auto simp: row_ok_def simp del: dumps.simps)
  ultimately show ?thesis using ok row(5) by (auto simp: records_ok_def)
qed

text \<open>In a store that satisfies the invariant a head is the last row of its record, read back.\<close>

definition norm_dict :: "dict \<Rightarrow> dict" where
  "norm_dict p = sort_key fst (map (map_prod id jnorm) p)"

lemma loads_payload: "wf_json (JObj p) \<Longrightarrow> loads (dumps (JObj p)) = Some (JObj (norm_dict p))"
  using loads_wf [of "JObj p"] by (simp add: norm_dict_def del: dumps.simps wf_json.simps)

lemma json_bytes_norm_dict: "json_bytes (JObj (norm_dict p)) = json_bytes (JObj p)"
  using dumps_jnorm [of "JObj p"] by (simp add: json_bytes_def norm_dict_def del: dumps.simps)

lemma stored_record_of_row_ok:
  assumes "row_ok sha row"
  shows "\<exists>payload. loads (rr_payload_json row) = Some (JObj payload) \<and>
    stored_record_of sha row = Inr \<lparr>sr_kind = rr_kind row, sr_record_id = rr_record_id row,
      sr_revision = rr_revision row, sr_payload = payload, sr_payload_sha256 = rr_payload_sha256 row,
      sr_state = rr_state row, sr_created_at = rr_created_at row\<rparr>"
proof -
  obtain p where p: "wf_json (JObj p)" "rr_payload_json row = dumps (JObj p)"
    "rr_payload_sha256 row = sha256_hex sha (json_bytes (JObj p))"
    using assms by (auto simp: row_ok_def)
  then show ?thesis
    using loads_payload [OF p(1)] json_bytes_norm_dict [of p]
    by (intro exI [of _ "norm_dict p"]) (simp add: stored_record_of_def del: dumps.simps wf_json.simps)
qed

lemma last_revision:
  assumes "records_ok sha db" "record_rows db kind rid \<noteq> []"
  shows "rr_revision (last (record_rows db kind rid)) = int (length (record_rows db kind rid))"
proof -
  let ?rows = "record_rows db kind rid"
  have revs: "map rr_revision ?rows = map int [1..<Suc (length ?rows)]"
    using assms(1) by (simp add: records_ok_def)
  have "rr_revision (last ?rows) = last (map rr_revision ?rows)" using assms(2) by (simp add: last_map)
  also have "\<dots> = int (length ?rows)" unfolding revs using assms(2) by (simp add: Suc_leI)
  finally show ?thesis .
qed

lemma join_head_last:
  assumes "records_ok sha db" "record_rows db kind rid \<noteq> []"
  shows "Option.bind (find_head db kind rid) (join_head db) = Some (last (record_rows db kind rid))"
proof -
  let ?rows = "record_rows db kind rid"
  have revs: "map rr_revision ?rows = map int [1..<Suc (length ?rows)]"
    and head: "find_head db kind rid = head_of_rows kind rid ?rows"
    using assms(1) by (auto simp: records_ok_def)
  have "find (\<lambda>r. rr_revision r = int (length ?rows)) ?rows = Some (last ?rows)"
    by (intro find_unique_key) (use assms last_revision in \<open>simp_all add: revs distinct_map\<close>)
  then show ?thesis
    using head assms(2) by (simp add: head_of_rows_def join_head_def find_record_rows)
qed

lemma find_head_None: "records_ok sha db \<Longrightarrow> record_rows db kind rid = [] \<Longrightarrow> find_head db kind rid = None"
  by (simp add: records_ok_def head_of_rows_def)

lemma row_ok_mem: "records_ok sha db \<Longrightarrow> r \<in> set (record_rows db kind rid) \<Longrightarrow> row_ok sha r"
  by (auto simp: records_ok_def record_rows_def)

lemma head_in_ok_store:
  assumes "records_ok sha db" "is_ok (validate_tokens [kind, rid])"
  shows "record_rows db kind rid = [] \<Longrightarrow> head sha db kind rid = Inr None"
    "record_rows db kind rid \<noteq> [] \<Longrightarrow> \<exists>r. head sha db kind rid = Inr (Some r) \<and>
       loads (rr_payload_json (last (record_rows db kind rid))) = Some (JObj (sr_payload r)) \<and>
       sr_state r = rr_state (last (record_rows db kind rid)) \<and>
       sr_payload_sha256 r = rr_payload_sha256 (last (record_rows db kind rid)) \<and>
       sr_revision r = int (length (record_rows db kind rid)) \<and> sr_kind r = kind \<and> sr_record_id r = rid"
proof -
  obtain u where tok: "validate_tokens [kind, rid] = Inr u" using assms(2) by (auto simp: is_ok_iff)
  show "record_rows db kind rid = [] \<Longrightarrow> head sha db kind rid = Inr None"
    using tok find_head_None [OF assms(1)] by (simp add: head_def)
  assume ne: "record_rows db kind rid \<noteq> []"
  let ?last = "last (record_rows db kind rid)"
  have mem: "?last \<in> set (record_rows db kind rid)" using ne by simp
  have keys: "rr_kind ?last = kind" "rr_record_id ?last = rid"
    using mem by (auto simp: record_rows_def)
  note rev = last_revision [OF assms(1) ne]
  from stored_record_of_row_ok [OF row_ok_mem [OF assms(1) mem]] obtain payload where
    "loads (rr_payload_json ?last) = Some (JObj payload)"
    "stored_record_of sha ?last = Inr \<lparr>sr_kind = rr_kind ?last, sr_record_id = rr_record_id ?last,
      sr_revision = rr_revision ?last, sr_payload = payload, sr_payload_sha256 = rr_payload_sha256 ?last,
      sr_state = rr_state ?last, sr_created_at = rr_created_at ?last\<rparr>" by blast
  then show "\<exists>r. head sha db kind rid = Inr (Some r) \<and>
       loads (rr_payload_json ?last) = Some (JObj (sr_payload r)) \<and> sr_state r = rr_state ?last \<and>
       sr_payload_sha256 r = rr_payload_sha256 ?last \<and>
       sr_revision r = int (length (record_rows db kind rid)) \<and> sr_kind r = kind \<and> sr_record_id r = rid"
    using tok join_head_last [OF assms(1) ne] keys rev by (simp add: head_def)
qed

section \<open>Receipts\<close>

lemma find_receipt_snoc:
  "find_receipt (db\<lparr>pf_receipts := pf_receipts db @ [r]\<rparr>) scope key =
     (case find_receipt db scope key of
        None \<Rightarrow> if (rt_scope r, rt_idempotency_key r) = (scope, key) then Some r else None
      | Some x \<Rightarrow> Some x)"
  by (simp add: find_receipt_def find_append split: option.splits)

lemma idempotent_receipt_Inr:
  assumes "idempotent_receipt sha now scope key request receipt db = Inr (x, db')"
  shows "db' = db \<or> (\<exists>r. receipt = Some r \<and> x = Some r \<and> find_receipt db scope key = None \<and>
    db' = db\<lparr>pf_receipts := pf_receipts db @
      [\<lparr>rt_scope = scope, rt_idempotency_key = key, rt_request_sha256 = sha256_hex sha (json_bytes (JObj request)),
        rt_receipt_json = dumps (JObj r), rt_created_at = iso_millis now\<rparr>]\<rparr>)"
  using assms
  by (auto simp: idempotent_receipt_def result_simps Let_def
        split: option.splits if_splits jval.splits simp del: dumps.simps)

lemma idempotent_receipt_receipts_ok:
  assumes "receipts_ok db" "idempotent_receipt sha now scope key request receipt db = Inr (x, db')"
    and "opt_ok (\<lambda>p. wf_json (JObj p)) receipt"
  shows "receipts_ok db'"
  using idempotent_receipt_Inr [OF assms(2)]
proof (elim disjE exE conjE)
  fix r
  assume r: "receipt = Some r" and db': "db' = db\<lparr>pf_receipts := pf_receipts db @
      [\<lparr>rt_scope = scope, rt_idempotency_key = key, rt_request_sha256 = sha256_hex sha (json_bytes (JObj request)),
        rt_receipt_json = dumps (JObj r), rt_created_at = iso_millis now\<rparr>]\<rparr>"
  have "wf_json (JObj r)" using assms(3) r by (simp add: opt_ok_def)
  with assms(1) show ?thesis by (auto simp: receipts_ok_def db' simp del: dumps.simps wf_json.simps)
qed (use assms(1) in simp)

section \<open>Every operation keeps the invariant\<close>

lemma append_record_frame:
  "append_record sha now kind rid payload state expected db = Inr (r, db') \<Longrightarrow>
     pf_events db' = pf_events db \<and> pf_receipts db' = pf_receipts db"
  by (erule append_record_Inr) simp

lemma append_event_frame:
  "append_event sha now q db = Inr (e, db') \<Longrightarrow>
     pf_records db' = pf_records db \<and> pf_heads db' = pf_heads db \<and> pf_receipts db' = pf_receipts db"
  by (drule append_event_Inr) simp

lemma idempotent_receipt_frame:
  "idempotent_receipt sha now scope key request receipt db = Inr (x, db') \<Longrightarrow>
     pf_records db' = pf_records db \<and> pf_heads db' = pf_heads db \<and> pf_events db' = pf_events db"
  by (drule idempotent_receipt_Inr) auto

lemma records_ok_frame:
  "pf_records db' = pf_records db \<Longrightarrow> pf_heads db' = pf_heads db \<Longrightarrow> records_ok sha db' = records_ok sha db"
  by (simp add: records_ok_def record_rows_def find_head_def)

lemma events_ok_frame: "pf_events db' = pf_events db \<Longrightarrow> events_ok sha db' = events_ok sha db"
  by (simp add: events_ok_def event_rows_def)

lemma receipts_ok_frame: "pf_receipts db' = pf_receipts db \<Longrightarrow> receipts_ok db' = receipts_ok db"
  by (simp add: receipts_ok_def)

lemma store_step_ok:
  assumes "store_step sha db db'" "store_ok sha db"
  shows "store_ok sha db'"
  using assms
proof cases
  case (Record now kind rid payload state expected r)
  then show ?thesis
    using assms(2) append_record_records_ok append_record_frame events_ok_frame receipts_ok_frame
    unfolding store_ok_def by metis
next
  case (Event now q e)
  then show ?thesis
    using assms(2) append_event_events_ok append_event_frame records_ok_frame receipts_ok_frame
    unfolding store_ok_def by metis
next
  case (Receipt now scope key request receipt x)
  then show ?thesis
    using assms(2) idempotent_receipt_receipts_ok idempotent_receipt_frame records_ok_frame events_ok_frame
    unfolding store_ok_def by metis
qed

lemma initialize_platform_store_ok:
  assumes "initialize_platform_store sha now None = Inr db"
  shows "store_ok sha db"
proof -
  have "pf_records db = [] \<and> pf_heads db = [] \<and> pf_events db = [] \<and> pf_receipts db = []"
    using assms by (auto simp: initialize_platform_store_def initialize_def create_tables_def fresh_db_def
        result_simps split: if_splits)
  then show ?thesis
    by (simp add: store_ok_def records_ok_def events_ok_def receipts_ok_def record_rows_def event_rows_def
        find_head_def head_of_rows_def)
qed

section \<open>The store as a log per record\<close>

text \<open>What the store means to its clients: one list of payloads and states per record. The locale
  states the contract of such a log under concurrent writers and what follows from it.\<close>

locale versioned_log =
  fixes inv :: "'s \<Rightarrow> bool"
    and log :: "'s \<Rightarrow> 'k \<Rightarrow> 'v list"
    and put :: "'k \<Rightarrow> 'v \<Rightarrow> nat \<Rightarrow> 's \<Rightarrow> 's \<Rightarrow> bool"
    and step :: "'s \<Rightarrow> 's \<Rightarrow> bool"
  assumes put_log: "inv s \<Longrightarrow> put k v n s s' \<Longrightarrow> n = length (log s k) \<and> log s' = (log s)(k := log s k @ [v])"
    and step_inv: "inv s \<Longrightarrow> step s s' \<Longrightarrow> inv s'"
    and step_log: "inv s \<Longrightarrow> step s s' \<Longrightarrow> log s' = log s \<or> (\<exists>k v n. put k v n s s')"
    and put_step: "put k v n s s' \<Longrightarrow> step s s'"
begin

lemma steps_inv: "step\<^sup>*\<^sup>* s s' \<Longrightarrow> inv s \<Longrightarrow> inv s'"
  by (induction rule: rtranclp_induct) (auto intro: step_inv)

lemma step_extends: "inv s \<Longrightarrow> step s s' \<Longrightarrow> prefix (log s k) (log s' k)"
  using step_log put_log by (metis fun_upd_apply prefix_order.refl prefixI)

lemma log_extends: "step\<^sup>*\<^sup>* s s' \<Longrightarrow> inv s \<Longrightarrow> prefix (log s k) (log s' k)"
proof (induction rule: rtranclp_induct)
  case (step b c)
  then show ?case using steps_inv step_extends [of b c k] prefix_order.trans by blast
qed simp

lemma revision_is_taken_once:
  assumes "inv s" "put k v n s s1" "step\<^sup>*\<^sup>* s1 s2" "put k w m s2 s3"
  shows "n < m"
proof -
  have "inv s1" "log s1 k = log s k @ [v]" "n = length (log s k)"
    using put_log [OF assms(1,2)] step_inv put_step assms(1,2) by auto
  with log_extends [OF assms(3), of k] put_log [OF steps_inv [OF assms(3)] assms(4)] show ?thesis
    by (auto dest: prefix_length_le)
qed

end

definition record_log :: "platform_db \<Rightarrow> string \<times> string \<Rightarrow> (jval option \<times> string) list" where
  "record_log db k = map (\<lambda>r. (loads (rr_payload_json r), rr_state r)) (record_rows db (fst k) (snd k))"

definition expected_for :: "nat \<Rightarrow> int option" where
  "expected_for n = (if n = 0 then None else Some (int n))"

definition record_put ::
    "digest \<Rightarrow> string \<times> string \<Rightarrow> jval option \<times> string \<Rightarrow> nat \<Rightarrow> platform_db \<Rightarrow> platform_db \<Rightarrow> bool" where
  "record_put sha k v n db db' \<longleftrightarrow>
     (\<exists>now payload r. append_record sha now (fst k) (snd k) payload (snd v) (expected_for n) db = Inr (r, db') \<and>
        wf_json (JObj payload) \<and> fst v = Some (JObj (norm_dict payload)))"

lemma append_record_log:
  assumes "records_ok sha db" "append_record sha now kind rid payload state expected db = Inr (r, db')"
    "wf_json (JObj payload)"
  shows "record_log db' = (record_log db)((kind, rid) :=
      record_log db (kind, rid) @ [(Some (JObj (norm_dict payload)), state)])"
    "expected = expected_for (length (record_log db (kind, rid)))"
    "sr_revision r = int (length (record_log db (kind, rid))) + 1"
  using append_record_rows [OF assms(1,2)] loads_payload [OF assms(3)]
  by (auto simp: record_log_def expected_for_def fun_eq_iff simp del: dumps.simps)

lemma expected_for_inject: "expected_for m = expected_for n \<longleftrightarrow> m = n"
  by (simp add: expected_for_def)

interpretation record_store: versioned_log "store_ok sha" record_log "record_put sha" "store_step sha"
proof
  fix s k v n s'
  assume ok: "store_ok sha s" and "record_put sha k v n s s'"
  then obtain now payload r where put: "append_record sha now (fst k) (snd k) payload (snd v) (expected_for n) s = Inr (r, s')"
    "wf_json (JObj payload)" "fst v = Some (JObj (norm_dict payload))"
    by (auto simp: record_put_def)
  from ok have "records_ok sha s" by (simp add: store_ok_def)
  from append_record_log [OF this put(1,2)] put(3) show
    "n = length (record_log s k) \<and> record_log s' = (record_log s)(k := record_log s k @ [v])"
    by (simp add: expected_for_inject) (metis prod.collapse)
next
  show "store_ok sha s \<Longrightarrow> store_step sha s s' \<Longrightarrow> store_ok sha s'" for s s' by (rule store_step_ok)
next
  fix s s'
  assume ok: "store_ok sha s" and "store_step sha s s'"
  from this(2) show "record_log s' = record_log s \<or> (\<exists>k v n. record_put sha k v n s s')"
  proof cases
    case (Record now kind rid payload state expected r)
    from ok have "records_ok sha s" by (simp add: store_ok_def)
    from append_record_log(2) [OF this Record] Record
    have "record_put sha (kind, rid) (Some (JObj (norm_dict payload)), state) (length (record_log s (kind, rid))) s s'"
      unfolding record_put_def by auto
    then show ?thesis by blast
  next
    case (Event now q e)
    then show ?thesis using append_event_frame by (fastforce simp: record_log_def record_rows_def)
  next
    case (Receipt now scope key request receipt x)
    then show ?thesis using idempotent_receipt_frame by (fastforce simp: record_log_def record_rows_def)
  qed
next
  show "record_put sha k v n s s' \<Longrightarrow> store_step sha s s'" for k v n s s'
    unfolding record_put_def by (auto intro: store_step.Record)
qed

section \<open>What a hash of the chain binds\<close>

lemma wf_event_material [simp]: "wf_json (event_material x)"
  by (simp add: event_material_def event_identity_def jopt_def split: option.splits)

lemma wf_event_identity [simp]: "wf_json (JObj (event_identity x))"
  by (simp add: event_identity_def jopt_def split: option.splits)

lemma event_material_field:
  assumes "json_bytes (event_material x) = json_bytes (event_material y)"
  shows "map_option jnorm (map_of ((''event_id'', JStr (ae_event_id x)) # event_identity x) k) =
      map_option jnorm (map_of ((''event_id'', JStr (ae_event_id y)) # event_identity y) k)"
  using json_field_eq assms wf_event_material unfolding event_material_def by blast

lemma jnorm_jopt_inject: "jnorm (jopt JStr a) = jnorm (jopt JStr b) \<longleftrightarrow> a = b"
  by (cases a; cases b) (simp_all add: jopt_def)

lemma event_material_inject:
  assumes "json_bytes (event_material x) = json_bytes (event_material y)" "ae_payload_json x = ae_payload_json y"
  shows "x = y"
proof (rule event_row.equality)
  note field = event_material_field [OF assms(1)]
  show "ae_event_id x = ae_event_id y" using field [of "''event_id''"] by (simp add: event_identity_def)
  show "ae_stream_id x = ae_stream_id y" using field [of "''stream_id''"] by (simp add: event_identity_def)
  show "ae_aggregate_id x = ae_aggregate_id y" using field [of "''aggregate_id''"] by (simp add: event_identity_def)
  show "ae_sequence x = ae_sequence y" using field [of "''sequence''"] by (simp add: event_identity_def)
  show "ae_event_type x = ae_event_type y" using field [of "''event_type''"] by (simp add: event_identity_def)
  show "ae_actor_id x = ae_actor_id y" using field [of "''actor_id''"] by (simp add: event_identity_def)
  show "ae_payload_schema x = ae_payload_schema y" using field [of "''payload_schema''"] by (simp add: event_identity_def)
  show "ae_payload_json x = ae_payload_json y" by (rule assms(2))
  show "ae_payload_sha256 x = ae_payload_sha256 y" using field [of "''payload_sha256''"] by (simp add: event_identity_def)
  show "ae_sensitivity x = ae_sensitivity y" using field [of "''sensitivity''"] by (simp add: event_identity_def)
  show "ae_causation_id x = ae_causation_id y"
    using field [of "''causation_id''"] by (simp add: event_identity_def jnorm_jopt_inject)
  show "ae_correlation_id x = ae_correlation_id y"
    using field [of "''correlation_id''"] by (simp add: event_identity_def jnorm_jopt_inject)
  show "ae_previous_event_sha256 x = ae_previous_event_sha256 y"
    using field [of "''previous_event_sha256''"] by (simp add: event_identity_def jnorm_jopt_inject)
  show "ae_recorded_at x = ae_recorded_at y" using field [of "''recorded_at''"] by (simp add: event_identity_def)
qed simp

lemma event_identity_key:
  assumes "json_bytes (JObj (event_identity x)) = json_bytes (JObj (event_identity y))"
  shows "ae_stream_id x = ae_stream_id y \<and> ae_sequence x = ae_sequence y"
  using json_field_eq [OF wf_event_identity wf_event_identity assms, of "''stream_id''"]
    json_field_eq [OF wf_event_identity wf_event_identity assms, of "''sequence''"]
  by (simp add: event_identity_def)

text \<open>The bytes a row was hashed from: its material and its payload text.\<close>

definition event_texts :: "event_row \<Rightarrow> bytes set" where
  "event_texts row = {json_bytes (event_material row), utf8 (ae_payload_json row)}"

lemma same_hash_same_row:
  assumes inj: "inj_on sha (event_texts x \<union> event_texts y)" and hash: "event_row_hash sha x = event_row_hash sha y"
    and px: "sha256_hex sha (utf8 (ae_payload_json x)) = ae_payload_sha256 x"
    and py: "sha256_hex sha (utf8 (ae_payload_json y)) = ae_payload_sha256 y"
  shows "x = y"
proof (rule event_material_inject)
  have mem: "json_bytes (event_material r) \<in> event_texts x \<union> event_texts y"
    "utf8 (ae_payload_json r) \<in> event_texts x \<union> event_texts y" if "r = x \<or> r = y" for r
    using that unfolding event_texts_def by blast+
  have "sha (json_bytes (event_material x)) = sha (json_bytes (event_material y))"
    using hash unfolding event_row_hash_def sha256_hex_def .
  then show eq: "json_bytes (event_material x) = json_bytes (event_material y)"
    by (rule inj_onD [OF inj]) (simp_all only: mem simp_thms)
  have "ae_payload_sha256 x = ae_payload_sha256 y"
    using event_material_field [OF eq, of "''payload_sha256''"] by (simp add: event_identity_def)
  then have "sha (utf8 (ae_payload_json x)) = sha (utf8 (ae_payload_json y))"
    using px py unfolding sha256_hex_def by metis
  then have "utf8 (ae_payload_json x) = utf8 (ae_payload_json y)"
    by (rule inj_onD [OF inj]) (simp_all only: mem simp_thms)
  then show "ae_payload_json x = ae_payload_json y" by (rule utf8_inject)
qed

text \<open>The bytes an event identifier was derived from.\<close>

definition event_id_text :: "event_row \<Rightarrow> bytes" where
  "event_id_text r = json_bytes (id_material ''aevt'' (JObj (event_identity r)))"

lemma event_id_key:
  assumes "inj_on sha {event_id_text x, event_id_text y}"
    "derive_id sha ''aevt'' (JObj (event_identity x)) = derive_id sha ''aevt'' (JObj (event_identity y))"
  shows "ae_stream_id x = ae_stream_id y \<and> ae_sequence x = ae_sequence y"
proof -
  let ?m = "\<lambda>r. id_material ''aevt'' (JObj (event_identity r))"
  have wf: "wf_json (?m r)" for r
    using wf_event_identity [of r] by (simp add: id_material_def del: wf_event_identity)
  have "sha (json_bytes (?m x)) = sha (json_bytes (?m y))"
    using assms(2) unfolding derive_id_material sha256_hex_def by simp
  then have "json_bytes (?m x) = json_bytes (?m y)"
    by (rule inj_onD [OF assms(1) [unfolded event_id_text_def]]) simp_all
  then have "jnorm (?m x) = jnorm (?m y)" using json_bytes_eq_iff [OF wf wf] by blast
  then have "jnorm (JObj (event_identity x)) = jnorm (JObj (event_identity y))"
    unfolding jnorm_id_material by blast
  then have "json_bytes (JObj (event_identity x)) = json_bytes (JObj (event_identity y))"
    using json_bytes_eq_iff wf_event_identity by blast
  then show ?thesis by (rule event_identity_key)
qed

lemma chain_determined_by_last:
  assumes "verify_chain sha n h xs" "verify_chain sha n h ys" "xs \<noteq> []" "ys \<noteq> []"
    and "event_row_hash sha (last xs) = event_row_hash sha (last ys)"
    and "inj_on sha (\<Union>r\<in>set xs \<union> set ys. event_texts r)"
  shows "xs = ys"
  using assms
proof (induction xs arbitrary: ys rule: rev_induct)
  case (snoc x xs)
  obtain zs y where ys: "ys = zs @ [y]" using snoc.prems(4) by (cases ys rule: rev_exhaust) auto
  have "x = y"
  proof (rule same_hash_same_row)
    show "inj_on sha (event_texts x \<union> event_texts y)"
      by (rule inj_on_subset [OF snoc.prems(6)]) (auto simp: ys)
  qed (use snoc.prems ys in \<open>auto simp: verify_chain_append\<close>)
  moreover have "length xs = length zs"
    using snoc.prems(1,2) ys \<open>x = y\<close> by (simp add: verify_chain_append)
  moreover have "xs = zs"
  proof (cases "xs = []")
    case False
    then have "zs \<noteq> []" using \<open>length xs = length zs\<close> by auto
    then have "event_row_hash sha (last xs) = event_row_hash sha (last zs)"
      using snoc.prems(1,2) ys \<open>x = y\<close> False by (simp add: verify_chain_append)
    moreover have "inj_on sha (\<Union>r\<in>set xs \<union> set zs. event_texts r)"
      by (rule inj_on_subset [OF snoc.prems(6)]) (auto simp: ys)
    ultimately show ?thesis
      using snoc.IH [of zs] snoc.prems(1,2) ys False \<open>zs \<noteq> []\<close> by (simp add: verify_chain_append)
  qed (use \<open>length xs = length zs\<close> in simp)
  ultimately show ?case by (simp add: ys)
qed simp

text \<open>The only way an event can fail to be appended is a collision of its identifier.\<close>

lemma chain_row_id:
  "verify_chain sha n h rows \<Longrightarrow> r \<in> set rows \<Longrightarrow>
     ae_event_id r = derive_id sha ''aevt'' (JObj (event_identity r)) \<and>
     n \<le> ae_sequence r \<and> ae_sequence r < n + int (length rows)"
  by (induction rows arbitrary: n h) (auto split: if_splits, fastforce+)

lemma append_event_possible:
  assumes "events_ok sha db"
    and "is_ok (validate_tokens [er_stream_id q, er_aggregate_id q, er_event_type q, er_actor_id q, er_payload_schema q])"
    and "inj_on sha (event_id_text ` (insert (next_event sha now (last_event db (er_stream_id q)) q) (set (pf_events db))))"
  shows "\<exists>e db'. append_event sha now q db = Inr (e, db')"
proof -
  let ?row = "next_event sha now (last_event db (er_stream_id q)) q"
  have chain: "verify_chain sha 1 None (event_rows db s)" for s using assms(1) by (simp add: events_ok_def)
  have seq: "ae_sequence ?row = int (length (event_rows db (er_stream_id q))) + 1"
    using last_event_chain [OF chain [of "er_stream_id q"]] by (auto simp: next_event_fields)
  have fresh: "ae_event_id r \<noteq> ae_event_id ?row \<and>
      (ae_stream_id r, ae_sequence r) \<noteq> (ae_stream_id ?row, ae_sequence ?row)" if "r \<in> set (pf_events db)" for r
  proof -
    have mem: "r \<in> set (event_rows db (ae_stream_id r))" using that by (simp add: event_rows_def)
    note row = chain_row_id [OF chain mem]
    have key: "(ae_stream_id r, ae_sequence r) \<noteq> (ae_stream_id ?row, ae_sequence ?row)"
      using row seq by (auto simp: next_event_fields)
    moreover have "ae_event_id r \<noteq> ae_event_id ?row"
    proof
      assume "ae_event_id r = ae_event_id ?row"
      then have "derive_id sha ''aevt'' (JObj (event_identity r)) = derive_id sha ''aevt'' (JObj (event_identity ?row))"
        using row next_event_fields(5) by metis
      moreover have "inj_on sha {event_id_text r, event_id_text ?row}"
        by (rule inj_on_subset [OF assms(3)]) (use that in auto)
      ultimately show False using event_id_key key by blast
    qed
    ultimately show ?thesis by blast
  qed
  then have "\<not> list_ex (\<lambda>r. ae_event_id r = ae_event_id ?row \<or>
      (ae_stream_id r, ae_sequence r) = (ae_stream_id ?row, ae_sequence ?row)) (pf_events db)"
    by (auto simp: list_ex_iff)
  with assms(2) show ?thesis unfolding append_event_def is_ok_iff by (auto simp: Let_def)
qed

section \<open>Properties\<close>

text \<open>C11: appending a record is one step of the log of that record: the payload and state go to the end,
  every other record and the audit events stay, and the call succeeds only with the revision the
  record has. What the head returns afterwards is that payload, read back.\<close>

theorem append_record_refines_log:
  assumes "store_ok sha db" "wf_json (JObj payload)"
    and "append_record sha now kind rid payload state expected db = Inr (r, db')"
  shows "record_log db' = (record_log db)((kind, rid) :=
       record_log db (kind, rid) @ [(Some (JObj (norm_dict payload)), state)]) \<and>
     expected = expected_for (length (record_log db (kind, rid))) \<and>
     sr_revision r = int (length (record_log db (kind, rid))) + 1 \<and>
     pf_events db' = pf_events db \<and> store_ok sha db' \<and>
     (\<exists>h. head sha db' kind rid = Inr (Some h) \<and> sr_payload h = norm_dict payload \<and> sr_state h = state \<and>
        sr_revision h = sr_revision r \<and> sr_payload_sha256 h = sr_payload_sha256 r)"
proof -
  have ok: "records_ok sha db" using assms(1) by (simp add: store_ok_def)
  have ok': "store_ok sha db'" using store_step.Record [OF assms(3,2)] assms(1) by (rule store_step_ok)
  then have rok': "records_ok sha db'" by (simp add: store_ok_def)
  obtain row where row: "record_rows db' kind rid = record_rows db kind rid @ [row]"
    "rr_payload_json row = dumps (JObj payload)" "rr_state row = state"
    "rr_revision row = int (length (record_rows db kind rid)) + 1"
    "rr_payload_sha256 row = sha256_hex sha (json_bytes (JObj payload))" "sr_revision r = rr_revision row"
    using append_record_rows(1) [OF ok assms(3)] by blast
  have tok: "is_ok (validate_tokens [kind, rid])" and sha: "sr_payload_sha256 r = sha256_hex sha (json_bytes (JObj payload))"
    by (rule append_record_Inr [OF assms(3)], simp)+
  have "\<exists>h. head sha db' kind rid = Inr (Some h) \<and> sr_payload h = norm_dict payload \<and> sr_state h = state \<and>
        sr_revision h = sr_revision r \<and> sr_payload_sha256 h = sr_payload_sha256 r"
    using head_in_ok_store(2) [OF rok' tok] row loads_payload [OF assms(2)] sha by (auto simp del: dumps.simps)
  then show ?thesis
    using append_record_log [OF ok assms(3,2)] append_record_frame [OF assms(3)] ok' by simp
qed

definition sample_store :: platform_db where
  "sample_store = fresh_db\<lparr>pf_user_version := 1, pf_tables := schema_tables\<rparr>"

lemma sample_store_ok: "store_ok sha sample_store"
  by (simp add: sample_store_def fresh_db_def store_ok_def records_ok_def events_ok_def receipts_ok_def
      record_rows_def event_rows_def find_head_def head_of_rows_def)

lemma sample_tokens: "validate_tokens [''k'', ''r''] = Inr ()"
  by code_simp

lemma sample_append:
  "\<exists>r db'. append_record sha now ''k'' ''r'' [] ''s'' None sample_store = Inr (r, db')"
  by (simp add: append_record_def sample_tokens sample_store_def fresh_db_def find_head_def find_record_def Let_def)

theorem append_record_refines_log_witness:
  "\<exists>r db' h. append_record id 0 ''k'' ''r'' [] ''s'' None sample_store = Inr (r, db') \<and>
     record_log db' (''k'', ''r'') = [(Some (JObj []), ''s'')] \<and> head id db' ''k'' ''r'' = Inr (Some h) \<and> sr_state h = ''s''"
proof -
  obtain r db' where a: "append_record id 0 ''k'' ''r'' [] ''s'' None sample_store = Inr (r, db')"
    using sample_append by blast
  have "record_log sample_store (''k'', ''r'') = []"
    by (simp add: record_log_def record_rows_def sample_store_def fresh_db_def)
  with append_record_refines_log [OF sample_store_ok _ a] a show ?thesis by (auto simp: norm_dict_def)
qed

text \<open>C13: no update is lost. Once a record was appended with some expected revision, an append of the same
  record with the same expected revision is refused, whatever happened to the store in between.\<close>

theorem no_lost_update:
  assumes "store_ok sha db" "wf_json (JObj payload)"
    and "append_record sha now kind rid payload state expected db = Inr (r, db1)"
    and "(store_step sha)\<^sup>*\<^sup>* db1 db2"
  shows "append_record sha now' kind rid payload' state' expected db2 = Inl PlatformStoreError"
proof -
  have ok: "records_ok sha db" using assms(1) by (simp add: store_ok_def)
  let ?n = "length (record_log db (kind, rid))"
  have log1: "length (record_log db1 (kind, rid)) = Suc ?n" and expected: "expected = expected_for ?n"
    using append_record_log [OF ok assms(3,2)] by simp_all
  have ok1: "store_ok sha db1" using store_step.Record [OF assms(3,2)] assms(1) by (rule store_step_ok)
  have "Suc ?n \<le> length (record_log db2 (kind, rid))"
    using record_store.log_extends [OF assms(4) ok1, of "(kind, rid)"] log1 by (metis prefix_length_le)
  then have rows: "?n < length (record_rows db2 kind rid)" by (simp add: record_log_def)
  have "store_ok sha db2" using record_store.steps_inv [OF assms(4) ok1] .
  then have "find_head db2 kind rid = head_of_rows kind rid (record_rows db2 kind rid)"
    by (simp add: store_ok_def records_ok_def)
  with rows have "map_option hr_revision (find_head db2 kind rid) \<noteq> expected"
    by (auto simp: head_of_rows_def expected expected_for_def)
  moreover have "is_ok (validate_tokens [kind, rid])" by (rule append_record_Inr [OF assms(3)])
  ultimately show ?thesis by (auto simp: append_record_def is_ok_iff Let_def)
qed

theorem no_lost_update_witness:
  "\<exists>r db'. append_record id 0 ''k'' ''r'' [] ''s'' None sample_store = Inr (r, db') \<and>
     append_record id 1 ''k'' ''r'' [] ''t'' None db' = Inl PlatformStoreError"
  using sample_append no_lost_update [OF sample_store_ok _ _ rtranclp.rtrancl_refl, of "[]" id 0 "''k''" "''r''" "''s''" None]
  by fastforce

text \<open>C20: in every store a writer can reach from a fresh database, each audit stream verifies and each head
  can be read: the integrity checks of the store never fail on what the store wrote.\<close>

theorem reachable_store_verifies:
  assumes "initialize_platform_store sha now None = Inr db0" "(store_step sha)\<^sup>*\<^sup>* db0 db"
  shows "verify_event_stream sha db stream \<and>
     (is_ok (validate_tokens [kind, rid]) \<longrightarrow> is_ok (head sha db kind rid))"
proof -
  have "store_ok sha db"
    using record_store.steps_inv [OF assms(2)] initialize_platform_store_ok [OF assms(1)] by blast
  then have ok: "records_ok sha db" "events_ok sha db" by (simp_all add: store_ok_def)
  have "is_ok (head sha db kind rid)" if "is_ok (validate_tokens [kind, rid])"
    using head_in_ok_store [OF ok(1) that] by (cases "record_rows db kind rid = []") auto
  with verify_event_stream_ok [OF ok(2)] show ?thesis by blast
qed

lemma fresh_store_opens: "\<exists>db. initialize_platform_store sha now None = Inr db"
  by (simp add: initialize_platform_store_def initialize_def create_tables_def verify_schema_def fresh_db_def
      PLATFORM_SCHEMA_VERSION_def list_ex_iff)

theorem reachable_store_verifies_witness:
  "\<exists>db. initialize_platform_store id 0 None = Inr db \<and> verify_event_stream id db ''s'' \<and> is_ok (head id db ''k'' ''r'')"
  using fresh_store_opens [of id 0] reachable_store_verifies [OF _ rtranclp.rtrancl_refl, of id 0 _ "''s''" "''k''" "''r''"]
  by (fastforce simp: sample_tokens)

text \<open>C21: the audit log is tamper evident. If a stream verifies in two databases and its last event has the
  same hash in both, then the streams are the same, row by row, unless the digest collides on the
  texts of these rows.\<close>

theorem audit_stream_is_tamper_evident:
  assumes "verify_event_stream sha db stream" "verify_event_stream sha db' stream"
    and "last_event db stream = Some e" "last_event db' stream = Some e'"
    and "event_row_hash sha e = event_row_hash sha e'"
    and "inj_on sha (\<Union>r\<in>set (stream_rows db stream) \<union> set (stream_rows db' stream). event_texts r)"
  shows "stream_rows db stream = stream_rows db' stream"
  by (rule chain_determined_by_last)
    (use assms in \<open>auto simp: verify_event_stream_def last_event_def Let_def split: if_splits\<close>)

definition sample_event_request :: event_request where
  "sample_event_request = \<lparr>er_stream_id = ''s'', er_aggregate_id = ''a'', er_event_type = ''t'',
     er_actor_id = ''u'', er_payload_schema = ''p'', er_payload = [], er_sensitivity = ''internal'',
     er_causation_id = None, er_correlation_id = None\<rparr>"

definition sample_audited :: platform_db where
  "sample_audited = sample_store\<lparr>pf_events := [next_event id 0 None sample_event_request]\<rparr>"

lemma sample_event_appended: "\<exists>e. append_event id 0 sample_event_request sample_store = Inr (e, sample_audited)"
proof -
  have "validate_tokens [''s'', ''a'', ''t'', ''u'', ''p''] = Inr ()" by code_simp
  then show ?thesis
    by (simp add: append_event_def sample_event_request_def sample_audited_def sample_store_def fresh_db_def
        last_event_def stream_rows_def Let_def)
qed

lemma sample_audited_ok: "store_ok id sample_audited"
  using sample_event_appended store_step_ok [OF store_step.Event] sample_store_ok by blast

theorem audit_stream_is_tamper_evident_witness:
  "\<exists>e. last_event sample_audited ''s'' = Some e \<and> verify_event_stream id sample_audited ''s'' \<and>
     stream_rows (sample_audited\<lparr>pf_user_version := 2\<rparr>) ''s'' = stream_rows sample_audited ''s''"
proof -
  let ?db = "sample_audited\<lparr>pf_user_version := 2\<rparr>"
  have v: "verify_event_stream id sample_audited ''s''"
    using sample_audited_ok by (simp add: store_ok_def verify_event_stream_ok)
  have "ae_stream_id (next_event id 0 None sample_event_request) = ''s''"
    by (simp add: next_event_fields sample_event_request_def)
  then obtain e where e: "last_event sample_audited ''s'' = Some e"
    by (simp add: last_event_def stream_rows_def sample_audited_def)
  have v': "verify_event_stream id ?db ''s''" and e': "last_event ?db ''s'' = Some e"
    using v e by (simp_all add: verify_event_stream_def last_event_def stream_rows_def)
  have "inj_on id A" for A :: "bytes set" by simp
  from audit_stream_is_tamper_evident [OF v' v e' e refl this] e v show ?thesis by blast
qed

text \<open>an audit event can always be recorded: with well-formed names the append succeeds in every sound
  store, unless the digest collides on the texts the identifiers are derived from.\<close>

theorem audit_event_can_be_appended:
  assumes "store_ok sha db"
    and "is_ok (validate_tokens [er_stream_id q, er_aggregate_id q, er_event_type q, er_actor_id q, er_payload_schema q])"
    and "inj_on sha (event_id_text ` (insert (next_event sha now (last_event db (er_stream_id q)) q) (set (pf_events db))))"
  shows "\<exists>e db'. append_event sha now q db = Inr (e, db') \<and> verify_event_stream sha db' (er_stream_id q) \<and>
     length (stream_rows db' (er_stream_id q)) = Suc (length (stream_rows db (er_stream_id q)))"
proof -
  have ok: "events_ok sha db" using assms(1) by (simp add: store_ok_def)
  obtain e db' where a: "append_event sha now q db = Inr (e, db')"
    using append_event_possible [OF ok assms(2,3)] by blast
  have "events_ok sha db'" using append_event_events_ok [OF ok a] .
  moreover have "length (stream_rows db' (er_stream_id q)) = Suc (length (stream_rows db (er_stream_id q)))"
    by (simp add: append_event_Inr [OF a] stream_rows_def next_event_fields)
  ultimately show ?thesis using a verify_event_stream_ok by blast
qed

theorem audit_event_can_be_appended_witness:
  "\<exists>e db'. append_event id 5 sample_event_request sample_audited = Inr (e, db') \<and> verify_event_stream id db' ''s''"
proof -
  have "validate_tokens [''s'', ''a'', ''t'', ''u'', ''p''] = Inr ()" by code_simp
  then show ?thesis
    using audit_event_can_be_appended [OF sample_audited_ok, of sample_event_request 5]
    by (auto simp: sample_event_request_def)
qed

text \<open>a receipt is returned for ever. After a command stored its receipt, asking again with the same
  request returns it (in key order) and changes nothing, and another request under the same key is
  refused, unless the digest collides on the two requests.\<close>

theorem receipt_is_replayed:
  assumes "store_ok sha db" "wf_json (JObj receipt)" "find_receipt db scope key = None"
    and "idempotent_receipt sha now scope key request (Some receipt) db = Inr (x, db1)"
    and "(store_step sha)\<^sup>*\<^sup>* db1 db2"
  shows "idempotent_receipt sha now' scope key request other db2 = Inr (Some (norm_dict receipt), db2) \<and>
    (sha (json_bytes (JObj request')) \<noteq> sha (json_bytes (JObj request)) \<longrightarrow>
       idempotent_receipt sha now' scope key request' other db2 = Inl PlatformStoreError)"
proof -
  let ?row = "\<lparr>rt_scope = scope, rt_idempotency_key = key,
     rt_request_sha256 = sha256_hex sha (json_bytes (JObj request)), rt_receipt_json = dumps (JObj receipt),
     rt_created_at = iso_millis now\<rparr>"
  have tok: "validate_tokens [scope, key] = Inr ()"
    using assms(4) by (auto simp: idempotent_receipt_def result_simps)
  then have db1: "db1 = db\<lparr>pf_receipts := pf_receipts db @ [?row]\<rparr>"
    using assms(3,4) by (auto simp: idempotent_receipt_def Let_def simp del: dumps.simps)
  have base: "find_receipt db1 scope key = Some ?row"
    using assms(3) by (simp add: db1 find_receipt_snoc del: dumps.simps)
  have keep: "find_receipt b scope key = Some r \<Longrightarrow> store_step sha b c \<Longrightarrow> find_receipt c scope key = Some r" for b c r
  proof (erule store_step.cases)
    assume r: "find_receipt b scope key = Some r"
    fix now sc k rq rc dba y dbb
    assume "b = dba" "c = dbb" "idempotent_receipt sha now sc k rq rc dba = Inr (y, dbb)"
    with r show "find_receipt c scope key = Some r"
      by (auto dest!: idempotent_receipt_Inr simp: find_receipt_snoc)
  qed (auto dest: append_record_frame append_event_frame simp: find_receipt_def)
  have "find_receipt db2 scope key = Some ?row"
    using assms(5) by (induction rule: rtranclp_induct) (use base keep in blast)+
  with tok loads_payload [OF assms(2)] show ?thesis
    by (auto simp: idempotent_receipt_def Let_def sha256_hex_def simp del: dumps.simps)
qed

theorem receipt_is_replayed_witness:
  "\<exists>x db1. idempotent_receipt id 0 ''k'' ''r'' [] (Some []) sample_store = Inr (x, db1) \<and>
     idempotent_receipt id 1 ''k'' ''r'' [] None db1 = Inr (Some [], db1)"
proof -
  have none: "find_receipt sample_store ''k'' ''r'' = None"
    by (simp add: find_receipt_def sample_store_def fresh_db_def)
  then obtain x db1 where a: "idempotent_receipt id 0 ''k'' ''r'' [] (Some []) sample_store = Inr (x, db1)"
    by (simp add: idempotent_receipt_def sample_tokens)
  from receipt_is_replayed [OF sample_store_ok _ none a rtranclp.rtrancl_refl, of 1 None] a
  show ?thesis by (auto simp: norm_dict_def)
qed

end
