(* ===== verification/Control.thy ===== *)
theory Control
  imports Canonical
begin

text \<open>
  Model of \<open>ControlDB\<close> (\<open>src/raytsystem/control.py\<close>), the SQLite coordination plane: operation
  claims, fenced leases, promotion transactions and the event outbox. The tables are a record; a
  table with a primary key that is only looked up is a map, the two tables that are scanned are
  lists in rowid order. Every method that opens \<open>BEGIN IMMEDIATE\<close> is atomic: it returns either an
  error, after \<open>ROLLBACK\<close>, or its result with the tables it commits. A violated \<open>PRIMARY KEY\<close> or
  \<open>UNIQUE\<close> constraint is \<open>ConstraintError\<close>. A stored result is the JSON value with its keys sorted
  (\<open>json.dumps(..., sort_keys=True)\<close> read back by \<open>json.loads\<close>). Connection setup, pragmas, retries
  and the migration that drops an old index carry no rows and are left out.
\<close>

section \<open>Definitions\<close>

datatype control_error = LeaseBusy | ControlValueError | ControlRuntimeError | ControlKeyError
  | ConstraintError

record run_row =
  rr_state :: string
  rr_created_at_ms :: int
  rr_updated_at_ms :: int

record operation_row =
  or_run_id :: string
  or_stage :: string
  or_partition_key :: string
  or_state :: string
  or_result :: "jval option"
  or_error_code :: "string option"

record lease_row =
  lr_control_epoch :: string
  lr_owner_run_id :: "string option"
  lr_fencing_token :: int
  lr_expires_at_ms :: int
  lr_renewed_at_ms :: int

record promotion_row =
  pr_txn_id :: string
  pr_operation_key :: string
  pr_run_id :: string
  pr_control_epoch :: string
  pr_partition_fencing_token :: int
  pr_global_fencing_token :: int
  pr_parent_generation_id :: string
  pr_next_generation_id :: string
  pr_manifest_sha256 :: string
  pr_event_id :: string
  pr_approval_hash :: "string option"
  pr_state :: string
  pr_payload_json :: string
  pr_created_at_ms :: int
  pr_updated_at_ms :: int

record outbox_row =
  ob_event_id :: string
  ob_txn_id :: string
  ob_payload_json :: string
  ob_payload_sha256 :: string
  ob_state :: string

record control_db =
  db_epoch :: "string option"
  db_runs :: "string \<rightharpoonup> run_row"
  db_operations :: "string \<rightharpoonup> operation_row"
  db_leases :: "string \<rightharpoonup> lease_row"
  db_promotions :: "promotion_row list"
  db_outbox :: "outbox_row list"

record operation_claim =
  oc_operation_key :: string
  oc_run_id :: string
  oc_state :: string
  oc_created :: bool
  oc_result :: "jval option"

record lease_token =
  lt_partition_key :: string
  lt_control_epoch :: string
  lt_owner_run_id :: string
  lt_fencing_token :: int
  lt_expires_at_ms :: int

type_synonym 'a txn = "(control_error, 'a \<times> control_db) result"

definition empty_db :: control_db where
  "empty_db = \<lparr>db_epoch = None, db_runs = Map.empty, db_operations = Map.empty,
     db_leases = Map.empty, db_promotions = [], db_outbox = []\<rparr>"

definition create_schema :: "string \<Rightarrow> control_db \<Rightarrow> control_db" where
  "create_schema uuid db =
     (case db_epoch db of None \<Rightarrow> db\<lparr>db_epoch := Some (''epoch_'' @ uuid)\<rparr> | Some _ \<Rightarrow> db)"

definition control_epoch :: "control_db \<Rightarrow> (control_error, string) result" where
  "control_epoch db = of_option ControlRuntimeError (db_epoch db)"

subsection \<open>Operations\<close>

definition claim_of :: "string \<Rightarrow> operation_row \<Rightarrow> bool \<Rightarrow> operation_claim" where
  "claim_of key row created = \<lparr>oc_operation_key = key, oc_run_id = or_run_id row,
     oc_state = or_state row, oc_created = created, oc_result = or_result row\<rparr>"

definition claim_operation ::
    "control_db \<Rightarrow> string \<Rightarrow> string \<Rightarrow> string \<Rightarrow> string \<Rightarrow> int \<Rightarrow> operation_claim txn" where
  "claim_operation db operation_key run_id stage partition_key now_ms =
     (case db_operations db operation_key of
        Some row \<Rightarrow> Inr (claim_of operation_key row False, db)
      | None \<Rightarrow>
          rbind (ensure (db_runs db run_id = None) ConstraintError) (\<lambda>_.
          let run = \<lparr>rr_state = ''running'', rr_created_at_ms = now_ms, rr_updated_at_ms = now_ms\<rparr>;
              row = \<lparr>or_run_id = run_id, or_stage = stage, or_partition_key = partition_key,
                     or_state = ''running'', or_result = None, or_error_code = None\<rparr>
          in Inr (claim_of operation_key row True,
                  db\<lparr>db_runs := (db_runs db)(run_id \<mapsto> run),
                     db_operations := (db_operations db)(operation_key \<mapsto> row)\<rparr>)))"

definition update_operation ::
    "control_db \<Rightarrow> string \<Rightarrow> string \<Rightarrow> int \<Rightarrow> jval option \<Rightarrow> string option \<Rightarrow> unit txn" where
  "update_operation db operation_key state now_ms res error_code =
     (case db_operations db operation_key of
        None \<Rightarrow> Inl ControlKeyError
      | Some row \<Rightarrow>
          Inr ((), db\<lparr>
            db_operations := (db_operations db)(operation_key \<mapsto>
              row\<lparr>or_state := state, or_result := map_option jnorm res,
                  or_error_code := error_code\<rparr>),
            db_runs := (case db_runs db (or_run_id row) of
                None \<Rightarrow> db_runs db
              | Some run \<Rightarrow> (db_runs db)(or_run_id row \<mapsto>
                  run\<lparr>rr_state := state, rr_updated_at_ms := now_ms\<rparr>))\<rparr>))"

subsection \<open>Leases\<close>

definition token_of :: "string \<Rightarrow> string \<Rightarrow> string \<Rightarrow> int \<Rightarrow> int \<Rightarrow> lease_token" where
  "token_of p epoch owner fence expires = \<lparr>lt_partition_key = p, lt_control_epoch = epoch,
     lt_owner_run_id = owner, lt_fencing_token = fence, lt_expires_at_ms = expires\<rparr>"

definition next_fence :: "lease_row option \<Rightarrow> string \<Rightarrow> int \<Rightarrow> (control_error, int) result" where
  "next_fence found owner now_ms =
     (case found of
        None \<Rightarrow> Inr 1
      | Some row \<Rightarrow>
          if lr_owner_run_id row = Some owner \<and> lr_expires_at_ms row > now_ms
          then Inr (lr_fencing_token row)
          else if lr_owner_run_id row = None \<or> lr_expires_at_ms row \<le> now_ms
          then Inr (lr_fencing_token row + 1)
          else Inl LeaseBusy)"

definition acquire_lease :: "control_db \<Rightarrow> string \<Rightarrow> string \<Rightarrow> int \<Rightarrow> int \<Rightarrow> lease_token txn" where
  "acquire_lease db partition_key owner_run_id ttl_ms now_ms =
     rbind (ensure (\<not> ttl_ms \<le> 0) ControlValueError) (\<lambda>_.
     rbind (control_epoch db) (\<lambda>epoch.
     rbind (next_fence (db_leases db partition_key) owner_run_id now_ms) (\<lambda>fence.
     let expires = now_ms + ttl_ms;
         row = \<lparr>lr_control_epoch = epoch, lr_owner_run_id = Some owner_run_id,
                lr_fencing_token = fence, lr_expires_at_ms = expires, lr_renewed_at_ms = now_ms\<rparr>
     in Inr (token_of partition_key epoch owner_run_id fence expires,
             db\<lparr>db_leases := (db_leases db)(partition_key \<mapsto> row)\<rparr>))))"

definition owns :: "lease_row \<Rightarrow> lease_token \<Rightarrow> bool" where
  "owns row lease \<longleftrightarrow>
     lr_control_epoch row = lt_control_epoch lease \<and>
     lr_owner_run_id row = Some (lt_owner_run_id lease) \<and>
     lr_fencing_token row = lt_fencing_token lease"

definition verify_lease :: "control_db \<Rightarrow> lease_token \<Rightarrow> int \<Rightarrow> bool" where
  "verify_lease db lease now_ms =
     (case db_leases db (lt_partition_key lease) of
        None \<Rightarrow> False
      | Some row \<Rightarrow> owns row lease \<and> lr_expires_at_ms row > now_ms)"

definition extend_row :: "control_db \<Rightarrow> lease_token \<Rightarrow> int \<Rightarrow> int \<Rightarrow> control_db" where
  "extend_row db lease expires now_ms =
     (case db_leases db (lt_partition_key lease) of
        None \<Rightarrow> db
      | Some row \<Rightarrow> db\<lparr>db_leases := (db_leases db)(lt_partition_key lease \<mapsto>
          row\<lparr>lr_expires_at_ms := expires, lr_renewed_at_ms := now_ms\<rparr>)\<rparr>)"

definition renew_lease :: "control_db \<Rightarrow> lease_token \<Rightarrow> int \<Rightarrow> int \<Rightarrow> lease_token txn" where
  "renew_lease db lease ttl_ms now_ms =
     rbind (ensure (\<not> ttl_ms \<le> 0) ControlValueError) (\<lambda>_.
     rbind (ensure (verify_lease db lease now_ms) LeaseBusy) (\<lambda>_.
     let expires = now_ms + ttl_ms
     in Inr (lease\<lparr>lt_expires_at_ms := expires\<rparr>, extend_row db lease expires now_ms)))"

fun hold_loop ::
    "control_db \<Rightarrow> lease_token list \<Rightarrow> int \<Rightarrow> int option \<Rightarrow> lease_token list txn" where
  "hold_loop db [] now_ms renew_ttl_ms = Inr ([], db)"
| "hold_loop db (lease # rest) now_ms renew_ttl_ms =
     rbind (ensure (verify_lease db lease now_ms) LeaseBusy) (\<lambda>_.
     rbind (of_option LeaseBusy (db_leases db (lt_partition_key lease))) (\<lambda>row.
     let expires = (case renew_ttl_ms of None \<Rightarrow> lr_expires_at_ms row | Some ttl \<Rightarrow> now_ms + ttl);
         db' = (case renew_ttl_ms of None \<Rightarrow> db | Some _ \<Rightarrow> extend_row db lease expires now_ms)
     in rbind (hold_loop db' rest now_ms renew_ttl_ms) (\<lambda>(ls, db'').
          Inr (lease\<lparr>lt_expires_at_ms := expires\<rparr> # ls, db''))))"

text \<open>The body of the \<open>with\<close> block runs inside the transaction and may change the tables.\<close>

definition hold_valid_leases ::
    "control_db \<Rightarrow> lease_token list \<Rightarrow> int \<Rightarrow> int option \<Rightarrow> (lease_token list \<Rightarrow> control_db \<Rightarrow> 'a txn) \<Rightarrow> 'a txn" where
  "hold_valid_leases db leases now_ms renew_ttl_ms body =
     rbind (ensure (leases \<noteq> []) ControlValueError) (\<lambda>_.
     rbind (ensure (case renew_ttl_ms of None \<Rightarrow> True | Some ttl \<Rightarrow> \<not> ttl \<le> 0) ControlValueError) (\<lambda>_.
     rbind (hold_loop db leases now_ms renew_ttl_ms) (\<lambda>(renewed, db'). body renewed db')))"

fun renew_held_loop :: "control_db \<Rightarrow> lease_token list \<Rightarrow> int \<Rightarrow> int \<Rightarrow> lease_token list txn" where
  "renew_held_loop db [] expires now_ms = Inr ([], db)"
| "renew_held_loop db (lease # rest) expires now_ms =
     rbind (of_option LeaseBusy (db_leases db (lt_partition_key lease))) (\<lambda>row.
     rbind (ensure (owns row lease) LeaseBusy) (\<lambda>_.
     rbind (renew_held_loop (extend_row db lease expires now_ms) rest expires now_ms) (\<lambda>(ls, db').
       Inr (lease\<lparr>lt_expires_at_ms := expires\<rparr> # ls, db'))))"

definition renew_held_leases ::
    "bool \<Rightarrow> control_db \<Rightarrow> lease_token list \<Rightarrow> int \<Rightarrow> int \<Rightarrow> lease_token list txn" where
  "renew_held_leases in_transaction db leases ttl_ms now_ms =
     rbind (ensure in_transaction ControlRuntimeError) (\<lambda>_.
     rbind (ensure (\<not> (leases = [] \<or> ttl_ms \<le> 0)) ControlValueError) (\<lambda>_.
     renew_held_loop db leases (now_ms + ttl_ms) now_ms))"

definition release_lease :: "control_db \<Rightarrow> lease_token \<Rightarrow> bool \<times> control_db" where
  "release_lease db lease =
     (case db_leases db (lt_partition_key lease) of
        None \<Rightarrow> (False, db)
      | Some row \<Rightarrow>
          if owns row lease
          then (True, db\<lparr>db_leases := (db_leases db)(lt_partition_key lease \<mapsto>
                  row\<lparr>lr_owner_run_id := None, lr_expires_at_ms := 0\<rparr>)\<rparr>)
          else (False, db))"

subsection \<open>Promotions\<close>

definition find_promotion :: "promotion_row list \<Rightarrow> string \<Rightarrow> promotion_row option" where
  "find_promotion rows txn_id = find (\<lambda>r. pr_txn_id r = txn_id) rows"

definition update_promotion_row ::
    "string \<Rightarrow> (promotion_row \<Rightarrow> promotion_row) \<Rightarrow> promotion_row list \<Rightarrow> promotion_row list" where
  "update_promotion_row txn_id f rows = map (\<lambda>r. if pr_txn_id r = txn_id then f r else r) rows"

text \<open>The arguments of \<open>store_promotion\<close> are a row whose epoch and times the database fills in.\<close>

definition same_promotion :: "promotion_row \<Rightarrow> promotion_row \<Rightarrow> bool" where
  "same_promotion a b \<longleftrightarrow>
     pr_operation_key a = pr_operation_key b \<and> pr_run_id a = pr_run_id b \<and>
     pr_parent_generation_id a = pr_parent_generation_id b \<and>
     pr_next_generation_id a = pr_next_generation_id b \<and>
     pr_manifest_sha256 a = pr_manifest_sha256 b \<and> pr_event_id a = pr_event_id b"

definition store_promotion :: "control_db \<Rightarrow> promotion_row \<Rightarrow> int \<Rightarrow> unit txn" where
  "store_promotion db p now_ms =
     (case find_promotion (db_promotions db) (pr_txn_id p) of
        Some existing \<Rightarrow>
          rbind (ensure (same_promotion existing p) ControlRuntimeError) (\<lambda>_.
          rbind (ensure (\<not> (pr_approval_hash existing \<noteq> pr_approval_hash p \<and>
                           pr_state existing \<notin> {''prepared'', ''committing''})) ControlRuntimeError) (\<lambda>_.
          rbind (control_epoch db) (\<lambda>epoch.
          Inr ((), db\<lparr>db_promotions := update_promotion_row (pr_txn_id p) (\<lambda>r. r\<lparr>
                 pr_control_epoch := epoch,
                 pr_partition_fencing_token := pr_partition_fencing_token p,
                 pr_global_fencing_token := pr_global_fencing_token p,
                 pr_approval_hash := pr_approval_hash p,
                 pr_payload_json := pr_payload_json p,
                 pr_updated_at_ms := now_ms\<rparr>) (db_promotions db)\<rparr>))))
      | None \<Rightarrow>
          rbind (control_epoch db) (\<lambda>epoch.
          rbind (ensure (\<forall>r\<in>set (db_promotions db).
                   pr_next_generation_id r \<noteq> pr_next_generation_id p \<and>
                   pr_event_id r \<noteq> pr_event_id p) ConstraintError) (\<lambda>_.
          Inr ((), db\<lparr>db_promotions := db_promotions db @
                 [p\<lparr>pr_control_epoch := epoch, pr_created_at_ms := now_ms, pr_updated_at_ms := now_ms\<rparr>]\<rparr>))))"

definition legal_promotion :: "string \<Rightarrow> string set" where
  "legal_promotion s =
     (if s = ''prepared'' then {''committing'', ''aborted''}
      else if s = ''committing'' then {''committed'', ''aborted''}
      else if s = ''committed'' then {''reconciling''}
      else if s = ''reconciling'' then {''completed''}
      else {})"

definition update_promotion_state :: "control_db \<Rightarrow> string \<Rightarrow> string \<Rightarrow> int \<Rightarrow> unit txn" where
  "update_promotion_state db txn_id state now_ms =
     rbind (of_option ControlKeyError (find_promotion (db_promotions db) txn_id)) (\<lambda>row.
     rbind (ensure (\<not> (state \<noteq> pr_state row \<and> state \<notin> legal_promotion (pr_state row)))
              ControlRuntimeError) (\<lambda>_.
     Inr ((), db\<lparr>db_promotions := update_promotion_row txn_id
            (\<lambda>r. r\<lparr>pr_state := state, pr_updated_at_ms := now_ms\<rparr>) (db_promotions db)\<rparr>)))"

definition promotion_for_operation :: "control_db \<Rightarrow> string \<Rightarrow> promotion_row option" where
  "promotion_for_operation db operation_key =
     foldl (\<lambda>best r. case best of
              None \<Rightarrow> Some r
            | Some b \<Rightarrow> if pr_created_at_ms b \<le> pr_created_at_ms r then Some r else best) None
       (filter (\<lambda>r. pr_operation_key r = operation_key \<and> pr_state r \<noteq> ''aborted'') (db_promotions db))"

subsection \<open>The event outbox\<close>

definition event_outbox_record :: "control_db \<Rightarrow> string \<Rightarrow> outbox_row option" where
  "event_outbox_record db event_id = find (\<lambda>r. ob_event_id r = event_id) (db_outbox db)"

definition store_event_outbox ::
    "control_db \<Rightarrow> string \<Rightarrow> string \<Rightarrow> string \<Rightarrow> string \<Rightarrow> unit txn" where
  "store_event_outbox db event_id txn_id payload_json payload_sha256 =
     (case find (\<lambda>r. ob_event_id r = event_id \<or> ob_txn_id r = txn_id) (db_outbox db) of
        Some r \<Rightarrow>
          rbind (ensure (ob_event_id r = event_id \<and> ob_txn_id r = txn_id \<and>
                         ob_payload_sha256 r = payload_sha256 \<and> ob_payload_json r = payload_json)
                   ControlRuntimeError) (\<lambda>_. Inr ((), db))
      | None \<Rightarrow>
          Inr ((), db\<lparr>db_outbox := db_outbox db @
            [\<lparr>ob_event_id = event_id, ob_txn_id = txn_id, ob_payload_json = payload_json,
              ob_payload_sha256 = payload_sha256, ob_state = ''pending''\<rparr>]\<rparr>))"

definition mark_event_appended :: "control_db \<Rightarrow> string \<Rightarrow> control_db" where
  "mark_event_appended db event_id =
     db\<lparr>db_outbox := map (\<lambda>r. if ob_event_id r = event_id then r\<lparr>ob_state := ''appended''\<rparr> else r)
       (db_outbox db)\<rparr>"

section \<open>Steps of the control plane\<close>

text \<open>One committed transaction, or one stage inside \<open>hold_valid_leases\<close>.\<close>

inductive control_step :: "control_db \<Rightarrow> control_db \<Rightarrow> bool" where
  opened: "control_step db (create_schema uuid db)"
| claimed: "claim_operation db k r s p n = Inr (c, db') \<Longrightarrow> control_step db db'"
| updated: "update_operation db k s n res e = Inr ((), db') \<Longrightarrow> control_step db db'"
| acquired: "acquire_lease db p owner ttl n = Inr (t, db') \<Longrightarrow> control_step db db'"
| renewed: "renew_lease db l ttl n = Inr (t, db') \<Longrightarrow> control_step db db'"
| held: "hold_loop db ls n ttl = Inr (ts, db') \<Longrightarrow> control_step db db'"
| held_renewed: "renew_held_leases True db ls ttl n = Inr (ts, db') \<Longrightarrow> control_step db db'"
| released: "release_lease db l = (b, db') \<Longrightarrow> control_step db db'"
| stored: "store_promotion db p n = Inr ((), db') \<Longrightarrow> control_step db db'"
| advanced: "update_promotion_state db x s n = Inr ((), db') \<Longrightarrow> control_step db db'"
| boxed: "store_event_outbox db e x pj ps = Inr ((), db') \<Longrightarrow> control_step db db'"
| appended: "control_step db (mark_event_appended db e)"

definition lease_le :: "lease_row option \<Rightarrow> lease_row option \<Rightarrow> bool" where
  "lease_le a b = (case a of
     None \<Rightarrow> (case b of None \<Rightarrow> True | Some r' \<Rightarrow> 1 \<le> lr_fencing_token r')
   | Some r \<Rightarrow>
     (case b of None \<Rightarrow> False | Some r' \<Rightarrow> lr_fencing_token r \<le> lr_fencing_token r' \<and>
        (lr_fencing_token r = lr_fencing_token r' \<longrightarrow> lr_owner_run_id r' \<in> {lr_owner_run_id r, None})))"

definition leases_le :: "control_db \<Rightarrow> control_db \<Rightarrow> bool" where
  "leases_le db db' \<longleftrightarrow> (\<forall>p. lease_le (db_leases db p) (db_leases db' p))"

lemma lease_le_refl [simp]: "lease_le a a"
  by (auto simp: lease_le_def split: option.splits)

lemma lease_le_trans: "lease_le a b \<Longrightarrow> lease_le b c \<Longrightarrow> lease_le a c"
  by (auto simp: lease_le_def split: option.splits)

lemma leases_le_refl [simp]: "leases_le db db"
  by (simp add: leases_le_def)

lemma leases_le_trans: "leases_le a b \<Longrightarrow> leases_le b c \<Longrightarrow> leases_le a c"
  using lease_le_trans unfolding leases_le_def by blast

lemma leases_le_same: "db_leases db' = db_leases db \<Longrightarrow> leases_le db db'"
  by (simp add: leases_le_def)

lemma leases_le_upd:
  "db_leases db' = (db_leases db)(p \<mapsto> r) \<Longrightarrow> lease_le (db_leases db p) (Some r) \<Longrightarrow> leases_le db db'"
  by (simp add: leases_le_def)

lemma extend_row_le: "leases_le db (extend_row db l e n)"
proof (cases "db_leases db (lt_partition_key l)")
  case (Some row)
  then show ?thesis
    by (intro leases_le_upd [of _ _ "lt_partition_key l"
          "row\<lparr>lr_expires_at_ms := e, lr_renewed_at_ms := n\<rparr>"])
      (simp_all add: extend_row_def lease_le_def)
qed (simp add: extend_row_def)

lemma acquire_lease_le: "acquire_lease db p owner ttl n = Inr (t, db') \<Longrightarrow> leases_le db db'"
  by (auto simp: acquire_lease_def next_fence_def result_simps Let_def lease_le_def
      split: option.splits if_splits intro!: leases_le_upd [of _ _ p])

lemma hold_loop_le: "hold_loop db ls n ttl = Inr (ts, db') \<Longrightarrow> leases_le db db'"
proof (induction db ls n ttl arbitrary: ts rule: hold_loop.induct)
  case (2 db lease rest n ttl)
  from "2.prems" obtain row ts' where r: "verify_lease db lease n"
      "db_leases db (lt_partition_key lease) = Some row"
      "hold_loop (case ttl of None \<Rightarrow> db
         | Some t \<Rightarrow> extend_row db lease (n + t) n) rest n ttl = Inr (ts', db')"
    by (cases ttl) (auto simp: result_simps Let_def)
  have "leases_le db (case ttl of None \<Rightarrow> db | Some t \<Rightarrow> extend_row db lease (n + t) n)"
    by (auto simp: extend_row_le split: option.splits)
  moreover have "leases_le (case ttl of None \<Rightarrow> db | Some t \<Rightarrow> extend_row db lease (n + t) n) db'"
    using "2.IH" [OF refl refl, of row] r by (cases ttl) auto
  ultimately show ?case by (rule leases_le_trans)
qed auto

lemma renew_held_loop_le: "renew_held_loop db ls e n = Inr (ts, db') \<Longrightarrow> leases_le db db'"
proof (induction db ls e n arbitrary: ts rule: renew_held_loop.induct)
  case (2 db lease rest e n)
  then show ?case
    by (auto simp: result_simps intro: leases_le_trans [OF extend_row_le])
qed auto

lemma release_lease_le: "release_lease db l = (b, db') \<Longrightarrow> leases_le db db'"
  by (auto simp: release_lease_def lease_le_def split: option.splits if_splits
      intro!: leases_le_upd [of _ _ "lt_partition_key l"])

text \<open>Fencing tokens never decrease, and a token that stays keeps its owner or loses it.\<close>

lemma control_step_leases_le: "control_step db db' \<Longrightarrow> leases_le db db'"
proof (induction rule: control_step.induct)
  case (acquired db p owner ttl n t db')
  then show ?case by (rule acquire_lease_le)
next
  case (renewed db l ttl n t db')
  then show ?case by (auto simp: renew_lease_def result_simps Let_def extend_row_le)
next
  case (held db ls n ttl ts db')
  then show ?case by (rule hold_loop_le)
next
  case (held_renewed db ls ttl n ts db')
  then show ?case by (auto simp: renew_held_leases_def result_simps intro: renew_held_loop_le)
next
  case (released db l b db')
  then show ?case by (rule release_lease_le)
qed (auto intro!: leases_le_same simp: create_schema_def claim_operation_def update_operation_def
    store_promotion_def update_promotion_state_def store_event_outbox_def mark_event_appended_def
    result_simps Let_def split: option.splits)

lemma control_steps_leases_le: "control_step\<^sup>*\<^sup>* db db' \<Longrightarrow> leases_le db db'"
  by (induction rule: rtranclp_induct) (auto intro: leases_le_trans control_step_leases_le)

lemma extend_row_other [simp]:
  "db_promotions (extend_row db l e n) = db_promotions db" "db_outbox (extend_row db l e n) = db_outbox db"
  by (auto simp: extend_row_def split: option.splits)

lemma hold_loop_other:
  "hold_loop db ls n ttl = Inr (ts, db') \<Longrightarrow>
   db_promotions db' = db_promotions db \<and> db_outbox db' = db_outbox db"
proof (induction ls arbitrary: db ts)
  case (Cons l ls)
  then show ?case by (cases ttl) (auto simp: result_simps Let_def)
qed simp

lemma renew_held_loop_other:
  "renew_held_loop db ls e n = Inr (ts, db') \<Longrightarrow>
   db_promotions db' = db_promotions db \<and> db_outbox db' = db_outbox db"
  by (induction ls arbitrary: db ts) (auto simp: result_simps)

section \<open>Fencing\<close>

text \<open>
  What a client of a fenced table relies on: a lease it holds carries the current fence of its key,
  and no step lowers a fence.
\<close>

locale fenced_table =
  fixes fence :: "'s \<Rightarrow> 'k \<Rightarrow> int"
    and holds :: "'s \<Rightarrow> 'l \<Rightarrow> 't \<Rightarrow> bool"
    and key :: "'l \<Rightarrow> 'k"
    and stamp :: "'l \<Rightarrow> int"
    and step :: "'s \<Rightarrow> 's \<Rightarrow> bool"
  assumes holds_current: "holds s l now \<Longrightarrow> stamp l = fence s (key l)"
    and fence_mono: "step s s' \<Longrightarrow> fence s k \<le> fence s' k"
begin

lemma fence_steps_mono: "step\<^sup>*\<^sup>* s s' \<Longrightarrow> fence s k \<le> fence s' k"
  by (induction rule: rtranclp_induct) (auto intro: order_trans fence_mono)

lemma fenced_out:
  assumes "step\<^sup>*\<^sup>* s s'" "stamp l < fence s (key l)"
  shows "\<not> holds s' l now"
  using fence_steps_mono [OF assms(1), of "key l"] assms(2) holds_current [of s' l now] by auto

lemma holders_agree:
  assumes "holds s l now" "holds s m now'" "key l = key m"
  shows "stamp l = stamp m"
  using assms holds_current by metis

end

definition lease_fence :: "control_db \<Rightarrow> string \<Rightarrow> int" where
  "lease_fence db p = (case db_leases db p of None \<Rightarrow> 0 | Some r \<Rightarrow> lr_fencing_token r)"

lemma lease_fence_mono: "leases_le db db' \<Longrightarrow> lease_fence db p \<le> lease_fence db' p"
  unfolding leases_le_def by (drule spec [of _ p]) (auto simp: lease_le_def lease_fence_def split: option.splits)

lemma verify_lease_fence: "verify_lease db l now \<Longrightarrow> lt_fencing_token l = lease_fence db (lt_partition_key l)"
  by (auto simp: verify_lease_def owns_def lease_fence_def split: option.splits)

interpretation control_leases: fenced_table lease_fence verify_lease lt_partition_key lt_fencing_token control_step
  by unfold_locales (auto intro: verify_lease_fence lease_fence_mono control_step_leases_le)

lemma acquire_by_other:
  assumes "verify_lease db l now" "leases_le db db1" "lt_owner_run_id l \<noteq> owner"
    and "acquire_lease db1 (lt_partition_key l) owner ttl n = Inr (t, db2)"
  shows "lt_fencing_token l < lease_fence db2 (lt_partition_key l)"
proof -
  let ?p = "lt_partition_key l"
  from assms(1) obtain r where r: "db_leases db ?p = Some r" "lr_owner_run_id r = Some (lt_owner_run_id l)"
      "lr_fencing_token r = lt_fencing_token l"
    by (auto simp: verify_lease_def owns_def split: option.splits)
  have le: "lease_le (Some r) (db_leases db1 ?p)"
    using assms(2) r(1) unfolding leases_le_def by metis
  then obtain r1 where r1: "db_leases db1 ?p = Some r1"
    by (cases "db_leases db1 ?p") (auto simp: lease_le_def)
  note le = le [unfolded r1]
  from assms(4) r1 have "lease_fence db2 ?p =
      (if lr_owner_run_id r1 = Some owner \<and> lr_expires_at_ms r1 > n then lr_fencing_token r1
       else lr_fencing_token r1 + 1)"
    by (simp add: acquire_lease_def result_simps Let_def lease_fence_def next_fence_def split: if_splits)
      auto
  with r le assms(3) show ?thesis by (auto simp: lease_le_def split: if_splits)
qed

section \<open>Promotions\<close>

definition promotion_next :: "string \<Rightarrow> string \<Rightarrow> bool" where
  "promotion_next s s' \<longleftrightarrow> s' \<in> legal_promotion s"

definition open_promotion :: "string \<Rightarrow> bool" where
  "open_promotion s \<longleftrightarrow> s \<in> {''prepared'', ''committing''}"

definition promotion_le :: "promotion_row \<Rightarrow> promotion_row \<Rightarrow> bool" where
  "promotion_le r r' \<longleftrightarrow> pr_txn_id r' = pr_txn_id r \<and> same_promotion r r' \<and>
     pr_created_at_ms r' = pr_created_at_ms r \<and>
     promotion_next\<^sup>*\<^sup>* (pr_state r) (pr_state r') \<and>
     (open_promotion (pr_state r) \<or> pr_approval_hash r' = pr_approval_hash r)"

lemma promotion_next_closed: "promotion_next s s' \<Longrightarrow> \<not> open_promotion s \<Longrightarrow> \<not> open_promotion s' \<and> s' \<noteq> ''aborted''"
  by (auto simp: promotion_next_def legal_promotion_def open_promotion_def split: if_splits)

lemma promotion_nexts_closed:
  "promotion_next\<^sup>*\<^sup>* s s' \<Longrightarrow> \<not> open_promotion s \<Longrightarrow>
   \<not> open_promotion s' \<and> (s' = ''aborted'' \<longrightarrow> s = ''aborted'')"
  by (induction rule: rtranclp_induct) (use promotion_next_closed in blast)+

lemma promotion_le_refl [simp]: "promotion_le r r"
  by (simp add: promotion_le_def same_promotion_def)

lemma promotion_le_trans: "promotion_le a b \<Longrightarrow> promotion_le b c \<Longrightarrow> promotion_le a c"
  using promotion_nexts_closed [of "pr_state a" "pr_state b"]
  by (auto simp: promotion_le_def same_promotion_def)

interpretation promotions: row_order promotion_le
  by unfold_locales (auto intro: promotion_le_trans)

lemma find_promotion_txn: "find_promotion rows x = Some r \<Longrightarrow> pr_txn_id r = x \<and> r \<in> set rows"
  by (auto simp: find_promotion_def find_Some_iff)

text \<open>Identifiers are unique: a transaction, a next generation and an event name one row.\<close>

definition promotions_unique :: "control_db \<Rightarrow> bool" where
  "promotions_unique db \<longleftrightarrow> distinct (map pr_txn_id (db_promotions db)) \<and>
     distinct (map pr_next_generation_id (db_promotions db)) \<and>
     distinct (map pr_event_id (db_promotions db))"

lemma unique_txn:
  "promotions_unique db \<Longrightarrow> a \<in> set (db_promotions db) \<Longrightarrow> b \<in> set (db_promotions db) \<Longrightarrow>
   pr_txn_id a = pr_txn_id b \<Longrightarrow> a = b"
  by (auto simp: promotions_unique_def distinct_map inj_on_def)

lemma map_update_promotion_row:
  "(\<And>r. f (g r) = f r) \<Longrightarrow> map f (update_promotion_row x g rows) = map f rows"
  by (auto simp: update_promotion_row_def)

lemma store_promotion_unique:
  "store_promotion db p n = Inr ((), db') \<Longrightarrow> promotions_unique db \<Longrightarrow> promotions_unique db'"
  by (auto simp: store_promotion_def result_simps promotions_unique_def map_update_promotion_row
      find_promotion_def find_None_iff split: option.splits) metis+

lemma update_promotion_row_le:
  assumes "promotions_unique db" "find_promotion (db_promotions db) x = Some r" "promotion_le r (f r)"
  shows "grows promotion_le (db_promotions db) (update_promotion_row x f (db_promotions db))"
  unfolding update_promotion_row_def
proof (rule grows_map)
  fix a assume "a \<in> set (db_promotions db)"
  with unique_txn [OF assms(1) this] find_promotion_txn [OF assms(2)] assms(3)
  show "promotion_le a (if pr_txn_id a = x then f a else a)" by auto
qed

lemma store_promotion_le:
  assumes "store_promotion db p n = Inr ((), db')" "promotions_unique db"
  shows "grows promotion_le (db_promotions db) (db_promotions db')"
proof (cases "find_promotion (db_promotions db) (pr_txn_id p)")
  case None
  with assms(1) show ?thesis by (auto simp: store_promotion_def result_simps promotions.grows_append)
next
  case (Some r)
  with assms(1) show ?thesis
    by (auto simp: store_promotion_def result_simps promotion_le_def same_promotion_def
        open_promotion_def intro!: update_promotion_row_le [OF assms(2) Some])
qed

lemma update_promotion_state_le:
  assumes "update_promotion_state db x s n = Inr ((), db')" "promotions_unique db"
  shows "grows promotion_le (db_promotions db) (db_promotions db') \<and> promotions_unique db'"
proof -
  from assms(1) obtain r where r: "find_promotion (db_promotions db) x = Some r"
      "s = pr_state r \<or> s \<in> legal_promotion (pr_state r)"
      "db' = db\<lparr>db_promotions := update_promotion_row x
            (\<lambda>r. r\<lparr>pr_state := s, pr_updated_at_ms := n\<rparr>) (db_promotions db)\<rparr>"
    by (auto simp: update_promotion_state_def result_simps)
  have "promotion_le r (r\<lparr>pr_state := s, pr_updated_at_ms := n\<rparr>)"
    using r(2) by (auto simp: promotion_le_def same_promotion_def promotion_next_def)
  with r assms(2) show ?thesis
    by (auto simp: promotions_unique_def map_update_promotion_row
        intro!: update_promotion_row_le [OF assms(2) r(1)])
qed

lemma control_step_promotions:
  assumes "control_step db db'" "promotions_unique db"
  shows "grows promotion_le (db_promotions db) (db_promotions db') \<and> promotions_unique db'"
proof -
  have same: ?thesis if "db_promotions db' = db_promotions db"
    using that assms(2) by (simp add: promotions.grows_refl promotions_unique_def)
  from assms(1) show ?thesis
  proof cases
    case stored
    with assms(2) show ?thesis using store_promotion_le store_promotion_unique by blast
  next
    case advanced
    with assms(2) show ?thesis using update_promotion_state_le by blast
  next
    case held
    then show ?thesis using hold_loop_other by (intro same) blast
  next
    case held_renewed
    then show ?thesis
      by (intro same) (auto simp: renew_held_leases_def result_simps dest: renew_held_loop_other)
  qed (rule same; auto simp: create_schema_def claim_operation_def update_operation_def acquire_lease_def
      renew_lease_def release_lease_def store_event_outbox_def mark_event_appended_def result_simps Let_def
      split: option.splits if_splits)+
qed

lemma control_steps_promotions:
  assumes "control_step\<^sup>*\<^sup>* db db'" "promotions_unique db"
  shows "grows promotion_le (db_promotions db) (db_promotions db') \<and> promotions_unique db'"
  by (rule promotions.grows_steps [where ok = promotions_unique and table = db_promotions, OF assms])
    (rule control_step_promotions)

section \<open>The outbox\<close>

definition outbox_le :: "outbox_row \<Rightarrow> outbox_row \<Rightarrow> bool" where
  "outbox_le r r' \<longleftrightarrow> ob_event_id r' = ob_event_id r \<and> ob_txn_id r' = ob_txn_id r \<and>
     ob_payload_json r' = ob_payload_json r \<and> ob_payload_sha256 r' = ob_payload_sha256 r \<and>
     (ob_state r = ''appended'' \<longrightarrow> ob_state r' = ''appended'')"

interpretation outbox: row_order outbox_le
  by unfold_locales (auto simp: outbox_le_def)

definition outbox_unique :: "control_db \<Rightarrow> bool" where
  "outbox_unique db \<longleftrightarrow> distinct (map ob_event_id (db_outbox db)) \<and> distinct (map ob_txn_id (db_outbox db))"

lemma map_mark: "(\<And>r. f (r\<lparr>ob_state := s\<rparr>) = f r) \<Longrightarrow>
   map f (map (\<lambda>r. if ob_event_id r = e then r\<lparr>ob_state := s\<rparr> else r) rows) = map f rows"
  by auto

lemma store_event_outbox_grows:
  assumes "store_event_outbox db e x pj ps = Inr ((), db')" "outbox_unique db"
  shows "grows outbox_le (db_outbox db) (db_outbox db') \<and> outbox_unique db'"
  using assms
  by (auto simp: store_event_outbox_def outbox_unique_def result_simps outbox.grows_append
      outbox.grows_refl find_None_iff split: option.splits)

lemma mark_event_appended_grows:
  "outbox_unique db \<Longrightarrow>
   grows outbox_le (db_outbox db) (db_outbox (mark_event_appended db e)) \<and> outbox_unique (mark_event_appended db e)"
  unfolding outbox_unique_def mark_event_appended_def
  by (auto simp: outbox_le_def intro!: grows_map) (simp_all add: comp_def if_distrib [of ob_event_id] if_distrib [of ob_txn_id] cong: if_cong)

lemma control_step_outbox:
  assumes "control_step db db'" "outbox_unique db"
  shows "grows outbox_le (db_outbox db) (db_outbox db') \<and> outbox_unique db'"
proof -
  have same: ?thesis if "db_outbox db' = db_outbox db"
    using that assms(2) by (simp add: outbox.grows_refl outbox_unique_def)
  from assms(1) show ?thesis
  proof cases
    case boxed
    with assms(2) show ?thesis using store_event_outbox_grows by blast
  next
    case appended
    with assms(2) show ?thesis using mark_event_appended_grows by blast
  next
    case held
    then show ?thesis using hold_loop_other by (intro same) blast
  next
    case held_renewed
    then show ?thesis
      by (intro same) (auto simp: renew_held_leases_def result_simps dest: renew_held_loop_other)
  qed (rule same; auto simp: create_schema_def claim_operation_def update_operation_def acquire_lease_def
      renew_lease_def release_lease_def store_promotion_def update_promotion_state_def result_simps Let_def
      split: option.splits if_splits)+
qed

lemma control_steps_outbox:
  assumes "control_step\<^sup>*\<^sup>* db db'" "outbox_unique db"
  shows "grows outbox_le (db_outbox db) (db_outbox db') \<and> outbox_unique db'"
  by (rule outbox.grows_steps [where ok = outbox_unique and table = db_outbox, OF assms])
    (rule control_step_outbox)

section \<open>Operations\<close>

lemma claim_operation_again:
  "claim_operation db k r s p n = Inr (c, db') \<Longrightarrow>
   claim_operation db' k r' s' p' n' = Inr (c\<lparr>oc_created := False\<rparr>, db')"
  by (auto simp: claim_operation_def claim_of_def result_simps Let_def split: option.splits)

section \<open>Properties\<close>

text \<open>C10: fencing. Once another run has acquired a partition, a lease that was valid before is never
  accepted again, whatever the control plane does afterwards.\<close>

theorem stale_lease_never_verifies:
  assumes "verify_lease db l now" "control_step\<^sup>*\<^sup>* db db1"
    and "acquire_lease db1 (lt_partition_key l) owner ttl n = Inr (t, db2)"
    and "lt_owner_run_id l \<noteq> owner" "control_step\<^sup>*\<^sup>* db2 db3"
  shows "\<not> verify_lease db3 l now'"
  using control_leases.fenced_out [OF assms(5)]
    acquire_by_other [OF assms(1) control_steps_leases_le [OF assms(2)] assms(4,3)] .

definition sample_db :: control_db where
  "sample_db = create_schema ''e'' empty_db"

definition sample_held :: "lease_token \<times> control_db" where
  "sample_held = projr (acquire_lease sample_db ''p'' ''run1'' 10 0)"

definition sample_taken :: "lease_token \<times> control_db" where
  "sample_taken = projr (acquire_lease (snd sample_held) ''p'' ''run2'' 10 20)"

lemma sample_held_eq: "acquire_lease sample_db ''p'' ''run1'' 10 0 = Inr sample_held"
  by (simp add: sample_held_def acquire_lease_def sample_db_def create_schema_def empty_db_def
      control_epoch_def next_fence_def Let_def)

lemma sample_held_token:
  "lt_partition_key (fst sample_held) = ''p''" "lt_owner_run_id (fst sample_held) = ''run1''"
  "db_leases (snd sample_held) ''p'' = Some \<lparr>lr_control_epoch = ''epoch_e'', lr_owner_run_id = Some ''run1'',
     lr_fencing_token = 1, lr_expires_at_ms = 10, lr_renewed_at_ms = 0\<rparr>"
  "db_epoch (snd sample_held) = Some ''epoch_e''"
  "verify_lease (snd sample_held) (fst sample_held) 5"
  by (simp_all add: sample_held_def acquire_lease_def sample_db_def create_schema_def empty_db_def
      control_epoch_def next_fence_def Let_def token_of_def verify_lease_def owns_def)

lemma sample_taken_eq: "acquire_lease (snd sample_held) ''p'' ''run2'' 10 20 = Inr sample_taken"
  by (simp add: sample_taken_def acquire_lease_def sample_held_token control_epoch_def next_fence_def Let_def)

theorem stale_lease_never_verifies_witness:
  "\<not> verify_lease (snd sample_taken) (fst sample_held) 21"
  by (rule stale_lease_never_verifies [OF sample_held_token(5) rtranclp.rtrancl_refl,
        where owner = "''run2''" and ttl = 10 and n = 20 and t = "fst sample_taken" and ?db2.0 = "snd sample_taken"])
    (simp_all add: sample_held_token sample_taken_eq)

text \<open>mutual exclusion. While a lease is valid no other run can acquire its partition, the owner
  can (and keeps its fencing token), and the token a successful acquisition returns is accepted
  exactly until it expires.\<close>

theorem lease_is_exclusive:
  assumes "verify_lease db l now"
  shows "(owner \<noteq> lt_owner_run_id l \<longrightarrow> \<not> is_ok (acquire_lease db (lt_partition_key l) owner ttl now)) \<and>
    (\<forall>t db'. acquire_lease db (lt_partition_key l) (lt_owner_run_id l) ttl now = Inr (t, db') \<longrightarrow>
       lt_fencing_token t = lt_fencing_token l \<and> (\<forall>n. verify_lease db' t n \<longleftrightarrow> n < now + ttl))"
proof -
  from assms obtain r where r: "db_leases db (lt_partition_key l) = Some r" "owns r l" "lr_expires_at_ms r > now"
    by (auto simp: verify_lease_def split: option.splits)
  then show ?thesis
    by (auto simp: acquire_lease_def next_fence_def is_ok_iff result_simps Let_def owns_def verify_lease_def
        token_of_def split: if_splits)
qed

theorem lease_is_exclusive_witness:
  "\<not> is_ok (acquire_lease (snd sample_held) ''p'' ''run2'' 10 5)"
  using lease_is_exclusive [OF sample_held_token(5), of "''run2''" 10] by (simp add: sample_held_token)

text \<open>a promotion keeps its identity for ever, moves only along the legal state changes, and once
  it is past \<open>committing\<close> keeps its approval and can no longer be aborted.\<close>

theorem promotion_only_advances:
  assumes "control_step\<^sup>*\<^sup>* db db'" "promotions_unique db" "find_promotion (db_promotions db) txn = Some r"
  shows "\<exists>r'. find_promotion (db_promotions db') txn = Some r' \<and> same_promotion r r' \<and>
    promotion_next\<^sup>*\<^sup>* (pr_state r) (pr_state r') \<and>
    (open_promotion (pr_state r) \<or> (pr_approval_hash r' = pr_approval_hash r \<and>
       (pr_state r' = ''aborted'') = (pr_state r = ''aborted'')))"
proof -
  have "grows promotion_le (db_promotions db) (db_promotions db')"
    using control_steps_promotions [OF assms(1,2)] by blast
  then obtain r' where r': "find_promotion (db_promotions db') txn = Some r'" "promotion_le r r'"
    using find_grows [of promotion_le _ _ "\<lambda>r. pr_txn_id r = txn" r] assms(3)
    by (auto simp: find_promotion_def promotion_le_def)
  have "pr_state r = ''aborted'' \<Longrightarrow> pr_state r' = ''aborted''"
    using r'(2) by (auto simp: promotion_le_def promotion_next_def legal_promotion_def elim: converse_rtranclpE)
  with r' promotion_nexts_closed [of "pr_state r" "pr_state r'"] show ?thesis
    by (auto simp: promotion_le_def)
qed

definition sample_promotion :: promotion_row where
  "sample_promotion = \<lparr>pr_txn_id = ''x'', pr_operation_key = ''o'', pr_run_id = ''r'', pr_control_epoch = ''epoch_e'',
     pr_partition_fencing_token = 1, pr_global_fencing_token = 1, pr_parent_generation_id = ''genesis'',
     pr_next_generation_id = ''g'', pr_manifest_sha256 = ''m'', pr_event_id = ''v'', pr_approval_hash = None,
     pr_state = ''committed'', pr_payload_json = ''{}'', pr_created_at_ms = 0, pr_updated_at_ms = 0\<rparr>"

theorem promotion_only_advances_witness:
  "\<exists>r'. find_promotion [sample_promotion\<lparr>pr_state := ''reconciling'', pr_updated_at_ms := 7\<rparr>] ''x'' = Some r' \<and>
    same_promotion sample_promotion r' \<and> promotion_next\<^sup>*\<^sup>* ''committed'' (pr_state r') \<and>
    (open_promotion ''committed'' \<or> (pr_approval_hash r' = None \<and>
       (pr_state r' = ''aborted'') = (''committed'' = ''aborted'')))"
proof -
  let ?db = "sample_db\<lparr>db_promotions := [sample_promotion]\<rparr>"
  let ?db' = "sample_db\<lparr>db_promotions := [sample_promotion\<lparr>pr_state := ''reconciling'', pr_updated_at_ms := 7\<rparr>]\<rparr>"
  have "update_promotion_state ?db ''x'' ''reconciling'' 7 = Inr ((), ?db')"
    by (simp add: update_promotion_state_def find_promotion_def update_promotion_row_def sample_promotion_def
        legal_promotion_def)
  then have "control_step\<^sup>*\<^sup>* ?db ?db'" by (blast intro: control_step.advanced)
  from promotion_only_advances [OF this, of "''x''" sample_promotion] show ?thesis
    by (simp add: promotions_unique_def find_promotion_def sample_promotion_def)
qed

text \<open>an event of the outbox keeps its transaction and payload for ever, at most one event exists
  per transaction, and storing the same event again changes nothing.\<close>

theorem outbox_event_is_permanent:
  assumes "store_event_outbox db e x payload digest = Inr ((), db1)" "outbox_unique db"
    and "control_step\<^sup>*\<^sup>* db1 db2"
  shows "outbox_unique db2 \<and> store_event_outbox db2 e x payload digest = Inr ((), db2) \<and>
    (\<exists>r. event_outbox_record db2 e = Some r \<and> ob_txn_id r = x \<and> ob_payload_json r = payload)"
proof -
  let ?P = "\<lambda>r. ob_event_id r = e \<or> ob_txn_id r = x"
  obtain r where r: "find ?P (db_outbox db1) = Some r" "ob_event_id r = e" "ob_txn_id r = x"
      "ob_payload_json r = payload" "ob_payload_sha256 r = digest"
    using assms(1) by (auto simp: store_event_outbox_def result_simps find_append split: option.splits)
  have g: "grows outbox_le (db_outbox db1) (db_outbox db2) \<and> outbox_unique db2"
    by (rule control_steps_outbox [OF assms(3)]) (use store_event_outbox_grows [OF assms(1,2)] in blast)
  then obtain r' where r': "find ?P (db_outbox db2) = Some r'" "outbox_le r r'"
    using find_grows [of outbox_le _ _ ?P r] r(1) by (auto simp: outbox_le_def)
  have "r' \<in> set (db_outbox db2)" using r'(1) by (auto simp: find_Some_iff)
  with g r r'(2) have "find (\<lambda>r. ob_event_id r = e) (db_outbox db2) = Some r'"
    by (intro find_unique_key) (auto simp: outbox_unique_def outbox_le_def)
  with g r r' show ?thesis
    by (auto simp: store_event_outbox_def event_outbox_record_def outbox_le_def)
qed

theorem outbox_event_is_permanent_witness:
  "outbox_unique (snd (projr (store_event_outbox sample_db ''e'' ''x'' ''{}'' ''d''))) \<and>
   store_event_outbox (snd (projr (store_event_outbox sample_db ''e'' ''x'' ''{}'' ''d''))) ''e'' ''x'' ''{}'' ''d'' =
     Inr ((), snd (projr (store_event_outbox sample_db ''e'' ''x'' ''{}'' ''d''))) \<and>
    (\<exists>r. event_outbox_record (snd (projr (store_event_outbox sample_db ''e'' ''x'' ''{}'' ''d''))) ''e'' = Some r \<and>
      ob_txn_id r = ''x'' \<and> ob_payload_json r = ''{}'')"
  by (rule outbox_event_is_permanent [OF _ _ rtranclp.rtrancl_refl, where db = sample_db])
    (simp_all add: store_event_outbox_def sample_db_def create_schema_def empty_db_def outbox_unique_def)

text \<open>an operation is claimed once. Every later claim of its key, by any run, returns the first
  claim's run and leaves the tables alone.\<close>

theorem operation_claim_is_stable:
  assumes "claim_operation db k run stage part n = Inr (c, db')"
  shows "claim_operation db' k run' stage' part' n' = Inr (c\<lparr>oc_created := False\<rparr>, db')"
  using claim_operation_again [OF assms] .

theorem operation_claim_is_stable_witness:
  "claim_operation (snd (projr (claim_operation sample_db ''k'' ''r1'' ''s'' ''p'' 0))) ''k'' ''r2'' ''s'' ''p'' 9 =
   Inr ((fst (projr (claim_operation sample_db ''k'' ''r1'' ''s'' ''p'' 0)))\<lparr>oc_created := False\<rparr>,
     snd (projr (claim_operation sample_db ''k'' ''r1'' ''s'' ''p'' 0)))"
  by (rule operation_claim_is_stable [where run = "''r1''" and stage = "''s''" and part = "''p''" and n = 0 and db = sample_db])
    (simp add: claim_operation_def sample_db_def create_schema_def empty_db_def Let_def)

end
