(* ===== verification/Operation_Contracts.thy ===== *)
theory Operation_Contracts
  imports Canonical
begin

text \<open>
  Model of \<open>src/raytsystem/contracts/operations.py\<close> and of the reference records of
  \<open>contracts/base.py\<close> it is built from: operation fingerprints, runs, leases, policy decisions,
  approvals, promotion transactions with their state machine, and ledger generations. \<open>X_ok\<close> is the
  check of the constructor of \<open>X\<close> on fields whose strings are already stripped.
\<close>

section \<open>Reference records\<close>

datatype ProducerKind = PK_KERNEL | PK_HUMAN | PK_MODEL | PK_SKILL | PK_ADAPTER

datatype ErrorCategory = ERR_TRANSIENT | ERR_VALIDATION | ERR_POLICY | ERR_DATA | ERR_DEPENDENCY
  | ERR_TERMINAL

record hash_ref =
  hr_algorithm :: string
  hr_hex :: string

definition HashRef_ok :: "hash_ref \<Rightarrow> bool" where
  "HashRef_ok r \<longleftrightarrow> hr_algorithm r = ''sha256'' \<and> is_Sha256 (hr_hex r)"

record record_ref =
  rf_kind :: string
  rf_id :: string
  rf_object_sha256 :: string

definition RecordRef_ok :: "record_ref \<Rightarrow> bool" where
  "RecordRef_ok r \<longleftrightarrow> is_Identifier (rf_kind r) \<and> is_Identifier (rf_id r) \<and> is_Sha256 (rf_object_sha256 r)"

record component_ref =
  cf_name :: string
  cf_version :: string
  cf_config_sha256 :: string
  cf_artifact_sha256 :: "string option"

definition ComponentRef_ok :: "component_ref \<Rightarrow> bool" where
  "ComponentRef_ok r \<longleftrightarrow> is_Identifier (cf_name r) \<and> is_NonEmptyStr (cf_version r) \<and>
     is_Sha256 (cf_config_sha256 r) \<and> opt_ok is_Sha256 (cf_artifact_sha256 r)"

definition component_ref_json :: "component_ref \<Rightarrow> jval" where
  "component_ref_json r = JObj
     [(''name'', JStr (cf_name r)),
      (''version'', JStr (cf_version r)),
      (''config_sha256'', JStr (cf_config_sha256 r)),
      (''artifact_sha256'', jopt JStr (cf_artifact_sha256 r))]"

record producer_ref =
  pf_kind :: ProducerKind
  pf_component :: component_ref
  pf_destination :: "string option"

definition ProducerRef_ok :: "producer_ref \<Rightarrow> bool" where
  "ProducerRef_ok r \<longleftrightarrow> ComponentRef_ok (pf_component r) \<and> opt_ok is_NonEmptyStr (pf_destination r)"

record error_record =
  ex_category :: ErrorCategory
  ex_code :: string
  ex_message :: string
  ex_retryable :: bool
  ex_details :: "(string \<times> jval) list"

definition ErrorRecord_ok :: "error_record \<Rightarrow> bool" where
  "ErrorRecord_ok r \<longleftrightarrow> is_Identifier (ex_code r) \<and> is_NonEmptyStr (ex_message r) \<and>
     wf_json (JObj (ex_details r))"

section \<open>Operations, runs and leases\<close>

datatype RunState = R_QUEUED | R_RUNNING | R_STAGING | R_VALIDATING | R_AWAITING_REVIEW
  | R_AWAITING_APPROVAL | R_PROMOTING | R_PROMOTED | R_RECONCILING | R_SUCCEEDED
  | R_RETRYABLE_FAILED | R_TERMINAL_FAILED | R_QUARANTINED | R_CANCELLED

datatype LeaseState = L_ACTIVE | L_RELEASED | L_EXPIRED | L_REVOKED

record operation_fingerprint = versioned_model +
  of_operation_type :: string
  of_input_hashes :: "string list"
  of_components :: "component_ref list"
  of_schema_registry_sha256 :: string
  of_prompt_or_skill_sha256 :: "string option"
  of_model_id :: "string option"
  of_pipeline_version :: string
  of_relevant_config_sha256 :: string

definition OperationFingerprint_ok :: "operation_fingerprint \<Rightarrow> bool" where
  "OperationFingerprint_ok f \<longleftrightarrow>
     versioned_ok ''OperationFingerprintV1'' f \<and> is_Identifier (of_operation_type f) \<and>
     list_all is_Sha256 (of_input_hashes f) \<and> list_all ComponentRef_ok (of_components f) \<and>
     is_Sha256 (of_schema_registry_sha256 f) \<and> opt_ok is_Sha256 (of_prompt_or_skill_sha256 f) \<and>
     opt_ok is_NonEmptyStr (of_model_id f) \<and> is_NonEmptyStr (of_pipeline_version f) \<and>
     is_Sha256 (of_relevant_config_sha256 f)"

definition fingerprint_json :: "operation_fingerprint \<Rightarrow> jval" where
  "fingerprint_json f = JObj (versioned_fields f @
     [(''operation_type'', JStr (of_operation_type f)),
      (''input_hashes'', jstrs (of_input_hashes f)),
      (''components'', JList (map component_ref_json (of_components f))),
      (''schema_registry_sha256'', JStr (of_schema_registry_sha256 f)),
      (''prompt_or_skill_sha256'', jopt JStr (of_prompt_or_skill_sha256 f)),
      (''model_id'', jopt JStr (of_model_id f)),
      (''pipeline_version'', JStr (of_pipeline_version f)),
      (''relevant_config_sha256'', JStr (of_relevant_config_sha256 f))])"

definition operation_key :: "digest \<Rightarrow> operation_fingerprint \<Rightarrow> string" where
  "operation_key sha f = derive_id sha ''op'' (fingerprint_json f)"

record run = versioned_model +
  rn_run_id :: string
  rn_operation_type :: string
  rn_operation_key :: string
  rn_partition_key :: string
  rn_input_refs :: "record_ref list"
  rn_fingerprint :: operation_fingerprint
  rn_surface :: string
  rn_permission_mode :: string
  rn_egress_destination :: "string option"
  rn_state :: RunState
  rn_last_completed_gate :: "string option"
  rn_retry_count :: int
  rn_created_at :: datetime
  rn_updated_at :: datetime
  rn_staging_path :: string
  rn_result_refs :: "record_ref list"
  rn_error :: "error_record option"

definition Run_ok :: "run \<Rightarrow> bool" where
  "Run_ok r \<longleftrightarrow>
     versioned_ok ''RunV1'' r \<and>
     list_all is_Identifier [rn_run_id r, rn_operation_type r, rn_operation_key r, rn_partition_key r,
       rn_surface r, rn_permission_mode r] \<and>
     list_all RecordRef_ok (rn_input_refs r) \<and> OperationFingerprint_ok (rn_fingerprint r) \<and>
     opt_ok is_NonEmptyStr (rn_egress_destination r) \<and> opt_ok is_Identifier (rn_last_completed_gate r) \<and>
     0 \<le> rn_retry_count r \<and> is_RelativePath (rn_staging_path r) \<and>
     list_all RecordRef_ok (rn_result_refs r) \<and> opt_ok ErrorRecord_ok (rn_error r)"

record lease = versioned_model +
  ls_lease_id :: string
  ls_partition_key :: string
  ls_owner_id :: string
  ls_control_epoch :: string
  ls_fencing_token :: int
  ls_acquired_at :: datetime
  ls_renewed_at :: "datetime option"
  ls_expires_at :: datetime
  ls_state :: LeaseState

definition Lease_ok :: "lease \<Rightarrow> bool" where
  "Lease_ok l \<longleftrightarrow>
     versioned_ok ''LeaseV1'' l \<and>
     list_all is_Identifier [ls_lease_id l, ls_partition_key l, ls_owner_id l, ls_control_epoch l] \<and>
     0 < ls_fencing_token l \<and> \<not> ls_expires_at l \<le> ls_acquired_at l"

definition Lease_allows :: "lease \<Rightarrow> string \<Rightarrow> int \<Rightarrow> datetime \<Rightarrow> bool" where
  "Lease_allows l owner_id fencing_token at \<longleftrightarrow>
     ls_state l = L_ACTIVE \<and> ls_owner_id l = owner_id \<and> ls_fencing_token l = fencing_token \<and>
     at < ls_expires_at l"

section \<open>Decisions and approvals\<close>

datatype PolicyOutcome = ALLOW | DENY | REQUIRE_APPROVAL | QUARANTINE | REDACT

fun PolicyOutcome_value :: "PolicyOutcome \<Rightarrow> string" where
  "PolicyOutcome_value ALLOW = ''allow''"
| "PolicyOutcome_value DENY = ''deny''"
| "PolicyOutcome_value REQUIRE_APPROVAL = ''require_approval''"
| "PolicyOutcome_value QUARANTINE = ''quarantine''"
| "PolicyOutcome_value REDACT = ''redact''"

datatype ApprovalDecision = APPROVE | APPROVAL_DENY

record policy_decision = versioned_model +
  pd_policy_decision_id :: string
  pd_action :: string
  pd_target_id :: string
  pd_payload_sha256 :: string
  pd_destination :: "string option"
  pd_policy_version :: string
  pd_policy_sha256 :: string
  pd_outcome :: PolicyOutcome
  pd_reason_codes :: "string list"
  pd_required_approval_scope :: "string list"
  pd_evaluated_at :: datetime

definition PolicyDecision_ok :: "policy_decision \<Rightarrow> bool" where
  "PolicyDecision_ok d \<longleftrightarrow>
     versioned_ok ''PolicyDecisionV1'' d \<and> is_Identifier (pd_policy_decision_id d) \<and>
     is_Identifier (pd_action d) \<and> is_Identifier (pd_target_id d) \<and> is_Sha256 (pd_payload_sha256 d) \<and>
     opt_ok is_NonEmptyStr (pd_destination d) \<and> is_NonEmptyStr (pd_policy_version d) \<and>
     is_Sha256 (pd_policy_sha256 d) \<and> list_all is_Identifier (pd_reason_codes d) \<and>
     list_all is_Identifier (pd_required_approval_scope d)"

record approval_record = versioned_model +
  ar_approval_id :: string
  ar_decision :: ApprovalDecision
  ar_action :: string
  ar_target_id :: string
  ar_artifact_sha256 :: string
  ar_destination :: "string option"
  ar_scope :: "string list"
  ar_policy_version :: string
  ar_policy_sha256 :: "string option"
  ar_approver :: string
  ar_approved_at :: datetime
  ar_expires_at :: datetime
  ar_conditions :: "string list"

definition ApprovalRecord_ok :: "approval_record \<Rightarrow> bool" where
  "ApprovalRecord_ok a \<longleftrightarrow>
     versioned_ok ''ApprovalRecordV1'' a \<and> is_Identifier (ar_approval_id a) \<and>
     is_Identifier (ar_action a) \<and> is_Identifier (ar_target_id a) \<and> is_Sha256 (ar_artifact_sha256 a) \<and>
     opt_ok is_NonEmptyStr (ar_destination a) \<and> list_all is_Identifier (ar_scope a) \<and>
     is_NonEmptyStr (ar_policy_version a) \<and> opt_ok is_Sha256 (ar_policy_sha256 a) \<and>
     is_NonEmptyStr (ar_approver a) \<and> list_all is_NonEmptyStr (ar_conditions a) \<and>
     \<not> ar_expires_at a \<le> ar_approved_at a"

definition ApprovalRecord_create ::
    "digest \<Rightarrow> (string \<Rightarrow> string) \<Rightarrow> string \<Rightarrow> string \<Rightarrow> string \<Rightarrow> string \<Rightarrow> string \<Rightarrow> datetime \<Rightarrow> datetime \<Rightarrow>
     string option \<Rightarrow> string list \<Rightarrow> string option \<Rightarrow> string list \<Rightarrow> (py_error, approval_record) result" where
  "ApprovalRecord_create sha strip action target_id artifact policy_version approver approved_at
       expires_at destination scope policy_sha256 conditions =
     (let identity = JObj
            [(''decision'', JStr ''approve''),
             (''action'', JStr action),
             (''target_id'', JStr target_id),
             (''artifact_sha256'', JStr artifact),
             (''destination'', jopt JStr destination),
             (''policy_version'', JStr policy_version),
             (''approver'', JStr approver),
             (''approved_at'', jtime approved_at),
             (''expires_at'', jtime expires_at),
             (''scope'', jstrs scope),
             (''policy_sha256'', jopt JStr policy_sha256),
             (''conditions'', jstrs conditions)];
          a = \<lparr>schema_name = ''ApprovalRecordV1'', schema_version = SCHEMA_VERSION,
               id_scheme_version = ID_SCHEME_VERSION, extensions = [],
               ar_approval_id = strip (derive_id sha ''apr'' identity), ar_decision = APPROVE,
               ar_action = strip action, ar_target_id = strip target_id,
               ar_artifact_sha256 = strip artifact, ar_destination = map_option strip destination,
               ar_scope = map strip scope, ar_policy_version = strip policy_version,
               ar_policy_sha256 = map_option strip policy_sha256, ar_approver = strip approver,
               ar_approved_at = approved_at, ar_expires_at = expires_at,
               ar_conditions = map strip conditions\<rparr>
      in if ApprovalRecord_ok a then Inr a else Inl ValueError)"

definition is_valid_for ::
    "approval_record \<Rightarrow> string \<Rightarrow> string \<Rightarrow> string \<Rightarrow> datetime \<Rightarrow> string option \<Rightarrow> bool" where
  "is_valid_for a action target_id artifact at destination \<longleftrightarrow>
     ar_decision a = APPROVE \<and> ar_action a = action \<and> ar_target_id a = target_id \<and>
     ar_artifact_sha256 a = artifact \<and> ar_destination a = destination \<and>
     ar_approved_at a \<le> at \<and> at < ar_expires_at a"

section \<open>Promotions and generations\<close>

datatype PromotionState = P_PREPARED | P_COMMITTING | P_COMMITTED | P_RECONCILING | P_COMPLETED | P_ABORTED

fun PromotionState_value :: "PromotionState \<Rightarrow> string" where
  "PromotionState_value P_PREPARED = ''prepared''"
| "PromotionState_value P_COMMITTING = ''committing''"
| "PromotionState_value P_COMMITTED = ''committed''"
| "PromotionState_value P_RECONCILING = ''reconciling''"
| "PromotionState_value P_COMPLETED = ''completed''"
| "PromotionState_value P_ABORTED = ''aborted''"

fun promotion_transitions :: "PromotionState \<Rightarrow> PromotionState set" where
  "promotion_transitions P_PREPARED = {P_COMMITTING, P_ABORTED}"
| "promotion_transitions P_COMMITTING = {P_COMMITTED, P_ABORTED}"
| "promotion_transitions P_COMMITTED = {P_RECONCILING}"
| "promotion_transitions P_RECONCILING = {P_COMPLETED}"
| "promotion_transitions P_COMPLETED = {}"
| "promotion_transitions P_ABORTED = {}"

record promotion_txn = versioned_model +
  pt_txn_id :: string
  pt_run_id :: string
  pt_operation_key :: string
  pt_partition_key :: string
  pt_control_epoch :: string
  pt_parent_generation_id :: string
  pt_next_generation_id :: string
  pt_candidate_manifest_sha256 :: "string option"
  pt_event_id :: string
  pt_partition_fencing_token :: int
  pt_global_fencing_token :: int
  pt_output_hashes :: "(string \<times> string) list"
  pt_policy_decision_id :: "string option"
  pt_approval_id :: "string option"
  pt_state :: PromotionState
  pt_created_at :: datetime
  pt_updated_at :: datetime

definition PromotionTxn_ok :: "promotion_txn \<Rightarrow> bool" where
  "PromotionTxn_ok t \<longleftrightarrow>
     versioned_ok ''PromotionTxnV1'' t \<and>
     list_all is_Identifier [pt_txn_id t, pt_run_id t, pt_operation_key t, pt_partition_key t,
       pt_control_epoch t, pt_parent_generation_id t, pt_next_generation_id t, pt_event_id t] \<and>
     opt_ok is_Sha256 (pt_candidate_manifest_sha256 t) \<and> 0 < pt_partition_fencing_token t \<and>
     0 < pt_global_fencing_token t \<and> distinct (map fst (pt_output_hashes t)) \<and>
     list_all (\<lambda>p. is_Sha256 (snd p)) (pt_output_hashes t) \<and>
     opt_ok is_Identifier (pt_policy_decision_id t) \<and> opt_ok is_Identifier (pt_approval_id t)"

definition promotion_transition ::
    "promotion_txn \<Rightarrow> PromotionState \<Rightarrow> datetime \<Rightarrow> (py_error, promotion_txn) result" where
  "promotion_transition t target at =
     (if target \<notin> promotion_transitions (pt_state t) then Inl ValueError
      else Inr (t\<lparr>pt_state := target, pt_updated_at := at\<rparr>))"

record promotion_event = versioned_model +
  pe_event_id :: string
  pe_event_type :: string
  pe_txn_id :: string
  pe_run_id :: string
  pe_operation_key :: string
  pe_parent_generation_id :: string
  pe_new_generation_id :: string
  pe_committed_at :: datetime
  pe_previous_event_sha256 :: "string option"

definition PromotionEvent_ok :: "promotion_event \<Rightarrow> bool" where
  "PromotionEvent_ok e \<longleftrightarrow>
     versioned_ok ''PromotionEventV1'' e \<and> pe_event_type e \<in> {''promotion'', ''compensating_promotion''} \<and>
     list_all is_Identifier [pe_event_id e, pe_txn_id e, pe_run_id e, pe_operation_key e,
       pe_parent_generation_id e, pe_new_generation_id e] \<and>
     opt_ok is_Sha256 (pe_previous_event_sha256 e)"

record generation_entry = versioned_model +
  ge_kind :: string
  ge_logical_id :: string
  ge_object_sha256 :: string
  ge_tombstone :: bool

definition GenerationEntry_ok :: "generation_entry \<Rightarrow> bool" where
  "GenerationEntry_ok e \<longleftrightarrow>
     versioned_ok ''GenerationEntryV1'' e \<and> is_Identifier (ge_kind e) \<and> is_Identifier (ge_logical_id e) \<and>
     is_Sha256 (ge_object_sha256 e)"

definition generation_entry_json :: "generation_entry \<Rightarrow> jval" where
  "generation_entry_json e = JObj (versioned_fields e @
     [(''kind'', JStr (ge_kind e)),
      (''logical_id'', JStr (ge_logical_id e)),
      (''object_sha256'', JStr (ge_object_sha256 e)),
      (''tombstone'', JBool (ge_tombstone e))])"

record ledger_generation = versioned_model +
  lg_generation_id :: string
  lg_parent_generation_id :: "string option"
  lg_records :: "(string \<times> generation_entry) list"
  lg_schema_registry_sha256 :: "string option"
  lg_created_at :: datetime
  lg_promotion_txn_id :: "string option"
  lg_promotion_event_id :: "string option"

definition LedgerGeneration_ok :: "ledger_generation \<Rightarrow> bool" where
  "LedgerGeneration_ok g \<longleftrightarrow>
     versioned_ok ''LedgerGenerationV1'' g \<and> is_Identifier (lg_generation_id g) \<and>
     opt_ok is_Identifier (lg_parent_generation_id g) \<and> distinct (map fst (lg_records g)) \<and>
     list_all (\<lambda>p. GenerationEntry_ok (snd p)) (lg_records g) \<and>
     opt_ok is_Sha256 (lg_schema_registry_sha256 g) \<and> opt_ok is_Identifier (lg_promotion_txn_id g) \<and>
     opt_ok is_Identifier (lg_promotion_event_id g)"

definition ledger_fields :: "ledger_generation \<Rightarrow> (string \<times> jval) list" where
  "ledger_fields g = versioned_fields g @
     [(''parent_generation_id'', jopt JStr (lg_parent_generation_id g)),
      (''records'', JObj (map (map_prod id generation_entry_json) (lg_records g))),
      (''schema_registry_sha256'', jopt JStr (lg_schema_registry_sha256 g)),
      (''created_at'', jtime (lg_created_at g)),
      (''promotion_txn_id'', jopt JStr (lg_promotion_txn_id g)),
      (''promotion_event_id'', jopt JStr (lg_promotion_event_id g))]"

definition ledger_identity_payload :: "ledger_generation \<Rightarrow> jval" where
  "ledger_identity_payload g = JObj (ledger_fields g)"

definition ledger_verify_id :: "digest \<Rightarrow> ledger_generation \<Rightarrow> bool" where
  "ledger_verify_id sha g =
     (if lg_generation_id g = ''genesis'' then lg_parent_generation_id g = None \<and> lg_records g = []
      else lg_generation_id g = derive_id sha ''gen'' (ledger_identity_payload g))"

definition ledger_manifest_sha256 :: "digest \<Rightarrow> ledger_generation \<Rightarrow> string" where
  "ledger_manifest_sha256 sha g = sha256_hex sha
     (json_bytes (JObj ((''generation_id'', JStr (lg_generation_id g)) # ledger_fields g)))"

section \<open>Lemmas\<close>

lemma promotion_transition_Inr:
  "promotion_transition t target at = Inr t' \<longleftrightarrow>
   target \<in> promotion_transitions (pt_state t) \<and> t' = t\<lparr>pt_state := target, pt_updated_at := at\<rparr>"
  by (auto simp: promotion_transition_def)

lemma is_valid_for_window: "is_valid_for a act t art at d \<Longrightarrow> ar_approved_at a \<le> at \<and> at < ar_expires_at a"
  by (simp add: is_valid_for_def)

end
