(* ===== verification/Execution_Contracts.thy ===== *)
theory Execution_Contracts
  imports Canonical
begin

text \<open>
  Model of \<open>src/raytsystem/contracts/execution.py\<close>: the records of the execution plane with the
  constraints their constructors check. As in the other contract theories \<open>X_ok\<close> is the check of the
  constructor of \<open>X\<close> on fields whose strings are already stripped, and a JSON form is given where an
  identifier or a fingerprint is derived from the record.
\<close>

section \<open>Enumerations\<close>

datatype EmployeeStatus = EMP_DISABLED | EMP_IDLE | EMP_ASSIGNED | EMP_RUNNING | EMP_PAUSED
  | EMP_BLOCKED | EMP_ERROR | EMP_TERMINATED

datatype WorkspaceMode = WORKSPACE_ROOT_READONLY | TASK_WORKTREE | APPROVED_EXTERNAL_ROOT

fun WorkspaceMode_value :: "WorkspaceMode \<Rightarrow> string" where
  "WorkspaceMode_value WORKSPACE_ROOT_READONLY = ''workspace_root_readonly''"
| "WorkspaceMode_value TASK_WORKTREE = ''task_worktree''"
| "WorkspaceMode_value APPROVED_EXTERNAL_ROOT = ''approved_external_root''"

datatype WorkspaceStatus = WS_PREPARING | WS_READY | WS_ACTIVE | WS_STALE | WS_BLOCKED

datatype TaskLeaseStatus = LEASE_ACTIVE | LEASE_FROZEN | LEASE_RELEASED | LEASE_EXPIRED | LEASE_REVOKED

datatype ExecutionRunStatus = RUN_QUEUED | RUN_PREPARING | RUN_RUNNING | RUN_PAUSED | RUN_CANCELLING
  | RUN_CANCELLED | RUN_SUCCEEDED | RUN_REVIEW | RUN_BLOCKED | RUN_FAILED

datatype ExecutionSessionStatus = SESSION_ACTIVE | SESSION_PAUSED | SESSION_COMPLETED
  | SESSION_INCOMPATIBLE | SESSION_ERROR

datatype CommentKind = COMMENT | PROGRESS | DECISION | QUESTION | CK_BLOCKED | HANDOFF | CK_REVIEW | SYSTEM

fun CommentKind_value :: "CommentKind \<Rightarrow> string" where
  "CommentKind_value COMMENT = ''comment''"
| "CommentKind_value PROGRESS = ''progress''"
| "CommentKind_value DECISION = ''decision''"
| "CommentKind_value QUESTION = ''question''"
| "CommentKind_value CK_BLOCKED = ''blocked''"
| "CommentKind_value HANDOFF = ''handoff''"
| "CommentKind_value CK_REVIEW = ''review''"
| "CommentKind_value SYSTEM = ''system''"

datatype RuntimeHealthStatus = HEALTH_DISABLED | HEALTH_AVAILABLE | HEALTH_UNAVAILABLE | HEALTH_DEGRADED

section \<open>Policies and budgets\<close>

definition int_in :: "int \<Rightarrow> int \<Rightarrow> int \<Rightarrow> bool" where
  "int_in lo hi x \<longleftrightarrow> lo \<le> x \<and> x \<le> hi"

record filesystem_policy = versioned_model +
  fp_mode :: WorkspaceMode
  fp_allow_workspace_read :: bool
  fp_allow_staged_write :: bool
  fp_allow_git_read :: bool
  fp_allow_git_write :: bool
  fp_approved_external_root_id :: "string option"

definition FilesystemPolicy_ok :: "filesystem_policy \<Rightarrow> bool" where
  "FilesystemPolicy_ok p \<longleftrightarrow>
     versioned_ok ''FilesystemPolicyV1'' p \<and> opt_ok is_Identifier (fp_approved_external_root_id p) \<and>
     (if fp_mode p = APPROVED_EXTERNAL_ROOT then fp_approved_external_root_id p \<noteq> None
      else fp_approved_external_root_id p = None) \<and>
     \<not> (fp_mode p = WORKSPACE_ROOT_READONLY \<and> fp_allow_staged_write p)"

definition filesystem_policy_json :: "filesystem_policy \<Rightarrow> jval" where
  "filesystem_policy_json p = JObj (versioned_fields p @
     [(''mode'', JStr (WorkspaceMode_value (fp_mode p))),
      (''allow_workspace_read'', JBool (fp_allow_workspace_read p)),
      (''allow_staged_write'', JBool (fp_allow_staged_write p)),
      (''allow_git_read'', JBool (fp_allow_git_read p)),
      (''allow_git_write'', JBool (fp_allow_git_write p)),
      (''approved_external_root_id'', jopt JStr (fp_approved_external_root_id p))])"

record graph_policy = versioned_model +
  gp_max_depth :: int
  gp_max_nodes :: int
  gp_max_edges :: int
  gp_max_bytes :: int
  gp_include_relations :: "string list"

definition GraphPolicy_ok :: "graph_policy \<Rightarrow> bool" where
  "GraphPolicy_ok p \<longleftrightarrow>
     versioned_ok ''GraphPolicyV1'' p \<and> int_in 0 8 (gp_max_depth p) \<and> int_in 1 500 (gp_max_nodes p) \<and>
     int_in 0 2000 (gp_max_edges p) \<and> int_in 1024 2000000 (gp_max_bytes p) \<and>
     list_all is_Identifier (gp_include_relations p) \<and> unique (gp_include_relations p)"

definition graph_policy_json :: "graph_policy \<Rightarrow> jval" where
  "graph_policy_json p = JObj (versioned_fields p @
     [(''max_depth'', JInt (gp_max_depth p)),
      (''max_nodes'', JInt (gp_max_nodes p)),
      (''max_edges'', JInt (gp_max_edges p)),
      (''max_bytes'', JInt (gp_max_bytes p)),
      (''include_relations'', jstrs (gp_include_relations p))])"

definition default_graph_policy :: graph_policy where
  "default_graph_policy = \<lparr>schema_name = ''GraphPolicyV1'', schema_version = SCHEMA_VERSION,
     id_scheme_version = ID_SCHEME_VERSION, extensions = [], gp_max_depth = 2, gp_max_nodes = 40,
     gp_max_edges = 100, gp_max_bytes = 48000,
     gp_include_relations = [''calls'', ''imports'', ''tests'', ''depends_on'', ''implemented_by'']\<rparr>"

record heartbeat_policy = versioned_model +
  hp_manual_enabled :: bool
  hp_wake_on_assignment :: bool
  hp_wake_on_comment :: bool
  hp_scheduled_enabled :: bool
  hp_interval_seconds :: int
  hp_max_duration_seconds :: int
  hp_max_idle_seconds :: int
  hp_max_consecutive_failures :: int
  hp_max_without_progress :: int

definition HeartbeatPolicy_ok :: "heartbeat_policy \<Rightarrow> bool" where
  "HeartbeatPolicy_ok p \<longleftrightarrow>
     versioned_ok ''HeartbeatPolicyV1'' p \<and> int_in 0 (30 * 24 * 60 * 60) (hp_interval_seconds p) \<and>
     int_in 1 (24 * 60 * 60) (hp_max_duration_seconds p) \<and> int_in 1 (24 * 60 * 60) (hp_max_idle_seconds p) \<and>
     int_in 1 100 (hp_max_consecutive_failures p) \<and> int_in 1 100 (hp_max_without_progress p) \<and>
     hp_scheduled_enabled p = (hp_interval_seconds p > 0)"

definition heartbeat_policy_json :: "heartbeat_policy \<Rightarrow> jval" where
  "heartbeat_policy_json p = JObj (versioned_fields p @
     [(''manual_enabled'', JBool (hp_manual_enabled p)),
      (''wake_on_assignment'', JBool (hp_wake_on_assignment p)),
      (''wake_on_comment'', JBool (hp_wake_on_comment p)),
      (''scheduled_enabled'', JBool (hp_scheduled_enabled p)),
      (''interval_seconds'', JInt (hp_interval_seconds p)),
      (''max_duration_seconds'', JInt (hp_max_duration_seconds p)),
      (''max_idle_seconds'', JInt (hp_max_idle_seconds p)),
      (''max_consecutive_failures'', JInt (hp_max_consecutive_failures p)),
      (''max_without_progress'', JInt (hp_max_without_progress p))])"

record token_budget = versioned_model +
  tb_input_tokens :: int
  tb_output_tokens :: int
  tb_cached_tokens :: int

definition TokenBudget_ok :: "token_budget \<Rightarrow> bool" where
  "TokenBudget_ok b \<longleftrightarrow> versioned_ok ''TokenBudgetV1'' b \<and>
     0 \<le> tb_input_tokens b \<and> 0 \<le> tb_output_tokens b \<and> 0 \<le> tb_cached_tokens b"

definition TokenBudget_total :: "token_budget \<Rightarrow> int" where
  "TokenBudget_total b = tb_input_tokens b + tb_output_tokens b + tb_cached_tokens b"

definition token_budget_json :: "token_budget \<Rightarrow> jval" where
  "token_budget_json b = JObj (versioned_fields b @
     [(''input_tokens'', JInt (tb_input_tokens b)),
      (''output_tokens'', JInt (tb_output_tokens b)),
      (''cached_tokens'', JInt (tb_cached_tokens b))])"

record budget_policy = versioned_model +
  bp_budget_policy_id :: string
  bp_scope_kind :: string
  bp_scope_id :: string
  bp_token_limit :: token_budget
  bp_cost_limit_micros :: "int option"
  bp_run_limit :: int
  bp_heartbeat_limit :: int
  bp_active_run_action :: string
  bp_created_at :: datetime

definition BudgetPolicy_ok :: "budget_policy \<Rightarrow> bool" where
  "BudgetPolicy_ok p \<longleftrightarrow>
     versioned_ok ''BudgetPolicyV1'' p \<and> is_Identifier (bp_budget_policy_id p) \<and>
     bp_scope_kind p \<in> {''employee'', ''task'', ''project'', ''run'', ''workspace''} \<and>
     is_Identifier (bp_scope_id p) \<and> TokenBudget_ok (bp_token_limit p) \<and>
     opt_ok (\<lambda>c. 0 \<le> c) (bp_cost_limit_micros p) \<and> 0 \<le> bp_run_limit p \<and> 0 \<le> bp_heartbeat_limit p \<and>
     bp_active_run_action p \<in> {''finish_current'', ''cancel''}"

text \<open>\<open>BudgetPolicy.create\<close>: the identifier is derived from the other fields.\<close>

definition BudgetPolicy_create ::
    "digest \<Rightarrow> (string \<Rightarrow> string) \<Rightarrow> string \<Rightarrow> string \<Rightarrow> token_budget \<Rightarrow> datetime \<Rightarrow> int option \<Rightarrow> int \<Rightarrow> int \<Rightarrow> string \<Rightarrow>
     (py_error, budget_policy) result" where
  "BudgetPolicy_create sha strip scope_kind scope_id token_limit created_at cost_limit run_limit
       heartbeat_limit action =
     (let material = JObj
            [(''scope_kind'', JStr scope_kind),
             (''scope_id'', JStr scope_id),
             (''token_limit'', token_budget_json token_limit),
             (''cost_limit_micros'', jopt JInt cost_limit),
             (''run_limit'', JInt run_limit),
             (''heartbeat_limit'', JInt heartbeat_limit),
             (''active_run_action'', JStr action),
             (''created_at'', jtime created_at)];
          p = \<lparr>schema_name = ''BudgetPolicyV1'', schema_version = SCHEMA_VERSION,
               id_scheme_version = ID_SCHEME_VERSION, extensions = [],
               bp_budget_policy_id = strip (derive_id sha ''budget'' material),
               bp_scope_kind = scope_kind, bp_scope_id = strip scope_id, bp_token_limit = token_limit,
               bp_cost_limit_micros = cost_limit, bp_run_limit = run_limit,
               bp_heartbeat_limit = heartbeat_limit, bp_active_run_action = action,
               bp_created_at = created_at\<rparr>
      in if BudgetPolicy_ok p then Inr p else Inl ValueError)"

record budget_usage = versioned_model +
  bu_budget_policy_id :: string
  bu_tokens :: token_budget
  bu_estimated_cost_micros :: "int option"
  bu_actual_cost_micros :: "int option"
  bu_run_count :: int
  bu_heartbeat_count :: int
  bu_updated_at :: datetime

definition BudgetUsage_ok :: "budget_usage \<Rightarrow> bool" where
  "BudgetUsage_ok u \<longleftrightarrow>
     versioned_ok ''BudgetUsageV1'' u \<and> is_Identifier (bu_budget_policy_id u) \<and>
     TokenBudget_ok (bu_tokens u) \<and> opt_ok (\<lambda>c. 0 \<le> c) (bu_estimated_cost_micros u) \<and>
     opt_ok (\<lambda>c. 0 \<le> c) (bu_actual_cost_micros u) \<and> 0 \<le> bu_run_count u \<and> 0 \<le> bu_heartbeat_count u"

section \<open>Employees and assignments\<close>

record digital_employee = versioned_model +
  de_employee_id :: string
  de_agent_definition_id :: string
  de_agent_definition_sha256 :: string
  de_name :: string
  de_role :: string
  de_description :: string
  de_reporting_manager_id :: "string option"
  de_runtime_adapter_id :: string
  de_enabled_skill_ids :: "string list"
  de_instruction_bundle :: "string list"
  de_filesystem_policy :: filesystem_policy
  de_graph_policy :: graph_policy
  de_heartbeat_policy :: heartbeat_policy
  de_concurrency_limit :: int
  de_budget_policy_id :: "string option"
  de_status :: EmployeeStatus
  de_current_session_id :: "string option"
  de_current_task_id :: "string option"
  de_configuration_revision :: string

definition employee_state :: "digital_employee \<Rightarrow> bool" where
  "employee_state e \<longleftrightarrow>
     de_reporting_manager_id e \<noteq> Some (de_employee_id e) \<and>
     \<not> (de_status e = EMP_RUNNING \<and>
        (de_current_session_id e = None \<or> de_current_task_id e = None)) \<and>
     \<not> (de_status e \<in> {EMP_DISABLED, EMP_TERMINATED} \<and>
        (de_current_session_id e \<noteq> None \<or> de_current_task_id e \<noteq> None))"

definition DigitalEmployee_ok :: "digital_employee \<Rightarrow> bool" where
  "DigitalEmployee_ok e \<longleftrightarrow>
     versioned_ok ''DigitalEmployeeV1'' e \<and> is_Identifier (de_employee_id e) \<and>
     is_Identifier (de_agent_definition_id e) \<and> is_Sha256 (de_agent_definition_sha256 e) \<and>
     is_NonEmptyStr (de_name e) \<and> is_Identifier (de_role e) \<and> length (de_description e) \<le> 8192 \<and>
     opt_ok is_Identifier (de_reporting_manager_id e) \<and> is_Identifier (de_runtime_adapter_id e) \<and>
     list_all is_Identifier (de_enabled_skill_ids e) \<and> unique (de_enabled_skill_ids e) \<and>
     list_all is_RelativePath (de_instruction_bundle e) \<and> unique (de_instruction_bundle e) \<and>
     FilesystemPolicy_ok (de_filesystem_policy e) \<and> GraphPolicy_ok (de_graph_policy e) \<and>
     HeartbeatPolicy_ok (de_heartbeat_policy e) \<and> int_in 1 32 (de_concurrency_limit e) \<and>
     opt_ok is_Identifier (de_budget_policy_id e) \<and> opt_ok is_Identifier (de_current_session_id e) \<and>
     opt_ok is_Identifier (de_current_task_id e) \<and> is_Sha256 (de_configuration_revision e) \<and>
     employee_state e"

record task_assignment = versioned_model +
  ta_assignment_id :: string
  ta_task_id :: string
  ta_task_generation_id :: string
  ta_task_revision :: int
  ta_employee_id :: string
  ta_runtime_adapter_id :: string
  ta_budget_policy_id :: "string option"
  ta_approval_policy_id :: "string option"
  ta_graph_scope_id :: "string option"
  ta_status :: string
  ta_revision :: int
  ta_created_at :: datetime
  ta_updated_at :: datetime

definition TaskAssignment_ok :: "task_assignment \<Rightarrow> bool" where
  "TaskAssignment_ok a \<longleftrightarrow>
     versioned_ok ''TaskAssignmentV1'' a \<and> is_Identifier (ta_assignment_id a) \<and>
     is_Identifier (ta_task_id a) \<and> is_Identifier (ta_task_generation_id a) \<and> 1 \<le> ta_task_revision a \<and>
     is_Identifier (ta_employee_id a) \<and> is_Identifier (ta_runtime_adapter_id a) \<and>
     opt_ok is_Identifier (ta_budget_policy_id a) \<and> opt_ok is_Identifier (ta_approval_policy_id a) \<and>
     opt_ok is_Identifier (ta_graph_scope_id a) \<and> ta_status a \<in> {''active'', ''released''} \<and>
     1 \<le> ta_revision a \<and> \<not> ta_updated_at a < ta_created_at a"

record task_graph_scope = versioned_model +
  gs_graph_scope_id :: string
  gs_task_id :: string
  gs_graph_snapshot_id :: string
  gs_graph_fingerprint :: string
  gs_generation_fingerprint :: string
  gs_roots :: "string list"
  gs_seed_node_ids :: "string list"
  gs_max_depth :: int
  gs_max_nodes :: int
  gs_max_edges :: int
  gs_max_bytes :: int
  gs_include_relations :: "string list"
  gs_created_at :: datetime

definition TaskGraphScope_ok :: "task_graph_scope \<Rightarrow> bool" where
  "TaskGraphScope_ok s \<longleftrightarrow>
     versioned_ok ''TaskGraphScopeV1'' s \<and> is_Identifier (gs_graph_scope_id s) \<and>
     is_Identifier (gs_task_id s) \<and> is_Identifier (gs_graph_snapshot_id s) \<and>
     is_Sha256 (gs_graph_fingerprint s) \<and> is_Sha256 (gs_generation_fingerprint s) \<and>
     list_all is_RelativePath (gs_roots s) \<and> list_all is_Identifier (gs_seed_node_ids s) \<and>
     int_in 0 8 (gs_max_depth s) \<and> int_in 1 500 (gs_max_nodes s) \<and> int_in 0 2000 (gs_max_edges s) \<and>
     int_in 1024 2000000 (gs_max_bytes s) \<and> list_all is_Identifier (gs_include_relations s) \<and>
     unique (gs_roots s) \<and> unique (gs_seed_node_ids s) \<and> unique (gs_include_relations s)"

definition graph_scope_identity_payload :: "task_graph_scope \<Rightarrow> jval" where
  "graph_scope_identity_payload s = JObj (versioned_fields s @
     [(''task_id'', JStr (gs_task_id s)),
      (''graph_snapshot_id'', JStr (gs_graph_snapshot_id s)),
      (''graph_fingerprint'', JStr (gs_graph_fingerprint s)),
      (''generation_fingerprint'', JStr (gs_generation_fingerprint s)),
      (''roots'', jstrs (gs_roots s)),
      (''seed_node_ids'', jstrs (gs_seed_node_ids s)),
      (''max_depth'', JInt (gs_max_depth s)),
      (''max_nodes'', JInt (gs_max_nodes s)),
      (''max_edges'', JInt (gs_max_edges s)),
      (''max_bytes'', JInt (gs_max_bytes s)),
      (''include_relations'', jstrs (gs_include_relations s)),
      (''created_at'', jtime (gs_created_at s))])"

definition graph_scope_verify_id :: "digest \<Rightarrow> task_graph_scope \<Rightarrow> bool" where
  "graph_scope_verify_id sha s =
     (gs_graph_scope_id s = derive_id sha ''gscope'' (graph_scope_identity_payload s))"

section \<open>Workspaces, leases and invocations\<close>

definition is_GitCommit :: "string \<Rightarrow> bool" where
  "is_GitCommit s \<longleftrightarrow> 40 \<le> length s \<and> length s \<le> 64 \<and>
     list_all (\<lambda>c. decimal_digit c \<or> c \<in> set ''abcdef'') s"

record task_workspace = versioned_model +
  tw_workspace_id :: string
  tw_task_id :: string
  tw_mode :: WorkspaceMode
  tw_relative_root :: string
  tw_repo_path :: string
  tw_context_path :: string
  tw_artifacts_path :: string
  tw_logs_path :: string
  tw_git_commit :: string
  tw_graph_snapshot_id :: string
  tw_graph_fingerprint :: string
  tw_manifest_sha256 :: string
  tw_status :: WorkspaceStatus
  tw_created_at :: datetime
  tw_updated_at :: datetime

definition workspace_shape :: "task_workspace \<Rightarrow> bool" where
  "workspace_shape w \<longleftrightarrow>
     \<not> tw_updated_at w < tw_created_at w \<and>
     list_all (\<lambda>child. starts_with child (tw_relative_root w @ ''/''))
       [tw_repo_path w, tw_context_path w, tw_artifacts_path w, tw_logs_path w]"

definition TaskWorkspace_ok :: "task_workspace \<Rightarrow> bool" where
  "TaskWorkspace_ok w \<longleftrightarrow>
     versioned_ok ''TaskWorkspaceV1'' w \<and> is_Identifier (tw_workspace_id w) \<and> is_Identifier (tw_task_id w) \<and>
     is_RelativePath (tw_relative_root w) \<and> is_RelativePath (tw_repo_path w) \<and>
     is_RelativePath (tw_context_path w) \<and> is_RelativePath (tw_artifacts_path w) \<and>
     is_RelativePath (tw_logs_path w) \<and> is_GitCommit (tw_git_commit w) \<and>
     is_Identifier (tw_graph_snapshot_id w) \<and> is_Sha256 (tw_graph_fingerprint w) \<and>
     is_Sha256 (tw_manifest_sha256 w) \<and> workspace_shape w"

record task_lease = versioned_model +
  tl_lease_id :: string
  tl_task_id :: string
  tl_employee_id :: string
  tl_run_id :: string
  tl_task_generation_id :: string
  tl_task_revision :: int
  tl_control_epoch :: string
  tl_fencing_token :: int
  tl_acquired_at :: datetime
  tl_expires_at :: datetime
  tl_status :: TaskLeaseStatus

definition TaskLease_ok :: "task_lease \<Rightarrow> bool" where
  "TaskLease_ok l \<longleftrightarrow>
     versioned_ok ''TaskLeaseV1'' l \<and> is_Identifier (tl_lease_id l) \<and> is_Identifier (tl_task_id l) \<and>
     is_Identifier (tl_employee_id l) \<and> is_Identifier (tl_run_id l) \<and>
     is_Identifier (tl_task_generation_id l) \<and> 1 \<le> tl_task_revision l \<and>
     is_Identifier (tl_control_epoch l) \<and> 0 < tl_fencing_token l \<and>
     \<not> tl_expires_at l \<le> tl_acquired_at l"

record execution_invocation = versioned_model +
  ei_invocation_id :: string
  ei_source :: string
  ei_task_id :: string
  ei_task_generation_id :: string
  ei_task_revision :: int
  ei_employee_id :: string
  ei_employee_configuration_revision :: string
  ei_runtime_adapter_id :: string
  ei_runtime_adapter_sha256 :: string
  ei_workspace_id :: string
  ei_workspace_manifest_sha256 :: string
  ei_graph_scope_id :: string
  ei_graph_snapshot_id :: string
  ei_context_snapshot_sha256 :: string
  ei_policy_decision_id :: string
  ei_policy_decision_sha256 :: string
  ei_budget_policy_ids :: "string list"
  ei_approval_id :: "string option"
  ei_idempotency_key :: string
  ei_created_at :: datetime

definition ExecutionInvocation_ok :: "execution_invocation \<Rightarrow> bool" where
  "ExecutionInvocation_ok i \<longleftrightarrow>
     versioned_ok ''ExecutionInvocationV1'' i \<and>
     ei_source i \<in> {''manual'', ''assignment'', ''comment'', ''approval'', ''retry'', ''resume''} \<and>
     list_all is_Identifier
       [ei_invocation_id i, ei_task_id i, ei_task_generation_id i, ei_employee_id i,
        ei_runtime_adapter_id i, ei_workspace_id i, ei_graph_scope_id i, ei_graph_snapshot_id i,
        ei_policy_decision_id i, ei_idempotency_key i] \<and>
     list_all is_Sha256
       [ei_employee_configuration_revision i, ei_runtime_adapter_sha256 i,
        ei_workspace_manifest_sha256 i, ei_context_snapshot_sha256 i, ei_policy_decision_sha256 i] \<and>
     1 \<le> ei_task_revision i \<and> list_all is_Identifier (ei_budget_policy_ids i) \<and>
     opt_ok is_Identifier (ei_approval_id i)"

definition invocation_identity_payload :: "execution_invocation \<Rightarrow> jval" where
  "invocation_identity_payload i = JObj (versioned_fields i @
     [(''source'', JStr (ei_source i)),
      (''task_id'', JStr (ei_task_id i)),
      (''task_generation_id'', JStr (ei_task_generation_id i)),
      (''task_revision'', JInt (ei_task_revision i)),
      (''employee_id'', JStr (ei_employee_id i)),
      (''employee_configuration_revision'', JStr (ei_employee_configuration_revision i)),
      (''runtime_adapter_id'', JStr (ei_runtime_adapter_id i)),
      (''runtime_adapter_sha256'', JStr (ei_runtime_adapter_sha256 i)),
      (''workspace_id'', JStr (ei_workspace_id i)),
      (''workspace_manifest_sha256'', JStr (ei_workspace_manifest_sha256 i)),
      (''graph_scope_id'', JStr (ei_graph_scope_id i)),
      (''graph_snapshot_id'', JStr (ei_graph_snapshot_id i)),
      (''context_snapshot_sha256'', JStr (ei_context_snapshot_sha256 i)),
      (''policy_decision_id'', JStr (ei_policy_decision_id i)),
      (''policy_decision_sha256'', JStr (ei_policy_decision_sha256 i)),
      (''budget_policy_ids'', jstrs (ei_budget_policy_ids i)),
      (''approval_id'', jopt JStr (ei_approval_id i)),
      (''idempotency_key'', JStr (ei_idempotency_key i)),
      (''created_at'', jtime (ei_created_at i))])"

definition invocation_verify_id :: "digest \<Rightarrow> execution_invocation \<Rightarrow> bool" where
  "invocation_verify_id sha i =
     (ei_invocation_id i = derive_id sha ''xinv'' (invocation_identity_payload i))"

section \<open>Runs and sessions\<close>

record execution_usage = versioned_model +
  eu_input_tokens :: int
  eu_output_tokens :: int
  eu_cached_tokens :: int
  eu_estimated_cost_micros :: "int option"
  eu_actual_cost_micros :: "int option"

definition ExecutionUsage_ok :: "execution_usage \<Rightarrow> bool" where
  "ExecutionUsage_ok u \<longleftrightarrow>
     versioned_ok ''ExecutionUsageV1'' u \<and> 0 \<le> eu_input_tokens u \<and> 0 \<le> eu_output_tokens u \<and>
     0 \<le> eu_cached_tokens u \<and> opt_ok (\<lambda>c. 0 \<le> c) (eu_estimated_cost_micros u) \<and>
     opt_ok (\<lambda>c. 0 \<le> c) (eu_actual_cost_micros u)"

definition zero_usage :: execution_usage where
  "zero_usage = \<lparr>schema_name = ''ExecutionUsageV1'', schema_version = SCHEMA_VERSION,
     id_scheme_version = ID_SCHEME_VERSION, extensions = [], eu_input_tokens = 0,
     eu_output_tokens = 0, eu_cached_tokens = 0, eu_estimated_cost_micros = None,
     eu_actual_cost_micros = None\<rparr>"

record test_result = versioned_model +
  xr_name :: string
  xr_status :: string
  xr_summary :: string

definition TestResult_ok :: "test_result \<Rightarrow> bool" where
  "TestResult_ok r \<longleftrightarrow>
     versioned_ok ''ExecutionTestResultV1'' r \<and> is_NonEmptyStr (xr_name r) \<and>
     xr_status r \<in> {''passed'', ''failed'', ''skipped'', ''not_reported''} \<and> length (xr_summary r) \<le> 8192"

record execution_run = versioned_model +
  er_run_id :: string
  er_invocation_id :: string
  er_invocation_source :: string
  er_employee_id :: string
  er_task_id :: string
  er_runtime_adapter_id :: string
  er_provider :: string
  er_model :: "string option"
  er_safe_command :: "string list"
  er_cwd_token :: string
  er_workspace_id :: string
  er_graph_snapshot_id :: string
  er_graph_scope_id :: string
  er_session_id_before :: "string option"
  er_session_id_after :: "string option"
  er_policy_decision_id :: string
  er_approval_id :: "string option"
  er_task_lease_id :: string
  er_fencing_token :: int
  er_status :: ExecutionRunStatus
  er_started_at :: datetime
  er_ended_at :: "datetime option"
  er_exit_code :: "int option"
  er_usage :: execution_usage
  er_changed_files :: "string list"
  er_tests :: "test_result list"
  er_artifact_ids :: "string list"
  er_summary :: string
  er_error_code :: "string option"
  er_retry_of_run_id :: "string option"
  er_resumed_from_run_id :: "string option"

definition terminal_run :: "ExecutionRunStatus \<Rightarrow> bool" where
  "terminal_run s \<longleftrightarrow> s \<in> {RUN_CANCELLED, RUN_SUCCEEDED, RUN_REVIEW, RUN_BLOCKED, RUN_FAILED}"

definition run_shape :: "execution_run \<Rightarrow> bool" where
  "run_shape r \<longleftrightarrow>
     \<not> (er_safe_command r = [] \<or> list_ex (\<lambda>item. item = [] \<or> length item > 4096) (er_safe_command r)) \<and>
     (case er_ended_at r of None \<Rightarrow> True | Some t \<Rightarrow> \<not> t < er_started_at r) \<and>
     terminal_run (er_status r) = (er_ended_at r \<noteq> None)"

definition ExecutionRun_ok :: "execution_run \<Rightarrow> bool" where
  "ExecutionRun_ok r \<longleftrightarrow>
     versioned_ok ''ExecutionRunV1'' r \<and>
     list_all is_Identifier
       [er_run_id r, er_invocation_id r, er_invocation_source r, er_employee_id r, er_task_id r,
        er_runtime_adapter_id r, er_provider r, er_workspace_id r, er_graph_snapshot_id r,
        er_graph_scope_id r, er_policy_decision_id r, er_task_lease_id r] \<and>
     opt_ok (\<lambda>m. length m \<le> 256) (er_model r) \<and> is_RelativePath (er_cwd_token r) \<and>
     list_all (opt_ok is_Identifier)
       [er_session_id_before r, er_session_id_after r, er_approval_id r, er_error_code r,
        er_retry_of_run_id r, er_resumed_from_run_id r] \<and>
     0 < er_fencing_token r \<and> opt_ok (int_in (- 255) 255) (er_exit_code r) \<and>
     ExecutionUsage_ok (er_usage r) \<and> list_all is_RelativePath (er_changed_files r) \<and>
     list_all TestResult_ok (er_tests r) \<and> list_all is_Identifier (er_artifact_ids r) \<and>
     length (er_summary r) \<le> 32768 \<and> unique (er_changed_files r) \<and> unique (er_artifact_ids r) \<and>
     run_shape r"

record execution_session = versioned_model +
  es_session_id :: string
  es_provider_session_id :: "string option"
  es_runtime_adapter_id :: string
  es_provider :: string
  es_model :: "string option"
  es_task_id :: string
  es_employee_id :: string
  es_workspace_id :: string
  es_graph_snapshot_id :: string
  es_context_snapshot_sha256 :: string
  es_compatibility_sha256 :: string
  es_started_at :: datetime
  es_last_resumed_at :: "datetime option"
  es_status :: ExecutionSessionStatus
  es_previous_run_id :: "string option"
  es_usage_totals :: execution_usage
  es_incompatibility_reason :: "string option"

definition session_shape :: "execution_session \<Rightarrow> bool" where
  "session_shape s \<longleftrightarrow>
     (case es_last_resumed_at s of None \<Rightarrow> True | Some t \<Rightarrow> \<not> t < es_started_at s) \<and>
     \<not> (es_status s = SESSION_INCOMPATIBLE \<and> es_incompatibility_reason s = None)"

definition ExecutionSession_ok :: "execution_session \<Rightarrow> bool" where
  "ExecutionSession_ok s \<longleftrightarrow>
     versioned_ok ''ExecutionSessionV1'' s \<and>
     list_all is_Identifier
       [es_session_id s, es_runtime_adapter_id s, es_provider s, es_task_id s, es_employee_id s,
        es_workspace_id s, es_graph_snapshot_id s] \<and>
     opt_ok (\<lambda>m. length m \<le> 512) (es_provider_session_id s) \<and> opt_ok (\<lambda>m. length m \<le> 256) (es_model s) \<and>
     is_Sha256 (es_context_snapshot_sha256 s) \<and> is_Sha256 (es_compatibility_sha256 s) \<and>
     opt_ok is_Identifier (es_previous_run_id s) \<and> ExecutionUsage_ok (es_usage_totals s) \<and>
     opt_ok is_Identifier (es_incompatibility_reason s) \<and> session_shape s"

definition strip_session :: "(string \<Rightarrow> string) \<Rightarrow> execution_session \<Rightarrow> execution_session" where
  "strip_session strip s = s\<lparr>
     schema_version := strip (schema_version s), id_scheme_version := strip (id_scheme_version s),
     es_session_id := strip (es_session_id s),
     es_provider_session_id := map_option strip (es_provider_session_id s),
     es_runtime_adapter_id := strip (es_runtime_adapter_id s), es_provider := strip (es_provider s),
     es_model := map_option strip (es_model s), es_task_id := strip (es_task_id s),
     es_employee_id := strip (es_employee_id s), es_workspace_id := strip (es_workspace_id s),
     es_graph_snapshot_id := strip (es_graph_snapshot_id s),
     es_context_snapshot_sha256 := strip (es_context_snapshot_sha256 s),
     es_compatibility_sha256 := strip (es_compatibility_sha256 s),
     es_previous_run_id := map_option strip (es_previous_run_id s),
     es_incompatibility_reason := map_option strip (es_incompatibility_reason s)\<rparr>"

definition make_ExecutionSession ::
    "(string \<Rightarrow> string) \<Rightarrow> execution_session \<Rightarrow> (py_error, execution_session) result" where
  "make_ExecutionSession strip s =
     (let s' = strip_session strip s in if ExecutionSession_ok s' then Inr s' else Inl ValueError)"

section \<open>Approvals, comments, transcripts and health\<close>

record execution_approval = versioned_model +
  ea_approval_id :: string
  ea_action :: string
  ea_payload_sha256 :: string
  ea_employee_id :: "string option"
  ea_task_id :: "string option"
  ea_run_id :: "string option"
  ea_workspace_id :: "string option"
  ea_destination :: "string option"
  ea_scope :: "string list"
  ea_approved_by :: string
  ea_approved_at :: datetime
  ea_expires_at :: datetime

definition ExecutionApproval_ok :: "execution_approval \<Rightarrow> bool" where
  "ExecutionApproval_ok a \<longleftrightarrow>
     versioned_ok ''ExecutionApprovalV1'' a \<and> is_Identifier (ea_approval_id a) \<and>
     is_Identifier (ea_action a) \<and> is_Sha256 (ea_payload_sha256 a) \<and>
     list_all (opt_ok is_Identifier)
       [ea_employee_id a, ea_task_id a, ea_run_id a, ea_workspace_id a] \<and>
     opt_ok is_NonEmptyStr (ea_destination a) \<and> list_all is_Identifier (ea_scope a) \<and>
     is_NonEmptyStr (ea_approved_by a) \<and> \<not> ea_expires_at a \<le> ea_approved_at a"

definition approval_identity_payload :: "execution_approval \<Rightarrow> jval" where
  "approval_identity_payload a = JObj (versioned_fields a @
     [(''action'', JStr (ea_action a)),
      (''payload_sha256'', JStr (ea_payload_sha256 a)),
      (''employee_id'', jopt JStr (ea_employee_id a)),
      (''task_id'', jopt JStr (ea_task_id a)),
      (''run_id'', jopt JStr (ea_run_id a)),
      (''workspace_id'', jopt JStr (ea_workspace_id a)),
      (''destination'', jopt JStr (ea_destination a)),
      (''scope'', jstrs (ea_scope a)),
      (''approved_by'', JStr (ea_approved_by a)),
      (''approved_at'', jtime (ea_approved_at a)),
      (''expires_at'', jtime (ea_expires_at a))])"

definition approval_verify_id :: "digest \<Rightarrow> execution_approval \<Rightarrow> bool" where
  "approval_verify_id sha a =
     (ea_approval_id a = derive_id sha ''xapr'' (approval_identity_payload a))"

record execution_comment = versioned_model +
  ec_comment_id :: string
  ec_task_id :: string
  ec_kind :: CommentKind
  ec_actor :: string
  ec_run_id :: "string option"
  ec_body :: string
  ec_created_at :: datetime

definition ExecutionComment_ok :: "execution_comment \<Rightarrow> bool" where
  "ExecutionComment_ok c \<longleftrightarrow>
     versioned_ok ''ExecutionCommentV1'' c \<and> is_Identifier (ec_comment_id c) \<and>
     is_Identifier (ec_task_id c) \<and> is_Identifier (ec_actor c) \<and> opt_ok is_Identifier (ec_run_id c) \<and>
     1 \<le> length (ec_body c) \<and> length (ec_body c) \<le> 32768"

definition comment_identity_payload :: "execution_comment \<Rightarrow> jval" where
  "comment_identity_payload c = JObj (versioned_fields c @
     [(''task_id'', JStr (ec_task_id c)),
      (''kind'', JStr (CommentKind_value (ec_kind c))),
      (''actor'', JStr (ec_actor c)),
      (''run_id'', jopt JStr (ec_run_id c)),
      (''body'', JStr (ec_body c)),
      (''created_at'', jtime (ec_created_at c))])"

definition comment_verify_id :: "digest \<Rightarrow> execution_comment \<Rightarrow> bool" where
  "comment_verify_id sha c =
     (ec_comment_id c = derive_id sha ''comment'' (comment_identity_payload c))"

record transcript_event = versioned_model +
  tx_transcript_event_id :: string
  tx_run_id :: string
  tx_sequence :: int
  tx_stream :: string
  tx_event_type :: string
  tx_text :: string
  tx_redacted :: bool
  tx_created_at :: datetime

definition TranscriptEvent_ok :: "transcript_event \<Rightarrow> bool" where
  "TranscriptEvent_ok e \<longleftrightarrow>
     versioned_ok ''TranscriptEventV1'' e \<and> is_Identifier (tx_transcript_event_id e) \<and>
     is_Identifier (tx_run_id e) \<and> int_in 0 10000000 (tx_sequence e) \<and>
     tx_stream e \<in> {''system'', ''stdout'', ''stderr'', ''tool'', ''result''} \<and>
     is_Identifier (tx_event_type e) \<and> length (tx_text e) \<le> 32768"

record runtime_health = versioned_model +
  rh_runtime_adapter_id :: string
  rh_status :: RuntimeHealthStatus
  rh_executable :: string
  rh_version :: "string option"
  rh_capabilities :: "string list"
  rh_reason_code :: "string option"
  rh_checked_at :: datetime

definition RuntimeHealth_ok :: "runtime_health \<Rightarrow> bool" where
  "RuntimeHealth_ok h \<longleftrightarrow>
     versioned_ok ''RuntimeHealthV1'' h \<and> is_Identifier (rh_runtime_adapter_id h) \<and>
     length (rh_executable h) \<le> 512 \<and> opt_ok (\<lambda>v. length v \<le> 256) (rh_version h) \<and>
     list_all is_Identifier (rh_capabilities h) \<and> opt_ok is_Identifier (rh_reason_code h)"

end
