(* ===== verification/Configuration.thy ===== *)
theory Configuration
  imports Files
begin

text \<open>
  Model of the two configuration loaders: \<open>execution/config.py\<close> (\<open>FeatureFlags\<close>,
  \<open>ExecutionConfig\<close>, \<open>load_execution_config\<close>) and \<open>features.py\<close> (\<open>FeatureConfig\<close>,
  \<open>load_feature_config\<close>). Decoding TOML and YAML bytes into values is a parameter (\<open>None\<close> where the
  decoder raises); a decoded table is a JSON object, and the value types of the two formats that
  JSON has not (floats, dates) are \<open>JNull\<close>, which no check accepts. Tables have string keys.
\<close>

section \<open>Execution configuration\<close>

datatype config_error = ExecutionConfigError | ConfigIndexError | FeatureConfigError | FeatureKeyError

record feature_flags =
  ff_code_graph_enabled :: bool
  ff_graph_first_query_enabled :: bool
  ff_digital_employees_enabled :: bool
  ff_task_workspaces_enabled :: bool
  ff_runtime_execution_enabled :: bool
  ff_codex_local_enabled :: bool
  ff_claude_local_enabled :: bool
  ff_heartbeats_enabled :: bool
  ff_scheduled_heartbeats_enabled :: bool

definition FeatureFlags_ok :: "feature_flags \<Rightarrow> bool" where
  "FeatureFlags_ok f \<longleftrightarrow>
     \<not> (ff_graph_first_query_enabled f \<and> \<not> ff_code_graph_enabled f) \<and>
     \<not> (ff_runtime_execution_enabled f \<and> \<not> ff_task_workspaces_enabled f) \<and>
     \<not> ((ff_codex_local_enabled f \<or> ff_claude_local_enabled f) \<and> \<not> ff_runtime_execution_enabled f) \<and>
     \<not> (ff_scheduled_heartbeats_enabled f \<and> \<not> ff_heartbeats_enabled f)"

definition adapter_enabled :: "feature_flags \<Rightarrow> string \<Rightarrow> bool" where
  "adapter_enabled f adapter_id =
     (if \<not> ff_runtime_execution_enabled f then False
      else if adapter_id = ''adapter_fake'' then True
      else if adapter_id = ''adapter_codex_local'' then ff_codex_local_enabled f
      else if adapter_id = ''adapter_claude_code'' then ff_claude_local_enabled f
      else False)"

record execution_config =
  xc_features :: feature_flags
  xc_control_db :: string
  xc_workspaces_root :: string
  xc_lease_ttl_seconds :: int
  xc_lease_renewal_seconds :: int
  xc_max_run_seconds :: int
  xc_cancel_grace_seconds :: int
  xc_max_output_bytes :: int
  xc_max_transcript_events :: int
  xc_max_context_bytes :: int
  xc_max_concurrent_runs :: int

definition config_path :: "string \<Rightarrow> (config_error, unit) result" where
  "config_path p = (case validate_relative_path p of
     Inr _ \<Rightarrow> Inr () | Inl ValueError \<Rightarrow> Inl ExecutionConfigError | Inl _ \<Rightarrow> Inl ConfigIndexError)"

definition limits_ok :: "execution_config \<Rightarrow> bool" where
  "limits_ok c \<longleftrightarrow>
     10 \<le> xc_lease_ttl_seconds c \<and> xc_lease_ttl_seconds c \<le> 3600 \<and>
     1 \<le> xc_lease_renewal_seconds c \<and> xc_lease_renewal_seconds c < xc_lease_ttl_seconds c \<and>
     1 \<le> xc_max_run_seconds c \<and> xc_max_run_seconds c \<le> 24 * 60 * 60 \<and>
     1 \<le> xc_cancel_grace_seconds c \<and> xc_cancel_grace_seconds c \<le> 60 \<and>
     1024 \<le> xc_max_output_bytes c \<and> xc_max_output_bytes c \<le> 64 * 1024 * 1024 \<and>
     1 \<le> xc_max_transcript_events c \<and> xc_max_transcript_events c \<le> 100000 \<and>
     1024 \<le> xc_max_context_bytes c \<and> xc_max_context_bytes c \<le> 2000000 \<and>
     1 \<le> xc_max_concurrent_runs c \<and> xc_max_concurrent_runs c \<le> 32"

definition make_ExecutionConfig :: "execution_config \<Rightarrow> (config_error, execution_config) result" where
  "make_ExecutionConfig c =
     rbind (config_path (xc_control_db c)) (\<lambda>_.
     rbind (config_path (xc_workspaces_root c)) (\<lambda>_.
     rbind (ensure (limits_ok c) ExecutionConfigError) (\<lambda>_. Inr c)))"

definition feature_keys :: "string list" where
  "feature_keys = [''code_graph_enabled'', ''graph_first_query_enabled'', ''digital_employees_enabled'',
     ''task_workspaces_enabled'', ''runtime_execution_enabled'', ''codex_local_enabled'',
     ''claude_local_enabled'', ''heartbeats_enabled'', ''scheduled_heartbeats_enabled'']"

definition execution_keys :: "string list" where
  "execution_keys = [''workspaces_root'', ''lease_ttl_seconds'', ''lease_renewal_seconds'',
     ''max_run_seconds'', ''cancel_grace_seconds'', ''max_output_bytes'', ''max_transcript_events'',
     ''max_context_bytes'', ''max_concurrent_runs'']"

type_synonym table = "(string \<times> jval) list"

definition mapping_value :: "jval option \<Rightarrow> (config_error, table) result" where
  "mapping_value v = (case v of None \<Rightarrow> Inr [] | Some (JObj kvs) \<Rightarrow> Inr kvs | _ \<Rightarrow> Inl ExecutionConfigError)"

definition known_keys :: "table \<Rightarrow> string list \<Rightarrow> (config_error, unit) result" where
  "known_keys payload keys = ensure (fst ` set payload \<subseteq> set keys) ExecutionConfigError"

definition is_JBool :: "jval \<Rightarrow> bool" where
  "is_JBool v = (case v of JBool _ \<Rightarrow> True | _ \<Rightarrow> False)"

definition bool_values :: "table \<Rightarrow> (config_error, unit) result" where
  "bool_values payload = ensure (list_all (\<lambda>p. is_JBool (snd p)) payload) ExecutionConfigError"

definition get_bool :: "table \<Rightarrow> string \<Rightarrow> bool \<Rightarrow> bool" where
  "get_bool payload key default_value =
     (case map_of payload key of Some (JBool b) \<Rightarrow> b | _ \<Rightarrow> default_value)"

definition flags_of :: "table \<Rightarrow> feature_flags" where
  "flags_of t = \<lparr>
     ff_code_graph_enabled = get_bool t ''code_graph_enabled'' True,
     ff_graph_first_query_enabled = get_bool t ''graph_first_query_enabled'' True,
     ff_digital_employees_enabled = get_bool t ''digital_employees_enabled'' True,
     ff_task_workspaces_enabled = get_bool t ''task_workspaces_enabled'' True,
     ff_runtime_execution_enabled = get_bool t ''runtime_execution_enabled'' False,
     ff_codex_local_enabled = get_bool t ''codex_local_enabled'' False,
     ff_claude_local_enabled = get_bool t ''claude_local_enabled'' False,
     ff_heartbeats_enabled = get_bool t ''heartbeats_enabled'' True,
     ff_scheduled_heartbeats_enabled = get_bool t ''scheduled_heartbeats_enabled'' False\<rparr>"

definition get_int :: "table \<Rightarrow> string \<Rightarrow> int \<Rightarrow> (config_error, int) result" where
  "get_int t key default_value = (case map_of t key of
     None \<Rightarrow> Inr default_value | Some (JInt i) \<Rightarrow> Inr i | Some _ \<Rightarrow> Inl ExecutionConfigError)"

definition get_str :: "table \<Rightarrow> string \<Rightarrow> string \<Rightarrow> (config_error, string) result" where
  "get_str t key default_value = (case map_of t key of
     None \<Rightarrow> Inr default_value | Some (JStr s) \<Rightarrow> Inr s | Some _ \<Rightarrow> Inl ExecutionConfigError)"

text \<open>
  \<open>ExecutionConfig(features=..., control_db=..., **execution_payload)\<close>: the numeric fields are
  checked for their type before the paths are, so a wrong type wins over a path that raises.
\<close>

definition config_of :: "feature_flags \<Rightarrow> string \<Rightarrow> table \<Rightarrow> (config_error, execution_config) result" where
  "config_of features control_db t =
     rbind (get_int t ''lease_ttl_seconds'' 60) (\<lambda>ttl.
     rbind (get_int t ''lease_renewal_seconds'' 20) (\<lambda>renewal.
     rbind (get_int t ''max_run_seconds'' 3600) (\<lambda>max_run.
     rbind (get_int t ''cancel_grace_seconds'' 5) (\<lambda>grace.
     rbind (get_int t ''max_output_bytes'' (4 * 1024 * 1024)) (\<lambda>max_output.
     rbind (get_int t ''max_transcript_events'' 10000) (\<lambda>max_events.
     rbind (get_int t ''max_context_bytes'' 48000) (\<lambda>max_context.
     rbind (get_int t ''max_concurrent_runs'' 2) (\<lambda>max_runs.
     rbind (config_path control_db) (\<lambda>_.
     rbind (get_str t ''workspaces_root'' ''.raytsystem/workspaces'') (\<lambda>workspaces.
     make_ExecutionConfig \<lparr>xc_features = features, xc_control_db = control_db,
       xc_workspaces_root = workspaces, xc_lease_ttl_seconds = ttl,
       xc_lease_renewal_seconds = renewal, xc_max_run_seconds = max_run,
       xc_cancel_grace_seconds = grace, xc_max_output_bytes = max_output,
       xc_max_transcript_events = max_events, xc_max_context_bytes = max_context,
       xc_max_concurrent_runs = max_runs\<rparr>))))))))))"

definition config_of_document :: "jval \<Rightarrow> (config_error, execution_config) result" where
  "config_of_document document =
     (case document of
       JObj doc \<Rightarrow>
         rbind (mapping_value (map_of doc ''features'')) (\<lambda>feature_payload.
         rbind (known_keys feature_payload feature_keys) (\<lambda>_.
         rbind (bool_values feature_payload) (\<lambda>_.
         let features = flags_of feature_payload in
         rbind (ensure (FeatureFlags_ok features) ExecutionConfigError) (\<lambda>_.
         rbind (mapping_value (map_of doc ''execution'')) (\<lambda>execution_payload.
         rbind (known_keys execution_payload execution_keys) (\<lambda>_.
         rbind (get_str doc ''control_db'' ''ops/control.sqlite'') (\<lambda>control_db.
         config_of features control_db execution_payload)))))))
     | _ \<Rightarrow> Inl ExecutionConfigError)"

definition load_execution_config ::
    "(bytes \<Rightarrow> jval option) \<Rightarrow> string list \<Rightarrow> fs \<Rightarrow> (config_error, execution_config) result" where
  "load_execution_config parse_toml root fs =
     rbind (rcatch (read_regular_file root fs ''config/raytsystem.toml'' (1024 * 1024))
                   (\<lambda>_. ExecutionConfigError)) (\<lambda>data.
     rbind (of_option ExecutionConfigError (parse_toml data)) config_of_document)"

section \<open>Platform features\<close>

definition feature_names :: "string list" where
  "feature_names = [''evals_enabled'', ''promptfoo_adapter_enabled'', ''telemetry_enabled'',
     ''otel_export_enabled'', ''replay_enabled'', ''policy_simulator_enabled'',
     ''emergency_controls_enabled'', ''mcp_governance_enabled'', ''acp_adapter_enabled'',
     ''a2a_gateway_enabled'', ''pack_lifecycle_enabled'', ''workflow_engine_enabled'',
     ''notifications_enabled'', ''external_notifications_enabled'', ''restricted_encryption_enabled'',
     ''backup_enabled'', ''promptfoo_remote_generation_enabled'', ''external_mcp_execution_enabled'',
     ''a2a_network_exposure_enabled'', ''external_kms_enabled'']"

definition feature_dependencies :: "(string \<times> string) list" where
  "feature_dependencies =
     [(''promptfoo_adapter_enabled'', ''evals_enabled''),
      (''promptfoo_remote_generation_enabled'', ''promptfoo_adapter_enabled''),
      (''otel_export_enabled'', ''telemetry_enabled''),
      (''external_mcp_execution_enabled'', ''mcp_governance_enabled''),
      (''a2a_network_exposure_enabled'', ''a2a_gateway_enabled''),
      (''external_notifications_enabled'', ''notifications_enabled''),
      (''external_kms_enabled'', ''restricted_encryption_enabled'')]"

record feature_config =
  fc_version :: string
  fc_store :: string
  fc_flags :: "string \<rightharpoonup> bool"
  fc_policy :: table
  fc_circuit_breakers :: "(string \<times> int) list"
  fc_config_sha256 :: string

definition feature_enabled :: "feature_config \<Rightarrow> string \<Rightarrow> (config_error, bool) result" where
  "feature_enabled c feature = of_option FeatureKeyError (fc_flags c feature)"

text \<open>A Python \<open>bool\<close> is an \<open>int\<close>, so a threshold may be \<open>true\<close>; it then counts as one.\<close>

definition threshold :: "jval \<Rightarrow> int option" where
  "threshold v = (case v of JInt i \<Rightarrow> if i \<le> 0 then None else Some i
     | JBool b \<Rightarrow> if b then Some 1 else None | _ \<Rightarrow> None)"

definition feature_config_of ::
    "digest \<Rightarrow> string \<Rightarrow> string \<Rightarrow> table \<Rightarrow> jval \<Rightarrow> jval \<Rightarrow> (config_error, feature_config) result" where
  "feature_config_of sha version store raw_flags policy breakers =
     rbind (ensure (version \<noteq> [] \<and> store = ''ops/platform.sqlite'' \<and>
              fst ` set raw_flags = set feature_names \<and>
              list_all (\<lambda>p. is_JBool (snd p)) raw_flags) FeatureConfigError) (\<lambda>_.
     let flag = (\<lambda>name. get_bool raw_flags name False) in
     rbind (ensure (list_all (\<lambda>(child, parent). \<not> (flag child \<and> \<not> flag parent))
              feature_dependencies) FeatureConfigError) (\<lambda>_.
     case (policy, breakers) of
       (JObj raw_policy, JObj raw_breakers) \<Rightarrow>
         rbind (rmap (\<lambda>(k, v). rbind (of_option FeatureConfigError (threshold v)) (\<lambda>i. Inr (k, i)))
                  raw_breakers) (\<lambda>thresholds.
         Inr \<lparr>fc_version = version, fc_store = store,
              fc_flags = (\<lambda>n. if n \<in> set feature_names then Some (flag n) else None),
              fc_policy = raw_policy, fc_circuit_breakers = thresholds,
              fc_config_sha256 = sha256_hex sha (json_bytes (JObj
                [(''version'', JStr version), (''store'', JStr store),
                 (''features'', JObj (map (\<lambda>n. (n, JBool (flag n))) feature_names)),
                 (''policy'', JObj raw_policy),
                 (''circuit_breakers'', JObj raw_breakers)]))\<rparr>)
     | _ \<Rightarrow> Inl FeatureConfigError))"

definition feature_config_of_document :: "digest \<Rightarrow> jval \<Rightarrow> (config_error, feature_config) result" where
  "feature_config_of_document sha document =
     (case document of
        JObj payload \<Rightarrow>
          (case (map_of payload ''version'', map_of payload ''store'', map_of payload ''features'') of
             (Some (JStr version), Some (JStr store), Some (JObj raw_flags)) \<Rightarrow>
               feature_config_of sha version store raw_flags
                 (case map_of payload ''policy'' of None \<Rightarrow> JObj [] | Some v \<Rightarrow> v)
                 (case map_of payload ''circuit_breakers'' of None \<Rightarrow> JObj [] | Some v \<Rightarrow> v)
           | _ \<Rightarrow> Inl FeatureConfigError)
      | _ \<Rightarrow> Inl FeatureConfigError)"

definition load_feature_config ::
    "digest \<Rightarrow> (bytes \<Rightarrow> jval option) \<Rightarrow> string list \<Rightarrow> fs \<Rightarrow> (config_error, feature_config) result" where
  "load_feature_config sha parse_yaml root fs =
     rbind (rcatch (read_regular_file root fs ''config/platform.yaml'' (128 * 1024))
                   (\<lambda>_. FeatureConfigError)) (\<lambda>data.
     rbind (of_option FeatureConfigError (parse_yaml data)) (feature_config_of_document sha))"

section \<open>Lemmas\<close>

lemma make_ExecutionConfig_Inr:
  "make_ExecutionConfig c = Inr c' \<longleftrightarrow> c' = c \<and> limits_ok c \<and>
   is_ok (validate_relative_path (xc_control_db c)) \<and> is_ok (validate_relative_path (xc_workspaces_root c))"
  by (auto simp: make_ExecutionConfig_def config_path_def result_simps is_ok_iff
      split: sum.splits py_error.splits)

lemma config_of_Inr:
  "config_of f d t = Inr c \<Longrightarrow> make_ExecutionConfig c = Inr c \<and> xc_features c = f"
  by (auto simp: config_of_def result_simps make_ExecutionConfig_Inr)

lemma config_of_document_ok:
  "config_of_document d = Inr c \<Longrightarrow> make_ExecutionConfig c = Inr c \<and> FeatureFlags_ok (xc_features c)"
  by (cases d) (auto simp: config_of_document_def result_simps Let_def dest!: config_of_Inr)

lemma load_execution_config_ok:
  "load_execution_config parse root fs = Inr c \<Longrightarrow>
   make_ExecutionConfig c = Inr c \<and> FeatureFlags_ok (xc_features c)"
  by (auto simp: load_execution_config_def result_simps dest: config_of_document_ok)

lemma adapter_enabled_requires: "adapter_enabled f a \<Longrightarrow> FeatureFlags_ok f \<Longrightarrow>
   ff_runtime_execution_enabled f \<and> ff_task_workspaces_enabled f"
  by (auto simp: adapter_enabled_def FeatureFlags_ok_def split: if_splits)

lemma feature_config_of_flags:
  assumes "feature_config_of sha v st raw p b = Inr c"
  shows "dom (fc_flags c) = set feature_names \<and>
    list_all (\<lambda>(child, parent). \<not> (fc_flags c child = Some True \<and> fc_flags c parent \<noteq> Some True))
      feature_dependencies"
proof -
  let ?flag = "\<lambda>n. get_bool raw n False"
  from assms have f: "fc_flags c = (\<lambda>n. if n \<in> set feature_names then Some (?flag n) else None)"
      "list_all (\<lambda>(child, parent). \<not> (?flag child \<and> \<not> ?flag parent)) feature_dependencies"
    by (cases p; cases b; auto simp: feature_config_of_def result_simps Let_def)+
  have "set (map snd feature_dependencies) \<subseteq> set feature_names"
    by (simp add: feature_dependencies_def feature_names_def)
  with f(2) show ?thesis unfolding f(1) by (auto simp: list_all_iff dom_def split: if_splits)
qed

lemma load_feature_config_flags:
  assumes "load_feature_config sha parse root fs = Inr c"
  shows "dom (fc_flags c) = set feature_names \<and>
    list_all (\<lambda>(child, parent). \<not> (fc_flags c child = Some True \<and> fc_flags c parent \<noteq> Some True))
      feature_dependencies"
proof -
  from assms obtain d where "feature_config_of_document sha d = Inr c"
    by (auto simp: load_feature_config_def result_simps)
  then have "\<exists>v st raw p b. feature_config_of sha v st raw p b = Inr c"
    by (cases d) (auto simp: feature_config_of_document_def split: option.split_asm jval.split_asm, blast+)
  then show ?thesis using feature_config_of_flags by blast
qed

section \<open>Properties\<close>

text \<open>a loaded execution configuration is inside every documented limit, its paths stay below the
  workspace, its flags respect their dependencies, and an adapter can only be enabled when runtime
  execution and managed workspaces are.\<close>

theorem loaded_execution_config_is_safe:
  assumes "load_execution_config parse root fs = Inr c"
  shows "limits_ok c \<and> is_ok (validate_relative_path (xc_control_db c)) \<and>
    is_ok (validate_relative_path (xc_workspaces_root c)) \<and> FeatureFlags_ok (xc_features c) \<and>
    (adapter_enabled (xc_features c) a \<longrightarrow>
       ff_runtime_execution_enabled (xc_features c) \<and> ff_task_workspaces_enabled (xc_features c))"
  using load_execution_config_ok [OF assms] adapter_enabled_requires
  by (auto simp: make_ExecutionConfig_Inr)

definition sample_toml :: fs where
  "sample_toml = [''config/raytsystem.toml'' \<mapsto> Regular [] 0 0]"

lemma sample_toml_read: "read_regular_file [] sample_toml ''config/raytsystem.toml'' (1024 * 1024) = Inr []"
  by (simp add: read_regular_file_def lexical_relative_def posix_parts_def contained_parts_def Let_def
      sample_toml_def)

lemma sample_toml_config:
  "\<exists>c. load_execution_config (\<lambda>_. Some (JObj [])) [] sample_toml = Inr c"
proof -
  have "is_ok (validate_relative_path ''ops/control.sqlite'')"
      "is_ok (validate_relative_path ''.raytsystem/workspaces'')"
    by (simp_all add: validate_relative_path_def posix_parts_def)
  then have "\<exists>c. config_of (flags_of []) ''ops/control.sqlite'' [] = Inr c"
    by (auto simp: config_of_def get_int_def get_str_def config_path_def is_ok_iff
        make_ExecutionConfig_def limits_ok_def)
  moreover have "FeatureFlags_ok (flags_of [])" by (simp add: FeatureFlags_ok_def flags_of_def get_bool_def)
  ultimately show ?thesis
    using sample_toml_read
    by (simp add: load_execution_config_def config_of_document_def mapping_value_def known_keys_def
        bool_values_def get_str_def Let_def)
qed

theorem loaded_execution_config_is_safe_witness:
  "\<exists>c. load_execution_config (\<lambda>_. Some (JObj [])) [] sample_toml = Inr c \<and> limits_ok c \<and> FeatureFlags_ok (xc_features c)"
  using sample_toml_config loaded_execution_config_is_safe by blast

text \<open>a loaded platform configuration decides every feature, and a feature that depends on another
  is on only where the other is.\<close>

theorem loaded_features_respect_dependencies:
  assumes "load_feature_config sha parse root fs = Inr c"
  shows "dom (fc_flags c) = set feature_names \<and>
    list_all (\<lambda>(child, parent). fc_flags c child = Some True \<longrightarrow> fc_flags c parent = Some True)
      feature_dependencies"
  using load_feature_config_flags [OF assms] by (auto simp: list_all_iff)

definition sample_yaml :: jval where
  "sample_yaml = JObj [(''version'', JStr ''1''), (''store'', JStr ''ops/platform.sqlite''),
     (''features'', JObj (map (\<lambda>n. (n, JBool False)) feature_names))]"

lemma sample_yaml_config:
  "\<exists>c. load_feature_config (\<lambda>_. ''h'') (\<lambda>_. Some sample_yaml) [] [''config/platform.yaml'' \<mapsto> Regular [] 0 0] = Inr c"
proof -
  have "read_regular_file [] [''config/platform.yaml'' \<mapsto> Regular [] 0 0] ''config/platform.yaml'' (128 * 1024) = Inr []"
    by (simp add: read_regular_file_def lexical_relative_def posix_parts_def contained_parts_def Let_def)
  moreover have "get_bool (map (\<lambda>n. (n, JBool False)) ns) n False = False" for ns n
    by (induction ns) (auto simp: get_bool_def)
  moreover have "list_all (\<lambda>p. is_JBool (snd p)) (map (\<lambda>n. (n, JBool False)) feature_names)"
    by (simp add: list_all_iff is_JBool_def)
  moreover have "fst ` set (map (\<lambda>n. (n, JBool False)) feature_names) = set feature_names"
    by (simp add: image_comp)
  ultimately show ?thesis
    by (simp add: load_feature_config_def feature_config_of_document_def sample_yaml_def
        feature_config_of_def Let_def list_all_iff)
qed

theorem loaded_features_respect_dependencies_witness:
  "\<exists>c. load_feature_config (\<lambda>_. ''h'') (\<lambda>_. Some sample_yaml) [] [''config/platform.yaml'' \<mapsto> Regular [] 0 0] = Inr c \<and>
    dom (fc_flags c) = set feature_names"
  using sample_yaml_config loaded_features_respect_dependencies by blast

end
