(* ===== verification/Policy.thy ===== *)
theory Policy
  imports Configuration Operation_Contracts Execution_Contracts
begin

text \<open>
  Model of the two policy engines: \<open>policy_simulator/engine.py\<close> (\<open>evaluate_execution\<close>) with the
  contracts \<open>ExecutionPlan\<close> and \<open>PolicySimulation\<close> of \<open>contracts/governance.py\<close>, and
  \<open>execution/policy.py\<close> (\<open>evaluate_execution_policy\<close>). Python sets of reason codes and approval kinds
  are lists that the code only tests for membership and emits through \<open>sorted\<close>; the model emits them
  through \<open>sorted_set\<close>.
\<close>

section \<open>Definitions\<close>

subsection \<open>Execution plans\<close>

record execution_plan = versioned_model +
  ep_plan_id :: string
  ep_employee_id :: string
  ep_task_id :: string
  ep_task_revision :: int
  ep_runtime_id :: string
  ep_provider :: "string option"
  ep_model :: "string option"
  ep_workspace_mode :: string
  ep_read_roots :: "string list"
  ep_write_roots :: "string list"
  ep_network_access :: string
  ep_network_destinations :: "string list"
  ep_requested_tools :: "string list"
  ep_requested_secrets :: "string list"
  ep_graph_scope :: "string list"
  ep_knowledge_scope :: "string list"
  ep_token_budget :: "int option"
  ep_cost_budget :: "decimal option"
  ep_potential_side_effects :: "string list"
  ep_policy_sha256 :: string

definition non_negative_decimal :: "decimal \<Rightarrow> bool" where
  "non_negative_decimal d \<longleftrightarrow> \<not> (dec_neg d \<and> dec_coeff d \<noteq> 0)"

definition plan_invariants :: "execution_plan \<Rightarrow> bool" where
  "plan_invariants p \<longleftrightarrow>
     \<not> (ep_network_access p = ''none'' \<and> ep_network_destinations p \<noteq> []) \<and>
     set (ep_write_roots p) \<subseteq> set (ep_read_roots p) \<and>
     \<not> (ep_workspace_mode p \<in> {''none'', ''read_only''} \<and> ep_write_roots p \<noteq> []) \<and>
     \<not> (ep_workspace_mode p = ''none'' \<and> ep_read_roots p \<noteq> []) \<and>
     list_all unique [ep_read_roots p, ep_write_roots p, ep_network_destinations p, ep_requested_tools p,
       ep_requested_secrets p, ep_graph_scope p, ep_knowledge_scope p, ep_potential_side_effects p]"

definition ExecutionPlan_ok :: "execution_plan \<Rightarrow> bool" where
  "ExecutionPlan_ok p \<longleftrightarrow>
     versioned_ok ''ExecutionPlanV1'' p \<and>
     list_all is_Identifier [ep_plan_id p, ep_employee_id p, ep_task_id p, ep_runtime_id p] \<and>
     1 \<le> ep_task_revision p \<and> opt_ok is_Identifier (ep_provider p) \<and> opt_ok is_NonEmptyStr (ep_model p) \<and>
     ep_workspace_mode p \<in> {''none'', ''read_only'', ''staging_only'', ''isolated''} \<and>
     list_all is_RelativePath (ep_read_roots p) \<and> list_all is_RelativePath (ep_write_roots p) \<and>
     ep_network_access p \<in> {''none'', ''allowlist'', ''unrestricted''} \<and>
     list_all is_NonEmptyStr (ep_network_destinations p) \<and>
     list_all is_Identifier (ep_requested_tools p) \<and> list_all is_Identifier (ep_requested_secrets p) \<and>
     list_all is_Identifier (ep_graph_scope p) \<and> list_all is_Identifier (ep_knowledge_scope p) \<and>
     opt_ok (\<lambda>b. 0 \<le> b) (ep_token_budget p) \<and> opt_ok non_negative_decimal (ep_cost_budget p) \<and>
     list_all is_Identifier (ep_potential_side_effects p) \<and> is_Sha256 (ep_policy_sha256 p) \<and>
     plan_invariants p"

record policy_simulation = versioned_model +
  ps_simulation_id :: string
  ps_plan_id :: string
  ps_policy_sha256 :: string
  ps_employee_id :: "string option"
  ps_task_id :: "string option"
  ps_runtime_id :: "string option"
  ps_provider :: "string option"
  ps_model :: "string option"
  ps_workspace_mode :: "string option"
  ps_read_roots :: "string list"
  ps_write_roots :: "string list"
  ps_network_access :: "string option"
  ps_graph_scope :: "string list"
  ps_knowledge_scope :: "string list"
  ps_token_budget :: "int option"
  ps_cost_budget :: "decimal option"
  ps_allowed_tools :: "string list"
  ps_blocked_tools :: "string list"
  ps_secrets_requested :: "string list"
  ps_required_approvals :: "string list"
  ps_potential_side_effects :: "string list"
  ps_outcome :: string
  ps_reason_codes :: "string list"
  ps_dry_run :: bool
  ps_created_at :: datetime

definition simulation_invariants :: "policy_simulation \<Rightarrow> bool" where
  "simulation_invariants s \<longleftrightarrow>
     set (ps_allowed_tools s) \<inter> set (ps_blocked_tools s) = {} \<and>
     \<not> (ps_outcome s = ''approval_required'' \<and> ps_required_approvals s = [])"

definition PolicySimulation_ok :: "policy_simulation \<Rightarrow> bool" where
  "PolicySimulation_ok s \<longleftrightarrow>
     versioned_ok ''PolicySimulationV1'' s \<and> is_Identifier (ps_simulation_id s) \<and> is_Identifier (ps_plan_id s) \<and>
     is_Sha256 (ps_policy_sha256 s) \<and>
     list_all (opt_ok is_Identifier) [ps_employee_id s, ps_task_id s, ps_runtime_id s, ps_provider s] \<and>
     opt_ok is_NonEmptyStr (ps_model s) \<and>
     opt_ok (\<lambda>m. m \<in> {''none'', ''read_only'', ''staging_only'', ''isolated''}) (ps_workspace_mode s) \<and>
     list_all is_RelativePath (ps_read_roots s) \<and> list_all is_RelativePath (ps_write_roots s) \<and>
     opt_ok (\<lambda>m. m \<in> {''none'', ''allowlist'', ''unrestricted''}) (ps_network_access s) \<and>
     list_all (list_all is_Identifier) [ps_graph_scope s, ps_knowledge_scope s, ps_allowed_tools s,
       ps_blocked_tools s, ps_secrets_requested s, ps_required_approvals s, ps_potential_side_effects s,
       ps_reason_codes s] \<and>
     opt_ok (\<lambda>b. 0 \<le> b) (ps_token_budget s) \<and> opt_ok non_negative_decimal (ps_cost_budget s) \<and>
     ps_outcome s \<in> {''allowed'', ''approval_required'', ''blocked''} \<and> ps_dry_run s \<and>
     simulation_invariants s"

subsection \<open>The shared execution policy\<close>

definition side_effects :: "string list" where
  "side_effects = [''send'', ''publish'', ''upload'', ''delete'', ''pay'', ''git_push'', ''pull_request'']"

definition read_only_tools :: "string list" where
  "read_only_tools = [''read_catalog'', ''get_status'', ''list_tasks'', ''search_knowledge'',
     ''query_graph'', ''catalog_schemas'']"

definition protected_roots :: "string list" where
  "protected_roots = [''_raw'', ''ledger/objects'', ''ledger/generations'', ''knowledge/claims'',
     ''knowledge/entities'', ''knowledge/sources'']"

definition staging_write_roots :: "string list" where
  "staging_write_roots = [''ops/staging'', ''.raytsystem/worktrees'']"

definition under_root :: "string \<Rightarrow> string list \<Rightarrow> bool" where
  "under_root path roots = list_ex (\<lambda>root. path = root \<or> starts_with path (root @ ''/'')) roots"

definition runtime_feature_reasons :: "bool \<Rightarrow> bool \<Rightarrow> string list" where
  "runtime_feature_reasons execution_on adapter_on =
     (if \<not> execution_on then [''runtime_execution_disabled'']
      else if \<not> adapter_on then [''runtime_adapter_disabled''] else [])"

definition workspace_reasons :: "execution_plan \<Rightarrow> string list" where
  "workspace_reasons p =
     (if list_ex (\<lambda>path. under_root path protected_roots) (ep_read_roots p @ ep_write_roots p)
      then [''protected_workspace_root''] else []) @
     (if ep_workspace_mode p \<in> {''none'', ''read_only''} \<and> ep_write_roots p \<noteq> []
      then [''workspace_write_not_allowed''] else []) @
     (if ep_workspace_mode p = ''staging_only'' \<and>
         list_ex (\<lambda>path. \<not> under_root path staging_write_roots) (ep_write_roots p)
      then [''write_outside_staging''] else [])"

definition emergency_reasons :: "execution_plan \<Rightarrow> string set \<Rightarrow> string list" where
  "emergency_reasons p actions =
     (if ''disable_runtime_execution'' \<in> actions \<or> ''pause_all_employees'' \<in> actions
      then [''emergency_runtime_disabled''] else []) @
     (if ep_network_access p \<noteq> ''none'' \<and> ''disable_network_adapters'' \<in> actions
      then [''emergency_network_disabled''] else []) @
     (if ep_provider p \<noteq> None \<and> ''disable_external_providers'' \<in> actions
      then [''emergency_provider_disabled''] else [])"

definition egress_reasons :: "execution_plan \<Rightarrow> string list" where
  "egress_reasons p =
     (if ep_network_access p \<noteq> ''none'' \<and> ep_network_destinations p = []
      then [''network_destination_missing''] else []) @
     (if list_ex (\<lambda>e. e \<notin> set side_effects) (ep_potential_side_effects p)
      then [''unknown_side_effect''] else [])"

definition plan_approvals :: "execution_plan \<Rightarrow> string list" where
  "plan_approvals p =
     (if ep_network_access p \<noteq> ''none'' then [''network_egress''] else []) @
     (if ep_provider p \<noteq> None then [''model_egress''] else []) @
     (if ep_requested_secrets p \<noteq> [] then [''secret_decrypt''] else []) @
     filter (\<lambda>e. e \<in> set side_effects) (ep_potential_side_effects p)"

definition secret_reasons :: "execution_plan \<Rightarrow> feature_config \<Rightarrow> (config_error, string list) result" where
  "secret_reasons p features =
     (if ep_requested_secrets p = [] then Inr []
      else rbind (feature_enabled features ''restricted_encryption_enabled'') (\<lambda>on.
        Inr (if on then [] else [''secret_provider_unavailable''])))"

text \<open>What one requested tool adds: reasons, approvals, whether it is allowed or blocked.\<close>

record tool_verdict =
  tv_reasons :: "string list"
  tv_approvals :: "string list"
  tv_allowed :: bool

definition tool_verdict_for :: "feature_config \<Rightarrow> string \<Rightarrow> (config_error, tool_verdict) result" where
  "tool_verdict_for features tool =
     (if tool \<in> set read_only_tools then Inr \<lparr>tv_reasons = [], tv_approvals = [], tv_allowed = True\<rparr>
      else if starts_with tool ''mcp_'' then
        rbind (feature_enabled features ''mcp_governance_enabled'') (\<lambda>governed.
        if \<not> governed then Inr \<lparr>tv_reasons = [''mcp_governance_disabled''], tv_approvals = [], tv_allowed = False\<rparr>
        else rbind (feature_enabled features ''external_mcp_execution_enabled'') (\<lambda>ext.
          if \<not> ext then Inr \<lparr>tv_reasons = [''mcp_catalog_only''], tv_approvals = [], tv_allowed = False\<rparr>
          else Inr \<lparr>tv_reasons = [], tv_approvals = [''mcp_tool_execution''], tv_allowed = True\<rparr>))
      else Inr \<lparr>tv_reasons = [], tv_approvals = [''tool_execution''], tv_allowed = True\<rparr>)"

record plan_verdict =
  pv_reasons :: "string list"
  pv_approvals :: "string list"
  pv_allowed_tools :: "string list"
  pv_blocked_tools :: "string list"

record runtime_context =
  rc_emergency_actions :: "string set"
  rc_granted_approval_kinds :: "string set"
  rc_runtime_execution_enabled :: bool
  rc_runtime_adapter_enabled :: bool
  rc_runtime_reason_codes :: "string list"
  rc_runtime_required_approvals :: "string list"

definition plan_verdict_for ::
    "execution_plan \<Rightarrow> feature_config \<Rightarrow> runtime_context \<Rightarrow> (config_error, plan_verdict) result" where
  "plan_verdict_for p features ctx =
     rbind (secret_reasons p features) (\<lambda>secrets.
     rbind (rmap (tool_verdict_for features) (ep_requested_tools p)) (\<lambda>tools.
     Inr \<lparr>pv_reasons = rc_runtime_reason_codes ctx @
            runtime_feature_reasons (rc_runtime_execution_enabled ctx) (rc_runtime_adapter_enabled ctx) @
            workspace_reasons p @ emergency_reasons p (rc_emergency_actions ctx) @ egress_reasons p @
            secrets @ concat (map tv_reasons tools),
          pv_approvals = rc_runtime_required_approvals ctx @ plan_approvals p @ concat (map tv_approvals tools),
          pv_allowed_tools = map fst (filter (\<lambda>x. tv_allowed (snd x)) (zip (ep_requested_tools p) tools)),
          pv_blocked_tools = map fst (filter (\<lambda>x. \<not> tv_allowed (snd x)) (zip (ep_requested_tools p) tools))\<rparr>))"

definition verdict_outcome :: "plan_verdict \<Rightarrow> string set \<Rightarrow> string" where
  "verdict_outcome v granted =
     (if pv_reasons v \<noteq> [] then ''blocked''
      else if filter (\<lambda>a. a \<notin> granted) (pv_approvals v) \<noteq> [] then ''approval_required''
      else ''allowed'')"

definition simulation_of ::
    "digest \<Rightarrow> execution_plan \<Rightarrow> plan_verdict \<Rightarrow> string set \<Rightarrow> datetime \<Rightarrow> policy_simulation" where
  "simulation_of sha p v granted created_at =
     (let missing = sorted_set (filter (\<lambda>a. a \<notin> granted) (pv_approvals v));
          outcome = verdict_outcome v granted;
          identity = JObj
            [(''plan_id'', JStr (ep_plan_id p)),
             (''policy_sha256'', JStr (ep_policy_sha256 p)),
             (''employee_id'', JStr (ep_employee_id p)),
             (''task_id'', JStr (ep_task_id p)),
             (''runtime_id'', JStr (ep_runtime_id p)),
             (''provider'', jopt JStr (ep_provider p)),
             (''model'', jopt JStr (ep_model p)),
             (''workspace_mode'', JStr (ep_workspace_mode p)),
             (''read_roots'', jstrs (ep_read_roots p)),
             (''write_roots'', jstrs (ep_write_roots p)),
             (''network_access'', JStr (ep_network_access p)),
             (''graph_scope'', jstrs (ep_graph_scope p)),
             (''knowledge_scope'', jstrs (ep_knowledge_scope p)),
             (''token_budget'', jopt JInt (ep_token_budget p)),
             (''cost_budget'', jopt (\<lambda>d. JStr (dec_format (dec_normalize d))) (ep_cost_budget p)),
             (''allowed_tools'', jstrs (sorted_set (pv_allowed_tools v))),
             (''blocked_tools'', jstrs (sorted_set (pv_blocked_tools v))),
             (''secrets_requested'', jstrs (sort (ep_requested_secrets p))),
             (''required_approvals'', jstrs missing),
             (''potential_side_effects'', jstrs (sort (ep_potential_side_effects p))),
             (''outcome'', JStr outcome),
             (''reason_codes'', jstrs (sorted_set (pv_reasons v))),
             (''dry_run'', JBool True),
             (''created_at'', jtime created_at)]
      in \<lparr>schema_name = ''PolicySimulationV1'', schema_version = SCHEMA_VERSION,
          id_scheme_version = ID_SCHEME_VERSION, extensions = [],
          ps_simulation_id = derive_id sha ''psim'' (JObj
            [(''plan_id'', JStr (ep_plan_id p)),
             (''policy_sha256'', JStr (ep_policy_sha256 p)),
             (''decision_sha256'', JStr (sha256_hex sha (json_bytes identity)))]),
          ps_plan_id = ep_plan_id p, ps_policy_sha256 = ep_policy_sha256 p,
          ps_employee_id = Some (ep_employee_id p), ps_task_id = Some (ep_task_id p),
          ps_runtime_id = Some (ep_runtime_id p), ps_provider = ep_provider p, ps_model = ep_model p,
          ps_workspace_mode = Some (ep_workspace_mode p), ps_read_roots = ep_read_roots p,
          ps_write_roots = ep_write_roots p, ps_network_access = Some (ep_network_access p),
          ps_graph_scope = ep_graph_scope p, ps_knowledge_scope = ep_knowledge_scope p,
          ps_token_budget = ep_token_budget p, ps_cost_budget = ep_cost_budget p,
          ps_allowed_tools = sorted_set (pv_allowed_tools v),
          ps_blocked_tools = sorted_set (pv_blocked_tools v),
          ps_secrets_requested = sort (ep_requested_secrets p), ps_required_approvals = missing,
          ps_potential_side_effects = sort (ep_potential_side_effects p), ps_outcome = outcome,
          ps_reason_codes = sorted_set (pv_reasons v), ps_dry_run = True, ps_created_at = created_at\<rparr>)"

datatype policy_error = PolicyKeyError | PolicyValueError

text \<open>
  \<open>strip\<close> only matters for the reason codes and approval kinds the caller passes in: the other
  strings come from a plan, whose constructor has stripped them.
\<close>

definition evaluate_execution ::
    "digest \<Rightarrow> (string \<Rightarrow> string) \<Rightarrow> execution_plan \<Rightarrow> feature_config \<Rightarrow> runtime_context \<Rightarrow> datetime \<Rightarrow>
     (policy_error, policy_simulation) result" where
  "evaluate_execution sha strip p features ctx now =
     rbind (rcatch (plan_verdict_for p features ctx) (\<lambda>_. PolicyKeyError)) (\<lambda>v.
     let s = simulation_of sha p v (rc_granted_approval_kinds ctx) now;
         s' = s\<lparr>ps_required_approvals := map strip (ps_required_approvals s),
                ps_reason_codes := map strip (ps_reason_codes s)\<rparr>
     in if PolicySimulation_ok s' then Inr s' else Inl PolicyValueError)"

subsection \<open>The runtime execution policy\<close>

definition policy_version :: string where "policy_version = ''1.0.0''"

definition policy_document :: jval where
  "policy_document = JObj
     [(''runtime_requires_dual_feature_gate'', JBool True),
      (''managed_workspace_only'', JBool True),
      (''graph_first_fails_closed'', JBool True),
      (''provider_egress_requires_scoped_approval'', JBool True),
      (''external_side_effects_forbidden'', JBool True),
      (''budget_hard_stop'', JBool True)]"

definition policy_sha256 :: "digest \<Rightarrow> string" where
  "policy_sha256 sha = sha256_hex sha (json_bytes policy_document)"

definition provider_destination :: "string \<Rightarrow> string option" where
  "provider_destination adapter_id =
     (if adapter_id = ''adapter_codex_local'' then Some ''provider:openai''
      else if adapter_id = ''adapter_claude_code'' then Some ''provider:anthropic''
      else None)"

datatype approval_input = RecordApproval approval_record | RuntimeApproval execution_approval

record policy_request =
  pq_target_id :: string
  pq_payload_sha256 :: string
  pq_adapter_id :: string
  pq_filesystem_policy :: filesystem_policy
  pq_sensitivity :: Sensitivity
  pq_graph_current :: bool
  pq_graph_required :: bool
  pq_employee_id :: "string option"
  pq_task_id :: "string option"
  pq_run_id :: "string option"
  pq_workspace_id :: "string option"
  pq_budget_policy :: "budget_policy option"
  pq_budget_usage :: "budget_usage option"
  pq_approval :: "approval_input option"
  pq_scheduled_wake :: bool

definition observed_cost :: "budget_usage \<Rightarrow> int option" where
  "observed_cost u = (case bu_actual_cost_micros u of None \<Rightarrow> bu_estimated_cost_micros u | Some c \<Rightarrow> Some c)"

definition over_cap :: "int \<Rightarrow> int \<Rightarrow> bool" where
  "over_cap cap consumed \<longleftrightarrow> cap > 0 \<and> consumed \<ge> cap"

definition budget_exhausted :: "budget_policy \<Rightarrow> budget_usage option \<Rightarrow> bool" where
  "budget_exhausted policy usage =
     (case usage of
        None \<Rightarrow> False
      | Some u \<Rightarrow>
          if bu_budget_policy_id u \<noteq> bp_budget_policy_id policy then True
          else if over_cap (tb_input_tokens (bp_token_limit policy)) (tb_input_tokens (bu_tokens u)) \<or>
                  over_cap (tb_output_tokens (bp_token_limit policy)) (tb_output_tokens (bu_tokens u)) \<or>
                  over_cap (tb_cached_tokens (bp_token_limit policy)) (tb_cached_tokens (bu_tokens u))
          then True
          else if (case bp_cost_limit_micros policy of None \<Rightarrow> False
                   | Some limit \<Rightarrow> (case observed_cost u of None \<Rightarrow> False | Some c \<Rightarrow> c \<ge> limit))
          then True
          else if over_cap (bp_run_limit policy) (bu_run_count u) then True
          else over_cap (bp_heartbeat_limit policy) (bu_heartbeat_count u))"

definition approval_scope_of :: "approval_input \<Rightarrow> string list" where
  "approval_scope_of a = (case a of RecordApproval r \<Rightarrow> ar_scope r | RuntimeApproval r \<Rightarrow> ea_scope r)"

definition approval_valid ::
    "approval_input \<Rightarrow> policy_request \<Rightarrow> string \<Rightarrow> string list \<Rightarrow> datetime \<Rightarrow> bool" where
  "approval_valid approval q destination required_scope at =
     (if \<not> set required_scope \<subseteq> set (approval_scope_of approval) then False
      else case approval of
        RecordApproval r \<Rightarrow>
          is_valid_for r ''execute_runtime'' (pq_target_id q) (pq_payload_sha256 q) at (Some destination)
      | RuntimeApproval r \<Rightarrow>
          ea_action r = ''execute_runtime'' \<and> ea_payload_sha256 r = pq_payload_sha256 q \<and>
          ea_destination r = Some destination \<and> ea_employee_id r = pq_employee_id q \<and>
          ea_task_id r = pq_task_id q \<and> ea_run_id r = pq_run_id q \<and>
          ea_workspace_id r = pq_workspace_id q \<and> ea_approved_at r \<le> at \<and> at < ea_expires_at r)"

definition required_scope_for :: "Sensitivity \<Rightarrow> string list" where
  "required_scope_for s =
     (if s \<noteq> PUBLIC then [''private_corpus_egress'', ''provider_egress'', ''runtime_execution'']
      else [''provider_egress'', ''runtime_execution''])"

text \<open>The chain of tests up to the budget, with the reasons of the first that denies.\<close>

definition gate_denial :: "policy_request \<Rightarrow> feature_flags \<Rightarrow> string list option" where
  "gate_denial q flags =
     (let runtime = runtime_feature_reasons (ff_runtime_execution_enabled flags)
                      (adapter_enabled flags (pq_adapter_id q)) in
      if runtime \<noteq> [] then Some (sorted_set runtime)
      else if \<not> ff_digital_employees_enabled flags then Some [''digital_employees_disabled'']
      else if \<not> adapter_enabled flags (pq_adapter_id q) then Some [''runtime_adapter_disabled'']
      else if pq_scheduled_wake q \<and> \<not> ff_scheduled_heartbeats_enabled flags
        then Some [''scheduled_heartbeats_disabled'']
      else if pq_graph_required q \<and> \<not> pq_graph_current q then Some [''code_graph_not_current'']
      else if \<not> fp_allow_workspace_read (pq_filesystem_policy q)
        then Some [''workspace_read_not_granted'']
      else if (case pq_budget_policy q of None \<Rightarrow> False | Some b \<Rightarrow> budget_exhausted b (pq_budget_usage q))
        then Some [''budget_exhausted'']
      else None)"

text \<open>The whole chain: outcome, reason codes and the approval scope asked for.\<close>

definition decide :: "policy_request \<Rightarrow> feature_flags \<Rightarrow> datetime \<Rightarrow> PolicyOutcome \<times> string list \<times> string list" where
  "decide q flags at =
     (case gate_denial q flags of
        Some reasons \<Rightarrow> (DENY, reasons, [])
      | None \<Rightarrow>
         (case provider_destination (pq_adapter_id q) of
            Some destination \<Rightarrow>
              (let scope = required_scope_for (pq_sensitivity q) in
               case pq_approval q of
                 None \<Rightarrow> (REQUIRE_APPROVAL, [''provider_egress_approval_required''], scope)
               | Some approval \<Rightarrow>
                   if \<not> approval_valid approval q destination scope at
                   then (DENY, [''provider_egress_approval_invalid''], scope)
                   else (ALLOW, [''scoped_provider_egress_approved''], scope))
          | None \<Rightarrow> (ALLOW, [''local_deterministic_adapter''], [])))"

definition evaluate_execution_policy ::
    "digest \<Rightarrow> (string \<Rightarrow> string) \<Rightarrow> policy_request \<Rightarrow> feature_flags \<Rightarrow> datetime \<Rightarrow>
     (policy_error, policy_decision) result" where
  "evaluate_execution_policy sha strip q flags at =
     (case decide q flags at of (outcome, reasons, scope) \<Rightarrow>
      let destination = provider_destination (pq_adapter_id q);
          material = JObj
            [(''action'', JStr ''execute_runtime''),
             (''target_id'', JStr (pq_target_id q)),
             (''payload_sha256'', JStr (pq_payload_sha256 q)),
             (''destination'', jopt JStr destination),
             (''policy_version'', JStr policy_version),
             (''policy_sha256'', JStr (policy_sha256 sha)),
             (''outcome'', JStr (PolicyOutcome_value outcome)),
             (''reason_codes'', jstrs reasons),
             (''required_approval_scope'', jstrs scope),
             (''evaluated_at'', jtime at)];
          d = \<lparr>schema_name = ''PolicyDecisionV1'', schema_version = SCHEMA_VERSION,
               id_scheme_version = ID_SCHEME_VERSION, extensions = [],
               pd_policy_decision_id = strip (derive_id sha ''pdec'' material),
               pd_action = ''execute_runtime'', pd_target_id = strip (pq_target_id q),
               pd_payload_sha256 = strip (pq_payload_sha256 q), pd_destination = destination,
               pd_policy_version = policy_version, pd_policy_sha256 = policy_sha256 sha,
               pd_outcome = outcome, pd_reason_codes = reasons, pd_required_approval_scope = scope,
               pd_evaluated_at = at\<rparr>
      in if PolicyDecision_ok d then Inr d else Inl PolicyValueError)"

section \<open>Lemmas\<close>

lemma verdict_outcome_iff:
  "verdict_outcome v granted = ''allowed'' \<longleftrightarrow> pv_reasons v = [] \<and> set (pv_approvals v) \<subseteq> granted"
  "verdict_outcome v granted = ''blocked'' \<longleftrightarrow> pv_reasons v \<noteq> []"
  by (auto simp: verdict_outcome_def filter_empty_conv)

lemma evaluate_execution_Inr:
  assumes "evaluate_execution sha strip p features ctx now = Inr s"
  obtains v where "plan_verdict_for p features ctx = Inr v"
    "ps_outcome s = verdict_outcome v (rc_granted_approval_kinds ctx)"
  using assms
  by (auto simp: evaluate_execution_def result_simps Let_def simulation_of_def split: if_splits)

lemma plan_verdict_reasons:
  assumes "plan_verdict_for p features ctx = Inr v"
  shows "set (workspace_reasons p) \<union> set (emergency_reasons p (rc_emergency_actions ctx)) \<union>
     set (egress_reasons p) \<union> set (rc_runtime_reason_codes ctx) \<union>
     set (runtime_feature_reasons (rc_runtime_execution_enabled ctx) (rc_runtime_adapter_enabled ctx))
     \<subseteq> set (pv_reasons v)"
    and "set (plan_approvals p) \<union> set (rc_runtime_required_approvals ctx) \<subseteq> set (pv_approvals v)"
  using assms by (auto simp: plan_verdict_for_def result_simps)

lemma emergency_reasons_mono:
  "actions \<subseteq> actions' \<Longrightarrow> set (emergency_reasons p actions) \<subseteq> set (emergency_reasons p actions')"
proof -
  have one: "set (if b then [x] else []) = {y. b \<and> y = x}" for b and x :: string by simp
  assume "actions \<subseteq> actions'"
  then show ?thesis unfolding emergency_reasons_def set_append one by blast
qed

lemma plan_verdict_emergency:
  assumes "plan_verdict_for p features ctx = Inr v"
    "plan_verdict_for p features (ctx\<lparr>rc_emergency_actions := actions\<rparr>) = Inr v'"
    "actions \<subseteq> rc_emergency_actions ctx"
  shows "set (pv_reasons v') \<subseteq> set (pv_reasons v)" "pv_approvals v' = pv_approvals v"
proof -
  from assms(1) obtain sec ts where c: "secret_reasons p features = Inr sec"
      "rmap (tool_verdict_for features) (ep_requested_tools p) = Inr ts"
    by (auto simp: plan_verdict_for_def result_simps)
  show "set (pv_reasons v') \<subseteq> set (pv_reasons v)"
    using assms(1,2) c emergency_reasons_mono [OF assms(3), of p]
    by (clarsimp simp: plan_verdict_for_def) blast
  show "pv_approvals v' = pv_approvals v"
    using assms(1,2) c by (clarsimp simp: plan_verdict_for_def)
qed

lemma runtime_feature_reasons_Nil: "runtime_feature_reasons a b = [] \<longleftrightarrow> a \<and> b"
  by (simp add: runtime_feature_reasons_def)

lemma gate_denial_None:
  "gate_denial q flags = None \<longleftrightarrow>
     ff_runtime_execution_enabled flags \<and> ff_digital_employees_enabled flags \<and>
     adapter_enabled flags (pq_adapter_id q) \<and>
     (pq_scheduled_wake q \<longrightarrow> ff_scheduled_heartbeats_enabled flags) \<and>
     (pq_graph_required q \<longrightarrow> pq_graph_current q) \<and> fp_allow_workspace_read (pq_filesystem_policy q) \<and>
     (\<forall>b. pq_budget_policy q = Some b \<longrightarrow> \<not> budget_exhausted b (pq_budget_usage q))"
  by (cases "pq_budget_policy q") (auto simp: gate_denial_def Let_def runtime_feature_reasons_Nil)

lemma decide_allow_iff:
  "fst (decide q flags at) = ALLOW \<longleftrightarrow> gate_denial q flags = None \<and>
     (\<forall>d. provider_destination (pq_adapter_id q) = Some d \<longrightarrow>
        (\<exists>a. pq_approval q = Some a \<and> approval_valid a q d (required_scope_for (pq_sensitivity q)) at))"
  by (cases "gate_denial q flags"; cases "provider_destination (pq_adapter_id q)"; cases "pq_approval q")
    (simp_all add: decide_def Let_def)

lemma evaluate_execution_policy_outcome:
  "evaluate_execution_policy sha strip q flags at = Inr d \<Longrightarrow> pd_outcome d = fst (decide q flags at)"
  by (auto simp: evaluate_execution_policy_def Let_def split: prod.splits if_splits)

section \<open>Properties\<close>

text \<open>C19: the runtime policy allows an execution exactly when every gate is open: both runtime feature
  gates, digital employees, the schedule gate for scheduled wakes, a current graph where one is
  required, a readable workspace, a budget that is not exhausted and, for an adapter that talks to a
  provider, an approval whose scope covers the sensitivity of the data and which is valid for this
  very payload, destination and time.\<close>

theorem runtime_allowed_exactly_when_gates_open:
  assumes "evaluate_execution_policy sha strip q flags at = Inr d"
  shows "pd_outcome d = ALLOW \<longleftrightarrow>
     ff_runtime_execution_enabled flags \<and> ff_digital_employees_enabled flags \<and>
     adapter_enabled flags (pq_adapter_id q) \<and>
     (pq_scheduled_wake q \<longrightarrow> ff_scheduled_heartbeats_enabled flags) \<and>
     (pq_graph_required q \<longrightarrow> pq_graph_current q) \<and> fp_allow_workspace_read (pq_filesystem_policy q) \<and>
     (\<forall>b. pq_budget_policy q = Some b \<longrightarrow> \<not> budget_exhausted b (pq_budget_usage q)) \<and>
     (\<forall>dest. provider_destination (pq_adapter_id q) = Some dest \<longrightarrow>
        (\<exists>a. pq_approval q = Some a \<and> approval_valid a q dest (required_scope_for (pq_sensitivity q)) at))"
  using evaluate_execution_policy_outcome [OF assms] decide_allow_iff [of q flags at] gate_denial_None [of q flags]
  by simp

definition sample_digest :: digest where "sample_digest b = replicate 64 CHR ''a''"

definition sample_flags :: feature_flags where
  "sample_flags = (flags_of [])\<lparr>ff_runtime_execution_enabled := True, ff_codex_local_enabled := True\<rparr>"

definition sample_fs_policy :: filesystem_policy where
  "sample_fs_policy = \<lparr>schema_name = ''FilesystemPolicyV1'', schema_version = SCHEMA_VERSION,
     id_scheme_version = ID_SCHEME_VERSION, extensions = [], fp_mode = TASK_WORKTREE,
     fp_allow_workspace_read = True, fp_allow_staged_write = True, fp_allow_git_read = True,
     fp_allow_git_write = False, fp_approved_external_root_id = None\<rparr>"

definition sample_policy_request :: policy_request where
  "sample_policy_request = \<lparr>pq_target_id = ''target'', pq_payload_sha256 = replicate 64 CHR ''a'',
     pq_adapter_id = ''adapter_codex_local'', pq_filesystem_policy = sample_fs_policy,
     pq_sensitivity = INTERNAL, pq_graph_current = True, pq_graph_required = True,
     pq_employee_id = None, pq_task_id = None, pq_run_id = None, pq_workspace_id = None,
     pq_budget_policy = None, pq_budget_usage = None, pq_approval = None, pq_scheduled_wake = False\<rparr>"

lemma sample_decision:
  "\<exists>d. evaluate_execution_policy sample_digest id sample_policy_request sample_flags 0 = Inr d \<and>
     pd_outcome d = REQUIRE_APPROVAL"
proof -
  have id: "is_Identifier (derive_id sample_digest ''pdec'' m)" for m
    unfolding derive_id_def sha256_hex_def sample_digest_def by code_simp
  have "is_Sha256 (replicate 64 CHR ''a'')" "is_Identifier ''execute_runtime''" "is_Identifier ''target''"
      "is_NonEmptyStr ''provider:openai''" "is_NonEmptyStr ''1.0.0''"
      "is_Identifier ''provider_egress_approval_required''" "is_Identifier ''private_corpus_egress''"
      "is_Identifier ''provider_egress''" "is_Identifier ''runtime_execution''"
      "current_schema_major SCHEMA_VERSION"
    by code_simp+
  then show ?thesis
    using id
    by (simp add: evaluate_execution_policy_def decide_def gate_denial_def sample_policy_request_def sample_flags_def flags_of_def
        get_bool_def runtime_feature_reasons_def adapter_enabled_def provider_destination_def sample_fs_policy_def
        required_scope_for_def Let_def PolicyDecision_ok_def versioned_ok_def opt_ok_def policy_version_def
        policy_sha256_def sha256_hex_def sample_digest_def)
qed

theorem runtime_allowed_exactly_when_gates_open_witness:
  "\<exists>d. evaluate_execution_policy sample_digest id sample_policy_request sample_flags 0 = Inr d \<and>
     (pd_outcome d = ALLOW) =
     (\<exists>a. pq_approval sample_policy_request = Some a \<and>
        approval_valid a sample_policy_request ''provider:openai'' (required_scope_for INTERNAL) 0)"
proof -
  obtain d where d: "evaluate_execution_policy sample_digest id sample_policy_request sample_flags 0 = Inr d"
    using sample_decision by blast
  from runtime_allowed_exactly_when_gates_open [OF d] d show ?thesis
    by (auto simp: sample_policy_request_def sample_flags_def flags_of_def get_bool_def adapter_enabled_def
        provider_destination_def sample_fs_policy_def)
qed

definition sample_plan :: "string list \<Rightarrow> execution_plan" where
  "sample_plan roots = \<lparr>schema_name = ''ExecutionPlanV1'', schema_version = SCHEMA_VERSION,
     id_scheme_version = ID_SCHEME_VERSION, extensions = [], ep_plan_id = ''plan'', ep_employee_id = ''em'',
     ep_task_id = ''task'', ep_task_revision = 1, ep_runtime_id = ''adapter_fake'', ep_provider = None,
     ep_model = None, ep_workspace_mode = ''isolated'', ep_read_roots = roots, ep_write_roots = roots,
     ep_network_access = ''none'', ep_network_destinations = [], ep_requested_tools = [''get_status''],
     ep_requested_secrets = [], ep_graph_scope = [], ep_knowledge_scope = [], ep_token_budget = None,
     ep_cost_budget = None, ep_potential_side_effects = [], ep_policy_sha256 = replicate 64 CHR ''a''\<rparr>"

definition sample_features :: feature_config where
  "sample_features = \<lparr>fc_version = ''1'', fc_store = ''ops/platform.sqlite'', fc_flags = Map.empty,
     fc_policy = [], fc_circuit_breakers = [], fc_config_sha256 = ''h''\<rparr>"

definition sample_context :: "string set \<Rightarrow> runtime_context" where
  "sample_context actions = \<lparr>rc_emergency_actions = actions, rc_granted_approval_kinds = {},
     rc_runtime_execution_enabled = True, rc_runtime_adapter_enabled = True,
     rc_runtime_reason_codes = [], rc_runtime_required_approvals = []\<rparr>"

lemma sample_plan_verdict:
  assumes "list_all (\<lambda>path. \<not> under_root path protected_roots) roots"
    "''disable_runtime_execution'' \<notin> actions" "''pause_all_employees'' \<notin> actions"
  shows "plan_verdict_for (sample_plan roots) sample_features (sample_context actions) =
    Inr \<lparr>pv_reasons = [], pv_approvals = [], pv_allowed_tools = [''get_status''], pv_blocked_tools = []\<rparr>"
proof -
  have "\<not> list_ex (\<lambda>path. under_root path protected_roots) (roots @ roots)"
    using assms(1) by (auto simp: list_ex_iff list_all_iff)
  with assms(2,3) show ?thesis
    by (simp add: plan_verdict_for_def sample_plan_def sample_context_def secret_reasons_def tool_verdict_for_def
        read_only_tools_def runtime_feature_reasons_def workspace_reasons_def emergency_reasons_def
        egress_reasons_def plan_approvals_def)
qed

lemma sample_plan_allowed:
  assumes "list_all (\<lambda>path. \<not> under_root path protected_roots) roots" "list_all is_RelativePath roots"
    "''disable_runtime_execution'' \<notin> actions" "''pause_all_employees'' \<notin> actions"
  shows "\<exists>s. evaluate_execution sample_digest id (sample_plan roots) sample_features (sample_context actions) 0 = Inr s \<and>
    ps_outcome s = ''allowed''"
proof -
  have id: "is_Identifier (derive_id sample_digest ''psim'' m)" for m
    unfolding derive_id_def sha256_hex_def sample_digest_def by code_simp
  have "is_Sha256 (replicate 64 CHR ''a'')" "is_Identifier ''plan''" "is_Identifier ''em''"
      "is_Identifier ''task''" "is_Identifier ''adapter_fake''" "is_Identifier ''get_status''"
      "current_schema_major SCHEMA_VERSION"
    by code_simp+
  then show ?thesis
    using id assms(2) sample_plan_verdict [OF assms(1,3,4)]
    by (simp add: evaluate_execution_def simulation_of_def Let_def PolicySimulation_ok_def versioned_ok_def
        simulation_invariants_def verdict_outcome_def sample_plan_def sample_context_def opt_ok_def sorted_set_def)
qed

text \<open>the shared policy allows a plan only if nothing speaks against it and every approval it needs
  has been granted; in particular no emergency action concerns it, no root lies below a protected
  root, and a staging plan writes only below the staging roots.\<close>

theorem allowed_plan_is_clean:
  assumes "evaluate_execution sha strip p features ctx now = Inr s" "ps_outcome s = ''allowed''"
  shows "set (plan_approvals p) \<union> set (rc_runtime_required_approvals ctx) \<subseteq> rc_granted_approval_kinds ctx \<and>
    emergency_reasons p (rc_emergency_actions ctx) = [] \<and> rc_runtime_reason_codes ctx = [] \<and>
    rc_runtime_execution_enabled ctx \<and> rc_runtime_adapter_enabled ctx \<and>
    list_all (\<lambda>path. \<not> under_root path protected_roots) (ep_read_roots p @ ep_write_roots p) \<and>
    (ep_workspace_mode p = ''staging_only'' \<longrightarrow>
       list_all (\<lambda>path. under_root path staging_write_roots) (ep_write_roots p))"
proof -
  obtain v where v: "plan_verdict_for p features ctx = Inr v"
      "ps_outcome s = verdict_outcome v (rc_granted_approval_kinds ctx)"
    by (rule evaluate_execution_Inr [OF assms(1)])
  then have "pv_reasons v = []" "set (pv_approvals v) \<subseteq> rc_granted_approval_kinds ctx"
    using verdict_outcome_iff(1) [of v "rc_granted_approval_kinds ctx"] assms(2) by simp_all
  with plan_verdict_reasons [OF v(1)]
  have e: "workspace_reasons p = []" "emergency_reasons p (rc_emergency_actions ctx) = []"
      "rc_runtime_reason_codes ctx = []"
      "runtime_feature_reasons (rc_runtime_execution_enabled ctx) (rc_runtime_adapter_enabled ctx) = []"
      "set (plan_approvals p) \<union> set (rc_runtime_required_approvals ctx) \<subseteq> rc_granted_approval_kinds ctx"
    by auto
  from e(1) have "list_all (\<lambda>path. \<not> under_root path protected_roots) (ep_read_roots p @ ep_write_roots p)"
      "ep_workspace_mode p = ''staging_only'' \<longrightarrow>
         list_all (\<lambda>path. under_root path staging_write_roots) (ep_write_roots p)"
    unfolding workspace_reasons_def by (auto simp: list_ex_iff list_all_iff split: if_splits)
  moreover from e(4) have "rc_runtime_execution_enabled ctx" "rc_runtime_adapter_enabled ctx"
    by (auto simp: runtime_feature_reasons_def split: if_splits)
  ultimately show ?thesis using e by blast
qed

theorem allowed_plan_is_clean_witness:
  "emergency_reasons (sample_plan [''docs'']) {''disable_network_adapters''} = []"
proof -
  have "list_all is_RelativePath [''docs'']" by code_simp
  then obtain s where "evaluate_execution sample_digest id (sample_plan [''docs'']) sample_features
      (sample_context {''disable_network_adapters''}) 0 = Inr s" "ps_outcome s = ''allowed''"
    using sample_plan_allowed [of "[''docs'']" "{''disable_network_adapters''}"]
    by (auto simp: under_root_def protected_roots_def starts_with_def)
  from allowed_plan_is_clean [OF this] show ?thesis by (simp add: sample_context_def)
qed

text \<open>emergency actions only restrict. Whatever a plan may do under some active actions it may also
  do when fewer are active.\<close>

theorem emergency_only_restricts:
  assumes "evaluate_execution sha strip p features ctx now = Inr s" "ps_outcome s = ''allowed''"
    and "actions \<subseteq> rc_emergency_actions ctx"
    and "evaluate_execution sha strip p features (ctx\<lparr>rc_emergency_actions := actions\<rparr>) now = Inr s'"
  shows "ps_outcome s' = ''allowed''"
proof -
  obtain v where v: "plan_verdict_for p features ctx = Inr v"
      "ps_outcome s = verdict_outcome v (rc_granted_approval_kinds ctx)"
    by (rule evaluate_execution_Inr [OF assms(1)])
  obtain v' where v': "plan_verdict_for p features (ctx\<lparr>rc_emergency_actions := actions\<rparr>) = Inr v'"
      "ps_outcome s' = verdict_outcome v' (rc_granted_approval_kinds ctx)"
    by (rule evaluate_execution_Inr [OF assms(4)]) simp
  have "pv_reasons v = []" "set (pv_approvals v) \<subseteq> rc_granted_approval_kinds ctx"
    using v(2) assms(2) verdict_outcome_iff(1) [of v "rc_granted_approval_kinds ctx"] by simp_all
  with plan_verdict_emergency [OF v(1) v'(1) assms(3)] show ?thesis
    unfolding v'(2) verdict_outcome_iff(1) by simp
qed

theorem emergency_only_restricts_witness:
  "\<exists>s'. evaluate_execution sample_digest id (sample_plan [''docs'']) sample_features (sample_context {}) 0 = Inr s' \<and>
     ps_outcome s' = ''allowed''"
proof -
  have docs: "list_all is_RelativePath [''docs'']" by code_simp
  then obtain s where s: "evaluate_execution sample_digest id (sample_plan [''docs'']) sample_features
      (sample_context {''disable_network_adapters''}) 0 = Inr s" "ps_outcome s = ''allowed''"
    using sample_plan_allowed [of "[''docs'']" "{''disable_network_adapters''}"]
    by (auto simp: under_root_def protected_roots_def starts_with_def)
  obtain s' where s': "evaluate_execution sample_digest id (sample_plan [''docs'']) sample_features
      (sample_context {}) 0 = Inr s'"
    using sample_plan_allowed [of "[''docs'']" "{}"] docs
    by (auto simp: under_root_def protected_roots_def starts_with_def)
  from emergency_only_restricts [OF s, of "{}" s'] s' show ?thesis by (simp add: sample_context_def)
qed

text \<open>The protected roots are only checked from below. A plan that asks to read and write \<open>ledger\<close>,
  which contains the protected \<open>ledger/objects\<close> and \<open>ledger/generations\<close>, is allowed without any
  approval.\<close>

theorem parent_of_protected_root_is_allowed:
  "\<exists>s. evaluate_execution sample_digest id (sample_plan [''ledger'']) sample_features (sample_context {}) 0 = Inr s \<and>
     ps_outcome s = ''allowed'' \<and> ps_write_roots s = [''ledger''] \<and>
     starts_with ''ledger/objects'' (''ledger'' @ ''/'') \<and> ''ledger/objects'' \<in> set protected_roots"
proof -
  have "list_all is_RelativePath [''ledger'']" by code_simp
  moreover have "list_all (\<lambda>path. \<not> under_root path protected_roots) [''ledger'']"
    by (simp add: under_root_def protected_roots_def starts_with_def)
  ultimately obtain s where s: "evaluate_execution sample_digest id (sample_plan [''ledger'']) sample_features
      (sample_context {}) 0 = Inr s" "ps_outcome s = ''allowed''"
    using sample_plan_allowed [of "[''ledger'']" "{}"] by auto
  from s(1) have "ps_write_roots s = [''ledger'']"
    by (auto simp: evaluate_execution_def result_simps simulation_of_def Let_def sample_plan_def split: if_splits)
  with s show ?thesis by (auto simp: starts_with_def protected_roots_def)
qed

end
