(* ===== verification/Runtime_Commands.thy ===== *)
theory Runtime_Commands
  imports Files Execution_Contracts
begin

text \<open>
  Model of the command side of \<open>src/raytsystem/execution/adapters.py\<close>: the managed working directory,
  the runtime request, the grammar every command line has to pass, the command builders of the three
  adapters, their health reports and the bounded output buffer of the process supervisor. A path of
  the host is the list of its parts below \<open>/\<close>; the executable lookup (\<open>shutil.which\<close>) and the version
  probe are injected functions, as in the code. Starting and stopping the process itself is not
  modelled; the supervisor's verdict on a finished wait is.
\<close>

section \<open>Definitions\<close>

datatype adapter_error = AdapterDisabledError | InvalidRuntimeRequest | AdapterLaunchError | ContractValidationError

subsection \<open>Patterns and paths\<close>

definition ascii_alnum :: "char \<Rightarrow> bool" where
  "ascii_alnum c = (let n = of_char c :: nat in
     48 \<le> n \<and> n \<le> 57 \<or> 65 \<le> n \<and> n \<le> 90 \<or> 97 \<le> n \<and> n \<le> 122)"

definition token_pattern :: "string \<Rightarrow> string \<Rightarrow> bool" where
  "token_pattern extra s =
     (case s of [] \<Rightarrow> False
      | c # r \<Rightarrow> ascii_alnum c \<and> length r \<le> 127 \<and> list_all (\<lambda>x. ascii_alnum x \<or> x \<in> set extra) r)"

definition model_pattern :: "string \<Rightarrow> bool" where "model_pattern = token_pattern ''._:/-''"
definition session_pattern :: "string \<Rightarrow> bool" where "session_pattern = token_pattern ''._:-''"
definition workspace_component_pattern :: "string \<Rightarrow> bool" where "workspace_component_pattern = token_pattern ''._-''"

definition forbidden_runtime_flags :: "string list" where
  "forbidden_runtime_flags = [''--allow-dangerously-skip-permissions'',
     ''--dangerously-bypass-approvals-and-sandbox'', ''--dangerously-bypass-hook-trust'',
     ''--dangerously-skip-permissions'']"

definition expected_executable :: "string \<Rightarrow> string option" where
  "expected_executable adapter_id =
     (if adapter_id = ''adapter_claude_code'' then Some ''claude''
      else if adapter_id = ''adapter_codex_local'' then Some ''codex''
      else if adapter_id = ''adapter_fake'' then Some ''raytsystem-fake-runtime''
      else None)"

definition max_prompt_bytes :: nat where "max_prompt_bytes = 1024 * 1024"

text \<open>\<open>Path(s).name\<close>, \<open>Path(s).is_absolute()\<close> and the text of an absolute path.\<close>

definition path_name :: "string \<Rightarrow> string" where
  "path_name s = (let ps = posix_parts s in if ps = [] then [] else last ps)"

definition is_absolute :: "string \<Rightarrow> bool" where
  "is_absolute s = (s \<noteq> [] \<and> hd s = CHR ''/'')"

definition absolute_text :: "string list \<Rightarrow> string" where
  "absolute_text ps = CHR ''/'' # joins ''/'' ps"

subsection \<open>The managed working directory\<close>

record managed_cwd =
  mc_project_root :: "string list"
  mc_token :: string
  mc_mode :: WorkspaceMode

definition safe_relative_path :: "string \<Rightarrow> (adapter_error, string list) result" where
  "safe_relative_path value =
     (if value = [] \<or> CHR 0x00 \<in> set value \<or> CHR 0x5C \<in> set value then Inl InvalidRuntimeRequest
      else let parts = posix_parts value in
        if is_absolute value \<or> list_ex (\<lambda>p. p \<in> {[], ''.'', ''..''}) parts then Inl InvalidRuntimeRequest
        else if (if parts = [] then ''.'' else joins ''/'' parts) \<noteq> value then Inl InvalidRuntimeRequest
        else Inr parts)"

definition managed_root :: "string list \<Rightarrow> string list" where
  "managed_root root = root @ [''.raytsystem'', ''workspaces'']"

definition make_ManagedCwd :: "string list \<Rightarrow> string \<Rightarrow> WorkspaceMode \<Rightarrow> (adapter_error, managed_cwd) result" where
  "make_ManagedCwd root token mode =
     (let cwd = \<lparr>mc_project_root = root, mc_token = token, mc_mode = mode\<rparr> in
      if mode = WORKSPACE_ROOT_READONLY \<and> token = ''.'' then Inr cwd
      else if mode \<noteq> TASK_WORKTREE \<and> mode \<noteq> WORKSPACE_ROOT_READONLY then Inl InvalidRuntimeRequest
      else rbind (safe_relative_path token) (\<lambda>parts.
        if length parts < 3 \<or> take 2 parts \<noteq> [''.raytsystem'', ''workspaces''] then Inl InvalidRuntimeRequest
        else if \<not> workspace_component_pattern (parts ! 2) then Inl InvalidRuntimeRequest
        else if \<not> prefix (collapse [] (managed_root root)) (collapse [] (root @ parts)) then Inl InvalidRuntimeRequest
        else Inr cwd))"

definition readonly_project_root :: "string list \<Rightarrow> (adapter_error, managed_cwd) result" where
  "readonly_project_root root = make_ManagedCwd root ''.'' WORKSPACE_ROOT_READONLY"

definition task_workspace_cwd :: "string list \<Rightarrow> string \<Rightarrow> (adapter_error, managed_cwd) result" where
  "task_workspace_cwd root token = make_ManagedCwd root token TASK_WORKTREE"

definition cwd_path :: "managed_cwd \<Rightarrow> string list" where
  "cwd_path c = (if mc_token c = ''.'' then mc_project_root c else mc_project_root c @ posix_parts (mc_token c))"

text \<open>\<open>lstat\<close> of a directory entry: missing, a real directory, or anything else (a link, a file).\<close>

datatype stat_result = Missing | Directory | OtherNode

definition assert_safe_for_launch ::
    "(string list \<Rightarrow> bool) \<Rightarrow> (string list \<Rightarrow> stat_result) \<Rightarrow> managed_cwd \<Rightarrow> (adapter_error, unit) result" where
  "assert_safe_for_launch is_dir lstat c =
     (let root = mc_project_root c; candidate = cwd_path c;
          rel = drop (length root) candidate in
      if \<not> is_dir root \<or> \<not> is_dir candidate then Inl AdapterLaunchError
      else if list_ex (\<lambda>i. lstat (root @ take (Suc i) rel) \<noteq> Directory) [0..<length rel] then Inl AdapterLaunchError
      else Inr ())"

subsection \<open>Requests and plans\<close>

record runtime_request =
  rq_prompt :: string
  rq_cwd :: managed_cwd
  rq_filesystem_policy :: filesystem_policy
  rq_model :: "string option"
  rq_provider_session_id :: "string option"

definition make_RuntimeRequest :: "runtime_request \<Rightarrow> (adapter_error, runtime_request) result" where
  "make_RuntimeRequest q =
     (if py_strip (rq_prompt q) = [] \<or> CHR 0x00 \<in> set (rq_prompt q) then Inl InvalidRuntimeRequest
      else if length (utf8 (rq_prompt q)) > max_prompt_bytes then Inl InvalidRuntimeRequest
      else if mc_mode (rq_cwd q) \<noteq> fp_mode (rq_filesystem_policy q) then Inl InvalidRuntimeRequest
      else if fp_mode (rq_filesystem_policy q) = APPROVED_EXTERNAL_ROOT then Inl InvalidRuntimeRequest
      else if \<not> opt_ok model_pattern (rq_model q) then Inl InvalidRuntimeRequest
      else if \<not> opt_ok session_pattern (rq_provider_session_id q) then Inl InvalidRuntimeRequest
      else Inr q)"

definition stdin_bytes :: "runtime_request \<Rightarrow> bytes" where
  "stdin_bytes q = utf8 (rq_prompt q)"

definition codex_required :: "string list" where
  "codex_required = [''exec'', ''--json'', ''--sandbox'']"

definition codex_safety :: "string list" where
  "codex_safety = [''--ignore-user-config'', ''-c'', ''shell_environment_policy.inherit=none'']"

definition claude_required :: "string list" where
  "claude_required = [''--print'', ''--bare'', ''--output-format'', ''stream-json'', ''--input-format'', ''text'',
     ''--permission-mode'', ''dontAsk'', ''--disable-slash-commands'', ''--strict-mcp-config'',
     ''--mcp-config'', ''{\"mcpServers\":{}}'', ''--tools'']"

definition codex_sandboxes :: "string list" where
  "codex_sandboxes = [''read-only'', ''workspace-write'']"

definition claude_tool_lists :: "string list" where
  "claude_tool_lists = [''Read,Glob,Grep'', ''Read,Glob,Grep,Edit,Write'']"

definition codex_tail_ok :: "string list \<Rightarrow> bool" where
  "codex_tail_ok tail =
     (tail = [''-''] \<or>
      length tail = 3 \<and> tail ! 0 = ''resume'' \<and> session_pattern (tail ! 1) \<and> tail ! 2 = ''-'')"

definition validate_codex_argv :: "string list \<Rightarrow> (adapter_error, unit) result" where
  "validate_codex_argv argv =
     (if take 3 (drop 1 argv) \<noteq> codex_required \<or> length argv < 11 then Inl InvalidRuntimeRequest
      else if argv ! 4 \<notin> set codex_sandboxes then Inl InvalidRuntimeRequest
      else if argv ! 5 \<noteq> ''-C'' \<or> \<not> is_absolute (argv ! 6) then Inl InvalidRuntimeRequest
      else if take 3 (drop 7 argv) \<noteq> codex_safety then Inl InvalidRuntimeRequest
      else let tail = drop 10 argv in
        if take 1 tail = [''--model''] then
          (if length tail < 3 \<or> \<not> model_pattern (tail ! 1) then Inl InvalidRuntimeRequest
           else ensure (codex_tail_ok (drop 2 tail)) InvalidRuntimeRequest)
        else ensure (codex_tail_ok tail) InvalidRuntimeRequest)"

definition claude_resume_ok :: "string list \<Rightarrow> bool" where
  "claude_resume_ok tail =
     (if take 1 tail = [''--resume''] then length tail = 2 \<and> session_pattern (tail ! 1) else tail = [])"

definition validate_claude_argv :: "string list \<Rightarrow> (adapter_error, unit) result" where
  "validate_claude_argv argv =
     (if take 13 (drop 1 argv) \<noteq> claude_required \<or> length argv < 15 then Inl InvalidRuntimeRequest
      else if argv ! 14 \<notin> set claude_tool_lists then Inl InvalidRuntimeRequest
      else let tail = drop 15 argv in
        if take 1 tail = [''--model''] then
          (if length tail < 2 \<or> \<not> model_pattern (tail ! 1) then Inl InvalidRuntimeRequest
           else ensure (claude_resume_ok (drop 2 tail)) InvalidRuntimeRequest)
        else ensure (claude_resume_ok tail) InvalidRuntimeRequest)"

definition argv_items_ok :: "string list \<Rightarrow> bool" where
  "argv_items_ok argv \<longleftrightarrow> \<not> list_ex (\<lambda>i. i = [] \<or> CHR 0x00 \<in> set i \<or> length i > 4096) argv"

definition validate_safe_command_argv :: "string \<Rightarrow> string list \<Rightarrow> (adapter_error, unit) result" where
  "validate_safe_command_argv adapter_id argv =
     (case expected_executable adapter_id of
        None \<Rightarrow> Inl InvalidRuntimeRequest
      | Some expected \<Rightarrow>
          if argv = [] \<or> path_name (hd argv) \<noteq> expected then Inl InvalidRuntimeRequest
          else if \<not> argv_items_ok argv then Inl InvalidRuntimeRequest
          else if set forbidden_runtime_flags \<inter> set argv \<noteq> {} then Inl InvalidRuntimeRequest
          else if adapter_id = ''adapter_fake'' then ensure (argv = [hd argv, ''--json'']) InvalidRuntimeRequest
          else if adapter_id = ''adapter_codex_local'' then validate_codex_argv argv
          else if adapter_id = ''adapter_claude_code'' then validate_claude_argv argv
          else Inl InvalidRuntimeRequest)"

record command_plan =
  cp_adapter_id :: string
  cp_argv :: "string list"
  cp_cwd :: managed_cwd
  cp_stdin :: bytes

definition make_CommandPlan :: "command_plan \<Rightarrow> (adapter_error, command_plan) result" where
  "make_CommandPlan p =
     rbind (validate_safe_command_argv (cp_adapter_id p) (cp_argv p)) (\<lambda>_.
     if length (cp_stdin p) > max_prompt_bytes then Inl InvalidRuntimeRequest else Inr p)"

subsection \<open>The adapters\<close>

datatype adapter = FakeAdapter bool | CodexLocalAdapter bool | ClaudeLocalAdapter bool bool

fun adapter_id :: "adapter \<Rightarrow> string" where
  "adapter_id (FakeAdapter _) = ''adapter_fake''"
| "adapter_id (CodexLocalAdapter _) = ''adapter_codex_local''"
| "adapter_id (ClaudeLocalAdapter _ _) = ''adapter_claude_code''"

definition codex_sandbox :: "runtime_request \<Rightarrow> string" where
  "codex_sandbox q =
     (if mc_mode (rq_cwd q) = TASK_WORKTREE \<and> fp_allow_staged_write (rq_filesystem_policy q)
      then ''workspace-write'' else ''read-only'')"

definition model_args :: "string option \<Rightarrow> string list" where
  "model_args m = (case m of None \<Rightarrow> [] | Some x \<Rightarrow> [''--model'', x])"

definition codex_argv :: "string \<Rightarrow> string \<Rightarrow> string \<Rightarrow> string option \<Rightarrow> string option \<Rightarrow> string list" where
  "codex_argv executable sandbox cwd model session =
     [executable, ''exec'', ''--json'', ''--sandbox'', sandbox, ''-C'', cwd, ''--ignore-user-config'', ''-c'',
       ''shell_environment_policy.inherit=none''] @ model_args model @
     (case session of None \<Rightarrow> [''-''] | Some s \<Rightarrow> [''resume'', s, ''-''])"

definition claude_tools :: "bool \<Rightarrow> string" where
  "claude_tools write = (if write then ''Read,Glob,Grep,Edit,Write'' else ''Read,Glob,Grep'')"

definition claude_argv :: "string \<Rightarrow> bool \<Rightarrow> string option \<Rightarrow> string option \<Rightarrow> string list" where
  "claude_argv executable write model session =
     [executable, ''--print'', ''--bare'', ''--output-format'', ''stream-json'', ''--input-format'', ''text'',
       ''--permission-mode'', ''dontAsk'', ''--disable-slash-commands'', ''--strict-mcp-config'',
       ''--mcp-config'', ''{\"mcpServers\":{}}'', ''--tools'', claude_tools write] @ model_args model @
     (case session of None \<Rightarrow> [] | Some s \<Rightarrow> [''--resume'', s])"

fun build_command ::
    "(string \<Rightarrow> string option) \<Rightarrow> adapter \<Rightarrow> runtime_request \<Rightarrow> (adapter_error, command_plan) result" where
  "build_command resolver (FakeAdapter enabled) q =
     (if \<not> enabled then Inl AdapterDisabledError
      else make_CommandPlan \<lparr>cp_adapter_id = ''adapter_fake'', cp_argv = [''raytsystem-fake-runtime'', ''--json''],
             cp_cwd = rq_cwd q, cp_stdin = stdin_bytes q\<rparr>)"
| "build_command resolver (CodexLocalAdapter enabled) q =
     (if \<not> enabled then Inl AdapterDisabledError
      else case resolver ''codex'' of
             None \<Rightarrow> Inl AdapterLaunchError
           | Some executable \<Rightarrow> make_CommandPlan \<lparr>cp_adapter_id = ''adapter_codex_local'',
               cp_argv = codex_argv executable (codex_sandbox q) (absolute_text (cwd_path (rq_cwd q)))
                           (rq_model q) (rq_provider_session_id q),
               cp_cwd = rq_cwd q, cp_stdin = stdin_bytes q\<rparr>)"
| "build_command resolver (ClaudeLocalAdapter enabled egress_allowed) q =
     (if \<not> enabled then Inl AdapterDisabledError
      else if \<not> egress_allowed then Inl AdapterDisabledError
      else case resolver ''claude'' of
             None \<Rightarrow> Inl AdapterLaunchError
           | Some executable \<Rightarrow> make_CommandPlan \<lparr>cp_adapter_id = ''adapter_claude_code'',
               cp_argv = claude_argv executable (fp_allow_staged_write (rq_filesystem_policy q))
                           (rq_model q) (rq_provider_session_id q),
               cp_cwd = rq_cwd q, cp_stdin = stdin_bytes q\<rparr>)"

subsection \<open>Health, environment and the supervisor\<close>

definition make_RuntimeHealth :: "(string \<Rightarrow> string) \<Rightarrow> runtime_health \<Rightarrow> (adapter_error, runtime_health) result" where
  "make_RuntimeHealth strip h =
     (let h' = h\<lparr>rh_runtime_adapter_id := strip (rh_runtime_adapter_id h), rh_executable := strip (rh_executable h),
                 rh_version := map_option strip (rh_version h), rh_capabilities := map strip (rh_capabilities h),
                 rh_reason_code := map_option strip (rh_reason_code h)\<rparr>
      in if RuntimeHealth_ok h' then Inr h' else Inl ContractValidationError)"

definition health_of ::
    "string \<Rightarrow> RuntimeHealthStatus \<Rightarrow> string \<Rightarrow> string option \<Rightarrow> string list \<Rightarrow> string option \<Rightarrow> datetime \<Rightarrow> runtime_health" where
  "health_of adapter status executable version capabilities reason at =
     \<lparr>schema_name = ''RuntimeHealthV1'', schema_version = SCHEMA_VERSION, id_scheme_version = ID_SCHEME_VERSION,
      extensions = [], rh_runtime_adapter_id = adapter, rh_status = status, rh_executable = executable,
      rh_version = version, rh_capabilities = capabilities, rh_reason_code = reason, rh_checked_at = at\<rparr>"

definition cli_health ::
    "(string \<Rightarrow> string) \<Rightarrow> string \<Rightarrow> string \<Rightarrow> string list \<Rightarrow> bool \<Rightarrow> string \<Rightarrow> (string \<Rightarrow> string option) \<Rightarrow>
     (string list \<Rightarrow> string option) \<Rightarrow> datetime \<Rightarrow> (adapter_error, runtime_health) result" where
  "cli_health strip adapter executable_name capabilities enabled disabled_reason resolver version_probe at =
     (if \<not> enabled then make_RuntimeHealth strip
        (health_of adapter HEALTH_DISABLED executable_name None capabilities (Some disabled_reason) at)
      else case resolver executable_name of
        None \<Rightarrow> make_RuntimeHealth strip
          (health_of adapter HEALTH_UNAVAILABLE executable_name None capabilities (Some ''executable_not_found'') at)
      | Some executable \<Rightarrow>
          (let version = version_probe [executable, ''--version''] in
           make_RuntimeHealth strip (health_of adapter
             (if version \<noteq> None then HEALTH_AVAILABLE else HEALTH_DEGRADED) executable version capabilities
             (if version \<noteq> None then None else Some ''version_probe_failed'') at)))"

definition adapter_capabilities :: "adapter \<Rightarrow> string list" where
  "adapter_capabilities a =
     (case a of FakeAdapter _ \<Rightarrow> [''read_workspace'', ''staged_write'', ''resume'', ''deterministic'']
      | _ \<Rightarrow> [''read_workspace'', ''staged_write'', ''review'', ''resume'', ''jsonl''])"

fun health_check ::
    "(string \<Rightarrow> string) \<Rightarrow> (string \<Rightarrow> string option) \<Rightarrow> (string list \<Rightarrow> string option) \<Rightarrow> adapter \<Rightarrow> datetime \<Rightarrow>
     (adapter_error, runtime_health) result" where
  "health_check strip resolver probe (FakeAdapter enabled) at =
     make_RuntimeHealth strip (health_of ''adapter_fake'' (if enabled then HEALTH_AVAILABLE else HEALTH_DISABLED)
       ''in_process'' (Some ''1.0.0'') (adapter_capabilities (FakeAdapter enabled))
       (if enabled then None else Some ''feature_disabled'') at)"
| "health_check strip resolver probe (CodexLocalAdapter enabled) at =
     cli_health strip ''adapter_codex_local'' ''codex'' (adapter_capabilities (CodexLocalAdapter enabled)) enabled
       ''feature_disabled'' resolver probe at"
| "health_check strip resolver probe (ClaudeLocalAdapter enabled egress_allowed) at =
     cli_health strip ''adapter_claude_code'' ''claude''
       (adapter_capabilities (ClaudeLocalAdapter enabled egress_allowed)) (enabled \<and> egress_allowed)
       (if \<not> enabled then ''feature_disabled'' else ''egress_policy_denied'') resolver probe at"

definition runtime_env_allowlist :: "string list" where
  "runtime_env_allowlist = [''HOME'', ''LANG'', ''LC_ALL'', ''PATH'', ''SSL_CERT_FILE'']"

definition controlled_runtime_environment :: "(string \<Rightarrow> string option) \<Rightarrow> (string \<times> string) list" where
  "controlled_runtime_environment environ =
     AList.update ''NO_COLOR'' ''1''
       (List.map_filter (\<lambda>key. case environ key of
          None \<Rightarrow> None | Some value \<Rightarrow> if CHR 0x00 \<in> set value then None else Some (key, value))
        runtime_env_allowlist)"

record bounded_output =
  bo_limit :: nat
  bo_consumed :: nat
  bo_stdout :: bytes
  bo_stderr :: bytes
  bo_overflow :: bool

definition new_output :: "nat \<Rightarrow> bounded_output" where
  "new_output limit = \<lparr>bo_limit = limit, bo_consumed = 0, bo_stdout = [], bo_stderr = [], bo_overflow = False\<rparr>"

definition append_output :: "bool \<Rightarrow> bytes \<Rightarrow> bounded_output \<Rightarrow> bounded_output" where
  "append_output to_stdout chunk b =
     (let remaining = bo_limit b - bo_consumed b in
      b\<lparr>bo_stdout := (if to_stdout then bo_stdout b @ take remaining chunk else bo_stdout b),
        bo_stderr := (if to_stdout then bo_stderr b else bo_stderr b @ take remaining chunk),
        bo_consumed := bo_consumed b + min remaining (length chunk),
        bo_overflow := (bo_overflow b \<or> length chunk > remaining)\<rparr>)"

datatype termination_reason = Completed | Timeout | Output_limit | Cancelled

text \<open>The supervisor's verdict: \<open>finished\<close> says that the wait ended before the timeout; a process that
  was stopped has no exit code.\<close>

definition supervise :: "bool \<Rightarrow> bool \<Rightarrow> bool \<Rightarrow> int option \<Rightarrow> termination_reason \<times> int option" where
  "supervise finished overflow cancelled returncode =
     (let reason = (if \<not> finished then Timeout
                    else if overflow then Output_limit
                    else if cancelled then Cancelled else Completed)
      in (reason, if reason = Completed then returncode else None))"

definition outcome_ok :: "termination_reason \<times> int option \<Rightarrow> bool" where
  "outcome_ok r \<longleftrightarrow> fst r = Completed \<and> snd r = Some 0"

section \<open>The grammar of command lines\<close>

lemma ten_items: "10 \<le> length xs \<Longrightarrow> \<exists>a b c d e f g h i j r. xs = a # b # c # d # e # f # g # h # i # j # r"
  by (auto simp: numeral_eq_Suc Suc_le_length_iff)

lemma fifteen_items:
  "15 \<le> length xs \<Longrightarrow> \<exists>a b c d e f g h i j k l m n p r.
     xs = a # b # c # d # e # f # g # h # i # j # k # l # m # n # p # r"
  by (auto simp: numeral_eq_Suc Suc_le_length_iff)

lemma codex_tail_ok_iff: "codex_tail_ok tail \<longleftrightarrow>
    (\<exists>s. opt_ok session_pattern s \<and> tail = (case s of None \<Rightarrow> [''-''] | Some x \<Rightarrow> [''resume'', x, ''-'']))"
proof
  assume "codex_tail_ok tail"
  then consider "tail = [''-'']" | x where "session_pattern x" "tail = [''resume'', x, ''-'']"
    by (auto simp: codex_tail_ok_def numeral_3_eq_3 length_Suc_conv)
  then show "\<exists>s. opt_ok session_pattern s \<and> tail = (case s of None \<Rightarrow> [''-''] | Some x \<Rightarrow> [''resume'', x, ''-''])"
    by cases (auto simp: opt_ok_def split: option.splits intro: exI [of _ None] exI [of _ "Some _"])
qed (auto simp: codex_tail_ok_def opt_ok_def split: option.splits)

lemma claude_resume_ok_iff: "claude_resume_ok tail \<longleftrightarrow>
    (\<exists>s. opt_ok session_pattern s \<and> tail = (case s of None \<Rightarrow> [] | Some x \<Rightarrow> [''--resume'', x]))"
proof
  assume "claude_resume_ok tail"
  then consider "tail = []" | x where "session_pattern x" "tail = [''--resume'', x]"
    by (cases tail; cases "tl tail") (auto simp: claude_resume_ok_def split: if_splits)
  then show "\<exists>s. opt_ok session_pattern s \<and> tail = (case s of None \<Rightarrow> [] | Some x \<Rightarrow> [''--resume'', x])"
    by cases (auto simp: opt_ok_def split: option.splits intro: exI [of _ None] exI [of _ "Some _"])
qed (auto simp: claude_resume_ok_def opt_ok_def split: option.splits)

lemma model_prefix_iff:
  assumes "\<And>t. ok t \<Longrightarrow> t = [] \<or> hd t \<noteq> ''--model''"
  shows "(if take 1 tail = [''--model''] then Suc 0 < length tail \<and> model_pattern (tail ! 1) \<and> ok (drop 2 tail) else ok tail) \<longleftrightarrow>
    (\<exists>m r. opt_ok model_pattern m \<and> ok r \<and> tail = model_args m @ r)"
proof
  assume l: "if take 1 tail = [''--model''] then Suc 0 < length tail \<and> model_pattern (tail ! 1) \<and> ok (drop 2 tail) else ok tail"
  show "\<exists>m r. opt_ok model_pattern m \<and> ok r \<and> tail = model_args m @ r"
  proof (cases "take 1 tail = [''--model'']")
    case True
    with l obtain x r where "tail = ''--model'' # x # r" by (cases tail; cases "tl tail") auto
    with l show ?thesis by (intro exI [of _ "Some x"] exI [of _ r]) (simp add: opt_ok_def model_args_def)
  next
    case False
    with l show ?thesis by (intro exI [of _ None] exI [of _ tail]) (simp add: opt_ok_def model_args_def)
  qed
next
  assume "\<exists>m r. opt_ok model_pattern m \<and> ok r \<and> tail = model_args m @ r"
  then obtain m r where m: "opt_ok model_pattern m" "ok r" "tail = model_args m @ r" by blast
  show "if take 1 tail = [''--model''] then Suc 0 < length tail \<and> model_pattern (tail ! 1) \<and> ok (drop 2 tail) else ok tail"
  proof (cases m)
    case None
    with m assms [of r] show ?thesis by (cases r) (auto simp: model_args_def)
  qed (use m in \<open>simp add: model_args_def opt_ok_def\<close>)
qed

lemma ensure_ok [simp]: "is_ok (ensure b e) \<longleftrightarrow> b"
  by (cases b) simp_all

lemma validate_codex_items:
  "is_ok (validate_codex_argv (a # b # c # d # e # f # g # h # i # j # r)) \<longleftrightarrow>
     [b, c, d] = codex_required \<and> r \<noteq> [] \<and> e \<in> set codex_sandboxes \<and> f = ''-C'' \<and> is_absolute g \<and>
     [h, i, j] = codex_safety \<and>
     (if take 1 r = [''--model''] then Suc 0 < length r \<and> model_pattern (r ! 1) \<and> codex_tail_ok (drop 2 r)
      else codex_tail_ok r)"
proof -
  let ?argv = "a # b # c # d # e # f # g # h # i # j # r"
  have parts: "take 3 (drop 1 ?argv) = [b, c, d]" "length ?argv < 11 \<longleftrightarrow> r = []" "?argv ! 4 = e" "?argv ! 5 = f"
    "?argv ! 6 = g" "take 3 (drop 7 ?argv) = [h, i, j]" "drop 10 ?argv = r"
    by (simp_all add: numeral_eq_Suc)
  have len: "(\<not> length r < 3 \<and> P) \<and> codex_tail_ok (drop 2 r) \<longleftrightarrow> Suc 0 < length r \<and> P \<and> codex_tail_ok (drop 2 r)" for P
    by (auto simp: codex_tail_ok_def)
  show ?thesis
    unfolding validate_codex_argv_def Let_def parts len [symmetric]
    by (simp only: is_ok_simps ensure_ok de_Morgan_disj de_Morgan_conj not_not simp_thms if_distrib [of is_ok] split: if_split) blast
qed

lemma validate_claude_items:
  "is_ok (validate_claude_argv (a # b # c # d # e # f # g # h # i # j # k # l # n # p # q # r)) \<longleftrightarrow>
     [b, c, d, e, f, g, h, i, j, k, l, n, p] = claude_required \<and> q \<in> set claude_tool_lists \<and>
     (if take 1 r = [''--model''] then Suc 0 < length r \<and> model_pattern (r ! 1) \<and> claude_resume_ok (drop 2 r)
      else claude_resume_ok r)"
proof -
  let ?argv = "a # b # c # d # e # f # g # h # i # j # k # l # n # p # q # r"
  have parts: "take 13 (drop 1 ?argv) = [b, c, d, e, f, g, h, i, j, k, l, n, p]" "length ?argv < 15 \<longleftrightarrow> False"
    "?argv ! 14 = q" "drop 15 ?argv = r"
    by (simp_all add: numeral_eq_Suc)
  have len: "length r < 2 \<longleftrightarrow> \<not> Suc 0 < length r" by auto
  show ?thesis
    unfolding validate_claude_argv_def Let_def parts len
    by (simp only: is_ok_simps ensure_ok de_Morgan_disj de_Morgan_conj not_not simp_thms if_distrib [of is_ok] split: if_split) blast
qed

lemma ex_join: "(\<exists>m r. A m \<and> (\<exists>s. B s \<and> r = C s) \<and> x = D m @ r) \<longleftrightarrow> (\<exists>m s. A m \<and> B s \<and> x = D m @ C s)"
  by blast

lemma codex_options_iff:
  "(if take 1 r = [''--model''] then Suc 0 < length r \<and> model_pattern (r ! 1) \<and> codex_tail_ok (drop 2 r)
    else codex_tail_ok r) \<longleftrightarrow>
   (\<exists>m s. opt_ok model_pattern m \<and> opt_ok session_pattern s \<and>
      r = model_args m @ (case s of None \<Rightarrow> [''-''] | Some x \<Rightarrow> [''resume'', x, ''-'']))"
proof -
  have "t = [] \<or> hd t \<noteq> ''--model''" if "codex_tail_ok t" for t
  proof -
    from that obtain s where "t = (case s of None \<Rightarrow> [''-''] | Some x \<Rightarrow> [''resume'', x, ''-''])"
      unfolding codex_tail_ok_iff by (elim exE conjE)
    then show ?thesis by (cases s) simp_all
  qed
  then show ?thesis
    by (rule model_prefix_iff [THEN trans]) (assumption, unfold codex_tail_ok_iff, rule ex_join)
qed

lemma claude_options_iff:
  "(if take 1 r = [''--model''] then Suc 0 < length r \<and> model_pattern (r ! 1) \<and> claude_resume_ok (drop 2 r)
    else claude_resume_ok r) \<longleftrightarrow>
   (\<exists>m s. opt_ok model_pattern m \<and> opt_ok session_pattern s \<and>
      r = model_args m @ (case s of None \<Rightarrow> [] | Some x \<Rightarrow> [''--resume'', x]))"
proof -
  have "t = [] \<or> hd t \<noteq> ''--model''" if "claude_resume_ok t" for t
  proof -
    from that obtain s where "t = (case s of None \<Rightarrow> [] | Some x \<Rightarrow> [''--resume'', x])"
      unfolding claude_resume_ok_iff by (elim exE conjE)
    then show ?thesis by (cases s) simp_all
  qed
  then show ?thesis
    by (rule model_prefix_iff [THEN trans]) (assumption, unfold claude_resume_ok_iff, rule ex_join)
qed

text \<open>The flags the builders write are the flags the grammar asks for.\<close>

lemma codex_argv_parts: "codex_argv exe sandbox cwd m s = [exe] @ codex_required @ [sandbox, ''-C'', cwd] @ codex_safety @
     model_args m @ (case s of None \<Rightarrow> [''-''] | Some x \<Rightarrow> [''resume'', x, ''-''])"
  by (simp add: codex_argv_def codex_required_def codex_safety_def)

lemma claude_argv_parts: "claude_argv exe write m s = [exe] @ claude_required @ [claude_tools write] @
     model_args m @ (case s of None \<Rightarrow> [] | Some x \<Rightarrow> [''--resume'', x])"
  by (simp add: claude_argv_def claude_required_def)

lemma codex_argv_items:
  assumes "[b, c, d] = codex_required" "[h, i, j] = codex_safety"
  shows "codex_argv a e g m s = a # b # c # d # e # ''-C'' # g # h # i # j # model_args m @
     (case s of None \<Rightarrow> [''-''] | Some x \<Rightarrow> [''resume'', x, ''-''])"
  unfolding codex_argv_parts assms [symmetric] append_Cons append_Nil ..

lemma claude_argv_items:
  assumes "[b, c, d, e, f, g, h, i, j, k, l, n, p] = claude_required"
  shows "claude_argv a w m s = a # b # c # d # e # f # g # h # i # j # k # l # n # p # claude_tools w # model_args m @
     (case s of None \<Rightarrow> [] | Some x \<Rightarrow> [''--resume'', x])"
  unfolding claude_argv_parts assms [symmetric] append_Cons append_Nil ..

lemma codex_argv_accepted:
  assumes "sandbox \<in> set codex_sandboxes" "is_absolute cwd" "opt_ok model_pattern m" "opt_ok session_pattern s"
  shows "is_ok (validate_codex_argv (codex_argv exe sandbox cwd m s))"
proof -
  obtain b c d where r: "[b, c, d] = codex_required" by (simp add: codex_required_def)
  obtain h i j where q: "[h, i, j] = codex_safety" by (simp add: codex_safety_def)
  have "model_args m @ (case s of None \<Rightarrow> [''-''] | Some x \<Rightarrow> [''resume'', x, ''-'']) \<noteq> []"
    by (simp split: option.split)
  with r q assms show ?thesis
    unfolding codex_argv_items [OF r q] validate_codex_items codex_options_iff by blast
qed

lemma claude_argv_accepted:
  assumes "opt_ok model_pattern m" "opt_ok session_pattern s"
  shows "is_ok (validate_claude_argv (claude_argv exe write m s))"
proof -
  obtain b c d e f g h i j k l n p where r: "[b, c, d, e, f, g, h, i, j, k, l, n, p] = claude_required"
    by (simp add: claude_required_def)
  have "claude_tools write \<in> set claude_tool_lists" by (simp add: claude_tools_def claude_tool_lists_def)
  with r assms show ?thesis
    unfolding claude_argv_items [OF r] validate_claude_items claude_options_iff by blast
qed

lemma validate_codex_argv_iff: "is_ok (validate_codex_argv argv) \<longleftrightarrow>
   (\<exists>exe sandbox cwd m s. argv = codex_argv exe sandbox cwd m s \<and> sandbox \<in> set codex_sandboxes \<and>
      is_absolute cwd \<and> opt_ok model_pattern m \<and> opt_ok session_pattern s)"
proof
  assume ok: "is_ok (validate_codex_argv argv)"
  then have "10 \<le> length argv" by (auto simp: validate_codex_argv_def split: if_splits)
  from ten_items [OF this] obtain a b c d e f g h i j r where
    argv: "argv = a # b # c # d # e # f # g # h # i # j # r" by blast
  note it = ok [unfolded argv validate_codex_items codex_options_iff]
  from it have r: "[b, c, d] = codex_required" by (rule conjunct1)
  from it have q: "[h, i, j] = codex_safety" by (elim conjE)
  from it have f: "f = ''-C''" by (elim conjE)
  from it obtain m s where ms: "opt_ok model_pattern m" "opt_ok session_pattern s"
    "r = model_args m @ (case s of None \<Rightarrow> [''-''] | Some x \<Rightarrow> [''resume'', x, ''-''])" by (elim conjE exE)
  have "argv = codex_argv a e g m s" unfolding argv codex_argv_items [OF r q] f ms(3) ..
  moreover from it have "e \<in> set codex_sandboxes" "is_absolute g" by - (elim conjE, assumption)+
  ultimately show "\<exists>exe sandbox cwd m s. argv = codex_argv exe sandbox cwd m s \<and>
      sandbox \<in> set codex_sandboxes \<and> is_absolute cwd \<and> opt_ok model_pattern m \<and> opt_ok session_pattern s"
    using ms(1,2) by (intro exI conjI)
qed (elim exE conjE, simp only: codex_argv_accepted)

lemma validate_claude_argv_iff: "is_ok (validate_claude_argv argv) \<longleftrightarrow>
   (\<exists>exe write m s. argv = claude_argv exe write m s \<and> opt_ok model_pattern m \<and> opt_ok session_pattern s)"
proof
  assume ok: "is_ok (validate_claude_argv argv)"
  then have "15 \<le> length argv" by (auto simp: validate_claude_argv_def split: if_splits)
  from fifteen_items [OF this] obtain a b c d e f g h i j k l n p q r where
    argv: "argv = a # b # c # d # e # f # g # h # i # j # k # l # n # p # q # r" by blast
  note it = ok [unfolded argv validate_claude_items claude_options_iff]
  from it have req: "[b, c, d, e, f, g, h, i, j, k, l, n, p] = claude_required" by (rule conjunct1)
  from it have "q \<in> set claude_tool_lists" by (elim conjE)
  then have "q = claude_tools False \<or> q = claude_tools True" by (simp add: claude_tools_def claude_tool_lists_def)
  then obtain w where w: "q = claude_tools w" by blast
  from it obtain m s where ms: "opt_ok model_pattern m" "opt_ok session_pattern s"
    "r = model_args m @ (case s of None \<Rightarrow> [] | Some x \<Rightarrow> [''--resume'', x])" by (elim conjE exE)
  have "argv = claude_argv a w m s" unfolding argv claude_argv_items [OF req] w ms(3) ..
  then show "\<exists>exe write m s. argv = claude_argv exe write m s \<and> opt_ok model_pattern m \<and> opt_ok session_pattern s"
    using ms(1,2) by (intro exI conjI)
qed (elim exE conjE, simp only: claude_argv_accepted)

section \<open>Safety of the plans\<close>

text \<open>Whether the flags of a plan let the runtime write files.\<close>

definition grants_write :: "command_plan \<Rightarrow> bool" where
  "grants_write p =
     (if cp_adapter_id p = ''adapter_codex_local'' then cp_argv p ! 4 \<noteq> ''read-only''
      else if cp_adapter_id p = ''adapter_claude_code'' then cp_argv p ! 14 \<noteq> ''Read,Glob,Grep''
      else False)"

lemma make_CommandPlan_Inr:
  "make_CommandPlan p = Inr p' \<longleftrightarrow>
     p' = p \<and> is_ok (validate_safe_command_argv (cp_adapter_id p) (cp_argv p)) \<and> length (cp_stdin p) \<le> max_prompt_bytes"
  by (cases "validate_safe_command_argv (cp_adapter_id p) (cp_argv p)") (auto simp: make_CommandPlan_def)

lemma plan_has_no_forbidden_flag:
  assumes "is_ok (validate_safe_command_argv a argv)"
  shows "set forbidden_runtime_flags \<inter> set argv = {}"
  using assms unfolding validate_safe_command_argv_def by (simp split: option.splits if_split_asm)

lemma build_command_plan:
  assumes "build_command resolver a q = Inr p"
  shows "is_ok (validate_safe_command_argv (cp_adapter_id p) (cp_argv p))" "cp_cwd p = rq_cwd q"
    "cp_stdin p = stdin_bytes q" "cp_adapter_id p = adapter_id a"
  using assms
  by (cases a; auto simp: make_CommandPlan_Inr simp del: validate_safe_command_argv_def split: if_split_asm option.splits)+

lemma codex_argv_sandbox: "codex_argv exe sandbox cwd m s ! 4 = sandbox"
  by (simp add: codex_argv_def numeral_eq_Suc)

lemma codex_argv_root: "codex_argv exe sandbox cwd m s ! 5 = ''-C''" "codex_argv exe sandbox cwd m s ! 6 = cwd"
  by (simp_all add: codex_argv_def numeral_eq_Suc)

lemma claude_argv_tools: "claude_argv exe write m s ! 14 = claude_tools write"
  by (simp add: claude_argv_def numeral_eq_Suc)

lemma build_command_write:
  assumes "build_command resolver a q = Inr p" "grants_write p"
  shows "fp_allow_staged_write (rq_filesystem_policy q)"
proof (cases a)
  case (FakeAdapter e)
  with assms build_command_plan(4) [OF assms(1)] show ?thesis by (simp add: grants_write_def)
next
  case (CodexLocalAdapter e)
  with assms show ?thesis
    by (auto simp: make_CommandPlan_Inr grants_write_def codex_argv_sandbox codex_sandbox_def split: if_split_asm option.splits)
next
  case (ClaudeLocalAdapter e g)
  with assms show ?thesis
    by (auto simp: make_CommandPlan_Inr grants_write_def claude_argv_tools claude_tools_def split: if_split_asm option.splits)
qed

lemma build_command_root:
  assumes "build_command resolver a q = Inr p" "cp_adapter_id p = ''adapter_codex_local''"
  shows "cp_argv p ! 5 = ''-C'' \<and> cp_argv p ! 6 = absolute_text (cwd_path (cp_cwd p))"
  using assms
  by (cases a) (auto simp: make_CommandPlan_Inr codex_argv_root split: if_split_asm option.splits)

lemma make_RuntimeRequest_Inr:
  assumes "make_RuntimeRequest q = Inr q'"
  shows "q' = q" "mc_mode (rq_cwd q) = fp_mode (rq_filesystem_policy q)"
    "fp_mode (rq_filesystem_policy q) \<noteq> APPROVED_EXTERNAL_ROOT" "opt_ok model_pattern (rq_model q)"
    "opt_ok session_pattern (rq_provider_session_id q)" "length (stdin_bytes q) \<le> max_prompt_bytes"
  using assms unfolding make_RuntimeRequest_def stdin_bytes_def by (simp_all split: if_split_asm)

lemma safe_relative_path_Inr:
  assumes "safe_relative_path v = Inr ps"
  shows "ps = posix_parts v" "\<not> list_ex (\<lambda>p. p \<in> {[], ''.'', ''..''}) ps"
  using assms unfolding safe_relative_path_def Let_def by (simp_all split: if_split_asm)

lemma make_ManagedCwd_Inr:
  assumes "make_ManagedCwd root token mode = Inr c"
  shows "c = \<lparr>mc_project_root = root, mc_token = token, mc_mode = mode\<rparr>"
  using assms unfolding make_ManagedCwd_def Let_def by (auto simp: rbind_Inr_iff split: if_split_asm)

lemma task_workspace_cwd_path:
  assumes "make_ManagedCwd root token mode = Inr c" "mode = TASK_WORKTREE"
  shows "\<exists>name rest. cwd_path c = root @ [''.raytsystem'', ''workspaces'', name] @ rest \<and>
     workspace_component_pattern name \<and> ''..'' \<notin> set rest"
proof -
  from assms obtain ps where ps: "safe_relative_path token = Inr ps" "\<not> length ps < 3"
    "take 2 ps = [''.raytsystem'', ''workspaces'']" "workspace_component_pattern (ps ! 2)"
    and c: "c = \<lparr>mc_project_root = root, mc_token = token, mc_mode = mode\<rparr>"
    unfolding make_ManagedCwd_def Let_def by (auto simp: rbind_Inr_iff split: if_split_asm)
  from ps(2) have "ps = take 2 ps @ [ps ! 2] @ drop 3 ps"
    using id_take_nth_drop [of 2 ps] by (simp add: numeral_3_eq_3 numeral_2_eq_2)
  with ps(3) have parts: "ps = [''.raytsystem'', ''workspaces'', ps ! 2] @ drop 3 ps" by simp
  from safe_relative_path_Inr [OF ps(1)] have "''..'' \<notin> set (drop 3 ps)"
    by (auto simp: list_ex_iff dest: in_set_dropD)
  moreover have "token \<noteq> ''.''"
    using ps(2) safe_relative_path_Inr(1) [OF ps(1)] by (auto simp: posix_parts_def)
  ultimately show ?thesis
    using parts ps(4) safe_relative_path_Inr(1) [OF ps(1)] c unfolding cwd_path_def by auto
qed

section \<open>The bounded output buffer\<close>

definition append_all :: "(bool \<times> bytes) list \<Rightarrow> bounded_output \<Rightarrow> bounded_output" where
  "append_all cs b = fold (\<lambda>c. append_output (fst c) (snd c)) cs b"

definition chunk_bytes :: "(bool \<times> bytes) list \<Rightarrow> nat" where
  "chunk_bytes cs = sum_list (map (length \<circ> snd) cs)"

lemma append_output_consumed:
  assumes "bo_consumed b = length (bo_stdout b) + length (bo_stderr b)" "bo_consumed b \<le> bo_limit b"
  shows "bo_consumed (append_output o1 c b) = length (bo_stdout (append_output o1 c b)) + length (bo_stderr (append_output o1 c b))"
    "bo_consumed (append_output o1 c b) \<le> bo_limit b" "bo_limit (append_output o1 c b) = bo_limit b"
    "bo_consumed (append_output o1 c b) = min (bo_limit b) (bo_consumed b + length c)"
    "bo_overflow (append_output o1 c b) \<longleftrightarrow> bo_overflow b \<or> bo_consumed b + length c > bo_limit b"
  using assms by (auto simp: append_output_def Let_def)

lemma append_all_consumed:
  assumes "bo_consumed b = length (bo_stdout b) + length (bo_stderr b)" "bo_consumed b \<le> bo_limit b"
  shows "length (bo_stdout (append_all cs b)) + length (bo_stderr (append_all cs b)) =
      min (bo_limit b) (bo_consumed b + chunk_bytes cs) \<and>
    (bo_overflow (append_all cs b) \<longleftrightarrow> bo_overflow b \<or> (cs \<noteq> [] \<and> bo_consumed b + chunk_bytes cs > bo_limit b))"
  using assms
proof (induction cs arbitrary: b)
  case (Cons c cs)
  note a = append_output_consumed [OF Cons.prems, of "fst c" "snd c"]
  from Cons.IH [of "append_output (fst c) (snd c) b"] a show ?case
    by (auto simp: append_all_def chunk_bytes_def)
qed (simp add: append_all_def chunk_bytes_def)

section \<open>Properties\<close>

text \<open>C23: a plan built by an adapter never carries a forbidden flag, and a Codex plan names the directory its
  process runs in as the root of its sandbox. When the flags of a plan let the runtime write, the request allowed
  staged writes and this directory is below \<open>.raytsystem/workspaces\<close> of the project. The guards of the
  policy record, of the request and of the working directory only give this together.\<close>

lemma built_plan_is_confined:
  assumes "FilesystemPolicy_ok (rq_filesystem_policy q)"
    and "make_ManagedCwd root token mode = Inr (rq_cwd q)"
    and "make_RuntimeRequest q = Inr q"
    and "build_command resolver a q = Inr p"
  shows "set forbidden_runtime_flags \<inter> set (cp_argv p) = {} \<and>
    (cp_adapter_id p \<noteq> ''adapter_codex_local'' \<or>
      cp_argv p ! 5 = ''-C'' \<and> cp_argv p ! 6 = absolute_text (cwd_path (cp_cwd p))) \<and>
    (\<not> grants_write p \<or> fp_allow_staged_write (rq_filesystem_policy q) \<and>
      (\<exists>name rest. cwd_path (cp_cwd p) = root @ [''.raytsystem'', ''workspaces'', name] @ rest \<and>
         workspace_component_pattern name \<and> ''..'' \<notin> set rest))"
proof (cases "grants_write p")
  case True
  note staged = build_command_write [OF assms(4) True]
  have m: "mc_mode (rq_cwd q) = mode"
    unfolding make_ManagedCwd_Inr [OF assms(2)] by simp
  from assms(1) staged make_RuntimeRequest_Inr(2,3) [OF assms(3)] have "mode = TASK_WORKTREE"
    unfolding m by (cases mode) (simp_all add: FilesystemPolicy_ok_def)
  from task_workspace_cwd_path [OF assms(2) this] staged show ?thesis
    unfolding build_command_plan(2) [OF assms(4)]
    using plan_has_no_forbidden_flag [OF build_command_plan(1) [OF assms(4)]] build_command_root [OF assms(4)]
      build_command_plan(2) [OF assms(4)] by metis
qed (use plan_has_no_forbidden_flag [OF build_command_plan(1) [OF assms(4)]] build_command_root [OF assms(4)] in blast)

definition demo_policy :: filesystem_policy where
  "demo_policy = \<lparr>schema_name = ''FilesystemPolicyV1'', schema_version = SCHEMA_VERSION,
     id_scheme_version = ID_SCHEME_VERSION, extensions = [], fp_mode = TASK_WORKTREE,
     fp_allow_workspace_read = True, fp_allow_staged_write = True, fp_allow_git_read = False,
     fp_allow_git_write = False, fp_approved_external_root_id = None\<rparr>"

definition demo_request :: runtime_request where
  "demo_request = \<lparr>rq_prompt = ''go'',
     rq_cwd = \<lparr>mc_project_root = [''p''], mc_token = ''.raytsystem/workspaces/t1'', mc_mode = TASK_WORKTREE\<rparr>,
     rq_filesystem_policy = demo_policy, rq_model = Some ''m1'', rq_provider_session_id = None\<rparr>"

definition demo_plan :: command_plan where
  "demo_plan = \<lparr>cp_adapter_id = ''adapter_codex_local'',
     cp_argv = codex_argv ''/bin/codex'' ''workspace-write'' ''/p/.raytsystem/workspaces/t1'' (Some ''m1'') None,
     cp_cwd = rq_cwd demo_request, cp_stdin = utf8 ''go''\<rparr>"

lemma demo_policy_ok: "FilesystemPolicy_ok demo_policy" by code_simp
lemma demo_cwd: "make_ManagedCwd [''p''] ''.raytsystem/workspaces/t1'' TASK_WORKTREE = Inr (rq_cwd demo_request)" by code_simp

lemma demo_prompt: "py_strip ''go'' \<noteq> []" "CHR 0x00 \<notin> set ''go''" "length (utf8 ''go'') \<le> max_prompt_bytes"
  by code_simp (simp, simp add: utf8_def utf8_char_def max_prompt_bytes_def)

lemma demo_model: "opt_ok model_pattern (Some ''m1'')" by code_simp

lemma demo_request_ok: "make_RuntimeRequest demo_request = Inr demo_request"
  using demo_prompt demo_model by (simp add: make_RuntimeRequest_def demo_request_def demo_policy_def opt_ok_def)

lemma demo_grammar:
  "is_ok (validate_safe_command_argv ''adapter_codex_local''
     (codex_argv ''/bin/codex'' ''workspace-write'' ''/p/.raytsystem/workspaces/t1'' (Some ''m1'') None))"
  (is "is_ok (validate_safe_command_argv _ ?argv)")
proof -
  have "is_ok (validate_codex_argv ?argv)"
    using demo_model by (intro codex_argv_accepted) (simp_all add: codex_sandboxes_def is_absolute_def opt_ok_def)
  moreover have "argv_items_ok ?argv"
    by (simp add: argv_items_ok_def codex_argv_def model_args_def)
  moreover have "set forbidden_runtime_flags \<inter> set ?argv = {}" by code_simp
  moreover have "path_name ''/bin/codex'' = ''codex''" by code_simp
  ultimately show ?thesis
    by (simp add: validate_safe_command_argv_def expected_executable_def codex_argv_def)
qed

lemma demo_build: "build_command (\<lambda>_. Some ''/bin/codex'') (CodexLocalAdapter True) demo_request = Inr demo_plan"
proof -
  have "absolute_text (cwd_path (rq_cwd demo_request)) = ''/p/.raytsystem/workspaces/t1''" by code_simp
  moreover have "codex_sandbox demo_request = ''workspace-write''" by code_simp
  ultimately show ?thesis
    using demo_grammar demo_prompt(3)
    by (simp add: make_CommandPlan_Inr demo_plan_def demo_request_def stdin_bytes_def)
qed

theorem built_plan_is_confined_witness:
  "set forbidden_runtime_flags \<inter> set (cp_argv demo_plan) = {} \<and> grants_write demo_plan \<and>
    cp_argv demo_plan ! 6 = absolute_text (cwd_path (cp_cwd demo_plan)) \<and>
    (\<exists>name rest. cwd_path (cp_cwd demo_plan) = [''p''] @ [''.raytsystem'', ''workspaces'', name] @ rest)"
proof -
  have "grants_write demo_plan" by code_simp
  note plan = built_plan_is_confined [of demo_request "[''p'']" "''.raytsystem/workspaces/t1''" TASK_WORKTREE
      "\<lambda>_. Some ''/bin/codex''" "CodexLocalAdapter True" demo_plan, OF _ demo_cwd demo_request_ok demo_build]
  have "cp_adapter_id demo_plan = ''adapter_codex_local''" by (simp add: demo_plan_def)
  with plan demo_policy_ok \<open>grants_write demo_plan\<close> show ?thesis by (auto simp: demo_request_def)
qed

text \<open>C24: the grammar that every command line has to pass accepts exactly the command lines the two
  builders can produce: any executable, one of the fixed sandboxes or tool lists, an absolute working
  directory, and a model and a session token of the allowed shape.\<close>

lemma command_grammar_is_exact:
  "(is_ok (validate_codex_argv argv) \<longleftrightarrow>
     (\<exists>exe sandbox cwd m s. argv = codex_argv exe sandbox cwd m s \<and> sandbox \<in> set codex_sandboxes \<and>
        is_absolute cwd \<and> opt_ok model_pattern m \<and> opt_ok session_pattern s)) \<and>
   (is_ok (validate_claude_argv argv) \<longleftrightarrow>
     (\<exists>exe write m s. argv = claude_argv exe write m s \<and> opt_ok model_pattern m \<and> opt_ok session_pattern s))"
  by (intro conjI validate_codex_argv_iff validate_claude_argv_iff)

text \<open>the output buffer of a process keeps exactly the first bytes up to its limit over both streams,
  however the output is cut into chunks, and reports an overflow exactly when more arrived.\<close>

lemma output_is_bounded:
  "length (bo_stdout (append_all cs (new_output limit))) + length (bo_stderr (append_all cs (new_output limit))) =
     min limit (chunk_bytes cs) \<and>
   (bo_overflow (append_all cs (new_output limit)) \<longleftrightarrow> chunk_bytes cs > limit)"
  using append_all_consumed [of "new_output limit" cs] by (cases cs) (auto simp: new_output_def chunk_bytes_def)

end
