(* ===== verification/Store_Program.thy ===== *)
theory Store_Program
  imports Platform_Store
begin

text \<open>
  Programs over the platform store. The services open the store, run a sequence of queries and
  transactions and may raise in between; what was committed before stays committed. A program is a
  function of the state that returns a result and the state it leaves behind, whether it raises or
  not. \<open>wp\<close> is the weakest precondition with one postcondition for the results and one for the errors;
  the rules below compute it along a program, and the locale of logged stores gives the rules for the
  three store operations the services use.
\<close>

named_theorems wp_simps \<open>weakest preconditions of the program constructs\<close>
named_theorems wpI \<open>introduction rules for weakest preconditions\<close>

section \<open>Programs\<close>

type_synonym ('s, 'e, 'a) prog = "'s \<Rightarrow> ('e, 'a) result \<times> 's"

definition give :: "'a \<Rightarrow> ('s, 'e, 'a) prog" where
  "give x = (\<lambda>s. (Inr x, s))"

definition fail :: "'e \<Rightarrow> ('s, 'e, 'a) prog" where
  "fail e = (\<lambda>s. (Inl e, s))"

definition bnd :: "('s, 'e, 'a) prog \<Rightarrow> ('a \<Rightarrow> ('s, 'e, 'b) prog) \<Rightarrow> ('s, 'e, 'b) prog" where
  "bnd m f = (\<lambda>s. case m s of (Inl e, s') \<Rightarrow> (Inl e, s') | (Inr x, s') \<Rightarrow> f x s')"

definition check :: "bool \<Rightarrow> 'e \<Rightarrow> ('s, 'e, unit) prog" where
  "check b e = (if b then give () else fail e)"

definition lift :: "('e, 'a) result \<Rightarrow> ('s, 'e, 'a) prog" where
  "lift r = (\<lambda>s. (r, s))"

definition query :: "('f \<Rightarrow> 'e) \<Rightarrow> ('s \<Rightarrow> ('f, 'a) result) \<Rightarrow> ('s, 'e, 'a) prog" where
  "query h q = (\<lambda>s. (rcatch (q s) h, s))"

definition txn :: "('f \<Rightarrow> 'e) \<Rightarrow> ('s \<Rightarrow> ('f, 'a \<times> 's) result) \<Rightarrow> ('s, 'e, 'a) prog" where
  "txn h t = (\<lambda>s. case t s of Inl e \<Rightarrow> (Inl (h e), s) | Inr (x, s') \<Rightarrow> (Inr x, s'))"

fun each :: "('a \<Rightarrow> ('s, 'e, unit) prog) \<Rightarrow> 'a list \<Rightarrow> ('s, 'e, unit) prog" where
  "each f [] = give ()"
| "each f (x # xs) = bnd (f x) (\<lambda>_. each f xs)"

text \<open>\<open>with initialize_platform_store(root) as store: body\<close> on the database file.\<close>

definition with_store ::
    "(store_error \<Rightarrow> 'e) \<Rightarrow> digest \<Rightarrow> datetime \<Rightarrow> (platform_db, 'e, 'a) prog \<Rightarrow> (platform_db option, 'e, 'a) prog" where
  "with_store h sha now body = (\<lambda>file.
     case initialize_platform_store sha now file of
       Inl e \<Rightarrow> (Inl (h e), file)
     | Inr db \<Rightarrow> (case body db of (r, db') \<Rightarrow> (r, Some db')))"

section \<open>Weakest preconditions\<close>

definition wp :: "('s, 'e, 'a) prog \<Rightarrow> ('a \<Rightarrow> 's \<Rightarrow> bool) \<Rightarrow> ('e \<Rightarrow> 's \<Rightarrow> bool) \<Rightarrow> 's \<Rightarrow> bool" where
  "wp m S F s = (case m s of (Inl e, s') \<Rightarrow> F e s' | (Inr x, s') \<Rightarrow> S x s')"

lemma wp_give [wp_simps]: "wp (give x) S F s = S x s"
  by (simp add: wp_def give_def)

lemma wp_fail [wp_simps]: "wp (fail e) S F s = F e s"
  by (simp add: wp_def fail_def)

lemma wp_bnd [wp_simps]: "wp (bnd m f) S F s = wp m (\<lambda>x s'. wp (f x) S F s') F s"
  by (simp add: wp_def bnd_def split: prod.splits sum.splits)

lemma wp_check [wp_simps]: "wp (check b e) S F s = ((b \<longrightarrow> S () s) \<and> (\<not> b \<longrightarrow> F e s))"
  by (simp add: check_def wp_give wp_fail)

lemma wp_lift [wp_simps]: "wp (lift r) S F s = (case r of Inl e \<Rightarrow> F e s | Inr x \<Rightarrow> S x s)"
  by (simp add: wp_def lift_def split: sum.splits)

lemma wp_if [wp_simps]: "wp (if b then m else n) S F s = ((b \<longrightarrow> wp m S F s) \<and> (\<not> b \<longrightarrow> wp n S F s))"
  by simp

lemma wp_option [wp_simps]:
  "wp (case x of None \<Rightarrow> m | Some y \<Rightarrow> f y) S F s =
     ((x = None \<longrightarrow> wp m S F s) \<and> (\<forall>y. x = Some y \<longrightarrow> wp (f y) S F s))"
  by (cases x) auto

lemma wp_let [wp_simps]: "wp (let y = v in f y) S F s = (let y = v in wp (f y) S F s)"
  by (simp add: Let_def)

lemma wp_mono:
  assumes "wp m S F s" "\<And>x s'. S x s' \<Longrightarrow> S' x s'" "\<And>e s'. F e s' \<Longrightarrow> F' e s'"
  shows "wp m S' F' s"
  using assms by (auto simp: wp_def split: prod.splits sum.splits)

lemma wp_query: "wp (query h q) S F s = (case q s of Inl e \<Rightarrow> F (h e) s | Inr x \<Rightarrow> S x s)"
  by (simp add: wp_def query_def rcatch_def split: sum.splits)

lemma wp_txn: "wp (txn h t) S F s = (case t s of Inl e \<Rightarrow> F (h e) s | Inr (x, s') \<Rightarrow> S x s')"
  by (simp add: wp_def txn_def split: sum.splits prod.splits)

lemma wp_Inr: "wp m S F s \<Longrightarrow> m s = (Inr x, s') \<Longrightarrow> S x s'"
  by (simp add: wp_def)

lemma wp_Inl: "wp m S F s \<Longrightarrow> m s = (Inl e, s') \<Longrightarrow> F e s'"
  by (simp add: wp_def)

lemma wp_run: "wp m (\<lambda>_ s'. P s') (\<lambda>_ s'. P s') s \<Longrightarrow> m s = (r, s') \<Longrightarrow> P s'"
  by (simp add: wp_def split: sum.splits)

lemma wp_each:
  assumes "\<And>x s. x \<in> set xs \<Longrightarrow> I s \<Longrightarrow> wp (f x) (\<lambda>_. I) F s" "I s" "\<And>s. I s \<Longrightarrow> S () s"
  shows "wp (each f xs) S F s"
  using assms
proof (induction xs arbitrary: s)
  case (Cons x xs)
  have "wp (f x) (\<lambda>_. I) F s" using Cons.prems by simp
  then show ?case
    unfolding each.simps wp_bnd by (rule wp_mono) (use Cons in auto)
qed (simp add: wp_give)

lemma wp_prod [wp_simps]: "wp (case p of (a, b) \<Rightarrow> m a b) S F s = (case p of (a, b) \<Rightarrow> wp (m a b) S F s)"
  by (cases p) simp

lemma wpI_bnd [wpI]: "wp m (\<lambda>x s'. wp (f x) S F s') F s \<Longrightarrow> wp (bnd m f) S F s"
  by (simp add: wp_bnd)

lemma wpI_give [wpI]: "S x s \<Longrightarrow> wp (give x) S F s"
  by (simp add: wp_give)

lemma wpI_fail [wpI]: "F e s \<Longrightarrow> wp (fail e) S F s"
  by (simp add: wp_fail)

lemma wpI_check [wpI]: "(b \<Longrightarrow> S () s) \<Longrightarrow> (\<not> b \<Longrightarrow> F e s) \<Longrightarrow> wp (check b e) S F s"
  by (simp add: wp_check)

lemma wpI_lift [wpI]: "(\<And>x. r = Inr x \<Longrightarrow> S x s) \<Longrightarrow> (\<And>e. r = Inl e \<Longrightarrow> F e s) \<Longrightarrow> wp (lift r) S F s"
  by (simp add: wp_lift split: sum.split)

lemma wpI_query [wpI]: "(\<And>x. q s = Inr x \<Longrightarrow> S x s) \<Longrightarrow> (\<And>e. q s = Inl e \<Longrightarrow> F (h e) s) \<Longrightarrow> wp (query h q) S F s"
  by (simp add: wp_query split: sum.split)

lemma wpI_option [wpI]:
  "(x = None \<Longrightarrow> wp m S F s) \<Longrightarrow> (\<And>y. x = Some y \<Longrightarrow> wp (f y) S F s) \<Longrightarrow>
     wp (case x of None \<Rightarrow> m | Some y \<Rightarrow> f y) S F s"
  by (simp split: option.split)

lemma wpI_if [wpI]: "(b \<Longrightarrow> wp m S F s) \<Longrightarrow> (\<not> b \<Longrightarrow> wp n S F s) \<Longrightarrow> wp (if b then m else n) S F s"
  by simp

lemma wpI_prod [wpI]: "(\<And>a b. p = (a, b) \<Longrightarrow> wp (m a b) S F s) \<Longrightarrow> wp (case p of (a, b) \<Rightarrow> m a b) S F s"
  by (cases p) simp

lemma wpI_sum [wpI]:
  "(\<And>e. r = Inl e \<Longrightarrow> wp (f e) S F s) \<Longrightarrow> (\<And>x. r = Inr x \<Longrightarrow> wp (g x) S F s) \<Longrightarrow>
     wp (case r of Inl e \<Rightarrow> f e | Inr x \<Rightarrow> g x) S F s"
  by (cases r) simp_all

section \<open>Logged stores\<close>

text \<open>What the services rely on: a query of the head of a key sees the last entry of its log, an append
  that succeeds adds one entry to the log of its key and to no other, and the audit and receipt
  operations leave the logs alone. Every operation keeps the invariant.\<close>

definition head_view :: "stored_record option \<Rightarrow> (jval option \<times> string) list \<Rightarrow> bool" where
  "head_view x log \<longleftrightarrow>
     (case x of
        None \<Rightarrow> log = []
      | Some r \<Rightarrow> log \<noteq> [] \<and> last log = (Some (JObj (sr_payload r)), sr_state r) \<and>
          sr_revision r = int (length log) \<and> wf_json (JObj (sr_payload r)))"

locale logged_store =
  fixes inv :: "'s \<Rightarrow> bool"
    and log :: "'s \<Rightarrow> string \<times> string \<Rightarrow> (jval option \<times> string) list"
    and get :: "string \<Rightarrow> string \<Rightarrow> 's \<Rightarrow> ('f, stored_record option) result"
    and put :: "string \<Rightarrow> string \<Rightarrow> dict \<Rightarrow> string \<Rightarrow> int option \<Rightarrow> 's \<Rightarrow> ('f, stored_record \<times> 's) result"
    and silent :: "'s \<Rightarrow> 's \<Rightarrow> bool"
  assumes get_view: "inv s \<Longrightarrow> get k i s = Inr x \<Longrightarrow> head_view x (log s (k, i))"
    and put_log: "inv s \<Longrightarrow> wf_json (JObj p) \<Longrightarrow> put k i p st ex s = Inr (r, s') \<Longrightarrow>
      inv s' \<and> log s' = (log s)((k, i) := log s (k, i) @ [(Some (JObj (norm_dict p)), st)]) \<and>
      sr_revision r = int (length (log s (k, i))) + 1 \<and> ex = expected_for (length (log s (k, i)))"
    and silent_log: "silent s s' \<Longrightarrow> inv s \<Longrightarrow> inv s' \<and> log s' = log s"
begin

lemma wp_get:
  assumes "inv s" "\<And>x. head_view x (log s (k, i)) \<Longrightarrow> S x s" "\<And>e. F e s"
  shows "wp (query h (get k i)) S F s"
  unfolding wp_query using assms get_view [OF assms(1), of k i] by (auto split: sum.splits)

lemma wp_put:
  assumes "inv s" "wf_json (JObj p)" "\<And>e. F e s"
    and "\<And>r s'. inv s' \<Longrightarrow> log s' = (log s)((k, i) := log s (k, i) @ [(Some (JObj (norm_dict p)), st)]) \<Longrightarrow>
      sr_revision r = int (length (log s (k, i))) + 1 \<Longrightarrow> S r s'"
  shows "wp (txn h (put k i p st ex)) S F s"
proof (cases "put k i p st ex s")
  case (Inr y)
  then obtain r s' where "put k i p st ex s = Inr (r, s')" by (cases y) simp
  with put_log [OF assms(1,2) this] assms(4) show ?thesis by (simp add: wp_txn)
qed (simp add: wp_txn assms(3))

lemma wp_silent:
  assumes "inv s" "\<And>y s'. t s = Inr (y, s') \<Longrightarrow> silent s s'" "\<And>e. F e s"
    and "\<And>y s'. t s = Inr (y, s') \<Longrightarrow> inv s' \<Longrightarrow> log s' = log s \<Longrightarrow> S y s'"
  shows "wp (txn h t) S F s"
  unfolding wp_txn using assms silent_log [OF assms(2) assms(1)] by (auto split: sum.splits)

end

definition quiet :: "digest \<Rightarrow> platform_db \<Rightarrow> platform_db \<Rightarrow> bool" where
  "quiet sha s s' \<longleftrightarrow> store_step sha s s' \<and> pf_records s' = pf_records s"

lemma record_log_frame: "pf_records s' = pf_records s \<Longrightarrow> record_log s' = record_log s"
  by (simp add: record_log_def record_rows_def fun_eq_iff)

lemma normal_wf: "normal v \<Longrightarrow> wf_json v"
proof (induction v)
  case (JObj kvs)
  then show ?case
    by (auto simp: list_all_iff strict_sorted_iff prod_set_defs)
qed (auto simp: list_all_iff)

lemma norm_dict_wf: "wf_json (JObj p) \<Longrightarrow> wf_json (JObj (norm_dict p))"
  using normal_jnorm [of "JObj p"] normal_wf unfolding norm_dict_def jnorm.simps by blast

lemma head_view_head:
  assumes "store_ok sha s" "head sha s k i = Inr x"
  shows "head_view x (record_log s (k, i))"
proof -
  have ok: "records_ok sha s" using assms(1) by (simp add: store_ok_def)
  have tok: "is_ok (validate_tokens [k, i])"
    using assms(2) by (auto simp: head_def result_simps is_ok_iff)
  show ?thesis
  proof (cases "record_rows s k i = []")
    case True
    with head_in_ok_store(1) [OF ok tok] assms(2) show ?thesis by (simp add: head_view_def record_log_def)
  next
    case False
    let ?row = "last (record_rows s k i)"
    from head_in_ok_store(2) [OF ok tok False] assms(2) obtain r where r: "x = Some r"
      "loads (rr_payload_json ?row) = Some (JObj (sr_payload r))" "sr_state r = rr_state ?row"
      "sr_revision r = int (length (record_rows s k i))" by auto
    have "row_ok sha ?row" using row_ok_mem [OF ok, of ?row k i] False by simp
    then obtain p where "wf_json (JObj p)" "rr_payload_json ?row = dumps (JObj p)"
      unfolding row_ok_def by blast
    with loads_payload r(2) norm_dict_wf have "wf_json (JObj (sr_payload r))" by fastforce
    with r False show ?thesis by (simp add: head_view_def record_log_def last_map)
  qed
qed

text \<open>A database that opens: the rows satisfy the invariant and the schema is the current one.\<close>

definition db_ok :: "digest \<Rightarrow> platform_db \<Rightarrow> bool" where
  "db_ok sha db \<longleftrightarrow> store_ok sha db \<and> is_ok (verify_schema db)"

lemma verify_schema_frame:
  "pf_user_version s' = pf_user_version s \<Longrightarrow> pf_tables s' = pf_tables s \<Longrightarrow> verify_schema s' = verify_schema s"
  by (simp add: verify_schema_def)

lemma store_step_schema:
  assumes "store_step sha s s'"
  shows "verify_schema s' = verify_schema s"
  using assms
proof cases
  case (Record now kind rid payload state expected r)
  then show ?thesis by (auto elim!: append_record_Inr intro: verify_schema_frame)
next
  case (Event now q e)
  then show ?thesis by (auto dest!: append_event_Inr intro: verify_schema_frame)
next
  case (Receipt now scope key request receipt x)
  then show ?thesis by (auto dest!: idempotent_receipt_Inr intro: verify_schema_frame)
qed

lemma store_step_db_ok: "store_step sha s s' \<Longrightarrow> db_ok sha s \<Longrightarrow> db_ok sha s'"
  using store_step_ok store_step_schema unfolding db_ok_def by metis

interpretation pstore: logged_store "db_ok sha" record_log "\<lambda>k i db. head sha db k i" "append_record sha now" "quiet sha"
proof
  fix s k i x
  assume "db_ok sha s" "head sha s k i = Inr x"
  then show "head_view x (record_log s (k, i))" unfolding db_ok_def using head_view_head by blast
next
  fix s p k i st ex r s'
  assume ok: "db_ok sha s" and wf: "wf_json (JObj p)" and put: "append_record sha now k i p st ex s = Inr (r, s')"
  have "db_ok sha s'" using store_step.Record [OF put wf] ok by (rule store_step_db_ok)
  with append_record_log [OF _ put wf] ok show "db_ok sha s' \<and>
      record_log s' = (record_log s)((k, i) := record_log s (k, i) @ [(Some (JObj (norm_dict p)), st)]) \<and>
      sr_revision r = int (length (record_log s (k, i))) + 1 \<and> ex = expected_for (length (record_log s (k, i)))"
    by (simp add: db_ok_def store_ok_def)
next
  fix s s'
  assume "quiet sha s s'" "db_ok sha s"
  then show "db_ok sha s' \<and> record_log s' = record_log s"
    unfolding quiet_def using store_step_db_ok record_log_frame by blast
qed

lemma quiet_event: "append_event sha now q s = Inr (x, s') \<Longrightarrow> quiet sha s s'"
  unfolding quiet_def using store_step.Event append_event_frame by blast

lemma quiet_receipt:
  "opt_ok (\<lambda>p. wf_json (JObj p)) r \<Longrightarrow> idempotent_receipt sha now scope key q r s = Inr (x, s') \<Longrightarrow> quiet sha s s'"
  unfolding quiet_def using store_step.Receipt idempotent_receipt_frame by blast

lemma append_event_id:
  assumes "append_event sha now q s = Inr (e, s')"
  shows "\<exists>i. map_of e ''event_id'' = Some (JStr i)"
proof -
  obtain row where "e = (''event_id'', JStr (ae_event_id row)) # event_identity row"
    using assms by (auto simp: append_event_def Let_def result_simps split: if_split_asm)
  then show ?thesis by simp
qed

lemma wp_event:
  assumes "db_ok sha s" "\<And>e. F e s"
    and "\<And>e i s'. map_of e ''event_id'' = Some (JStr i) \<Longrightarrow> db_ok sha s' \<Longrightarrow> record_log s' = record_log s \<Longrightarrow> S e s'"
  shows "wp (txn h (append_event sha now q)) S F s"
proof (rule pstore.wp_silent [OF assms(1)])
  show "quiet sha s s'" if "append_event sha now q s = Inr (y, s')" for y s'
    using that by (rule quiet_event)
  fix y s'
  assume "append_event sha now q s = Inr (y, s')" "db_ok sha s'" "record_log s' = record_log s"
  then show "S y s'" using append_event_id assms(3) by blast
qed (rule assms(2))

lemma wp_receipt:
  assumes "db_ok sha s" "opt_ok (\<lambda>p. wf_json (JObj p)) r" "\<And>e. F e s"
    and "\<And>x s'. find_receipt s scope key = None \<Longrightarrow> x = r \<Longrightarrow> db_ok sha s' \<Longrightarrow> record_log s' = record_log s \<Longrightarrow> S x s'"
    and "\<And>x. find_receipt s scope key \<noteq> None \<Longrightarrow> S (Some x) s"
  shows "wp (txn h (idempotent_receipt sha now scope key q r)) S F s"
proof (rule pstore.wp_silent [OF assms(1)])
  show "quiet sha s s'" if "idempotent_receipt sha now scope key q r s = Inr (y, s')" for y s'
    using quiet_receipt [OF assms(2) that] .
  show "F e s" for e by (rule assms(3))
  fix y s'
  assume t: "idempotent_receipt sha now scope key q r s = Inr (y, s')" and s': "db_ok sha s'" "record_log s' = record_log s"
  show "S y s'"
  proof (cases "find_receipt s scope key")
    case None
    with t have "y = r" by (auto simp: idempotent_receipt_def result_simps split: option.splits)
    with None assms(4) s' show ?thesis by blast
  next
    case (Some a)
    with t obtain x where "y = Some x" "s' = s"
      by (auto simp: idempotent_receipt_def result_simps Let_def split: option.splits if_split_asm jval.splits)
    with Some assms(5) show ?thesis by simp
  qed
qed

text \<open>What a service sees of a database file: nothing before the first writer opened it.\<close>

definition file_log :: "platform_db option \<Rightarrow> string \<times> string \<Rightarrow> (jval option \<times> string) list" where
  "file_log f = (case f of None \<Rightarrow> (\<lambda>_. []) | Some db \<Rightarrow> record_log db)"

definition file_ok :: "digest \<Rightarrow> platform_db option \<Rightarrow> bool" where
  "file_ok sha f \<longleftrightarrow> (case f of None \<Rightarrow> True | Some db \<Rightarrow> db_ok sha db)"

lemma file_simps [simp]:
  "file_log None = (\<lambda>_. [])" "file_log (Some db) = record_log db"
  "file_ok sha None" "file_ok sha (Some db) = db_ok sha db"
  by (simp_all add: file_log_def file_ok_def)

lemma initialize_file_ok:
  assumes "file_ok sha f" "initialize_platform_store sha now f = Inr db"
  shows "db_ok sha db" "record_log db = file_log f"
proof -
  have schema: "is_ok (verify_schema db)"
    using assms(2) by (auto simp: initialize_platform_store_def initialize_def result_simps is_ok_iff split: if_split_asm)
  have "store_ok sha db \<and> record_log db = file_log f"
  proof (cases f)
    case None
    with assms(2) have "initialize_platform_store sha now None = Inr db" by simp
    moreover from this have "pf_records db = []"
      by (auto simp: initialize_platform_store_def initialize_def create_tables_def fresh_db_def result_simps split: if_splits)
    ultimately show ?thesis
      using initialize_platform_store_ok [of sha now db] None by (simp add: record_log_def record_rows_def fun_eq_iff)
  next
    case (Some db0)
    with assms have "db = db0"
      by (auto simp: db_ok_def initialize_platform_store_def initialize_def verify_schema_def is_ok_def
          PLATFORM_SCHEMA_VERSION_def result_simps split: if_splits)
    with assms(1) Some show ?thesis by (simp add: db_ok_def)
  qed
  with schema show "db_ok sha db" "record_log db = file_log f" by (simp_all add: db_ok_def)
qed

lemma wp_with_store:
  assumes "file_ok sha f" "\<And>e. F e f"
    and "\<And>db. db_ok sha db \<Longrightarrow> record_log db = file_log f \<Longrightarrow>
      wp body (\<lambda>x db'. S x (Some db')) (\<lambda>e db'. F e (Some db')) db"
  shows "wp (with_store h sha now body) S F f"
proof (cases "initialize_platform_store sha now f")
  case (Inl e)
  with assms(2) show ?thesis by (simp add: wp_def with_store_def)
next
  case (Inr db)
  from assms(3) [OF initialize_file_ok [OF assms(1) Inr]] show ?thesis
    by (simp add: wp_def with_store_def Inr split: prod.splits sum.splits)
qed

lemma wp_with_store_Inr:
  "initialize_platform_store sha now f = Inr db \<Longrightarrow>
     wp (with_store h sha now body) S F f = wp body (\<lambda>x db'. S x (Some db')) (\<lambda>e db'. F e (Some db')) db"
  by (simp add: wp_def with_store_def split: prod.splits sum.splits)

definition receipt_used :: "platform_db option \<Rightarrow> string \<Rightarrow> string \<Rightarrow> bool" where
  "receipt_used f scope key = (case f of None \<Rightarrow> False | Some db \<Rightarrow> find_receipt db scope key \<noteq> None)"

lemma initialize_receipts:
  assumes "file_ok sha f" "initialize_platform_store sha now f = Inr db"
  shows "find_receipt db scope key \<noteq> None \<longleftrightarrow> receipt_used f scope key"
proof (cases f)
  case None
  with assms(2) have "pf_receipts db = []"
    by (auto simp: initialize_platform_store_def initialize_def create_tables_def fresh_db_def result_simps split: if_splits)
  with None show ?thesis by (simp add: receipt_used_def find_receipt_def)
next
  case (Some db0)
  with assms have "db = db0"
    by (auto simp: db_ok_def initialize_platform_store_def initialize_def verify_schema_def is_ok_def
        PLATFORM_SCHEMA_VERSION_def result_simps split: if_splits)
  with Some show ?thesis by (simp add: receipt_used_def)
qed

lemma wp_put_event:
  assumes "db_ok sha s" "wf_json (JObj p)" "\<And>e. F e s"
    and "\<And>e s'. db_ok sha s' \<Longrightarrow> record_log s' = (record_log s)((k, i) := record_log s (k, i) @ [(Some (JObj (norm_dict p)), st)]) \<Longrightarrow> F e s'"
    and "\<And>y j s'. map_of y ''event_id'' = Some (JStr j) \<Longrightarrow> db_ok sha s' \<Longrightarrow>
      record_log s' = (record_log s)((k, i) := record_log s (k, i) @ [(Some (JObj (norm_dict p)), st)]) \<Longrightarrow> S y s'"
  shows "wp (txn h (append_record sha now k i p st ex)) (\<lambda>_. wp (txn h' (append_event sha now q)) S F) F s"
proof (rule pstore.wp_put [OF assms(1,2)])
  show "F e s" for e by (rule assms(3))
  fix r :: stored_record and s'
  assume s': "db_ok sha s'" "record_log s' = (record_log s)((k, i) := record_log s (k, i) @ [(Some (JObj (norm_dict p)), st)])"
  show "wp (txn h' (append_event sha now q)) S F s'"
    by (rule wp_event [OF s'(1)]) (use assms(4,5) s' in simp_all)
qed

lemma wp_receipt_lookup:
  assumes "\<And>e. F e s" "find_receipt s scope key = None \<Longrightarrow> S None s"
    and "\<And>x. find_receipt s scope key \<noteq> None \<Longrightarrow> S (Some x) s"
  shows "wp (txn h (idempotent_receipt sha now scope key q None)) S F s"
  unfolding wp_txn using assms
  by (auto simp: idempotent_receipt_def rbind_def Let_def split: sum.splits option.splits if_split_asm jval.splits)

section \<open>Running a program\<close>

lemma wp_outcome:
  assumes "m s = (r, s')" "wp m S F s"
    and "\<And>x. r = Inr x \<Longrightarrow> S x s' \<Longrightarrow> P" "\<And>e. r = Inl e \<Longrightarrow> F e s' \<Longrightarrow> P"
  shows P
  using assms by (cases r) (simp_all add: wp_def)

lemma wp_succeeds: "wp m (\<lambda>_ _. True) (\<lambda>_ _. False) s \<Longrightarrow> \<exists>x s'. m s = (Inr x, s')"
  by (auto simp: wp_def split: prod.splits sum.splits)

lemma wp_txn_run: "t s = Inr (x, s') \<Longrightarrow> S x s' \<Longrightarrow> wp (txn h t) S F s"
  by (simp add: wp_txn)

lemma wp_query_run: "q s = Inr x \<Longrightarrow> S x s \<Longrightarrow> wp (query h q) S F s"
  by (simp add: wp_query)

lemma append_record_new:
  assumes "validate_tokens [kind, i] = Inr ()" "find_head db kind i = None" "find_record db kind i 1 = None"
  shows "\<exists>r db'. append_record sha now kind i payload st None db = Inr (r, db') \<and>
    pf_events db' = pf_events db \<and> pf_receipts db' = pf_receipts db"
  using assms by (simp add: append_record_def Let_def del: dumps.simps)

lemma append_event_first:
  assumes "is_ok (validate_tokens [er_stream_id q, er_aggregate_id q, er_event_type q, er_actor_id q, er_payload_schema q])"
    and "pf_events db = []"
  shows "\<exists>e db'. append_event sha now q db = Inr (e, db') \<and> pf_receipts db' = pf_receipts db"
  using assms by (auto simp: append_event_def Let_def is_ok_iff)

lemma receipt_new:
  assumes "is_ok (validate_tokens [scope, key])" "find_receipt db scope key = None"
  shows "\<exists>db'. idempotent_receipt sha now scope key q r db = Inr (r, db')"
    "idempotent_receipt sha now scope key q None db = Inr (None, db)"
  using assms by (auto simp: idempotent_receipt_def Let_def is_ok_iff simp del: dumps.simps split: option.split)

lemma fresh_file_db:
  "\<exists>db. initialize_platform_store sha now None = Inr db \<and> pf_events db = [] \<and> pf_records db = [] \<and>
     pf_heads db = [] \<and> pf_receipts db = []"
  by (simp add: initialize_platform_store_def initialize_def create_tables_def verify_schema_def fresh_db_def
      PLATFORM_SCHEMA_VERSION_def list_ex_iff)

end
