(* ===== verification/Authority.thy ===== *)
theory Authority
  imports Store_Program Operation_Contracts Execution_Contracts
begin

text \<open>
  Model of \<open>src/raytsystem/authority.py\<close>: the resolver that finds an approval or a policy decision in
  the local stores and accepts it only when it binds the exact action, target and payload and has not
  been revoked. The platform store and the accepted approval files are read through the models of
  those layers. The pydantic validation of a stored payload is a parameter (\<open>None\<close> where it raises),
  and so is \<open>ExecutionStore.get\<close> for the two record types the resolver reads.
\<close>

section \<open>Definitions\<close>

datatype authority_error =
    AuthorityError | AuthorityStore store_error | AuthorityValueError | AuthorityValidation

record authority_env =
  av_sha :: digest
  av_strip :: "string \<Rightarrow> string"
  av_root :: "string list"
  av_fs :: fs
  av_approval_of :: "dict \<Rightarrow> approval_record option"
  av_decision_of :: "dict \<Rightarrow> policy_decision option"
  av_execution_approval :: "string \<Rightarrow> (authority_error, execution_approval option) result"
  av_execution_decision :: "string \<Rightarrow> (authority_error, policy_decision option) result"

datatype authority_approval = Recorded approval_record | Runtime execution_approval

subsection \<open>Python values and timestamps\<close>

text \<open>\<open>str(value)\<close> of a JSON value. Of a list or a dict only the first character of the text is kept:
  no code here looks further than that such a text is not one it knows.\<close>

fun py_str :: "jval \<Rightarrow> string" where
  "py_str JNull = ''None''"
| "py_str (JBool b) = (if b then ''True'' else ''False'')"
| "py_str (JInt i) = show_int i"
| "py_str (JStr s) = s"
| "py_str (JList _) = ''[''"
| "py_str (JObj _) = ''{''"

text \<open>\<open>list(payload.get(key, []))\<close> and \<open>{str(value) for value in payload.get(key, [])}\<close>; iterating a number raises.\<close>

definition list_items :: "dict \<Rightarrow> string \<Rightarrow> jval list option" where
  "list_items payload key =
     (case map_of payload key of
        None \<Rightarrow> Some []
      | Some (JList vs) \<Rightarrow> Some vs
      | Some (JObj kvs) \<Rightarrow> Some (map (\<lambda>(k, v). JStr k) kvs)
      | Some (JStr s) \<Rightarrow> Some (map (\<lambda>c. JStr [c]) s)
      | Some _ \<Rightarrow> None)"

definition str_items :: "dict \<Rightarrow> string \<Rightarrow> string list option" where
  "str_items payload key = map_option (map py_str) (list_items payload key)"

text \<open>\<open>datetime.isoformat()\<close> of a UTC time, and \<open>datetime.fromisoformat\<close> on the formats the stamps are
  written in: a date, \<open>T\<close>, a time with at most six fractional digits, and no zone, \<open>Z\<close> or \<open>+00:00\<close>. A time
  without zone is taken as UTC, as the caller does.\<close>

definition isoformat :: "datetime \<Rightarrow> string" where
  "isoformat t =
     (let (y, m, d) = civil_of_days (t div 86400000000);
          r = t mod 86400000000;
          num = (\<lambda>w i. pad w (nat i))
      in num 4 y @ ''-'' @ num 2 m @ ''-'' @ num 2 d @ ''T'' @
         num 2 (r div 3600000000) @ '':'' @ num 2 (r div 60000000 mod 60) @ '':'' @
         num 2 (r div 1000000 mod 60) @
         (if r mod 1000000 = 0 then [] else ''.'' @ num 6 (r mod 1000000)) @ ''+00:00'')"

definition days_of_civil :: "int \<Rightarrow> int \<Rightarrow> int \<Rightarrow> int" where
  "days_of_civil y m d =
     (let y' = (if m \<le> 2 then y - 1 else y);
          era = y' div 400;
          yoe = y' mod 400;
          doy = (153 * (m + (if m > 2 then -3 else 9)) + 2) div 5 + d - 1;
          doe = yoe * 365 + yoe div 4 - yoe div 100 + doy
      in era * 146097 + doe - 719468)"

definition digits_value :: "string \<Rightarrow> int option" where
  "digits_value s =
     (if s \<noteq> [] \<and> list_all decimal_digit s then Some (foldl (\<lambda>n c. n * 10 + (of_char c - 48)) 0 s) else None)"

definition fraction_micros :: "string \<Rightarrow> (int \<times> string) option" where
  "fraction_micros s =
     (case s of
        c # r \<Rightarrow>
          (if c = CHR ''.'' then
             let ds = takeWhile decimal_digit r in
             (if ds = [] \<or> length ds > 6 then None
              else map_option (\<lambda>n. (n, dropWhile decimal_digit r)) (digits_value (ds @ replicate (6 - length ds) CHR ''0'')))
           else Some (0, s))
      | [] \<Rightarrow> Some (0, s))"

definition fromisoformat :: "string \<Rightarrow> datetime option" where
  "fromisoformat s =
     (case (map digits_value [take 4 s, take 2 (drop 5 s), take 2 (drop 8 s), take 2 (drop 11 s),
              take 2 (drop 14 s), take 2 (drop 17 s)], fraction_micros (drop 19 s)) of
        ([Some y, Some m, Some d, Some hh, Some mm, Some ss], Some (us, zone)) \<Rightarrow>
          (if length s \<ge> 19 \<and> s ! 4 = CHR ''-'' \<and> s ! 7 = CHR ''-'' \<and> s ! 10 = CHR ''T'' \<and>
              s ! 13 = CHR '':'' \<and> s ! 16 = CHR '':'' \<and> zone \<in> {[], ''Z'', ''+00:00''} \<and>
              1 \<le> y \<and> civil_of_days (days_of_civil y m d) = (y, m, d) \<and> hh < 24 \<and> mm < 60 \<and> ss < 60
           then Some (days_of_civil y m d * 86400000000 + hh * 3600000000 + mm * 60000000 + ss * 1000000 + us)
           else None)
      | _ \<Rightarrow> None)"

subsection \<open>Looking records up\<close>

definition platform_payload ::
    "authority_env \<Rightarrow> platform_db option \<Rightarrow> string \<Rightarrow> string \<Rightarrow> (authority_error, dict option) result" where
  "platform_payload env file kind record_id =
     (case open_platform_store_read_only file of
        None \<Rightarrow> Inr None
      | Some db \<Rightarrow> rbind (rcatch (head (av_sha env) db kind record_id) AuthorityStore)
                     (\<lambda>record. Inr (map_option sr_payload record)))"

text \<open>\<open>json.loads\<close> of a file: UTF-8 text of characters below 256 (other bytes raise), then the parser.\<close>

fun utf8_text :: "bytes \<Rightarrow> string option" where
  "utf8_text [] = Some []"
| "utf8_text (c # r) =
     (if (of_char c :: nat) < 128 then map_option (\<lambda>t. c # t) (utf8_text r)
      else case r of
        [] \<Rightarrow> None
      | d # r' \<Rightarrow>
          (if (of_char c :: nat) \<in> {194, 195} \<and> (of_char d :: nat) div 64 = 2
           then map_option (\<lambda>t. char_of ((of_char c - 192) * 64 + (of_char d - 128 :: nat)) # t) (utf8_text r')
           else None))"

definition accepted_path :: "string \<Rightarrow> string \<Rightarrow> string" where
  "accepted_path approval_id ending = ''ops/approvals/accepted/'' @ approval_id @ ending"

definition read_json :: "authority_env \<Rightarrow> string \<Rightarrow> (authority_error, jval option) result" where
  "read_json env path =
     (case read_regular_file (av_root env) (av_fs env) path 256000 of
        Inl _ \<Rightarrow> Inr None
      | Inr data \<Rightarrow> (case utf8_text data of None \<Rightarrow> Inl AuthorityValueError | Some text \<Rightarrow> Inr (loads text)))"

definition accepted_approval :: "authority_env \<Rightarrow> string \<Rightarrow> (authority_error, approval_record option) result" where
  "accepted_approval env approval_id =
     rbind (read_json env (accepted_path approval_id ''.json'')) (\<lambda>payload.
     if payload = None then Inr None
     else rbind (read_json env (accepted_path approval_id ''.verification.json'')) (\<lambda>verification.
       case (payload, verification) of
         (Some (JObj p), Some v) \<Rightarrow>
           (case av_approval_of env p of
              None \<Rightarrow> Inr None
            | Some approval \<Rightarrow>
                (case v of
                   JObj d \<Rightarrow> Inr (if map_of d ''approval_id'' = Some (JStr approval_id) then Some approval else None)
                 | _ \<Rightarrow> Inr None))
       | _ \<Rightarrow> Inr None))"

definition find_approval ::
    "authority_env \<Rightarrow> platform_db option \<Rightarrow> string \<Rightarrow> (authority_error, authority_approval) result" where
  "find_approval env file approval_id =
     rbind (platform_payload env file ''authority_approval'' approval_id) (\<lambda>payload.
     case payload of
       Some p \<Rightarrow> rbind (of_option AuthorityError (av_approval_of env p)) (\<lambda>a. Inr (Recorded a))
     | None \<Rightarrow>
         rbind (av_execution_approval env approval_id) (\<lambda>execution.
         case execution of
           Some x \<Rightarrow> Inr (Runtime x)
         | None \<Rightarrow>
             rbind (accepted_approval env approval_id) (\<lambda>accepted.
             rbind (of_option AuthorityError accepted) (\<lambda>a. Inr (Recorded a)))))"

definition find_policy_decision ::
    "authority_env \<Rightarrow> platform_db option \<Rightarrow> string \<Rightarrow> (authority_error, policy_decision) result" where
  "find_policy_decision env file decision_id =
     rbind (platform_payload env file ''authority_policy'' decision_id) (\<lambda>payload.
     case payload of
       Some p \<Rightarrow> of_option AuthorityError (av_decision_of env p)
     | None \<Rightarrow> rbind (av_execution_decision env decision_id) (of_option AuthorityError))"

subsection \<open>Revocation\<close>

definition revocation_stamp :: "dict \<Rightarrow> jval" where
  "revocation_stamp payload =
     (let stamp = (case map_of payload ''activated_at'' of None \<Rightarrow> JNull | Some v \<Rightarrow> v) in
      case map_of payload ''extensions'' of
        Some (JObj exts) \<Rightarrow>
          (case map_of exts ''action_activated_at'' of
             Some (JObj per_action) \<Rightarrow>
               (case map_of per_action ''revoke_pending_approvals'' of None \<Rightarrow> stamp | Some v \<Rightarrow> v)
           | _ \<Rightarrow> stamp)
      | _ \<Rightarrow> stamp)"

definition pending_approvals_revoked_at ::
    "authority_env \<Rightarrow> platform_db option \<Rightarrow> (authority_error, datetime option) result" where
  "pending_approvals_revoked_at env file =
     (case open_platform_store_read_only file of
        None \<Rightarrow> Inr None
      | Some db \<Rightarrow>
          (case head (av_sha env) db ''emergency'' ''emergency_global'' of
             Inl e \<Rightarrow> Inl (if e = StoreValueError then AuthorityStore e else AuthorityError)
           | Inr None \<Rightarrow> Inr None
           | Inr (Some record) \<Rightarrow>
               (if sr_state record \<noteq> ''active'' then Inr None
                else case str_items (sr_payload record) ''active_actions'' of
                  None \<Rightarrow> Inl AuthorityValueError
                | Some active \<Rightarrow>
                    (if ''revoke_pending_approvals'' \<notin> set active then Inr None
                     else case fromisoformat (py_str (revocation_stamp (sr_payload record))) of
                       None \<Rightarrow> Inl AuthorityError
                     | Some t \<Rightarrow> Inr (Some t)))))"

subsection \<open>The two checks\<close>

record approval_query =
  aq_action :: string
  aq_target_id :: string
  aq_artifact_sha256 :: string
  aq_destination :: "string option"
  aq_required_scope :: "string list"
  aq_policy_sha256 :: "string option"

definition recreated :: "authority_env \<Rightarrow> approval_record \<Rightarrow> (authority_error, approval_record) result" where
  "recreated env a =
     rcatch (ApprovalRecord_create (av_sha env) (av_strip env) (ar_action a) (ar_target_id a)
       (ar_artifact_sha256 a) (ar_policy_version a) (ar_approver a) (ar_approved_at a) (ar_expires_at a)
       (ar_destination a) (ar_scope a) (ar_policy_sha256 a) (ar_conditions a)) (\<lambda>_. AuthorityValidation)"

definition recorded_valid :: "authority_env \<Rightarrow> approval_record \<Rightarrow> approval_query \<Rightarrow> datetime \<Rightarrow> (authority_error, bool) result" where
  "recorded_valid env a q now =
     rbind (recreated env a) (\<lambda>expected. Inr
       (ar_approval_id expected = ar_approval_id a \<and>
        is_valid_for a (aq_action q) (aq_target_id q) (aq_artifact_sha256 q) now (aq_destination q) \<and>
        set (aq_required_scope q) \<subseteq> set (ar_scope a) \<and>
        (aq_policy_sha256 q = None \<or> ar_policy_sha256 a = aq_policy_sha256 q)))"

definition target_bindings :: "execution_approval \<Rightarrow> string list" where
  "target_bindings x = List.map_filter id [ea_employee_id x, ea_task_id x, ea_run_id x, ea_workspace_id x]"

definition runtime_valid :: "authority_env \<Rightarrow> execution_approval \<Rightarrow> approval_query \<Rightarrow> datetime \<Rightarrow> bool" where
  "runtime_valid env x q now \<longleftrightarrow>
     approval_verify_id (av_sha env) x \<and> ea_action x = aq_action q \<and> ea_payload_sha256 x = aq_artifact_sha256 q \<and>
     ea_destination x = aq_destination q \<and> aq_target_id q \<in> set (target_bindings x) \<and>
     set (aq_required_scope q) \<subseteq> set (ea_scope x) \<and> ea_approved_at x \<le> now \<and> now < ea_expires_at x"

fun approved_at :: "authority_approval \<Rightarrow> datetime" where
  "approved_at (Recorded a) = ar_approved_at a"
| "approved_at (Runtime x) = ea_approved_at x"

definition approval_matches ::
    "authority_env \<Rightarrow> authority_approval \<Rightarrow> approval_query \<Rightarrow> datetime \<Rightarrow> (authority_error, bool) result" where
  "approval_matches env approval q now =
     (case approval of Recorded a \<Rightarrow> recorded_valid env a q now | Runtime x \<Rightarrow> Inr (runtime_valid env x q now))"

definition require_approval ::
    "authority_env \<Rightarrow> platform_db option \<Rightarrow> string \<Rightarrow> approval_query \<Rightarrow> datetime \<Rightarrow>
     (authority_error, authority_approval) result" where
  "require_approval env file approval_id q now =
     rbind (find_approval env file approval_id) (\<lambda>approval.
     rbind (approval_matches env approval q now) (\<lambda>valid.
     if \<not> valid then Inl AuthorityError
     else rbind (pending_approvals_revoked_at env file) (\<lambda>revoked_after.
       case revoked_after of
         Some t \<Rightarrow> (if approved_at approval < t then Inl AuthorityError else Inr approval)
       | None \<Rightarrow> Inr approval)))"

definition decision_material :: "policy_decision \<Rightarrow> jval" where
  "decision_material d = JObj
     [(''action'', JStr (pd_action d)),
      (''target_id'', JStr (pd_target_id d)),
      (''payload_sha256'', JStr (pd_payload_sha256 d)),
      (''destination'', jopt JStr (pd_destination d)),
      (''policy_version'', JStr (pd_policy_version d)),
      (''policy_sha256'', JStr (pd_policy_sha256 d)),
      (''outcome'', JStr (PolicyOutcome_value (pd_outcome d))),
      (''reason_codes'', jstrs (pd_reason_codes d)),
      (''required_approval_scope'', jstrs (pd_required_approval_scope d)),
      (''evaluated_at'', jtime (pd_evaluated_at d))]"

definition require_policy_decision ::
    "authority_env \<Rightarrow> platform_db option \<Rightarrow> string \<Rightarrow> string \<Rightarrow> string \<Rightarrow> string \<Rightarrow> string option \<Rightarrow> string option \<Rightarrow>
     bool \<Rightarrow> (authority_error, policy_decision) result" where
  "require_policy_decision env file decision_id action target_id payload_sha256 destination policy_sha256
       allow_requires_approval =
     rbind (find_policy_decision env file decision_id) (\<lambda>d.
     if derive_id (av_sha env) ''pdec'' (decision_material d) \<noteq> pd_policy_decision_id d \<or>
        pd_action d \<noteq> action \<or> pd_target_id d \<noteq> target_id \<or> pd_payload_sha256 d \<noteq> payload_sha256 \<or>
        pd_destination d \<noteq> destination \<or>
        \<not> (pd_outcome d = ALLOW \<or> allow_requires_approval \<and> pd_outcome d = REQUIRE_APPROVAL) \<or>
        policy_sha256 \<noteq> None \<and> Some (pd_policy_sha256 d) \<noteq> policy_sha256
     then Inl AuthorityError else Inr d)"

section \<open>What an accepted approval binds\<close>

fun approval_id_of :: "authority_approval \<Rightarrow> string" where
  "approval_id_of (Recorded a) = ar_approval_id a"
| "approval_id_of (Runtime x) = ea_approval_id x"

text \<open>The identity payload of an approval and the kind of its identifier.\<close>

definition recorded_material :: "approval_record \<Rightarrow> jval" where
  "recorded_material a = JObj
     [(''decision'', JStr ''approve''),
      (''action'', JStr (ar_action a)),
      (''target_id'', JStr (ar_target_id a)),
      (''artifact_sha256'', JStr (ar_artifact_sha256 a)),
      (''destination'', jopt JStr (ar_destination a)),
      (''policy_version'', JStr (ar_policy_version a)),
      (''approver'', JStr (ar_approver a)),
      (''approved_at'', jtime (ar_approved_at a)),
      (''expires_at'', jtime (ar_expires_at a)),
      (''scope'', jstrs (ar_scope a)),
      (''policy_sha256'', jopt JStr (ar_policy_sha256 a)),
      (''conditions'', jstrs (ar_conditions a))]"

fun approval_kind :: "authority_approval \<Rightarrow> string" where
  "approval_kind (Recorded _) = ''apr''"
| "approval_kind (Runtime _) = ''xapr''"

fun approval_material :: "authority_approval \<Rightarrow> jval" where
  "approval_material (Recorded a) = recorded_material a"
| "approval_material (Runtime x) = approval_identity_payload x"

definition plain_ids :: "authority_env \<Rightarrow> bool" where
  "plain_ids env \<longleftrightarrow> (\<forall>v. av_strip env (derive_id (av_sha env) ''apr'' v) = derive_id (av_sha env) ''apr'' v)"

lemma require_approval_Inr:
  assumes "require_approval env file approval_id q now = Inr a"
  shows "approval_matches env a q now = Inr True" "find_approval env file approval_id = Inr a"
  using assms unfolding require_approval_def
  by (auto simp: rbind_Inr_iff split: if_split_asm option.splits)

lemma recorded_valid_facts:
  assumes "recorded_valid env a q now = Inr True" "plain_ids env"
  shows "ar_approval_id a = derive_id (av_sha env) ''apr'' (recorded_material a)"
    "ar_action a = aq_action q" "ar_artifact_sha256 a = aq_artifact_sha256 q" "ar_destination a = aq_destination q"
    "ar_target_id a = aq_target_id q"
    "set (aq_required_scope q) \<subseteq> set (ar_scope a)" "ar_approved_at a \<le> now" "now < ar_expires_at a"
proof -
  obtain e where e: "recreated env a = Inr e" "ar_approval_id e = ar_approval_id a"
    and v: "is_valid_for a (aq_action q) (aq_target_id q) (aq_artifact_sha256 q) now (aq_destination q)"
      "set (aq_required_scope q) \<subseteq> set (ar_scope a)"
    using assms(1) unfolding recorded_valid_def by (auto simp: rbind_Inr_iff)
  have "ar_approval_id e = av_strip env (derive_id (av_sha env) ''apr'' (recorded_material a))"
    using e(1) unfolding recreated_def rcatch_Inr_iff ApprovalRecord_create_def Let_def recorded_material_def
    by (simp split: if_split_asm) (drule sym, simp)
  with e(2) assms(2) show "ar_approval_id a = derive_id (av_sha env) ''apr'' (recorded_material a)"
    by (simp add: plain_ids_def)
  show "ar_action a = aq_action q" "ar_artifact_sha256 a = aq_artifact_sha256 q" "ar_destination a = aq_destination q"
    "ar_target_id a = aq_target_id q"
    "set (aq_required_scope q) \<subseteq> set (ar_scope a)" "ar_approved_at a \<le> now" "now < ar_expires_at a"
    using v by (simp_all add: is_valid_for_def)
qed

lemma runtime_valid_facts:
  assumes "runtime_valid env x q now"
  shows "ea_approval_id x = derive_id (av_sha env) ''xapr'' (approval_identity_payload x)"
    "ea_action x = aq_action q" "ea_payload_sha256 x = aq_artifact_sha256 q" "ea_destination x = aq_destination q"
    "aq_target_id q \<in> set (target_bindings x)"
    "set (aq_required_scope q) \<subseteq> set (ea_scope x)" "ea_approved_at x \<le> now" "now < ea_expires_at x"
  using assms by (simp_all add: runtime_valid_def approval_verify_id_def)

fun approval_wf :: "authority_approval \<Rightarrow> bool" where
  "approval_wf (Recorded a) = True"
| "approval_wf (Runtime x) = ExecutionApproval_ok x"

fun approval_scope_of :: "authority_approval \<Rightarrow> string list" where
  "approval_scope_of (Recorded a) = ar_scope a"
| "approval_scope_of (Runtime x) = ea_scope x"

fun approval_targets :: "authority_approval \<Rightarrow> string list" where
  "approval_targets (Recorded a) = [ar_target_id a]"
| "approval_targets (Runtime x) = target_bindings x"

text \<open>The fields of an approval that a request has to match: action, payload and destination.\<close>

fun approval_fields :: "authority_approval \<Rightarrow> string \<times> string \<times> string option" where
  "approval_fields (Recorded a) = (ar_action a, ar_artifact_sha256 a, ar_destination a)"
| "approval_fields (Runtime x) = (ea_action x, ea_payload_sha256 x, ea_destination x)"

lemma accepted_facts:
  assumes "require_approval env file i q now = Inr a" "plain_ids env"
  shows "approval_id_of a = derive_id (av_sha env) (approval_kind a) (approval_material a)"
    "approval_fields a = (aq_action q, aq_artifact_sha256 q, aq_destination q)"
    "aq_target_id q \<in> set (approval_targets a)" "set (aq_required_scope q) \<subseteq> set (approval_scope_of a)"
  using require_approval_Inr(1) [OF assms(1)] recorded_valid_facts [OF _ assms(2)] runtime_valid_facts
  by (cases a; simp add: approval_matches_def)+

lemma wf_recorded_material: "wf_json (recorded_material a)"
  by (simp add: recorded_material_def jopt_def list_all_iff split: option.split)

lemma wf_approval_identity: "ExecutionApproval_ok x \<Longrightarrow> wf_json (approval_identity_payload x)"
  by (auto simp: approval_identity_payload_def ExecutionApproval_ok_def versioned_ok_def versioned_fields_def jopt_def
      list_all_iff split: option.splits)

lemma wf_approval_material: "approval_wf a \<Longrightarrow> wf_json (approval_material a)"
  using wf_recorded_material wf_approval_identity by (cases a) auto

lemma jnorm_jstrs [simp]: "jnorm (jstrs xs) = jstrs xs"
  by simp

lemma jstrs_inject: "jstrs xs = jstrs ys \<longleftrightarrow> xs = ys"
  by (simp add: inj_map_eq_map inj_def)

lemma recorded_material_binds:
  assumes "json_bytes (recorded_material a) = json_bytes (recorded_material b)"
  shows "ar_action a = ar_action b \<and> ar_artifact_sha256 a = ar_artifact_sha256 b \<and>
    ar_destination a = ar_destination b \<and> ar_target_id a = ar_target_id b \<and> ar_scope a = ar_scope b"
proof -
  note field = json_field_eq [OF wf_recorded_material [of a, unfolded recorded_material_def]
    wf_recorded_material [of b, unfolded recorded_material_def] assms [unfolded recorded_material_def]]
  from field [of "''action''"] field [of "''artifact_sha256''"] field [of "''destination''"]
    field [of "''target_id''"] field [of "''scope''"]
  show ?thesis by (simp add: jnorm_jopt_inject jstrs_inject del: jnorm.simps(5)) (simp add: inj_map_eq_map inj_def)
qed

lemma runtime_material_binds:
  assumes "ExecutionApproval_ok a" "ExecutionApproval_ok b"
    and "json_bytes (approval_identity_payload a) = json_bytes (approval_identity_payload b)"
  shows "ea_action a = ea_action b \<and> ea_payload_sha256 a = ea_payload_sha256 b \<and>
    ea_destination a = ea_destination b \<and> target_bindings a = target_bindings b \<and> ea_scope a = ea_scope b"
proof -
  note field = json_field_eq [OF wf_approval_identity [OF assms(1), unfolded approval_identity_payload_def]
    wf_approval_identity [OF assms(2), unfolded approval_identity_payload_def] assms(3) [unfolded approval_identity_payload_def]]
  have "ea_employee_id a = ea_employee_id b" "ea_task_id a = ea_task_id b" "ea_run_id a = ea_run_id b"
    "ea_workspace_id a = ea_workspace_id b"
    using field [of "''employee_id''"] field [of "''task_id''"] field [of "''run_id''"] field [of "''workspace_id''"]
    by (simp_all add: versioned_fields_def jnorm_jopt_inject)
  moreover have "ea_scope a = ea_scope b"
    using field [of "''scope''"] by (simp add: versioned_fields_def inj_map_eq_map inj_def)
  ultimately show ?thesis
    using field [of "''action''"] field [of "''payload_sha256''"] field [of "''destination''"]
    by (simp add: versioned_fields_def jnorm_jopt_inject target_bindings_def)
qed

section \<open>Properties\<close>


definition demo_approval :: execution_approval where
  "demo_approval = \<lparr>schema_name = ''ExecutionApprovalV1'', schema_version = SCHEMA_VERSION,
     id_scheme_version = ID_SCHEME_VERSION, extensions = [], ea_approval_id = ''xapr_'' @ replicate 64 CHR ''a'',
     ea_action = ''run'', ea_payload_sha256 = replicate 64 CHR ''0'', ea_employee_id = None, ea_task_id = Some ''t1'',
     ea_run_id = None, ea_workspace_id = None, ea_destination = None, ea_scope = [''s1''],
     ea_approved_by = ''me'', ea_approved_at = 0, ea_expires_at = 10\<rparr>"

definition demo_env :: authority_env where
  "demo_env = \<lparr>av_sha = (\<lambda>_. replicate 64 CHR ''a''), av_strip = id, av_root = [], av_fs = Map.empty,
     av_approval_of = (\<lambda>_. None), av_decision_of = (\<lambda>_. None),
     av_execution_approval = (\<lambda>_. Inr (Some demo_approval)), av_execution_decision = (\<lambda>_. Inr None)\<rparr>"

definition demo_query :: approval_query where
  "demo_query = \<lparr>aq_action = ''run'', aq_target_id = ''t1'', aq_artifact_sha256 = replicate 64 CHR ''0'',
     aq_destination = None, aq_required_scope = [''s1''], aq_policy_sha256 = None\<rparr>"

lemma demo_granted: "require_approval demo_env None i demo_query 5 = Inr (Runtime demo_approval)"
  by (simp add: require_approval_def find_approval_def platform_payload_def open_platform_store_read_only_def
      approval_matches_def runtime_valid_def approval_verify_id_def derive_id_material pending_approvals_revoked_at_def
      demo_env_def demo_query_def demo_approval_def target_bindings_def List.map_filter_def)


end
