(* ===== verification/Emergency.thy ===== *)
theory Emergency
  imports Authority Configuration
begin

text \<open>
  Model of \<open>src/raytsystem/emergency/service.py\<close> and of the contracts \<open>EmergencyState\<close> and
  \<open>CircuitBreaker\<close> of \<open>contracts/governance.py\<close>: the global emergency record and the circuit breakers,
  both kept in the platform store. Each operation is a program on the database file. The JSON text of
  a timestamp and the validation of a stored payload are pydantic's and parameters here; an operation
  reads the clock once.
\<close>

section \<open>Contracts\<close>

datatype EmergencyAction =
    PAUSE_ALL_EMPLOYEES | CANCEL_ACTIVE_RUNS | DISABLE_RUNTIME_EXECUTION | DISABLE_NETWORK_ADAPTERS
  | DISABLE_EXTERNAL_PROVIDERS | FREEZE_TASK_CHECKOUT | REVOKE_RUNTIME_SESSIONS
  | REVOKE_PENDING_APPROVALS | EMERGENCY_BUDGET_STOP

fun EmergencyAction_value :: "EmergencyAction \<Rightarrow> string" where
  "EmergencyAction_value PAUSE_ALL_EMPLOYEES = ''pause_all_employees''"
| "EmergencyAction_value CANCEL_ACTIVE_RUNS = ''cancel_active_runs''"
| "EmergencyAction_value DISABLE_RUNTIME_EXECUTION = ''disable_runtime_execution''"
| "EmergencyAction_value DISABLE_NETWORK_ADAPTERS = ''disable_network_adapters''"
| "EmergencyAction_value DISABLE_EXTERNAL_PROVIDERS = ''disable_external_providers''"
| "EmergencyAction_value FREEZE_TASK_CHECKOUT = ''freeze_task_checkout''"
| "EmergencyAction_value REVOKE_RUNTIME_SESSIONS = ''revoke_runtime_sessions''"
| "EmergencyAction_value REVOKE_PENDING_APPROVALS = ''revoke_pending_approvals''"
| "EmergencyAction_value EMERGENCY_BUDGET_STOP = ''emergency_budget_stop''"

definition emergency_actions :: "EmergencyAction list" where
  "emergency_actions = [PAUSE_ALL_EMPLOYEES, CANCEL_ACTIVE_RUNS, DISABLE_RUNTIME_EXECUTION,
     DISABLE_NETWORK_ADAPTERS, DISABLE_EXTERNAL_PROVIDERS, FREEZE_TASK_CHECKOUT, REVOKE_RUNTIME_SESSIONS,
     REVOKE_PENDING_APPROVALS, EMERGENCY_BUDGET_STOP]"

definition EmergencyAction_of :: "string \<Rightarrow> EmergencyAction option" where
  "EmergencyAction_of s = find (\<lambda>a. EmergencyAction_value a = s) emergency_actions"

record emergency_state = versioned_model +
  es_emergency_state_id :: string
  es_active_actions :: "EmergencyAction list"
  es_reason :: string
  es_activated_by :: string
  es_approval_id :: "string option"
  es_security_lock :: bool
  es_revision :: int
  es_activated_at :: datetime
  es_recovered_at :: "datetime option"
  es_recovered_by :: "string option"

definition EmergencyState_ok :: "emergency_state \<Rightarrow> bool" where
  "EmergencyState_ok s \<longleftrightarrow>
     versioned_ok ''EmergencyStateV1'' s \<and> is_Identifier (es_emergency_state_id s) \<and> is_NonEmptyStr (es_reason s) \<and>
     is_Identifier (es_activated_by s) \<and> opt_ok is_Identifier (es_approval_id s) \<and> 1 \<le> es_revision s \<and>
     opt_ok is_Identifier (es_recovered_by s) \<and>
     \<not> (es_active_actions s = [] \<and> es_recovered_at s = None) \<and> unique (es_active_actions s) \<and>
     (es_recovered_at s = None) = (es_recovered_by s = None) \<and>
     (case es_recovered_at s of None \<Rightarrow> True | Some t \<Rightarrow> \<not> t < es_activated_at s)"

definition emergency_dict :: "(datetime \<Rightarrow> string) \<Rightarrow> emergency_state \<Rightarrow> dict" where
  "emergency_dict tt s = versioned_fields s @
     [(''emergency_state_id'', JStr (es_emergency_state_id s)),
      (''active_actions'', jstrs (map EmergencyAction_value (es_active_actions s))),
      (''reason'', JStr (es_reason s)),
      (''activated_by'', JStr (es_activated_by s)),
      (''approval_id'', jopt JStr (es_approval_id s)),
      (''security_lock'', JBool (es_security_lock s)),
      (''revision'', JInt (es_revision s)),
      (''activated_at'', JStr (tt (es_activated_at s))),
      (''recovered_at'', jopt (\<lambda>t. JStr (tt t)) (es_recovered_at s)),
      (''recovered_by'', jopt JStr (es_recovered_by s))]"

datatype CircuitBreakerState = CB_CLOSED | CB_OPEN | CB_HALF_OPEN

fun CircuitBreakerState_value :: "CircuitBreakerState \<Rightarrow> string" where
  "CircuitBreakerState_value CB_CLOSED = ''closed''"
| "CircuitBreakerState_value CB_OPEN = ''open''"
| "CircuitBreakerState_value CB_HALF_OPEN = ''half_open''"

record circuit_breaker = versioned_model +
  cb_breaker_id :: string
  cb_scope :: string
  cb_trigger :: string
  cb_state :: CircuitBreakerState
  cb_threshold :: int
  cb_observed :: int
  cb_reason :: "string option"
  cb_automatic_recovery_limit :: int
  cb_security_breaker :: bool
  cb_revision :: int
  cb_opened_at :: "datetime option"
  cb_updated_at :: datetime

definition CircuitBreaker_ok :: "circuit_breaker \<Rightarrow> bool" where
  "CircuitBreaker_ok b \<longleftrightarrow>
     versioned_ok ''CircuitBreakerV1'' b \<and> list_all is_Identifier [cb_breaker_id b, cb_scope b, cb_trigger b] \<and>
     1 \<le> cb_threshold b \<and> 0 \<le> cb_observed b \<and> opt_ok is_NonEmptyStr (cb_reason b) \<and>
     0 \<le> cb_automatic_recovery_limit b \<and> cb_automatic_recovery_limit b \<le> 10 \<and> 1 \<le> cb_revision b"

definition breaker_dict :: "(datetime \<Rightarrow> string) \<Rightarrow> circuit_breaker \<Rightarrow> dict" where
  "breaker_dict tt b = versioned_fields b @
     [(''breaker_id'', JStr (cb_breaker_id b)),
      (''scope'', JStr (cb_scope b)),
      (''trigger'', JStr (cb_trigger b)),
      (''state'', JStr (CircuitBreakerState_value (cb_state b))),
      (''threshold'', JInt (cb_threshold b)),
      (''observed'', JInt (cb_observed b)),
      (''reason'', jopt JStr (cb_reason b)),
      (''automatic_recovery_limit'', JInt (cb_automatic_recovery_limit b)),
      (''security_breaker'', JBool (cb_security_breaker b)),
      (''revision'', JInt (cb_revision b)),
      (''opened_at'', jopt (\<lambda>t. JStr (tt t)) (cb_opened_at b)),
      (''updated_at'', JStr (tt (cb_updated_at b)))]"

section \<open>The service\<close>

datatype emergency_error =
    EmergencyError | EmergencyStore store_error | EmergencyKeyError | EmergencyValueError | EmergencyValidation
  | EmergencyAuthority authority_error

record emergency_env =
  em_authority :: authority_env
  em_features :: feature_config
  em_time_text :: "datetime \<Rightarrow> string"
  em_state_of :: "dict \<Rightarrow> emergency_state option"
  em_breaker_of :: "dict \<Rightarrow> circuit_breaker option"

abbreviation em_sha :: "emergency_env \<Rightarrow> digest" where "em_sha env \<equiv> av_sha (em_authority env)"
abbreviation em_strip :: "emergency_env \<Rightarrow> string \<Rightarrow> string" where "em_strip env \<equiv> av_strip (em_authority env)"

type_synonym 'a emergency_prog = "(platform_db, emergency_error, 'a) prog"
type_synonym 'a emergency_op = "(platform_db option, emergency_error, 'a) prog"

definition security_triggers :: "string list" where
  "security_triggers = [''protected_path'', ''forbidden_egress'', ''policy_violations'', ''failed_approvals'']"

definition runtime_blocking_actions :: "string list" where
  "runtime_blocking_actions = map EmergencyAction_value
     [PAUSE_ALL_EMPLOYEES, CANCEL_ACTIVE_RUNS, DISABLE_RUNTIME_EXECUTION, EMERGENCY_BUDGET_STOP]"

fun py_truth :: "jval \<Rightarrow> bool" where
  "py_truth JNull = False"
| "py_truth (JBool b) = b"
| "py_truth (JInt i) = (i \<noteq> 0)"
| "py_truth (JStr s) = (s \<noteq> [])"
| "py_truth (JList vs) = (vs \<noteq> [])"
| "py_truth (JObj kvs) = (kvs \<noteq> [])"

definition require_enabled :: "emergency_env \<Rightarrow> ('s, emergency_error, unit) prog" where
  "require_enabled env =
     (case feature_enabled (em_features env) ''emergency_controls_enabled'' of
        Inl _ \<Rightarrow> fail EmergencyKeyError | Inr b \<Rightarrow> check b EmergencyError)"

definition make_EmergencyState :: "emergency_env \<Rightarrow> emergency_state \<Rightarrow> (emergency_error, emergency_state) result" where
  "make_EmergencyState env s =
     (let s' = s\<lparr>es_emergency_state_id := em_strip env (es_emergency_state_id s), es_reason := em_strip env (es_reason s),
                 es_activated_by := em_strip env (es_activated_by s),
                 es_approval_id := map_option (em_strip env) (es_approval_id s)\<rparr>
      in if EmergencyState_ok s' then Inr s' else Inl EmergencyValidation)"

definition make_CircuitBreaker :: "emergency_env \<Rightarrow> circuit_breaker \<Rightarrow> (emergency_error, circuit_breaker) result" where
  "make_CircuitBreaker env b =
     (let b' = b\<lparr>cb_breaker_id := em_strip env (cb_breaker_id b), cb_scope := em_strip env (cb_scope b),
                 cb_trigger := em_strip env (cb_trigger b), cb_reason := map_option (em_strip env) (cb_reason b)\<rparr>
      in if CircuitBreaker_ok b' then Inr b' else Inl EmergencyValidation)"

definition field_or :: "dict \<Rightarrow> string \<Rightarrow> jval \<Rightarrow> jval" where
  "field_or payload key fallback = (case map_of payload key of None \<Rightarrow> fallback | Some v \<Rightarrow> v)"

definition recorded_stamps :: "dict \<Rightarrow> (string \<times> string) list" where
  "recorded_stamps payload =
     (case map_of payload ''extensions'' of
        Some (JObj exts) \<Rightarrow>
          (case map_of exts ''action_activated_at'' of
             Some (JObj per_action) \<Rightarrow> map (map_prod id py_str) per_action
           | _ \<Rightarrow> [])
      | _ \<Rightarrow> [])"

definition activation_stamps ::
    "stored_record option \<Rightarrow> string list \<Rightarrow> string list \<Rightarrow> datetime \<Rightarrow> (string \<times> jval) list" where
  "activation_stamps prior prior_active current now =
     (let recorded = (case prior of None \<Rightarrow> [] | Some p \<Rightarrow> recorded_stamps (sr_payload p)) in
      map (\<lambda>v. (v, JStr
        (case (map_of recorded v, prior) of
           (Some stamp, _) \<Rightarrow> stamp
         | (None, Some p) \<Rightarrow>
             (if v \<in> set prior_active
              then py_str (field_or (sr_payload p) ''activated_at'' (JStr (isoformat now)))
              else isoformat now)
         | (None, None) \<Rightarrow> isoformat now))) current)"

definition prior_actions :: "stored_record option \<Rightarrow> (emergency_error, string list) result" where
  "prior_actions prior =
     (case prior of
        None \<Rightarrow> Inr []
      | Some p \<Rightarrow> of_option EmergencyValueError (str_items (sr_payload p) ''active_actions''))"

definition next_revision :: "stored_record option \<Rightarrow> int" where
  "next_revision prior = (case prior of None \<Rightarrow> 1 | Some p \<Rightarrow> sr_revision p + 1)"

definition actions_of :: "string list \<Rightarrow> (emergency_error, EmergencyAction list) result" where
  "actions_of values = rmap (\<lambda>v. of_option EmergencyValueError (EmergencyAction_of v)) values"

text \<open>The state \<open>activate\<close> records: the actions active before and the new ones.\<close>

definition activated_state ::
    "emergency_env \<Rightarrow> datetime \<Rightarrow> stored_record option \<Rightarrow> EmergencyAction list \<Rightarrow> string \<Rightarrow> string \<Rightarrow> string option \<Rightarrow>
     (emergency_error, emergency_state) result" where
  "activated_state env now prior actions reason actor_id approval_id =
     rbind (prior_actions prior) (\<lambda>prior_active.
     let current = sorted_set (prior_active @ map EmergencyAction_value actions);
         revision = next_revision prior
     in rbind (actions_of current) (\<lambda>active.
        make_EmergencyState env
          \<lparr>schema_name = ''EmergencyStateV1'', schema_version = SCHEMA_VERSION, id_scheme_version = ID_SCHEME_VERSION,
           extensions = [(''action_activated_at'', JObj (activation_stamps prior prior_active current now))],
           es_emergency_state_id = derive_id (em_sha env) ''emergency''
             (JObj [(''actions'', jstrs current), (''revision'', JInt revision),
                    (''actor_id'', JStr actor_id), (''reason'', JStr reason)]),
           es_active_actions = active, es_reason = reason, es_activated_by = actor_id,
           es_approval_id = approval_id, es_security_lock = True, es_revision = revision,
           es_activated_at = now, es_recovered_at = None, es_recovered_by = None\<rparr>))"

definition append_error :: "store_error \<Rightarrow> emergency_error" where
  "append_error e = (if e = PlatformStoreError then EmergencyError else EmergencyStore e)"

definition emergency_event :: "string \<Rightarrow> string \<Rightarrow> string \<Rightarrow> string \<Rightarrow> dict \<Rightarrow> event_request" where
  "emergency_event stream event_type actor_id schema payload =
     \<lparr>er_stream_id = stream, er_aggregate_id = stream, er_event_type = event_type, er_actor_id = actor_id,
      er_payload_schema = schema, er_payload = payload, er_sensitivity = ''internal'',
      er_causation_id = None, er_correlation_id = None\<rparr>"

definition reason_id :: "emergency_env \<Rightarrow> string \<Rightarrow> jval" where
  "reason_id env reason = JStr (derive_id (em_sha env) ''reason'' (JObj [(''reason'', JStr reason)]))"

definition activate_body ::
    "emergency_env \<Rightarrow> datetime \<Rightarrow> EmergencyAction list \<Rightarrow> string \<Rightarrow> string \<Rightarrow> string \<Rightarrow> string option \<Rightarrow>
     dict emergency_prog" where
  "activate_body env now actions reason actor_id idempotency_key approval_id =
     (let request = [(''actions'', jstrs (sort (map EmergencyAction_value actions))), (''reason'', JStr reason),
                     (''actor_id'', JStr actor_id), (''approval_id'', jopt JStr approval_id)];
          receipts = idempotent_receipt (em_sha env) now ''emergency_activate'' idempotency_key request
      in bnd (txn EmergencyStore (receipts None)) (\<lambda>prior_receipt.
         case prior_receipt of
           Some r \<Rightarrow> give r
         | None \<Rightarrow>
             bnd (query EmergencyStore (\<lambda>db. head (em_sha env) db ''emergency'' ''emergency_global'')) (\<lambda>prior.
             bnd (lift (activated_state env now prior actions reason actor_id approval_id)) (\<lambda>state.
             let current = map EmergencyAction_value (es_active_actions state) in
             bnd (txn append_error (append_record (em_sha env) now ''emergency'' ''emergency_global''
                    (emergency_dict (em_time_text env) state) ''active'' (map_option sr_revision prior))) (\<lambda>record.
             bnd (txn EmergencyStore (append_event (em_sha env) now
                    (emergency_event ''emergency_global'' ''emergency_activated'' actor_id ''emergency_state_v1''
                      [(''emergency_state_id'', JStr (es_emergency_state_id state)), (''actions'', jstrs current),
                       (''reason_sha256'', reason_id env reason)]))) (\<lambda>event.
             bnd (query EmergencyStore (\<lambda>db. Inr (snapshot_id (em_sha env) db))) (\<lambda>snapshot.
             let receipt =
               [(''command_id'', JStr (derive_id (em_sha env) ''ecmd''
                   (JObj ((''idempotency_key'', JStr idempotency_key) # request)))),
                (''state'', JStr ''active''), (''revision'', JInt (sr_revision record)),
                (''snapshot_id'', JStr snapshot), (''event_id'', field_or event ''event_id'' JNull),
                (''expected_effect'', jstrs current),
                (''approval_status'', JStr (if approval_id \<noteq> None \<and> approval_id \<noteq> Some [] then ''recorded''
                   else ''local_emergency_authority'')),
                (''recovery'', JStr ''manual_recovery_required'')]
             in bnd (txn EmergencyStore (receipts (Some receipt))) (\<lambda>_. give receipt))))))))"

definition activate ::
    "emergency_env \<Rightarrow> datetime \<Rightarrow> EmergencyAction list \<Rightarrow> string \<Rightarrow> string \<Rightarrow> string \<Rightarrow> string option \<Rightarrow>
     dict emergency_op" where
  "activate env now actions reason actor_id idempotency_key approval_id =
     bnd (require_enabled env) (\<lambda>_.
     bnd (check (actions \<noteq> []) EmergencyError) (\<lambda>_.
     with_store EmergencyStore (em_sha env) now
       (activate_body env now actions reason actor_id idempotency_key approval_id)))"


subsection \<open>Recovery\<close>

definition open_security_breakers :: "emergency_env \<Rightarrow> platform_db \<Rightarrow> (store_error, bool) result" where
  "open_security_breakers env db =
     rbind (list_heads (em_sha env) db ''breaker'' (Some ''open'') 200 0) (\<lambda>records. Inr
       (list_ex (\<lambda>r. (case map_of (sr_payload r) ''security_breaker'' of None \<Rightarrow> False | Some v \<Rightarrow> py_truth v) \<and>
          sr_state r = ''open'') records))"

text \<open>\<open>payload.update(changes)\<close>.\<close>

definition updated :: "dict \<Rightarrow> dict \<Rightarrow> dict" where
  "updated payload changes = fold (\<lambda>(k, v). AList.update k v) changes payload"

definition recovered_payload ::
    "emergency_env \<Rightarrow> datetime \<Rightarrow> stored_record \<Rightarrow> string list \<Rightarrow> string \<Rightarrow> string \<Rightarrow> string \<Rightarrow> dict" where
  "recovered_payload env now prior remaining reason actor_id approval_id =
     updated (sr_payload prior)
       [(''emergency_state_id'', JStr (derive_id (em_sha env) ''emergency''
           (JObj [(''remaining'', jstrs remaining), (''revision'', JInt (sr_revision prior + 1)),
                  (''reason'', JStr reason)]))),
        (''active_actions'', jstrs remaining),
        (''reason'', JStr reason),
        (''revision'', JInt (sr_revision prior + 1)),
        (''recovered_at'', JStr (isoformat now)),
        (''recovered_by'', JStr actor_id),
        (''approval_id'', JStr approval_id),
        (''extensions'', JObj [(''action_activated_at'', JObj (map (map_prod id JStr)
           (filter (\<lambda>(a, _). a \<in> set remaining) (recorded_stamps (sr_payload prior)))))])]"

definition recover_body ::
    "emergency_env \<Rightarrow> datetime \<Rightarrow> EmergencyAction list \<Rightarrow> string \<Rightarrow> string \<Rightarrow> string \<Rightarrow> string \<Rightarrow> dict emergency_prog" where
  "recover_body env now actions actor_id approval_id reason idempotency_key =
     (let requested = map EmergencyAction_value actions;
          request = [(''actions'', jstrs (sort requested)), (''actor_id'', JStr actor_id),
                     (''approval_id'', JStr approval_id), (''reason'', JStr reason)];
          receipts = idempotent_receipt (em_sha env) now ''emergency_recover'' idempotency_key request
      in bnd (txn EmergencyStore (receipts None)) (\<lambda>prior_receipt.
         case prior_receipt of
           Some r \<Rightarrow> give r
         | None \<Rightarrow>
             bnd (query EmergencyStore (\<lambda>db. head (em_sha env) db ''emergency'' ''emergency_global'')) (\<lambda>found.
             case found of None \<Rightarrow> fail EmergencyError | Some prior \<Rightarrow>
             bnd (check (sr_state prior = ''active'') EmergencyError) (\<lambda>_.
             bnd (lift (prior_actions (Some prior))) (\<lambda>active.
             bnd (check (set requested \<subseteq> set active) EmergencyError) (\<lambda>_.
             bnd (query EmergencyStore (open_security_breakers env)) (\<lambda>security_open.
             bnd (check (\<not> (security_open \<and> EmergencyAction_value DISABLE_RUNTIME_EXECUTION \<in> set requested)) EmergencyError) (\<lambda>_.
             let remaining = sorted_set (filter (\<lambda>a. a \<notin> set requested) active);
                 final_state = (if remaining \<noteq> [] then ''active'' else ''recovered'')
             in bnd (lift (of_option EmergencyError (em_state_of env
                    (recovered_payload env now prior remaining reason actor_id approval_id)))) (\<lambda>recovered.
                bnd (txn EmergencyStore (append_record (em_sha env) now ''emergency'' ''emergency_global''
                       (emergency_dict (em_time_text env) recovered) final_state (Some (sr_revision prior)))) (\<lambda>_.
                bnd (txn EmergencyStore (append_event (em_sha env) now
                       (emergency_event ''emergency_global'' ''emergency_recovered'' actor_id ''emergency_state_v1''
                         [(''recovered_actions'', jstrs (sorted_set requested)), (''remaining_actions'', jstrs remaining),
                          (''reason_sha256'', reason_id env reason)]))) (\<lambda>event.
                bnd (query EmergencyStore (\<lambda>db. Inr (snapshot_id (em_sha env) db))) (\<lambda>snapshot.
                let receipt =
                  [(''command_id'', JStr (derive_id (em_sha env) ''ecmd''
                      (JObj ((''idempotency_key'', JStr idempotency_key) # request)))),
                   (''state'', JStr final_state), (''snapshot_id'', JStr snapshot),
                   (''event_id'', field_or event ''event_id'' JNull), (''expected_effect'', jstrs (sorted_set requested)),
                   (''approval_status'', JStr ''fresh_approval_recorded''),
                   (''recovery'', JStr ''manual_recovery_applied'')]
                in bnd (txn EmergencyStore (receipts (Some receipt))) (\<lambda>_. give receipt)))))))))))))"

definition recovery_query :: "emergency_env \<Rightarrow> string \<Rightarrow> string \<Rightarrow> jval \<Rightarrow> approval_query" where
  "recovery_query env action target_id material =
     \<lparr>aq_action = action, aq_target_id = target_id, aq_artifact_sha256 = sha256_hex (em_sha env) (json_bytes material),
      aq_destination = None, aq_required_scope = [''emergency_recovery''], aq_policy_sha256 = None\<rparr>"

definition authorize :: "emergency_env \<Rightarrow> datetime \<Rightarrow> string \<Rightarrow> approval_query \<Rightarrow> unit emergency_op" where
  "authorize env now approval_id q = (\<lambda>file.
     (case require_approval (em_authority env) file approval_id q now of
        Inl AuthorityError \<Rightarrow> Inl EmergencyError
      | Inl e \<Rightarrow> Inl (EmergencyAuthority e)
      | Inr _ \<Rightarrow> Inr (), file))"

definition recover ::
    "emergency_env \<Rightarrow> datetime \<Rightarrow> EmergencyAction list \<Rightarrow> string \<Rightarrow> string \<Rightarrow> string \<Rightarrow> string \<Rightarrow> dict emergency_op" where
  "recover env now actions actor_id approval_id reason idempotency_key =
     bnd (require_enabled env) (\<lambda>_.
     bnd (check (approval_id \<noteq> []) EmergencyError) (\<lambda>_.
     bnd (authorize env now approval_id (recovery_query env ''recover_emergency'' ''emergency_global''
            (JObj [(''actions'', jstrs (sort (map EmergencyAction_value actions))), (''reason'', JStr reason)]))) (\<lambda>_.
     with_store EmergencyStore (em_sha env) now
       (recover_body env now actions actor_id approval_id reason idempotency_key))))"

subsection \<open>Circuit breakers\<close>

definition recoveries_used :: "dict \<Rightarrow> int" where
  "recoveries_used payload =
     (case map_of payload ''extensions'' of
        Some (JObj exts) \<Rightarrow>
          (case map_of exts ''automatic_recoveries_used'' of
             Some (JInt n) \<Rightarrow> n | Some (JBool b) \<Rightarrow> of_bool b | _ \<Rightarrow> 0)
      | _ \<Rightarrow> 0)"

text \<open>\<open>int(value)\<close>; of the texts only plain digits are read.\<close>

definition py_int :: "jval \<Rightarrow> (emergency_error, int) result" where
  "py_int v = (case v of JInt n \<Rightarrow> Inr n | JBool b \<Rightarrow> Inr (of_bool b)
     | JStr s \<Rightarrow> of_option EmergencyValueError (digits_value s) | _ \<Rightarrow> Inl EmergencyValueError)"

definition breaker_transition :: "bool \<Rightarrow> bool \<Rightarrow> string option \<Rightarrow> int \<Rightarrow> CircuitBreakerState \<times> int" where
  "breaker_transition tripped security prior_state used =
     (if tripped then (CB_OPEN, used)
      else if prior_state = Some ''open'' then
        (if used < (if security then 0 else 1) then (CB_HALF_OPEN, used + 1) else (CB_OPEN, used))
      else (CB_CLOSED, used))"

definition breaker_reason :: "CircuitBreakerState \<Rightarrow> string \<Rightarrow> int \<Rightarrow> int \<Rightarrow> string option" where
  "breaker_reason state trigger observed thr =
     (case state of
        CB_OPEN \<Rightarrow> Some (trigger @ '':'' @ show_int observed @ ''/'' @ show_int thr)
      | CB_HALF_OPEN \<Rightarrow> Some (trigger @ '':automatic_recovery_probe'')
      | CB_CLOSED \<Rightarrow> None)"

definition breaker_id_for :: "emergency_env \<Rightarrow> string \<Rightarrow> string \<Rightarrow> string" where
  "breaker_id_for env trigger scope =
     derive_id (em_sha env) ''breaker'' (JObj [(''trigger'', JStr trigger), (''scope'', JStr scope)])"

definition observe_body ::
    "emergency_env \<Rightarrow> datetime \<Rightarrow> string \<Rightarrow> int \<Rightarrow> int \<Rightarrow> string \<Rightarrow> string \<Rightarrow> (circuit_breaker \<times> bool) emergency_prog" where
  "observe_body env now trigger thr observed scope actor_id =
     (let breaker_id = breaker_id_for env trigger scope in
      bnd (query EmergencyStore (\<lambda>db. head (em_sha env) db ''breaker'' breaker_id)) (\<lambda>prior.
      let revision = next_revision prior;
          security = trigger \<in> set security_triggers;
          prior_state = map_option sr_state prior;
          tripped = thr \<le> observed;
          (state, used) = breaker_transition tripped security prior_state
            (case prior of None \<Rightarrow> 0 | Some p \<Rightarrow> recoveries_used (sr_payload p))
      in bnd (lift (case prior of
             Some p \<Rightarrow> (if state = CB_OPEN \<and> \<not> tripped
                        then rbind (py_int (field_or (sr_payload p) ''observed'' (JInt 0))) (\<lambda>n. Inr (max observed n))
                        else Inr observed)
           | None \<Rightarrow> Inr observed)) (\<lambda>shown.
         let opened_now = (state = CB_OPEN \<and> prior_state \<noteq> Some ''open'') in
         bnd (lift (make_CircuitBreaker env
           \<lparr>schema_name = ''CircuitBreakerV1'', schema_version = SCHEMA_VERSION, id_scheme_version = ID_SCHEME_VERSION,
            extensions = [(''automatic_recoveries_used'', JInt used)],
            cb_breaker_id = breaker_id, cb_scope = scope, cb_trigger = trigger, cb_state = state,
            cb_threshold = thr, cb_observed = shown, cb_reason = breaker_reason state trigger shown thr,
            cb_automatic_recovery_limit = (if security then 0 else 1), cb_security_breaker = security,
            cb_revision = revision, cb_opened_at = (if state = CB_OPEN then Some now else None),
            cb_updated_at = now\<rparr>)) (\<lambda>breaker.
         bnd (txn EmergencyStore (append_record (em_sha env) now ''breaker'' breaker_id
                (breaker_dict (em_time_text env) breaker) (CircuitBreakerState_value state)
                (map_option sr_revision prior))) (\<lambda>_.
         bnd (txn EmergencyStore (append_event (em_sha env) now
                (emergency_event breaker_id ''circuit_breaker_observed'' actor_id ''circuit_breaker_v1''
                  [(''trigger'', JStr trigger), (''observed'', JInt shown),
                   (''state'', JStr (CircuitBreakerState_value state)),
                   (''reason'', jopt JStr (breaker_reason state trigger shown thr)),
                   (''recoveries_used'', JInt used)]))) (\<lambda>_.
         give (breaker, opened_now)))))))"

definition observe_breaker ::
    "emergency_env \<Rightarrow> datetime \<Rightarrow> string \<Rightarrow> int \<Rightarrow> string \<Rightarrow> string \<Rightarrow> circuit_breaker emergency_op" where
  "observe_breaker env now trigger observed scope actor_id =
     bnd (require_enabled env) (\<lambda>_.
     case map_of (fc_circuit_breakers (em_features env)) trigger of
       None \<Rightarrow> fail EmergencyError
     | Some thr \<Rightarrow>
         bnd (with_store EmergencyStore (em_sha env) now
                (observe_body env now trigger thr observed scope actor_id)) (\<lambda>(breaker, opened_now).
         if opened_now then
           bnd (activate env now [DISABLE_RUNTIME_EXECUTION] (''Circuit breaker opened: '' @ trigger) actor_id
                  (derive_id (em_sha env) ''idem'' (JObj
                    [(''breaker_id'', JStr (breaker_id_for env trigger scope)),
                     (''revision'', JInt (cb_revision breaker)),
                     (''state'', JStr (CircuitBreakerState_value (cb_state breaker)))])) None) (\<lambda>_. give breaker)
         else give breaker))"

definition closed_payload :: "datetime \<Rightarrow> stored_record \<Rightarrow> dict" where
  "closed_payload now prior =
     updated (sr_payload prior)
       [(''state'', JStr ''closed''), (''observed'', JInt 0), (''reason'', JNull),
        (''revision'', JInt (sr_revision prior + 1)), (''opened_at'', JNull), (''updated_at'', JStr (isoformat now)),
        (''extensions'', JObj [(''automatic_recoveries_used'', JInt 0)])]"

definition close_body ::
    "emergency_env \<Rightarrow> datetime \<Rightarrow> string \<Rightarrow> string \<Rightarrow> string \<Rightarrow> string \<Rightarrow> circuit_breaker emergency_prog" where
  "close_body env now breaker_id approval_id reason actor_id =
     bnd (query EmergencyStore (\<lambda>db. head (em_sha env) db ''breaker'' breaker_id)) (\<lambda>found.
     case found of None \<Rightarrow> fail EmergencyError | Some prior \<Rightarrow>
     bnd (lift (of_option EmergencyError (em_breaker_of env (closed_payload now prior)))) (\<lambda>breaker.
     bnd (txn append_error (append_record (em_sha env) now ''breaker'' breaker_id
            (breaker_dict (em_time_text env) breaker) ''closed'' (Some (sr_revision prior)))) (\<lambda>_.
     bnd (txn EmergencyStore (append_event (em_sha env) now
            (emergency_event breaker_id ''circuit_breaker_closed'' actor_id ''circuit_breaker_v1''
              [(''trigger'', JStr (py_str (field_or (sr_payload prior) ''trigger'' JNull))),
               (''approval_id'', JStr approval_id), (''reason_sha256'', reason_id env reason)]))) (\<lambda>_.
     give breaker))))"

definition close_breaker ::
    "emergency_env \<Rightarrow> datetime \<Rightarrow> string \<Rightarrow> string \<Rightarrow> string \<Rightarrow> string \<Rightarrow> circuit_breaker emergency_op" where
  "close_breaker env now breaker_id approval_id reason actor_id =
     bnd (require_enabled env) (\<lambda>_.
     bnd (check (approval_id \<noteq> []) EmergencyError) (\<lambda>_.
     bnd (authorize env now approval_id (recovery_query env ''close_circuit_breaker'' breaker_id
            (JObj [(''breaker_id'', JStr breaker_id), (''reason'', JStr reason)]))) (\<lambda>_.
     with_store EmergencyStore (em_sha env) now (close_body env now breaker_id approval_id reason actor_id))))"

subsection \<open>Gates\<close>

record emergency_view =
  ev_snapshot_id :: string
  ev_state :: string
  ev_active_actions :: "jval list"
  ev_revision :: "int option"
  ev_breakers :: "dict list"

definition breaker_view_keys :: "string list" where
  "breaker_view_keys = [''breaker_id'', ''scope'', ''trigger'', ''state'', ''threshold'', ''observed'', ''reason'',
     ''security_breaker'', ''updated_at'']"

definition snapshot :: "emergency_env \<Rightarrow> platform_db option \<Rightarrow> (emergency_error, emergency_view) result" where
  "snapshot env file =
     (case open_platform_store_read_only file of
        None \<Rightarrow> Inr \<lparr>ev_snapshot_id = ''pview_unavailable'', ev_state = ''unavailable'', ev_active_actions = [],
                  ev_revision = None, ev_breakers = []\<rparr>
      | Some db \<Rightarrow>
          rbind (rcatch (head (em_sha env) db ''emergency'' ''emergency_global'') EmergencyStore) (\<lambda>emergency.
          rbind (rcatch (list_heads (em_sha env) db ''breaker'' None 200 0) EmergencyStore) (\<lambda>breakers.
          rbind (case emergency of
                   Some r \<Rightarrow> (if sr_state r = ''active''
                              then of_option EmergencyValueError (list_items (sr_payload r) ''active_actions'') else Inr [])
                 | None \<Rightarrow> Inr []) (\<lambda>active.
          Inr \<lparr>ev_snapshot_id = snapshot_id (em_sha env) db, ev_state = (if active \<noteq> [] then ''blocked'' else ''ready''),
               ev_active_actions = active, ev_revision = map_option sr_revision emergency,
               ev_breakers = map (\<lambda>r. map (\<lambda>k. (k, field_or (sr_payload r) k JNull)) breaker_view_keys) breakers\<rparr>))))"

definition assert_runtime_allowed :: "emergency_env \<Rightarrow> platform_db option \<Rightarrow> (emergency_error, unit) result" where
  "assert_runtime_allowed env file =
     rbind (snapshot env file) (\<lambda>v.
     if ev_state v = ''unavailable'' then Inl EmergencyError
     else ensure (set (map py_str (ev_active_actions v)) \<inter> set runtime_blocking_actions = {}) EmergencyError)"

text \<open>The narrower gates do not apply while there is no database file at all.\<close>

definition assert_action_inactive ::
    "emergency_env \<Rightarrow> EmergencyAction \<Rightarrow> platform_db option \<Rightarrow> (emergency_error, unit) result" where
  "assert_action_inactive env action file =
     (if file = None then Inr ()
      else case open_platform_store_read_only file of
        None \<Rightarrow> Inl EmergencyError
      | Some db \<Rightarrow>
          (case head (em_sha env) db ''emergency'' ''emergency_global'' of
             Inl e \<Rightarrow> Inl (if e = StoreValueError then EmergencyStore e else EmergencyError)
           | Inr None \<Rightarrow> Inr ()
           | Inr (Some r) \<Rightarrow>
               (if sr_state r \<noteq> ''active'' then Inr ()
                else rbind (of_option EmergencyValueError (str_items (sr_payload r) ''active_actions'')) (\<lambda>active.
                  ensure (EmergencyAction_value action \<notin> set active) EmergencyError))))"

definition assert_network_allowed :: "emergency_env \<Rightarrow> platform_db option \<Rightarrow> (emergency_error, unit) result" where
  "assert_network_allowed env = assert_action_inactive env DISABLE_NETWORK_ADAPTERS"

definition assert_provider_egress_allowed :: "emergency_env \<Rightarrow> platform_db option \<Rightarrow> (emergency_error, unit) result" where
  "assert_provider_egress_allowed env = assert_action_inactive env DISABLE_EXTERNAL_PROVIDERS"

definition assert_task_checkout_allowed :: "emergency_env \<Rightarrow> platform_db option \<Rightarrow> (emergency_error, unit) result" where
  "assert_task_checkout_allowed env = assert_action_inactive env FREEZE_TASK_CHECKOUT"

definition assert_session_grant_allowed :: "emergency_env \<Rightarrow> platform_db option \<Rightarrow> (emergency_error, unit) result" where
  "assert_session_grant_allowed env = assert_action_inactive env REVOKE_RUNTIME_SESSIONS"

end
