(* ===== verification/Workflow_Contracts.thy ===== *)
theory Workflow_Contracts
  imports Canonical
begin

text \<open>
  Model of \<open>src/raytsystem/contracts/workflows.py\<close>: the records of workflows, their runs and of
  notifications. \<open>X_ok\<close> is the check of the constructor of \<open>X\<close> on fields whose strings are already
  stripped. \<open>X_dict\<close> is \<open>model_dump(mode="json")\<close>, the form in which the workflow engine stores a
  record; the rendering of a timestamp in that form is the argument \<open>dt\<close>. A field annotated as a
  closed set of strings is a \<open>string\<close> constrained by the check.
\<close>

section \<open>Definitions\<close>

datatype WorkflowNodeType = NT_TASK | NT_AGENT | NT_DETERMINISTIC_COMMAND | NT_REVIEW | NT_APPROVAL
  | NT_CONDITION | NT_WAIT | NT_ARTIFACT | NT_NOTIFICATION | NT_SUBWORKFLOW

fun WorkflowNodeType_value :: "WorkflowNodeType \<Rightarrow> string" where
  "WorkflowNodeType_value NT_TASK = ''task''"
| "WorkflowNodeType_value NT_AGENT = ''agent''"
| "WorkflowNodeType_value NT_DETERMINISTIC_COMMAND = ''deterministic_command''"
| "WorkflowNodeType_value NT_REVIEW = ''review''"
| "WorkflowNodeType_value NT_APPROVAL = ''approval''"
| "WorkflowNodeType_value NT_CONDITION = ''condition''"
| "WorkflowNodeType_value NT_WAIT = ''wait''"
| "WorkflowNodeType_value NT_ARTIFACT = ''artifact''"
| "WorkflowNodeType_value NT_NOTIFICATION = ''notification''"
| "WorkflowNodeType_value NT_SUBWORKFLOW = ''subworkflow''"

record workflow_trigger = versioned_model +
  wtr_trigger_id :: string
  wtr_kind :: string
  wtr_configuration_sha256 :: string
  wtr_enabled :: bool

definition WorkflowTrigger_ok :: "workflow_trigger \<Rightarrow> bool" where
  "WorkflowTrigger_ok t \<longleftrightarrow>
     versioned_ok ''WorkflowTriggerV1'' t \<and> is_Identifier (wtr_trigger_id t) \<and>
     wtr_kind t \<in> {''manual'', ''task_event'', ''schedule'', ''webhook_proposal''} \<and>
     is_Sha256 (wtr_configuration_sha256 t)"

record workflow_condition = versioned_model +
  wc_condition_id :: string
  wc_operation :: string
  wc_input_name :: string
  wc_expected :: jval

definition WorkflowCondition_ok :: "workflow_condition \<Rightarrow> bool" where
  "WorkflowCondition_ok c \<longleftrightarrow>
     versioned_ok ''WorkflowConditionV1'' c \<and> is_Identifier (wc_condition_id c) \<and>
     wc_operation c \<in> {''equals'', ''not_equals'', ''contains'', ''exists'', ''all_passed'', ''any_failed''} \<and>
     is_Identifier (wc_input_name c)"

record workflow_retry_policy = versioned_model +
  wrp_retry_policy_id :: string
  wrp_max_attempts :: int
  wrp_initial_delay_ms :: int
  wrp_maximum_delay_ms :: int
  wrp_backoff :: string
  wrp_retryable_error_codes :: "string list"

definition WorkflowRetryPolicy_ok :: "workflow_retry_policy \<Rightarrow> bool" where
  "WorkflowRetryPolicy_ok p \<longleftrightarrow>
     versioned_ok ''WorkflowRetryPolicyV1'' p \<and> is_Identifier (wrp_retry_policy_id p) \<and>
     1 \<le> wrp_max_attempts p \<and> wrp_max_attempts p \<le> 20 \<and>
     0 \<le> wrp_initial_delay_ms p \<and> wrp_initial_delay_ms p \<le> 300000 \<and>
     0 \<le> wrp_maximum_delay_ms p \<and> wrp_maximum_delay_ms p \<le> 3600000 \<and>
     wrp_backoff p \<in> {''none'', ''linear'', ''exponential''} \<and>
     list_all is_Identifier (wrp_retryable_error_codes p)"

definition retry_policy_dict :: "workflow_retry_policy \<Rightarrow> (string \<times> jval) list" where
  "retry_policy_dict p = versioned_fields p @
     [(''retry_policy_id'', JStr (wrp_retry_policy_id p)),
      (''max_attempts'', JInt (wrp_max_attempts p)),
      (''initial_delay_ms'', JInt (wrp_initial_delay_ms p)),
      (''maximum_delay_ms'', JInt (wrp_maximum_delay_ms p)),
      (''backoff'', JStr (wrp_backoff p)),
      (''retryable_error_codes'', jstrs (wrp_retryable_error_codes p))]"

record workflow_approval_gate = versioned_model +
  wag_approval_gate_id :: string
  wag_action :: string
  wag_scope_sha256 :: string
  wag_required_role :: string
  wag_expires_after_seconds :: int

definition WorkflowApprovalGate_ok :: "workflow_approval_gate \<Rightarrow> bool" where
  "WorkflowApprovalGate_ok g \<longleftrightarrow>
     versioned_ok ''WorkflowApprovalGateV1'' g \<and> is_Identifier (wag_approval_gate_id g) \<and>
     is_Identifier (wag_action g) \<and> is_Sha256 (wag_scope_sha256 g) \<and> is_Identifier (wag_required_role g) \<and>
     1 \<le> wag_expires_after_seconds g \<and> wag_expires_after_seconds g \<le> 604800"

definition approval_gate_dict :: "workflow_approval_gate \<Rightarrow> (string \<times> jval) list" where
  "approval_gate_dict g = versioned_fields g @
     [(''approval_gate_id'', JStr (wag_approval_gate_id g)),
      (''action'', JStr (wag_action g)),
      (''scope_sha256'', JStr (wag_scope_sha256 g)),
      (''required_role'', JStr (wag_required_role g)),
      (''expires_after_seconds'', JInt (wag_expires_after_seconds g))]"

record workflow_node = versioned_model +
  wn_node_id :: string
  wn_node_type :: WorkflowNodeType
  wn_name :: string
  wn_input_schema_sha256 :: string
  wn_output_schema_sha256 :: string
  wn_operation_id :: "string option"
  wn_agent_id :: "string option"
  wn_subworkflow_id :: "string option"
  wn_condition_id :: "string option"
  wn_approval_gate_id :: "string option"
  wn_retry_policy_id :: "string option"
  wn_timeout_seconds :: int
  wn_idempotency_scope :: string

definition node_invariants :: "workflow_node \<Rightarrow> bool" where
  "node_invariants n \<longleftrightarrow>
     (case wn_node_type n of
        NT_DETERMINISTIC_COMMAND \<Rightarrow> wn_operation_id n \<noteq> None
      | NT_AGENT \<Rightarrow> wn_agent_id n \<noteq> None
      | NT_SUBWORKFLOW \<Rightarrow> wn_subworkflow_id n \<noteq> None
      | NT_CONDITION \<Rightarrow> wn_condition_id n \<noteq> None
      | NT_APPROVAL \<Rightarrow> wn_approval_gate_id n \<noteq> None
      | _ \<Rightarrow> True)"

definition WorkflowNode_ok :: "workflow_node \<Rightarrow> bool" where
  "WorkflowNode_ok n \<longleftrightarrow>
     versioned_ok ''WorkflowNodeV1'' n \<and> is_Identifier (wn_node_id n) \<and> is_NonEmptyStr (wn_name n) \<and>
     is_Sha256 (wn_input_schema_sha256 n) \<and> is_Sha256 (wn_output_schema_sha256 n) \<and>
     list_all (opt_ok is_Identifier) [wn_operation_id n, wn_agent_id n, wn_subworkflow_id n,
       wn_condition_id n, wn_approval_gate_id n, wn_retry_policy_id n] \<and>
     1 \<le> wn_timeout_seconds n \<and> wn_timeout_seconds n \<le> 86400 \<and>
     wn_idempotency_scope n \<in> {''workflow_run'', ''task'', ''global''} \<and> node_invariants n"

definition node_dict :: "workflow_node \<Rightarrow> (string \<times> jval) list" where
  "node_dict n = versioned_fields n @
     [(''node_id'', JStr (wn_node_id n)),
      (''node_type'', JStr (WorkflowNodeType_value (wn_node_type n))),
      (''name'', JStr (wn_name n)),
      (''input_schema_sha256'', JStr (wn_input_schema_sha256 n)),
      (''output_schema_sha256'', JStr (wn_output_schema_sha256 n)),
      (''operation_id'', jopt JStr (wn_operation_id n)),
      (''agent_id'', jopt JStr (wn_agent_id n)),
      (''subworkflow_id'', jopt JStr (wn_subworkflow_id n)),
      (''condition_id'', jopt JStr (wn_condition_id n)),
      (''approval_gate_id'', jopt JStr (wn_approval_gate_id n)),
      (''retry_policy_id'', jopt JStr (wn_retry_policy_id n)),
      (''timeout_seconds'', JInt (wn_timeout_seconds n)),
      (''idempotency_scope'', JStr (wn_idempotency_scope n))]"

record workflow_edge = versioned_model +
  wed_edge_id :: string
  wed_source_node_id :: string
  wed_target_node_id :: string
  wed_source_output :: string
  wed_target_input :: string
  wed_condition_id :: "string option"

definition WorkflowEdge_ok :: "workflow_edge \<Rightarrow> bool" where
  "WorkflowEdge_ok e \<longleftrightarrow>
     versioned_ok ''WorkflowEdgeV1'' e \<and>
     list_all is_Identifier [wed_edge_id e, wed_source_node_id e, wed_target_node_id e,
       wed_source_output e, wed_target_input e] \<and>
     opt_ok is_Identifier (wed_condition_id e) \<and> wed_source_node_id e \<noteq> wed_target_node_id e"

definition edge_dict :: "workflow_edge \<Rightarrow> (string \<times> jval) list" where
  "edge_dict e = versioned_fields e @
     [(''edge_id'', JStr (wed_edge_id e)),
      (''source_node_id'', JStr (wed_source_node_id e)),
      (''target_node_id'', JStr (wed_target_node_id e)),
      (''source_output'', JStr (wed_source_output e)),
      (''target_input'', JStr (wed_target_input e)),
      (''condition_id'', jopt JStr (wed_condition_id e))]"

record workflow_artifact_binding = versioned_model +
  wab_binding_id :: string
  wab_node_id :: string
  wab_output_name :: string
  wab_artifact_type :: string
  wab_required :: bool

definition WorkflowArtifactBinding_ok :: "workflow_artifact_binding \<Rightarrow> bool" where
  "WorkflowArtifactBinding_ok b \<longleftrightarrow>
     versioned_ok ''WorkflowArtifactBindingV1'' b \<and>
     list_all is_Identifier [wab_binding_id b, wab_node_id b, wab_output_name b, wab_artifact_type b]"

record workflow_definition = versioned_model +
  wd_workflow_id :: string
  wd_name :: string
  wd_description :: string
  wd_current_revision_id :: "string option"
  wd_enabled :: bool

definition WorkflowDefinition_ok :: "workflow_definition \<Rightarrow> bool" where
  "WorkflowDefinition_ok d \<longleftrightarrow>
     versioned_ok ''WorkflowDefinitionV1'' d \<and> is_Identifier (wd_workflow_id d) \<and>
     is_NonEmptyStr (wd_name d) \<and> is_NonEmptyStr (wd_description d) \<and>
     opt_ok is_Identifier (wd_current_revision_id d)"

definition definition_dict :: "workflow_definition \<Rightarrow> (string \<times> jval) list" where
  "definition_dict d = versioned_fields d @
     [(''workflow_id'', JStr (wd_workflow_id d)),
      (''name'', JStr (wd_name d)),
      (''description'', JStr (wd_description d)),
      (''current_revision_id'', jopt JStr (wd_current_revision_id d)),
      (''enabled'', JBool (wd_enabled d))]"

record workflow_revision = versioned_model +
  wr_revision_id :: string
  wr_workflow_id :: string
  wr_version :: string
  wr_trigger_ids :: "string list"
  wr_nodes :: "workflow_node list"
  wr_edges :: "workflow_edge list"
  wr_condition_ids :: "string list"
  wr_approval_gate_ids :: "string list"
  wr_retry_policy_ids :: "string list"
  wr_artifact_binding_ids :: "string list"
  wr_manifest_sha256 :: string
  wr_previous_revision_id :: "string option"
  wr_created_at :: datetime

definition revision_invariants :: "workflow_revision \<Rightarrow> bool" where
  "revision_invariants r \<longleftrightarrow>
     (let node_ids = map wn_node_id (wr_nodes r) in
      node_ids \<noteq> [] \<and> unique node_ids \<and> unique (map wed_edge_id (wr_edges r)) \<and>
      list_all (\<lambda>e. wed_source_node_id e \<in> set node_ids \<and> wed_target_node_id e \<in> set node_ids) (wr_edges r))"

definition WorkflowRevision_ok :: "workflow_revision \<Rightarrow> bool" where
  "WorkflowRevision_ok r \<longleftrightarrow>
     versioned_ok ''WorkflowRevisionV1'' r \<and> is_Identifier (wr_revision_id r) \<and> is_Identifier (wr_workflow_id r) \<and>
     is_NonEmptyStr (wr_version r) \<and>
     list_all (list_all is_Identifier) [wr_trigger_ids r, wr_condition_ids r, wr_approval_gate_ids r,
       wr_retry_policy_ids r, wr_artifact_binding_ids r] \<and>
     list_all WorkflowNode_ok (wr_nodes r) \<and> list_all WorkflowEdge_ok (wr_edges r) \<and>
     is_Sha256 (wr_manifest_sha256 r) \<and> opt_ok is_Identifier (wr_previous_revision_id r) \<and>
     revision_invariants r"

definition revision_dict :: "(datetime \<Rightarrow> string) \<Rightarrow> workflow_revision \<Rightarrow> (string \<times> jval) list" where
  "revision_dict dt r = versioned_fields r @
     [(''revision_id'', JStr (wr_revision_id r)),
      (''workflow_id'', JStr (wr_workflow_id r)),
      (''version'', JStr (wr_version r)),
      (''trigger_ids'', jstrs (wr_trigger_ids r)),
      (''nodes'', JList (map (\<lambda>n. JObj (node_dict n)) (wr_nodes r))),
      (''edges'', JList (map (\<lambda>e. JObj (edge_dict e)) (wr_edges r))),
      (''condition_ids'', jstrs (wr_condition_ids r)),
      (''approval_gate_ids'', jstrs (wr_approval_gate_ids r)),
      (''retry_policy_ids'', jstrs (wr_retry_policy_ids r)),
      (''artifact_binding_ids'', jstrs (wr_artifact_binding_ids r)),
      (''manifest_sha256'', JStr (wr_manifest_sha256 r)),
      (''previous_revision_id'', jopt JStr (wr_previous_revision_id r)),
      (''created_at'', JStr (dt (wr_created_at r)))]"

record workflow_run = versioned_model +
  wrun_workflow_run_id :: string
  wrun_revision_id :: string
  wrun_state :: string
  wrun_input_sha256 :: string
  wrun_step_run_ids :: "string list"
  wrun_replay_of_run_id :: "string option"
  wrun_started_at :: datetime
  wrun_completed_at :: "datetime option"

definition WorkflowRun_ok :: "workflow_run \<Rightarrow> bool" where
  "WorkflowRun_ok r \<longleftrightarrow>
     versioned_ok ''WorkflowRunV1'' r \<and> is_Identifier (wrun_workflow_run_id r) \<and> is_Identifier (wrun_revision_id r) \<and>
     wrun_state r \<in> {''planned'', ''running'', ''paused'', ''cancelled'', ''succeeded'', ''failed''} \<and>
     is_Sha256 (wrun_input_sha256 r) \<and> list_all is_Identifier (wrun_step_run_ids r) \<and>
     opt_ok is_Identifier (wrun_replay_of_run_id r)"

definition run_dict :: "(datetime \<Rightarrow> string) \<Rightarrow> workflow_run \<Rightarrow> (string \<times> jval) list" where
  "run_dict dt r = versioned_fields r @
     [(''workflow_run_id'', JStr (wrun_workflow_run_id r)),
      (''revision_id'', JStr (wrun_revision_id r)),
      (''state'', JStr (wrun_state r)),
      (''input_sha256'', JStr (wrun_input_sha256 r)),
      (''step_run_ids'', jstrs (wrun_step_run_ids r)),
      (''replay_of_run_id'', jopt JStr (wrun_replay_of_run_id r)),
      (''started_at'', JStr (dt (wrun_started_at r))),
      (''completed_at'', jopt (\<lambda>t. JStr (dt t)) (wrun_completed_at r))]"

record workflow_step_run = versioned_model +
  ws_step_run_id :: string
  ws_workflow_run_id :: string
  ws_node_id :: string
  ws_state :: string
  ws_attempt :: int
  ws_idempotency_key :: string
  ws_input_sha256 :: string
  ws_output_sha256 :: "string option"
  ws_approval_id :: "string option"
  ws_started_at :: "datetime option"
  ws_completed_at :: "datetime option"

definition WorkflowStepRun_ok :: "workflow_step_run \<Rightarrow> bool" where
  "WorkflowStepRun_ok s \<longleftrightarrow>
     versioned_ok ''WorkflowStepRunV1'' s \<and>
     list_all is_Identifier [ws_step_run_id s, ws_workflow_run_id s, ws_node_id s, ws_idempotency_key s] \<and>
     ws_state s \<in> {''pending'', ''running'', ''waiting'', ''paused'', ''skipped'', ''succeeded'', ''failed'', ''cancelled''} \<and>
     1 \<le> ws_attempt s \<and> ws_attempt s \<le> 20 \<and> is_Sha256 (ws_input_sha256 s) \<and>
     opt_ok is_Sha256 (ws_output_sha256 s) \<and> opt_ok is_Identifier (ws_approval_id s)"

definition step_dict :: "(datetime \<Rightarrow> string) \<Rightarrow> workflow_step_run \<Rightarrow> (string \<times> jval) list" where
  "step_dict dt s = versioned_fields s @
     [(''step_run_id'', JStr (ws_step_run_id s)),
      (''workflow_run_id'', JStr (ws_workflow_run_id s)),
      (''node_id'', JStr (ws_node_id s)),
      (''state'', JStr (ws_state s)),
      (''attempt'', JInt (ws_attempt s)),
      (''idempotency_key'', JStr (ws_idempotency_key s)),
      (''input_sha256'', JStr (ws_input_sha256 s)),
      (''output_sha256'', jopt JStr (ws_output_sha256 s)),
      (''approval_id'', jopt JStr (ws_approval_id s)),
      (''started_at'', jopt (\<lambda>t. JStr (dt t)) (ws_started_at s)),
      (''completed_at'', jopt (\<lambda>t. JStr (dt t)) (ws_completed_at s))]"

datatype NotificationType = APPROVAL_NEEDED | EMPLOYEE_BLOCKED | BUDGET_EXCEEDED | NOTE_RUN_FAILED
  | REVIEW_READY | EVAL_REGRESSION | STALE_GRAPH | INGESTION_FAILED | SECURITY_FINDING
  | PACKAGE_UPDATE | MIGRATION_REQUIRED

fun NotificationType_value :: "NotificationType \<Rightarrow> string" where
  "NotificationType_value APPROVAL_NEEDED = ''approval_needed''"
| "NotificationType_value EMPLOYEE_BLOCKED = ''employee_blocked''"
| "NotificationType_value BUDGET_EXCEEDED = ''budget_exceeded''"
| "NotificationType_value NOTE_RUN_FAILED = ''run_failed''"
| "NotificationType_value REVIEW_READY = ''review_ready''"
| "NotificationType_value EVAL_REGRESSION = ''eval_regression''"
| "NotificationType_value STALE_GRAPH = ''stale_graph''"
| "NotificationType_value INGESTION_FAILED = ''ingestion_failed''"
| "NotificationType_value SECURITY_FINDING = ''security_finding''"
| "NotificationType_value PACKAGE_UPDATE = ''package_update''"
| "NotificationType_value MIGRATION_REQUIRED = ''migration_required''"

record notification = versioned_model +
  no_notification_id :: string
  no_notification_type :: NotificationType
  no_severity :: string
  no_title :: string
  no_message :: string
  no_related_kind :: string
  no_related_id :: string
  no_origin_event_id :: string
  no_deduplication_key :: string
  no_state :: string
  no_created_at :: datetime
  no_acknowledged_at :: "datetime option"
  no_resolved_at :: "datetime option"

definition Notification_ok :: "notification \<Rightarrow> bool" where
  "Notification_ok n \<longleftrightarrow>
     versioned_ok ''NotificationV1'' n \<and> is_Identifier (no_notification_id n) \<and>
     no_severity n \<in> {''info'', ''low'', ''medium'', ''high'', ''critical''} \<and>
     is_NonEmptyStr (no_title n) \<and> is_NonEmptyStr (no_message n) \<and>
     list_all is_Identifier [no_related_kind n, no_related_id n, no_origin_event_id n, no_deduplication_key n] \<and>
     no_state n \<in> {''unread'', ''read'', ''acknowledged'', ''resolved''}"

record notification_outbox = versioned_model +
  nx_outbox_id :: string
  nx_notification_id :: string
  nx_adapter :: string
  nx_destination_id :: string
  nx_payload_sha256 :: string
  nx_preview_sha256 :: string
  nx_policy_decision_id :: string
  nx_approval_id :: string
  nx_idempotency_key :: string
  nx_state :: string
  nx_attempt_count :: int
  nx_redacted :: bool
  nx_created_at :: datetime

definition NotificationOutbox_ok :: "notification_outbox \<Rightarrow> bool" where
  "NotificationOutbox_ok n \<longleftrightarrow>
     versioned_ok ''NotificationOutboxV1'' n \<and>
     list_all is_Identifier [nx_outbox_id n, nx_notification_id n, nx_destination_id n,
       nx_policy_decision_id n, nx_approval_id n, nx_idempotency_key n] \<and>
     nx_adapter n \<in> {''webhook'', ''telegram'', ''slack'', ''email''} \<and>
     is_Sha256 (nx_payload_sha256 n) \<and> is_Sha256 (nx_preview_sha256 n) \<and>
     nx_state n \<in> {''draft'', ''approved'', ''sending'', ''sent'', ''failed'', ''dead_letter''} \<and>
     0 \<le> nx_attempt_count n \<and> nx_attempt_count n \<le> 20 \<and> nx_redacted n"

end
