(* ===== verification/Workflow_Dag.thy ===== *)
theory Workflow_Dag
  imports Workflow_Contracts
begin

text \<open>
  Model of \<open>WorkflowService.validate_dag\<close> and \<open>_retry_delay_ms\<close>
  (\<open>src/raytsystem/workflows/service.py\<close>). The dictionaries of the Python code are association lists
  in insertion order; the queue is a list whose head is popped. The loop ends because every pass takes
  one node off the queue, and a node is queued only when its in-degree drops to zero: the number of
  queued nodes plus the number of nodes with a positive in-degree decreases.
\<close>

section \<open>Definitions\<close>

datatype workflow_error =
    WorkflowError | WorkflowKeyError | WorkflowEmergencyError | WorkflowValidationError | WorkflowStoreError

definition nodes_by_id :: "workflow_node list \<Rightarrow> (string \<times> workflow_node) list" where
  "nodes_by_id nodes = fold (\<lambda>n. AList.update (wn_node_id n) n) nodes []"

definition edge_pair :: "workflow_edge \<Rightarrow> string \<times> string" where
  "edge_pair e = (wed_source_node_id e, wed_target_node_id e)"

text \<open>The loop over the edges: duplicate pairs are refused, the in-degree of each target counts up.\<close>

fun scan_edges ::
    "(string \<times> string) list \<Rightarrow> (string \<times> string) list \<Rightarrow> (string \<times> int) list \<Rightarrow>
     (workflow_error, (string \<times> int) list) result" where
  "scan_edges [] seen indegree = Inr indegree"
| "scan_edges (pair # pairs) seen indegree =
     (if pair \<in> set seen then Inl WorkflowError
      else case map_of indegree (snd pair) of
             None \<Rightarrow> Inl WorkflowKeyError
           | Some d \<Rightarrow> scan_edges pairs (pair # seen) (AList.update (snd pair) (d + 1) indegree))"

definition outgoing :: "(string \<times> string) list \<Rightarrow> string \<Rightarrow> string list" where
  "outgoing pairs source = map snd (filter (\<lambda>p. fst p = source) pairs)"

text \<open>The loop over the targets of a popped node.\<close>

fun relax :: "string list \<Rightarrow> (string \<times> int) list \<Rightarrow> string list \<Rightarrow> (workflow_error, (string \<times> int) list \<times> string list) result" where
  "relax [] indegree queue = Inr (indegree, queue)"
| "relax (t # ts) indegree queue =
     (case map_of indegree t of
        None \<Rightarrow> Inl WorkflowKeyError
      | Some d \<Rightarrow> relax ts (AList.update t (d - 1) indegree) (if d - 1 = 0 then queue @ [t] else queue))"

definition positive :: "(string \<times> int) list \<Rightarrow> nat" where
  "positive indegree = length (filter (\<lambda>p. 0 < snd p) indegree)"

lemma positive_update:
  "map_of indegree t = Some d \<Longrightarrow>
     positive (AList.update t (d - 1) indegree) + (if d - 1 = 0 then 1 else 0) = positive indegree"
  by (induction indegree) (auto simp: positive_def)

lemma relax_measure:
  "relax ts indegree queue = Inr (indegree', queue') \<Longrightarrow>
     positive indegree' + length queue' = positive indegree + length queue"
proof (induction ts arbitrary: indegree queue)
  case (Cons t ts)
  then obtain d where d: "map_of indegree t = Some d" by (auto split: option.splits)
  with Cons.prems Cons.IH positive_update [OF d] show ?case by (auto split: if_splits)
qed simp

function kahn_loop ::
    "(string \<times> string) list \<Rightarrow> (string \<times> int) list \<Rightarrow> string list \<Rightarrow> string list \<Rightarrow> (workflow_error, string list) result" where
  "kahn_loop pairs indegree queue ordered =
     (case queue of
        [] \<Rightarrow> Inr ordered
      | node_id # rest \<Rightarrow>
          (case relax (sort (outgoing pairs node_id)) indegree rest of
             Inl e \<Rightarrow> Inl e
           | Inr (indegree', queue') \<Rightarrow> kahn_loop pairs indegree' queue' (ordered @ [node_id])))"
  by pat_completeness auto
termination
  by (relation "measure (\<lambda>(pairs, indegree, queue, ordered). positive indegree + length queue)")
    (auto dest!: relax_measure)

declare kahn_loop.simps [simp del]

definition operations :: "string list" where
  "operations = [''identity'', ''summarize_keys'']"

definition raw_shell :: "string \<Rightarrow> bool" where
  "raw_shell s = list_ex (\<lambda>c. c \<in> set s) '' ;|&$`''"

definition check_operation :: "workflow_node \<Rightarrow> (workflow_error, unit) result" where
  "check_operation n =
     (if wn_node_type n = NT_DETERMINISTIC_COMMAND then
        (case wn_operation_id n of
           None \<Rightarrow> Inl WorkflowError
         | Some i \<Rightarrow> if i \<notin> set operations then Inl WorkflowError
                     else if raw_shell i then Inl WorkflowError else Inr ())
      else Inr ())"

definition validate_dag :: "workflow_revision \<Rightarrow> (workflow_error, string list) result" where
  "validate_dag revision =
     (let nodes = nodes_by_id (wr_nodes revision);
          pairs = map edge_pair (wr_edges revision) in
      rbind (scan_edges pairs [] (map (\<lambda>p. (fst p, 0)) nodes)) (\<lambda>indegree.
      rbind (kahn_loop pairs indegree (sort (map fst (filter (\<lambda>p. snd p = 0) indegree))) []) (\<lambda>ordered.
      if length ordered \<noteq> length nodes then Inl WorkflowError
      else rbind (rmap check_operation (map snd nodes)) (\<lambda>_. Inr ordered))))"

definition retry_delay_ms :: "workflow_retry_policy \<Rightarrow> int \<Rightarrow> int" where
  "retry_delay_ms policy attempt =
     (let delay =
            (if wrp_backoff policy = ''linear'' then wrp_initial_delay_ms policy * attempt
             else if wrp_backoff policy = ''exponential'' then wrp_initial_delay_ms policy * 2 ^ nat (attempt - 1)
             else wrp_initial_delay_ms policy)
      in if wrp_maximum_delay_ms policy \<noteq> 0 then min delay (wrp_maximum_delay_ms policy) else delay)"

section \<open>The two loops\<close>

lemma nodes_by_id_distinct:
  "distinct (map wn_node_id nodes) \<Longrightarrow> nodes_by_id nodes = map (\<lambda>n. (wn_node_id n, n)) nodes"
proof -
  have "distinct (map fst acc @ map wn_node_id nodes) \<Longrightarrow>
      fold (\<lambda>n. AList.update (wn_node_id n) n) nodes acc = acc @ map (\<lambda>n. (wn_node_id n, n)) nodes" for acc
  proof (induction nodes arbitrary: acc)
    case (Cons n nodes)
    then have "AList.update (wn_node_id n) n acc = acc @ [(wn_node_id n, n)]"
      by (intro update_new_key) auto
    with Cons show ?case by simp
  qed simp
  from this [of "[]"] show "distinct (map wn_node_id nodes) \<Longrightarrow> ?thesis" by (simp add: nodes_by_id_def)
qed

text \<open>\<open>into pairs done t\<close> counts the edges into a node from nodes that are not done.\<close>

definition into :: "(string \<times> string) list \<Rightarrow> string set \<Rightarrow> string \<Rightarrow> int" where
  "into pairs done t = int (length (filter (\<lambda>p. snd p = t \<and> fst p \<notin> done) pairs))"

lemma into_Cons: "into (p # pairs) done t = into pairs done t + (if snd p = t \<and> fst p \<notin> done then 1 else 0)"
  by (simp add: into_def)

lemma scan_edges_Inr:
  assumes "scan_edges pairs seen indegree = Inr indegree'"
  shows "distinct pairs" "set pairs \<inter> set seen = {}" "map fst indegree' = map fst indegree"
    "map_of indegree' t = map_option (\<lambda>d. d + into pairs {} t) (map_of indegree t)"
    "snd ` set pairs \<subseteq> fst ` set indegree"
  using assms
proof (induction pairs arbitrary: seen indegree)
  case (Cons p pairs)
  {
    case 1
    with Cons.IH show ?case by (fastforce split: if_splits option.splits)
  next
    case 2
    with Cons.IH show ?case by (fastforce split: if_splits option.splits)
  next
    case 3
    then obtain d where d: "map_of indegree (snd p) = Some d"
      "scan_edges pairs (p # seen) (AList.update (snd p) (d + 1) indegree) = Inr indegree'"
      by (auto split: if_splits option.splits)
    with Cons.IH(3) [OF d(2)] map_of_zip_fst [OF d(1)] show ?case by (simp add: keys_update)
  next
    case 4
    then obtain d where d: "map_of indegree (snd p) = Some d"
      "scan_edges pairs (p # seen) (AList.update (snd p) (d + 1) indegree) = Inr indegree'"
      by (auto split: if_splits option.splits)
    with Cons.IH(4) [OF d(2)] show ?case by (auto simp: map_of_update_alist into_Cons)
  next
    case 5
    then obtain d where d: "map_of indegree (snd p) = Some d"
      "scan_edges pairs (p # seen) (AList.update (snd p) (d + 1) indegree) = Inr indegree'"
      by (auto split: if_splits option.splits)
    with Cons.IH(5) [OF d(2)] map_of_zip_fst [OF d(1)] show ?case
      by (metis (no_types, lifting) image_insert insert_subset keys_update list.set_map list.simps(15))
  }
qed (auto simp: into_def option.map_ident)

lemma scan_edges_ok:
  assumes "distinct pairs" "set pairs \<inter> set seen = {}" "snd ` set pairs \<subseteq> fst ` set indegree"
  shows "\<exists>indegree'. scan_edges pairs seen indegree = Inr indegree'"
  using assms
proof (induction pairs arbitrary: seen indegree)
  case (Cons p pairs)
  then obtain d where d: "map_of indegree (snd p) = Some d"
    by (metis (no_types, lifting) image_subset_iff list.set_intros(1) map_of_eq_None_iff not_Some_eq)
  moreover have "fst ` set (AList.update (snd p) (d + 1) indegree) = fst ` set indegree"
    using keys_update [OF map_of_zip_fst [OF d]] by (metis list.set_map)
  ultimately show ?case using Cons by auto
qed simp

text \<open>Relaxing distinct known targets lowers each of them once and queues those that reach zero.\<close>

lemma relax_Inr:
  assumes "distinct ts" "set ts \<subseteq> fst ` set indegree"
  shows "\<exists>indegree'. relax ts indegree queue =
      Inr (indegree', queue @ filter (\<lambda>t. map_of indegree t = Some 1) ts) \<and>
    map fst indegree' = map fst indegree \<and>
    (\<forall>n. map_of indegree' n = map_option (\<lambda>d. if n \<in> set ts then d - 1 else d) (map_of indegree n))"
  using assms
proof (induction ts arbitrary: indegree queue)
  case (Cons t ts)
  obtain d where d: "map_of indegree t = Some d"
    using Cons.prems by (metis (no_types, lifting) list.set_intros(1) map_of_eq_None_iff not_Some_eq subset_iff)
  let ?next = "AList.update t (d - 1) indegree"
  have keys: "map fst ?next = map fst indegree" by (rule keys_update [OF map_of_zip_fst [OF d]])
  then have "set ts \<subseteq> fst ` set ?next" using Cons.prems by (metis insert_subset list.set_map list.simps(15))
  with Cons.IH [of ?next "if d - 1 = 0 then queue @ [t] else queue"] Cons.prems obtain indegree' where
    r: "relax ts ?next (if d - 1 = 0 then queue @ [t] else queue) =
        Inr (indegree', (if d - 1 = 0 then queue @ [t] else queue) @ filter (\<lambda>t. map_of ?next t = Some 1) ts)"
    "map fst indegree' = map fst ?next"
    "\<And>n. map_of indegree' n = map_option (\<lambda>d. if n \<in> set ts then d - 1 else d) (map_of ?next n)"
    by auto
  have "filter (\<lambda>t. map_of ?next t = Some 1) ts = filter (\<lambda>t. map_of indegree t = Some 1) ts"
    using Cons.prems by (intro filter_cong) (auto simp: map_of_update_alist)
  moreover have "map_of indegree' n = map_option (\<lambda>d. if n \<in> set (t # ts) then d - 1 else d) (map_of indegree n)" for n
    using r(3) [of n] d Cons.prems by (auto simp: map_of_update_alist)
  ultimately show ?case using r(1,2) keys d by (intro exI [of _ indegree']) auto
qed (simp add: option.map_ident)

section \<open>Correctness of the topological sort\<close>

definition topo_sorted :: "(string \<times> string) list \<Rightarrow> string list \<Rightarrow> bool" where
  "topo_sorted pairs xs \<longleftrightarrow> (\<forall>i < length xs. \<forall>p\<in>set pairs. snd p = xs ! i \<longrightarrow> fst p \<in> set (take i xs))"

definition kahn_inv :: "(string \<times> string) list \<Rightarrow> string list \<Rightarrow> (string \<times> int) list \<Rightarrow> string list \<Rightarrow> string list \<Rightarrow> bool" where
  "kahn_inv pairs N indegree queue ordered \<longleftrightarrow>
     map fst indegree = N \<and> distinct (ordered @ queue) \<and> set (ordered @ queue) \<subseteq> set N \<and>
     (\<forall>n\<in>set N. map_of indegree n = Some (into pairs (set ordered) n)) \<and>
     (\<forall>n\<in>set N. into pairs (set ordered) n = 0 \<longleftrightarrow> n \<in> set (ordered @ queue)) \<and>
     topo_sorted pairs ordered"

lemma into_zero: "into pairs D t = 0 \<longleftrightarrow> (\<forall>p\<in>set pairs. snd p = t \<longrightarrow> fst p \<in> D)"
  by (auto simp: into_def filter_empty_conv)

lemma into_nonneg: "0 \<le> into pairs D t"
  by (simp add: into_def)

lemma into_insert:
  assumes "distinct pairs" "u \<notin> D"
  shows "into pairs (insert u D) t = into pairs D t - (if (u, t) \<in> set pairs then 1 else 0)"
  using assms(1)
proof (induction pairs)
  case (Cons p pairs)
  then show ?case using assms(2) by (cases p) (auto simp: into_Cons)
qed (simp add: into_def)

lemma outgoing_props:
  "distinct pairs \<Longrightarrow> distinct (outgoing pairs u)" "t \<in> set (outgoing pairs u) \<longleftrightarrow> (u, t) \<in> set pairs"
  by (force simp: outgoing_def distinct_map inj_on_def)+

lemma topo_sorted_snoc:
  "topo_sorted pairs (xs @ [u]) \<longleftrightarrow> topo_sorted pairs xs \<and> (\<forall>p\<in>set pairs. snd p = u \<longrightarrow> fst p \<in> set xs)"
  unfolding topo_sorted_def by (auto simp: nth_append less_Suc_eq)

lemma kahn_step:
  assumes inv: "kahn_inv pairs N indegree (u # rest) ordered" and pairs: "distinct pairs" "snd ` set pairs \<subseteq> set N"
    and N: "distinct N"
  shows "\<exists>indegree' queue'. relax (sort (outgoing pairs u)) indegree rest = Inr (indegree', queue') \<and>
    kahn_inv pairs N indegree' queue' (ordered @ [u])"
proof -
  let ?ts = "sort (outgoing pairs u)" and ?D = "set ordered"
  note inv' = inv [unfolded kahn_inv_def]
  have ts: "distinct ?ts" "t \<in> set ?ts \<longleftrightarrow> (u, t) \<in> set pairs" for t
    using outgoing_props pairs(1) by simp_all
  have ts_N: "t \<in> set N" if "t \<in> set ?ts" for t
    using imageI [of "(u, t)" "set pairs" snd] that ts(2) pairs(2) by auto
  moreover have "fst ` set indegree = set N" using inv' by (metis list.set_map)
  ultimately have "set ?ts \<subseteq> fst ` set indegree" by blast
  from relax_Inr [OF ts(1) this, of rest] obtain indegree' where
    r: "relax ?ts indegree rest = Inr (indegree', rest @ filter (\<lambda>t. map_of indegree t = Some 1) ?ts)"
    "map fst indegree' = map fst indegree"
    "\<And>n. map_of indegree' n = map_option (\<lambda>d. if n \<in> set ?ts then d - 1 else d) (map_of indegree n)"
    by blast
  let ?new = "filter (\<lambda>t. map_of indegree t = Some 1) ?ts"
  have u: "u \<notin> ?D" "u \<in> set N" using inv' by auto
  have into': "into pairs (insert u ?D) t = into pairs ?D t - (if t \<in> set ?ts then 1 else 0)" for t
    using into_insert [OF pairs(1) u(1)] ts(2) by simp
  have deg: "map_of indegree n = Some (into pairs ?D n)" if "n \<in> set N" for n using inv' that by blast
  have zero: "into pairs ?D n = 0 \<longleftrightarrow> n \<in> set (ordered @ u # rest)" if "n \<in> set N" for n using inv' that by blast
  have new: "t \<in> set ?new \<longleftrightarrow> t \<in> set ?ts \<and> into pairs ?D t = 1" for t using deg ts_N by auto
  have pos: "into pairs ?D t \<noteq> 0" if "t \<in> set ?ts" for t
    using that ts(2) u(1) by (force simp: into_zero)
  have "kahn_inv pairs N indegree' (rest @ ?new) (ordered @ [u])"
    unfolding kahn_inv_def
  proof (intro conjI ballI)
    show "map fst indegree' = N" using r(2) inv' by simp
    show "set ((ordered @ [u]) @ rest @ ?new) \<subseteq> set N" using inv' ts_N by auto
    have "set ?new \<inter> set (ordered @ u # rest) = {}" using new zero ts_N by fastforce
    moreover have "distinct ?new" using ts(1) by simp
    ultimately show "distinct ((ordered @ [u]) @ rest @ ?new)" using inv' by auto
    show "topo_sorted pairs (ordered @ [u])"
      using inv' zero [OF u(2)] by (simp add: topo_sorted_snoc into_zero)
    fix n assume n: "n \<in> set N"
    show "map_of indegree' n = Some (into pairs (set (ordered @ [u])) n)"
      using r(3) [of n] deg [OF n] into' by simp
    have "into pairs (insert u ?D) n = 0 \<longleftrightarrow> into pairs ?D n = 0 \<or> n \<in> set ?new"
      using into' [of n] new [of n] pos [of n] by auto
    then show "into pairs (set (ordered @ [u])) n = 0 \<longleftrightarrow> n \<in> set ((ordered @ [u]) @ rest @ ?new)"
      using zero [OF n] by auto
  qed
  with r(1) show ?thesis by blast
qed

lemma kahn_loop_inv:
  assumes "kahn_inv pairs N indegree queue ordered" "distinct pairs" "snd ` set pairs \<subseteq> set N" "distinct N"
  shows "\<exists>indegree' ordered'. kahn_loop pairs indegree queue ordered = Inr ordered' \<and>
    kahn_inv pairs N indegree' [] ordered'"
  using assms
proof (induction pairs indegree queue ordered rule: kahn_loop.induct)
  case (1 pairs indegree queue ordered)
  show ?case
  proof (cases queue)
    case Nil
    with 1 show ?thesis by (auto simp: kahn_loop.simps)
  next
    case (Cons u rest)
    with kahn_step [of pairs N indegree u rest ordered] "1.prems" obtain indegree' queue' where
      r: "relax (sort (outgoing pairs u)) indegree rest = Inr (indegree', queue')"
      "kahn_inv pairs N indegree' queue' (ordered @ [u])" by blast
    from "1.IH" [OF Cons r(1) refl r(2)] "1.prems" Cons r(1) show ?thesis
      by (simp add: kahn_loop.simps [of pairs indegree])
  qed
qed

text \<open>What is left over when the queue is empty has a predecessor in the rest; in an acyclic graph
  nothing is left over, and a complete topological order excludes cycles.\<close>

lemma kahn_complete:
  assumes "kahn_inv pairs N indegree [] ordered" "fst ` set pairs \<subseteq> set N" "acyclic (set pairs)"
  shows "set ordered = set N"
proof (rule ccontr)
  assume "set ordered \<noteq> set N"
  then obtain m where m: "m \<in> set N - set ordered" using assms(1) by (auto simp: kahn_inv_def)
  have "wf (set pairs)" using assms(3) by (simp add: finite_acyclic_wf)
  from wfE_min [OF this m] obtain z where z: "z \<in> set N - set ordered"
    "\<And>y. (y, z) \<in> set pairs \<Longrightarrow> y \<notin> set N - set ordered" by blast
  then have "into pairs (set ordered) z \<noteq> 0" using assms(1) by (auto simp: kahn_inv_def)
  then obtain p where "p \<in> set pairs" "snd p = z" "fst p \<notin> set ordered" by (auto simp: into_zero)
  with z(2) assms(2) show False by (metis DiffI image_subset_iff prod.collapse)
qed

lemma position_nth:
  assumes "distinct xs" "i < length xs"
  shows "length (takeWhile (\<lambda>y. y \<noteq> xs ! i) xs) = i"
proof -
  have "takeWhile (\<lambda>y. y \<noteq> xs ! i) xs = take i xs"
    by (rule takeWhile_eq_take_P_nth) (use assms in \<open>auto simp: nth_eq_iff_index_eq\<close>)
  with assms(2) show ?thesis by simp
qed

lemma topo_sorted_acyclic:
  assumes "topo_sorted pairs xs" "distinct xs" "snd ` set pairs \<subseteq> set xs"
  shows "acyclic (set pairs)"
proof (rule acyclicI_order [where f = "\<lambda>x. - int (length (takeWhile (\<lambda>y. y \<noteq> x) xs))"])
  fix a b
  assume ab: "(a, b) \<in> set pairs"
  then have "b \<in> set xs" using imageI [of "(a, b)" "set pairs" snd] assms(3) by auto
  then obtain i where i: "i < length xs" "b = xs ! i" by (auto simp: in_set_conv_nth)
  have "snd (a, b) = xs ! i \<longrightarrow> fst (a, b) \<in> set (take i xs)"
    using assms(1) ab i(1) unfolding topo_sorted_def by blast
  with i(2) have "a \<in> set (take i xs)" by simp
  then obtain j where j: "j < i" "a = xs ! j" using i(1) by (auto simp: in_set_conv_nth)
  with i position_nth [OF assms(2)] show
    "- int (length (takeWhile (\<lambda>y. y \<noteq> b) xs)) < - int (length (takeWhile (\<lambda>y. y \<noteq> a) xs))" by simp
qed

definition dag_pairs :: "workflow_revision \<Rightarrow> (string \<times> string) list" where
  "dag_pairs r = map edge_pair (wr_edges r)"

definition dag_ids :: "workflow_revision \<Rightarrow> string list" where
  "dag_ids r = map wn_node_id (wr_nodes r)"

lemma revision_shape:
  assumes "revision_invariants r"
  shows "distinct (dag_ids r)" "fst ` set (dag_pairs r) \<subseteq> set (dag_ids r)" "snd ` set (dag_pairs r) \<subseteq> set (dag_ids r)"
  using assms by (auto simp: revision_invariants_def dag_ids_def dag_pairs_def edge_pair_def Let_def list_all_iff)

lemma zero_map: "map_of (map (\<lambda>n. (n, 0 :: int)) xs) k = (if k \<in> set xs then Some 0 else None)"
  by (induction xs) auto

lemma kahn_start:
  assumes "revision_invariants r"
    and "scan_edges (dag_pairs r) [] (map (\<lambda>n. (n, 0)) (dag_ids r)) = Inr indegree"
  shows "kahn_inv (dag_pairs r) (dag_ids r) indegree (sort (map fst (filter (\<lambda>p. snd p = 0) indegree))) []"
proof -
  let ?N = "dag_ids r" and ?E = "dag_pairs r"
  note scan = scan_edges_Inr [OF assms(2)]
  have keys: "map fst indegree = ?N" using scan(3) by (simp add: comp_def)
  have dist: "distinct ?N" by (rule revision_shape(1) [OF assms(1)])
  have deg: "map_of indegree n = Some (into ?E {} n)" if "n \<in> set ?N" for n
    using scan(4) [of n] that by (simp add: zero_map)
  have zero: "(n, 0) \<in> set indegree \<longleftrightarrow> n \<in> set ?N \<and> into ?E {} n = 0" for n
  proof -
    have "(n, 0) \<in> set indegree \<longleftrightarrow> map_of indegree n = Some 0"
      using dist keys by simp
    also have "\<dots> \<longleftrightarrow> n \<in> set ?N \<and> into ?E {} n = 0"
      using deg [of n] keys by (metis (no_types, lifting) list.set_map map_of_zip_fst option.inject)
    finally show ?thesis .
  qed
  have "distinct (map fst (filter (\<lambda>p. snd p = 0) indegree))"
    using dist keys distinct_map_filter by metis
  moreover have "n \<in> set (map fst (filter (\<lambda>p. snd p = 0) indegree)) \<longleftrightarrow> (n, 0) \<in> set indegree" for n
    by force
  ultimately show ?thesis
    unfolding kahn_inv_def using keys deg zero by (auto simp: topo_sorted_def)
qed

lemma validate_dag_unfold:
  assumes "revision_invariants r"
  shows "validate_dag r =
     rbind (scan_edges (dag_pairs r) [] (map (\<lambda>n. (n, 0)) (dag_ids r))) (\<lambda>indegree.
     rbind (kahn_loop (dag_pairs r) indegree (sort (map fst (filter (\<lambda>p. snd p = 0) indegree))) []) (\<lambda>ordered.
     if length ordered \<noteq> length (dag_ids r) then Inl WorkflowError
     else rbind (rmap check_operation (wr_nodes r)) (\<lambda>_. Inr ordered)))"
proof -
  have eq: "nodes_by_id (wr_nodes r) = map (\<lambda>n. (wn_node_id n, n)) (wr_nodes r)"
    by (rule nodes_by_id_distinct) (use revision_shape(1) [OF assms] in \<open>simp add: dag_ids_def\<close>)
  have "map snd (nodes_by_id (wr_nodes r)) = wr_nodes r"
    and "length (nodes_by_id (wr_nodes r)) = length (map wn_node_id (wr_nodes r))"
    and "map (\<lambda>p. (fst p, 0)) (nodes_by_id (wr_nodes r)) = map (\<lambda>n. (n, 0 :: int)) (map wn_node_id (wr_nodes r))"
    by (simp_all add: eq comp_def)
  then show ?thesis unfolding validate_dag_def dag_pairs_def dag_ids_def Let_def by metis
qed

lemma validate_dag_Inr:
  assumes "revision_invariants r" "validate_dag r = Inr order"
  shows "distinct (dag_pairs r)" "acyclic (set (dag_pairs r))" "distinct order" "set order = set (dag_ids r)"
    "topo_sorted (dag_pairs r) order" "\<forall>n\<in>set (wr_nodes r). is_ok (check_operation n)"
proof -
  note shape = revision_shape [OF assms(1)]
  from assms(2) obtain indegree checks where
    scan: "scan_edges (dag_pairs r) [] (map (\<lambda>n. (n, 0)) (dag_ids r)) = Inr indegree" and
    loop: "kahn_loop (dag_pairs r) indegree (sort (map fst (filter (\<lambda>p. snd p = 0) indegree))) [] = Inr order" and
    len: "length order = length (dag_ids r)" and ops: "rmap check_operation (wr_nodes r) = Inr checks"
    unfolding validate_dag_unfold [OF assms(1)] by (auto simp: result_simps split: if_splits)
  show pairs: "distinct (dag_pairs r)" by (rule scan_edges_Inr(1) [OF scan])
  from kahn_loop_inv [OF kahn_start [OF assms(1) scan] pairs shape(3,1)] loop obtain indegree' where
    inv: "kahn_inv (dag_pairs r) (dag_ids r) indegree' [] order" by auto
  then show d: "distinct order" and t: "topo_sorted (dag_pairs r) order" by (auto simp: kahn_inv_def)
  show s: "set order = set (dag_ids r)"
    using inv len d shape(1) by (metis card_subset_eq distinct_card finite_set kahn_inv_def append.right_neutral)
  show "acyclic (set (dag_pairs r))" by (rule topo_sorted_acyclic [OF t d]) (use shape(3) s in simp)
  show "\<forall>n\<in>set (wr_nodes r). is_ok (check_operation n)" using rmap_mem [OF ops] by (fastforce simp: is_ok_iff)
qed

lemma validate_dag_accepts:
  assumes "revision_invariants r" "distinct (dag_pairs r)" "acyclic (set (dag_pairs r))"
    and "\<forall>n\<in>set (wr_nodes r). is_ok (check_operation n)"
  shows "is_ok (validate_dag r)"
proof -
  note shape = revision_shape [OF assms(1)]
  obtain indegree where scan: "scan_edges (dag_pairs r) [] (map (\<lambda>n. (n, 0)) (dag_ids r)) = Inr indegree"
    using scan_edges_ok [of "dag_pairs r" "[]" "map (\<lambda>n. (n, 0)) (dag_ids r)"] assms(2) shape(3) by (auto simp: image_image)
  from kahn_loop_inv [OF kahn_start [OF assms(1) scan] assms(2) shape(3,1)] obtain indegree' order where
    loop: "kahn_loop (dag_pairs r) indegree (sort (map fst (filter (\<lambda>p. snd p = 0) indegree))) [] = Inr order" and
    inv: "kahn_inv (dag_pairs r) (dag_ids r) indegree' [] order" by blast
  have "set order = set (dag_ids r)" by (rule kahn_complete [OF inv shape(2) assms(3)])
  then have "length order = length (dag_ids r)"
    using inv shape(1) by (metis append.right_neutral distinct_card kahn_inv_def)
  moreover obtain checks where "rmap check_operation (wr_nodes r) = Inr checks"
    using rmap_Inr_ex assms(4) by (metis is_ok_iff)
  ultimately show ?thesis unfolding validate_dag_unfold [OF assms(1)] using scan loop by (simp add: is_ok_iff)
qed

section \<open>Properties\<close>

text \<open>C14: the workflow check accepts a revision exactly when no edge is repeated, the edges have no cycle
  and every deterministic command names a registered operation; the order it returns lists every node
  once, each after all its predecessors.\<close>

theorem validate_dag_exact:
  assumes "revision_invariants r"
  shows "(is_ok (validate_dag r) \<longleftrightarrow>
       distinct (dag_pairs r) \<and> acyclic (set (dag_pairs r)) \<and> (\<forall>n\<in>set (wr_nodes r). is_ok (check_operation n))) \<and>
    (\<forall>order. validate_dag r = Inr order \<longrightarrow>
       mset order = mset (dag_ids r) \<and> topo_sorted (dag_pairs r) order)"
proof (intro conjI allI impI iffI)
  assume "is_ok (validate_dag r)"
  then obtain order where "validate_dag r = Inr order" by (auto simp: is_ok_iff)
  from validate_dag_Inr [OF assms this] show "distinct (dag_pairs r)" "acyclic (set (dag_pairs r))"
    "\<forall>n\<in>set (wr_nodes r). is_ok (check_operation n)" by blast+
next
  fix order
  assume order: "validate_dag r = Inr order"
  note valid = validate_dag_Inr [OF assms order]
  from valid(3,4) revision_shape(1) [OF assms] show "mset order = mset (dag_ids r)"
    by (simp add: set_eq_iff_mset_eq_distinct)
  from valid(5) show "topo_sorted (dag_pairs r) order" .
qed (use validate_dag_accepts [OF assms] in blast)

definition sample_node :: "string \<Rightarrow> workflow_node" where
  "sample_node i = \<lparr>schema_name = ''WorkflowNodeV1'', schema_version = SCHEMA_VERSION,
     id_scheme_version = ID_SCHEME_VERSION, extensions = [], wn_node_id = i, wn_node_type = NT_TASK,
     wn_name = i, wn_input_schema_sha256 = [], wn_output_schema_sha256 = [], wn_operation_id = None,
     wn_agent_id = None, wn_subworkflow_id = None, wn_condition_id = None, wn_approval_gate_id = None,
     wn_retry_policy_id = None, wn_timeout_seconds = 300, wn_idempotency_scope = ''workflow_run''\<rparr>"

definition sample_edge :: "string \<Rightarrow> string \<Rightarrow> workflow_edge" where
  "sample_edge s t = \<lparr>schema_name = ''WorkflowEdgeV1'', schema_version = SCHEMA_VERSION,
     id_scheme_version = ID_SCHEME_VERSION, extensions = [], wed_edge_id = s @ t, wed_source_node_id = s,
     wed_target_node_id = t, wed_source_output = ''result'', wed_target_input = ''input'',
     wed_condition_id = None\<rparr>"

definition sample_revision :: "(string \<times> string) list \<Rightarrow> workflow_revision" where
  "sample_revision ps = \<lparr>schema_name = ''WorkflowRevisionV1'', schema_version = SCHEMA_VERSION,
     id_scheme_version = ID_SCHEME_VERSION, extensions = [], wr_revision_id = ''wrev'',
     wr_workflow_id = ''wf'', wr_version = ''1'', wr_trigger_ids = [],
     wr_nodes = map sample_node [''na'', ''nb'', ''nc''], wr_edges = map (\<lambda>p. sample_edge (fst p) (snd p)) ps,
     wr_condition_ids = [], wr_approval_gate_ids = [], wr_retry_policy_ids = [], wr_artifact_binding_ids = [],
     wr_manifest_sha256 = [], wr_previous_revision_id = None, wr_created_at = 0\<rparr>"

lemma sample_revision_invariants: "revision_invariants (sample_revision [(''nc'', ''na''), (''na'', ''nb'')])"
  by (simp add: revision_invariants_def sample_revision_def sample_node_def sample_edge_def)

theorem validate_dag_exact_witness:
  "validate_dag (sample_revision [(''nc'', ''na''), (''na'', ''nb'')]) = Inr [''nc'', ''na'', ''nb''] \<and>
   topo_sorted [(''nc'', ''na''), (''na'', ''nb'')] [''nc'', ''na'', ''nb'']"
proof -
  have order: "validate_dag (sample_revision [(''nc'', ''na''), (''na'', ''nb'')]) = Inr [''nc'', ''na'', ''nb'']"
    by code_simp
  with validate_dag_exact [OF sample_revision_invariants] show ?thesis
    by (simp add: dag_pairs_def edge_pair_def sample_revision_def sample_edge_def)
qed

text \<open>the delay before a retry is never negative, never above the configured maximum when there is
  one, and never shrinks from one attempt to the next.\<close>

theorem retry_delay_is_bounded:
  assumes "WorkflowRetryPolicy_ok p" "1 \<le> attempt"
  shows "0 \<le> retry_delay_ms p attempt \<and>
    (wrp_maximum_delay_ms p \<noteq> 0 \<longrightarrow> retry_delay_ms p attempt \<le> wrp_maximum_delay_ms p) \<and>
    retry_delay_ms p attempt \<le> retry_delay_ms p (attempt + 1)"
proof -
  have nn: "0 \<le> wrp_initial_delay_ms p" "0 \<le> wrp_maximum_delay_ms p"
    using assms(1) by (auto simp: WorkflowRetryPolicy_ok_def)
  have pow: "(2::int) ^ nat (attempt - 1) \<le> 2 ^ nat (attempt + 1 - 1)"
    by (rule power_increasing) (use assms(2) in auto)
  have lin: "wrp_initial_delay_ms p * attempt \<le> wrp_initial_delay_ms p * (attempt + 1)"
    using nn(1) by (simp add: distrib_left)
  have ex: "wrp_initial_delay_ms p * 2 ^ nat (attempt - 1) \<le> wrp_initial_delay_ms p * 2 ^ nat (attempt + 1 - 1)"
    using mult_left_mono [OF pow nn(1)] .
  have pos: "0 \<le> wrp_initial_delay_ms p * attempt" "0 \<le> wrp_initial_delay_ms p * 2 ^ nat (attempt - 1)"
    using nn(1) assms(2) by simp_all
  show ?thesis
    using nn lin ex pos unfolding retry_delay_ms_def Let_def by (auto simp: min_def)
qed

theorem retry_delay_is_bounded_witness:
  "\<exists>p. WorkflowRetryPolicy_ok p \<and> wrp_backoff p = ''exponential'' \<and> retry_delay_ms p 4 = 30 \<and> retry_delay_ms p 2 = 20 \<and>
     0 \<le> retry_delay_ms p 2 \<and> retry_delay_ms p 2 \<le> retry_delay_ms p 3"
proof -
  let ?p = "\<lparr>schema_name = ''WorkflowRetryPolicyV1'', schema_version = SCHEMA_VERSION,
     id_scheme_version = ID_SCHEME_VERSION, extensions = [], wrp_retry_policy_id = ''rp'', wrp_max_attempts = 5,
     wrp_initial_delay_ms = 10, wrp_maximum_delay_ms = 30, wrp_backoff = ''exponential'',
     wrp_retryable_error_codes = []\<rparr> :: workflow_retry_policy"
  have "is_Identifier ''rp''" "current_schema_major SCHEMA_VERSION" by code_simp+
  then have ok: "WorkflowRetryPolicy_ok ?p" by (simp add: WorkflowRetryPolicy_ok_def versioned_ok_def)
  have "retry_delay_ms ?p 4 = 30" "retry_delay_ms ?p 2 = 20" by (simp_all add: retry_delay_ms_def)
  with ok retry_delay_is_bounded [OF ok, of 2] show ?thesis by (intro exI [of _ ?p]) simp
qed

end
