(* ===== verification/Workflow_Engine.thy ===== *)
theory Workflow_Engine
  imports Emergency Workflow_Dag
begin

text \<open>
  Model of \<open>WorkflowService\<close> (\<open>src/raytsystem/workflows/service.py\<close>): the registration of workflow
  revisions and the engine that drives their runs. Every operation is a program on the database file
  of the platform store; each append is a transaction of its own, so an operation that raises leaves
  the records it had already written. Parameters are what the pydantic validation of a stored payload
  returns, the secret scanner, and the registry of operations; the registry of the service is
  \<open>builtin_operations\<close>. An operation of the registry may depend on the number of the attempt, so that a
  call that fails and succeeds later is covered. JSON values enter in their canonical form.
  \<open>clock\<close> is the time the store stamps on records, \<open>at\<close> the time a caller may impose.
\<close>

section \<open>Environment\<close>

record workflow_env =
  we_emergency :: emergency_env
  we_operations :: "string \<Rightarrow> (int \<Rightarrow> dict \<Rightarrow> pyval option) option"
  we_blocks :: "bytes \<Rightarrow> bool"
  we_revision_of :: "dict \<Rightarrow> workflow_revision option"
  we_run_of :: "dict \<Rightarrow> workflow_run option"
  we_step_of :: "dict \<Rightarrow> workflow_step_run option"
  we_policy_of :: "dict \<Rightarrow> workflow_retry_policy option"
  we_gate_of :: "dict \<Rightarrow> workflow_approval_gate option"

abbreviation we_sha :: "workflow_env \<Rightarrow> digest" where "we_sha env \<equiv> em_sha (we_emergency env)"
abbreviation we_strip :: "workflow_env \<Rightarrow> string \<Rightarrow> string" where "we_strip env \<equiv> em_strip (we_emergency env)"
abbreviation we_dt :: "workflow_env \<Rightarrow> datetime \<Rightarrow> string" where "we_dt env \<equiv> em_time_text (we_emergency env)"

type_synonym 'a workflow_prog = "(platform_db, workflow_error, 'a) prog"
type_synonym 'a workflow_op = "(platform_db option, workflow_error, 'a) prog"

definition builtin_operations :: "digest \<Rightarrow> string \<Rightarrow> (int \<Rightarrow> dict \<Rightarrow> pyval option) option" where
  "builtin_operations sha name =
     (if name = ''identity'' then Some (\<lambda>_ inputs. Some (PMap
         [(''input_sha256'', PStr (sha256_hex sha (json_bytes (JObj inputs))))]))
      else if name = ''summarize_keys'' then Some (\<lambda>_ inputs. Some (PMap
         [(''keys'', PSeq (map PStr (sort (map fst inputs))))]))
      else None)"

definition done_step_states :: "string list" where
  "done_step_states = [''succeeded'', ''skipped'']"

definition cancellable_run_states :: "string list" where
  "cancellable_run_states = [''planned'', ''running'', ''paused'']"

definition step_extra_keys :: "string list" where
  "step_extra_keys = [''output'', ''failure_reason'']"

definition seconds :: "int \<Rightarrow> int" where
  "seconds n = n * 1000000"

definition workflow_approval_target :: "digest \<Rightarrow> string \<Rightarrow> string \<Rightarrow> string" where
  "workflow_approval_target sha run_id node_id =
     derive_id sha ''wfappr'' (JObj [(''node_id'', JStr node_id), (''workflow_run_id'', JStr run_id)])"

section \<open>Access to the store\<close>

definition wf_get :: "workflow_env \<Rightarrow> string \<Rightarrow> string \<Rightarrow> stored_record option workflow_prog" where
  "wf_get env kind i = query (\<lambda>_. WorkflowStoreError) (\<lambda>db. head (we_sha env) db kind i)"

definition wf_put ::
    "workflow_env \<Rightarrow> datetime \<Rightarrow> string \<Rightarrow> string \<Rightarrow> dict \<Rightarrow> string \<Rightarrow> int option \<Rightarrow> stored_record workflow_prog" where
  "wf_put env clock kind i payload state expected =
     txn (\<lambda>_. WorkflowStoreError) (append_record (we_sha env) clock kind i payload state expected)"

definition wf_note ::
    "workflow_env \<Rightarrow> datetime \<Rightarrow> string \<Rightarrow> string \<Rightarrow> string \<Rightarrow> string \<Rightarrow> string \<Rightarrow> dict \<Rightarrow> dict workflow_prog" where
  "wf_note env clock stream aggregate event_type actor_id schema payload =
     txn (\<lambda>_. WorkflowStoreError) (append_event (we_sha env) clock
       \<lparr>er_stream_id = stream, er_aggregate_id = aggregate, er_event_type = event_type, er_actor_id = actor_id,
        er_payload_schema = schema, er_payload = payload, er_sensitivity = ''internal'',
        er_causation_id = None, er_correlation_id = None\<rparr>)"

definition engine_actor :: string where
  "engine_actor = ''raytsystem_workflow_engine''"

definition require_workflows :: "workflow_env \<Rightarrow> ('s, workflow_error, unit) prog" where
  "require_workflows env =
     (case feature_enabled (em_features (we_emergency env)) ''workflow_engine_enabled'' of
        Inl _ \<Rightarrow> fail WorkflowKeyError | Inr b \<Rightarrow> check b WorkflowError)"

definition require_runtime :: "workflow_env \<Rightarrow> unit workflow_op" where
  "require_runtime env = query (\<lambda>_. WorkflowEmergencyError) (assert_runtime_allowed (we_emergency env))"

definition safe_payload :: "workflow_env \<Rightarrow> pyval \<Rightarrow> (workflow_error, jval \<times> bytes) result" where
  "safe_payload env payload =
     rbind (rcatch (canonical_value payload) (\<lambda>_. WorkflowError)) (\<lambda>v.
     let rendered = json_bytes v in
     if 256 * 1024 < length rendered then Inl WorkflowError
     else if we_blocks env rendered then Inl WorkflowError
     else Inr (v, rendered))"

definition without :: "string list \<Rightarrow> dict \<Rightarrow> dict" where
  "without keys payload = filter (\<lambda>p. fst p \<notin> set keys) payload"

definition load_revision :: "workflow_env \<Rightarrow> string \<Rightarrow> workflow_revision workflow_prog" where
  "load_revision env revision_id =
     bnd (wf_get env ''workflow_revision'' revision_id) (\<lambda>found.
     case found of
       None \<Rightarrow> fail WorkflowError
     | Some r \<Rightarrow> lift (of_option WorkflowValidationError (we_revision_of env (sr_payload r))))"

definition load_run :: "workflow_env \<Rightarrow> string \<Rightarrow> (workflow_run \<times> stored_record \<times> dict) workflow_prog" where
  "load_run env run_id =
     bnd (wf_get env ''workflow_run'' run_id) (\<lambda>found.
     case found of
       None \<Rightarrow> fail WorkflowError
     | Some r \<Rightarrow>
         bnd (lift (of_option WorkflowValidationError (we_run_of env (without [''inputs''] (sr_payload r))))) (\<lambda>run.
         give (run, r, (case map_of (sr_payload r) ''inputs'' of Some (JObj i) \<Rightarrow> i | _ \<Rightarrow> []))))"

definition load_run_in :: "workflow_env \<Rightarrow> string \<Rightarrow> string \<Rightarrow> (workflow_run \<times> stored_record \<times> dict) workflow_prog" where
  "load_run_in env run_id expected_state =
     bnd (load_run env run_id) (\<lambda>(run, r, inputs).
     bnd (check (wrun_state run = expected_state) WorkflowError) (\<lambda>_. give (run, r, inputs)))"

definition persist_run :: "workflow_env \<Rightarrow> datetime \<Rightarrow> workflow_run \<Rightarrow> int \<Rightarrow> dict \<Rightarrow> unit workflow_prog" where
  "persist_run env clock run expected inputs =
     bnd (wf_put env clock ''workflow_run'' (wrun_workflow_run_id run)
            (updated (run_dict (we_dt env) run) [(''inputs'', JObj inputs)]) (wrun_state run) (Some expected)) (\<lambda>_. give ())"

definition persist_step :: "workflow_env \<Rightarrow> datetime \<Rightarrow> workflow_step_run \<Rightarrow> int \<Rightarrow> dict \<Rightarrow> stored_record workflow_prog" where
  "persist_step env clock step expected extra =
     wf_put env clock ''workflow_step'' (ws_step_run_id step) (updated (step_dict (we_dt env) step) extra)
       (ws_state step) (Some expected)"

fun step_records :: "workflow_env \<Rightarrow> string list \<Rightarrow> (string \<times> stored_record) list \<Rightarrow> (string \<times> stored_record) list workflow_prog" where
  "step_records env [] acc = give acc"
| "step_records env (i # ids) acc =
     bnd (wf_get env ''workflow_step'' i) (\<lambda>found.
     case found of
       None \<Rightarrow> fail WorkflowError
     | Some r \<Rightarrow>
         (case map_of (sr_payload r) ''node_id'' of
            None \<Rightarrow> fail WorkflowKeyError
          | Some v \<Rightarrow> step_records env ids (AList.update (py_str v) r acc)))"

definition step_from_record :: "workflow_env \<Rightarrow> stored_record \<Rightarrow> (workflow_error, workflow_step_run) result" where
  "step_from_record env r =
     of_option WorkflowValidationError (we_step_of env (without step_extra_keys (sr_payload r)))"

definition load_retry_policy :: "workflow_env \<Rightarrow> workflow_node \<Rightarrow> workflow_retry_policy option workflow_prog" where
  "load_retry_policy env node =
     (case wn_retry_policy_id node of
        None \<Rightarrow> give None
      | Some i \<Rightarrow>
          bnd (wf_get env ''workflow_retry_policy'' i) (\<lambda>found.
          case found of
            None \<Rightarrow> fail WorkflowError
          | Some r \<Rightarrow> bnd (lift (of_option WorkflowValidationError (we_policy_of env (sr_payload r)))) (\<lambda>p. give (Some p))))"

definition load_approval_gate :: "workflow_env \<Rightarrow> workflow_node \<Rightarrow> workflow_approval_gate workflow_prog" where
  "load_approval_gate env node =
     (case wn_approval_gate_id node of
        None \<Rightarrow> fail WorkflowError
      | Some i \<Rightarrow>
          bnd (wf_get env ''workflow_approval_gate'' i) (\<lambda>found.
          case found of
            None \<Rightarrow> fail WorkflowError
          | Some r \<Rightarrow> lift (of_option WorkflowValidationError (we_gate_of env (sr_payload r)))))"

section \<open>Registration\<close>

definition store_immutable :: "workflow_env \<Rightarrow> datetime \<Rightarrow> string \<Rightarrow> string \<Rightarrow> dict \<Rightarrow> unit workflow_prog" where
  "store_immutable env clock kind i payload =
     bnd (wf_get env kind i) (\<lambda>existing.
     case existing of
       Some r \<Rightarrow> check (sr_payload_sha256 r = sha256_hex (we_sha env) (json_bytes (JObj payload))) WorkflowError
     | None \<Rightarrow> bnd (wf_put env clock kind i payload ''registered'' None) (\<lambda>_. give ()))"

definition require_node_reference :: "workflow_env \<Rightarrow> workflow_node \<Rightarrow> unit workflow_prog" where
  "require_node_reference env node =
     bnd (case wn_retry_policy_id node of
            None \<Rightarrow> give ()
          | Some i \<Rightarrow> bnd (wf_get env ''workflow_retry_policy'' i) (\<lambda>r. check (r \<noteq> None) WorkflowError)) (\<lambda>_.
     if wn_node_type node = NT_APPROVAL
     then (case wn_approval_gate_id node of
             None \<Rightarrow> fail WorkflowError
           | Some i \<Rightarrow> bnd (wf_get env ''workflow_approval_gate'' i) (\<lambda>r. check (r \<noteq> None) WorkflowError))
     else give ())"

definition manifest_digest :: "workflow_env \<Rightarrow> workflow_revision \<Rightarrow> string" where
  "manifest_digest env revision =
     sha256_hex (we_sha env) (json_bytes (JObj (without [''manifest_sha256''] (revision_dict (we_dt env) revision))))"

definition register_body ::
    "workflow_env \<Rightarrow> datetime \<Rightarrow> workflow_definition \<Rightarrow> workflow_revision \<Rightarrow> string \<Rightarrow>
     workflow_retry_policy list \<Rightarrow> workflow_approval_gate list \<Rightarrow> workflow_revision workflow_prog" where
  "register_body env clock definition revision actor_id retry_policies approval_gates =
     bnd (each (\<lambda>p. store_immutable env clock ''workflow_retry_policy'' (wrp_retry_policy_id p) (retry_policy_dict p))
            retry_policies) (\<lambda>_.
     bnd (each (\<lambda>g. store_immutable env clock ''workflow_approval_gate'' (wag_approval_gate_id g) (approval_gate_dict g))
            approval_gates) (\<lambda>_.
     bnd (each (require_node_reference env) (wr_nodes revision)) (\<lambda>_.
     bnd (wf_get env ''workflow_revision'' (wr_revision_id revision)) (\<lambda>existing.
     case existing of
       Some r \<Rightarrow>
         bnd (check (sr_payload_sha256 r =
                sha256_hex (we_sha env) (json_bytes (JObj (revision_dict (we_dt env) revision)))) WorkflowError) (\<lambda>_.
         give revision)
     | None \<Rightarrow>
         bnd (wf_get env ''workflow'' (wd_workflow_id definition)) (\<lambda>prior.
         bnd (wf_put env clock ''workflow'' (wd_workflow_id definition)
                (definition_dict (definition\<lparr>wd_current_revision_id := Some (wr_revision_id revision)\<rparr>))
                (if wd_enabled definition then ''enabled'' else ''disabled'') (map_option sr_revision prior)) (\<lambda>_.
         bnd (wf_put env clock ''workflow_revision'' (wr_revision_id revision) (revision_dict (we_dt env) revision)
                ''validated'' None) (\<lambda>_.
         bnd (wf_note env clock (wd_workflow_id definition) (wr_revision_id revision) ''workflow_registered'' actor_id
                ''workflow_revision_v1''
                [(''workflow_id'', JStr (wd_workflow_id definition)), (''revision_id'', JStr (wr_revision_id revision)),
                 (''manifest_sha256'', JStr (wr_manifest_sha256 revision))]) (\<lambda>_.
         give revision))))))))"

definition register ::
    "workflow_env \<Rightarrow> datetime \<Rightarrow> workflow_definition \<Rightarrow> workflow_revision \<Rightarrow> string \<Rightarrow>
     workflow_retry_policy list \<Rightarrow> workflow_approval_gate list \<Rightarrow> workflow_revision workflow_op" where
  "register env clock definition revision actor_id retry_policies approval_gates =
     bnd (require_workflows env) (\<lambda>_.
     bnd (check (wr_workflow_id revision = wd_workflow_id definition) WorkflowError) (\<lambda>_.
     bnd (lift (validate_dag revision)) (\<lambda>_.
     bnd (check (manifest_digest env revision = wr_manifest_sha256 revision) WorkflowError) (\<lambda>_.
     with_store (\<lambda>_. WorkflowStoreError) (we_sha env) clock
       (register_body env clock definition revision actor_id retry_policies approval_gates)))))"

section \<open>Starting a run\<close>

definition make_WorkflowStepRun :: "workflow_env \<Rightarrow> workflow_step_run \<Rightarrow> (workflow_error, workflow_step_run) result" where
  "make_WorkflowStepRun env s =
     (let s' = s\<lparr>ws_step_run_id := we_strip env (ws_step_run_id s),
                 ws_workflow_run_id := we_strip env (ws_workflow_run_id s), ws_node_id := we_strip env (ws_node_id s),
                 ws_idempotency_key := we_strip env (ws_idempotency_key s),
                 ws_input_sha256 := we_strip env (ws_input_sha256 s)\<rparr>
      in if WorkflowStepRun_ok s' then Inr s' else Inl WorkflowValidationError)"

definition make_WorkflowRun :: "workflow_env \<Rightarrow> workflow_run \<Rightarrow> (workflow_error, workflow_run) result" where
  "make_WorkflowRun env r =
     (let r' = r\<lparr>wrun_workflow_run_id := we_strip env (wrun_workflow_run_id r),
                 wrun_revision_id := we_strip env (wrun_revision_id r), wrun_input_sha256 := we_strip env (wrun_input_sha256 r),
                 wrun_step_run_ids := map (we_strip env) (wrun_step_run_ids r),
                 wrun_replay_of_run_id := map_option (we_strip env) (wrun_replay_of_run_id r)\<rparr>
      in if WorkflowRun_ok r' then Inr r' else Inl WorkflowValidationError)"

definition new_step :: "workflow_env \<Rightarrow> string \<Rightarrow> string \<Rightarrow> string \<Rightarrow> (workflow_error, workflow_step_run) result" where
  "new_step env run_id input_sha256 node_id =
     (let material = JObj [(''workflow_run_id'', JStr run_id), (''node_id'', JStr node_id)] in
      make_WorkflowStepRun env
        \<lparr>schema_name = ''WorkflowStepRunV1'', schema_version = SCHEMA_VERSION, id_scheme_version = ID_SCHEME_VERSION,
         extensions = [], ws_step_run_id = derive_id (we_sha env) ''wstep'' material, ws_workflow_run_id = run_id,
         ws_node_id = node_id, ws_state = ''pending'', ws_attempt = 1,
         ws_idempotency_key = derive_id (we_sha env) ''idem'' material, ws_input_sha256 = input_sha256,
         ws_output_sha256 = None, ws_approval_id = None, ws_started_at = None, ws_completed_at = None\<rparr>)"

fun create_steps :: "workflow_env \<Rightarrow> datetime \<Rightarrow> string \<Rightarrow> string \<Rightarrow> string list \<Rightarrow> workflow_step_run list workflow_prog" where
  "create_steps env clock run_id input_sha256 [] = give []"
| "create_steps env clock run_id input_sha256 (node_id # order) =
     bnd (lift (new_step env run_id input_sha256 node_id)) (\<lambda>step.
     bnd (wf_put env clock ''workflow_step'' (ws_step_run_id step) (step_dict (we_dt env) step) (ws_state step) None) (\<lambda>_.
     bnd (create_steps env clock run_id input_sha256 order) (\<lambda>steps.
     give (step # steps))))"

definition start_body ::
    "workflow_env \<Rightarrow> datetime \<Rightarrow> string \<Rightarrow> dict \<Rightarrow> string \<Rightarrow> string \<Rightarrow> string option \<Rightarrow> string \<Rightarrow> workflow_run workflow_prog" where
  "start_body env clock revision_id inputs input_sha256 actor_id replay_of_run_id run_id =
     bnd (wf_get env ''workflow_run'' run_id) (\<lambda>existing.
     case existing of
       Some r \<Rightarrow> lift (of_option WorkflowValidationError (we_run_of env (without [''inputs''] (sr_payload r))))
     | None \<Rightarrow>
         bnd (load_revision env revision_id) (\<lambda>revision.
         bnd (wf_get env ''workflow'' (wr_workflow_id revision)) (\<lambda>definition.
         bnd (check (case definition of
                       None \<Rightarrow> False
                     | Some d \<Rightarrow> sr_state d = ''enabled'' \<and> map_of (sr_payload d) ''current_revision_id'' = Some (JStr revision_id))
                WorkflowError) (\<lambda>_.
         bnd (lift (validate_dag revision)) (\<lambda>order.
         bnd (create_steps env clock run_id input_sha256 order) (\<lambda>steps.
         bnd (lift (make_WorkflowRun env
                \<lparr>schema_name = ''WorkflowRunV1'', schema_version = SCHEMA_VERSION, id_scheme_version = ID_SCHEME_VERSION,
                 extensions = [], wrun_workflow_run_id = run_id, wrun_revision_id = revision_id, wrun_state = ''running'',
                 wrun_input_sha256 = input_sha256, wrun_step_run_ids = map ws_step_run_id steps,
                 wrun_replay_of_run_id = replay_of_run_id, wrun_started_at = clock, wrun_completed_at = None\<rparr>)) (\<lambda>run.
         bnd (wf_put env clock ''workflow_run'' run_id (updated (run_dict (we_dt env) run) [(''inputs'', JObj inputs)])
                (wrun_state run) None) (\<lambda>_.
         bnd (wf_note env clock run_id run_id ''workflow_started'' actor_id ''workflow_run_v1''
                [(''revision_id'', JStr revision_id), (''step_count'', JInt (int (length steps)))]) (\<lambda>_.
         give run)))))))))"

definition start ::
    "workflow_env \<Rightarrow> datetime \<Rightarrow> string \<Rightarrow> (string \<times> pyval) list \<Rightarrow> string \<Rightarrow> string \<Rightarrow> string option \<Rightarrow> workflow_run workflow_op" where
  "start env clock revision_id inputs actor_id idempotency_key replay_of_run_id =
     bnd (require_workflows env) (\<lambda>_.
     bnd (require_runtime env) (\<lambda>_.
     bnd (lift (safe_payload env (PMap inputs))) (\<lambda>(value, input_bytes).
     let input_sha256 = sha256_hex (we_sha env) input_bytes;
         run_id = derive_id (we_sha env) ''wrun'' (JObj
           [(''idempotency_key'', JStr idempotency_key), (''revision_id'', JStr revision_id),
            (''inputs_sha256'', JStr input_sha256), (''replay_of_run_id'', jopt JStr replay_of_run_id)])
     in with_store (\<lambda>_. WorkflowStoreError) (we_sha env) clock
          (start_body env clock revision_id (case value of JObj i \<Rightarrow> i | _ \<Rightarrow> []) input_sha256 actor_id
             replay_of_run_id run_id))))"

section \<open>Driving a run\<close>

definition fail_step ::
    "workflow_env \<Rightarrow> datetime \<Rightarrow> datetime \<Rightarrow> workflow_step_run \<Rightarrow> int \<Rightarrow> string \<Rightarrow> unit workflow_prog" where
  "fail_step env clock now step expected reason =
     (let failed = step\<lparr>ws_state := ''failed'', ws_completed_at := Some now,
        ws_started_at := (case ws_started_at step of None \<Rightarrow> Some now | Some t \<Rightarrow> Some t)\<rparr> in
      bnd (persist_step env clock failed expected [(''failure_reason'', JStr reason)]) (\<lambda>_.
      bnd (wf_note env clock (ws_workflow_run_id step) (ws_step_run_id step) ''workflow_step_failed'' engine_actor
             ''workflow_step_run_v1''
             [(''node_id'', JStr (ws_node_id step)), (''reason'', JStr reason), (''attempt'', JInt (ws_attempt step))]) (\<lambda>_.
      give ())))"

definition overdue :: "datetime option \<Rightarrow> int \<Rightarrow> datetime \<Rightarrow> bool" where
  "overdue started limit now = (case started of None \<Rightarrow> False | Some t \<Rightarrow> t + seconds limit \<le> now)"

definition expire_step ::
    "workflow_env \<Rightarrow> datetime \<Rightarrow> datetime \<Rightarrow> workflow_node \<Rightarrow> workflow_step_run \<Rightarrow> stored_record \<Rightarrow> bool workflow_prog" where
  "expire_step env clock now node step r =
     bnd (if wn_node_type node = NT_APPROVAL
          then bnd (load_approval_gate env node) (\<lambda>gate. give (wag_expires_after_seconds gate, ''approval_expired''))
          else give (wn_timeout_seconds node, ''timeout'')) (\<lambda>(limit, reason).
     if \<not> overdue (ws_started_at step) limit now then give False
     else bnd (fail_step env clock now step (sr_revision r) reason) (\<lambda>_. give True))"

definition is_dict :: "pyval \<Rightarrow> bool" where
  "is_dict v = (case v of PMap _ \<Rightarrow> True | _ \<Rightarrow> False)"

text \<open>The loop of \<open>_drive_deterministic\<close>: a call that raises is repeated as long as the policy allows.\<close>

function drive_loop ::
    "workflow_env \<Rightarrow> datetime \<Rightarrow> datetime \<Rightarrow> (int \<Rightarrow> dict \<Rightarrow> pyval option) \<Rightarrow> workflow_retry_policy option \<Rightarrow> dict \<Rightarrow>
     int \<Rightarrow> workflow_step_run \<Rightarrow> int \<Rightarrow> jval option workflow_prog" where
  "drive_loop env clock now operation policy inputs attempt current revision =
     (case operation attempt inputs of
        None \<Rightarrow>
          (case policy of
             Some p \<Rightarrow>
               if attempt < wrp_max_attempts p then
                 (let current' = current\<lparr>ws_attempt := attempt + 1, ws_started_at := Some now\<rparr> in
                  bnd (persist_step env clock current' revision []) (\<lambda>r.
                  bnd (wf_note env clock (ws_workflow_run_id current) (ws_step_run_id current) ''workflow_step_retry''
                         engine_actor ''workflow_step_run_v1''
                         [(''node_id'', JStr (ws_node_id current)), (''attempt'', JInt (attempt + 1)),
                          (''delay_ms'', JInt (retry_delay_ms p attempt))]) (\<lambda>_.
                  drive_loop env clock now operation policy inputs (attempt + 1) current' (sr_revision r))))
               else bnd (fail_step env clock now current revision ''operation_error'') (\<lambda>_. give None)
           | None \<Rightarrow> bnd (fail_step env clock now current revision ''operation_error'') (\<lambda>_. give None))
      | Some output \<Rightarrow>
          if \<not> is_dict output then bnd (fail_step env clock now current revision ''invalid_output'') (\<lambda>_. give None)
          else (case safe_payload env output of
             Inl _ \<Rightarrow> bnd (fail_step env clock now current revision ''output_rejected'') (\<lambda>_. give None)
           | Inr (v, output_bytes) \<Rightarrow>
               (let completed = current\<lparr>ws_state := ''succeeded'',
                  ws_output_sha256 := Some (sha256_hex (we_sha env) output_bytes),
                  ws_started_at := Some now, ws_completed_at := Some now\<rparr> in
                bnd (persist_step env clock completed revision [(''output'', v)]) (\<lambda>_.
                bnd (wf_note env clock (ws_workflow_run_id current) (ws_step_run_id current) ''workflow_step_succeeded''
                       engine_actor ''workflow_step_run_v1''
                       [(''node_id'', JStr (ws_node_id current)),
                        (''output_sha256'', jopt JStr (ws_output_sha256 completed))]) (\<lambda>_.
                give (Some v))))))"
  by pat_completeness auto
termination
  by (relation "measure (\<lambda>(env, clock, now, operation, policy, inputs, attempt, current, revision).
       case policy of None \<Rightarrow> 0 | Some p \<Rightarrow> nat (wrp_max_attempts p - attempt))") auto

declare drive_loop.simps [simp del]

definition drive_deterministic ::
    "workflow_env \<Rightarrow> datetime \<Rightarrow> datetime \<Rightarrow> workflow_node \<Rightarrow> workflow_step_run \<Rightarrow> stored_record \<Rightarrow> dict \<Rightarrow>
     jval option workflow_prog" where
  "drive_deterministic env clock now node step r inputs =
     (case we_operations env (case wn_operation_id node of None \<Rightarrow> ''None'' | Some i \<Rightarrow> i) of
        None \<Rightarrow> fail WorkflowError
      | Some operation \<Rightarrow>
          if overdue (ws_started_at step) (wn_timeout_seconds node) now
          then bnd (fail_step env clock now step (sr_revision r) ''timeout'') (\<lambda>_. give None)
          else bnd (load_retry_policy env node) (\<lambda>policy.
               drive_loop env clock now operation policy inputs (ws_attempt step) step (sr_revision r)))"

definition done_state :: "string \<Rightarrow> bool" where
  "done_state state \<longleftrightarrow> state \<in> set done_step_states"

definition parents_done :: "(string \<times> string) list \<Rightarrow> string list \<Rightarrow> (workflow_error, bool) result" where
  "parents_done states parents =
     rbind (rmap (\<lambda>p. of_option WorkflowKeyError (map_of states p)) parents) (\<lambda>found. Inr (list_all done_state found))"

definition parents_of :: "workflow_revision \<Rightarrow> string \<Rightarrow> string list" where
  "parents_of revision node_id =
     map wed_source_node_id (filter (\<lambda>e. wed_target_node_id e = node_id) (wr_edges revision))"

text \<open>The outputs of the steps that succeeded before are inputs of the later ones.\<close>

fun gather_inputs :: "(string \<times> stored_record) list \<Rightarrow> string list \<Rightarrow> dict \<Rightarrow> (workflow_error, dict) result" where
  "gather_inputs records [] inputs = Inr inputs"
| "gather_inputs records (n # order) inputs =
     (case map_of records n of
        None \<Rightarrow> Inl WorkflowKeyError
      | Some r \<Rightarrow> gather_inputs records order
          (if sr_state r = ''succeeded''
           then (case map_of (sr_payload r) ''output'' of
                   Some (JObj output) \<Rightarrow> AList.update n (JObj output) inputs
                 | _ \<Rightarrow> inputs)
           else inputs))"

datatype sweep = SweepFailed | SweepBlocked | SweepDone

text \<open>One visit of the sweep over the nodes: what to do with the node, and whether the sweep goes on.\<close>

definition park_step ::
    "workflow_env \<Rightarrow> datetime \<Rightarrow> datetime \<Rightarrow> workflow_step_run \<Rightarrow> stored_record \<Rightarrow> string \<Rightarrow> unit workflow_prog" where
  "park_step env clock now step r state =
     bnd (persist_step env clock (step\<lparr>ws_state := state, ws_started_at := Some now\<rparr>) (sr_revision r) []) (\<lambda>_. give ())"

fun sweep_nodes ::
    "workflow_env \<Rightarrow> datetime \<Rightarrow> datetime \<Rightarrow> workflow_revision \<Rightarrow> (string \<times> stored_record) list \<Rightarrow> string list \<Rightarrow>
     (string \<times> string) list \<Rightarrow> dict \<Rightarrow> (sweep \<times> (string \<times> string) list) workflow_prog" where
  "sweep_nodes env clock now revision records [] states inputs = give (SweepDone, states)"
| "sweep_nodes env clock now revision records (n # order) states inputs =
     (case map_of states n of
        None \<Rightarrow> fail WorkflowKeyError
      | Some state \<Rightarrow>
          if done_state state then sweep_nodes env clock now revision records order states inputs
          else if state \<in> {''failed'', ''cancelled''} then give (SweepFailed, states)
          else bnd (lift (parents_done states (parents_of revision n))) (\<lambda>ready.
            if \<not> ready then sweep_nodes env clock now revision records order states inputs
            else
              case (map_of (nodes_by_id (wr_nodes revision)) n, map_of records n) of
                (Some node, Some r) \<Rightarrow>
                  bnd (lift (step_from_record env r)) (\<lambda>step.
                  if state \<in> {''waiting'', ''running''} then
                    bnd (expire_step env clock now node step r) (\<lambda>expired.
                    give (if expired then SweepFailed else SweepBlocked, states))
                  else if state = ''paused'' then give (SweepBlocked, states)
                  else if wn_node_type node = NT_APPROVAL \<or> wn_node_type node = NT_WAIT then
                    bnd (park_step env clock now step r ''waiting'') (\<lambda>_.
                    give (SweepBlocked, AList.update n ''waiting'' states))
                  else if wn_node_type node \<noteq> NT_DETERMINISTIC_COMMAND then
                    bnd (park_step env clock now step r ''paused'') (\<lambda>_.
                    give (SweepBlocked, AList.update n ''paused'' states))
                  else
                    bnd (drive_deterministic env clock now node step r inputs) (\<lambda>output.
                    case output of
                      None \<Rightarrow> give (SweepFailed, states)
                    | Some v \<Rightarrow>
                        sweep_nodes env clock now revision records order
                          (AList.update n ''succeeded'' states) (AList.update n v inputs)))
              | _ \<Rightarrow> fail WorkflowKeyError))"

definition final_state :: "sweep \<Rightarrow> (string \<times> string) list \<Rightarrow> string" where
  "final_state outcome states =
     (if outcome = SweepFailed then ''failed''
      else if outcome \<noteq> SweepBlocked \<and> list_all (\<lambda>p. done_state (snd p)) states then ''succeeded''
      else ''running'')"

definition ready_body :: "workflow_env \<Rightarrow> datetime \<Rightarrow> datetime \<Rightarrow> string \<Rightarrow> workflow_run workflow_prog" where
  "ready_body env clock now run_id =
     bnd (load_run env run_id) (\<lambda>(run, run_record, initial_inputs).
     if wrun_state run \<noteq> ''running'' then give run
     else
       bnd (load_revision env (wrun_revision_id run)) (\<lambda>revision.
       bnd (lift (validate_dag revision)) (\<lambda>order.
       bnd (step_records env (wrun_step_run_ids run) []) (\<lambda>records.
       bnd (lift (gather_inputs records order initial_inputs)) (\<lambda>inputs.
       bnd (sweep_nodes env clock now revision records order (map (\<lambda>(n, r). (n, sr_state r)) records) inputs)
         (\<lambda>(outcome, states).
       let final = final_state outcome states;
           changed = run\<lparr>wrun_state := final,
             wrun_completed_at := (if final \<in> {''failed'', ''succeeded''} then Some now else None)\<rparr>
       in bnd (persist_run env clock changed (sr_revision run_record) initial_inputs) (\<lambda>_.
          bnd (wf_note env clock run_id run_id ''workflow_state_changed'' engine_actor ''workflow_run_v1''
                 [(''state'', JStr final)]) (\<lambda>_.
          give changed))))))))"

definition imposed :: "datetime \<Rightarrow> datetime option \<Rightarrow> datetime" where
  "imposed clock at = (case at of None \<Rightarrow> clock | Some t \<Rightarrow> t)"

definition run_ready_steps :: "workflow_env \<Rightarrow> datetime \<Rightarrow> string \<Rightarrow> datetime option \<Rightarrow> workflow_run workflow_op" where
  "run_ready_steps env clock run_id at =
     bnd (require_workflows env) (\<lambda>_.
     bnd (require_runtime env) (\<lambda>_.
     with_store (\<lambda>_. WorkflowStoreError) (we_sha env) clock (ready_body env clock (imposed clock at) run_id)))"

section \<open>Approvals and waits\<close>

definition waiting_step ::
    "workflow_env \<Rightarrow> workflow_run \<Rightarrow> string \<Rightarrow> WorkflowNodeType \<Rightarrow> (workflow_node \<times> workflow_step_run \<times> stored_record) workflow_prog" where
  "waiting_step env run node_id expected =
     bnd (load_revision env (wrun_revision_id run)) (\<lambda>revision.
     case find (\<lambda>n. wn_node_id n = node_id) (wr_nodes revision) of
       None \<Rightarrow> fail WorkflowError
     | Some node \<Rightarrow>
         bnd (check (wn_node_type node = expected) WorkflowError) (\<lambda>_.
         bnd (step_records env (wrun_step_run_ids run) []) (\<lambda>records.
         case map_of records node_id of
           None \<Rightarrow> fail WorkflowError
         | Some r \<Rightarrow>
             bnd (check (sr_state r = ''waiting'') WorkflowError) (\<lambda>_.
             bnd (lift (step_from_record env r)) (\<lambda>step. give (node, step, r))))))"

definition approval_query_for :: "workflow_env \<Rightarrow> workflow_run \<Rightarrow> string \<Rightarrow> string \<Rightarrow> workflow_approval_gate \<Rightarrow> approval_query" where
  "approval_query_for env run run_id node_id gate =
     \<lparr>aq_action = ''workflow_approval'', aq_target_id = workflow_approval_target (we_sha env) run_id node_id,
      aq_artifact_sha256 = wrun_input_sha256 run, aq_destination = None, aq_required_scope = [wag_required_role gate],
      aq_policy_sha256 = None\<rparr>"

definition require_grant ::
    "workflow_env \<Rightarrow> datetime \<Rightarrow> string \<Rightarrow> approval_query \<Rightarrow> unit workflow_prog" where
  "require_grant env now approval_id q =
     query (\<lambda>e. case e of AuthorityError \<Rightarrow> WorkflowError | AuthorityStore _ \<Rightarrow> WorkflowStoreError | _ \<Rightarrow> WorkflowValidationError)
       (\<lambda>db. rbind (require_approval (em_authority (we_emergency env)) (Some db) approval_id q now) (\<lambda>_. Inr ()))"

text \<open>A waiting step that succeeds with an output, or fails.\<close>

definition finish_step ::
    "workflow_env \<Rightarrow> datetime \<Rightarrow> datetime \<Rightarrow> workflow_step_run \<Rightarrow> stored_record \<Rightarrow> string option \<Rightarrow> (string \<times> pyval) list \<Rightarrow>
     unit workflow_prog" where
  "finish_step env clock now step r approval_id output =
     bnd (lift (safe_payload env (PMap output))) (\<lambda>(v, output_bytes).
     bnd (persist_step env clock
            (step\<lparr>ws_state := ''succeeded'', ws_approval_id := approval_id,
                  ws_output_sha256 := Some (sha256_hex (we_sha env) output_bytes), ws_completed_at := Some now\<rparr>)
            (sr_revision r) [(''output'', v)]) (\<lambda>_. give ()))"

definition abandon_step ::
    "workflow_env \<Rightarrow> datetime \<Rightarrow> datetime \<Rightarrow> workflow_step_run \<Rightarrow> stored_record \<Rightarrow> string \<Rightarrow> unit workflow_prog" where
  "abandon_step env clock now step r reason =
     bnd (persist_step env clock (step\<lparr>ws_state := ''failed'', ws_completed_at := Some now\<rparr>) (sr_revision r)
            [(''failure_reason'', JStr reason)]) (\<lambda>_. give ())"

definition grant_body ::
    "workflow_env \<Rightarrow> datetime \<Rightarrow> datetime \<Rightarrow> string \<Rightarrow> string \<Rightarrow> string \<Rightarrow> string \<Rightarrow> workflow_run workflow_prog" where
  "grant_body env clock now run_id node_id approval_id actor_id =
     bnd (load_run_in env run_id ''running'') (\<lambda>(run, _, _).
     bnd (waiting_step env run node_id NT_APPROVAL) (\<lambda>(node, step, r).
     bnd (load_approval_gate env node) (\<lambda>gate.
     if overdue (ws_started_at step) (wag_expires_after_seconds gate) now then
       bnd (abandon_step env clock now step r ''approval_expired'') (\<lambda>_. fail WorkflowError)
     else
       bnd (require_grant env now approval_id (approval_query_for env run run_id node_id gate)) (\<lambda>_.
       bnd (finish_step env clock now step r (Some approval_id)
              [(''approval_id'', PStr approval_id), (''granted_by'', PStr actor_id)]) (\<lambda>_.
       bnd (wf_note env clock run_id (ws_step_run_id step) ''workflow_approval_granted'' actor_id ''workflow_step_run_v1''
              [(''node_id'', JStr node_id), (''approval_id'', JStr approval_id)]) (\<lambda>_.
       give run))))))"

definition grant_approval ::
    "workflow_env \<Rightarrow> datetime \<Rightarrow> string \<Rightarrow> string \<Rightarrow> string \<Rightarrow> string \<Rightarrow> datetime option \<Rightarrow> workflow_run workflow_op" where
  "grant_approval env clock run_id node_id approval_id actor_id at =
     bnd (require_workflows env) (\<lambda>_.
     bnd (require_runtime env) (\<lambda>_.
     bnd (check (approval_id \<noteq> []) WorkflowError) (\<lambda>_.
     with_store (\<lambda>_. WorkflowStoreError) (we_sha env) clock
       (grant_body env clock (imposed clock at) run_id node_id approval_id actor_id))))"

definition deny_body ::
    "workflow_env \<Rightarrow> datetime \<Rightarrow> datetime \<Rightarrow> string \<Rightarrow> string \<Rightarrow> string \<Rightarrow> workflow_run workflow_prog" where
  "deny_body env clock now run_id node_id actor_id =
     bnd (load_run_in env run_id ''running'') (\<lambda>(run, run_record, inputs).
     bnd (waiting_step env run node_id NT_APPROVAL) (\<lambda>(_, step, r).
     bnd (abandon_step env clock now step r ''approval_denied'') (\<lambda>_.
     let failed_run = run\<lparr>wrun_state := ''failed'', wrun_completed_at := Some now\<rparr> in
     bnd (persist_run env clock failed_run (sr_revision run_record) inputs) (\<lambda>_.
     bnd (wf_note env clock run_id (ws_step_run_id step) ''workflow_approval_denied'' actor_id ''workflow_step_run_v1''
            [(''node_id'', JStr node_id)]) (\<lambda>_.
     give failed_run)))))"

definition deny_approval ::
    "workflow_env \<Rightarrow> datetime \<Rightarrow> string \<Rightarrow> string \<Rightarrow> string \<Rightarrow> datetime option \<Rightarrow> workflow_run workflow_op" where
  "deny_approval env clock run_id node_id actor_id at =
     bnd (require_workflows env) (\<lambda>_.
     bnd (require_runtime env) (\<lambda>_.
     with_store (\<lambda>_. WorkflowStoreError) (we_sha env) clock
       (deny_body env clock (imposed clock at) run_id node_id actor_id)))"

definition wake_body ::
    "workflow_env \<Rightarrow> datetime \<Rightarrow> datetime \<Rightarrow> string \<Rightarrow> string \<Rightarrow> string \<Rightarrow> workflow_run workflow_prog" where
  "wake_body env clock now run_id node_id actor_id =
     bnd (load_run_in env run_id ''running'') (\<lambda>(run, _, _).
     bnd (waiting_step env run node_id NT_WAIT) (\<lambda>(node, step, r).
     if overdue (ws_started_at step) (wn_timeout_seconds node) now then
       bnd (abandon_step env clock now step r ''timeout'') (\<lambda>_. fail WorkflowError)
     else
       bnd (finish_step env clock now step r (ws_approval_id step) [(''woken_by'', PStr actor_id)]) (\<lambda>_.
       bnd (wf_note env clock run_id (ws_step_run_id step) ''workflow_step_woken'' actor_id ''workflow_step_run_v1''
              [(''node_id'', JStr node_id)]) (\<lambda>_.
       give run))))"

definition wake ::
    "workflow_env \<Rightarrow> datetime \<Rightarrow> string \<Rightarrow> string \<Rightarrow> string \<Rightarrow> datetime option \<Rightarrow> workflow_run workflow_op" where
  "wake env clock run_id node_id actor_id at =
     bnd (require_workflows env) (\<lambda>_.
     bnd (require_runtime env) (\<lambda>_.
     with_store (\<lambda>_. WorkflowStoreError) (we_sha env) clock
       (wake_body env clock (imposed clock at) run_id node_id actor_id)))"

section \<open>Pausing, resuming, cancelling\<close>

definition transition_run ::
    "workflow_env \<Rightarrow> datetime \<Rightarrow> string \<Rightarrow> string \<Rightarrow> string \<Rightarrow> string \<Rightarrow> string \<Rightarrow> workflow_run workflow_op" where
  "transition_run env clock run_id actor_id expected_state next_state event_type =
     with_store (\<lambda>_. WorkflowStoreError) (we_sha env) clock
       (bnd (load_run_in env run_id expected_state) (\<lambda>(run, run_record, inputs).
        let changed = run\<lparr>wrun_state := next_state\<rparr> in
        bnd (persist_run env clock changed (sr_revision run_record) inputs) (\<lambda>_.
        bnd (wf_note env clock run_id run_id event_type actor_id ''workflow_run_v1'' [(''state'', JStr next_state)]) (\<lambda>_.
        give changed))))"

definition pause :: "workflow_env \<Rightarrow> datetime \<Rightarrow> string \<Rightarrow> string \<Rightarrow> workflow_run workflow_op" where
  "pause env clock run_id actor_id =
     bnd (require_workflows env) (\<lambda>_.
     transition_run env clock run_id actor_id ''running'' ''paused'' ''workflow_paused'')"

definition resume :: "workflow_env \<Rightarrow> datetime \<Rightarrow> string \<Rightarrow> string \<Rightarrow> workflow_run workflow_op" where
  "resume env clock run_id actor_id =
     bnd (require_workflows env) (\<lambda>_.
     transition_run env clock run_id actor_id ''paused'' ''running'' ''workflow_resumed'')"

definition cancel_step :: "workflow_env \<Rightarrow> datetime \<Rightarrow> string \<Rightarrow> unit workflow_prog" where
  "cancel_step env clock step_id =
     bnd (wf_get env ''workflow_step'' step_id) (\<lambda>found.
     case found of
       None \<Rightarrow> fail WorkflowError
     | Some r \<Rightarrow>
         if sr_state r \<in> {''pending'', ''waiting'', ''paused'', ''running''} then
           bnd (lift (step_from_record env r)) (\<lambda>step.
           bnd (persist_step env clock (step\<lparr>ws_state := ''cancelled'', ws_completed_at := Some clock\<rparr>) (sr_revision r) []) (\<lambda>_.
           give ()))
         else give ())"

definition cancel_body :: "workflow_env \<Rightarrow> datetime \<Rightarrow> string \<Rightarrow> string \<Rightarrow> workflow_run workflow_prog" where
  "cancel_body env clock run_id actor_id =
     bnd (load_run env run_id) (\<lambda>(run, run_record, inputs).
     bnd (check (wrun_state run \<in> set cancellable_run_states) WorkflowError) (\<lambda>_.
     bnd (each (cancel_step env clock) (wrun_step_run_ids run)) (\<lambda>_.
     let cancelled = run\<lparr>wrun_state := ''cancelled'', wrun_completed_at := Some clock\<rparr> in
     bnd (persist_run env clock cancelled (sr_revision run_record) inputs) (\<lambda>_.
     bnd (wf_note env clock run_id run_id ''workflow_cancelled'' actor_id ''workflow_run_v1''
            [(''workflow_run_id'', JStr run_id)]) (\<lambda>_.
     give cancelled)))))"

definition cancel :: "workflow_env \<Rightarrow> datetime \<Rightarrow> string \<Rightarrow> string \<Rightarrow> workflow_run workflow_op" where
  "cancel env clock run_id actor_id =
     bnd (require_workflows env) (\<lambda>_.
     with_store (\<lambda>_. WorkflowStoreError) (we_sha env) clock (cancel_body env clock run_id actor_id))"

section \<open>Views\<close>

record workflow_graph =
  wg_workflow_id :: string
  wg_revision_id :: string
  wg_nodes :: "workflow_node list"
  wg_edges :: "workflow_edge list"

record workflow_view =
  wv_snapshot_id :: string
  wv_state :: string
  wv_workflows :: "dict list"
  wv_runs :: "dict list"
  wv_graph :: "workflow_graph list"

definition graph_of :: "workflow_env \<Rightarrow> platform_db \<Rightarrow> stored_record \<Rightarrow> (workflow_error, workflow_graph list) result" where
  "graph_of env db workflow =
     (case map_of (sr_payload workflow) ''current_revision_id'' of
        Some (JStr revision_id) \<Rightarrow>
          rbind (rcatch (head (we_sha env) db ''workflow_revision'' revision_id) (\<lambda>_. WorkflowStoreError)) (\<lambda>found. Inr
            (case Option.bind found (\<lambda>r. we_revision_of env (sr_payload r)) of
               None \<Rightarrow> []
             | Some revision \<Rightarrow>
                 [\<lparr>wg_workflow_id = wr_workflow_id revision, wg_revision_id = wr_revision_id revision,
                   wg_nodes = take 200 (wr_nodes revision), wg_edges = take 400 (wr_edges revision)\<rparr>]))
      | _ \<Rightarrow> Inr [])"

definition workflow_snapshot :: "workflow_env \<Rightarrow> platform_db option \<Rightarrow> (workflow_error, workflow_view) result" where
  "workflow_snapshot env file =
     (case open_platform_store_read_only file of
        None \<Rightarrow> Inr \<lparr>wv_snapshot_id = ''pview_unavailable'', wv_state = ''unavailable'', wv_workflows = [], wv_runs = [],
                  wv_graph = []\<rparr>
      | Some db \<Rightarrow>
          rbind (rcatch (feature_enabled (em_features (we_emergency env)) ''workflow_engine_enabled'') (\<lambda>_. WorkflowKeyError)) (\<lambda>on.
          rbind (rcatch (list_heads (we_sha env) db ''workflow'' None 200 0) (\<lambda>_. WorkflowStoreError)) (\<lambda>workflows.
          rbind (rcatch (list_heads (we_sha env) db ''workflow_run'' None 200 0) (\<lambda>_. WorkflowStoreError)) (\<lambda>runs.
          rbind (rcatch (list_heads (we_sha env) db ''workflow'' None 50 0) (\<lambda>_. WorkflowStoreError)) (\<lambda>listed.
          rbind (rmap (graph_of env db) listed) (\<lambda>graphs.
          Inr \<lparr>wv_snapshot_id = snapshot_id (we_sha env) db, wv_state = (if on then ''ready'' else ''disabled''),
               wv_workflows = map sr_payload workflows, wv_runs = map (without [''inputs''] \<circ> sr_payload) runs,
               wv_graph = concat graphs\<rparr>))))))"

end
