(* ===== verification/Workflow_Machine.thy ===== *)
theory Workflow_Machine
  imports Workflow_Engine
begin

text \<open>
  The contract of the workflow engine: a transition system on the runs, the steps and the registered
  revisions, with the invariants that follow from its guards. \<open>Workflow_Refinement\<close> shows that every
  operation of the service, whatever its outcome, is a sequence of these transitions.
\<close>

section \<open>The machine\<close>

record engine =
  eg_steps :: "string \<rightharpoonup> workflow_step_run"
  eg_runs :: "string \<rightharpoonup> workflow_run"
  eg_revs :: "string \<rightharpoonup> jval option"

fun step_next :: "string \<Rightarrow> string list" where
  "step_next state =
     (if state = ''pending'' then [''pending'', ''waiting'', ''paused'', ''succeeded'', ''failed'', ''cancelled'']
      else if state = ''waiting'' then [''succeeded'', ''failed'', ''cancelled'']
      else if state = ''running'' then [''failed'', ''cancelled'']
      else if state = ''paused'' then [''cancelled'']
      else [])"

fun run_next :: "string \<Rightarrow> string list" where
  "run_next state =
     (if state = ''running'' then [''running'', ''paused'', ''succeeded'', ''failed'', ''cancelled'']
      else if state = ''paused'' then [''running'', ''cancelled'']
      else if state = ''planned'' then [''cancelled'']
      else [])"

declare step_next.simps [simp del] run_next.simps [simp del]

definition open_run :: "workflow_run \<Rightarrow> bool" where
  "open_run r \<longleftrightarrow> wrun_state r \<in> set cancellable_run_states"

definition step_done :: "engine \<Rightarrow> string \<Rightarrow> bool" where
  "step_done e j \<longleftrightarrow> (\<exists>s. eg_steps e j = Some s \<and> done_state (ws_state s))"

definition revision_at :: "(jval option \<Rightarrow> workflow_revision option) \<Rightarrow> engine \<Rightarrow> workflow_run \<Rightarrow> workflow_revision option" where
  "revision_at dec e r = Option.bind (eg_revs e (wrun_revision_id r)) dec"

text \<open>Every parent of the node has a step of the run that is done.\<close>

definition parents_ready :: "(jval option \<Rightarrow> workflow_revision option) \<Rightarrow> engine \<Rightarrow> workflow_run \<Rightarrow> string \<Rightarrow> bool" where
  "parents_ready dec e r n \<longleftrightarrow>
     (\<exists>v. revision_at dec e r = Some v \<and>
       (\<forall>p\<in>set (parents_of v n). \<exists>j\<in>set (wrun_step_run_ids r). \<exists>s. eg_steps e j = Some s \<and> ws_node_id s = p \<and> done_state (ws_state s)))"

text \<open>Which kind of node a pending step may leave its state for.\<close>

definition kind_allows :: "WorkflowNodeType \<Rightarrow> string \<Rightarrow> bool" where
  "kind_allows t state \<longleftrightarrow>
     (if t = NT_APPROVAL \<or> t = NT_WAIT then state = ''waiting''
      else if t = NT_DETERMINISTIC_COMMAND then state \<in> {''pending'', ''succeeded'', ''failed''}
      else state = ''paused'')"

definition node_allows :: "(jval option \<Rightarrow> workflow_revision option) \<Rightarrow> engine \<Rightarrow> workflow_run \<Rightarrow> string \<Rightarrow> string \<Rightarrow> bool" where
  "node_allows dec e r n state \<longleftrightarrow>
     (\<exists>v node. revision_at dec e r = Some v \<and> node \<in> set (wr_nodes v) \<and> wn_node_id node = n \<and> kind_allows (wn_node_type node) state)"

definition same_step :: "workflow_step_run \<Rightarrow> workflow_step_run \<Rightarrow> bool" where
  "same_step s s' \<longleftrightarrow> ws_step_run_id s' = ws_step_run_id s \<and> ws_workflow_run_id s' = ws_workflow_run_id s \<and>
     ws_node_id s' = ws_node_id s \<and> ws_attempt s \<le> ws_attempt s'"

definition same_run :: "workflow_run \<Rightarrow> workflow_run \<Rightarrow> bool" where
  "same_run r r' \<longleftrightarrow> (\<exists>state c. r' = r\<lparr>wrun_state := state, wrun_completed_at := c\<rparr>)"

inductive engine_step :: "(jval option \<Rightarrow> workflow_revision option) \<Rightarrow> engine \<Rightarrow> engine \<Rightarrow> bool" for dec where
  Register: "eg_revs e i = None \<Longrightarrow> engine_step dec e (e\<lparr>eg_revs := (eg_revs e)(i \<mapsto> p)\<rparr>)"
| NewStep: "eg_steps e j = None \<Longrightarrow> ws_step_run_id s = j \<Longrightarrow> ws_state s = ''pending'' \<Longrightarrow>
     engine_step dec e (e\<lparr>eg_steps := (eg_steps e)(j \<mapsto> s)\<rparr>)"
| NewRun: "eg_runs e i = None \<Longrightarrow> wrun_workflow_run_id r = i \<Longrightarrow> wrun_state r = ''running'' \<Longrightarrow>
     revision_at dec e r = Some v \<Longrightarrow> validate_dag v = Inr order \<Longrightarrow>
     list_all2 (\<lambda>j n. \<exists>s. eg_steps e j = Some s \<and> ws_node_id s = n \<and> ws_workflow_run_id s = i \<and> ws_state s = ''pending'')
       (wrun_step_run_ids r) order \<Longrightarrow>
     engine_step dec e (e\<lparr>eg_runs := (eg_runs e)(i \<mapsto> r)\<rparr>)"
| RunMove: "eg_runs e i = Some r \<Longrightarrow> state \<in> set (run_next (wrun_state r)) \<Longrightarrow>
     (state = ''succeeded'' \<Longrightarrow> \<forall>j\<in>set (wrun_step_run_ids r). step_done e j) \<Longrightarrow>
     engine_step dec e (e\<lparr>eg_runs := (eg_runs e)(i \<mapsto> r\<lparr>wrun_state := state, wrun_completed_at := c\<rparr>)\<rparr>)"
| StepMove: "eg_steps e j = Some s \<Longrightarrow> same_step s s' \<Longrightarrow> ws_state s' \<in> set (step_next (ws_state s)) \<Longrightarrow>
     eg_runs e i = Some r \<Longrightarrow> j \<in> set (wrun_step_run_ids r) \<Longrightarrow> open_run r \<Longrightarrow>
     (ws_state s' \<noteq> ''cancelled'' \<Longrightarrow> wrun_state r = ''running'') \<Longrightarrow>
     (ws_state s = ''pending'' \<Longrightarrow> ws_state s' \<noteq> ''cancelled'' \<Longrightarrow>
        parents_ready dec e r (ws_node_id s) \<and> node_allows dec e r (ws_node_id s) (ws_state s')) \<Longrightarrow>
     engine_step dec e (e\<lparr>eg_steps := (eg_steps e)(j \<mapsto> s')\<rparr>)"

section \<open>Invariants\<close>

definition runs_ok :: "(jval option \<Rightarrow> workflow_revision option) \<Rightarrow> engine \<Rightarrow> bool" where
  "runs_ok dec e \<longleftrightarrow>
     (\<forall>j s. eg_steps e j = Some s \<longrightarrow> ws_step_run_id s = j) \<and>
     (\<forall>i r. eg_runs e i = Some r \<longrightarrow> wrun_workflow_run_id r = i \<and>
       (\<exists>v order. revision_at dec e r = Some v \<and> validate_dag v = Inr order \<and>
         list_all2 (\<lambda>j n. \<exists>s. eg_steps e j = Some s \<and> ws_node_id s = n \<and> ws_workflow_run_id s = i) (wrun_step_run_ids r) order))"

text \<open>A step past the pending state has all its parents done; a run that succeeded has all its steps done.\<close>

definition order_ok :: "(jval option \<Rightarrow> workflow_revision option) \<Rightarrow> engine \<Rightarrow> bool" where
  "order_ok dec e \<longleftrightarrow>
     (\<forall>i r j s. eg_runs e i = Some r \<longrightarrow> j \<in> set (wrun_step_run_ids r) \<longrightarrow> eg_steps e j = Some s \<longrightarrow>
        ws_state s \<notin> {''pending'', ''cancelled''} \<longrightarrow> parents_ready dec e r (ws_node_id s)) \<and>
     (\<forall>i r. eg_runs e i = Some r \<longrightarrow> wrun_state r = ''succeeded'' \<longrightarrow> (\<forall>j\<in>set (wrun_step_run_ids r). step_done e j))"

lemma step_next_done: "done_state state \<Longrightarrow> step_next state = []"
  by (auto simp: done_state_def done_step_states_def step_next.simps)

lemma step_next_other: "state \<notin> {''pending'', ''waiting'', ''running'', ''paused''} \<Longrightarrow> step_next state = []"
  by (simp add: step_next.simps)

lemma run_next_closed: "\<not> open_run r \<Longrightarrow> run_next (wrun_state r) = []"
  by (auto simp: open_run_def cancellable_run_states_def run_next.simps)

lemma done_pending: "\<not> done_state ''pending''" "\<not> done_state ''waiting''" "\<not> done_state ''paused''" "\<not> done_state ''failed''"
    "\<not> done_state ''cancelled''" "\<not> done_state ''running''" "done_state ''succeeded''"
  by (simp_all add: done_state_def done_step_states_def)

text \<open>What a transition keeps: the done steps, the registered revisions, and of a run everything but its
  state and end.\<close>

definition engine_le :: "engine \<Rightarrow> engine \<Rightarrow> bool" where
  "engine_le e e' \<longleftrightarrow>
     (\<forall>j s. eg_steps e j = Some s \<longrightarrow> (\<exists>s'. eg_steps e' j = Some s' \<and> same_step s s' \<and> (done_state (ws_state s) \<longrightarrow> s' = s))) \<and>
     eg_revs e \<subseteq>\<^sub>m eg_revs e' \<and>
     (\<forall>i r. eg_runs e i = Some r \<longrightarrow> (\<exists>r'. eg_runs e' i = Some r' \<and> same_run r r'))"

lemma same_step_refl [simp]: "same_step s s"
  by (simp add: same_step_def)

lemma same_step_trans: "same_step s t \<Longrightarrow> same_step t u \<Longrightarrow> same_step s u"
  by (simp add: same_step_def)

lemma same_run_refl [simp]: "same_run r r"
  unfolding same_run_def by (intro exI [of _ "wrun_state r"] exI [of _ "wrun_completed_at r"]) simp

lemma same_run_upd [simp]: "same_run r (r\<lparr>wrun_state := state, wrun_completed_at := c\<rparr>)"
  unfolding same_run_def by blast

lemma same_run_sel:
  "same_run r r' \<Longrightarrow> wrun_step_run_ids r' = wrun_step_run_ids r \<and> wrun_revision_id r' = wrun_revision_id r \<and>
     wrun_workflow_run_id r' = wrun_workflow_run_id r"
  by (auto simp: same_run_def)

lemma same_run_revision: "same_run r r' \<Longrightarrow> revision_at dec e r' = revision_at dec e r"
  by (simp add: revision_at_def same_run_sel)

lemma engine_step_le:
  assumes "engine_step dec e e'"
  shows "engine_le e e'"
  using assms
proof cases
  case (StepMove j s s' i r)
  have "done_state (ws_state s) \<Longrightarrow> False" using StepMove(4) step_next_done by fastforce
  with StepMove(1-3) show ?thesis unfolding engine_le_def by (auto simp: map_le_def)
qed (auto simp: engine_le_def map_le_def dom_def)

lemma done_node_le:
  assumes "engine_le e e'" "eg_steps e j = Some s" "done_state (ws_state s)"
  shows "eg_steps e' j = Some s"
  using assms unfolding engine_le_def by blast

lemma revision_at_le:
  assumes "engine_le e e'" "revision_at dec e r = Some v"
  shows "revision_at dec e' r = Some v"
  using assms unfolding revision_at_def engine_le_def map_le_def by (auto simp: bind_eq_Some_conv dom_def)

lemma parents_ready_le:
  assumes "engine_le e e'" "parents_ready dec e r n"
  shows "parents_ready dec e' r n"
proof -
  from assms(2) obtain v where v: "revision_at dec e r = Some v"
    "\<forall>p\<in>set (parents_of v n). \<exists>j\<in>set (wrun_step_run_ids r). \<exists>s. eg_steps e j = Some s \<and> ws_node_id s = p \<and> done_state (ws_state s)"
    unfolding parents_ready_def by blast
  from v(2) done_node_le [OF assms(1)] have "\<forall>p\<in>set (parents_of v n). \<exists>j\<in>set (wrun_step_run_ids r). \<exists>s.
      eg_steps e' j = Some s \<and> ws_node_id s = p \<and> done_state (ws_state s)" by blast
  with revision_at_le [OF assms(1) v(1)] show ?thesis unfolding parents_ready_def by blast
qed

lemma parents_ready_same: "same_run r r' \<Longrightarrow> parents_ready dec e r' n = parents_ready dec e r n"
  by (simp add: parents_ready_def same_run_sel same_run_revision)

lemma step_done_le: "engine_le e e' \<Longrightarrow> step_done e j \<Longrightarrow> step_done e' j"
  unfolding step_done_def using done_node_le by blast

lemma engine_le_step:
  "engine_le e e' \<Longrightarrow> eg_steps e j = Some s \<Longrightarrow> \<exists>s'. eg_steps e' j = Some s' \<and> same_step s s'"
  unfolding engine_le_def by blast

lemma engine_le_run: "engine_le e e' \<Longrightarrow> eg_runs e i = Some r \<Longrightarrow> eg_runs e' i = Some r' \<Longrightarrow> same_run r r'"
  unfolding engine_le_def by fastforce

lemma engine_step_runs_ok:
  assumes "engine_step dec e e'" "runs_ok dec e"
  shows "runs_ok dec e'"
proof -
  note le = engine_step_le [OF assms(1)]
  have steps: "\<exists>s'. eg_steps e' j = Some s' \<and> ws_node_id s' = n \<and> ws_workflow_run_id s' = i"
    if "\<exists>s. eg_steps e j = Some s \<and> ws_node_id s = n \<and> ws_workflow_run_id s = i" for i j n
    using that engine_le_step [OF le] unfolding same_step_def by fastforce
  have ids: "ws_step_run_id s = j" if "eg_steps e' j = Some s" for j s
    using assms(1)
  proof cases
    case (StepMove k t t' i r)
    with assms(2) that show ?thesis unfolding runs_ok_def same_step_def by (auto split: if_split_asm)
  qed (use assms(2) that in \<open>auto simp: runs_ok_def split: if_split_asm\<close>)
  have "wrun_workflow_run_id r = i \<and> (\<exists>v order. revision_at dec e' r = Some v \<and> validate_dag v = Inr order \<and>
      list_all2 (\<lambda>j n. \<exists>s. eg_steps e' j = Some s \<and> ws_node_id s = n \<and> ws_workflow_run_id s = i) (wrun_step_run_ids r) order)"
    if r: "eg_runs e' i = Some r" for i r
  proof (cases "eg_runs e i")
    case (Some r0)
    from Some assms(2) obtain v order where v: "wrun_workflow_run_id r0 = i" "revision_at dec e r0 = Some v"
      "validate_dag v = Inr order"
      "list_all2 (\<lambda>j n. \<exists>s. eg_steps e j = Some s \<and> ws_node_id s = n \<and> ws_workflow_run_id s = i) (wrun_step_run_ids r0) order"
      unfolding runs_ok_def by blast
    have "same_run r0 r" by (rule engine_le_run [OF le Some r])
    note same = same_run_sel [OF this] same_run_revision [OF this]
    from v(4) have "list_all2 (\<lambda>j n. \<exists>s. eg_steps e' j = Some s \<and> ws_node_id s = n \<and> ws_workflow_run_id s = i)
        (wrun_step_run_ids r0) order"
      by (rule list_all2_mono) (rule steps)
    with v revision_at_le [OF le v(2)] same show ?thesis by auto
  next
    case None
    from assms(1) show ?thesis
    proof cases
      case (NewRun k q v order)
      with r None have "k = i" "q = r" by (auto split: if_split_asm)
      moreover have "revision_at dec e' q = Some v" using NewRun(1,5) by (simp add: revision_at_def)
      moreover have "list_all2 (\<lambda>j n. \<exists>s. eg_steps e' j = Some s \<and> ws_node_id s = n \<and> ws_workflow_run_id s = k) (wrun_step_run_ids q) order"
        using NewRun(7) by (rule list_all2_mono) (use NewRun(1) in auto)
      ultimately show ?thesis using NewRun(3,6) by blast
    qed (use r None in \<open>auto split: if_split_asm\<close>)
  qed
  with ids show ?thesis unfolding runs_ok_def by blast
qed

lemma list_all2_mem:
  assumes "list_all2 P xs ys" "x \<in> set xs"
  shows "\<exists>y\<in>set ys. P x y"
  using assms by (induction rule: list_all2_induct) auto

lemma runs_okD:
  assumes "runs_ok dec e" "eg_runs e i = Some r"
  shows "\<exists>v order. revision_at dec e r = Some v \<and> validate_dag v = Inr order \<and>
    list_all2 (\<lambda>j n. \<exists>s. eg_steps e j = Some s \<and> ws_node_id s = n \<and> ws_workflow_run_id s = i) (wrun_step_run_ids r) order"
  using assms unfolding runs_ok_def by blast

lemma run_step:
  assumes "runs_ok dec e" "eg_runs e i = Some r" "j \<in> set (wrun_step_run_ids r)"
  obtains s where "eg_steps e j = Some s" "ws_workflow_run_id s = i"
  using runs_okD [OF assms(1,2)] list_all2_mem [OF _ assms(3)] by blast

lemma run_step_of:
  "runs_ok dec e \<Longrightarrow> eg_runs e i = Some r \<Longrightarrow> j \<in> set (wrun_step_run_ids r) \<Longrightarrow> eg_steps e j = Some s \<Longrightarrow>
     ws_workflow_run_id s = i"
  by (erule (2) run_step) simp

lemma engine_step_order_ok:
  assumes "engine_step dec e e'" "runs_ok dec e" "order_ok dec e"
  shows "order_ok dec e'"
proof -
  note le = engine_step_le [OF assms(1)]
  have old: "parents_ready dec e' r n" if "parents_ready dec e r n" for r n
    by (rule parents_ready_le [OF le that])
  have parents: "parents_ready dec e' r (ws_node_id s)"
    if r: "eg_runs e' i = Some r" and j: "j \<in> set (wrun_step_run_ids r)" and s: "eg_steps e' j = Some s"
      and past: "ws_state s \<notin> {''pending'', ''cancelled''}" for i r j s
  proof (cases "eg_runs e i")
    case (Some r0)
    have "same_run r0 r" by (rule engine_le_run [OF le Some r])
    note same = same_run_sel [OF this] parents_ready_same [OF this]
    from run_step [OF assms(2) Some, of j] j same obtain s0 where s0: "eg_steps e j = Some s0" "ws_workflow_run_id s0 = i" by auto
    show ?thesis
    proof (cases "s0 = s")
      case True
      with assms(3) Some s0 j same past have "parents_ready dec e r0 (ws_node_id s)" unfolding order_ok_def by auto
      with old same show ?thesis by auto
    next
      case False
      from assms(1) show ?thesis
      proof cases
        case (StepMove k t t' l q)
        with False s s0 have k: "k = j" "t = s0" "t' = s" by (auto split: if_split_asm)
        with run_step_of [OF assms(2) StepMove(5), of j s0] StepMove(6) s0 have "l = i" by simp
        with StepMove(5) Some have q: "q = r0" by simp
        have node: "ws_node_id s = ws_node_id s0" using StepMove(3) k by (simp add: same_step_def)
        show ?thesis
        proof (cases "ws_state s0 \<in> {''pending'', ''cancelled''}")
          case True
          with StepMove(4) k have "ws_state s0 = ''pending''" by (auto simp: step_next.simps)
          with StepMove(9) k past q have "parents_ready dec e r0 (ws_node_id s0)" by simp
          with old same node show ?thesis by auto
        next
          case False
          with assms(3) Some s0 j same have "parents_ready dec e r0 (ws_node_id s0)" unfolding order_ok_def by auto
          with old same node show ?thesis by auto
        qed
      qed (use False s s0 in \<open>auto split: if_split_asm\<close>)
    qed
  next
    case None
    from assms(1) show ?thesis
    proof cases
      case (NewRun k q v order)
      with r None have "q = r" by (auto split: if_split_asm)
      with list_all2_mem [OF NewRun(7)] j have "\<exists>t. eg_steps e j = Some t \<and> ws_state t = ''pending''" by blast
      with NewRun(1) s past show ?thesis by auto
    qed (use r None in \<open>auto split: if_split_asm\<close>)
  qed
  have "step_done e' j" if r: "eg_runs e' i = Some r" "wrun_state r = ''succeeded''" and j: "j \<in> set (wrun_step_run_ids r)" for i r j
  proof (cases "eg_runs e i = Some r")
    case True
    with assms(3) r(2) j have "step_done e j" unfolding order_ok_def by blast
    then show ?thesis by (rule step_done_le [OF le])
  next
    case False
    from assms(1) show ?thesis
    proof cases
      case (RunMove k q state c)
      with r False have "r = q\<lparr>wrun_state := state, wrun_completed_at := c\<rparr>" by (auto split: if_split_asm)
      with RunMove(4) r(2) j have "step_done e j" by simp
      then show ?thesis by (rule step_done_le [OF le])
    qed (use r False in \<open>auto split: if_split_asm\<close>)
  qed
  with parents show ?thesis unfolding order_ok_def by blast
qed

lemma engine_steps_ok:
  assumes "(engine_step dec)\<^sup>*\<^sup>* e e'" "runs_ok dec e" "order_ok dec e"
  shows "runs_ok dec e' \<and> order_ok dec e'"
  using assms by (induction rule: rtranclp_induct) (auto intro: engine_step_runs_ok engine_step_order_ok)

text \<open>A closed run and its steps never move again; a paused step is only ever cancelled.\<close>

lemma engine_step_closed:
  assumes "engine_step dec e e'" "runs_ok dec e" "eg_runs e i = Some r" "\<not> open_run r"
  shows "eg_runs e' i = Some r" "j \<in> set (wrun_step_run_ids r) \<Longrightarrow> eg_steps e' j = eg_steps e j"
proof -
  show "eg_runs e' i = Some r"
    using assms(1)
  proof cases
    case (RunMove k q state c)
    then show ?thesis using assms(3,4) run_next_closed [of q] by (auto split: if_split_asm)
  qed (use assms in auto)
  assume j: "j \<in> set (wrun_step_run_ids r)"
  from run_step [OF assms(2,3) j] obtain s where s: "eg_steps e j = Some s" "ws_workflow_run_id s = i" by blast
  show "eg_steps e' j = eg_steps e j"
    using assms(1)
  proof cases
    case (StepMove k t t' l q)
    show ?thesis
    proof (cases "k = j")
      case True
      with run_step_of [OF assms(2) StepMove(5,6)] s have "l = i" by simp
      with StepMove(5,7) assms(3,4) show ?thesis by simp
    qed (use StepMove in simp)
  qed (use s in auto)
qed

lemma engine_steps_closed:
  assumes "(engine_step dec)\<^sup>*\<^sup>* e e'" "runs_ok dec e" "eg_runs e i = Some r" "\<not> open_run r"
  shows "eg_runs e' i = Some r \<and> (\<forall>j\<in>set (wrun_step_run_ids r). eg_steps e' j = eg_steps e j)"
proof -
  have "runs_ok dec e' \<and> eg_runs e' i = Some r \<and> (\<forall>j\<in>set (wrun_step_run_ids r). eg_steps e' j = eg_steps e j)"
    using assms by (induction rule: rtranclp_induct) (auto intro: engine_step_runs_ok simp: engine_step_closed)
  then show ?thesis by blast
qed

lemma engine_step_paused:
  assumes "engine_step dec e e'" "eg_steps e j = Some s" "ws_state s \<in> {''paused'', ''cancelled''}"
  shows "\<exists>s'. eg_steps e' j = Some s' \<and> ws_state s' \<in> {''paused'', ''cancelled''}"
  using assms(1)
proof cases
  case (StepMove k t t' i r)
  then show ?thesis using assms(2,3) by (auto simp: step_next.simps split: if_split_asm)
qed (use assms in \<open>auto split: if_split_asm\<close>)

lemma engine_steps_paused:
  assumes "(engine_step dec)\<^sup>*\<^sup>* e e'" "eg_steps e j = Some s" "ws_state s \<in> {''paused'', ''cancelled''}"
  shows "\<exists>s'. eg_steps e' j = Some s' \<and> ws_state s' \<in> {''paused'', ''cancelled''}"
  using assms by (induction rule: rtranclp_induct) (use engine_step_paused in blast)+

end
