(* ===== verification/Emergency_Properties.thy ===== *)
theory Emergency_Properties
  imports Emergency
begin

text \<open>
  Properties of the emergency service: what each operation does to the logs of the platform store, whatever
  its outcome, and what follows for the emergency actions in force and for the circuit breakers.
\<close>

section \<open>What the operations do to the logs\<close>

abbreviation emergency_key :: "string \<times> string" where
  "emergency_key \<equiv> (''emergency'', ''emergency_global'')"

text \<open>The actions in force according to the log of the emergency record.\<close>

definition active_of :: "(jval option \<times> string) list \<Rightarrow> string set" where
  "active_of log =
     (if log = [] \<or> snd (last log) \<noteq> ''active'' then {}
      else case fst (last log) of
        Some (JObj payload) \<Rightarrow> (case str_items payload ''active_actions'' of None \<Rightarrow> {} | Some vs \<Rightarrow> set vs)
      | _ \<Rightarrow> {})"

definition active_actions :: "platform_db option \<Rightarrow> string set" where
  "active_actions f = active_of (file_log f emergency_key)"

lemma map_of_norm_dict: "wf_json (JObj p) \<Longrightarrow> map_of (norm_dict p) k = map_option jnorm (map_of p k)"
proof -
  assume "wf_json (JObj p)"
  then have "distinct (map fst (map (map_prod id jnorm) p))" by simp
  from map_of_sort_key_fst [OF this] show ?thesis
    unfolding norm_dict_def by (simp add: map_of_map_prod)
qed

lemma wf_emergency_dict: "wf_json (JObj (extensions s)) \<Longrightarrow> wf_json (JObj (emergency_dict tt s))"
  by (simp add: emergency_dict_def versioned_fields_def jopt_def list_all_iff split: option.split)

lemma EmergencyState_ok_wf: "EmergencyState_ok s \<Longrightarrow> wf_json (JObj (emergency_dict tt s))"
  by (rule wf_emergency_dict) (simp add: EmergencyState_ok_def versioned_ok_def)

lemma emergency_dict_actions:
  assumes "EmergencyState_ok s"
  shows "str_items (norm_dict (emergency_dict tt s)) ''active_actions'' =
    Some (map EmergencyAction_value (es_active_actions s))"
proof -
  have "map_of (norm_dict (emergency_dict tt s)) ''active_actions'' =
      Some (jstrs (map EmergencyAction_value (es_active_actions s)))"
    unfolding map_of_norm_dict [OF EmergencyState_ok_wf [OF assms]]
    by (simp add: emergency_dict_def versioned_fields_def)
  then show ?thesis by (simp add: str_items_def list_items_def comp_def)
qed

lemma active_of_snoc:
  assumes "EmergencyState_ok s"
  shows "active_of (log @ [(Some (JObj (norm_dict (emergency_dict tt s))), st)]) =
    (if st = ''active'' then EmergencyAction_value ` set (es_active_actions s) else {})"
  by (simp add: active_of_def emergency_dict_actions [OF assms])

lemma EmergencyAction_of_value: "EmergencyAction_of v = Some a \<Longrightarrow> EmergencyAction_value a = v"
  unfolding EmergencyAction_of_def by (auto simp: find_Some_iff)

lemma actions_of_values: "actions_of vs = Inr xs \<Longrightarrow> map EmergencyAction_value xs = vs"
  unfolding actions_of_def
  by (induction vs arbitrary: xs) (auto simp: result_simps EmergencyAction_of_value)

lemma make_EmergencyState_Inr:
  "make_EmergencyState env s = Inr s' \<Longrightarrow> EmergencyState_ok s' \<and> es_active_actions s' = es_active_actions s"
  by (auto simp: make_EmergencyState_def Let_def split: if_split_asm)

lemma prior_actions_view:
  assumes "head_view prior log" "prior_actions prior = Inr vs" "active_of log \<noteq> {}"
  shows "set vs = active_of log"
  using assms by (auto simp: head_view_def prior_actions_def active_of_def result_simps split: option.splits if_split_asm)

lemma activated_state_actions:
  assumes "head_view prior log" "activated_state env now prior actions reason actor_id approval_id = Inr s"
  shows "EmergencyState_ok s" "active_of log \<union> EmergencyAction_value ` set actions \<subseteq> EmergencyAction_value ` set (es_active_actions s)"
proof -
  obtain vs xs where v: "prior_actions prior = Inr vs"
    "actions_of (sorted_set (vs @ map EmergencyAction_value actions)) = Inr xs"
    and s: "EmergencyState_ok s" "es_active_actions s = xs"
    using assms(2) unfolding activated_state_def Let_def
    by (auto simp: rbind_Inr_iff dest!: make_EmergencyState_Inr)
  show "EmergencyState_ok s" by fact
  have "EmergencyAction_value ` set xs = set vs \<union> EmergencyAction_value ` set actions"
    using actions_of_values [OF v(2)] by (metis list.set_map set_append set_sorted_set)
  then show "active_of log \<union> EmergencyAction_value ` set actions \<subseteq> EmergencyAction_value ` set (es_active_actions s)"
    using prior_actions_view [OF assms(1) v(1)] s(2) by auto
qed

text \<open>An operation leaves the emergency record alone or appends an active state that keeps what was in
  force and adds the new actions.\<close>

definition activated :: "emergency_env \<Rightarrow> EmergencyAction list \<Rightarrow> (string \<times> string \<Rightarrow> (jval option \<times> string) list) \<Rightarrow>
    (string \<times> string \<Rightarrow> (jval option \<times> string) list) \<Rightarrow> bool" where
  "activated env actions L L' \<longleftrightarrow>
     (\<exists>s. EmergencyState_ok s \<and>
        active_of (L emergency_key) \<union> EmergencyAction_value ` set actions \<subseteq> EmergencyAction_value ` set (es_active_actions s) \<and>
        L' = L(emergency_key := L emergency_key @ [(Some (JObj (norm_dict (emergency_dict (em_time_text env) s))), ''active'')]))"

lemma activatedI:
  assumes "head_view prior (L emergency_key)" "activated_state env now prior actions reason actor_id approval_id = Inr s"
    and "L' = L(emergency_key := L emergency_key @ [(Some (JObj (norm_dict (emergency_dict (em_time_text env) s))), ''active'')])"
  shows "activated env actions L L'"
  unfolding activated_def
  by (intro exI [of _ s] conjI) (rule activated_state_actions [OF assms(1,2)] assms(3))+

lemma activate_body_wp:
  assumes "db_ok (em_sha env) db"
  shows "wp (activate_body env now actions reason actor_id key approval_id)
    (\<lambda>r db'. db_ok (em_sha env) db' \<and>
       (record_log db' = record_log db \<and> find_receipt db ''emergency_activate'' key \<noteq> None \<or>
        activated env actions (record_log db) (record_log db')))
    (\<lambda>e db'. db_ok (em_sha env) db' \<and>
       (record_log db' = record_log db \<or> activated env actions (record_log db) (record_log db'))) db"
    (is "wp _ ?S ?F db")
  unfolding activate_body_def Let_def wp_simps
  apply (rule wp_receipt [OF assms])
     apply (simp add: opt_ok_def)
    apply (simp add: assms)
   apply (rule conjI)
    apply (rule impI)
    apply (rule pstore.wp_get, assumption)
     subgoal for x db1 prior
       apply (cases "activated_state env now prior actions reason actor_id approval_id")
        apply simp
       subgoal for s
       apply (simp only: sum.case)
       apply (rule pstore.wp_put, assumption)
         apply (rule EmergencyState_ok_wf, rule activated_state_actions(1), assumption, assumption)
        apply simp
       subgoal premises prems for r db2
       proof -
         have A: "activated env actions (record_log db) (record_log db2)"
           by (rule activatedI [where L = "record_log db", OF prems(6,7)]) (simp add: prems)
         have wfR: "opt_ok (\<lambda>p. wf_json (JObj p)) (Some R)" if "distinct (map fst R)" "list_all (wf_json \<circ> snd) R" for R
           using that by (simp add: opt_ok_def list.pred_map comp_def)
         have E: "db_ok (em_sha env) d \<Longrightarrow> record_log d = record_log db2 \<Longrightarrow> ?F e d" for e d using A by simp
         have S: "db_ok (em_sha env) d \<Longrightarrow> record_log d = record_log db2 \<Longrightarrow> ?S r d" for r d using A by simp
         show ?thesis
           apply (rule wp_event)
             apply fact
            apply (rule E, fact, rule refl)
           apply (simp only: wp_query sum.case)
           apply (rule wp_receipt)
               apply assumption
              apply (rule wfR)
               apply simp
              apply (simp add: field_or_def list_all_iff)
             apply (rule E, assumption, assumption)
            apply (simp only: wp_simps, simp add: A)
           apply (simp only: wp_simps, simp add: A)
           done
       qed
       done
      done
     apply simp
    apply simp
   apply (rule conjI, simp only: option.distinct simp_thms, simp add: assms)
  done

lemma wp_require_enabled:
  assumes "S () s" "\<And>e. F e s"
  shows "wp (require_enabled env) S F s"
  using assms by (auto simp: require_enabled_def wp_simps split: sum.split)

lemma activate_wp:
  assumes "file_ok (em_sha env) f"
  shows "wp (activate env now actions reason actor_id key approval_id)
    (\<lambda>r f'. file_ok (em_sha env) f' \<and>
       (file_log f' = file_log f \<and> receipt_used f ''emergency_activate'' key \<or> activated env actions (file_log f) (file_log f')))
    (\<lambda>e f'. file_ok (em_sha env) f' \<and> (file_log f' = file_log f \<or> activated env actions (file_log f) (file_log f'))) f"
    (is "wp _ ?S ?F f")
proof -
  have body: "wp (with_store EmergencyStore (em_sha env) now
     (activate_body env now actions reason actor_id key approval_id)) ?S ?F f"
  proof (cases "initialize_platform_store (em_sha env) now f")
    case (Inl e)
    with assms show ?thesis by (simp add: wp_def with_store_def)
  next
    case (Inr db)
    note ok = initialize_file_ok [OF assms Inr] and used = initialize_receipts [OF assms Inr]
    show ?thesis
      unfolding wp_with_store_Inr [OF Inr]
      by (rule wp_mono [OF activate_body_wp [OF ok(1)]]) (auto simp: ok(2) used [symmetric])
  qed
  have fail: "?F e f" for e using assms by simp
  show ?thesis
    unfolding activate_def wp_simps
    by (rule wp_require_enabled, rule conjI; (rule impI)?, (rule body | rule fail))
qed

text \<open>The state and the recovery counter of a breaker according to its log.\<close>

definition breaker_view :: "(jval option \<times> string) list \<Rightarrow> (string \<times> int) option" where
  "breaker_view log =
     (if log = [] then None
      else Some (snd (last log), case fst (last log) of Some (JObj p) \<Rightarrow> recoveries_used p | _ \<Rightarrow> 0))"

definition breaker_next :: "bool \<Rightarrow> bool \<Rightarrow> (string \<times> int) option \<Rightarrow> CircuitBreakerState \<times> int" where
  "breaker_next tripped security v =
     breaker_transition tripped security (map_option fst v) (case v of None \<Rightarrow> 0 | Some w \<Rightarrow> snd w)"

definition observed_as ::
    "emergency_env \<Rightarrow> bool \<Rightarrow> bool \<Rightarrow> string \<times> string \<Rightarrow> circuit_breaker \<Rightarrow>
     (string \<times> string \<Rightarrow> (jval option \<times> string) list) \<Rightarrow> (string \<times> string \<Rightarrow> (jval option \<times> string) list) \<Rightarrow> bool" where
  "observed_as env tripped security key b L L' \<longleftrightarrow>
     CircuitBreaker_ok b \<and>
     breaker_next tripped security (breaker_view (L key)) = (cb_state b, recoveries_used (norm_dict (breaker_dict (em_time_text env) b))) \<and>
     L' = L(key := L key @ [(Some (JObj (norm_dict (breaker_dict (em_time_text env) b))), CircuitBreakerState_value (cb_state b))])"

lemma head_view_breaker:
  "head_view prior log \<Longrightarrow> breaker_view log = map_option (\<lambda>p. (sr_state p, recoveries_used (sr_payload p))) prior"
  by (auto simp: head_view_def breaker_view_def split: option.splits)

lemma head_view_next:
  assumes "head_view prior log"
  shows "breaker_transition tripped security (map_option sr_state prior)
      (case prior of None \<Rightarrow> 0 | Some p \<Rightarrow> recoveries_used (sr_payload p)) = breaker_next tripped security (breaker_view log)"
  unfolding head_view_breaker [OF assms] breaker_next_def by (cases prior) simp_all

lemma make_CircuitBreaker_Inr:
  "make_CircuitBreaker env b = Inr b' \<Longrightarrow>
     CircuitBreaker_ok b' \<and> cb_state b' = cb_state b \<and> extensions b' = extensions b"
  by (auto simp: make_CircuitBreaker_def Let_def split: if_split_asm)

lemma wf_breaker_dict: "CircuitBreaker_ok b \<Longrightarrow> wf_json (JObj (breaker_dict tt b))"
  by (simp add: CircuitBreaker_ok_def versioned_ok_def breaker_dict_def versioned_fields_def jopt_def list_all_iff
      split: option.split)

lemma breaker_dict_used:
  assumes "CircuitBreaker_ok b" "extensions b = [(''automatic_recoveries_used'', JInt n)]"
  shows "recoveries_used (norm_dict (breaker_dict tt b)) = n"
proof -
  have "map_of (norm_dict (breaker_dict tt b)) ''extensions'' = Some (JObj [(''automatic_recoveries_used'', JInt n)])"
    unfolding map_of_norm_dict [OF wf_breaker_dict [OF assms(1)]]
    by (simp add: breaker_dict_def versioned_fields_def assms(2))
  then show ?thesis by (simp add: recoveries_used_def)
qed

abbreviation breaker_key :: "emergency_env \<Rightarrow> string \<Rightarrow> string \<Rightarrow> string \<times> string" where
  "breaker_key env trigger scope \<equiv> (''breaker'', breaker_id_for env trigger scope)"

abbreviation is_security :: "string \<Rightarrow> bool" where
  "is_security trigger \<equiv> trigger \<in> set security_triggers"

lemma observed_asI:
  assumes "make_CircuitBreaker env b = Inr b'" "extensions b = [(''automatic_recoveries_used'', JInt used)]"
    and "breaker_next tripped security (breaker_view (L key)) = (cb_state b, used)"
    and "L' = L(key := L key @ [(Some (JObj (norm_dict (breaker_dict (em_time_text env) b'))), CircuitBreakerState_value (cb_state b))])"
  shows "observed_as env tripped security key b' L L'"
  using make_CircuitBreaker_Inr [OF assms(1)] breaker_dict_used [of b' used] assms(2-4) by (simp add: observed_as_def)

lemma observe_body_wp:
  assumes "db_ok (em_sha env) db"
  shows "wp (observe_body env now trigger limit observed scope actor_id)
    (\<lambda>(b, opened) db'. db_ok (em_sha env) db' \<and>
       observed_as env (limit \<le> observed) (is_security trigger) (breaker_key env trigger scope) b (record_log db) (record_log db') \<and>
       (opened \<longleftrightarrow> cb_state b = CB_OPEN \<and>
          map_option fst (breaker_view (record_log db (breaker_key env trigger scope))) \<noteq> Some ''open''))
    (\<lambda>e db'. db_ok (em_sha env) db' \<and>
       (record_log db' = record_log db \<or>
        (\<exists>b. observed_as env (limit \<le> observed) (is_security trigger) (breaker_key env trigger scope) b
           (record_log db) (record_log db')))) db"
    (is "wp _ ?S ?F db")
proof -
  have F: "?F e db" for e using assms by simp
  show ?thesis
    unfolding observe_body_def Let_def wp_simps
    apply (rule pstore.wp_get [OF assms])
    subgoal premises view for prior
    proof -
      obtain state used where nxt: "breaker_next (limit \<le> observed) (is_security trigger)
          (breaker_view (record_log db (breaker_key env trigger scope))) = (state, used)" by fastforce
      have prior: "map_option fst (breaker_view (record_log db (breaker_key env trigger scope))) = map_option sr_state prior"
        unfolding head_view_breaker [OF view] by (simp add: option.map_comp comp_def)
      show ?thesis
        unfolding head_view_next [OF view] nxt prod.case sum.case
        apply (split sum.split, rule conjI; rule allI, rule impI)
         apply (rule F)
        apply (split sum.split, rule conjI; rule allI, rule impI)
         apply (rule F)
        subgoal premises made for shown b
        proof -
          note st = make_CircuitBreaker_Inr [OF made(2)]
          have obs: "record_log s' = (record_log db)(breaker_key env trigger scope := record_log db (breaker_key env trigger scope) @
                [(Some (JObj (norm_dict (breaker_dict (em_time_text env) b))), CircuitBreakerState_value state)]) \<Longrightarrow>
              observed_as env (limit \<le> observed) (is_security trigger) (breaker_key env trigger scope) b
                (record_log db) (record_log s')" for s'
            by (rule observed_asI [OF made(2)]) (simp_all add: nxt)
          show ?thesis
            by (rule wp_put_event [OF assms wf_breaker_dict]) (use st F obs prior in auto)
        qed
        done
    qed
    apply (rule F)
    done
qed

text \<open>What is asked of the validation of stored payloads: what it returns satisfies the contract, and the
  actions of an emergency state are those of the payload.\<close>

definition validators_ok :: "emergency_env \<Rightarrow> bool" where
  "validators_ok env \<longleftrightarrow>
     (\<forall>d b. em_breaker_of env d = Some b \<longrightarrow> CircuitBreaker_ok b) \<and>
     (\<forall>d s. em_state_of env d = Some s \<longrightarrow> EmergencyState_ok s \<and>
        map_of d ''active_actions'' = Some (jstrs (map EmergencyAction_value (es_active_actions s))))"

definition closed_as ::
    "emergency_env \<Rightarrow> string \<Rightarrow> (string \<times> string \<Rightarrow> (jval option \<times> string) list) \<Rightarrow>
     (string \<times> string \<Rightarrow> (jval option \<times> string) list) \<Rightarrow> bool" where
  "closed_as env breaker_id L L' \<longleftrightarrow>
     (\<exists>b. CircuitBreaker_ok b \<and> L' = L((''breaker'', breaker_id) := L (''breaker'', breaker_id) @
        [(Some (JObj (norm_dict (breaker_dict (em_time_text env) b))), ''closed'')]))"

lemma close_body_wp:
  assumes "validators_ok env" "db_ok (em_sha env) db"
  shows "wp (close_body env now breaker_id approval_id reason actor_id)
    (\<lambda>b db'. db_ok (em_sha env) db' \<and> closed_as env breaker_id (record_log db) (record_log db'))
    (\<lambda>e db'. db_ok (em_sha env) db' \<and>
       (record_log db' = record_log db \<or> closed_as env breaker_id (record_log db) (record_log db'))) db"
    (is "wp _ ?S ?F db")
proof -
  have F: "?F e db" for e using assms by simp
  show ?thesis
    unfolding close_body_def wp_simps
    apply (rule pstore.wp_get [OF assms(2)])
     apply (rule conjI, rule impI, rule F)
     apply (rule allI, rule impI)
     apply (split sum.split, rule conjI; rule allI, rule impI)
      apply (rule F)
    subgoal premises made for found prior b
    proof -
      have ok: "CircuitBreaker_ok b"
        using assms(1) made(3) unfolding validators_ok_def by (auto simp: result_simps)
      show ?thesis
        by (rule wp_put_event [OF assms(2) wf_breaker_dict [OF ok]]) (use F ok in \<open>auto simp: closed_as_def\<close>)
    qed
    apply (rule F)
    done
qed

lemma map_of_updated:
  "map_of (updated d cs) k = (case map_of (rev cs) k of Some v \<Rightarrow> Some v | None \<Rightarrow> map_of d k)"
  unfolding updated_def
  by (induction cs arbitrary: d) (auto simp: map_of_update_alist map_add_def split: option.splits)

definition recovered_as ::
    "EmergencyAction list \<Rightarrow> (string \<times> string \<Rightarrow> (jval option \<times> string) list) \<Rightarrow>
     (string \<times> string \<Rightarrow> (jval option \<times> string) list) \<Rightarrow> bool" where
  "recovered_as actions L L' \<longleftrightarrow>
     EmergencyAction_value ` set actions \<subseteq> active_of (L emergency_key) \<and>
     active_of (L' emergency_key) = active_of (L emergency_key) - EmergencyAction_value ` set actions \<and>
     (\<exists>entry. L' = L(emergency_key := L emergency_key @ [entry]))"

lemma recovered_actions:
  assumes "validators_ok env" "em_state_of env (recovered_payload env now prior remaining reason actor_id approval_id) = Some s"
  shows "EmergencyState_ok s" "map EmergencyAction_value (es_active_actions s) = remaining"
proof -
  let ?d = "recovered_payload env now prior remaining reason actor_id approval_id"
  have law: "EmergencyState_ok s \<and> map_of ?d ''active_actions'' = Some (jstrs (map EmergencyAction_value (es_active_actions s)))"
    using assms unfolding validators_ok_def by blast
  then show "EmergencyState_ok s" by blast
  have "map_of ?d ''active_actions'' = Some (jstrs remaining)"
    by (simp add: recovered_payload_def map_of_updated)
  with law have "map JStr (map EmergencyAction_value (es_active_actions s)) = map JStr remaining" by simp
  then show "map EmergencyAction_value (es_active_actions s) = remaining"
    by (rule map_injective) (simp add: inj_def)
qed

lemma recovered_asI:
  assumes "head_view (Some prior) (L emergency_key)" "sr_state prior = ''active''" "prior_actions (Some prior) = Inr active"
    and "EmergencyAction_value ` set actions \<subseteq> set active" "EmergencyState_ok s"
    and "map EmergencyAction_value (es_active_actions s) =
           sorted_set (filter (\<lambda>a. a \<notin> EmergencyAction_value ` set actions) active)"
    and "L' = L(emergency_key := L emergency_key @ [(Some (JObj (norm_dict (emergency_dict tt s))),
           if sorted_set (filter (\<lambda>a. a \<notin> EmergencyAction_value ` set actions) active) \<noteq> [] then ''active'' else ''recovered'')])"
  shows "recovered_as actions L L'"
proof -
  have act: "active_of (L emergency_key) = set active"
    using assms(1-3) by (auto simp: head_view_def active_of_def prior_actions_def result_simps)
  have "EmergencyAction_value ` set (es_active_actions s) = set active - EmergencyAction_value ` set actions"
    using arg_cong [OF assms(6), of set] by auto
  with assms(4,5) act have "active_of (L' emergency_key) = set active - EmergencyAction_value ` set actions"
    unfolding assms(7) fun_upd_same active_of_snoc [OF assms(5)] by (auto simp: filter_empty_conv)
  with act assms(4,7) show ?thesis by (auto simp: recovered_as_def)
qed

lemma recover_body_wp:
  assumes "validators_ok env" "db_ok (em_sha env) db"
  shows "wp (recover_body env now actions actor_id approval_id reason key)
    (\<lambda>r db'. db_ok (em_sha env) db' \<and>
       (record_log db' = record_log db \<and> find_receipt db ''emergency_recover'' key \<noteq> None \<or>
        recovered_as actions (record_log db) (record_log db') \<and>
          (DISABLE_RUNTIME_EXECUTION \<in> set actions \<longrightarrow> open_security_breakers env db = Inr False)))
    (\<lambda>e db'. db_ok (em_sha env) db' \<and>
       (record_log db' = record_log db \<or> recovered_as actions (record_log db) (record_log db') \<and>
          (DISABLE_RUNTIME_EXECUTION \<in> set actions \<longrightarrow> open_security_breakers env db = Inr False))) db"
    (is "wp _ ?S ?F db")
proof -
  have F: "?F e db" for e using assms(2) by simp
  show ?thesis
    unfolding recover_body_def Let_def
    apply (rule wpI_bnd, rule wp_receipt_lookup)
      apply (rule F)
     apply (intro wpI; (rule F)?)
    subgoal premises p for found prior active opened recovered
    proof -
      have s: "EmergencyState_ok recovered" "map EmergencyAction_value (es_active_actions recovered) =
          sorted_set (filter (\<lambda>a. a \<notin> set (map EmergencyAction_value actions)) active)"
        using recovered_actions [OF assms(1)] p(10) by (simp_all add: of_option_Inr_iff)
      have view: "head_view (Some prior) (record_log db emergency_key)"
        using pstore.get_view [OF assms(2) p(3)] p(4) by simp
      let ?L' = "\<lambda>st. (record_log db)(emergency_key := record_log db emergency_key @
          [(Some (JObj (norm_dict (emergency_dict (em_time_text env) recovered))), st)])"
      let ?st = "if sorted_set (filter (\<lambda>a. a \<notin> set (map EmergencyAction_value actions)) active) \<noteq> [] then ''active'' else ''recovered''"
      have rec: "record_log d = ?L' ?st \<Longrightarrow> recovered_as actions (record_log db) (record_log d)" for d
        by (rule recovered_asI [where L = "record_log db", OF view p(5,6)]) (use p(7) s in simp_all)
      have sec: "DISABLE_RUNTIME_EXECUTION \<in> set actions \<Longrightarrow> open_security_breakers env db = Inr False"
      proof -
        assume "DISABLE_RUNTIME_EXECUTION \<in> set actions"
        then have "EmergencyAction_value DISABLE_RUNTIME_EXECUTION \<in> set (map EmergencyAction_value actions)"
          unfolding set_map by (rule imageI)
        with p(9) have "\<not> opened" by blast
        with p(8) show ?thesis by simp
      qed
      have F': "db_ok (em_sha env) d \<Longrightarrow> record_log d = ?L' ?st \<Longrightarrow> ?F e d" for d e using rec sec by blast
      have S': "db_ok (em_sha env) d \<Longrightarrow> record_log d = ?L' ?st \<Longrightarrow> ?S r d" for d r using rec sec by blast
      have wfR: "opt_ok (\<lambda>p. wf_json (JObj p)) (Some R)" if "distinct (map fst R)" "list_all (wf_json \<circ> snd) R" for R
        using that by (simp add: opt_ok_def list.pred_map comp_def)
      show ?thesis
        unfolding wp_bnd
        apply (rule wp_put_event [OF assms(2) EmergencyState_ok_wf [OF s(1)]])
          apply (rule F)
         apply (rule F', assumption, assumption)
        apply (rule wpI_query)
         apply (rule wp_receipt, assumption)
            apply (rule wfR)
             apply simp
            apply (simp add: field_or_def list_all_iff)
           apply (rule F', assumption, assumption)
          apply (rule wpI_give, rule S', assumption, simp)
         apply (rule wpI_give, rule S', assumption, assumption)
        apply (rule F', assumption, assumption)
        done
    qed
    apply (simp_all only: option.case wp_give)
    using assms(2) apply simp_all
    done
qed

section \<open>The operations on the file\<close>

definition newly_open :: "circuit_breaker \<Rightarrow> (jval option \<times> string) list \<Rightarrow> bool" where
  "newly_open b log \<longleftrightarrow> cb_state b = CB_OPEN \<and> map_option fst (breaker_view log) \<noteq> Some ''open''"

lemma observe_wp:
  assumes "file_ok (em_sha env) f"
    and "map_of (fc_circuit_breakers (em_features env)) trigger = Some limit"
  shows "wp (observe_breaker env now trigger observed scope actor_id)
    (\<lambda>b f'. file_ok (em_sha env) f' \<and>
       (\<exists>L. observed_as env (limit \<le> observed) (is_security trigger) (breaker_key env trigger scope) b (file_log f) L \<and>
          (file_log f' = L \<or> newly_open b (file_log f (breaker_key env trigger scope)) \<and>
             activated env [DISABLE_RUNTIME_EXECUTION] L (file_log f'))))
    (\<lambda>e f'. file_ok (em_sha env) f' \<and>
       (file_log f' = file_log f \<or>
        (\<exists>L b. observed_as env (limit \<le> observed) (is_security trigger) (breaker_key env trigger scope) b (file_log f) L \<and>
          (file_log f' = L \<or> newly_open b (file_log f (breaker_key env trigger scope)) \<and>
             activated env [DISABLE_RUNTIME_EXECUTION] L (file_log f'))))) f"
    (is "wp _ ?S ?F f")
proof -
  have fail: "?F e f" for e using assms(1) by simp
  have rest: "wp (if opened then bnd (activate env now [DISABLE_RUNTIME_EXECUTION] reason actor_id idem None) (\<lambda>_. give b)
      else give b) ?S ?F f1"
    if f1: "file_ok (em_sha env) f1"
      and obs: "observed_as env (limit \<le> observed) (is_security trigger) (breaker_key env trigger scope) b (file_log f) (file_log f1)"
      and opened: "opened \<longleftrightarrow> newly_open b (file_log f (breaker_key env trigger scope))"
    for f1 b opened reason idem
  proof (rule wpI_if)
    assume "opened"
    then show "wp (bnd (activate env now [DISABLE_RUNTIME_EXECUTION] reason actor_id idem None) (\<lambda>_. give b)) ?S ?F f1"
      unfolding wp_bnd wp_give
      by (intro wp_mono [OF activate_wp [OF f1]]) (use obs opened in blast)+
  next
    show "wp (give b) ?S ?F f1" unfolding wp_give using f1 obs by blast
  qed
  show ?thesis
    unfolding observe_breaker_def
  proof (rule wpI_bnd, rule wp_require_enabled)
    show "?F e f" for e by (rule fail)
    show "wp (case map_of (fc_circuit_breakers (em_features env)) trigger of None \<Rightarrow> fail EmergencyError
        | Some limit \<Rightarrow> bnd (with_store EmergencyStore (em_sha env) now (observe_body env now trigger limit observed scope actor_id))
            (\<lambda>(b, opened). if opened then bnd (activate env now [DISABLE_RUNTIME_EXECUTION]
                 (''Circuit breaker opened: '' @ trigger) actor_id (derive_id (em_sha env) ''idem'' (JObj
                    [(''breaker_id'', JStr (breaker_id_for env trigger scope)), (''revision'', JInt (cb_revision b)),
                     (''state'', JStr (CircuitBreakerState_value (cb_state b)))])) None) (\<lambda>_. give b) else give b)) ?S ?F f"
      unfolding assms(2) option.case
    proof (rule wpI_bnd, rule wp_with_store [OF assms(1)])
      show "?F e f" for e by (rule fail)
      fix db
      assume db: "db_ok (em_sha env) db" "record_log db = file_log f"
      show "wp (observe_body env now trigger limit observed scope actor_id)
        (\<lambda>x db'. wp (case x of (b, opened) \<Rightarrow> if opened then bnd (activate env now [DISABLE_RUNTIME_EXECUTION]
                 (''Circuit breaker opened: '' @ trigger) actor_id (derive_id (em_sha env) ''idem'' (JObj
                    [(''breaker_id'', JStr (breaker_id_for env trigger scope)), (''revision'', JInt (cb_revision b)),
                     (''state'', JStr (CircuitBreakerState_value (cb_state b)))])) None) (\<lambda>_. give b) else give b) ?S ?F (Some db'))
        (\<lambda>e db'. ?F e (Some db')) db"
      proof (rule wp_mono [OF observe_body_wp [OF db(1)]], goal_cases)
        case (1 x db')
        obtain b opened where x: "x = (b, opened)" by fastforce
        show ?case unfolding x prod.case by (rule rest) (use 1 x db(2) in \<open>simp_all add: newly_open_def\<close>)
      next
        case (2 e db')
        then show ?case using db(2) by auto
      qed
    qed
  qed
qed

lemma authorize_wp: "(\<And>u. S u f) \<Longrightarrow> (\<And>e. F e f) \<Longrightarrow> wp (authorize env now i q) S F f"
  by (simp add: wp_def authorize_def split: sum.split authority_error.split)

lemma close_wp:
  assumes "validators_ok env" "file_ok (em_sha env) f"
  shows "wp (close_breaker env now breaker_id approval_id reason actor_id)
    (\<lambda>b f'. file_ok (em_sha env) f' \<and> closed_as env breaker_id (file_log f) (file_log f'))
    (\<lambda>e f'. file_ok (em_sha env) f' \<and> (file_log f' = file_log f \<or> closed_as env breaker_id (file_log f) (file_log f'))) f"
    (is "wp _ ?S ?F f")
proof -
  have fail: "?F e f" for e using assms(2) by simp
  have body: "wp (with_store EmergencyStore (em_sha env) now (close_body env now breaker_id approval_id reason actor_id)) ?S ?F f"
    by (rule wp_with_store [OF assms(2)], rule fail, rule wp_mono [OF close_body_wp [OF assms(1)]]) auto
  show ?thesis
    unfolding close_breaker_def
    by (rule wpI_bnd, rule wp_require_enabled, rule wpI_bnd, rule wpI_check, rule wpI_bnd, rule authorize_wp)
      (rule body fail)+
qed

lemma recover_wp:
  assumes "validators_ok env" "file_ok (em_sha env) f"
  shows "wp (recover env now actions actor_id approval_id reason key)
    (\<lambda>r f'. file_ok (em_sha env) f' \<and>
       (file_log f' = file_log f \<and> receipt_used f ''emergency_recover'' key \<or>
        recovered_as actions (file_log f) (file_log f') \<and>
          (\<exists>db. initialize_platform_store (em_sha env) now f = Inr db \<and>
             (DISABLE_RUNTIME_EXECUTION \<in> set actions \<longrightarrow> open_security_breakers env db = Inr False))))
    (\<lambda>e f'. file_ok (em_sha env) f' \<and>
       (file_log f' = file_log f \<or> recovered_as actions (file_log f) (file_log f') \<and>
          (\<exists>db. initialize_platform_store (em_sha env) now f = Inr db \<and>
             (DISABLE_RUNTIME_EXECUTION \<in> set actions \<longrightarrow> open_security_breakers env db = Inr False)))) f"
    (is "wp _ ?S ?F f")
proof -
  have fail: "?F e f" for e using assms(2) by simp
  have body: "wp (with_store EmergencyStore (em_sha env) now (recover_body env now actions actor_id approval_id reason key)) ?S ?F f"
  proof (cases "initialize_platform_store (em_sha env) now f")
    case (Inl e)
    with assms(2) show ?thesis by (simp add: wp_def with_store_def)
  next
    case (Inr db)
    note ok = initialize_file_ok [OF assms(2) Inr] and used = initialize_receipts [OF assms(2) Inr]
    show ?thesis
      unfolding wp_with_store_Inr [OF Inr]
      by (rule wp_mono [OF recover_body_wp [OF assms(1) ok(1)]]) (auto simp: ok(2) used [symmetric] Inr)
  qed
  show ?thesis
    unfolding recover_def
    by (rule wpI_bnd, rule wp_require_enabled, rule wpI_bnd, rule wpI_check, rule wpI_bnd, rule authorize_wp)
      (rule body fail)+
qed

section \<open>Runs\<close>

lemma activated_active:
  assumes "activated env actions L L'"
  shows "active_of (L emergency_key) \<union> EmergencyAction_value ` set actions \<subseteq> active_of (L' emergency_key)"
    "k \<noteq> emergency_key \<Longrightarrow> L' k = L k"
  using assms unfolding activated_def by (auto simp: active_of_snoc)

lemma observed_as_frame:
  assumes "observed_as env tripped security key b L L'"
  shows "k \<noteq> key \<Longrightarrow> L' k = L k"
    "breaker_view (L' key) = (case breaker_next tripped security (breaker_view (L key)) of
       (st, used) \<Rightarrow> Some (CircuitBreakerState_value st, used))"
  using assms by (auto simp: observed_as_def breaker_view_def)

lemma closed_as_frame: "closed_as env i L L' \<Longrightarrow> k \<noteq> (''breaker'', i) \<Longrightarrow> L' k = L k"
  by (auto simp: closed_as_def)

lemma recovered_as_frame: "recovered_as actions L L' \<Longrightarrow> k \<noteq> emergency_key \<Longrightarrow> L' k = L k"
  by (auto simp: recovered_as_def)

lemma observe_unknown:
  assumes "map_of (fc_circuit_breakers (em_features env)) trigger = None"
  shows "snd (observe_breaker env now trigger observed scope actor_id f) = f"
  unfolding observe_breaker_def assms option.case
  by (simp add: bnd_def fail_def require_enabled_def check_def give_def split: sum.split)

lemma observe_run:
  assumes "file_ok (em_sha env) f" "observe_breaker env now trigger observed scope actor_id f = (r, f')"
  shows "file_ok (em_sha env) f'"
    "file_log f' = file_log f \<or> (\<exists>L b tripped. observed_as env tripped (is_security trigger) (breaker_key env trigger scope) b (file_log f) L \<and>
       (file_log f' = L \<or> newly_open b (file_log f (breaker_key env trigger scope)) \<and>
          activated env [DISABLE_RUNTIME_EXECUTION] L (file_log f')))"
proof -
  have "file_ok (em_sha env) f' \<and> (file_log f' = file_log f \<or>
      (\<exists>L b tripped. observed_as env tripped (is_security trigger) (breaker_key env trigger scope) b (file_log f) L \<and>
       (file_log f' = L \<or> newly_open b (file_log f (breaker_key env trigger scope)) \<and>
          activated env [DISABLE_RUNTIME_EXECUTION] L (file_log f'))))"
  proof (cases "map_of (fc_circuit_breakers (em_features env)) trigger")
    case None
    from observe_unknown [OF None, of now observed scope actor_id f] assms show ?thesis by simp
  next
    case (Some limit)
    show ?thesis
      by (rule wp_outcome [OF assms(2) observe_wp [OF assms(1) Some]]) blast+
  qed
  then show "file_ok (em_sha env) f'"
    "file_log f' = file_log f \<or> (\<exists>L b tripped. observed_as env tripped (is_security trigger) (breaker_key env trigger scope) b (file_log f) L \<and>
       (file_log f' = L \<or> newly_open b (file_log f (breaker_key env trigger scope)) \<and>
          activated env [DISABLE_RUNTIME_EXECUTION] L (file_log f')))" by blast+
qed

lemma activate_run:
  assumes "file_ok (em_sha env) f" "activate env now actions reason actor_id key approval_id f = (r, f')"
  shows "file_ok (em_sha env) f' \<and> (file_log f' = file_log f \<or> activated env actions (file_log f) (file_log f'))"
  by (rule wp_outcome [OF assms(2) activate_wp [OF assms(1)]]) blast+

lemma close_run:
  assumes "validators_ok env" "file_ok (em_sha env) f" "close_breaker env now i approval_id reason actor_id f = (r, f')"
  shows "file_ok (em_sha env) f' \<and> (file_log f' = file_log f \<or> closed_as env i (file_log f) (file_log f'))"
  by (rule wp_outcome [OF assms(3) close_wp [OF assms(1,2)]]) blast+

lemma recover_run:
  assumes "validators_ok env" "file_ok (em_sha env) f" "recover env now actions actor_id approval_id reason key f = (r, f')"
  shows "file_ok (em_sha env) f' \<and> (file_log f' = file_log f \<or> recovered_as actions (file_log f) (file_log f') \<and>
          (\<exists>db. initialize_platform_store (em_sha env) now f = Inr db \<and>
             (DISABLE_RUNTIME_EXECUTION \<in> set actions \<longrightarrow> open_security_breakers env db = Inr False)))"
  by (rule wp_outcome [OF assms(3) recover_wp [OF assms(1,2)]]) blast+

text \<open>Everything but a recovery, whatever its outcome.\<close>

inductive emergency_step :: "emergency_env \<Rightarrow> platform_db option \<Rightarrow> platform_db option \<Rightarrow> bool" for env where
  Activate: "activate env now actions reason actor_id key approval_id f = (r, f') \<Longrightarrow> emergency_step env f f'"
| Observe: "observe_breaker env now trigger observed scope actor_id f = (r, f') \<Longrightarrow> emergency_step env f f'"
| Close: "close_breaker env now breaker_id approval_id reason actor_id f = (r, f') \<Longrightarrow> emergency_step env f f'"

lemma emergency_step_active:
  assumes "emergency_step env f f'" "validators_ok env" "file_ok (em_sha env) f"
  shows "file_ok (em_sha env) f' \<and> active_actions f \<subseteq> active_actions f'"
  using assms(1)
proof cases
  case (Activate now actions reason actor_id key approval_id r)
  from activate_run [OF assms(3) Activate] activated_active(1) show ?thesis
    unfolding active_actions_def by fastforce
next
  case (Observe now trigger observed scope actor_id r)
  have "L emergency_key = file_log f emergency_key"
    if "observed_as env tripped s (breaker_key env trigger scope) b (file_log f) L" for tripped s b L
    by (rule observed_as_frame(1) [OF that]) simp
  with observe_run [OF assms(3) Observe] activated_active(1) show ?thesis
    unfolding active_actions_def by fastforce
next
  case (Close now breaker_id approval_id reason actor_id r)
  from close_run [OF assms(2,3) Close] closed_as_frame [of env breaker_id "file_log f" "file_log f'" emergency_key]
  show ?thesis unfolding active_actions_def by auto
qed

lemma emergency_steps_active:
  assumes "(emergency_step env)\<^sup>*\<^sup>* f f'" "validators_ok env" "file_ok (em_sha env) f"
  shows "file_ok (em_sha env) f' \<and> active_actions f \<subseteq> active_actions f'"
  using assms(1,3)
  by (induction rule: rtranclp_induct) (use emergency_step_active [OF _ assms(2)] in blast)+

lemma active_record:
  assumes "file_ok (em_sha env) f" "a \<in> active_actions f"
  obtains db r vs where "open_platform_store_read_only f = Some db"
    "\<And>x. head (em_sha env) db ''emergency'' ''emergency_global'' = Inr x \<Longrightarrow>
       \<exists>r vs. x = Some r \<and> sr_state r = ''active'' \<and> list_items (sr_payload r) ''active_actions'' = Some vs \<and> a \<in> set (map py_str vs)"
proof -
  from assms obtain db where f: "f = Some db" "db_ok (em_sha env) db"
    by (cases f) (auto simp: active_actions_def active_of_def)
  show thesis
  proof (rule that)
    show "open_platform_store_read_only f = Some db"
      using f by (simp add: open_platform_store_read_only_def db_ok_def)
    fix x
    assume "head (em_sha env) db ''emergency'' ''emergency_global'' = Inr x"
    from pstore.get_view [OF f(2) this] assms(2) f(1)
    show "\<exists>r vs. x = Some r \<and> sr_state r = ''active'' \<and> list_items (sr_payload r) ''active_actions'' = Some vs \<and> a \<in> set (map py_str vs)"
      by (auto simp: head_view_def active_actions_def active_of_def str_items_def split: option.splits if_split_asm)
  qed
qed

lemma active_blocks_runtime:
  assumes "file_ok (em_sha env) f" "a \<in> active_actions f" "a \<in> set runtime_blocking_actions"
  shows "\<not> is_ok (assert_runtime_allowed env f)"
proof -
  from active_record [OF assms(1,2)] obtain db where db: "open_platform_store_read_only f = Some db"
    "\<And>x. head (em_sha env) db ''emergency'' ''emergency_global'' = Inr x \<Longrightarrow>
       \<exists>r vs. x = Some r \<and> sr_state r = ''active'' \<and> list_items (sr_payload r) ''active_actions'' = Some vs \<and> a \<in> set (map py_str vs)"
    by blast
  have "set (map py_str (ev_active_actions v)) \<inter> set runtime_blocking_actions \<noteq> {}" if "snapshot env f = Inr v" for v
    using that db(2) assms(3) unfolding snapshot_def db(1)
    by (auto simp: result_simps) blast
  then show ?thesis
    by (auto simp: assert_runtime_allowed_def is_ok_iff result_simps split: if_split_asm)
qed

lemma active_blocks_action:
  assumes "file_ok (em_sha env) f" "EmergencyAction_value a \<in> active_actions f"
  shows "\<not> is_ok (assert_action_inactive env a f)"
proof -
  from active_record [OF assms] obtain db where db: "open_platform_store_read_only f = Some db"
    "\<And>x. head (em_sha env) db ''emergency'' ''emergency_global'' = Inr x \<Longrightarrow>
       \<exists>r vs. x = Some r \<and> sr_state r = ''active'' \<and> list_items (sr_payload r) ''active_actions'' = Some vs \<and>
         EmergencyAction_value a \<in> set (map py_str vs)"
    by blast
  have "f \<noteq> None" using db(1) by (cases f) (simp_all add: open_platform_store_read_only_def)
  with db(2) show ?thesis
    unfolding assert_action_inactive_def db(1)
    by (cases "head (em_sha env) db ''emergency'' ''emergency_global''")
      (fastforce simp: is_ok_iff str_items_def result_simps split: option.splits)+
qed

section \<open>The list of open breakers\<close>

definition security_open :: "platform_db option \<Rightarrow> string \<Rightarrow> bool" where
  "security_open f i \<longleftrightarrow>
     (\<exists>p. file_log f (''breaker'', i) \<noteq> [] \<and> last (file_log f (''breaker'', i)) = (Some (JObj p), ''open'') \<and>
        (case map_of p ''security_breaker'' of None \<Rightarrow> False | Some v \<Rightarrow> py_truth v))"

definition breaker_count :: "platform_db option \<Rightarrow> nat" where
  "breaker_count f = (case f of None \<Rightarrow> 0 | Some db \<Rightarrow> length (filter (\<lambda>h. hr_kind h = ''breaker'') (pf_heads db)))"

lemma set_newest_first [simp]: "set (newest_first rows) = set rows"
  by (simp add: newest_first_def)

lemma length_newest_first [simp]: "length (newest_first rows) = length rows"
  by (simp add: newest_first_def)

lemma security_open_listed:
  assumes "db_ok sha db" "security_open (Some db) i" "breaker_count (Some db) \<le> 200" "em_sha env = sha"
  shows "open_security_breakers env db \<noteq> Inr False"
proof
  assume listed: "open_security_breakers env db = Inr False"
  have ok: "records_ok sha db" using assms(1) by (simp add: db_ok_def store_ok_def)
  let ?rows = "List.map_filter (join_head db) (filter (\<lambda>h. hr_kind h = ''breaker'') (pf_heads db))"
  let ?chosen = "filter (\<lambda>r. rr_state r = ''open'') ?rows"
  obtain records where records: "rmap (stored_record_of sha) (take 200 (newest_first ?chosen)) = Inr records"
    and none: "\<not> list_ex (\<lambda>r. (case map_of (sr_payload r) ''security_breaker'' of None \<Rightarrow> False | Some v \<Rightarrow> py_truth v) \<and>
          sr_state r = ''open'') records"
    using listed assms(4) unfolding open_security_breakers_def list_heads_def
    by (auto simp: rbind_Inr_iff ensure_Inr_iff)
  from assms(2) obtain p where log: "record_log db (''breaker'', i) \<noteq> []"
    "last (record_log db (''breaker'', i)) = (Some (JObj p), ''open'')"
    and flag: "case map_of p ''security_breaker'' of None \<Rightarrow> False | Some v \<Rightarrow> py_truth v"
    unfolding security_open_def by auto
  have ne: "record_rows db ''breaker'' i \<noteq> []" using log(1) by (simp add: record_log_def)
  let ?row = "last (record_rows db ''breaker'' i)"
  have row: "loads (rr_payload_json ?row) = Some (JObj p)" "rr_state ?row = ''open''"
    using log ne by (simp_all add: record_log_def last_map)
  obtain h where h: "find_head db ''breaker'' i = Some h" "join_head db h = Some ?row"
    using join_head_last [OF ok ne] by (auto simp: bind_eq_Some_conv)
  have "h \<in> set (pf_heads db)" "hr_kind h = ''breaker''"
    using h(1) unfolding find_head_def by (auto simp: find_Some_iff)
  then have "?row \<in> set ?chosen" using h(2) row(2) by (force simp: List.map_filter_def)
  moreover have "length ?chosen \<le> 200"
  proof -
    have "length ?rows \<le> length (filter (\<lambda>h. hr_kind h = ''breaker'') (pf_heads db))"
      by (simp only: List.map_filter_def length_map length_filter_le)
    also have "\<dots> \<le> 200" using assms(3) by (simp add: breaker_count_def)
    finally show ?thesis by (rule order_trans [OF length_filter_le])
  qed
  ultimately have "?row \<in> set (take 200 (newest_first ?chosen))" by simp
  from rmap_mem [OF records this] obtain r where r: "r \<in> set records" "stored_record_of sha ?row = Inr r" by blast
  then have "sr_payload r = p" "sr_state r = ''open''"
    using row by (auto simp: stored_record_of_def split: if_split_asm)
  with r(1) flag none show False by (auto simp: list_ex_iff)
qed

section \<open>Sample\<close>

definition sample_state_of :: "dict \<Rightarrow> emergency_state option" where
  "sample_state_of d =
     (case map_of d ''active_actions'' of
        Some (JList vs) \<Rightarrow>
          (case those (map (\<lambda>v. case v of JStr s \<Rightarrow> EmergencyAction_of s | _ \<Rightarrow> None) vs) of
             Some actions \<Rightarrow>
               (let s = \<lparr>schema_name = ''EmergencyStateV1'', schema_version = SCHEMA_VERSION, id_scheme_version = ID_SCHEME_VERSION,
                   extensions = [], es_emergency_state_id = ''e1'', es_active_actions = actions, es_reason = ''r'',
                   es_activated_by = ''actor'', es_approval_id = None, es_security_lock = True, es_revision = 1,
                   es_activated_at = 0, es_recovered_at = Some 0, es_recovered_by = Some ''actor''\<rparr>
                in if EmergencyState_ok s then Some s else None)
           | None \<Rightarrow> None)
      | _ \<Rightarrow> None)"

definition sample_emergency :: emergency_env where
  "sample_emergency = \<lparr>em_authority = demo_env, em_features = \<lparr>fc_version = ''1'', fc_store = ''s'', fc_flags = (\<lambda>_. Some True),
     fc_policy = [], fc_circuit_breakers = [(''protected_path'', 1)], fc_config_sha256 = ''x''\<rparr>,
     em_time_text = isoformat, em_state_of = sample_state_of, em_breaker_of = (\<lambda>_. None)\<rparr>"

lemma those_actions:
  "those (map (\<lambda>v. case v of JStr s \<Rightarrow> EmergencyAction_of s | _ \<Rightarrow> None) vs) = Some actions \<Longrightarrow>
     vs = map JStr (map EmergencyAction_value actions)"
  by (induction vs arbitrary: actions)
    (auto split: option.splits jval.splits simp: EmergencyAction_of_value)

lemma sample_validators: "validators_ok sample_emergency"
  unfolding validators_ok_def sample_emergency_def emergency_env.simps sample_state_of_def Let_def
  by (auto split: option.splits jval.splits if_split_asm dest!: those_actions)

lemma activate_fresh:
  assumes "is_ok (activated_state env now None actions reason actor_id approval_id)"
    and "is_ok (validate_tokens [''emergency_activate'', key])"
    and "is_ok (validate_tokens [''emergency_global'', ''emergency_global'', ''emergency_activated'', actor_id, ''emergency_state_v1''])"
    and "pf_events db = []" "pf_records db = []" "pf_heads db = []" "pf_receipts db = []"
  shows "\<exists>r db'. activate_body env now actions reason actor_id key approval_id db = (Inr r, db')"
proof -
  obtain s where s: "activated_state env now None actions reason actor_id approval_id = Inr s"
    using assms(1) by (auto simp: is_ok_iff)
  have none: "find_head db ''emergency'' ''emergency_global'' = None" "find_record db ''emergency'' ''emergency_global'' 1 = None"
    "find_receipt db ''emergency_activate'' key = None"
    using assms(5-7) by (simp_all add: find_head_def find_record_def find_receipt_def)
  have tok: "validate_tokens [''emergency'', ''emergency_global''] = Inr ()" by code_simp
  have head: "head (em_sha env) db ''emergency'' ''emergency_global'' = Inr None"
    using none(1) tok by (simp add: head_def)
  obtain r db1 where put: "append_record (em_sha env) now ''emergency'' ''emergency_global''
      (emergency_dict (em_time_text env) s) ''active'' None db = Inr (r, db1)"
    and db1: "pf_events db1 = []" "pf_receipts db1 = []"
    using append_record_new [OF tok none(1,2)] assms(4,7) by metis
  have event: "\<exists>e db'. append_event (em_sha env) now
      (emergency_event ''emergency_global'' ''emergency_activated'' actor_id ''emergency_state_v1'' p) db1 = Inr (e, db') \<and>
      find_receipt db' ''emergency_activate'' key = None" for p
    using append_event_first [of "emergency_event ''emergency_global'' ''emergency_activated'' actor_id ''emergency_state_v1'' p" db1]
      assms(3) db1 by (fastforce simp: emergency_event_def find_receipt_def)
  have receipt: "\<exists>x d'. idempotent_receipt (em_sha env) now ''emergency_activate'' key q r d = Inr (x, d')"
    if "find_receipt d ''emergency_activate'' key = None" for q r d
    using receipt_new(1) [OF assms(2) that] by blast
  show ?thesis
    unfolding activate_body_def Let_def
    apply (rule wp_succeeds, rule wpI_bnd, rule wp_txn_run, rule receipt_new(2) [OF assms(2) none(3)])
    apply (simp only: option.case)
    apply (rule wpI_bnd, rule wp_query_run, rule head)
    apply (rule wpI_bnd, simp only: wp_lift s sum.case)
    apply (rule wpI_bnd, simp only: option.map, rule wp_txn_run, rule put)
    apply (rule wpI_bnd, rule exE [OF event], elim exE conjE, rule wp_txn_run, assumption)
    apply (rule wpI_bnd, rule wp_query_run, rule refl)
    apply (rule wpI_bnd, drule receipt, elim exE, rule wp_txn_run, assumption, rule wpI_give, rule TrueI)
    done
qed

lemma activate_sample:
  "\<exists>r f. activate sample_emergency 0 [DISABLE_RUNTIME_EXECUTION] ''r'' ''actor'' ''k'' None None = (Inr r, f)"
proof -
  obtain db where db: "initialize_platform_store (em_sha sample_emergency) 0 None = Inr db" "pf_events db = []" "pf_records db = []"
     "pf_heads db = []" "pf_receipts db = []"
    using fresh_file_db by blast
  have "is_ok (activated_state sample_emergency 0 None [DISABLE_RUNTIME_EXECUTION] ''r'' ''actor'' None)" by code_simp
  moreover have "is_ok (validate_tokens [''emergency_activate'', ''k''])" by code_simp
  moreover have "is_ok (validate_tokens [''emergency_global'', ''emergency_global'', ''emergency_activated'', ''actor'', ''emergency_state_v1''])"
    by code_simp
  ultimately obtain r db' where "activate_body sample_emergency 0 [DISABLE_RUNTIME_EXECUTION] ''r'' ''actor'' ''k'' None db = (Inr r, db')"
    using activate_fresh db(2-5) by blast
  then show ?thesis
    using db(1) by (simp add: activate_def bnd_def require_enabled_def check_def give_def with_store_def feature_enabled_def sample_emergency_def)
qed

definition sample_breaker :: circuit_breaker where
  "sample_breaker = \<lparr>schema_name = ''CircuitBreakerV1'', schema_version = SCHEMA_VERSION, id_scheme_version = ID_SCHEME_VERSION,
     extensions = [(''automatic_recoveries_used'', JInt 0)],
     cb_breaker_id = ''breaker_'' @ replicate 64 CHR ''a'', cb_scope = ''s1'', cb_trigger = ''protected_path'', cb_state = CB_OPEN,
     cb_threshold = 1, cb_observed = 1, cb_reason = Some ''r'', cb_automatic_recovery_limit = 0, cb_security_breaker = True,
     cb_revision = 1, cb_opened_at = Some 0, cb_updated_at = 0\<rparr>"

lemma sample_breaker_key: "breaker_key sample_emergency t s = (''breaker'', ''breaker_'' @ replicate 64 CHR ''a'')"
  by (simp add: breaker_id_for_def derive_id_material sample_emergency_def demo_env_def)

lemma sample_open_file:
  "\<exists>f. file_ok (em_sha sample_emergency) f \<and>
     breaker_view (file_log f (breaker_key sample_emergency ''protected_path'' ''s1'')) = Some (''open'', 0)"
proof -
  let ?i = "''breaker_'' @ replicate 64 CHR ''a''"
  have ok: "db_ok (em_sha sample_emergency) sample_store"
    using sample_store_ok by (simp add: db_ok_def verify_schema_def sample_store_def PLATFORM_SCHEMA_VERSION_def)
  have bok: "CircuitBreaker_ok sample_breaker" by code_simp
  have "validate_tokens [''breaker'', ?i] = Inr ()" by code_simp
  note new = append_record_new [OF this, of sample_store]
  obtain r db' where put:
    "append_record (em_sha sample_emergency) 0 ''breaker'' ?i (breaker_dict isoformat sample_breaker) ''open'' None sample_store = Inr (r, db')"
    using new by (simp add: find_head_def find_record_def sample_store_def fresh_db_def) blast
  from pstore.put_log [OF ok wf_breaker_dict [OF bok] put] have "db_ok (em_sha sample_emergency) db'"
    "record_log db' (''breaker'', ?i) = record_log sample_store (''breaker'', ?i) @
       [(Some (JObj (norm_dict (breaker_dict isoformat sample_breaker))), ''open'')]" by simp_all
  moreover have "recoveries_used (norm_dict (breaker_dict isoformat sample_breaker)) = 0"
    by (rule breaker_dict_used [OF bok]) (simp add: sample_breaker_def)
  ultimately show ?thesis
    by (intro exI [of _ "Some db'"]) (simp add: sample_breaker_key breaker_view_def)
qed

lemma wp_lift_run: "r = Inr x \<Longrightarrow> S x s \<Longrightarrow> wp (lift r) S F s" by (simp add: wp_lift)
lemma wp_check_run: "b \<Longrightarrow> S () s \<Longrightarrow> wp (check b e) S F s" by (simp add: wp_check)

text \<open>A store with one emergency record, an approval of its recovery, and the recovery on it.\<close>

lemma append_record_next:
  assumes "validate_tokens [kind, i] = Inr ()" "find_head db kind i = Some h" "find_record db kind i (hr_revision h + 1) = None"
  shows "\<exists>r db'. append_record sha now kind i payload st (Some (hr_revision h)) db = Inr (r, db') \<and>
    pf_events db' = pf_events db \<and> pf_receipts db' = pf_receipts db"
  using assms by (simp add: append_record_def Let_def del: dumps.simps)

definition stop_payload :: dict where
  "stop_payload = [(''active_actions'', JList [JStr ''disable_runtime_execution''])]"

definition stopped_store :: platform_db where
  "stopped_store = sample_store\<lparr>
     pf_records := [\<lparr>rr_kind = ''emergency'', rr_record_id = ''emergency_global'', rr_revision = 1,
        rr_payload_json = dumps (JObj stop_payload), rr_payload_sha256 = replicate 64 CHR ''a'',
        rr_state = ''active'', rr_created_at = iso_millis 0\<rparr>],
     pf_heads := [\<lparr>hr_kind = ''emergency'', hr_record_id = ''emergency_global'', hr_revision = 1,
        hr_payload_sha256 = replicate 64 CHR ''a''\<rparr>]\<rparr>"

definition recovery_approval :: execution_approval where
  "recovery_approval = demo_approval\<lparr>ea_action := ''recover_emergency'', ea_payload_sha256 := replicate 64 CHR ''a'',
     ea_task_id := Some ''emergency_global'', ea_scope := [''emergency_recovery'']\<rparr>"

definition recovery_env :: emergency_env where
  "recovery_env = sample_emergency\<lparr>em_authority := demo_env\<lparr>av_execution_approval := (\<lambda>_. Inr (Some recovery_approval))\<rparr>\<rparr>"

lemma recovery_env_simps [simp]: "em_sha recovery_env = (\<lambda>_. replicate 64 CHR ''a'')" "em_state_of recovery_env = sample_state_of"
  "em_features recovery_env = em_features sample_emergency" "em_time_text recovery_env = isoformat"
  "em_breaker_of recovery_env = (\<lambda>_. None)" "em_authority recovery_env = demo_env\<lparr>av_execution_approval := (\<lambda>_. Inr (Some recovery_approval))\<rparr>"
  by (simp_all add: recovery_env_def sample_emergency_def demo_env_def)

lemma recovery_validators: "validators_ok recovery_env"
  using sample_validators by (simp add: validators_ok_def sample_emergency_def)

lemma stop_payload_norm: "norm_dict stop_payload = stop_payload" "wf_json (JObj stop_payload)"
  by (simp_all add: norm_dict_def stop_payload_def)

lemma emergency_tokens: "validate_tokens [''emergency'', ''emergency_global''] = Inr ()" by code_simp

lemma stopped_log:
  "db_ok (em_sha recovery_env) stopped_store"
  "record_log stopped_store = (record_log sample_store)(emergency_key := record_log sample_store emergency_key @ [(Some (JObj stop_payload), ''active'')])"
proof -
  have ok: "db_ok (em_sha recovery_env) sample_store"
    using sample_store_ok by (simp add: db_ok_def verify_schema_def sample_store_def PLATFORM_SCHEMA_VERSION_def)
  have "append_record (em_sha recovery_env) 0 ''emergency'' ''emergency_global'' stop_payload ''active'' None sample_store =
      Inr (\<lparr>sr_kind = ''emergency'', sr_record_id = ''emergency_global'', sr_revision = 1, sr_payload = stop_payload,
         sr_payload_sha256 = replicate 64 CHR ''a'', sr_state = ''active'', sr_created_at = iso_millis 0\<rparr>, stopped_store)"
    by (simp add: append_record_def emergency_tokens sample_store_def fresh_db_def find_head_def find_record_def Let_def stopped_store_def
        sha256_hex_def upsert_head_def demo_env_def del: dumps.simps)
  from pstore.put_log [OF ok stop_payload_norm(2) this]
  show "db_ok (em_sha recovery_env) stopped_store"
    "record_log stopped_store = (record_log sample_store)(emergency_key := record_log sample_store emergency_key @ [(Some (JObj stop_payload), ''active'')])"
    by (simp_all add: stop_payload_norm(1))
qed

lemma stopped_active: "active_actions (Some stopped_store) = {''disable_runtime_execution''}"
  by (simp add: active_actions_def stopped_log(2) active_of_def stop_payload_def str_items_def list_items_def)

definition stop_record :: stored_record where
  "stop_record = \<lparr>sr_kind = ''emergency'', sr_record_id = ''emergency_global'', sr_revision = 1, sr_payload = stop_payload,
     sr_payload_sha256 = replicate 64 CHR ''a'', sr_state = ''active'', sr_created_at = iso_millis 0\<rparr>"

lemma stopped_head: "head (\<lambda>_. replicate 64 CHR ''a'') stopped_store ''emergency'' ''emergency_global'' = Inr (Some stop_record)"
proof -
  have "loads (dumps (JObj stop_payload)) = Some (JObj stop_payload)"
    using loads_payload [OF stop_payload_norm(2)] stop_payload_norm(1) by simp
  then show ?thesis
    by (simp add: head_def emergency_tokens find_head_def stopped_store_def join_head_def find_record_def stored_record_of_def
        sha256_hex_def stop_record_def del: dumps.simps)
qed

lemma recovery_granted:
  "require_approval (demo_env\<lparr>av_execution_approval := (\<lambda>_. Inr (Some recovery_approval))\<rparr>) (Some stopped_store) ''a1''
     (recovery_query recovery_env ''recover_emergency'' ''emergency_global'' m) 5 = Inr (Runtime recovery_approval)"
proof -
  have tok: "validate_tokens [''authority_approval'', ''a1''] = Inr ()" by code_simp
  have opened: "open_platform_store_read_only (Some stopped_store) = Some stopped_store"
    by (simp add: open_platform_store_read_only_def verify_schema_def stopped_store_def sample_store_def PLATFORM_SCHEMA_VERSION_def)
  have none: "find_head stopped_store ''authority_approval'' ''a1'' = None"
    by (simp add: find_head_def stopped_store_def)
  show ?thesis
    by (simp add: require_approval_def find_approval_def platform_payload_def opened head_def tok none
      approval_matches_def runtime_valid_def approval_verify_id_def derive_id_material recovery_query_def sha256_hex_def
      demo_env_def recovery_approval_def demo_approval_def target_bindings_def List.map_filter_def)
      (simp add: pending_approvals_revoked_at_def opened stopped_head stop_record_def stop_payload_def str_items_def list_items_def)
qed


lemma stopped_initialize: "initialize_platform_store (em_sha recovery_env) 5 (Some stopped_store) = Inr stopped_store"
  by (simp add: initialize_platform_store_def initialize_def verify_schema_def stopped_store_def sample_store_def PLATFORM_SCHEMA_VERSION_def)

lemma recover_body_sample:
  "\<exists>r db'. recover_body recovery_env 5 [DISABLE_RUNTIME_EXECUTION] ''actor'' ''a1'' ''r'' ''k'' stopped_store = (Inr r, db')"
proof -
  have sha: "em_sha recovery_env = (\<lambda>_. replicate 64 CHR ''a'')" by (simp add: demo_env_def)
  have tok: "is_ok (validate_tokens [''emergency_recover'', ''k''])" by code_simp
  have none: "find_receipt stopped_store ''emergency_recover'' ''k'' = None"
    by (simp add: find_receipt_def stopped_store_def sample_store_def fresh_db_def)
  have breakers: "open_security_breakers recovery_env stopped_store = Inr False"
  proof -
    have "validate_token ''breaker'' = Inr ()" "validate_token ''open'' = Inr ()" by code_simp+
    then show ?thesis
      by (simp add: open_security_breakers_def list_heads_def stopped_store_def newest_first_def List.map_filter_def)
  qed
  obtain s where s: "sample_state_of (recovered_payload recovery_env 5 stop_record [] ''r'' ''actor'' ''a1'') = Some s"
  proof -
    have "map_of (recovered_payload recovery_env 5 stop_record [] ''r'' ''actor'' ''a1'') ''active_actions'' = Some (JList [])"
      by (simp add: recovered_payload_def map_of_updated)
    then have same: "sample_state_of (recovered_payload recovery_env 5 stop_record [] ''r'' ''actor'' ''a1'') = sample_state_of [(''active_actions'', JList [])]"
      by (simp add: sample_state_of_def)
    have "case sample_state_of [(''active_actions'', JList [])] of None \<Rightarrow> False | Some _ \<Rightarrow> True" by code_simp
    then show thesis using that same by (auto split: option.splits)
  qed
  have h: "find_head stopped_store ''emergency'' ''emergency_global'' = Some \<lparr>hr_kind = ''emergency'', hr_record_id = ''emergency_global'',
      hr_revision = 1, hr_payload_sha256 = replicate 64 CHR ''a''\<rparr>"
    "find_record stopped_store ''emergency'' ''emergency_global'' 2 = None"
    by (simp_all add: find_head_def find_record_def stopped_store_def)
  obtain r db1 where put: "append_record (em_sha recovery_env) 5 ''emergency'' ''emergency_global'' (emergency_dict isoformat s)
      ''recovered'' (Some 1) stopped_store = Inr (r, db1)" and db1: "pf_events db1 = []" "pf_receipts db1 = []"
    using append_record_next [OF emergency_tokens h(1)] h(2) by (simp add: stopped_store_def sample_store_def fresh_db_def) metis
  have etok: "is_ok (validate_tokens [''emergency_global'', ''emergency_global'', ''emergency_recovered'', ''actor'', ''emergency_state_v1''])"
    by code_simp
  have event: "\<exists>e db'. append_event (em_sha recovery_env) 5
      (emergency_event ''emergency_global'' ''emergency_recovered'' ''actor'' ''emergency_state_v1'' p) db1 = Inr (e, db') \<and>
      find_receipt db' ''emergency_recover'' ''k'' = None" for p
    using append_event_first [of "emergency_event ''emergency_global'' ''emergency_recovered'' ''actor'' ''emergency_state_v1'' p" db1]
      etok db1 by (fastforce simp: emergency_event_def find_receipt_def)
  have receipt: "\<exists>x d'. idempotent_receipt (em_sha recovery_env) 5 ''emergency_recover'' ''k'' q r d = Inr (x, d')"
    if "find_receipt d ''emergency_recover'' ''k'' = None" for q r d
    using receipt_new(1) [OF tok that] by blast
  have active: "prior_actions (Some stop_record) = Inr [''disable_runtime_execution'']"
    by (simp add: prior_actions_def stop_record_def stop_payload_def str_items_def list_items_def)
  have rest: "sorted_set (filter (\<lambda>a. a \<notin> set (map EmergencyAction_value [DISABLE_RUNTIME_EXECUTION])) [''disable_runtime_execution'']) = []"
    by simp
  have sel: "sr_state stop_record = ''active''" "sr_revision stop_record = 1" by (simp_all add: stop_record_def)
  show ?thesis
    unfolding recover_body_def Let_def
    apply (rule wp_succeeds, rule wpI_bnd, rule wp_txn_run, rule receipt_new(2) [OF tok none])
    apply (simp only: option.case)
    apply (rule wpI_bnd, rule wp_query_run, rule stopped_head [folded sha])
    apply (simp only: option.case)
    apply (rule wpI_bnd, rule wp_check_run, rule sel)
    apply (rule wpI_bnd, rule wp_lift_run, rule active)
    apply (rule wpI_bnd, rule wp_check_run, simp)
    apply (rule wpI_bnd, rule wp_query_run, rule breakers)
    apply (rule wpI_bnd, rule wp_check_run, simp)
    apply (rule wpI_bnd, rule wp_lift_run, simp only: rest recovery_env_simps s of_option_simps)
    apply (rule wpI_bnd, simp only: rest sel if_False if_True simp_thms not_Cons_self2, rule wp_txn_run)
     apply (simp only: recovery_env_simps(4))
     apply (rule put)
    apply (rule wpI_bnd, rule exE [OF event], elim exE conjE, rule wp_txn_run, assumption)
    apply (rule wpI_bnd, rule wp_query_run, rule refl)
    apply (rule wpI_bnd, drule receipt, elim exE, rule wp_txn_run, assumption, rule wpI_give, rule TrueI)
    done
qed


lemma recover_sample:
  "\<exists>r f'. recover recovery_env 5 [DISABLE_RUNTIME_EXECUTION] ''actor'' ''a1'' ''r'' ''k'' (Some stopped_store) = (Inr r, f')"
proof -
  obtain r db' where body: "recover_body recovery_env 5 [DISABLE_RUNTIME_EXECUTION] ''actor'' ''a1'' ''r'' ''k'' stopped_store = (Inr r, db')"
    using recover_body_sample by blast
  have "require_enabled recovery_env f = (Inr (), f)" for f :: "platform_db option"
    by (simp add: require_enabled_def check_def give_def feature_enabled_def sample_emergency_def)
  moreover have "authorize recovery_env 5 ''a1'' (recovery_query recovery_env ''recover_emergency'' ''emergency_global'' m) (Some stopped_store) =
      (Inr (), Some stopped_store)" for m
    using recovery_granted by (simp add: authorize_def)
  moreover have "with_store EmergencyStore (em_sha recovery_env) 5
      (recover_body recovery_env 5 [DISABLE_RUNTIME_EXECUTION] ''actor'' ''a1'' ''r'' ''k'') (Some stopped_store) = (Inr r, Some db')"
    unfolding with_store_def stopped_initialize by (simp add: body)
  ultimately show ?thesis by (simp add: recover_def bnd_def check_def give_def)
qed

section \<open>Properties\<close>

text \<open>C9: an emergency stop is effective and stays. After an activation that was not a replay, its actions are
  in force in every later state of the store until a recovery: no further activation, no observation and
  no closing of a circuit breaker lifts one. A runtime-blocking action keeps the runtime stopped.\<close>

theorem emergency_stop_is_sticky:
  assumes "validators_ok env" "file_ok (em_sha env) f" "\<not> receipt_used f ''emergency_activate'' key"
    and "activate env now actions reason actor_id key approval_id f = (Inr receipt, f1)"
    and "(emergency_step env)\<^sup>*\<^sup>* f1 f2" "a \<in> set actions"
  shows "EmergencyAction_value a \<in> active_actions f2 \<and> active_actions f \<subseteq> active_actions f2 \<and>
    \<not> is_ok (assert_action_inactive env a f2) \<and>
    (EmergencyAction_value a \<notin> set runtime_blocking_actions \<or> \<not> is_ok (assert_runtime_allowed env f2))"
proof -
  from wp_Inr [OF activate_wp [OF assms(2)] assms(4)] assms(3) have f1: "file_ok (em_sha env) f1"
    "activated env actions (file_log f) (file_log f1)" by auto
  have f2: "file_ok (em_sha env) f2" "active_actions f1 \<subseteq> active_actions f2"
    using emergency_steps_active [OF assms(5,1) f1(1)] by auto
  have a: "EmergencyAction_value a \<in> active_actions f2" and sub: "active_actions f \<subseteq> active_actions f2"
    using activated_active(1) [OF f1(2)] f2(2) assms(6) unfolding active_actions_def by auto
  from a sub active_blocks_action [OF f2(1) a] active_blocks_runtime [OF f2(1) a] show ?thesis by blast
qed

theorem emergency_stop_is_sticky_witness:
  "\<exists>r f. activate sample_emergency 0 [DISABLE_RUNTIME_EXECUTION] ''r'' ''actor'' ''k'' None None = (Inr r, f) \<and>
     \<not> is_ok (assert_runtime_allowed sample_emergency f)"
proof -
  obtain r f where run: "activate sample_emergency 0 [DISABLE_RUNTIME_EXECUTION] ''r'' ''actor'' ''k'' None None = (Inr r, f)"
    using activate_sample by blast
  have "\<not> receipt_used None ''emergency_activate'' ''k''" by (simp add: receipt_used_def)
  from emergency_stop_is_sticky [OF sample_validators _ this run rtranclp.rtrancl_refl, of DISABLE_RUNTIME_EXECUTION] run show ?thesis
    by (auto simp: runtime_blocking_actions_def)
qed

text \<open>Every operation of the service that can touch the breaker with identifier \<open>i\<close>, whatever its outcome,
  except closing it; another trigger is only observed under the same identifier if it is a security
  trigger too.\<close>

inductive guarded_step :: "emergency_env \<Rightarrow> string \<Rightarrow> platform_db option \<Rightarrow> platform_db option \<Rightarrow> bool" for env i where
  Activate: "activate env now actions reason actor_id key approval_id f = (r, f') \<Longrightarrow> guarded_step env i f f'"
| Recover: "recover env now actions actor_id approval_id reason key f = (r, f') \<Longrightarrow> guarded_step env i f f'"
| Observe: "observe_breaker env now trigger observed scope actor_id f = (r, f') \<Longrightarrow>
     breaker_id_for env trigger scope \<noteq> i \<or> is_security trigger \<Longrightarrow> guarded_step env i f f'"
| Close: "close_breaker env now j approval_id reason actor_id f = (r, f') \<Longrightarrow> j \<noteq> i \<Longrightarrow> guarded_step env i f f'"

lemma breaker_next_security:
  "0 \<le> n \<Longrightarrow> breaker_next tripped True (Some (''open'', n)) = (CB_OPEN, n)"
  by (simp add: breaker_next_def breaker_transition_def)

lemma guarded_step_open:
  assumes "guarded_step env i f f'" "validators_ok env" "file_ok (em_sha env) f" "0 \<le> n"
    and "breaker_view (file_log f (''breaker'', i)) = Some (''open'', n)"
  shows "file_ok (em_sha env) f' \<and> breaker_view (file_log f' (''breaker'', i)) = Some (''open'', n)"
  using assms(1)
proof cases
  case (Activate now actions reason actor_id key approval_id r)
  from activate_run [OF assms(3) Activate] activated_active(2) [of env actions "file_log f" "file_log f'" "(''breaker'', i)"]
  show ?thesis using assms(5) by auto
next
  case (Recover now actions actor_id approval_id reason key r)
  from recover_run [OF assms(2,3) Recover] recovered_as_frame [of actions "file_log f" "file_log f'" "(''breaker'', i)"]
  show ?thesis using assms(5) by auto
next
  case (Observe now trigger observed scope actor_id r)
  have view: "breaker_view (L (''breaker'', i)) = Some (''open'', n)"
    if "observed_as env tripped (is_security trigger) (breaker_key env trigger scope) b (file_log f) L" for tripped b L
  proof (cases "breaker_id_for env trigger scope = i")
    case True
    with Observe(2) have "is_security trigger" by simp
    with observed_as_frame(2) [OF that] True assms(4,5) breaker_next_security show ?thesis by simp
  next
    case False
    with observed_as_frame(1) [OF that, of "(''breaker'', i)"] assms(5) show ?thesis by simp
  qed
  have act: "L' (''breaker'', i) = L (''breaker'', i)" if "activated env [DISABLE_RUNTIME_EXECUTION] L L'" for L L'
    by (rule activated_active(2) [OF that]) simp
  from observe_run [OF assms(3) Observe(1)] view act assms(5) show ?thesis by metis
next
  case (Close now j approval_id reason actor_id r)
  from close_run [OF assms(2,3) Close(1)] closed_as_frame [of env j "file_log f" "file_log f'" "(''breaker'', i)"]
  show ?thesis using assms(5) Close(2) by auto
qed

text \<open>C25: a security breaker that is open stays open: whatever is observed afterwards, activated or recovered,
  only closing that breaker with an approval ends it. Other breakers recover by themselves once.\<close>

theorem open_security_breaker_stays_open:
  assumes "validators_ok env" "file_ok (em_sha env) f" "0 \<le> n"
    and "breaker_view (file_log f (''breaker'', i)) = Some (''open'', n)" "(guarded_step env i)\<^sup>*\<^sup>* f f'"
  shows "breaker_view (file_log f' (''breaker'', i)) = Some (''open'', n)"
proof -
  from assms(5,2,4) have "file_ok (em_sha env) f' \<and> breaker_view (file_log f' (''breaker'', i)) = Some (''open'', n)"
    by (induction rule: rtranclp_induct) (use guarded_step_open [OF _ assms(1) _ assms(3)] in blast)+
  then show ?thesis ..
qed

theorem open_security_breaker_stays_open_witness:
  "\<exists>f i. file_ok (em_sha sample_emergency) f \<and> breaker_view (file_log f (''breaker'', i)) = Some (''open'', 0)"
  using sample_open_file open_security_breaker_stays_open [OF sample_validators _ _ _ rtranclp.rtrancl_refl] by blast

text \<open>The rules a breaker follows, for a security trigger or another: the recorded state, with the number of
  recoveries it has used, before the observation (none while it was never observed) and after it.\<close>

definition recoveries :: "(string \<times> int) option \<Rightarrow> int" where
  "recoveries v = (case v of None \<Rightarrow> 0 | Some (_, n) \<Rightarrow> n)"

inductive breaker_rule :: "bool \<Rightarrow> bool \<Rightarrow> (string \<times> int) option \<Rightarrow> string \<times> int \<Rightarrow> bool" for security where
  trips: "breaker_rule security True v (''open'', recoveries v)"
| probes: "n < (if security then 0 else 1) \<Longrightarrow> breaker_rule security False (Some (''open'', n)) (''half_open'', n + 1)"
| stays: "(if security then 0 else 1) \<le> n \<Longrightarrow> breaker_rule security False (Some (''open'', n)) (''open'', n)"
| closes: "map_option fst v \<noteq> Some ''open'' \<Longrightarrow> breaker_rule security False v (''closed'', recoveries v)"

inductive_cases breaker_rule_open: "breaker_rule security False (Some (''open'', n)) s"

lemma breaker_next_rule:
  assumes "breaker_next tripped security v = (st, used)"
  shows "breaker_rule security tripped v (CircuitBreakerState_value st, used)"
proof (cases tripped)
  case True
  with assms trips [of security v] show ?thesis
    by (auto simp: breaker_next_def breaker_transition_def recoveries_def split: option.splits)
next
  case False
  show ?thesis
  proof (cases "map_option fst v = Some ''open''")
    case True
    then obtain n where v: "v = Some (''open'', n)" by (cases v) auto
    with assms False probes [of n security] stays [of security n] show ?thesis
      by (cases "n < (if security then 0 else 1)") (auto simp: breaker_next_def breaker_transition_def)
  next
    case closed: False
    with assms False closes [OF closed, of security] show ?thesis
      by (auto simp: breaker_next_def breaker_transition_def recoveries_def split: option.splits)
  qed
qed

text \<open>C26: an observation moves the recorded breaker by the rules: reaching the limit opens it; below the
  limit an open breaker probes once (half open) and then stays open, a half-open or closed one closes; a
  security breaker never probes, and the count of its recoveries moves only with a probe. Only a failed
  observation may leave it as it was, and no other record moves except the emergency record.\<close>

theorem breaker_follows_transition:
  assumes "file_ok (em_sha env) f" "map_of (fc_circuit_breakers (em_features env)) trigger = Some limit"
    and "observe_breaker env now trigger observed scope actor_id f = (r, f')"
  shows "(\<not> is_ok r \<and> file_log f' = file_log f \<or>
      (\<exists>st used. breaker_rule (is_security trigger) (limit \<le> observed) (breaker_view (file_log f (breaker_key env trigger scope))) (st, used) \<and>
         breaker_view (file_log f' (breaker_key env trigger scope)) = Some (st, used))) \<and>
    (k = breaker_key env trigger scope \<or> k = emergency_key \<or> file_log f' k = file_log f k)"
proof -
  have "(\<not> is_ok r \<and> file_log f' = file_log f) \<or>
      (\<exists>b L. observed_as env (limit \<le> observed) (is_security trigger) (breaker_key env trigger scope) b (file_log f) L \<and>
        (file_log f' = L \<or> activated env [DISABLE_RUNTIME_EXECUTION] L (file_log f')))"
    by (rule wp_outcome [OF assms(3) observe_wp [OF assms(1,2)]]) (auto simp: is_ok_def)
  then show ?thesis
  proof (elim disjE exE conjE)
    fix b L
    let ?key = "breaker_key env trigger scope"
    assume obs: "observed_as env (limit \<le> observed) (is_security trigger) ?key b (file_log f) L"
    obtain st used where nxt: "breaker_next (limit \<le> observed) (is_security trigger) (breaker_view (file_log f ?key)) = (st, used)"
      by fastforce
    have L: "breaker_view (L ?key) = Some (CircuitBreakerState_value st, used)" "k \<noteq> ?key \<Longrightarrow> L k = file_log f k"
      using observed_as_frame [OF obs] nxt by simp_all
    note rule = breaker_next_rule [OF nxt]
    show ?thesis if "file_log f' = L" using rule L that by metis
    assume act: "activated env [DISABLE_RUNTIME_EXECUTION] L (file_log f')"
    have "file_log f' ?key = L ?key"
      by (rule activated_active(2) [OF act]) simp
    moreover have "k \<noteq> ?key \<Longrightarrow> k \<noteq> emergency_key \<Longrightarrow> file_log f' k = file_log f k"
      using L(2) activated_active(2) [OF act, of k] by simp
    ultimately show ?thesis using rule L(1) by metis
  qed simp
qed

theorem breaker_follows_transition_witness:
  "\<exists>f. breaker_view (file_log f (breaker_key sample_emergency ''protected_path'' ''s1'')) = Some (''open'', 0) \<and>
     breaker_view (file_log (snd (observe_breaker sample_emergency 0 ''protected_path'' 0 ''s1'' ''actor'' f))
       (breaker_key sample_emergency ''protected_path'' ''s1'')) = Some (''open'', 0)"
proof -
  obtain f where f: "file_ok (em_sha sample_emergency) f"
    "breaker_view (file_log f (breaker_key sample_emergency ''protected_path'' ''s1'')) = Some (''open'', 0)"
    using sample_open_file by blast
  have limit: "map_of (fc_circuit_breakers (em_features sample_emergency)) ''protected_path'' = Some 1" by (simp add: sample_emergency_def)
  have sec: "is_security ''protected_path''" by (simp add: security_triggers_def)
  let ?key = "breaker_key sample_emergency ''protected_path'' ''s1''"
    and ?run = "observe_breaker sample_emergency 0 ''protected_path'' 0 ''s1'' ''actor'' f"
  have "breaker_rule True False (Some (''open'', 0)) (st, used) \<Longrightarrow> (st, used) = (''open'', 0)" for st used
    by (erule breaker_rule_open) simp_all
  moreover have "\<not> is_ok (fst ?run) \<and> file_log (snd ?run) = file_log f \<or>
      (\<exists>st used. breaker_rule True False (Some (''open'', 0)) (st, used) \<and> breaker_view (file_log (snd ?run) ?key) = Some (st, used))"
    using breaker_follows_transition [OF f(1) limit prod.collapse [symmetric], of 0 0 "''s1''" "''actor''" ?key] sec
    unfolding f(2) by simp
  ultimately have "breaker_view (file_log (snd ?run) ?key) = Some (''open'', 0)" using f(2) by metis
  with f(2) show ?thesis by (intro exI [of _ f] conjI)
qed

text \<open>A breaker that is already open does not stop the runtime again. However far a later observation
  is above the limit, the emergency record is left as it is, so a runtime that was recovered by hand
  while the breaker stayed open keeps running.\<close>

theorem open_breaker_does_not_stop_again:
  assumes "file_ok (em_sha env) f" "breaker_view (file_log f (breaker_key env trigger scope)) = Some (''open'', n)"
    and "observe_breaker env now trigger observed scope actor_id f = (r, f')"
  shows "active_actions f' = active_actions f"
proof -
  have "\<not> newly_open b (file_log f (breaker_key env trigger scope))" for b
    using assms(2) by (simp add: newly_open_def)
  moreover have "L emergency_key = file_log f emergency_key"
    if "observed_as env tripped (is_security trigger) (breaker_key env trigger scope) b (file_log f) L" for tripped b L
    by (rule observed_as_frame(1) [OF that]) simp
  ultimately show ?thesis using observe_run(2) [OF assms(1,3)] unfolding active_actions_def by metis
qed

theorem open_breaker_does_not_stop_again_witness:
  "\<exists>f. breaker_view (file_log f (breaker_key sample_emergency ''protected_path'' ''s1'')) = Some (''open'', 0) \<and>
     active_actions (snd (observe_breaker sample_emergency 0 ''protected_path'' 5 ''s1'' ''actor'' f)) = active_actions f"
proof -
  obtain f where "file_ok (em_sha sample_emergency) f"
    "breaker_view (file_log f (breaker_key sample_emergency ''protected_path'' ''s1'')) = Some (''open'', 0)"
    using sample_open_file by blast
  from this open_breaker_does_not_stop_again [OF this prod.collapse [symmetric]] show ?thesis by blast
qed



end
