(* ===== verification/Workflow_Refinement.thy ===== *)
theory Workflow_Refinement
  imports Workflow_Machine Emergency_Properties
begin

text \<open>
  The workflow service implements the engine of \<open>Workflow_Machine\<close>: whatever an operation returns or
  raises, the records it leaves in the platform store are those of the engine after zero or more
  transitions. The state of the engine is read off the logs of the store through the parameters that
  stand for the validation of a stored payload.
\<close>

section \<open>The engine of a store\<close>

type_synonym logs = "string \<times> string \<Rightarrow> (jval option \<times> string) list"

definition last_payload :: "(jval option \<times> string) list \<Rightarrow> dict option" where
  "last_payload log = (if log = [] then None else case fst (last log) of Some (JObj p) \<Rightarrow> Some p | _ \<Rightarrow> None)"

definition dec_of :: "workflow_env \<Rightarrow> jval option \<Rightarrow> workflow_revision option" where
  "dec_of env v = (case v of Some (JObj p) \<Rightarrow> we_revision_of env p | _ \<Rightarrow> None)"

definition view_steps :: "workflow_env \<Rightarrow> logs \<Rightarrow> string \<rightharpoonup> workflow_step_run" where
  "view_steps env L j = Option.bind (last_payload (L (''workflow_step'', j))) (\<lambda>p. we_step_of env (without step_extra_keys p))"

definition view_runs :: "workflow_env \<Rightarrow> logs \<Rightarrow> string \<rightharpoonup> workflow_run" where
  "view_runs env L i = Option.bind (last_payload (L (''workflow_run'', i))) (\<lambda>p. we_run_of env (without [''inputs''] p))"

definition view_revs :: "logs \<Rightarrow> string \<rightharpoonup> jval option" where
  "view_revs L i = (let log = L (''workflow_revision'', i) in if log = [] then None else Some (fst (last log)))"

definition view :: "workflow_env \<Rightarrow> logs \<Rightarrow> engine" where
  "view env L = \<lparr>eg_steps = view_steps env L, eg_runs = view_runs env L, eg_revs = view_revs L\<rparr>"

lemma view_sel [simp]:
  "eg_steps (view env L) = view_steps env L" "eg_runs (view env L) = view_runs env L" "eg_revs (view env L) = view_revs L"
  by (simp_all add: view_def)

text \<open>Every step and run record of the store is one the service wrote: its last payload is the dump of a
  sound record (a step may carry an output or a reason, a run carries its inputs), and the state column
  repeats the state of that record.\<close>

definition extra_ok :: "string list \<Rightarrow> dict \<Rightarrow> bool" where
  "extra_ok keys extra \<longleftrightarrow> wf_json (JObj extra) \<and> set (map fst extra) \<subseteq> set keys"

definition step_entry :: "workflow_env \<Rightarrow> workflow_step_run \<Rightarrow> dict \<Rightarrow> jval option \<times> string" where
  "step_entry env s extra = (Some (JObj (norm_dict (updated (step_dict (we_dt env) s) extra))), ws_state s)"

definition run_entry :: "workflow_env \<Rightarrow> workflow_run \<Rightarrow> dict \<Rightarrow> jval option \<times> string" where
  "run_entry env r inputs =
     (Some (JObj (norm_dict (updated (run_dict (we_dt env) r) [(''inputs'', JObj inputs)]))), wrun_state r)"

definition step_ok :: "workflow_step_run \<Rightarrow> bool" where
  "step_ok s \<longleftrightarrow> WorkflowStepRun_ok s \<and> extensions s = []"

definition run_ok :: "workflow_run \<Rightarrow> bool" where
  "run_ok r \<longleftrightarrow> WorkflowRun_ok r \<and> extensions r = []"

definition typed :: "workflow_env \<Rightarrow> logs \<Rightarrow> bool" where
  "typed env L \<longleftrightarrow>
     (\<forall>j. L (''workflow_step'', j) \<noteq> [] \<longrightarrow>
        (\<exists>s extra. step_ok s \<and> extra_ok step_extra_keys extra \<and> last (L (''workflow_step'', j)) = step_entry env s extra)) \<and>
     (\<forall>i. L (''workflow_run'', i) \<noteq> [] \<longrightarrow>
        (\<exists>r inputs. run_ok r \<and> wf_json (JObj inputs) \<and> last (L (''workflow_run'', i)) = run_entry env r inputs))"

text \<open>What is asked of the parameters: validating a dumped record gives it back, a validated record satisfies
  its contract, a digest is 64 hexadecimal digits, stripping leaves identifiers alone, and the value an
  operation returns is a Python value (a dict has each key once).\<close>

definition workflow_env_ok :: "workflow_env \<Rightarrow> bool" where
  "workflow_env_ok env \<longleftrightarrow>
     (\<forall>s. WorkflowStepRun_ok s \<longrightarrow> extensions s = [] \<longrightarrow> we_step_of env (norm_dict (step_dict (we_dt env) s)) = Some s) \<and>
     (\<forall>r. WorkflowRun_ok r \<longrightarrow> extensions r = [] \<longrightarrow> we_run_of env (norm_dict (run_dict (we_dt env) r)) = Some r) \<and>
     (\<forall>p v. we_revision_of env p = Some v \<longrightarrow> WorkflowRevision_ok v) \<and>
     (\<forall>p x. we_policy_of env p = Some x \<longrightarrow> WorkflowRetryPolicy_ok x) \<and>
     (\<forall>b. is_Sha256 (we_sha env b)) \<and>
     (\<forall>s. is_Identifier s \<longrightarrow> we_strip env s = s) \<and>
     (\<forall>s. is_Sha256 s \<longrightarrow> we_strip env s = s) \<and>
     (\<forall>name f n inputs out v. we_operations env name = Some f \<longrightarrow> f n inputs = Some out \<longrightarrow> canonical_value out = Inr v \<longrightarrow> wf_json v)"

section \<open>What an append does to the engine\<close>

lemma filter_norm_dict: "without keys (norm_dict p) = norm_dict (without keys p)"
  by (simp add: without_def norm_dict_def filter_sort filter_map comp_def)

lemma updated_new:
  "set (map fst cs) \<inter> set (map fst d) = {} \<Longrightarrow> distinct (map fst cs) \<Longrightarrow> updated d cs = d @ cs"
proof (induction cs arbitrary: d)
  case (Cons c cs)
  have "AList.update (fst c) (snd c) d = d @ [c]" using Cons.prems update_new_key [of "fst c" d "snd c"] by auto
  moreover have "updated (d @ [c]) cs = (d @ [c]) @ cs" by (rule Cons.IH) (use Cons.prems in auto)
  ultimately show ?case by (simp add: updated_def case_prod_beta)
qed (simp add: updated_def)

lemma step_keys: "map fst (step_dict dt s) = [''schema_name'', ''schema_version'', ''id_scheme_version'', ''extensions'',
   ''step_run_id'', ''workflow_run_id'', ''node_id'', ''state'', ''attempt'', ''idempotency_key'', ''input_sha256'',
   ''output_sha256'', ''approval_id'', ''started_at'', ''completed_at'']"
  by (simp add: step_dict_def versioned_fields_def)

lemma run_keys: "map fst (run_dict dt r) = [''schema_name'', ''schema_version'', ''id_scheme_version'', ''extensions'',
   ''workflow_run_id'', ''revision_id'', ''state'', ''input_sha256'', ''step_run_ids'', ''replay_of_run_id'',
   ''started_at'', ''completed_at'']"
  by (simp add: run_dict_def versioned_fields_def)

lemma without_extra:
  assumes "set (map fst d) \<inter> set keys = {}" "extra_ok keys extra"
  shows "without keys (updated d extra) = d" "wf_json (JObj d) \<Longrightarrow> wf_json (JObj (updated d extra))"
proof -
  have new: "updated d extra = d @ extra" using assms by (intro updated_new) (auto simp: extra_ok_def)
  have "filter (\<lambda>p. fst p \<notin> set keys) d = d" using assms(1) by (intro filter_True) auto
  moreover have "filter (\<lambda>p. fst p \<notin> set keys) extra = []" using assms(2) by (intro filter_False) (auto simp: extra_ok_def)
  ultimately show "without keys (updated d extra) = d" unfolding new without_def by simp
  show "wf_json (JObj (updated d extra))" if "wf_json (JObj d)"
    unfolding new using that assms by (auto simp: extra_ok_def)
qed

lemma wf_step_dict: "wf_json (JObj (extensions s)) \<Longrightarrow> wf_json (JObj (step_dict dt s))"
  by (simp add: step_dict_def versioned_fields_def jopt_def split: option.split)

lemma wf_run_dict: "wf_json (JObj (extensions r)) \<Longrightarrow> wf_json (JObj (run_dict dt r))"
  by (simp add: run_dict_def versioned_fields_def jopt_def list_all_iff split: option.split)

lemma step_payload:
  assumes "extra_ok step_extra_keys extra" "extensions s = []"
  shows "without step_extra_keys (norm_dict (updated (step_dict dt s) extra)) = norm_dict (step_dict dt s)"
    "wf_json (JObj (updated (step_dict dt s) extra))"
proof -
  have "set (map fst (step_dict dt s)) \<inter> set step_extra_keys = {}" unfolding step_keys by (simp add: step_extra_keys_def)
  note * = without_extra [OF this assms(1)]
  from *(1) show "without step_extra_keys (norm_dict (updated (step_dict dt s) extra)) = norm_dict (step_dict dt s)"
    by (simp add: filter_norm_dict)
  from *(2) wf_step_dict assms(2) show "wf_json (JObj (updated (step_dict dt s) extra))" by simp
qed

lemma run_payload:
  assumes "wf_json (JObj inputs)" "extensions r = []"
  shows "without [''inputs''] (norm_dict (updated (run_dict dt r) [(''inputs'', JObj inputs)])) = norm_dict (run_dict dt r)"
    "wf_json (JObj (updated (run_dict dt r) [(''inputs'', JObj inputs)]))"
proof -
  have keys: "set (map fst (run_dict dt r)) \<inter> set [''inputs''] = {}" unfolding run_keys by simp
  have "extra_ok [''inputs''] [(''inputs'', JObj inputs)]" using assms(1) by (simp add: extra_ok_def)
  note * = without_extra [OF keys this]
  from *(1) show "without [''inputs''] (norm_dict (updated (run_dict dt r) [(''inputs'', JObj inputs)])) = norm_dict (run_dict dt r)"
    by (simp add: filter_norm_dict)
  from *(2) wf_run_dict assms(2) show "wf_json (JObj (updated (run_dict dt r) [(''inputs'', JObj inputs)]))" by simp
qed

lemma last_payload_snoc [simp]: "last_payload (log @ [(Some (JObj p), st)]) = Some p"
  by (simp add: last_payload_def)

lemma step_entry_view:
  assumes "workflow_env_ok env" "step_ok s" "extra_ok step_extra_keys extra"
  shows "last_payload (log @ [step_entry env s extra]) = Some p \<Longrightarrow> we_step_of env (without step_extra_keys p) = Some s"
  using assms step_payload(1) [OF assms(3), of s "we_dt env"] unfolding step_entry_def
  by (simp add: step_ok_def workflow_env_ok_def)

lemma run_entry_view:
  assumes "workflow_env_ok env" "run_ok r" "wf_json (JObj inputs)"
  shows "last_payload (log @ [run_entry env r inputs]) = Some p \<Longrightarrow> we_run_of env (without [''inputs''] p) = Some r"
  using assms run_payload(1) [OF assms(3), of r "we_dt env"] unfolding run_entry_def
  by (simp add: run_ok_def workflow_env_ok_def)

lemma typed_step:
  assumes "workflow_env_ok env" "typed env L" "L (''workflow_step'', j) \<noteq> []"
  obtains s extra where "view_steps env L j = Some s" "step_ok s" "extra_ok step_extra_keys extra"
    "last (L (''workflow_step'', j)) = step_entry env s extra"
proof -
  let ?log = "L (''workflow_step'', j)"
  from assms(2,3) obtain s extra where s: "step_ok s" "extra_ok step_extra_keys extra" "last ?log = step_entry env s extra"
    unfolding typed_def by blast
  have log: "?log = butlast ?log @ [step_entry env s extra]" using assms(3) s(3) by (metis append_butlast_last_id)
  have "last_payload ?log = Some (norm_dict (updated (step_dict (we_dt env) s) extra))"
    using assms(3) s(3) by (simp add: last_payload_def step_entry_def)
  with step_entry_view [OF assms(1) s(1,2), of "butlast ?log"] log have "view_steps env L j = Some s"
    by (simp add: view_steps_def)
  with s that show ?thesis by blast
qed

lemma typed_run:
  assumes "workflow_env_ok env" "typed env L" "L (''workflow_run'', i) \<noteq> []"
  obtains r inputs where "view_runs env L i = Some r" "run_ok r" "wf_json (JObj inputs)"
    "last (L (''workflow_run'', i)) = run_entry env r inputs"
proof -
  let ?log = "L (''workflow_run'', i)"
  from assms(2,3) obtain r inputs where r: "run_ok r" "wf_json (JObj inputs)" "last ?log = run_entry env r inputs"
    unfolding typed_def by blast
  have log: "?log = butlast ?log @ [run_entry env r inputs]" using assms(3) r(3) by (metis append_butlast_last_id)
  have "last_payload ?log = Some (norm_dict (updated (run_dict (we_dt env) r) [(''inputs'', JObj inputs)]))"
    using assms(3) r(3) by (simp add: last_payload_def run_entry_def)
  with run_entry_view [OF assms(1) r(1,2), of "butlast ?log"] log have "view_runs env L i = Some r"
    by (simp add: view_runs_def)
  with r that show ?thesis by blast
qed

lemma view_put_step:
  assumes "workflow_env_ok env" "extra_ok step_extra_keys extra" "step_ok s" "typed env L"
    and "L' = L((''workflow_step'', j) := log @ [step_entry env s extra])"
  shows "view env L' = (view env L)\<lparr>eg_steps := (view_steps env L)(j \<mapsto> s)\<rparr>" "typed env L'"
proof -
  show "typed env L'" using assms(2-5) unfolding typed_def by auto
  have "view_steps env L' = (view_steps env L)(j \<mapsto> s)"
    using step_entry_view [OF assms(1,3,2), of log]
    by (auto simp: view_steps_def assms(5) fun_eq_iff last_payload_def step_entry_def)
  moreover have "view_runs env L' = view_runs env L" by (rule ext) (simp add: view_runs_def assms(5))
  moreover have "view_revs L' = view_revs L" by (rule ext) (simp add: view_revs_def assms(5))
  ultimately show "view env L' = (view env L)\<lparr>eg_steps := (view_steps env L)(j \<mapsto> s)\<rparr>" by (simp add: view_def)
qed

lemma view_put_run:
  assumes "workflow_env_ok env" "wf_json (JObj inputs)" "run_ok r" "typed env L"
    and "L' = L((''workflow_run'', i) := log @ [run_entry env r inputs])"
  shows "view env L' = (view env L)\<lparr>eg_runs := (view_runs env L)(i \<mapsto> r)\<rparr>" "typed env L'"
proof -
  show "typed env L'" using assms(2-5) unfolding typed_def by auto
  have "view_runs env L' = (view_runs env L)(i \<mapsto> r)"
    using run_entry_view [OF assms(1,3,2), of log]
    by (auto simp: view_runs_def assms(5) fun_eq_iff last_payload_def run_entry_def)
  moreover have "view_steps env L' = view_steps env L" by (rule ext) (simp add: view_steps_def assms(5))
  moreover have "view_revs L' = view_revs L" by (rule ext) (simp add: view_revs_def assms(5))
  ultimately show "view env L' = (view env L)\<lparr>eg_runs := (view_runs env L)(i \<mapsto> r)\<rparr>" by (simp add: view_def)
qed

lemma view_put_revision:
  assumes "L' = L((''workflow_revision'', i) := log @ [(p, st)])" "typed env L"
  shows "view env L' = (view env L)\<lparr>eg_revs := (view_revs L)(i \<mapsto> p)\<rparr>" "typed env L'"
proof -
  show "typed env L'" using assms by (simp add: typed_def)
  have "view_revs L' = (view_revs L)(i \<mapsto> p)" by (auto simp: view_revs_def assms(1) fun_eq_iff Let_def)
  moreover have "view_steps env L' = view_steps env L" by (rule ext) (simp add: view_steps_def assms(1))
  moreover have "view_runs env L' = view_runs env L" by (rule ext) (simp add: view_runs_def assms(1))
  ultimately show "view env L' = (view env L)\<lparr>eg_revs := (view_revs L)(i \<mapsto> p)\<rparr>" by (simp add: view_def)
qed

lemma view_frame:
  assumes "\<And>k i. k \<in> {''workflow_step'', ''workflow_run'', ''workflow_revision''} \<Longrightarrow> L' (k, i) = L (k, i)"
  shows "view env L' = view env L" "typed env L' = typed env L"
proof -
  have "view_steps env L' = view_steps env L" "view_runs env L' = view_runs env L" "view_revs L' = view_revs L"
    by (auto simp: view_steps_def view_runs_def view_revs_def assms fun_eq_iff)
  then show "view env L' = view env L" "typed env L' = typed env L" by (simp_all add: view_def typed_def assms)
qed

section \<open>Programs keep the engine\<close>

definition good :: "workflow_env \<Rightarrow> engine \<Rightarrow> logs \<Rightarrow> bool" where
  "good env e0 L \<longleftrightarrow> typed env L \<and> runs_ok (dec_of env) (view env L) \<and> (engine_step (dec_of env))\<^sup>*\<^sup>* e0 (view env L)"

definition keeps :: "workflow_env \<Rightarrow> engine \<Rightarrow> platform_db \<Rightarrow> bool" where
  "keeps env e0 s \<longleftrightarrow> db_ok (we_sha env) s \<and> good env e0 (record_log s)"

lemma good_step:
  assumes "good env e0 L" "typed env L'" "engine_step (dec_of env) (view env L) (view env L')"
  shows "good env e0 L'"
  using assms engine_step_runs_ok [OF assms(3)] unfolding good_def by (auto intro: rtranclp.rtrancl_into_rtrancl)

lemma good_frame:
  assumes "good env e0 L" "\<And>k i. k \<in> {''workflow_step'', ''workflow_run'', ''workflow_revision''} \<Longrightarrow> L' (k, i) = L (k, i)"
  shows "good env e0 L'"
proof -
  have "view env L' = view env L" "typed env L' = typed env L" by (rule view_frame, erule assms(2))+
  with assms(1) show ?thesis by (simp add: good_def)
qed

text \<open>A record read from the store stays where it was; it is still the newest one if its revision is the
  one an append expects.\<close>

definition seen :: "logs \<Rightarrow> string \<times> string \<Rightarrow> stored_record \<Rightarrow> bool" where
  "seen L k r \<longleftrightarrow> (\<exists>log. prefix log (L k) \<and> head_view (Some r) log)"

definition frame :: "logs \<Rightarrow> logs \<Rightarrow> bool" where
  "frame L L' \<longleftrightarrow> (\<forall>k. prefix (L k) (L' k)) \<and> (\<forall>k. fst k \<noteq> ''workflow_step'' \<longrightarrow> L' k = L k)"

lemma frame_refl [simp]: "frame L L"
  by (simp add: frame_def)

lemma frame_trans:
  assumes "frame L L'" "frame L' L''"
  shows "frame L L''"
proof -
  have "prefix (L k) (L'' k)" for k using assms unfolding frame_def by (blast intro: prefix_order.trans)
  with assms show ?thesis by (simp add: frame_def)
qed

lemma frame_put [simp]: "frame L (L((''workflow_step'', j) := L (''workflow_step'', j) @ xs))"
  by (simp add: frame_def)

lemma seen_head: "head_view (Some r) (L k) \<Longrightarrow> seen L k r"
  unfolding seen_def by blast

lemma seen_frame: "frame L L' \<Longrightarrow> seen L k r \<Longrightarrow> seen L' k r"
  unfolding seen_def frame_def by (blast intro: prefix_order.trans)

lemma seen_current:
  assumes "seen L k r" "Some (sr_revision r) = expected_for (length (L k))"
  shows "head_view (Some r) (L k)"
proof -
  from assms(1) obtain log where log: "prefix log (L k)" "head_view (Some r) log" unfolding seen_def by blast
  from log(2) assms(2) have "length log = length (L k)"
    by (auto simp: head_view_def expected_for_def split: if_split_asm)
  with log(1) have "log = L k" by (auto simp: prefix_def)
  with log(2) show ?thesis by simp
qed

lemma frame_views:
  assumes "frame L L'"
  shows "view_runs env L' = view_runs env L" "view_revs L' = view_revs L"
  using assms by (auto simp: frame_def view_runs_def view_revs_def fun_eq_iff)

subsection \<open>The store operations\<close>

lemma wp_wf_get:
  assumes "keeps env e0 s" "\<And>x. head_view x (record_log s (k, i)) \<Longrightarrow> S x s" "\<And>e. F e s"
  shows "wp (wf_get env k i) S F s"
  unfolding wf_get_def by (rule pstore.wp_get) (use assms in \<open>auto simp: keeps_def\<close>)

lemma wp_note:
  assumes "keeps env e0 s" "\<And>e. F e s" "\<And>x s'. keeps env e0 s' \<Longrightarrow> record_log s' = record_log s \<Longrightarrow> S x s'"
  shows "wp (wf_note env clock stream agg ty actor schema p) S F s"
  unfolding wf_note_def by (rule wp_event) (use assms in \<open>auto simp: keeps_def\<close>)

lemma wp_append:
  assumes "db_ok (we_sha env) s" "wf_json (JObj p)" "\<And>e. F e s"
    and "\<And>r s'. db_ok (we_sha env) s' \<Longrightarrow> record_log s' = (record_log s)((k, i) := record_log s (k, i) @ [(Some (JObj (norm_dict p)), st)]) \<Longrightarrow>
      sr_revision r = int (length (record_log s (k, i))) + 1 \<Longrightarrow> ex = expected_for (length (record_log s (k, i))) \<Longrightarrow> S r s'"
  shows "wp (wf_put env clock k i p st ex) S F s"
proof (cases "append_record (we_sha env) clock k i p st ex s")
  case (Inr y)
  then obtain r s' where "append_record (we_sha env) clock k i p st ex s = Inr (r, s')" by (cases y) simp
  with pstore.put_log [OF assms(1,2) this] assms(4) show ?thesis by (simp add: wf_put_def wp_txn)
qed (simp add: wf_put_def wp_txn assms(3))

lemma wp_put_step:
  assumes "workflow_env_ok env" "keeps env e0 s" "step_ok new" "extra_ok step_extra_keys extra" "\<And>e. F e s"
    and "ex = expected_for (length (record_log s (''workflow_step'', j))) \<Longrightarrow> engine_step (dec_of env) (view env (record_log s))
      ((view env (record_log s))\<lparr>eg_steps := (view_steps env (record_log s))(j \<mapsto> new)\<rparr>)"
    and "\<And>r s'. keeps env e0 s' \<Longrightarrow>
      record_log s' = (record_log s)((''workflow_step'', j) := record_log s (''workflow_step'', j) @ [step_entry env new extra]) \<Longrightarrow>
      view_steps env (record_log s') = (view_steps env (record_log s))(j \<mapsto> new) \<Longrightarrow>
      sr_revision r = int (length (record_log s' (''workflow_step'', j))) \<Longrightarrow>
      engine_le (view env (record_log s)) (view env (record_log s')) \<Longrightarrow>
      ex = expected_for (length (record_log s (''workflow_step'', j))) \<Longrightarrow> S r s'"
  shows "wp (wf_put env clock ''workflow_step'' j (updated (step_dict (we_dt env) new) extra) (ws_state new) ex) S F s"
proof (rule wp_append)
  show "db_ok (we_sha env) s" using assms(2) by (simp add: keeps_def)
  show "wf_json (JObj (updated (step_dict (we_dt env) new) extra))"
    using step_payload(2) [OF assms(4)] assms(3) by (simp add: step_ok_def)
  show "F e s" for e by (rule assms(5))
  fix r :: stored_record and s'
  assume ok: "db_ok (we_sha env) s'" and L': "record_log s' = (record_log s)((''workflow_step'', j) := record_log s (''workflow_step'', j) @
      [(Some (JObj (norm_dict (updated (step_dict (we_dt env) new) extra))), ws_state new)])"
    and r: "sr_revision r = int (length (record_log s (''workflow_step'', j))) + 1"
    and ex: "ex = expected_for (length (record_log s (''workflow_step'', j)))"
  from assms(2) have good: "good env e0 (record_log s)" "typed env (record_log s)" by (auto simp: keeps_def good_def)
  note L' = L' [folded step_entry_def]
  note v = view_put_step [OF assms(1,4,3) good(2) L']
  have "keeps env e0 s'" using ok good_step [OF good(1) v(2)] v(1) assms(6) [OF ex] by (simp add: keeps_def)
  moreover have "view_steps env (record_log s') = (view_steps env (record_log s))(j \<mapsto> new)"
    using arg_cong [OF v(1), of eg_steps] by simp
  moreover have "engine_le (view env (record_log s)) (view env (record_log s'))"
    using engine_step_le [OF assms(6) [OF ex]] v(1) by simp
  ultimately show "S r s'" using assms(7) L' r ex by simp
qed

lemma wp_put_run:
  assumes "workflow_env_ok env" "keeps env e0 s" "run_ok new" "wf_json (JObj inputs)" "\<And>e. F e s"
    and "ex = expected_for (length (record_log s (''workflow_run'', i))) \<Longrightarrow> engine_step (dec_of env) (view env (record_log s))
      ((view env (record_log s))\<lparr>eg_runs := (view_runs env (record_log s))(i \<mapsto> new)\<rparr>)"
    and "\<And>r s'. keeps env e0 s' \<Longrightarrow>
      record_log s' = (record_log s)((''workflow_run'', i) := record_log s (''workflow_run'', i) @ [run_entry env new inputs]) \<Longrightarrow>
      view_runs env (record_log s') = (view_runs env (record_log s))(i \<mapsto> new) \<Longrightarrow>
      engine_le (view env (record_log s)) (view env (record_log s')) \<Longrightarrow> S r s'"
  shows "wp (wf_put env clock ''workflow_run'' i (updated (run_dict (we_dt env) new) [(''inputs'', JObj inputs)]) (wrun_state new) ex) S F s"
proof (rule wp_append)
  show "db_ok (we_sha env) s" using assms(2) by (simp add: keeps_def)
  show "wf_json (JObj (updated (run_dict (we_dt env) new) [(''inputs'', JObj inputs)]))"
    using run_payload(2) [OF assms(4)] assms(3) by (simp add: run_ok_def)
  show "F e s" for e by (rule assms(5))
  fix r :: stored_record and s'
  assume ok: "db_ok (we_sha env) s'" and L': "record_log s' = (record_log s)((''workflow_run'', i) := record_log s (''workflow_run'', i) @
      [(Some (JObj (norm_dict (updated (run_dict (we_dt env) new) [(''inputs'', JObj inputs)]))), wrun_state new)])"
    and ex: "ex = expected_for (length (record_log s (''workflow_run'', i)))"
  from assms(2) have good: "good env e0 (record_log s)" "typed env (record_log s)" by (auto simp: keeps_def good_def)
  note L' = L' [folded run_entry_def]
  note v = view_put_run [OF assms(1,4,3) good(2) L']
  have "keeps env e0 s'" using ok good_step [OF good(1) v(2)] v(1) assms(6) [OF ex] by (simp add: keeps_def)
  moreover have "view_runs env (record_log s') = (view_runs env (record_log s))(i \<mapsto> new)"
    using arg_cong [OF v(1), of eg_runs] by simp
  moreover have "engine_le (view env (record_log s)) (view env (record_log s'))"
    using engine_step_le [OF assms(6) [OF ex]] v(1) by simp
  ultimately show "S r s'" using assms(7) L' by simp
qed

text \<open>The other records of the service: a revision is written once, the rest the engine does not see.\<close>

lemma wp_put_revision:
  assumes "keeps env e0 s" "wf_json (JObj p)" "\<And>e. F e s" "\<And>r s'. keeps env e0 s' \<Longrightarrow> S r s'"
  shows "wp (wf_put env clock ''workflow_revision'' i p st None) S F s"
proof (rule wp_append)
  show "db_ok (we_sha env) s" using assms(1) by (simp add: keeps_def)
  fix r :: stored_record and s'
  assume ok: "db_ok (we_sha env) s'" and L': "record_log s' = (record_log s)((''workflow_revision'', i) :=
      record_log s (''workflow_revision'', i) @ [(Some (JObj (norm_dict p)), st)])"
    and ex: "None = expected_for (length (record_log s (''workflow_revision'', i)))"
  from assms(1) have good: "good env e0 (record_log s)" "typed env (record_log s)" by (auto simp: keeps_def good_def)
  note v = view_put_revision [OF L' good(2)]
  have "view_revs (record_log s) i = None"
    using ex by (auto simp: expected_for_def view_revs_def split: if_split_asm)
  then have "engine_step (dec_of env) (view env (record_log s)) (view env (record_log s'))"
    unfolding v(1) using engine_step.Register [of "view env (record_log s)" i] by simp
  with ok good_step [OF good(1) v(2)] show "S r s'" by (intro assms(4)) (simp add: keeps_def)
qed (use assms in auto)

lemma wp_put_other:
  assumes "keeps env e0 s" "wf_json (JObj p)" "k \<notin> {''workflow_step'', ''workflow_run'', ''workflow_revision''}" "\<And>e. F e s"
    and "\<And>r s'. keeps env e0 s' \<Longrightarrow> S r s'"
  shows "wp (wf_put env clock k i p st ex) S F s"
proof (rule wp_append)
  show "db_ok (we_sha env) s" using assms(1) by (simp add: keeps_def)
  fix r :: stored_record and s'
  assume ok: "db_ok (we_sha env) s'" and L': "record_log s' = (record_log s)((k, i) := record_log s (k, i) @ [(Some (JObj (norm_dict p)), st)])"
  have "good env e0 (record_log s')"
    by (rule good_frame [of _ _ "record_log s"]) (use assms(1,3) L' in \<open>auto simp: keeps_def\<close>)
  with ok show "S r s'" by (intro assms(5)) (simp add: keeps_def)
qed (use assms in auto)

subsection \<open>Loading\<close>

lemma head_view_last:
  "head_view (Some r) log \<Longrightarrow> log \<noteq> [] \<and> last_payload log = Some (sr_payload r) \<and> snd (last log) = sr_state r \<and>
     wf_json (JObj (sr_payload r))"
  by (auto simp: head_view_def last_payload_def)

lemma wp_load_revision:
  assumes "workflow_env_ok env" "keeps env e0 s" "\<And>e. F e s"
    and "\<And>v. Option.bind (view_revs (record_log s) i) (dec_of env) = Some v \<Longrightarrow> WorkflowRevision_ok v \<Longrightarrow> S v s"
  shows "wp (load_revision env i) S F s"
  unfolding load_revision_def
proof (intro wpI, rule wp_wf_get [OF assms(2)])
  fix x
  assume x: "head_view x (record_log s (''workflow_revision'', i))"
  show "wp (case x of None \<Rightarrow> fail WorkflowError
      | Some r \<Rightarrow> lift (of_option WorkflowValidationError (we_revision_of env (sr_payload r)))) S F s"
  proof (intro wpI)
    fix r v
    assume "x = Some r" "of_option WorkflowValidationError (we_revision_of env (sr_payload r)) = Inr v"
    with x have v: "we_revision_of env (sr_payload r) = Some v" and log: "record_log s (''workflow_revision'', i) \<noteq> []"
      "fst (last (record_log s (''workflow_revision'', i))) = Some (JObj (sr_payload r))"
      by (auto simp: of_option_Inr_iff head_view_def)
    show "S v s"
      by (rule assms(4)) (use v log assms(1) in \<open>auto simp: view_revs_def dec_of_def workflow_env_ok_def\<close>)
  qed (rule assms(3))+
qed (rule assms(3))

lemma wf_json_field: "wf_json (JObj p) \<Longrightarrow> map_of p k = Some v \<Longrightarrow> wf_json v"
  by (auto simp: list_all_iff dest: map_of_SomeD)

lemma wf_json_empty: "wf_json (JObj [])"
  by simp

lemma wp_load_run:
  assumes "workflow_env_ok env" "keeps env e0 s" "\<And>e. F e s"
    and "\<And>run r inputs. view_runs env (record_log s) i = Some run \<Longrightarrow> run_ok run \<Longrightarrow> wf_json (JObj inputs) \<Longrightarrow>
      head_view (Some r) (record_log s (''workflow_run'', i)) \<Longrightarrow> S (run, r, inputs) s"
  shows "wp (load_run env i) S F s"
  unfolding load_run_def
proof (intro wpI, rule wp_wf_get [OF assms(2)])
  fix x
  assume x: "head_view x (record_log s (''workflow_run'', i))"
  show "wp (case x of None \<Rightarrow> fail WorkflowError
      | Some r \<Rightarrow> bnd (lift (of_option WorkflowValidationError (we_run_of env (without [''inputs''] (sr_payload r)))))
          (\<lambda>run. give (run, r, case map_of (sr_payload r) ''inputs'' of Some (JObj i) \<Rightarrow> i | _ \<Rightarrow> []))) S F s"
  proof (intro wpI)
    fix r run
    assume xr: "x = Some r" and d: "of_option WorkflowValidationError (we_run_of env (without [''inputs''] (sr_payload r))) = Inr run"
    with x have h: "head_view (Some r) (record_log s (''workflow_run'', i))" by simp
    note l = head_view_last [OF h]
    from d l have v: "view_runs env (record_log s) i = Some run" by (simp add: view_runs_def of_option_Inr_iff)
    have "typed env (record_log s)" using assms(2) by (auto simp: keeps_def good_def)
    from typed_run [OF assms(1) this, of i] l v have "run_ok run" by (metis option.inject)
    moreover have "wf_json (JObj (case map_of (sr_payload r) ''inputs'' of Some (JObj i) \<Rightarrow> i | _ \<Rightarrow> []))"
      using wf_json_field [of "sr_payload r" "''inputs''"] l wf_json_empty
      by (auto simp del: wf_json.simps split: option.split jval.split)
    ultimately show "S (run, r, case map_of (sr_payload r) ''inputs'' of Some (JObj i) \<Rightarrow> i | _ \<Rightarrow> []) s"
      using assms(4) v h by blast
  qed (rule assms(3))+
qed (rule assms(3))

lemma wp_load_run_in:
  assumes "workflow_env_ok env" "keeps env e0 s" "\<And>e. F e s"
    and "\<And>run r inputs. view_runs env (record_log s) i = Some run \<Longrightarrow> run_ok run \<Longrightarrow> wf_json (JObj inputs) \<Longrightarrow>
      head_view (Some r) (record_log s (''workflow_run'', i)) \<Longrightarrow> wrun_state run = st \<Longrightarrow> S (run, r, inputs) s"
  shows "wp (load_run_in env i st) S F s"
  unfolding load_run_in_def
  by (intro wpI, rule wp_load_run [OF assms(1,2)]) (use assms(3,4) in \<open>auto intro!: wpI\<close>)

lemma wp_load_retry_policy:
  assumes "workflow_env_ok env" "keeps env e0 s" "\<And>e. F e s"
    and "\<And>p. (\<forall>q. p = Some q \<longrightarrow> WorkflowRetryPolicy_ok q) \<Longrightarrow> S p s"
  shows "wp (load_retry_policy env node) S F s"
  unfolding load_retry_policy_def
  by (intro wpI; (rule wp_wf_get [OF assms(2)], intro wpI)?)
    (use assms(1,3,4) in \<open>auto simp: of_option_Inr_iff workflow_env_ok_def\<close>)

lemma wp_load_approval_gate:
  assumes "keeps env e0 s" "\<And>e. F e s" "\<And>g. S g s"
  shows "wp (load_approval_gate env node) S F s"
  unfolding load_approval_gate_def
  by (intro wpI; (rule wp_wf_get [OF assms(1)], intro wpI)?) (use assms(2,3) in auto)

section \<open>Moving a step\<close>

lemma engine_le_refl [simp]: "engine_le e e"
  by (auto simp: engine_le_def)

lemma same_run_trans: "same_run r s \<Longrightarrow> same_run s t \<Longrightarrow> same_run r t"
proof -
  assume "same_run r s" "same_run s t"
  then obtain a b c d where "s = r\<lparr>wrun_state := a, wrun_completed_at := b\<rparr>" "t = s\<lparr>wrun_state := c, wrun_completed_at := d\<rparr>"
    unfolding same_run_def by blast
  then have "t = r\<lparr>wrun_state := c, wrun_completed_at := d\<rparr>" by simp
  then show "same_run r t" unfolding same_run_def by blast
qed

lemma engine_le_trans:
  assumes "engine_le e1 e2" "engine_le e2 e3"
  shows "engine_le e1 e3"
proof -
  have "eg_revs e1 \<subseteq>\<^sub>m eg_revs e3" using assms map_le_trans unfolding engine_le_def by blast
  moreover have "\<exists>s'. eg_steps e3 j = Some s' \<and> same_step s s' \<and> (done_state (ws_state s) \<longrightarrow> s' = s)" if "eg_steps e1 j = Some s" for j s
    using that assms same_step_trans unfolding engine_le_def by (metis (no_types, lifting))
  moreover have "\<exists>r'. eg_runs e3 i = Some r' \<and> same_run r r'" if r: "eg_runs e1 i = Some r" for i r
  proof -
    from r assms(1) obtain r2 where "eg_runs e2 i = Some r2" "same_run r r2" unfolding engine_le_def by blast
    moreover from this(1) assms(2) obtain r3 where "eg_runs e3 i = Some r3" "same_run r2 r3" unfolding engine_le_def by blast
    ultimately show ?thesis using same_run_trans by blast
  qed
  ultimately show ?thesis unfolding engine_le_def by blast
qed

definition evolves :: "workflow_env \<Rightarrow> logs \<Rightarrow> logs \<Rightarrow> bool" where
  "evolves env L L' \<longleftrightarrow> frame L L' \<and> engine_le (view env L) (view env L')"

lemma evolves_refl [simp]: "evolves env L L"
  by (simp add: evolves_def)

lemma evolves_trans: "evolves env L L' \<Longrightarrow> evolves env L' L'' \<Longrightarrow> evolves env L L''"
  unfolding evolves_def using frame_trans engine_le_trans by blast

text \<open>The step an append with this expected revision would replace.\<close>

definition at_head :: "workflow_env \<Rightarrow> logs \<Rightarrow> string \<Rightarrow> workflow_step_run \<Rightarrow> int \<Rightarrow> bool" where
  "at_head env L j s n \<longleftrightarrow> (Some n = expected_for (length (L (''workflow_step'', j))) \<longrightarrow> view_steps env L j = Some s)"

lemma seen_at_head:
  assumes "seen L (''workflow_step'', j) r" "step_from_record env r = Inr s"
  shows "at_head env L j s (sr_revision r)"
  unfolding at_head_def
proof
  assume "Some (sr_revision r) = expected_for (length (L (''workflow_step'', j)))"
  from seen_current [OF assms(1) this] have "last_payload (L (''workflow_step'', j)) = Some (sr_payload r)"
    using head_view_last by blast
  with assms(2) show "view_steps env L j = Some s"
    by (simp add: view_steps_def step_from_record_def of_option_Inr_iff)
qed

text \<open>The run of a step, while it is running, and the conditions under which the step may change to a state.\<close>

definition may_go :: "workflow_env \<Rightarrow> logs \<Rightarrow> string \<Rightarrow> workflow_step_run \<Rightarrow> string \<Rightarrow> bool" where
  "may_go env L j s state \<longleftrightarrow> state \<in> set (step_next (ws_state s)) \<and>
     (\<exists>i r. view_runs env L i = Some r \<and> j \<in> set (wrun_step_run_ids r) \<and> open_run r \<and>
        (state \<noteq> ''cancelled'' \<longrightarrow> wrun_state r = ''running'') \<and>
        (ws_state s = ''pending'' \<longrightarrow> state \<noteq> ''cancelled'' \<longrightarrow>
           parents_ready (dec_of env) (view env L) r (ws_node_id s) \<and>
           node_allows (dec_of env) (view env L) r (ws_node_id s) state))"

lemma may_go_step:
  assumes "may_go env L j s (ws_state new)" "same_step s new" "view_steps env L j = Some s"
  shows "engine_step (dec_of env) (view env L) ((view env L)\<lparr>eg_steps := (view_steps env L)(j \<mapsto> new)\<rparr>)"
proof -
  from assms(1) obtain i r where r: "view_runs env L i = Some r" "j \<in> set (wrun_step_run_ids r)" "open_run r"
    "ws_state new \<noteq> ''cancelled'' \<Longrightarrow> wrun_state r = ''running''"
    "ws_state s = ''pending'' \<Longrightarrow> ws_state new \<noteq> ''cancelled'' \<Longrightarrow>
       parents_ready (dec_of env) (view env L) r (ws_node_id s) \<and> node_allows (dec_of env) (view env L) r (ws_node_id s) (ws_state new)"
    and to: "ws_state new \<in> set (step_next (ws_state s))"
    unfolding may_go_def by blast
  show ?thesis
    using engine_step.StepMove [of "view env L" j s new i r "dec_of env"] assms(2,3) to r by simp
qed

lemma wp_persist_step:
  assumes env: "workflow_env_ok env" and k: "keeps env e0 s" and h: "at_head env (record_log s) (ws_step_run_id new) old n"
    and go: "may_go env (record_log s) (ws_step_run_id new) old (ws_state new)" and new: "same_step old new" "step_ok new"
    and x: "extra_ok step_extra_keys extra"
    and F: "\<And>e. F e s"
    and S: "\<And>r s'. keeps env e0 s' \<Longrightarrow> evolves env (record_log s) (record_log s') \<Longrightarrow>
      view_steps env (record_log s') (ws_step_run_id new) = Some new \<Longrightarrow> S r s'"
  shows "wp (persist_step env clock new n extra) S F s"
  unfolding persist_step_def
proof (rule wp_put_step)
  let ?L = "record_log s" and ?j = "ws_step_run_id new"
  show "engine_step (dec_of env) (view env ?L) ((view env ?L)\<lparr>eg_steps := (view_steps env ?L)(?j \<mapsto> new)\<rparr>)"
    if "Some n = expected_for (length (?L (''workflow_step'', ?j)))"
    using may_go_step [OF go new(1)] h that by (simp add: at_head_def)
  fix r :: stored_record and s'
  assume k': "keeps env e0 s'" and L': "record_log s' = ?L((''workflow_step'', ?j) := ?L (''workflow_step'', ?j) @ [step_entry env new extra])"
    and v: "view_steps env (record_log s') = (view_steps env ?L)(?j \<mapsto> new)"
    and le: "engine_le (view env ?L) (view env (record_log s'))"
  have "evolves env ?L (record_log s')" using le unfolding evolves_def by (simp add: L')
  with k' v show "S r s'" by (intro S) simp_all
qed (use assms in auto)

lemma wp_note_give:
  assumes "keeps env e0 s" "\<And>e. F e s" "\<And>s'. keeps env e0 s' \<Longrightarrow> record_log s' = record_log s \<Longrightarrow> S y s'"
  shows "wp (bnd (wf_note env clock stream agg ty actor schema p) (\<lambda>_. give y)) S F s"
  by (rule wpI_bnd, rule wp_note [OF assms(1)]) (use assms(2,3) in \<open>auto intro: wpI\<close>)

lemma wp_fail_step:
  assumes env: "workflow_env_ok env" and k: "keeps env e0 s" and h: "at_head env (record_log s) (ws_step_run_id st) st n"
    and go: "may_go env (record_log s) (ws_step_run_id st) st ''failed''" and st: "step_ok st"
    and F: "\<And>e s'. keeps env e0 s' \<Longrightarrow> F e s'"
    and S: "\<And>s'. keeps env e0 s' \<Longrightarrow> evolves env (record_log s) (record_log s') \<Longrightarrow> S () s'"
  shows "wp (fail_step env clock now st n reason) S F s"
  unfolding fail_step_def Let_def
  apply (rule wpI_bnd, rule wp_persist_step [OF env k, where old = st])
  subgoal using h by simp
  subgoal using go by simp
  subgoal by (simp add: same_step_def)
  subgoal using st by (simp add: step_ok_def WorkflowStepRun_ok_def versioned_ok_def)
  subgoal by (simp add: extra_ok_def step_extra_keys_def)
  subgoal by (rule F [OF k])
  subgoal for r s'
    by (rule wp_note_give) (use F S in auto)
  done

subsection \<open>Running a deterministic step\<close>

text \<open>A pending step of a running run whose parents are done.\<close>

definition node_ready :: "workflow_env \<Rightarrow> logs \<Rightarrow> workflow_run \<Rightarrow> workflow_node \<Rightarrow> bool" where
  "node_ready env L r node \<longleftrightarrow> (\<exists>i. view_runs env L i = Some r) \<and> wrun_state r = ''running'' \<and>
     parents_ready (dec_of env) (view env L) r (wn_node_id node) \<and>
     (\<exists>v. revision_at (dec_of env) (view env L) r = Some v \<and> node \<in> set (wr_nodes v))"

lemma node_ready_evolves:
  assumes "evolves env L L'" "node_ready env L r node"
  shows "node_ready env L' r node"
proof -
  from assms(1) have le: "engine_le (view env L) (view env L')" and f: "frame L L'" by (auto simp: evolves_def)
  from assms(2) obtain i v where r: "view_runs env L i = Some r" "wrun_state r = ''running''"
    "parents_ready (dec_of env) (view env L) r (wn_node_id node)" "revision_at (dec_of env) (view env L) r = Some v"
    "node \<in> set (wr_nodes v)" unfolding node_ready_def by blast
  have "view_runs env L' i = Some r" using frame_views(1) [OF f] r(1) by metis
  with r parents_ready_le [OF le r(3)] revision_at_le [OF le r(4)] show ?thesis unfolding node_ready_def by blast
qed

lemma node_ready_may_go:
  assumes "node_ready env L r node" "ws_node_id s = wn_node_id node" "ws_state s = ''pending''" "j \<in> set (wrun_step_run_ids r)"
    and "kind_allows (wn_node_type node) state" "state \<in> set (step_next ''pending'')"
  shows "may_go env L j s state"
proof -
  from assms(1) obtain i v where r: "view_runs env L i = Some r" "wrun_state r = ''running''"
    "parents_ready (dec_of env) (view env L) r (wn_node_id node)" "revision_at (dec_of env) (view env L) r = Some v"
    "node \<in> set (wr_nodes v)" unfolding node_ready_def by blast
  have "node_allows (dec_of env) (view env L) r (ws_node_id s) state"
    using r(4,5) assms(2,5) unfolding node_allows_def by auto
  moreover have "open_run r" using r(2) by (simp add: open_run_def cancellable_run_states_def)
  ultimately show ?thesis using r assms(2,3,4,6) unfolding may_go_def by auto
qed

lemma pending_next: "x \<in> {''pending'', ''waiting'', ''paused'', ''succeeded'', ''failed'', ''cancelled''} \<Longrightarrow> x \<in> set (step_next ''pending'')"
  by (auto simp: step_next.simps)

definition op_ok :: "(int \<Rightarrow> dict \<Rightarrow> pyval option) \<Rightarrow> bool" where
  "op_ok f \<longleftrightarrow> (\<forall>n inputs out v. f n inputs = Some out \<longrightarrow> canonical_value out = Inr v \<longrightarrow> wf_json v)"

lemma wp_drive_loop:
  assumes env: "workflow_env_ok env" and op: "op_ok operation"
    and pol: "\<And>p. policy = Some p \<Longrightarrow> WorkflowRetryPolicy_ok p"
    and k: "keeps env e0 s" and h: "at_head env (record_log s) (ws_step_run_id current) current n"
    and cur: "step_ok current" "ws_state current = ''pending''" "ws_attempt current = attempt"
    and node: "ws_node_id current = wn_node_id node" "wn_node_type node = NT_DETERMINISTIC_COMMAND"
      "ws_step_run_id current \<in> set (wrun_step_run_ids r)" "node_ready env (record_log s) r node"
    and F: "\<And>e s'. keeps env e0 s' \<Longrightarrow> F e s'"
    and S: "\<And>x s'. keeps env e0 s' \<Longrightarrow> evolves env (record_log s) (record_log s') \<Longrightarrow>
      (x \<noteq> None \<Longrightarrow> \<exists>t. view_steps env (record_log s') (ws_step_run_id current) = Some t \<and>
         ws_node_id t = ws_node_id current \<and> ws_state t = ''succeeded'') \<Longrightarrow> S x s'"
  shows "wp (drive_loop env clock now operation policy inputs attempt current n) S F s"
  using assms
proof (induction env clock now operation policy inputs attempt current n arbitrary: s rule: drive_loop.induct)
  case (1 env clock now operation policy inputs attempt current n)
  note env = 1(2) and op = 1(3) and pol = 1(4) and k = 1(5) and h = 1(6) and cur = 1(7-9) and node = 1(10-13) and F = 1(14) and S = 1(15)
  have go: "may_go env (record_log s) (ws_step_run_id current) current state"
    if "state \<in> {''pending'', ''succeeded'', ''failed''}" for state
    by (rule node_ready_may_go [OF node(4,1) cur(2) node(3)])
      (use that node(2) in \<open>auto simp: kind_allows_def intro: pending_next\<close>)
  have failed: "wp (fail_step env clock now current n reason) (\<lambda>x. wp (give None) S F) F s" for reason
    by (rule wp_fail_step [OF env k h go cur(1) F]) (auto intro!: wpI S)
  have retry: "wp (let current' = current\<lparr>ws_attempt := attempt + 1, ws_started_at := Some now\<rparr> in
                  bnd (persist_step env clock current' n []) (\<lambda>r.
                  bnd (wf_note env clock (ws_workflow_run_id current) (ws_step_run_id current) ''workflow_step_retry''
                         engine_actor ''workflow_step_run_v1''
                         [(''node_id'', JStr (ws_node_id current)), (''attempt'', JInt (attempt + 1)),
                          (''delay_ms'', JInt (retry_delay_ms p attempt))]) (\<lambda>_.
                  drive_loop env clock now operation policy inputs (attempt + 1) current' (sr_revision r)))) S F s"
    if none: "operation attempt inputs = None" and p: "policy = Some p" and lt: "attempt < wrp_max_attempts p" for p
    unfolding Let_def
    apply (rule wpI_bnd, rule wp_persist_step [OF env k, where old = current])
    subgoal using h by simp
    subgoal using go cur(2) by simp
    subgoal using cur(3) by (simp add: same_step_def)
    subgoal using cur lt pol [OF p] by (simp add: step_ok_def WorkflowStepRun_ok_def versioned_ok_def WorkflowRetryPolicy_ok_def)
    subgoal by (simp add: extra_ok_def)
    subgoal by (rule F [OF k])
    subgoal for rec s'
      apply (rule wpI_bnd, rule wp_note, assumption, erule F)
      subgoal premises prems for x s''
        apply (rule 1(1) [OF none p lt refl env op pol prems(4)])
        subgoal by (simp)
        subgoal using prems(3,5) by (simp add: at_head_def)
        subgoal using cur lt pol [OF p] by (simp add: step_ok_def WorkflowStepRun_ok_def versioned_ok_def WorkflowRetryPolicy_ok_def)
        subgoal using cur by simp
        subgoal by simp
        subgoal using node(1) by simp
        subgoal by (rule node(2))
        subgoal using node(3) by simp
        subgoal using node_ready_evolves [OF prems(2) node(4)] prems(5) by simp
        subgoal by (erule F)
        subgoal for x s3 by (rule S) (use prems(2,5) evolves_trans in \<open>auto\<close>)
        done
      done
    done
  have succeeded: "wp (let completed = current\<lparr>ws_state := ''succeeded'',
                  ws_output_sha256 := Some (sha256_hex (we_sha env) output_bytes),
                  ws_started_at := Some now, ws_completed_at := Some now\<rparr> in
                bnd (persist_step env clock completed n [(''output'', v)]) (\<lambda>_.
                bnd (wf_note env clock (ws_workflow_run_id current) (ws_step_run_id current) ''workflow_step_succeeded''
                       engine_actor ''workflow_step_run_v1''
                       [(''node_id'', JStr (ws_node_id current)),
                        (''output_sha256'', jopt JStr (ws_output_sha256 completed))]) (\<lambda>_.
                give (Some v)))) S F s"
    if out: "operation attempt inputs = Some result" "safe_payload env result = Inr (v, output_bytes)" for result v output_bytes
  proof -
    have "canonical_value result = Inr v"
      using out(2) by (auto simp: safe_payload_def Let_def result_simps split: if_split_asm)
    then have wf: "wf_json v" using op out(1) unfolding op_ok_def by blast
    have sha: "is_Sha256 (sha256_hex (we_sha env) output_bytes)" using env by (simp add: workflow_env_ok_def sha256_hex_def)
    show ?thesis
      unfolding Let_def
      apply (rule wpI_bnd, rule wp_persist_step [OF env k, where old = current])
      subgoal using h by simp
      subgoal using go by simp
      subgoal by (simp add: same_step_def)
      subgoal using cur sha by (simp add: step_ok_def WorkflowStepRun_ok_def versioned_ok_def opt_ok_def)
      subgoal using wf by (simp add: extra_ok_def step_extra_keys_def)
      subgoal by (rule F [OF k])
      subgoal for rec s'
        by (rule wp_note_give) (auto intro!: F S)
      done
  qed
  show ?case
    unfolding drive_loop.simps [of env clock now operation policy inputs attempt current n]
  proof (intro wpI)
    fix p
    assume "operation attempt inputs = None" "policy = Some p" "attempt < wrp_max_attempts p"
    from retry [OF this] show "wp (let current' = current\<lparr>ws_attempt := attempt + 1, ws_started_at := Some now\<rparr> in
                  bnd (persist_step env clock current' n []) (\<lambda>r.
                  bnd (wf_note env clock (ws_workflow_run_id current) (ws_step_run_id current) ''workflow_step_retry''
                         engine_actor ''workflow_step_run_v1''
                         [(''node_id'', JStr (ws_node_id current)), (''attempt'', JInt (attempt + 1)),
                          (''delay_ms'', JInt (retry_delay_ms p attempt))]) (\<lambda>_.
                  drive_loop env clock now operation policy inputs (attempt + 1) current' (sr_revision r)))) S F s" .
  qed (rule failed | rule succeeded, assumption, simp)+
qed

end
