(* ===== verification/Workflow_Calls.thy ===== *)
theory Workflow_Calls
  imports Workflow_Refinement
begin

text \<open>
  The operations of the workflow service as transitions of the engine: the sweep of
  \<open>run_ready_steps\<close>, the approval and wait operations, pause, resume and cancel, start and register, and
  the relation \<open>workflow_call\<close> of all calls, with the lemma that every call keeps a sound store sound and
  reaches what it leaves by transitions of the engine.
\<close>

section \<open>The sweep\<close>

definition step_rec :: "workflow_env \<Rightarrow> logs \<Rightarrow> string set \<Rightarrow> string \<Rightarrow> stored_record \<Rightarrow> bool" where
  "step_rec env L J n rec \<longleftrightarrow>
     (\<exists>j\<in>J. \<exists>st. view_steps env L j = Some st \<and> ws_node_id st = n \<and> step_ok st \<and>
        head_view (Some rec) (L (''workflow_step'', j)) \<and> sr_state rec = ws_state st)"

lemma step_payload_node:
  assumes "extra_ok step_extra_keys extra" "step_ok st"
  shows "map_of (norm_dict (updated (step_dict dt st) extra)) ''node_id'' = Some (JStr (ws_node_id st))"
proof -
  have wf: "wf_json (JObj (updated (step_dict dt st) extra))"
    using step_payload(2) [OF assms(1)] assms(2) by (simp add: step_ok_def)
  have "map_of (rev extra) ''node_id'' = None"
    using assms(1) by (auto simp: extra_ok_def step_extra_keys_def map_of_eq_None_iff)
  then have "map_of (updated (step_dict dt st) extra) ''node_id'' = map_of (step_dict dt st) ''node_id''"
    by (simp add: map_of_updated)
  also have "\<dots> = Some (JStr (ws_node_id st))" by (simp add: step_dict_def versioned_fields_def)
  finally show ?thesis unfolding map_of_norm_dict [OF wf] by simp
qed

lemma head_step:
  assumes "workflow_env_ok env" "typed env L" "head_view (Some rec) (L (''workflow_step'', j))"
  obtains st where "view_steps env L j = Some st" "step_ok st" "sr_state rec = ws_state st"
    "map_of (sr_payload rec) ''node_id'' = Some (JStr (ws_node_id st))"
proof -
  note l = head_view_last [OF assms(3)]
  obtain st extra where st: "view_steps env L j = Some st" "step_ok st" "extra_ok step_extra_keys extra"
    "last (L (''workflow_step'', j)) = step_entry env st extra"
    using typed_step [OF assms(1,2), of j] l by blast
  have "sr_state rec = ws_state st" using l st(4) by (auto simp: step_entry_def)
  moreover have "sr_payload rec = norm_dict (updated (step_dict (we_dt env) st) extra)"
  proof -
    have "last_payload (L (''workflow_step'', j)) = Some (norm_dict (updated (step_dict (we_dt env) st) extra))"
      using l st(4) by (simp add: last_payload_def step_entry_def)
    with l show ?thesis by simp
  qed
  ultimately show ?thesis using that st step_payload_node [OF st(3,2)] by simp
qed

lemma wp_step_records:
  assumes "workflow_env_ok env" "keeps env e0 s" "\<And>e. F e s"
    and "\<And>n rec. map_of acc n = Some rec \<Longrightarrow> step_rec env (record_log s) J n rec" "distinct (map fst acc)" "set ids \<subseteq> J"
    and "\<And>records. (\<And>n rec. map_of records n = Some rec \<Longrightarrow> step_rec env (record_log s) J n rec) \<Longrightarrow>
      distinct (map fst records) \<Longrightarrow>
      (\<forall>j\<in>set ids. \<exists>st. view_steps env (record_log s) j = Some st \<and> ws_node_id st \<in> fst ` set records) \<Longrightarrow>
      fst ` set acc \<subseteq> fst ` set records \<Longrightarrow> S records s"
  shows "wp (step_records env ids acc) S F s"
  using assms(4-7)
proof (induction ids arbitrary: acc)
  case Nil
  then show ?case by (auto intro!: wpI)
next
  case (Cons j ids)
  have typed: "typed env (record_log s)" using assms(2) by (auto simp: keeps_def good_def)
  show ?case
    unfolding step_records.simps
  proof (rule wpI_bnd, rule wp_wf_get [OF assms(2)], intro wpI)
    fix x rec v
    assume x: "head_view x (record_log s (''workflow_step'', j))" "x = Some rec" and v: "map_of (sr_payload rec) ''node_id'' = Some v"
    obtain st where st: "view_steps env (record_log s) j = Some st" "step_ok st" "sr_state rec = ws_state st" "v = JStr (ws_node_id st)"
      using head_step [OF assms(1) typed, of rec j] x v by (metis option.inject)
    have rec: "step_rec env (record_log s) J (ws_node_id st) rec"
      unfolding step_rec_def using st x Cons.prems(3) by auto
    show "wp (step_records env ids (AList.update (py_str v) rec acc)) S F s"
    proof (rule Cons.IH)
      show "step_rec env (record_log s) J n r" if "map_of (AList.update (py_str v) rec acc) n = Some r" for n r
        using that rec Cons.prems(1) st(4) by (auto simp: map_of_update_alist split: if_split_asm)
      show "distinct (map fst (AList.update (py_str v) rec acc))" using Cons.prems(2) by (rule distinct_keys_update)
      fix records
      assume *: "\<And>n rec. map_of records n = Some rec \<Longrightarrow> step_rec env (record_log s) J n rec" "distinct (map fst records)"
        "\<forall>j\<in>set ids. \<exists>st. view_steps env (record_log s) j = Some st \<and> ws_node_id st \<in> fst ` set records"
        "fst ` set (AList.update (py_str v) rec acc) \<subseteq> fst ` set records"
      have "fst ` set (AList.update (py_str v) rec acc) = insert (py_str v) (fst ` set acc)"
        by (induction acc) auto
      with *(4) st(4) have "ws_node_id st \<in> fst ` set records" "fst ` set acc \<subseteq> fst ` set records" by auto
      with * st(1) show "S records s" by (intro Cons.prems(4)) auto
    qed (use Cons.prems(3) in simp)
  qed (rule assms(3))+
qed

lemma wp_drive_deterministic:
  assumes env: "workflow_env_ok env" and k: "keeps env e0 s" and h: "at_head env (record_log s) (ws_step_run_id current) current (sr_revision rec)"
    and cur: "step_ok current" "ws_state current = ''pending''"
    and node: "ws_node_id current = wn_node_id node" "wn_node_type node = NT_DETERMINISTIC_COMMAND"
      "ws_step_run_id current \<in> set (wrun_step_run_ids r)" "node_ready env (record_log s) r node"
    and F: "\<And>e s'. keeps env e0 s' \<Longrightarrow> F e s'"
    and S: "\<And>x s'. keeps env e0 s' \<Longrightarrow> evolves env (record_log s) (record_log s') \<Longrightarrow>
      (x \<noteq> None \<Longrightarrow> \<exists>t. view_steps env (record_log s') (ws_step_run_id current) = Some t \<and>
         ws_node_id t = ws_node_id current \<and> ws_state t = ''succeeded'') \<Longrightarrow> S x s'"
  shows "wp (drive_deterministic env clock now node current rec inputs) S F s"
  unfolding drive_deterministic_def
proof (intro wpI)
  fix operation
  assume "we_operations env (case wn_operation_id node of None \<Rightarrow> ''None'' | Some i \<Rightarrow> i) = Some operation"
  with env have op: "op_ok operation" unfolding workflow_env_ok_def op_ok_def by blast
  show "wp (load_retry_policy env node) (\<lambda>policy. wp (drive_loop env clock now operation policy inputs (ws_attempt current)
      current (sr_revision rec)) S F) F s"
  proof (rule wp_load_retry_policy [OF env k])
    show "F e s" for e by (rule F [OF k])
    fix policy
    assume p: "\<forall>q. policy = Some q \<longrightarrow> WorkflowRetryPolicy_ok q"
    show "wp (drive_loop env clock now operation policy inputs (ws_attempt current) current (sr_revision rec)) S F s"
      by (rule wp_drive_loop [OF env op _ k h cur refl node F S]) (use p in auto)
  qed
next
  show "wp (fail_step env clock now current (sr_revision rec) ''timeout'') (\<lambda>x. wp (give None) S F) F s"
    by (rule wp_fail_step [OF env k h node_ready_may_go [OF node(4,1) cur(2) node(3)] cur(1) F])
      (use node(2) S in \<open>auto simp: kind_allows_def intro: pending_next intro!: wpI\<close>)
qed (rule F [OF k])

text \<open>What the sweep knows: the records it read, the states it has noted, and the nodes still to visit.\<close>

definition sweeping ::
    "workflow_env \<Rightarrow> logs \<Rightarrow> logs \<Rightarrow> workflow_run \<Rightarrow> (string \<times> stored_record) list \<Rightarrow> (string \<times> string) list \<Rightarrow> bool" where
  "sweeping env L0 L r records states \<longleftrightarrow> evolves env L0 L \<and>
     (\<forall>n rec. map_of records n = Some rec \<longrightarrow> step_rec env L0 (set (wrun_step_run_ids r)) n rec) \<and>
     (\<forall>n st. map_of states n = Some st \<longrightarrow> done_state st \<longrightarrow>
        (\<exists>j\<in>set (wrun_step_run_ids r). \<exists>s. view_steps env L j = Some s \<and> ws_node_id s = n \<and> done_state (ws_state s))) \<and>
     fst ` set states = fst ` set records \<and> distinct (map fst states)"

definition run_at :: "workflow_env \<Rightarrow> logs \<Rightarrow> workflow_run \<Rightarrow> workflow_revision \<Rightarrow> bool" where
  "run_at env L r v \<longleftrightarrow> (\<exists>i. view_runs env L i = Some r) \<and> wrun_state r = ''running'' \<and>
     revision_at (dec_of env) (view env L) r = Some v \<and> WorkflowRevision_ok v"

lemma run_at_evolves: "evolves env L L' \<Longrightarrow> run_at env L r v \<Longrightarrow> run_at env L' r v"
  unfolding run_at_def evolves_def using frame_views(1) revision_at_le by metis

lemma node_lookup:
  assumes "WorkflowRevision_ok v" "map_of (nodes_by_id (wr_nodes v)) n = Some node"
  shows "node \<in> set (wr_nodes v)" "wn_node_id node = n"
proof -
  have d: "distinct (map wn_node_id (wr_nodes v))"
    using assms(1) by (simp add: WorkflowRevision_ok_def revision_invariants_def Let_def unique_iff)
  from map_of_SomeD [OF assms(2)] show "node \<in> set (wr_nodes v)" "wn_node_id node = n"
    unfolding nodes_by_id_distinct [OF d] by auto
qed

lemma rmap_of_option:
  "rmap (\<lambda>p. of_option e (m p)) ps = Inr found \<Longrightarrow> map m ps = map Some found"
  by (induction ps arbitrary: found) (auto simp: result_simps)

lemma parents_done_ready:
  assumes "sweeping env L0 L r records states" "run_at env L r v" "parents_done states (parents_of v n) = Inr True"
  shows "parents_ready (dec_of env) (view env L) r n"
proof -
  from assms(3) obtain found where f: "map (map_of states) (parents_of v n) = map Some found" "list_all done_state found"
    by (auto simp: parents_done_def result_simps dest!: rmap_of_option)
  have "\<exists>st. map_of states p = Some st \<and> done_state st" if "p \<in> set (parents_of v n)" for p
  proof -
    from that f(1) have "map_of states p \<in> set (map Some found)" by (metis image_eqI list.set_map)
    with f(2) show ?thesis by (auto simp: list_all_iff)
  qed
  with assms(1) have "\<forall>p\<in>set (parents_of v n). \<exists>j\<in>set (wrun_step_run_ids r). \<exists>s. view_steps env L j = Some s \<and>
      ws_node_id s = p \<and> done_state (ws_state s)" unfolding sweeping_def by metis
  with assms(2) show ?thesis unfolding parents_ready_def run_at_def by auto
qed

lemma view_steps_evolves:
  assumes "evolves env L L'" "view_steps env L j = Some s" "done_state (ws_state s)"
  shows "view_steps env L' j = Some s"
  using done_node_le [of "view env L" "view env L'" j s] assms by (simp add: evolves_def)

lemma sweeping_noted:
  assumes "sweeping env L0 L r records states" "map_of states n = Some st" "done_state st"
  shows "\<exists>j\<in>set (wrun_step_run_ids r). \<exists>s. view_steps env L j = Some s \<and> ws_node_id s = n \<and> done_state (ws_state s)"
proof -
  from assms(1) have "\<forall>n st. map_of states n = Some st \<longrightarrow> done_state st \<longrightarrow>
      (\<exists>j\<in>set (wrun_step_run_ids r). \<exists>s. view_steps env L j = Some s \<and> ws_node_id s = n \<and> done_state (ws_state s))"
    unfolding sweeping_def by (elim conjE)
  with assms(2,3) show ?thesis by simp
qed

lemma sweeping_evolves:
  assumes "sweeping env L0 L r records states" "evolves env L L'"
  shows "sweeping env L0 L' r records states"
proof -
  from assms(1) have *: "evolves env L0 L" "\<And>n rec. map_of records n = Some rec \<Longrightarrow> step_rec env L0 (set (wrun_step_run_ids r)) n rec"
    "\<And>n st. map_of states n = Some st \<Longrightarrow> done_state st \<Longrightarrow>
      \<exists>j\<in>set (wrun_step_run_ids r). \<exists>s. view_steps env L j = Some s \<and> ws_node_id s = n \<and> done_state (ws_state s)"
    "fst ` set states = fst ` set records" "distinct (map fst states)"
    unfolding sweeping_def by blast+
  have "\<exists>j\<in>set (wrun_step_run_ids r). \<exists>s. view_steps env L' j = Some s \<and> ws_node_id s = n \<and> done_state (ws_state s)"
    if "map_of states n = Some st" "done_state st" for n st
    using *(3) [OF that] view_steps_evolves [OF assms(2)] by blast
  with * evolves_trans [OF *(1) assms(2)] show ?thesis unfolding sweeping_def by blast
qed

lemma keys_update_set: "fst ` set (AList.update k v al) = insert k (fst ` set al)"
  by (induction al) auto

text \<open>Noting a state that is not done, or that a step of the run has.\<close>

lemma sweeping_note:
  assumes "sweeping env L0 L r records states" "n \<in> fst ` set states"
    and "done_state st \<Longrightarrow> \<exists>j\<in>set (wrun_step_run_ids r). \<exists>s. view_steps env L j = Some s \<and> ws_node_id s = n \<and> done_state (ws_state s)"
  shows "sweeping env L0 L r records (AList.update n st states)"
  using assms unfolding sweeping_def
  by (auto simp: map_of_update_alist keys_update_set distinct_keys_update split: if_split_asm)

text \<open>A visited record gives its step, which no append has replaced yet as far as an append would notice.\<close>

lemma visited:
  assumes "workflow_env_ok env" "good env e0 L" "sweeping env L0 L r records states" "runs_ok (dec_of env) (view env L0)"
    and "map_of records n = Some rec" "step_from_record env rec = Inr step"
  shows "ws_step_run_id step \<in> set (wrun_step_run_ids r)" "ws_node_id step = n" "step_ok step" "sr_state rec = ws_state step"
    "at_head env L (ws_step_run_id step) step (sr_revision rec)"
proof -
  from assms(3,5) obtain j st where j: "j \<in> set (wrun_step_run_ids r)" "view_steps env L0 j = Some st" "ws_node_id st = n"
    "step_ok st" "head_view (Some rec) (L0 (''workflow_step'', j))" "sr_state rec = ws_state st"
    unfolding sweeping_def step_rec_def by metis
  have "view_steps env L0 j = Some step"
    using j(5) assms(6) head_view_last by (fastforce simp: view_steps_def step_from_record_def of_option_Inr_iff)
  with j(2) have st: "st = step" by simp
  have id: "ws_step_run_id step = j" using assms(4) j(2) st unfolding runs_ok_def by simp
  have "seen L (''workflow_step'', j) rec"
  proof (rule seen_frame)
    show "frame L0 L" using assms(3) unfolding sweeping_def evolves_def by blast
    show "seen L0 (''workflow_step'', j) rec" by (rule seen_head, rule j(5))
  qed
  from seen_at_head [OF this assms(6)] j st id
  show "ws_step_run_id step \<in> set (wrun_step_run_ids r)" "ws_node_id step = n" "step_ok step" "sr_state rec = ws_state step"
    "at_head env L (ws_step_run_id step) step (sr_revision rec)" by simp_all
qed

lemma wp_expire_step:
  assumes env: "workflow_env_ok env" and k: "keeps env e0 s" and h: "at_head env (record_log s) (ws_step_run_id st) st (sr_revision rec)"
    and go: "may_go env (record_log s) (ws_step_run_id st) st ''failed''" and st: "step_ok st"
    and F: "\<And>e s'. keeps env e0 s' \<Longrightarrow> F e s'"
    and S: "\<And>b s'. keeps env e0 s' \<Longrightarrow> evolves env (record_log s) (record_log s') \<Longrightarrow> S b s'"
  shows "wp (expire_step env clock now node st rec) S F s"
proof -
  have rest: "wp (if \<not> overdue (ws_started_at st) limit now then give False
      else bnd (fail_step env clock now st (sr_revision rec) reason) (\<lambda>_. give True)) S F s" for limit reason
    by (intro wpI) (use S k in \<open>auto intro!: wp_fail_step [OF env k h go st F] wpI\<close>)
  show ?thesis
    unfolding expire_step_def
    apply (rule wpI_bnd, rule wpI_if)
     apply (rule wpI_bnd, rule wp_load_approval_gate [OF k], rule F [OF k], rule wpI_give, simp only: prod.case, rule rest)
    apply (rule wpI_give, simp only: prod.case, rule rest)
    done
qed

lemma wp_park_step:
  assumes env: "workflow_env_ok env" and k: "keeps env e0 s" and h: "at_head env (record_log s) (ws_step_run_id st) st (sr_revision rec)"
    and go: "may_go env (record_log s) (ws_step_run_id st) st state" and st: "step_ok st" "state \<in> {''waiting'', ''paused''}"
    and F: "\<And>e s'. keeps env e0 s' \<Longrightarrow> F e s'"
    and S: "\<And>s'. keeps env e0 s' \<Longrightarrow> evolves env (record_log s) (record_log s') \<Longrightarrow> S () s'"
  shows "wp (park_step env clock now st rec state) S F s"
  unfolding park_step_def
  apply (rule wpI_bnd, rule wp_persist_step [OF env k, where old = st])
  subgoal using h by simp
  subgoal using go by simp
  subgoal by (simp add: same_step_def)
  subgoal using st by (auto simp: step_ok_def WorkflowStepRun_ok_def versioned_ok_def)
  subgoal by (simp add: extra_ok_def)
  subgoal by (rule F [OF k])
  subgoal for r s' by (rule wpI_give, rule S)
  done

lemma open_running: "wrun_state r = ''running'' \<Longrightarrow> open_run r"
  by (simp add: open_run_def cancellable_run_states_def)

lemma step_state_cases:
  assumes "step_ok st" "\<not> done_state (ws_state st)" "ws_state st \<notin> {''failed'', ''cancelled''}" "ws_state st \<notin> {''waiting'', ''running''}"
    "ws_state st \<noteq> ''paused''"
  shows "ws_state st = ''pending''"
  using assms by (auto simp: step_ok_def WorkflowStepRun_ok_def done_state_def done_step_states_def)

lemma waiting_may_go:
  assumes "view_runs env L i = Some r" "wrun_state r = ''running''" "j \<in> set (wrun_step_run_ids r)" "ws_state st \<in> {''waiting'', ''running''}"
  shows "may_go env L j st ''failed''" "ws_state st = ''waiting'' \<Longrightarrow> may_go env L j st ''succeeded''"
  using assms open_running [of r] unfolding may_go_def by (auto simp: step_next.simps)

lemma wp_sweep_nodes:
  assumes env: "workflow_env_ok env" and "runs_ok (dec_of env) (view env L0)" and F: "\<And>e s'. keeps env e0 s' \<Longrightarrow> F e s'"
    and "keeps env e0 s" "sweeping env L0 (record_log s) r records states" "run_at env (record_log s) r v"
    and "distinct order" "\<And>n. n \<in> set order \<Longrightarrow> map_of states n = map_option sr_state (map_of records n)"
    and S: "\<And>outcome states' s'. keeps env e0 s' \<Longrightarrow> sweeping env L0 (record_log s') r records states' \<Longrightarrow> S (outcome, states') s'"
  shows "wp (sweep_nodes env clock now v records order states inputs) S F s"
  using assms(4-8)
proof (induction order arbitrary: s states inputs)
  case Nil
  then show ?case using S by (auto intro!: wpI)
next
  case (Cons n order)
  note k = Cons.prems(1) and sw = Cons.prems(2) and run = Cons.prems(3)
  have good: "good env e0 (record_log s)" using k by (simp add: keeps_def)
  from run obtain i where i: "view_runs env (record_log s) i = Some r" and running: "wrun_state r = ''running''"
    and v: "WorkflowRevision_ok v" "revision_at (dec_of env) (view env (record_log s)) r = Some v" unfolding run_at_def by blast
  have rest: "map_of states m = map_option sr_state (map_of records m)" if "m \<in> set order" for m
    using Cons.prems(5) that by simp
  have skip: "wp (sweep_nodes env clock now v records order states inputs) S F s"
    by (rule Cons.IH [OF k sw run _ rest]) (use Cons.prems(4) in simp)
  show ?case
    unfolding sweep_nodes.simps
    apply (rule wpI_option)
     apply (rule wpI_fail, rule F [OF k])
    apply (rule wpI_if, rule skip)
    apply (rule wpI_if, rule wpI_give, rule S [OF k sw])
    apply (rule wpI_bnd, rule wpI_lift)
     prefer 2 apply (rule F [OF k])
    apply (rule wpI_if, rule skip)
    apply (simp only: prod.case, rule wpI_option, rule wpI_fail, rule F [OF k])
    apply (rule wpI_option, rule wpI_fail, rule F [OF k])
    apply (rule wpI_bnd, rule wpI_lift)
     prefer 2 apply (rule F [OF k])
    subgoal premises p for state ready node rec step
    proof -
      have n: "n \<in> fst ` set states" using p(1) by (force dest: map_of_SomeD)
      note vis = visited [OF env good sw assms(2) p(7,8)]
      note node = node_lookup [OF v(1) p(6)]
      have state: "ws_state step = state" using vis(4) Cons.prems(5) [of n] p(1,7) by simp
      have ready: "node_ready env (record_log s) r node"
        using parents_done_ready [OF sw run, of n] p(4,5) i running v(2) node unfolding node_ready_def by auto
      have pending: "ws_state step = ''pending''" if "state \<notin> {''waiting'', ''running''}" "state \<noteq> ''paused''"
        by (rule step_state_cases [OF vis(3)]) (use p(2,3) that state in auto)
      have park: "wp (park_step env clock now step rec st) (\<lambda>x. wp (give (SweepBlocked, AList.update n st states)) S F) F s"
        if "state \<notin> {''waiting'', ''running''}" "state \<noteq> ''paused''" "kind_allows (wn_node_type node) st" "st \<in> {''waiting'', ''paused''}" for st
      proof (rule wp_park_step [OF env k vis(5) _ vis(3) that(4) F])
        show "may_go env (record_log s) (ws_step_run_id step) step st"
          by (rule node_ready_may_go [OF ready _ pending [OF that(1,2)] vis(1) that(3)])
            (use node(2) vis(2) that(4) in \<open>auto intro: pending_next\<close>)
        fix s'
        assume k': "keeps env e0 s'" and e: "evolves env (record_log s) (record_log s')"
        have "\<not> done_state st" using that(4) done_pending by auto
        then have "sweeping env L0 (record_log s') r records (AList.update n st states)"
          by (intro sweeping_note [OF sweeping_evolves [OF sw e] n]) simp
        with k' show "wp (give (SweepBlocked, AList.update n st states)) S F s'" by (intro wpI S)
      qed
      have drive: "wp (drive_deterministic env clock now node step rec inputs) (\<lambda>out. wp (case out of
                      None \<Rightarrow> give (SweepFailed, states)
                    | Some x \<Rightarrow> sweep_nodes env clock now v records order
                          (AList.update n ''succeeded'' states) (AList.update n x inputs)) S F) F s"
        if "state \<notin> {''waiting'', ''running''}" "state \<noteq> ''paused''" "wn_node_type node = NT_DETERMINISTIC_COMMAND"
      proof (rule wp_drive_deterministic [OF env k vis(5,3) pending [OF that(1,2)] _ that(3) vis(1) ready F])
        show "ws_node_id step = wn_node_id node" using vis(2) node(2) by simp
        fix out :: "jval option" and s'
        assume k': "keeps env e0 s'" and e: "evolves env (record_log s) (record_log s')"
          and res: "out \<noteq> None \<Longrightarrow> \<exists>t. view_steps env (record_log s') (ws_step_run_id step) = Some t \<and>
            ws_node_id t = ws_node_id step \<and> ws_state t = ''succeeded''"
        note sw' = sweeping_evolves [OF sw e]
        show "wp (case out of None \<Rightarrow> give (SweepFailed, states)
            | Some x \<Rightarrow> sweep_nodes env clock now v records order (AList.update n ''succeeded'' states) (AList.update n x inputs)) S F s'"
        proof (rule wpI_option)
          show "wp (give (SweepFailed, states)) S F s'" by (intro wpI S k' sw')
          fix x
          assume x: "out = Some x"
          have fin: "\<exists>j\<in>set (wrun_step_run_ids r). \<exists>t. view_steps env (record_log s') j = Some t \<and> ws_node_id t = n \<and> done_state (ws_state t)"
            using res x vis(1,2) done_pending(7) by fastforce
          show "wp (sweep_nodes env clock now v records order (AList.update n ''succeeded'' states) (AList.update n x inputs)) S F s'"
          proof (rule Cons.IH [OF k' sweeping_note [OF sw' n fin] run_at_evolves [OF e run]])
            show "map_of (AList.update n ''succeeded'' states) m = map_option sr_state (map_of records m)" if "m \<in> set order" for m
              using that rest Cons.prems(4) by (auto simp: map_of_update_alist)
          qed (use Cons.prems(4) in simp)
        qed
      qed
      have expire: "wp (expire_step env clock now node step rec)
          (\<lambda>b. wp (give (if b then SweepFailed else SweepBlocked, states)) S F) F s" if "state \<in> {''waiting'', ''running''}"
        by (rule wp_expire_step [OF env k vis(5) waiting_may_go(1) [OF i running vis(1)] vis(3) F])
          (use that state sweeping_evolves [OF sw] in \<open>auto intro!: wpI S\<close>)
      show ?thesis
        apply (rule wpI_if, rule wpI_bnd, erule expire)
        apply (rule wpI_if, rule wpI_give, rule S [OF k sw])
        apply (rule wpI_if, rule wpI_bnd, rule park, assumption+, force simp: kind_allows_def, simp)
        apply (rule wpI_if, rule wpI_bnd, rule park, assumption+, simp add: kind_allows_def, simp)
        apply (rule wpI_bnd, rule drive, assumption+, simp)
        done
    qed
    done
qed

section \<open>The operations\<close>

lemma node_unique:
  assumes "runs_ok dec e" "eg_runs e i = Some r" "\<And>p v. dec p = Some v \<Longrightarrow> WorkflowRevision_ok v"
    and "j \<in> set (wrun_step_run_ids r)" "j' \<in> set (wrun_step_run_ids r)" "eg_steps e j = Some s" "eg_steps e j' = Some s'"
    and "ws_node_id s = ws_node_id s'"
  shows "j = j'"
proof -
  from runs_okD [OF assms(1,2)] obtain v order where v: "revision_at dec e r = Some v" "validate_dag v = Inr order"
    and all: "list_all2 (\<lambda>j n. \<exists>s. eg_steps e j = Some s \<and> ws_node_id s = n \<and> ws_workflow_run_id s = i) (wrun_step_run_ids r) order"
    by blast
  have "WorkflowRevision_ok v" using v(1) assms(3) by (auto simp: revision_at_def bind_eq_Some_conv)
  then have d: "distinct order" using validate_dag_Inr(3) [OF _ v(2)] by (simp add: WorkflowRevision_ok_def)
  from assms(4,5) obtain a b where ab: "a < length (wrun_step_run_ids r)" "wrun_step_run_ids r ! a = j"
    "b < length (wrun_step_run_ids r)" "wrun_step_run_ids r ! b = j'" by (auto simp: in_set_conv_nth)
  have "order ! a = ws_node_id s" "order ! b = ws_node_id s'"
    using list_all2_nthD [OF all ab(1)] list_all2_nthD [OF all ab(3)] ab(2,4) assms(6,7) by auto
  then have "order ! a = order ! b" using assms(8) by simp
  then have "a = b" using nth_eq_iff_index_eq [OF d, of a b] ab(1,3) list_all2_lengthD [OF all] by simp
  with ab show ?thesis by simp
qed

lemma dec_of_ok: "workflow_env_ok env \<Longrightarrow> dec_of env p = Some v \<Longrightarrow> WorkflowRevision_ok v"
  by (auto simp: dec_of_def workflow_env_ok_def split: option.splits jval.splits)

lemma wp_persist_run:
  assumes env: "workflow_env_ok env" and k: "keeps env e0 s" and run: "view_runs env (record_log s) i = Some run" "run_ok run"
    and inputs: "wf_json (JObj inputs)" and go: "state \<in> set (run_next (wrun_state run))"
    and all: "state = ''succeeded'' \<Longrightarrow> \<forall>j\<in>set (wrun_step_run_ids run). step_done (view env (record_log s)) j"
    and F: "\<And>e s'. keeps env e0 s' \<Longrightarrow> F e s'" and S: "\<And>s'. keeps env e0 s' \<Longrightarrow> S () s'"
  shows "wp (persist_run env clock (run\<lparr>wrun_state := state, wrun_completed_at := c\<rparr>) n inputs) S F s"
proof -
  have id: "wrun_workflow_run_id run = i"
    using k run(1) unfolding keeps_def good_def runs_ok_def by simp
  have ok: "run_ok (run\<lparr>wrun_state := state, wrun_completed_at := c\<rparr>)"
    using run(2) go by (auto simp: run_ok_def WorkflowRun_ok_def versioned_ok_def run_next.simps split: if_split_asm)
  show ?thesis
    unfolding persist_run_def
    apply (rule wpI_bnd)
    apply (rule wp_put_run [OF env k ok inputs])
      apply (rule F [OF k])
    subgoal using engine_step.RunMove [of "view env (record_log s)" i run state "dec_of env" c] run(1) go all id by simp
    subgoal by (rule wpI_give, erule S)
    done
qed

lemma final_state_next: "final_state oc states \<in> set (run_next ''running'')"
  by (simp add: final_state_def run_next.simps)

lemma sweep_complete:
  assumes env: "workflow_env_ok env" and g: "good env e0 L" and run: "view_runs env L i = Some r"
    and sw: "sweeping env L0 L r records states" and fin: "final_state oc states = ''succeeded''"
    and cov: "\<forall>j\<in>set (wrun_step_run_ids r). \<exists>st. view_steps env L0 j = Some st \<and> ws_node_id st \<in> fst ` set records"
  shows "\<forall>j\<in>set (wrun_step_run_ids r). step_done (view env L) j"
proof
  fix j
  assume j: "j \<in> set (wrun_step_run_ids r)"
  with cov obtain st where st: "view_steps env L0 j = Some st" "ws_node_id st \<in> fst ` set records" by blast
  from sw have le: "engine_le (view env L0) (view env L)" and keys: "fst ` set states = fst ` set records"
    unfolding sweeping_def evolves_def by blast+
  from engine_le_step [OF le, of j st] st(1) obtain t where t: "view_steps env L j = Some t" "ws_node_id t = ws_node_id st"
    by (auto simp: same_step_def)
  from st(2) keys obtain x where x: "map_of states (ws_node_id st) = Some x"
    by (metis domD dom_map_of_conv_image_fst)
  have "done_state x" using fin map_of_SomeD [OF x] by (auto simp: final_state_def list_all_iff split: if_split_asm)
  from sweeping_noted [OF sw x this] obtain j' u where u: "j' \<in> set (wrun_step_run_ids r)" "view_steps env L j' = Some u"
    "ws_node_id u = ws_node_id st" "done_state (ws_state u)" by blast
  have "j = j'"
  proof (rule node_unique [OF _ _ dec_of_ok [OF env] j u(1)])
    show "runs_ok (dec_of env) (view env L)" using g unfolding good_def by blast
    show "eg_runs (view env L) i = Some r" using run by simp
    show "eg_steps (view env L) j = Some t" "eg_steps (view env L) j' = Some u" using t u by simp_all
    show "ws_node_id t = ws_node_id u" using t u by simp
  qed
  with u(2,4) show "step_done (view env L) j" unfolding step_done_def by (intro exI [of _ u]) simp
qed

lemma sweeping_start:
  assumes rec: "\<And>n rec. map_of records n = Some rec \<Longrightarrow> step_rec env L (set (wrun_step_run_ids r)) n rec"
    and "distinct (map fst records)"
  shows "sweeping env L L r records (map (\<lambda>(n, r). (n, sr_state r)) records)"
proof -
  have states: "map_of (map (\<lambda>(n, r). (n, sr_state r)) records) n = map_option sr_state (map_of records n)" for n
    by (induction records) auto
  have keys: "map fst (map (\<lambda>(n, r). (n, sr_state r)) records) = map fst records" by (induction records) auto
  then have "fst ` set (map (\<lambda>(n, r). (n, sr_state r)) records) = fst ` set records" by (metis list.set_map)
  moreover have "\<exists>j\<in>set (wrun_step_run_ids r). \<exists>s. view_steps env L j = Some s \<and> ws_node_id s = n \<and> done_state (ws_state s)"
    if "map_of (map (\<lambda>(n, r). (n, sr_state r)) records) n = Some st" "done_state st" for n st
  proof -
    from that(1) states obtain x where "map_of records n = Some x" "sr_state x = st" by auto
    from rec [OF this(1), unfolded step_rec_def] obtain j s where "j \<in> set (wrun_step_run_ids r)" "view_steps env L j = Some s"
      "ws_node_id s = n" "sr_state x = ws_state s" by blast
    with that(2) \<open>sr_state x = st\<close> show ?thesis by (intro bexI [of _ j] exI [of _ s]) simp_all
  qed
  ultimately show ?thesis using rec assms(2) keys unfolding sweeping_def by (metis evolves_refl)
qed

lemma wp_ready_body:
  assumes env: "workflow_env_ok env" and k: "keeps env e0 s" and F: "\<And>e s'. keeps env e0 s' \<Longrightarrow> F e s'"
    and S: "\<And>x s'. keeps env e0 s' \<Longrightarrow> S x s'"
  shows "wp (ready_body env clock now run_id) S F s"
proof -
  let ?L = "record_log s"
  have g: "good env e0 ?L" using k by (simp add: keeps_def)
  show ?thesis
    unfolding ready_body_def
    apply (rule wpI_bnd, rule wp_load_run [OF env k], rule F [OF k])
    subgoal premises p for run rec inputs
      apply (simp only: prod.case, rule wpI_if, rule wpI_give, rule S [OF k])
      apply (rule wpI_bnd, rule wp_load_revision [OF env k], rule F [OF k])
      subgoal premises q for v
      proof -
        have running: "wrun_state run = ''running''" using q(1) by simp
        have rv: "revision_at (dec_of env) (view env ?L) run = Some v" using q(2) by (simp add: revision_at_def)
        have at: "run_at env ?L run v" using p(1) running rv q(3) unfolding run_at_def by blast
        have sweep: "wp (sweep_nodes env clock now v records order (map (\<lambda>(n, r). (n, sr_state r)) records) ins)
            (\<lambda>x. wp (case x of (outcome, states) \<Rightarrow>
               let final = final_state outcome states;
                   changed = run\<lparr>wrun_state := final,
                     wrun_completed_at := (if final \<in> {''failed'', ''succeeded''} then Some now else None)\<rparr>
               in bnd (persist_run env clock changed (sr_revision rec) inputs) (\<lambda>_.
                  bnd (wf_note env clock run_id run_id ''workflow_state_changed'' engine_actor ''workflow_run_v1''
                         [(''state'', JStr final)]) (\<lambda>_.
                  give changed))) S F) F s"
          if order: "validate_dag v = Inr order" and rec: "\<And>n rec. map_of records n = Some rec \<Longrightarrow> step_rec env ?L (set (wrun_step_run_ids run)) n rec"
            "distinct (map fst records)"
            and cov: "\<forall>j\<in>set (wrun_step_run_ids run). \<exists>st. view_steps env ?L j = Some st \<and> ws_node_id st \<in> fst ` set records"
          for order records ins
        proof (rule wp_sweep_nodes [OF env _ F k _ at])
          show "runs_ok (dec_of env) (view env ?L)" using g by (simp add: good_def)
          have states: "map_of (map (\<lambda>(n, r). (n, sr_state r)) records) n = map_option sr_state (map_of records n)" for n
            by (induction records) auto
          then show "map_of (map (\<lambda>(n, r). (n, sr_state r)) records) n = map_option sr_state (map_of records n)" for n .
          show "distinct order"
            using validate_dag_Inr(3) [OF _ order] q(3) by (simp add: WorkflowRevision_ok_def)
          show "sweeping env ?L ?L run records (map (\<lambda>(n, r). (n, sr_state r)) records)"
            by (rule sweeping_start [OF rec])
          fix outcome states s'
          assume k': "keeps env e0 s'" and sw: "sweeping env ?L (record_log s') run records states"
          have run': "view_runs env (record_log s') run_id = Some run"
            using sw frame_views(1) p(1) unfolding sweeping_def evolves_def by metis
          have g': "good env e0 (record_log s')" using k' by (simp add: keeps_def)
          show "wp (case (outcome, states) of (outcome, states) \<Rightarrow>
               let final = final_state outcome states;
                   changed = run\<lparr>wrun_state := final,
                     wrun_completed_at := (if final \<in> {''failed'', ''succeeded''} then Some now else None)\<rparr>
               in bnd (persist_run env clock changed (sr_revision rec) inputs) (\<lambda>_.
                  bnd (wf_note env clock run_id run_id ''workflow_state_changed'' engine_actor ''workflow_run_v1''
                         [(''state'', JStr final)]) (\<lambda>_.
                  give changed))) S F s'"
            unfolding Let_def prod.case
            apply (rule wpI_bnd, rule wp_persist_run [OF env k' run' p(2,3)])
               apply (simp only: running final_state_next)
              apply (rule sweep_complete [OF env g' run' sw _ cov], assumption)
             apply (erule F)
            by (rule wp_note_give) (auto intro: F S)
        qed
        show ?thesis
          apply (rule wpI_bnd, rule wpI_lift)
           prefer 2 apply (rule F [OF k])
          apply (rule wpI_bnd, rule wp_step_records [OF env k, where J = "set (wrun_step_run_ids run)"], rule F [OF k], simp, simp, simp)
          apply (rule wpI_bnd, rule wpI_lift)
           prefer 2 apply (rule F [OF k])
          apply (rule wpI_bnd, rule sweep, assumption+)
          done
      qed
      done
    done
qed

lemma wp_waiting_step:
  assumes env: "workflow_env_ok env" and k: "keeps env e0 s" and F: "\<And>e. F e s"
    and run: "view_runs env (record_log s) i = Some run"
    and S: "\<And>node st rec. ws_step_run_id st \<in> set (wrun_step_run_ids run) \<Longrightarrow> step_ok st \<Longrightarrow> ws_state st = ''waiting'' \<Longrightarrow>
      at_head env (record_log s) (ws_step_run_id st) st (sr_revision rec) \<Longrightarrow> S (node, st, rec) s"
  shows "wp (waiting_step env run node_id kind) S F s"
proof -
  have g: "good env e0 (record_log s)" using k by (simp add: keeps_def)
  show ?thesis
    unfolding waiting_step_def
    apply (rule wpI_bnd, rule wp_load_revision [OF env k], rule F)
    apply (rule wpI_option, rule wpI_fail, rule F)
    apply (rule wpI_bnd, rule wpI_check)
     prefer 2 apply (rule F)
    apply (rule wpI_bnd, rule wp_step_records [OF env k, where J = "set (wrun_step_run_ids run)"], rule F, simp, simp, simp)
    apply (rule wpI_option, rule wpI_fail, rule F)
    apply (rule wpI_bnd, rule wpI_check)
     prefer 2 apply (rule F)
    apply (rule wpI_bnd, rule wpI_lift)
     prefer 2 apply (rule F)
    subgoal premises p for v node records rec st
    proof -
      have sw: "sweeping env (record_log s) (record_log s) run records (map (\<lambda>(n, r). (n, sr_state r)) records)"
        by (rule sweeping_start [OF p(5,6)])
      note vis = visited [OF env g sw _ p(9) p(11)]
      have "runs_ok (dec_of env) (view env (record_log s))" using g by (simp add: good_def)
      from vis [OF this] p(10) show ?thesis by (intro wpI S) simp_all
    qed
    done
qed

lemma wp_finish_step:
  assumes env: "workflow_env_ok env" and k: "keeps env e0 s" and h: "at_head env (record_log s) (ws_step_run_id st) st (sr_revision rec)"
    and go: "may_go env (record_log s) (ws_step_run_id st) st ''succeeded''" and st: "step_ok st"
    and a: "opt_ok is_Identifier approval_id" and out: "\<And>v. canonical_value (PMap out) = Inr v \<Longrightarrow> wf_json v"
    and F: "\<And>e s'. keeps env e0 s' \<Longrightarrow> F e s'" and S: "\<And>s'. keeps env e0 s' \<Longrightarrow> S () s'"
  shows "wp (finish_step env clock now st rec approval_id out) S F s"
proof -
  have sha: "is_Sha256 (sha256_hex (we_sha env) b)" for b using env by (simp add: workflow_env_ok_def sha256_hex_def)
  show ?thesis
    unfolding finish_step_def
    apply (rule wpI_bnd, rule wpI_lift)
     prefer 2 apply (rule F [OF k])
    apply (rule wpI_prod)
    apply (rule wpI_bnd, rule wp_persist_step [OF env k, where old = st])
    subgoal using h by simp
    subgoal using go by simp
    subgoal by (simp add: same_step_def)
    subgoal using st a sha by (simp add: step_ok_def WorkflowStepRun_ok_def versioned_ok_def) (simp add: opt_ok_def)
    subgoal for x v b
      using out [of v] by (auto simp: safe_payload_def Let_def result_simps extra_ok_def step_extra_keys_def split: if_split_asm)
    subgoal by (rule F [OF k])
    subgoal by (rule wpI_give, rule S)
    done
qed

lemma wp_abandon_step:
  assumes env: "workflow_env_ok env" and k: "keeps env e0 s" and h: "at_head env (record_log s) (ws_step_run_id st) st (sr_revision rec)"
    and go: "may_go env (record_log s) (ws_step_run_id st) st ''failed''" and st: "step_ok st"
    and F: "\<And>e s'. keeps env e0 s' \<Longrightarrow> F e s'"
    and S: "\<And>s'. keeps env e0 s' \<Longrightarrow> evolves env (record_log s) (record_log s') \<Longrightarrow> S () s'"
  shows "wp (abandon_step env clock now st rec reason) S F s"
  unfolding abandon_step_def
  apply (rule wpI_bnd, rule wp_persist_step [OF env k, where old = st])
  subgoal using h by simp
  subgoal using go by simp
  subgoal by (simp add: same_step_def)
  subgoal using st by (simp add: step_ok_def WorkflowStepRun_ok_def versioned_ok_def)
  subgoal by (simp add: extra_ok_def step_extra_keys_def)
  subgoal by (rule F [OF k])
  subgoal by (rule wpI_give, rule S)
  done

lemma str_dict_wf:
  "distinct [a, b] \<Longrightarrow> canonical_value (PMap [(a, PStr x), (b, PStr y)]) = Inr v \<Longrightarrow> wf_json v"
  "canonical_value (PMap [(a, PStr x)]) = Inr v \<Longrightarrow> wf_json v"
  by auto

lemma wp_query_keep: "(\<And>x. S x s) \<Longrightarrow> (\<And>e. F e s) \<Longrightarrow> wp (query h q) S F s"
  by (simp add: wp_query split: sum.split)

lemma wp_grant_body:
  assumes env: "workflow_env_ok env" and k: "keeps env e0 s" and a: "is_Identifier approval_id"
    and F: "\<And>e s'. keeps env e0 s' \<Longrightarrow> F e s'" and S: "\<And>x s'. keeps env e0 s' \<Longrightarrow> S x s'"
  shows "wp (grant_body env clock now run_id node_id approval_id actor_id) S F s"
  unfolding grant_body_def
  apply (rule wpI_bnd, rule wp_load_run_in [OF env k], rule F [OF k])
  apply (simp only: prod.case)
  apply (rule wpI_bnd, rule wp_waiting_step [OF env k], rule F [OF k], assumption)
  apply (simp only: prod.case)
  apply (rule wpI_bnd, rule wp_load_approval_gate [OF k], rule F [OF k])
  subgoal premises p for run r inputs node st rec gate
  proof -
    note go = waiting_may_go [OF p(1,5,6), of st]
    show ?thesis
      apply (rule wpI_if, rule wpI_bnd, rule wp_abandon_step [OF env k p(9) go(1) p(7) F])
         apply (simp add: p(8))
        apply assumption
       apply (rule wpI_fail, erule F)
      apply (rule wpI_bnd, unfold require_grant_def, rule wp_query_keep)
       prefer 2 apply (rule F [OF k])
      apply (rule wpI_bnd, rule wp_finish_step [OF env k p(9) go(2) p(7) _ _ F])
           apply (simp add: p(8))
          apply (rule p(8))
         apply (simp add: opt_ok_def a)
        apply (erule str_dict_wf(1) [rotated], simp)
       apply assumption
      by (rule wp_note_give) (auto intro: F S)
  qed
  done

lemma wp_wake_body:
  assumes env: "workflow_env_ok env" and k: "keeps env e0 s"
    and F: "\<And>e s'. keeps env e0 s' \<Longrightarrow> F e s'" and S: "\<And>x s'. keeps env e0 s' \<Longrightarrow> S x s'"
  shows "wp (wake_body env clock now run_id node_id actor_id) S F s"
  unfolding wake_body_def
  apply (rule wpI_bnd, rule wp_load_run_in [OF env k], rule F [OF k])
  apply (simp only: prod.case)
  apply (rule wpI_bnd, rule wp_waiting_step [OF env k], rule F [OF k], assumption)
  apply (simp only: prod.case)
  subgoal premises p for run r inputs node st rec
  proof -
    note go = waiting_may_go [OF p(1,5,6), of st]
    show ?thesis
      apply (rule wpI_if, rule wpI_bnd, rule wp_abandon_step [OF env k p(9) go(1) p(7) F])
         apply (simp add: p(8))
        apply assumption
       apply (rule wpI_fail, erule F)
      apply (rule wpI_bnd, rule wp_finish_step [OF env k p(9) go(2) p(7) _ _ F])
           apply (simp add: p(8))
          apply (rule p(8))
      subgoal using p(7) by (simp add: step_ok_def WorkflowStepRun_ok_def)
        apply (erule str_dict_wf(2))
       apply assumption
      by (rule wp_note_give) (auto intro: F S)
  qed
  done

lemma wp_deny_body:
  assumes env: "workflow_env_ok env" and k: "keeps env e0 s"
    and F: "\<And>e s'. keeps env e0 s' \<Longrightarrow> F e s'" and S: "\<And>x s'. keeps env e0 s' \<Longrightarrow> S x s'"
  shows "wp (deny_body env clock now run_id node_id actor_id) S F s"
  unfolding deny_body_def
  apply (rule wpI_bnd, rule wp_load_run_in [OF env k], rule F [OF k])
  apply (simp only: prod.case)
  apply (rule wpI_bnd, rule wp_waiting_step [OF env k], rule F [OF k], assumption)
  apply (simp only: prod.case)
  subgoal premises p for run r inputs node st rec
  proof -
    note go = waiting_may_go [OF p(1,5,6), of st]
    show ?thesis
      apply (rule wpI_bnd, rule wp_abandon_step [OF env k p(9) go(1) p(7) F])
        apply (simp add: p(8))
       apply assumption
      subgoal premises q for s'
      proof -
        have run: "view_runs env (record_log s') run_id = Some run"
          using q(2) frame_views(1) p(1) unfolding evolves_def by metis
        show ?thesis
          unfolding Let_def
          apply (rule wpI_bnd, rule wp_persist_run [OF env q(1) run p(2,3)])
             apply (simp add: p(5) run_next.simps)
            apply simp
           apply (erule F)
          by (rule wp_note_give) (auto intro: F S)
      qed
      done
  qed
  done

lemma wp_transition_body:
  assumes env: "workflow_env_ok env" and k: "keeps env e0 s" and to: "next_state \<in> set (run_next expected)" "next_state \<noteq> ''succeeded''"
    and F: "\<And>e s'. keeps env e0 s' \<Longrightarrow> F e s'" and S: "\<And>x s'. keeps env e0 s' \<Longrightarrow> S x s'"
  shows "wp (bnd (load_run_in env run_id expected) (\<lambda>(run, run_record, inputs).
        let changed = run\<lparr>wrun_state := next_state\<rparr> in
        bnd (persist_run env clock changed (sr_revision run_record) inputs) (\<lambda>_.
        bnd (wf_note env clock run_id run_id event_type actor_id ''workflow_run_v1'' [(''state'', JStr next_state)]) (\<lambda>_.
        give changed)))) S F s"
  apply (rule wpI_bnd, rule wp_load_run_in [OF env k], rule F [OF k])
  apply (simp only: prod.case Let_def)
  subgoal premises p for run r inputs
  proof -
    have same: "run\<lparr>wrun_state := next_state, wrun_completed_at := wrun_completed_at run\<rparr> = run\<lparr>wrun_state := next_state\<rparr>" by simp
    show ?thesis
      apply (rule wpI_bnd)
      apply (rule wp_persist_run [OF env k p(1-3), where state = next_state and c = "wrun_completed_at run", unfolded same])
         apply (simp add: p(5) to(1))
        apply (simp add: to(2))
       apply (erule F)
      by (rule wp_note_give) (auto intro: F S)
  qed
  done

lemma cancel_next: "x \<in> {''pending'', ''waiting'', ''paused'', ''running''} \<Longrightarrow> ''cancelled'' \<in> set (step_next x)"
  by (elim insertE emptyE; simp add: step_next.simps)

lemma wp_cancel_step:
  assumes env: "workflow_env_ok env" and k: "keeps env e0 s" and run: "view_runs env (record_log s) i = Some run" "open_run run"
    and j: "j \<in> set (wrun_step_run_ids run)" and F: "\<And>e s'. keeps env e0 s' \<Longrightarrow> F e s'"
    and S: "\<And>s'. keeps env e0 s' \<Longrightarrow> view_runs env (record_log s') i = Some run \<Longrightarrow> S () s'"
  shows "wp (cancel_step env clock j) S F s"
  unfolding cancel_step_def
  apply (rule wpI_bnd, rule wp_wf_get [OF k])
   prefer 2 apply (rule F [OF k])
  apply (rule wpI_option, rule wpI_fail, rule F [OF k])
  apply (rule wpI_if)
   prefer 2 apply (rule wpI_give, rule S [OF k run(1)])
  apply (rule wpI_bnd, rule wpI_lift)
   prefer 2 apply (rule F [OF k])
  subgoal premises p for x rec st
  proof -
    let ?L = "record_log s"
    have g: "good env e0 ?L" "typed env ?L" using k by (simp_all add: keeps_def good_def)
    have h: "head_view (Some rec) (?L (''workflow_step'', j))" using p(1,2) by simp
    obtain t where t: "view_steps env ?L j = Some t" "step_ok t" "sr_state rec = ws_state t" using head_step [OF env g(2) h] by metis
    have "view_steps env ?L j = Some st"
      using p(4) head_view_last [OF h] by (simp add: view_steps_def step_from_record_def of_option_Inr_iff)
    with t have st: "view_steps env ?L j = Some st" "step_ok st" "sr_state rec = ws_state st" by simp_all
    have id: "ws_step_run_id st = j" using g(1) st(1) unfolding good_def runs_ok_def by simp
    have head: "at_head env ?L j st (sr_revision rec)" using st(1) by (simp add: at_head_def)
    have go: "may_go env ?L j st ''cancelled''"
      using p(3) st(3) run j cancel_next unfolding may_go_def by auto
    show ?thesis
      apply (rule wpI_bnd, rule wp_persist_step [OF env k, where old = st])
      subgoal using head id by simp
      subgoal using go id by simp
      subgoal by (simp add: same_step_def)
      subgoal using st(2) by (simp add: step_ok_def WorkflowStepRun_ok_def versioned_ok_def)
      subgoal by (simp add: extra_ok_def)
      subgoal by (rule F [OF k])
      subgoal for r s' by (rule wpI_give, rule S, assumption) (metis evolves_def frame_views(1) run(1))
      done
  qed
  done

lemma wp_cancel_body:
  assumes env: "workflow_env_ok env" and k: "keeps env e0 s"
    and F: "\<And>e s'. keeps env e0 s' \<Longrightarrow> F e s'" and S: "\<And>x s'. keeps env e0 s' \<Longrightarrow> S x s'"
  shows "wp (cancel_body env clock run_id actor_id) S F s"
  unfolding cancel_body_def
  apply (rule wpI_bnd, rule wp_load_run [OF env k], rule F [OF k])
  apply (simp only: prod.case)
  apply (rule wpI_bnd, rule wpI_check)
   prefer 2 apply (rule F [OF k])
  subgoal premises p for run rec inputs
  proof -
    let ?I = "\<lambda>s'. keeps env e0 s' \<and> view_runs env (record_log s') run_id = Some run"
    have "open_run run" using p(5) by (simp add: open_run_def)
    note step = wp_cancel_step [OF env _ _ this]
    have fin: "wp (let cancelled = run\<lparr>wrun_state := ''cancelled'', wrun_completed_at := Some clock\<rparr> in
     bnd (persist_run env clock cancelled (sr_revision rec) inputs) (\<lambda>_.
     bnd (wf_note env clock run_id run_id ''workflow_cancelled'' actor_id ''workflow_run_v1''
            [(''workflow_run_id'', JStr run_id)]) (\<lambda>_.
     give cancelled))) S F s'" if "?I s'" for s'
      unfolding Let_def
      apply (rule wpI_bnd, rule wp_persist_run [OF env conjunct1 [OF that] conjunct2 [OF that] p(2,3)])
      subgoal using p(5) by (auto simp: cancellable_run_states_def run_next.simps)
        apply simp
       apply (erule F)
      by (rule wp_note_give) (auto intro: F S)
    show ?thesis
      apply (rule wpI_bnd, rule wp_each [where I = ?I])
      subgoal for j s' by (elim conjE, rule step) (auto intro: F)
      subgoal using k p(1) by simp
      subgoal by (rule fin)
      done
  qed
  done

subsection \<open>Starting\<close>

text \<open>What creating a step leaves alone.\<close>

definition extends :: "workflow_env \<Rightarrow> logs \<Rightarrow> logs \<Rightarrow> bool" where
  "extends env L L' \<longleftrightarrow> evolves env L L' \<and> (\<forall>j s. view_steps env L j = Some s \<longrightarrow> view_steps env L' j = Some s)"

lemma extends_refl [simp]: "extends env L L"
  by (simp add: extends_def)

lemma extends_trans: "extends env L L' \<Longrightarrow> extends env L' L'' \<Longrightarrow> extends env L L''"
  unfolding extends_def using evolves_trans by blast

definition fresh_step :: "workflow_env \<Rightarrow> logs \<Rightarrow> string \<Rightarrow> string \<Rightarrow> string \<Rightarrow> bool" where
  "fresh_step env L run_id j n \<longleftrightarrow>
     (\<exists>s. view_steps env L j = Some s \<and> ws_node_id s = n \<and> ws_workflow_run_id s = run_id \<and> ws_state s = ''pending'')"

lemma new_step_Inr:
  assumes env: "workflow_env_ok env" and ids: "is_Identifier run_id" "is_Identifier node_id"
    and s: "new_step env run_id input_sha256 node_id = Inr s"
  shows "step_ok s" "ws_state s = ''pending''" "ws_node_id s = node_id" "ws_workflow_run_id s = run_id"
    "we_strip env (ws_step_run_id s) = ws_step_run_id s"
proof -
  have strip: "we_strip env run_id = run_id" "we_strip env node_id = node_id"
    using env ids by (simp_all add: workflow_env_ok_def)
  show "step_ok s" "ws_state s = ''pending''" "ws_node_id s = node_id" "ws_workflow_run_id s = run_id"
    using s strip by (auto simp: new_step_def make_WorkflowStepRun_def Let_def step_ok_def split: if_split_asm)
  from \<open>step_ok s\<close> have "is_Identifier (ws_step_run_id s)" by (simp add: step_ok_def WorkflowStepRun_ok_def)
  with env show "we_strip env (ws_step_run_id s) = ws_step_run_id s" by (simp add: workflow_env_ok_def)
qed

lemma no_step: "None = expected_for (length (L (''workflow_step'', j))) \<Longrightarrow> view_steps env L j = None"
  by (auto simp: expected_for_def view_steps_def last_payload_def split: if_split_asm)

lemma wp_create_steps:
  assumes env: "workflow_env_ok env" and k: "keeps env e0 s" and ids: "is_Identifier run_id" "list_all is_Identifier order"
    and F: "\<And>e s'. keeps env e0 s' \<Longrightarrow> F e s'"
    and S: "\<And>steps s'. keeps env e0 s' \<Longrightarrow> extends env (record_log s) (record_log s') \<Longrightarrow>
      list_all2 (fresh_step env (record_log s') run_id) (map ws_step_run_id steps) order \<Longrightarrow>
      list_all (\<lambda>st. we_strip env (ws_step_run_id st) = ws_step_run_id st) steps \<Longrightarrow> S steps s'"
  shows "wp (create_steps env clock run_id input_sha256 order) S F s"
  using k ids(2) S
proof (induction order arbitrary: s S)
  case Nil
  then show ?case by (auto intro!: wpI)
next
  case (Cons n order)
  note k = Cons.prems(1)
  have n: "is_Identifier n" and rest: "list_all is_Identifier order" using Cons.prems(2) by simp_all
  show ?case
    unfolding create_steps.simps
    apply (rule wpI_bnd, rule wpI_lift)
     prefer 2 apply (rule F [OF k])
    subgoal premises p for st
    proof -
      note st = new_step_Inr [OF env ids(1) n p]
      have plain: "step_dict (we_dt env) st = updated (step_dict (we_dt env) st) []" by (simp add: updated_def)
      show ?thesis
        apply (rule wpI_bnd, subst plain, rule wp_put_step [OF env k st(1)])
        subgoal by (simp add: extra_ok_def)
        subgoal by (rule F [OF k])
        subgoal premises q
        proof -
          have "view_steps env (record_log s) (ws_step_run_id st) = None" by (rule no_step, rule q)
          then show ?thesis using engine_step.NewStep [of "view env (record_log s)" "ws_step_run_id st" st] st(2) by simp
        qed
        subgoal premises q for r s'
        proof -
          have new: "view_steps env (record_log s) (ws_step_run_id st) = None"
            by (rule no_step) (use q(6) in simp)
          have ext: "extends env (record_log s) (record_log s')"
            using q(2,3,5) new unfolding extends_def evolves_def by auto
          show ?thesis
            apply (rule wpI_bnd, rule Cons.IH [OF q(1) rest])
            subgoal premises t for s'' steps
            proof (rule wpI_give, rule Cons.prems(3) [OF t(1) extends_trans [OF ext t(2)]])
              have "view_steps env (record_log s'') (ws_step_run_id st) = Some st" using t(2) q(3) unfolding extends_def by simp
              then show "list_all2 (fresh_step env (record_log s'') run_id) (map ws_step_run_id (st # steps)) (n # order)"
                using t(3) st(2-4) unfolding list.map list_all2_Cons by (simp add: fresh_step_def [of env _ run_id "ws_step_run_id st" n])
              show "list_all (\<lambda>st. we_strip env (ws_step_run_id st) = ws_step_run_id st) (st # steps)"
                using t(4) st(5) by simp
            qed
            done
        qed
        done
    qed
    done
qed

lemma wp_put_run_new:
  assumes env: "workflow_env_ok env" and k: "keeps env e0 s" and run: "run_ok run" "wf_json (JObj inputs)"
    "wrun_workflow_run_id run = i" "wrun_state run = ''running''"
    and rv: "revision_at (dec_of env) (view env (record_log s)) run = Some v" "validate_dag v = Inr order"
    and steps: "list_all2 (fresh_step env (record_log s) i) (wrun_step_run_ids run) order"
    and F: "\<And>e. F e s" and S: "\<And>r s'. keeps env e0 s' \<Longrightarrow> S r s'"
  shows "wp (wf_put env clock ''workflow_run'' i (updated (run_dict (we_dt env) run) [(''inputs'', JObj inputs)]) (wrun_state run) None) S F s"
proof (rule wp_put_run [OF env k run(1,2)])
  let ?L = "record_log s"
  assume "None = expected_for (length (?L (''workflow_run'', i)))"
  then have "view_runs env ?L i = None" by (auto simp: expected_for_def view_runs_def last_payload_def split: if_split_asm)
  moreover have "list_all2 (\<lambda>j n. \<exists>s. eg_steps (view env ?L) j = Some s \<and> ws_node_id s = n \<and> ws_workflow_run_id s = i \<and>
      ws_state s = ''pending'') (wrun_step_run_ids run) order"
    using steps unfolding fresh_step_def [abs_def] by simp
  ultimately show "engine_step (dec_of env) (view env ?L) ((view env ?L)\<lparr>eg_runs := (view_runs env ?L)(i \<mapsto> run)\<rparr>)"
    using engine_step.NewRun [of "view env ?L" i run "dec_of env" v order] run(3,4) rv by simp
qed (use F S in auto)

lemma make_WorkflowRun_Inr:
  "make_WorkflowRun env r = Inr r' \<Longrightarrow> WorkflowRun_ok r' \<and> extensions r' = extensions r \<and> wrun_state r' = wrun_state r \<and>
     wrun_workflow_run_id r' = we_strip env (wrun_workflow_run_id r) \<and> wrun_revision_id r' = we_strip env (wrun_revision_id r) \<and>
     wrun_step_run_ids r' = map (we_strip env) (wrun_step_run_ids r)"
  by (auto simp: make_WorkflowRun_def Let_def split: if_split_asm)

lemma wp_start_body:
  assumes env: "workflow_env_ok env" and k: "keeps env e0 s" and ids: "is_Identifier run_id" "is_Identifier revision_id"
    and inputs: "wf_json (JObj inputs)"
    and F: "\<And>e s'. keeps env e0 s' \<Longrightarrow> F e s'" and S: "\<And>x s'. keeps env e0 s' \<Longrightarrow> S x s'"
  shows "wp (start_body env clock revision_id inputs input_sha256 actor_id replay_of run_id) S F s"
  unfolding start_body_def
  apply (rule wpI_bnd, rule wp_wf_get [OF k])
   prefer 2 apply (rule F [OF k])
  apply (rule wpI_option)
   prefer 2 apply (rule wpI_lift, rule S [OF k], rule F [OF k])
  apply (rule wpI_bnd, rule wp_load_revision [OF env k], rule F [OF k])
  apply (rule wpI_bnd, rule wp_wf_get [OF k])
   prefer 2 apply (rule F [OF k])
  apply (rule wpI_bnd, rule wpI_check)
   prefer 2 apply (rule F [OF k])
  apply (rule wpI_bnd, rule wpI_lift)
   prefer 2 apply (rule F [OF k])
  subgoal premises p for x v d order
  proof -
    have strip: "we_strip env run_id = run_id" "we_strip env revision_id = revision_id"
      using env ids by (simp_all add: workflow_env_ok_def)
    have "set order = set (dag_ids v)"
      using validate_dag_Inr(4) [OF _ p(7)] p(4) by (simp add: WorkflowRevision_ok_def)
    then have order: "list_all is_Identifier order"
      using p(4) by (auto simp: list_all_iff WorkflowRevision_ok_def WorkflowNode_ok_def dag_ids_def)
    show ?thesis
      apply (rule wpI_bnd, rule wp_create_steps [OF env k ids(1) order F], assumption)
      apply (rule wpI_bnd, rule wpI_lift)
       prefer 2 apply (erule F)
      subgoal premises q for steps s' run
      proof -
        note run = make_WorkflowRun_Inr [OF q(5)]
        have ids': "wrun_step_run_ids run = map ws_step_run_id steps" using run q(4) by (auto simp: list_all_iff)
        have "revision_at (dec_of env) (view env (record_log s)) run = Some v"
          using p(3) run strip by (simp add: revision_at_def)
        then have rv: "revision_at (dec_of env) (view env (record_log s')) run = Some v"
          using q(2) revision_at_le unfolding extends_def evolves_def by blast
        show ?thesis
          apply (rule wpI_bnd, rule wp_put_run_new [OF env q(1) _ inputs _ _ rv p(7)])
               apply (simp add: run run_ok_def)
              apply (simp add: run strip)
             apply (simp add: run)
            apply (simp add: ids' q(3))
           apply (rule F [OF q(1)])
          by (rule wp_note_give) (auto intro: F S)
      qed
      done
  qed
  done

subsection \<open>Registering\<close>

lemma wp_store_immutable:
  assumes k: "keeps env e0 s" and "wf_json (JObj p)" "kind \<notin> {''workflow_step'', ''workflow_run'', ''workflow_revision''}"
    and F: "\<And>e s'. keeps env e0 s' \<Longrightarrow> F e s'" and S: "\<And>s'. keeps env e0 s' \<Longrightarrow> S () s'"
  shows "wp (store_immutable env clock kind i p) S F s"
  unfolding store_immutable_def
  apply (rule wpI_bnd, rule wp_wf_get [OF k])
   prefer 2 apply (rule F [OF k])
  apply (rule wpI_option)
   apply (rule wpI_bnd, rule wp_put_other [OF k assms(2,3)], rule F [OF k])
   apply (rule wpI_give, erule S)
  apply (rule wpI_check, rule S [OF k], rule F [OF k])
  done

lemma wp_require_node_reference:
  assumes k: "keeps env e0 s" and F: "\<And>e. F e s" and S: "S () s"
  shows "wp (require_node_reference env node) S F s"
  unfolding require_node_reference_def
  by (intro wpI; (rule wp_wf_get [OF k], intro wpI)?) (use F S k in \<open>auto intro!: wpI wp_wf_get\<close>)

lemma wf_retry_policy_dict: "WorkflowRetryPolicy_ok p \<Longrightarrow> wf_json (JObj (retry_policy_dict p))"
  by (simp add: WorkflowRetryPolicy_ok_def versioned_ok_def retry_policy_dict_def versioned_fields_def list_all_iff)

lemma wf_approval_gate_dict: "WorkflowApprovalGate_ok g \<Longrightarrow> wf_json (JObj (approval_gate_dict g))"
  by (simp add: WorkflowApprovalGate_ok_def versioned_ok_def approval_gate_dict_def versioned_fields_def)

lemma wf_definition_dict: "WorkflowDefinition_ok d \<Longrightarrow> wf_json (JObj (definition_dict (d\<lparr>wd_current_revision_id := c\<rparr>)))"
  by (simp add: WorkflowDefinition_ok_def versioned_ok_def definition_dict_def versioned_fields_def jopt_def split: option.split)

lemma wf_node_dict: "WorkflowNode_ok n \<Longrightarrow> wf_json (JObj (node_dict n))"
  by (simp add: WorkflowNode_ok_def versioned_ok_def node_dict_def versioned_fields_def jopt_def split: option.split)

lemma wf_edge_dict: "WorkflowEdge_ok e \<Longrightarrow> wf_json (JObj (edge_dict e))"
  by (simp add: WorkflowEdge_ok_def versioned_ok_def edge_dict_def versioned_fields_def jopt_def split: option.split)

lemma wf_revision_dict:
  assumes "WorkflowRevision_ok r"
  shows "wf_json (JObj (revision_dict dt r))"
proof -
  have "wf_json (JList (map (\<lambda>n. JObj (node_dict n)) (wr_nodes r)))" "wf_json (JList (map (\<lambda>e. JObj (edge_dict e)) (wr_edges r)))"
    using assms wf_node_dict wf_edge_dict
    by (auto simp: WorkflowRevision_ok_def list_all_iff simp del: wf_json.simps(6) simp add: wf_json.simps(5))
  then show ?thesis
    using assms
    by (simp add: WorkflowRevision_ok_def versioned_ok_def revision_dict_def versioned_fields_def jopt_def list_all_iff split: option.split)
qed

lemma wp_register_body:
  assumes k: "keeps env e0 s" and ok: "WorkflowDefinition_ok d" "WorkflowRevision_ok v" "list_all WorkflowRetryPolicy_ok policies"
    "list_all WorkflowApprovalGate_ok gates"
    and F: "\<And>e s'. keeps env e0 s' \<Longrightarrow> F e s'" and S: "\<And>x s'. keeps env e0 s' \<Longrightarrow> S x s'"
  shows "wp (register_body env clock d v actor_id policies gates) S F s"
  unfolding register_body_def
  apply (rule wpI_bnd, rule wp_each [where I = "keeps env e0"])
  subgoal for p s' using ok(3) F by (auto simp: list_all_iff intro!: wp_store_immutable wf_retry_policy_dict simp del: wf_json.simps)
   apply (rule k)
  apply (rule wpI_bnd, rule wp_each [where I = "keeps env e0"])
  subgoal for s' g s'' using ok(4) F by (auto simp: list_all_iff intro!: wp_store_immutable wf_approval_gate_dict simp del: wf_json.simps)
   apply assumption
  apply (rule wpI_bnd, rule wp_each [where I = "keeps env e0"])
  subgoal premises p by (rule wp_require_node_reference [OF p(4)]) (use p(4) F in auto)
   apply assumption
  apply (rule wpI_bnd, rule wp_wf_get, assumption)
   prefer 2 apply (erule F)
  apply (rule wpI_option)
   prefer 2 apply (rule wpI_bnd, rule wpI_check, rule wpI_give, erule S, erule F)
  apply (rule wpI_bnd, rule wp_wf_get, assumption)
   prefer 2 apply (erule F)
  apply (rule wpI_bnd, rule wp_put_other, assumption, rule wf_definition_dict [OF ok(1)], simp)
   apply (erule F)
  apply (rule wpI_bnd, rule wp_put_revision, assumption, rule wf_revision_dict [OF ok(2)])
   apply (erule F)
  apply (rule wp_note_give, assumption, erule F, erule S)
  done

section \<open>Calls\<close>

text \<open>A call of the service, whatever it returns or raises. The arguments are Python values of the declared
  types. \<open>Foreign\<close> is any other service of the platform: it keeps the store valid and does not write the
  records of the engine.\<close>

inductive workflow_call :: "workflow_env \<Rightarrow> platform_db option \<Rightarrow> platform_db option \<Rightarrow> bool" for env where
  Register: "register env clock d v actor_id policies gates f = (x, f') \<Longrightarrow> WorkflowDefinition_ok d \<Longrightarrow> WorkflowRevision_ok v \<Longrightarrow>
     list_all WorkflowRetryPolicy_ok policies \<Longrightarrow> list_all WorkflowApprovalGate_ok gates \<Longrightarrow> workflow_call env f f'"
| Start: "start env clock revision_id inputs actor_id key replay_of f = (y, f') \<Longrightarrow> is_Identifier revision_id \<Longrightarrow>
     (\<And>v. canonical_value (PMap inputs) = Inr v \<Longrightarrow> wf_json v) \<Longrightarrow> workflow_call env f f'"
| Ready: "run_ready_steps env clock run_id at f = (y, f') \<Longrightarrow> workflow_call env f f'"
| Grant: "grant_approval env clock run_id node_id approval_id actor_id at f = (y, f') \<Longrightarrow> is_Identifier approval_id \<Longrightarrow>
     workflow_call env f f'"
| Deny: "deny_approval env clock run_id node_id actor_id at f = (y, f') \<Longrightarrow> workflow_call env f f'"
| Wake: "wake env clock run_id node_id actor_id at f = (y, f') \<Longrightarrow> workflow_call env f f'"
| Pause: "pause env clock run_id actor_id f = (y, f') \<Longrightarrow> workflow_call env f f'"
| Resume: "resume env clock run_id actor_id f = (y, f') \<Longrightarrow> workflow_call env f f'"
| Cancel: "cancel env clock run_id actor_id f = (y, f') \<Longrightarrow> workflow_call env f f'"
| Foreign: "file_ok (we_sha env) f' \<Longrightarrow>
     (\<And>k i. k \<in> {''workflow_step'', ''workflow_run'', ''workflow_revision''} \<Longrightarrow> file_log f' (k, i) = file_log f (k, i)) \<Longrightarrow>
     workflow_call env f f'"

definition engine_of :: "workflow_env \<Rightarrow> platform_db option \<Rightarrow> engine" where
  "engine_of env f = view env (file_log f)"

definition sound_file :: "workflow_env \<Rightarrow> platform_db option \<Rightarrow> bool" where
  "sound_file env f \<longleftrightarrow> file_ok (we_sha env) f \<and> typed env (file_log f) \<and> runs_ok (dec_of env) (engine_of env f) \<and>
     order_ok (dec_of env) (engine_of env f)"

definition keeps_file :: "workflow_env \<Rightarrow> engine \<Rightarrow> platform_db option \<Rightarrow> bool" where
  "keeps_file env e0 f \<longleftrightarrow> file_ok (we_sha env) f \<and> good env e0 (file_log f)"

text \<open>A program on the file that keeps it in this sense, whatever its outcome.\<close>

definition keeping :: "workflow_env \<Rightarrow> engine \<Rightarrow> (platform_db option, workflow_error, 'a) prog \<Rightarrow> bool" where
  "keeping env e0 m \<longleftrightarrow> (\<forall>f. keeps_file env e0 f \<longrightarrow> wp m (\<lambda>_. keeps_file env e0) (\<lambda>_. keeps_file env e0) f)"

lemma keeping_run: "keeping env e0 m \<Longrightarrow> keeps_file env e0 f \<Longrightarrow> m f = (x, f') \<Longrightarrow> keeps_file env e0 f'"
  unfolding keeping_def by (blast intro: wp_run)

lemma keeping_store:
  assumes "\<And>db. keeps env e0 db \<Longrightarrow> wp body (\<lambda>_. keeps env e0) (\<lambda>_. keeps env e0) db"
  shows "keeping env e0 (with_store h (we_sha env) now body)"
  unfolding keeping_def
proof (intro allI impI, rule wp_with_store)
  fix f
  assume f: "keeps_file env e0 f"
  show "file_ok (we_sha env) f" "keeps_file env e0 f" using f by (simp_all add: keeps_file_def)
  fix db
  assume "db_ok (we_sha env) db" "record_log db = file_log f"
  then have k: "keeps env e0 db" using f by (simp add: keeps_def keeps_file_def)
  have eq: "keeps_file env e0 (Some db') = keeps env e0 db'" for db' by (simp add: keeps_file_def keeps_def)
  show "wp body (\<lambda>_ db'. keeps_file env e0 (Some db')) (\<lambda>_ db'. keeps_file env e0 (Some db')) db"
    unfolding eq by (rule assms [OF k])
qed

lemma keeping_bnd:
  assumes "keeping env e0 m" "\<And>x. keeping env e0 (k x)"
  shows "keeping env e0 (bnd m k)"
  using assms unfolding keeping_def by (auto intro!: wpI elim!: wp_mono)

lemma keeping_lift:
  assumes "\<And>x. r = Inr x \<Longrightarrow> keeping env e0 (k x)"
  shows "keeping env e0 (bnd (lift r) k)"
  using assms unfolding keeping_def by (auto intro!: wpI)

lemma keeping_check: "keeping env e0 (check b e)"
  unfolding keeping_def by (auto intro!: wpI)

lemma keeping_workflows: "keeping env e0 (require_workflows env)"
  unfolding keeping_def require_workflows_def by (auto split: sum.split intro!: wpI)

lemma keeping_runtime: "keeping env e0 (require_runtime env)"
  unfolding keeping_def require_runtime_def by (auto intro!: wp_query_keep)

lemmas keeping_gates = keeping_bnd [OF keeping_workflows] keeping_bnd [OF keeping_runtime] keeping_bnd [OF keeping_check]

lemma derive_identifier:
  assumes "is_Sha256 (sha b)"
  shows "is_Identifier (''wrun'' @ ''_'' @ sha b)"
proof -
  have "list_all (\<lambda>x. lower_letter x \<or> decimal_digit x \<or> x \<in> set ''_:.@/-'') (sha b)"
    unfolding list_all_iff
  proof
    fix c
    assume "c \<in> set (sha b)"
    then have "decimal_digit c \<or> c \<in> set ''abcdef''" using assms by (simp add: is_Sha256_def list_all_iff)
    moreover have "lower_letter c" if "c \<in> set ''abcdef''" using that by (auto simp: lower_letter_def)
    ultimately show "lower_letter c \<or> decimal_digit c \<or> c \<in> set ''_:.@/-''" by blast
  qed
  moreover have "length (sha b) = 64" using assms by (simp add: is_Sha256_def)
  ultimately show ?thesis by (simp add: is_Identifier_def lower_letter_def)
qed

lemma keeping_calls:
  assumes env: "workflow_env_ok env"
  shows "keeping env e0 (run_ready_steps env clock run_id at)" "keeping env e0 (deny_approval env clock run_id node_id actor_id at)"
    "keeping env e0 (wake env clock run_id node_id actor_id at)" "keeping env e0 (pause env clock run_id actor_id)"
    "keeping env e0 (resume env clock run_id actor_id)" "keeping env e0 (cancel env clock run_id actor_id)"
    "is_Identifier approval_id \<Longrightarrow> keeping env e0 (grant_approval env clock run_id node_id approval_id actor_id at)"
proof -
  show "keeping env e0 (run_ready_steps env clock run_id at)"
    unfolding run_ready_steps_def by (intro keeping_gates keeping_store) (rule wp_ready_body [OF env])
  show "keeping env e0 (deny_approval env clock run_id node_id actor_id at)"
    unfolding deny_approval_def by (intro keeping_gates keeping_store) (rule wp_deny_body [OF env])
  show "keeping env e0 (wake env clock run_id node_id actor_id at)"
    unfolding wake_def by (intro keeping_gates keeping_store) (rule wp_wake_body [OF env])
  show "keeping env e0 (cancel env clock run_id actor_id)"
    unfolding cancel_def by (intro keeping_gates keeping_store) (rule wp_cancel_body [OF env])
  show "keeping env e0 (pause env clock run_id actor_id)" "keeping env e0 (resume env clock run_id actor_id)"
    unfolding pause_def resume_def transition_run_def
    by (intro keeping_gates keeping_store, rule wp_transition_body [OF env]; simp add: run_next.simps)+
  show "keeping env e0 (grant_approval env clock run_id node_id approval_id actor_id at)" if "is_Identifier approval_id"
    unfolding grant_approval_def by (intro keeping_gates keeping_store) (rule wp_grant_body [OF env _ that])
qed

lemma keeping_register:
  assumes "WorkflowDefinition_ok d" "WorkflowRevision_ok v" "list_all WorkflowRetryPolicy_ok policies"
    "list_all WorkflowApprovalGate_ok gates"
  shows "keeping env e0 (register env clock d v actor_id policies gates)"
  unfolding register_def
  by (intro keeping_gates keeping_lift keeping_store) (rule wp_register_body [OF _ assms])

lemma canonical_dict: "canonical_value (PMap kvs) = Inr v \<Longrightarrow> \<exists>p. v = JObj p"
  unfolding canonical_value.simps rbind_Inr_iff by blast

lemma keeping_start:
  assumes env: "workflow_env_ok env" and ids: "is_Identifier revision_id"
    and inputs: "\<And>v. canonical_value (PMap inputs) = Inr v \<Longrightarrow> wf_json v"
  shows "keeping env e0 (start env clock revision_id inputs actor_id key replay_of)"
  unfolding start_def
proof (intro keeping_gates keeping_lift)
  fix x
  assume "safe_payload env (PMap inputs) = Inr x"
  then obtain v b where x: "x = (v, b)" and v: "canonical_value (PMap inputs) = Inr v"
    by (auto simp: safe_payload_def Let_def result_simps split: if_split_asm)
  obtain p where p: "v = JObj p" using canonical_dict [OF v] by blast
  have sha: "is_Sha256 (we_sha env c)" for c using env by (simp add: workflow_env_ok_def)
  show "keeping env e0 (case x of (value, input_bytes) \<Rightarrow>
      let input_sha256 = sha256_hex (we_sha env) input_bytes;
         run_id = derive_id (we_sha env) ''wrun'' (JObj
           [(''idempotency_key'', JStr key), (''revision_id'', JStr revision_id),
            (''inputs_sha256'', JStr input_sha256), (''replay_of_run_id'', jopt JStr replay_of)])
      in with_store (\<lambda>_. WorkflowStoreError) (we_sha env) clock
          (start_body env clock revision_id (case value of JObj i \<Rightarrow> i | _ \<Rightarrow> []) input_sha256 actor_id replay_of run_id))"
    unfolding x prod.case Let_def p jval.case
  proof (rule keeping_store, rule wp_start_body [OF env _ _ ids])
    show "wf_json (JObj p)" using inputs [OF v] p by simp
    show "is_Identifier (derive_id (we_sha env) ''wrun'' q)" for q
      unfolding derive_id_def sha256_hex_def by (rule derive_identifier, rule sha)
  qed
qed

lemma call_keeps:
  assumes env: "workflow_env_ok env" and I: "keeps_file env e0 f" and call: "workflow_call env f f'"
  shows "keeps_file env e0 f'"
  using call
proof cases
  case (Register clock d v actor_id policies gates x)
  show ?thesis by (rule keeping_run [OF keeping_register [OF Register(2-5)] I Register(1)])
next
  case (Start clock revision_id inputs actor_id key replay_of y)
  show ?thesis by (rule keeping_run [OF keeping_start [OF env Start(2,3)] I Start(1)])
next
  case (Grant clock run_id node_id approval_id actor_id at y)
  show ?thesis by (rule keeping_run [OF keeping_calls(7) [OF env Grant(2)] I Grant(1)])
next
  case Foreign
  have "good env e0 (file_log f')"
    by (rule good_frame [of _ _ "file_log f"]) (use I Foreign(2) in \<open>auto simp: keeps_file_def\<close>)
  with Foreign(1) show ?thesis by (simp add: keeps_file_def)
qed (rule keeping_run [OF _ I], rule keeping_calls [OF env], assumption)+

lemma call_sound:
  assumes env: "workflow_env_ok env" and f: "sound_file env f" and call: "workflow_call env f f'"
  shows "sound_file env f' \<and> (engine_step (dec_of env))\<^sup>*\<^sup>* (engine_of env f) (engine_of env f')"
proof -
  have "keeps_file env (engine_of env f) f" using f by (simp add: keeps_file_def sound_file_def good_def engine_of_def)
  from call_keeps [OF env this call] have k: "keeps_file env (engine_of env f) f'" .
  then have steps: "(engine_step (dec_of env))\<^sup>*\<^sup>* (engine_of env f) (engine_of env f')"
    by (simp add: keeps_file_def good_def engine_of_def)
  from engine_steps_ok [OF steps] f k steps show ?thesis
    by (simp add: sound_file_def keeps_file_def good_def)
qed

lemma calls_sound:
  assumes env: "workflow_env_ok env" and f: "sound_file env f" and call: "(workflow_call env)\<^sup>*\<^sup>* f f'"
  shows "sound_file env f' \<and> (engine_step (dec_of env))\<^sup>*\<^sup>* (engine_of env f) (engine_of env f')"
  using call
proof (induction rule: rtranclp_induct)
  case base
  then show ?case using f by simp
next
  case (step g h)
  from call_sound [OF env conjunct1 [OF step.IH] step.hyps(2)]
  have "sound_file env h" "(engine_step (dec_of env))\<^sup>*\<^sup>* (engine_of env g) (engine_of env h)" by simp_all
  with conjunct2 [OF step.IH] show ?case using rtranclp_trans by fast
qed

lemma fresh_sound: "sound_file env None"
  by (simp add: sound_file_def typed_def engine_of_def view_def runs_ok_def order_ok_def view_steps_def view_runs_def
      last_payload_def)

end
