(* ===== verification/Workflow_Properties.thy ===== *)
theory Workflow_Properties
  imports Workflow_Calls
begin

text \<open>
  What the workflow service guarantees, over any sequence of calls, and the sample store on which the
  witnesses run: a decoder of dumped steps and runs, a revision with one command node, and a store
  that holds one run with one step.
\<close>

section \<open>A sample store\<close>

text \<open>A concrete validation of dumped steps and runs, for times written as integers: the parameters of the
  model have an instance that meets what is asked of them.\<close>

definition payload_str :: "dict \<Rightarrow> string \<Rightarrow> string" where
  "payload_str d k = (case map_of d k of Some (JStr s) \<Rightarrow> s | _ \<Rightarrow> [])"

definition payload_opt :: "dict \<Rightarrow> string \<Rightarrow> string option" where
  "payload_opt d k = (case map_of d k of Some (JStr s) \<Rightarrow> Some s | _ \<Rightarrow> None)"

definition read_time :: "string \<Rightarrow> datetime" where
  "read_time s = (case loads s of Some (JInt t) \<Rightarrow> t | _ \<Rightarrow> 0)"

definition sample_step_of :: "dict \<Rightarrow> workflow_step_run option" where
  "sample_step_of d =
     (let s = \<lparr>schema_name = ''WorkflowStepRunV1'', schema_version = payload_str d ''schema_version'',
        id_scheme_version = payload_str d ''id_scheme_version'', extensions = [],
        ws_step_run_id = payload_str d ''step_run_id'', ws_workflow_run_id = payload_str d ''workflow_run_id'',
        ws_node_id = payload_str d ''node_id'', ws_state = payload_str d ''state'',
        ws_attempt = (case map_of d ''attempt'' of Some (JInt n) \<Rightarrow> n | _ \<Rightarrow> 1),
        ws_idempotency_key = payload_str d ''idempotency_key'', ws_input_sha256 = payload_str d ''input_sha256'',
        ws_output_sha256 = payload_opt d ''output_sha256'', ws_approval_id = payload_opt d ''approval_id'',
        ws_started_at = map_option read_time (payload_opt d ''started_at''),
        ws_completed_at = map_option read_time (payload_opt d ''completed_at'')\<rparr>
      in if WorkflowStepRun_ok s then Some s else None)"

definition sample_run_of :: "dict \<Rightarrow> workflow_run option" where
  "sample_run_of d =
     (let r = \<lparr>schema_name = ''WorkflowRunV1'', schema_version = payload_str d ''schema_version'',
        id_scheme_version = payload_str d ''id_scheme_version'', extensions = [],
        wrun_workflow_run_id = payload_str d ''workflow_run_id'', wrun_revision_id = payload_str d ''revision_id'',
        wrun_state = payload_str d ''state'', wrun_input_sha256 = payload_str d ''input_sha256'',
        wrun_step_run_ids = (case map_of d ''step_run_ids'' of Some (JList vs) \<Rightarrow> map (\<lambda>v. case v of JStr s \<Rightarrow> s | _ \<Rightarrow> []) vs | _ \<Rightarrow> []),
        wrun_replay_of_run_id = payload_opt d ''replay_of_run_id'', wrun_started_at = read_time (payload_str d ''started_at''),
        wrun_completed_at = map_option read_time (payload_opt d ''completed_at'')\<rparr>
      in if WorkflowRun_ok r then Some r else None)"

lemma read_time_show [simp]: "read_time (show_int t) = t"
  using loads_normal [of "JInt t"] by (simp add: read_time_def)

lemma sample_step_roundtrip:
  assumes "WorkflowStepRun_ok s" "extensions s = []"
  shows "sample_step_of (norm_dict (step_dict show_int s)) = Some s"
proof -
  have look: "map_of (norm_dict (step_dict show_int s)) k = map_option jnorm (map_of (step_dict show_int s) k)" for k
    by (rule map_of_norm_dict, rule wf_step_dict) (simp add: assms(2))
  have "payload_opt (norm_dict (step_dict show_int s)) ''output_sha256'' = ws_output_sha256 s"
    "payload_opt (norm_dict (step_dict show_int s)) ''approval_id'' = ws_approval_id s"
    "map_option read_time (payload_opt (norm_dict (step_dict show_int s)) ''started_at'') = ws_started_at s"
    "map_option read_time (payload_opt (norm_dict (step_dict show_int s)) ''completed_at'') = ws_completed_at s"
    unfolding payload_opt_def look by (simp_all add: step_dict_def versioned_fields_def jopt_def split: option.split)
  moreover have "payload_str (norm_dict (step_dict show_int s)) ''schema_version'' = schema_version s"
    "payload_str (norm_dict (step_dict show_int s)) ''id_scheme_version'' = id_scheme_version s"
    "payload_str (norm_dict (step_dict show_int s)) ''step_run_id'' = ws_step_run_id s"
    "payload_str (norm_dict (step_dict show_int s)) ''workflow_run_id'' = ws_workflow_run_id s"
    "payload_str (norm_dict (step_dict show_int s)) ''node_id'' = ws_node_id s"
    "payload_str (norm_dict (step_dict show_int s)) ''state'' = ws_state s"
    "payload_str (norm_dict (step_dict show_int s)) ''idempotency_key'' = ws_idempotency_key s"
    "payload_str (norm_dict (step_dict show_int s)) ''input_sha256'' = ws_input_sha256 s"
    unfolding payload_str_def look by (simp_all add: step_dict_def versioned_fields_def)
  moreover have "map_of (norm_dict (step_dict show_int s)) ''attempt'' = Some (JInt (ws_attempt s))"
    unfolding look by (simp add: step_dict_def versioned_fields_def)
  moreover have "schema_name s = ''WorkflowStepRunV1''" using assms(1) by (simp add: WorkflowStepRun_ok_def versioned_ok_def)
  moreover define d where "d = norm_dict (step_dict show_int s)"
  ultimately show ?thesis
    using assms unfolding sample_step_of_def Let_def d_def [symmetric] by (cases s) auto
qed

lemma sample_run_roundtrip:
  assumes "WorkflowRun_ok r" "extensions r = []"
  shows "sample_run_of (norm_dict (run_dict show_int r)) = Some r"
proof -
  have look: "map_of (norm_dict (run_dict show_int r)) k = map_option jnorm (map_of (run_dict show_int r) k)" for k
    by (rule map_of_norm_dict, rule wf_run_dict) (simp add: assms(2))
  have "payload_opt (norm_dict (run_dict show_int r)) ''replay_of_run_id'' = wrun_replay_of_run_id r"
    "map_option read_time (payload_opt (norm_dict (run_dict show_int r)) ''completed_at'') = wrun_completed_at r"
    unfolding payload_opt_def look by (simp_all add: run_dict_def versioned_fields_def jopt_def split: option.split)
  moreover have "payload_str (norm_dict (run_dict show_int r)) ''schema_version'' = schema_version r"
    "payload_str (norm_dict (run_dict show_int r)) ''id_scheme_version'' = id_scheme_version r"
    "payload_str (norm_dict (run_dict show_int r)) ''workflow_run_id'' = wrun_workflow_run_id r"
    "payload_str (norm_dict (run_dict show_int r)) ''revision_id'' = wrun_revision_id r"
    "payload_str (norm_dict (run_dict show_int r)) ''state'' = wrun_state r"
    "payload_str (norm_dict (run_dict show_int r)) ''input_sha256'' = wrun_input_sha256 r"
    "payload_str (norm_dict (run_dict show_int r)) ''started_at'' = show_int (wrun_started_at r)"
    unfolding payload_str_def look by (simp_all add: run_dict_def versioned_fields_def)
  moreover have "map_of (norm_dict (run_dict show_int r)) ''step_run_ids'' = Some (JList (map JStr (wrun_step_run_ids r)))"
    unfolding look by (simp add: run_dict_def versioned_fields_def comp_def)
  moreover have "schema_name r = ''WorkflowRunV1''" using assms(1) by (simp add: WorkflowRun_ok_def versioned_ok_def)
  moreover have "map (case_jval [] (\<lambda>b. []) (\<lambda>i. []) (\<lambda>s. s) (\<lambda>l. []) (\<lambda>d. [])) (map JStr ids) = ids" for ids
    by (induction ids) auto
  moreover define d where "d = norm_dict (run_dict show_int r)"
  ultimately show ?thesis
    using assms unfolding sample_run_of_def Let_def d_def [symmetric] by (cases r) auto
qed

definition single_revision :: workflow_revision where
  "single_revision = (sample_revision [])\<lparr>wr_nodes := [(sample_node ''na'')\<lparr>wn_input_schema_sha256 := replicate 64 CHR ''a'',
     wn_output_schema_sha256 := replicate 64 CHR ''a''\<rparr>], wr_manifest_sha256 := replicate 64 CHR ''a''\<rparr>"

definition sample_workflows :: workflow_env where
  "sample_workflows = \<lparr>we_emergency = sample_emergency\<lparr>em_time_text := show_int\<rparr>,
     we_operations = builtin_operations (em_sha sample_emergency), we_blocks = (\<lambda>_. False),
     we_revision_of = (\<lambda>p. if p = [] then Some single_revision else None), we_run_of = sample_run_of,
     we_step_of = sample_step_of, we_policy_of = (\<lambda>_. None), we_gate_of = (\<lambda>_. None)\<rparr>"

lemma single_revision_ok: "WorkflowRevision_ok single_revision" "validate_dag single_revision = Inr [''na'']"
  by code_simp+

lemma canonical_strs: "canonical_value (PSeq (map PStr xs)) = Inr (JList (map JStr xs))"
  by (induction xs) (auto simp: result_simps)

lemma builtin_wf:
  assumes "builtin_operations sha name = Some f" "f n inputs = Some out" "canonical_value out = Inr v"
  shows "wf_json v"
  using assms
  using canonical_strs [of "sort (map fst inputs)"]
  by (auto simp: builtin_operations_def result_simps list_all_iff split: if_split_asm)

lemma sample_workflows_ok: "workflow_env_ok sample_workflows"
  unfolding workflow_env_ok_def
  apply (intro conjI)
  subgoal by (simp add: sample_workflows_def sample_step_roundtrip)
  subgoal by (simp add: sample_workflows_def sample_run_roundtrip)
  subgoal by (simp add: sample_workflows_def single_revision_ok)
  subgoal by (simp add: sample_workflows_def)
  subgoal by (simp add: sample_workflows_def sample_emergency_def demo_env_def) code_simp
  subgoal by (simp add: sample_workflows_def sample_emergency_def demo_env_def)
  subgoal by (simp add: sample_workflows_def sample_emergency_def demo_env_def)
  subgoal unfolding sample_workflows_def workflow_env.simps using builtin_wf by blast
  done

definition sample_step :: "string \<Rightarrow> workflow_step_run" where
  "sample_step state = \<lparr>schema_name = ''WorkflowStepRunV1'', schema_version = SCHEMA_VERSION, id_scheme_version = ID_SCHEME_VERSION,
     extensions = [], ws_step_run_id = ''sa'', ws_workflow_run_id = ''ra'', ws_node_id = ''na'', ws_state = state, ws_attempt = 1,
     ws_idempotency_key = ''ia'', ws_input_sha256 = replicate 64 CHR ''a'', ws_output_sha256 = None, ws_approval_id = None,
     ws_started_at = Some 0, ws_completed_at = None\<rparr>"

definition sample_run :: "string \<Rightarrow> workflow_run" where
  "sample_run state = \<lparr>schema_name = ''WorkflowRunV1'', schema_version = SCHEMA_VERSION, id_scheme_version = ID_SCHEME_VERSION,
     extensions = [], wrun_workflow_run_id = ''ra'', wrun_revision_id = ''wrev'', wrun_state = state,
     wrun_input_sha256 = replicate 64 CHR ''a'', wrun_step_run_ids = [''sa''], wrun_replay_of_run_id = None,
     wrun_started_at = 0, wrun_completed_at = None\<rparr>"

lemma append_possible:
  assumes "db_ok sha db" "record_log db (k, i) = []" "validate_tokens [k, i] = Inr ()" "wf_json (JObj p)"
  obtains r db' where "append_record sha now k i p st None db = Inr (r, db')" "db_ok sha db'"
    "record_log db' = (record_log db)((k, i) := [(Some (JObj (norm_dict p)), st)])"
proof -
  have ok: "records_ok sha db" using assms(1) by (simp add: db_ok_def store_ok_def)
  have rows: "record_rows db k i = []" using assms(2) by (simp add: record_log_def)
  have "find_record db k i 1 = None" unfolding find_record_rows rows by simp
  from append_record_new [OF assms(3) find_head_None [OF ok rows] this, of sha now p st]
  obtain r db' where put: "append_record sha now k i p st None db = Inr (r, db')" by blast
  from pstore.put_log [OF assms(1,4) put] assms(2) put that show ?thesis by auto
qed

lemma sample_step_ok: "state \<in> {''pending'', ''paused'', ''succeeded''} \<Longrightarrow> step_ok (sample_step state)"
  by (elim insertE emptyE; simp; code_simp)

lemma sample_run_ok: "state \<in> {''running'', ''succeeded''} \<Longrightarrow> run_ok (sample_run state)"
  by (elim insertE emptyE; simp; code_simp)

lemma sample_file:
  assumes st: "st \<in> {''pending'', ''paused'', ''succeeded''}" and rs: "rs \<in> {''running'', ''succeeded''}" "rs = ''succeeded'' \<Longrightarrow> st = ''succeeded''"
  obtains f where "sound_file sample_workflows f"
    "engine_of sample_workflows f = \<lparr>eg_steps = [''sa'' \<mapsto> sample_step st], eg_runs = [''ra'' \<mapsto> sample_run rs],
       eg_revs = [''wrev'' \<mapsto> Some (JObj [])]\<rparr>"
    "file_log f (''workflow_step'', ''sa'') \<noteq> []" "file_log f (''workflow_run'', ''ra'') \<noteq> []"
proof -
  let ?sha = "we_sha sample_workflows" and ?dt = "we_dt sample_workflows"
  have ok0: "db_ok ?sha sample_store" using sample_store_ok by (simp add: db_ok_def verify_schema_def sample_store_def PLATFORM_SCHEMA_VERSION_def)
  have log0: "record_log sample_store = (\<lambda>_. [])" by (rule ext) (simp add: record_log_def record_rows_def sample_store_def fresh_db_def)
  have tok: "validate_tokens [''workflow_revision'', ''wrev''] = Inr ()" "validate_tokens [''workflow_step'', ''sa''] = Inr ()"
    "validate_tokens [''workflow_run'', ''ra''] = Inr ()" by code_simp+
  have extra: "extra_ok step_extra_keys []" by (simp add: extra_ok_def)
  have sok: "step_ok (sample_step st)" and rok: "run_ok (sample_run rs)"
    using sample_step_ok [OF st] sample_run_ok [OF rs(1)] by simp_all
  obtain r1 db1 where db1: "db_ok ?sha db1" "record_log db1 = (\<lambda>_. [])((''workflow_revision'', ''wrev'') := [(Some (JObj (norm_dict [])), ''validated'')])"
    by (rule append_possible [OF ok0 _ tok(1), of "[]" 0 "''validated''"]) (simp_all add: log0)
  obtain r2 db2 where db2: "db_ok ?sha db2" "record_log db2 = (record_log db1)((''workflow_step'', ''sa'') := [step_entry sample_workflows (sample_step st) []])"
    by (rule append_possible [OF db1(1) _ tok(2), of "updated (step_dict ?dt (sample_step st)) []" 0 st])
      (use step_payload(2) [OF extra] sok in \<open>simp_all add: db1(2) step_entry_def step_ok_def sample_step_def del: wf_json.simps\<close>)
  obtain r3 db3 where db3: "db_ok ?sha db3" "record_log db3 = (record_log db2)((''workflow_run'', ''ra'') := [run_entry sample_workflows (sample_run rs) []])"
    by (rule append_possible [OF db2(1) _ tok(3), of "updated (run_dict ?dt (sample_run rs)) [(''inputs'', JObj [])]" 0 rs])
      (use run_payload(2) [OF wf_json_empty] rok in \<open>simp_all add: db2(2) db1(2) run_entry_def run_ok_def sample_run_def del: wf_json.simps\<close>)
  have norm0: "norm_dict [] = []" by code_simp
  have t0: "typed sample_workflows (\<lambda>_. [])" by (simp add: typed_def)
  have v0: "view sample_workflows (\<lambda>_. []) = \<lparr>eg_steps = Map.empty, eg_runs = Map.empty, eg_revs = Map.empty\<rparr>"
    by (simp add: view_def view_steps_def view_runs_def view_revs_def last_payload_def fun_eq_iff)
  have v1: "view sample_workflows (record_log db1) = \<lparr>eg_steps = Map.empty, eg_runs = Map.empty, eg_revs = [''wrev'' \<mapsto> Some (JObj [])]\<rparr>"
    "typed sample_workflows (record_log db1)"
    using view_put_revision [of "record_log db1" "\<lambda>_. []" "''wrev''" "[]", OF _ t0] v0 norm0
    by (simp_all add: db1(2) view_def)
  have log2: "record_log db2 = (record_log db1)((''workflow_step'', ''sa'') := [] @ [step_entry sample_workflows (sample_step st) []])"
    and log3: "record_log db3 = (record_log db2)((''workflow_run'', ''ra'') := [] @ [run_entry sample_workflows (sample_run rs) []])"
    using db2(2) db3(2) by simp_all
  have v2: "view sample_workflows (record_log db2) = \<lparr>eg_steps = [''sa'' \<mapsto> sample_step st], eg_runs = Map.empty, eg_revs = [''wrev'' \<mapsto> Some (JObj [])]\<rparr>"
    "typed sample_workflows (record_log db2)"
    using view_put_step [OF sample_workflows_ok extra sok v1(2) log2] v1(1)
    by (simp_all add: view_def)
  have e: "view sample_workflows (record_log db3) = \<lparr>eg_steps = [''sa'' \<mapsto> sample_step st], eg_runs = [''ra'' \<mapsto> sample_run rs],
       eg_revs = [''wrev'' \<mapsto> Some (JObj [])]\<rparr>" and typed: "typed sample_workflows (record_log db3)"
    using view_put_run [OF sample_workflows_ok wf_json_empty rok v2(2) log3] v2(1) by (simp_all add: view_def)
  have rev: "dec_of sample_workflows (Some (JObj [])) = Some single_revision" by (simp add: dec_of_def sample_workflows_def)
  let ?e = "\<lparr>eg_steps = [''sa'' \<mapsto> sample_step st], eg_runs = [''ra'' \<mapsto> sample_run rs], eg_revs = [''wrev'' \<mapsto> Some (JObj [])]\<rparr>"
  have at: "revision_at (dec_of sample_workflows) ?e (sample_run rs) = Some single_revision"
    by (simp add: revision_at_def sample_run_def rev)
  have "runs_ok (dec_of sample_workflows) ?e"
    using at single_revision_ok(2) by (auto simp: runs_ok_def sample_step_def sample_run_def split: if_split_asm)
  moreover have "parents_of single_revision n = []" for n
    by (simp add: parents_of_def single_revision_def sample_revision_def)
  then have "parents_ready (dec_of sample_workflows) ?e (sample_run rs) n" for n
    using at by (simp add: parents_ready_def)
  then have "order_ok (dec_of sample_workflows) ?e"
    using rs(2) by (auto simp: order_ok_def sample_run_def step_done_def sample_step_def done_pending split: if_split_asm)
  ultimately have "sound_file sample_workflows (Some db3)"
    using db3(1) typed e by (simp add: sound_file_def engine_of_def)
  moreover have "engine_of sample_workflows (Some db3) = ?e" using e by (simp add: engine_of_def)
  moreover have "file_log (Some db3) (''workflow_step'', ''sa'') \<noteq> []" "file_log (Some db3) (''workflow_run'', ''ra'') \<noteq> []"
    by (simp_all add: db3(2) db2(2))
  ultimately show ?thesis by (rule that)
qed

section \<open>Properties\<close>

text \<open>C2: Whatever call of the workflow service is made on a sound platform store - register, start,
  run_ready_steps, grant, deny, wake, pause, resume, cancel, or a call of another service - and
  whether it returns or raises, what it leaves in the store is reached from what was there by
  transitions of the abstract engine, each of them the legal move of one step or one run.\<close>

theorem workflow_refines_engine:
  assumes "workflow_env_ok env" "sound_file env f" "workflow_call env f f'"
  shows "sound_file env f' \<and> (engine_step (dec_of env))\<^sup>*\<^sup>* (engine_of env f) (engine_of env f')"
  by (rule call_sound [OF assms])

lemma sample_call: "\<exists>f f'. sound_file sample_workflows f \<and> workflow_call sample_workflows f f'"
proof -
  obtain f where "sound_file sample_workflows f"
    using sample_file [of "''pending''" "''running''"] by auto
  moreover have "workflow_call sample_workflows f (snd (run_ready_steps sample_workflows 0 ''ra'' None f))"
    by (rule Ready [OF prod.collapse [symmetric]])
  ultimately show ?thesis by blast
qed

lemma workflow_refines_engine_witness:
  "\<exists>f f'. workflow_call sample_workflows f f' \<and> sound_file sample_workflows f' \<and>
     (engine_step (dec_of sample_workflows))\<^sup>*\<^sup>* (engine_of sample_workflows f) (engine_of sample_workflows f')"
proof -
  from sample_call obtain f f' where "sound_file sample_workflows f" "workflow_call sample_workflows f f'" by blast
  with workflow_refines_engine [OF sample_workflows_ok this] show ?thesis by blast
qed

text \<open>C8: In every store that calls can produce from a sound one, a step of a run that has left its
  pending state without being cancelled has every parent done: for each edge of the workflow that
  points to its node, the run has a step of the source node that succeeded or was skipped. And a
  run that succeeded has all its steps done.\<close>

theorem step_waits_for_parents:
  assumes "workflow_env_ok env" "sound_file env f" "(workflow_call env)\<^sup>*\<^sup>* f f'"
    and "eg_runs (engine_of env f') i = Some r" "j \<in> set (wrun_step_run_ids r)" "eg_steps (engine_of env f') j = Some s"
  shows "(ws_state s \<notin> {''pending'', ''cancelled''} \<longrightarrow>
      (\<exists>v. revision_at (dec_of env) (engine_of env f') r = Some v \<and>
        (\<forall>e\<in>set (wr_edges v). wed_target_node_id e = ws_node_id s \<longrightarrow>
          (\<exists>k\<in>set (wrun_step_run_ids r). \<exists>p. eg_steps (engine_of env f') k = Some p \<and>
             ws_node_id p = wed_source_node_id e \<and> ws_state p \<in> {''succeeded'', ''skipped''})))) \<and>
    (wrun_state r = ''succeeded'' \<longrightarrow> ws_state s \<in> {''succeeded'', ''skipped''})"
proof -
  from calls_sound [OF assms(1-3)] have ok: "order_ok (dec_of env) (engine_of env f')" by (simp add: sound_file_def)
  have parents: "ws_state s \<notin> {''pending'', ''cancelled''} \<longrightarrow> parents_ready (dec_of env) (engine_of env f') r (ws_node_id s)"
    and all_done: "wrun_state r = ''succeeded'' \<longrightarrow> step_done (engine_of env f') j"
    using ok assms(4-6) unfolding order_ok_def by blast+
  have states: "done_state st \<longleftrightarrow> st \<in> {''succeeded'', ''skipped''}" for st
    by (auto simp: done_state_def done_step_states_def)
  from parents all_done show ?thesis
    unfolding parents_ready_def parents_of_def step_done_def states using assms(6) by fastforce
qed

lemma step_waits_for_parents_witness:
  "\<exists>f s. sound_file sample_workflows f \<and> eg_steps (engine_of sample_workflows f) ''sa'' = Some s \<and> ws_state s = ''succeeded''"
proof -
  obtain f where f: "sound_file sample_workflows f" "engine_of sample_workflows f =
      \<lparr>eg_steps = [''sa'' \<mapsto> sample_step ''succeeded''], eg_runs = [''ra'' \<mapsto> sample_run ''succeeded''], eg_revs = [''wrev'' \<mapsto> Some (JObj [])]\<rparr>"
    using sample_file [of "''succeeded''" "''succeeded''"] by auto
  have "ws_state (sample_step ''succeeded'') \<in> {''succeeded'', ''skipped''}"
    using step_waits_for_parents [OF sample_workflows_ok f(1) rtranclp.rtrancl_refl, of "''ra''" "sample_run ''succeeded''" "''sa''"
      "sample_step ''succeeded''"] f(2) by (simp add: sample_run_def)
  with f show ?thesis by (auto simp: sample_step_def)
qed

text \<open>C29: A run that has succeeded, failed or was cancelled is never written again, and neither is any
  of its steps, by whatever calls follow.\<close>

theorem closed_run_is_frozen:
  assumes "workflow_env_ok env" "sound_file env f" "(workflow_call env)\<^sup>*\<^sup>* f f'"
    and "eg_runs (engine_of env f) i = Some r" "wrun_state r \<in> {''succeeded'', ''failed'', ''cancelled''}"
  shows "eg_runs (engine_of env f') i = Some r \<and>
    (\<forall>j\<in>set (wrun_step_run_ids r). eg_steps (engine_of env f') j = eg_steps (engine_of env f) j)"
proof (rule engine_steps_closed)
  show "(engine_step (dec_of env))\<^sup>*\<^sup>* (engine_of env f) (engine_of env f')" using calls_sound [OF assms(1-3)] by simp
  show "runs_ok (dec_of env) (engine_of env f)" using assms(2) by (simp add: sound_file_def)
  show "\<not> open_run r" using assms(5) by (auto simp: open_run_def cancellable_run_states_def)
qed (rule assms(4))

lemma closed_run_is_frozen_witness:
  "\<exists>f f'. workflow_call sample_workflows f f' \<and> eg_runs (engine_of sample_workflows f') ''ra'' = Some (sample_run ''succeeded'')"
proof -
  obtain f where f: "sound_file sample_workflows f" "engine_of sample_workflows f =
      \<lparr>eg_steps = [''sa'' \<mapsto> sample_step ''succeeded''], eg_runs = [''ra'' \<mapsto> sample_run ''succeeded''], eg_revs = [''wrev'' \<mapsto> Some (JObj [])]\<rparr>"
    using sample_file [of "''succeeded''" "''succeeded''"] by auto
  have call: "workflow_call sample_workflows f (snd (cancel sample_workflows 0 ''ra'' ''u'' f))"
    by (rule Cancel [OF prod.collapse [symmetric]])
  from closed_run_is_frozen [OF sample_workflows_ok f(1) r_into_rtranclp [of "workflow_call sample_workflows", OF call],
      of "''ra''" "sample_run ''succeeded''"] f(2)
  have "eg_runs (engine_of sample_workflows (snd (cancel sample_workflows 0 ''ra'' ''u'' f))) ''ra'' = Some (sample_run ''succeeded'')"
    by (simp add: sample_run_def)
  with call show ?thesis by blast
qed

text \<open>C30: A node that is not a command, an approval or a wait is parked in the state paused, and no call
  of the service takes a step out of that state except by cancelling it: the step never succeeds,
  and the run it belongs to never does.\<close>

theorem paused_step_never_succeeds:
  assumes "workflow_env_ok env" "sound_file env f" "(workflow_call env)\<^sup>*\<^sup>* f f'"
    and "eg_steps (engine_of env f) j = Some s" "ws_state s = ''paused''"
  shows "(\<exists>s'. eg_steps (engine_of env f') j = Some s' \<and> ws_state s' \<in> {''paused'', ''cancelled''}) \<and>
    (\<forall>i r. eg_runs (engine_of env f') i = Some r \<and> j \<in> set (wrun_step_run_ids r) \<longrightarrow> wrun_state r \<noteq> ''succeeded'')"
proof -
  from calls_sound [OF assms(1-3)]
  have ok: "order_ok (dec_of env) (engine_of env f')" and steps: "(engine_step (dec_of env))\<^sup>*\<^sup>* (engine_of env f) (engine_of env f')"
    by (simp_all add: sound_file_def)
  from engine_steps_paused [OF steps assms(4)] assms(5)
  obtain s' where s': "eg_steps (engine_of env f') j = Some s'" "ws_state s' \<in> {''paused'', ''cancelled''}" by auto
  then have "\<not> step_done (engine_of env f') j" using done_pending by (auto simp: step_done_def)
  with ok s' show ?thesis unfolding order_ok_def by blast
qed

lemma paused_step_never_succeeds_witness:
  "\<exists>f. sound_file sample_workflows f \<and> (\<forall>f'. (workflow_call sample_workflows)\<^sup>*\<^sup>* f f' \<longrightarrow>
     (\<forall>r. eg_runs (engine_of sample_workflows f') ''ra'' = Some r \<and> ''sa'' \<in> set (wrun_step_run_ids r) \<longrightarrow> wrun_state r \<noteq> ''succeeded''))"
proof -
  obtain f where f: "sound_file sample_workflows f" "engine_of sample_workflows f =
      \<lparr>eg_steps = [''sa'' \<mapsto> sample_step ''paused''], eg_runs = [''ra'' \<mapsto> sample_run ''running''], eg_revs = [''wrev'' \<mapsto> Some (JObj [])]\<rparr>"
    using sample_file [of "''paused''" "''running''"] by auto
  have "wrun_state r \<noteq> ''succeeded''"
    if "(workflow_call sample_workflows)\<^sup>*\<^sup>* f f'" "eg_runs (engine_of sample_workflows f') ''ra'' = Some r \<and> ''sa'' \<in> set (wrun_step_run_ids r)" for f' r
    using paused_step_never_succeeds [OF sample_workflows_ok f(1) that(1), of "''sa''" "sample_step ''paused''"] that(2) f(2)
    by (auto simp: sample_step_def)
  with f(1) show ?thesis by blast
qed

text \<open>C32: Every step and run record a store can hold after any calls is well typed: the newest payload
  decodes to a valid contract, its id is the record's id, and its state is the state column.\<close>

theorem reachable_records_are_typed:
  assumes "workflow_env_ok env" "sound_file env f" "(workflow_call env)\<^sup>*\<^sup>* f f'"
  shows "(\<forall>j. file_log f' (''workflow_step'', j) \<noteq> [] \<longrightarrow>
      (\<exists>s. eg_steps (engine_of env f') j = Some s \<and> WorkflowStepRun_ok s \<and> ws_step_run_id s = j \<and>
         snd (last (file_log f' (''workflow_step'', j))) = ws_state s)) \<and>
    (\<forall>i. file_log f' (''workflow_run'', i) \<noteq> [] \<longrightarrow>
      (\<exists>r. eg_runs (engine_of env f') i = Some r \<and> WorkflowRun_ok r \<and> wrun_workflow_run_id r = i \<and>
         snd (last (file_log f' (''workflow_run'', i))) = wrun_state r))"
proof (intro conjI allI impI)
  from calls_sound [OF assms(1-3)] have ty: "typed env (file_log f')" and ok: "runs_ok (dec_of env) (engine_of env f')"
    by (simp_all add: sound_file_def)
  show "\<exists>s. eg_steps (engine_of env f') j = Some s \<and> WorkflowStepRun_ok s \<and> ws_step_run_id s = j \<and>
         snd (last (file_log f' (''workflow_step'', j))) = ws_state s" if "file_log f' (''workflow_step'', j) \<noteq> []" for j
  proof (rule typed_step [OF assms(1) ty that])
    fix s extra
    assume "view_steps env (file_log f') j = Some s" "step_ok s" "last (file_log f' (''workflow_step'', j)) = step_entry env s extra"
    then show ?thesis using ok by (auto simp: engine_of_def view_def runs_ok_def step_ok_def step_entry_def)
  qed
  show "\<exists>r. eg_runs (engine_of env f') i = Some r \<and> WorkflowRun_ok r \<and> wrun_workflow_run_id r = i \<and>
         snd (last (file_log f' (''workflow_run'', i))) = wrun_state r" if "file_log f' (''workflow_run'', i) \<noteq> []" for i
  proof (rule typed_run [OF assms(1) ty that])
    fix r inputs
    assume r: "view_runs env (file_log f') i = Some r" "run_ok r" "last (file_log f' (''workflow_run'', i)) = run_entry env r inputs"
    then have e: "eg_runs (engine_of env f') i = Some r" by (simp add: engine_of_def view_def)
    with ok have "wrun_workflow_run_id r = i" unfolding runs_ok_def by blast
    with e r show ?thesis by (simp add: run_ok_def run_entry_def)
  qed
qed

lemma reachable_records_are_typed_witness:
  "\<exists>f s. sound_file sample_workflows f \<and> eg_steps (engine_of sample_workflows f) ''sa'' = Some s \<and>
     snd (last (file_log f (''workflow_step'', ''sa''))) = ws_state s"
proof -
  obtain f where f: "sound_file sample_workflows f" "file_log f (''workflow_step'', ''sa'') \<noteq> []"
    using sample_file [of "''pending''" "''running''"] by auto
  from reachable_records_are_typed [OF sample_workflows_ok f(1) rtranclp.rtrancl_refl] f show ?thesis by blast
qed

text \<open>The retry loop.\<close>

definition rows_within :: "nat \<Rightarrow> platform_db \<Rightarrow> bool" where
  "rows_within n db \<longleftrightarrow> length (pf_records db) \<le> n"

lemma rows_within_mono: "rows_within n db \<Longrightarrow> n \<le> m \<Longrightarrow> rows_within m db"
  by (simp add: rows_within_def)

lemma wf_put_rows:
  "rows_within n db \<Longrightarrow> (\<And>db' r. rows_within (n + 1) db' \<Longrightarrow> S r db') \<Longrightarrow> (\<And>e. rows_within n db \<Longrightarrow> F e db) \<Longrightarrow>
     wp (wf_put env clock k i p st ex) S F db"
  by (auto simp: wf_put_def wp_txn append_record_def rows_within_def Let_def rbind_def split: sum.split)

lemma wf_note_rows:
  "rows_within n db \<Longrightarrow> (\<And>db' x. rows_within n db' \<Longrightarrow> S x db') \<Longrightarrow> (\<And>e. rows_within n db \<Longrightarrow> F e db) \<Longrightarrow>
     wp (wf_note env clock stream agg ty actor schema p) S F db"
  by (auto simp: wf_note_def wp_txn append_event_def rows_within_def Let_def rbind_def split: sum.split)

lemma fail_step_rows:
  assumes "rows_within n db" "\<And>x db'. rows_within (n + 1) db' \<Longrightarrow> S x db'" "\<And>e db'. rows_within (n + 1) db' \<Longrightarrow> F e db'"
  shows "wp (fail_step env clock now step expected reason) S F db"
  unfolding fail_step_def Let_def persist_step_def
  by (intro wpI wf_put_rows [OF assms(1)] wf_note_rows [of "n + 1"]) (auto intro!: assms(2,3) elim: rows_within_mono)

definition retries_left :: "workflow_retry_policy option \<Rightarrow> int \<Rightarrow> nat" where
  "retries_left policy attempt = (case policy of None \<Rightarrow> 0 | Some p \<Rightarrow> nat (wrp_max_attempts p - attempt))"

lemma retries_left_next:
  "policy = Some p \<Longrightarrow> attempt < wrp_max_attempts p \<Longrightarrow> retries_left policy attempt = Suc (retries_left policy (attempt + 1))"
  by (simp add: retries_left_def)

lemma drive_loop_rows:
  assumes "rows_within n db" "\<And>x db'. rows_within (n + retries_left policy attempt + 1) db' \<Longrightarrow> S x db'"
    "\<And>e db'. rows_within (n + retries_left policy attempt + 1) db' \<Longrightarrow> F e db'"
  shows "wp (drive_loop env clock now operation policy inputs attempt current revision) S F db"
  using assms
proof (induction env clock now operation policy inputs attempt current revision arbitrary: n db S F rule: drive_loop.induct)
  case (1 env clock now operation policy inputs attempt current revision)
  note start = 1(2) and S = 1(3) and F = 1(4)
  let ?n = "n + retries_left policy attempt + 1"
  have failed: "wp (fail_step env clock now current revision reason) (\<lambda>x. wp (give None) S F) F db" for reason
    by (intro wpI fail_step_rows [OF start]) (auto intro!: S F elim: rows_within_mono)
  have retry: "wp (let current' = current\<lparr>ws_attempt := attempt + 1, ws_started_at := Some now\<rparr> in
                  bnd (persist_step env clock current' revision []) (\<lambda>r.
                  bnd (wf_note env clock (ws_workflow_run_id current) (ws_step_run_id current) ''workflow_step_retry''
                         engine_actor ''workflow_step_run_v1''
                         [(''node_id'', JStr (ws_node_id current)), (''attempt'', JInt (attempt + 1)),
                          (''delay_ms'', JInt (retry_delay_ms p attempt))]) (\<lambda>_.
                  drive_loop env clock now operation policy inputs (attempt + 1) current' (sr_revision r)))) S F db"
    if none: "operation attempt inputs = None" and p: "policy = Some p" and lt: "attempt < wrp_max_attempts p" for p
    unfolding Let_def persist_step_def
    apply (intro wpI wf_put_rows [OF start])
    subgoal for db' r
      apply (rule wf_note_rows [of "n + 1"], assumption)
      subgoal for db'' x
        by (rule 1(1) [OF none p lt refl, of "n + 1"]) (use retries_left_next [OF p lt] in \<open>auto intro!: S F\<close>)
      subgoal by (auto intro!: F elim: rows_within_mono)
      done
    subgoal by (auto intro!: F elim: rows_within_mono)
    done
  show ?case
    unfolding drive_loop.simps [of env clock now operation policy inputs attempt current revision]
    apply (intro wpI)
    subgoal by (rule failed)
    subgoal by (rule retry)
    subgoal by (rule failed)
    subgoal by (rule failed)
    subgoal by (rule failed)
    subgoal for out x v b
      unfolding Let_def persist_step_def
      by (intro wpI wf_put_rows [OF start] wf_note_rows [of "n + 1"]) (auto intro!: S F elim: rows_within_mono)
    done
qed

text \<open>C31: The retry loop of a deterministic step always ends, and before it does it writes at most one
  record for each attempt the policy still allows and one for the outcome, whatever the operation
  returns or raises at each attempt.\<close>

theorem retry_loop_is_bounded:
  "length (pf_records (snd (drive_loop env clock now operation policy inputs attempt current revision db))) \<le>
     length (pf_records db) + (case policy of None \<Rightarrow> 0 | Some p \<Rightarrow> nat (wrp_max_attempts p - attempt)) + 1"
proof -
  let ?n = "length (pf_records db) + retries_left policy attempt + 1"
  have "wp (drive_loop env clock now operation policy inputs attempt current revision) (\<lambda>_. rows_within ?n) (\<lambda>_. rows_within ?n) db"
    by (rule drive_loop_rows [of "length (pf_records db)"]) (simp_all add: rows_within_def)
  from wp_run [OF this prod.collapse [symmetric]] show ?thesis by (simp add: rows_within_def retries_left_def)
qed

end
