(* ===== verification/Task_Leases.thy ===== *)
theory Task_Leases
  imports Control Execution_Contracts Store_Program
begin

text \<open>
  Model of \<open>TaskLeaseManager\<close> (\<open>src/raytsystem/execution/leases.py\<close>), which binds the checkout of a task
  to a lease of the control database on the partition \<open>task:<id>\<close>. The operations are programs on the
  control database: the lease of the database is committed before the task lease is built, so a task
  lease that is not valid leaves the partition taken. Times are microseconds; the manager rounds them
  down to milliseconds, which its float arithmetic does exactly for times between 2004 and 2038.
\<close>

section \<open>Definitions\<close>

datatype lease_error = LeaseControl control_error | LeaseValueError | LeaseRuntimeError | LeaseValidationError

type_synonym 'a lease_prog = "(control_db, lease_error, 'a) prog"

record lease_env =
  le_sha :: digest
  le_strip :: "string \<Rightarrow> string"

definition milliseconds :: "datetime \<Rightarrow> int" where
  "milliseconds t = t div 1000"

definition datetime_of :: "int \<Rightarrow> datetime" where
  "datetime_of ms = ms * 1000"

text \<open>The constructor: the time to live in milliseconds.\<close>

definition lease_manager :: "int \<Rightarrow> (lease_error, int) result" where
  "lease_manager ttl_seconds =
     (if 10 \<le> ttl_seconds \<and> ttl_seconds \<le> 3600 then Inr (ttl_seconds * 1000) else Inl LeaseValueError)"

definition partition_key :: "string \<Rightarrow> string" where
  "partition_key task_id = ''task:'' @ task_id"

definition lease_token_of :: "task_lease \<Rightarrow> lease_token" where
  "lease_token_of lease =
     \<lparr>lt_partition_key = partition_key (tl_task_id lease), lt_control_epoch = tl_control_epoch lease,
      lt_owner_run_id = tl_run_id lease, lt_fencing_token = tl_fencing_token lease,
      lt_expires_at_ms = milliseconds (tl_expires_at lease)\<rparr>"

definition strip_lease :: "(string \<Rightarrow> string) \<Rightarrow> task_lease \<Rightarrow> task_lease" where
  "strip_lease strip l = l\<lparr>tl_lease_id := strip (tl_lease_id l), tl_task_id := strip (tl_task_id l),
     tl_employee_id := strip (tl_employee_id l), tl_run_id := strip (tl_run_id l),
     tl_task_generation_id := strip (tl_task_generation_id l), tl_control_epoch := strip (tl_control_epoch l)\<rparr>"

definition make_TaskLease :: "(string \<Rightarrow> string) \<Rightarrow> task_lease \<Rightarrow> (lease_error, task_lease) result" where
  "make_TaskLease strip l = (let l' = strip_lease strip l in if TaskLease_ok l' then Inr l' else Inl LeaseValidationError)"

definition lease_identity :: "string \<Rightarrow> string \<Rightarrow> string \<Rightarrow> string \<Rightarrow> int \<Rightarrow> string \<Rightarrow> int \<Rightarrow> jval" where
  "lease_identity task_id employee_id run_id task_generation_id task_revision epoch fence =
     JObj [(''task_id'', JStr task_id), (''employee_id'', JStr employee_id), (''run_id'', JStr run_id),
           (''task_generation_id'', JStr task_generation_id), (''task_revision'', JInt task_revision),
           (''control_epoch'', JStr epoch), (''fencing_token'', JInt fence)]"

definition acquire_task ::
    "lease_env \<Rightarrow> int \<Rightarrow> string \<Rightarrow> string \<Rightarrow> int \<Rightarrow> string \<Rightarrow> string \<Rightarrow> datetime \<Rightarrow> task_lease lease_prog" where
  "acquire_task env ttl_ms task_id task_generation_id task_revision employee_id run_id acquired_at =
     bnd (txn LeaseControl (\<lambda>db. acquire_lease db (partition_key task_id) run_id ttl_ms (milliseconds acquired_at))) (\<lambda>token.
     lift (make_TaskLease (le_strip env)
       \<lparr>schema_name = ''TaskLeaseV1'', schema_version = SCHEMA_VERSION, id_scheme_version = ID_SCHEME_VERSION,
        extensions = [],
        tl_lease_id = derive_id (le_sha env) ''tlease''
          (lease_identity task_id employee_id run_id task_generation_id task_revision (lt_control_epoch token)
             (lt_fencing_token token)),
        tl_task_id = task_id, tl_employee_id = employee_id, tl_run_id = run_id,
        tl_task_generation_id = task_generation_id, tl_task_revision = task_revision,
        tl_control_epoch = lt_control_epoch token, tl_fencing_token = lt_fencing_token token,
        tl_acquired_at = acquired_at, tl_expires_at = datetime_of (lt_expires_at_ms token),
        tl_status = LEASE_ACTIVE\<rparr>))"

definition verify_task_revision :: "task_lease \<Rightarrow> int \<Rightarrow> datetime \<Rightarrow> control_db \<Rightarrow> bool" where
  "verify_task_revision lease task_revision observed_at db \<longleftrightarrow>
     tl_status lease = LEASE_ACTIVE \<and> tl_task_revision lease = task_revision \<and>
     verify_lease db (lease_token_of lease) (milliseconds observed_at)"

definition verify_task :: "task_lease \<Rightarrow> string \<Rightarrow> int \<Rightarrow> datetime \<Rightarrow> control_db \<Rightarrow> bool" where
  "verify_task lease task_generation_id task_revision observed_at db \<longleftrightarrow>
     tl_status lease = LEASE_ACTIVE \<and> tl_task_generation_id lease = task_generation_id \<and>
     tl_task_revision lease = task_revision \<and>
     verify_lease db (lease_token_of lease) (milliseconds observed_at)"

definition renew_task :: "int \<Rightarrow> task_lease \<Rightarrow> datetime \<Rightarrow> task_lease lease_prog" where
  "renew_task ttl_ms lease renewed_at =
     bnd (txn LeaseControl (\<lambda>db. renew_lease db (lease_token_of lease) ttl_ms (milliseconds renewed_at))) (\<lambda>token.
     give (lease\<lparr>tl_expires_at := datetime_of (lt_expires_at_ms token)\<rparr>))"

definition rebind_task :: "lease_env \<Rightarrow> task_lease \<Rightarrow> string \<Rightarrow> int \<Rightarrow> datetime \<Rightarrow> task_lease lease_prog" where
  "rebind_task env lease task_generation_id task_revision observed_at = (\<lambda>db.
     if \<not> verify_lease db (lease_token_of lease) (milliseconds observed_at) then (Inl LeaseRuntimeError, db)
     else (Inr (lease\<lparr>
       tl_lease_id := derive_id (le_sha env) ''tlease''
         (lease_identity (tl_task_id lease) (tl_employee_id lease) (tl_run_id lease) task_generation_id task_revision
            (tl_control_epoch lease) (tl_fencing_token lease)),
       tl_task_generation_id := task_generation_id, tl_task_revision := task_revision\<rparr>), db))"

definition release_task :: "task_lease \<Rightarrow> task_lease lease_prog" where
  "release_task lease = (\<lambda>db.
     let (released, db') = release_lease db (lease_token_of lease)
     in (Inr (lease\<lparr>tl_status := (if released then LEASE_RELEASED else LEASE_REVOKED)\<rparr>), db'))"

section \<open>Lemmas\<close>

lemma acquire_task_Inr:
  assumes "acquire_task env ttl t g v e r at db = (Inr l, db')" "le_strip env t = t" "le_strip env r = r"
    "le_strip env x = x" "db_epoch db = Some x"
  obtains token where "acquire_lease db (partition_key t) r ttl (milliseconds at) = Inr (token, db')"
    "lease_token_of l = token" "tl_status l = LEASE_ACTIVE" "tl_task_revision l = v"
    "tl_task_generation_id l = le_strip env g" "tl_task_id l = t" "tl_run_id l = r" "TaskLease_ok l"
    "tl_expires_at l = (milliseconds at + ttl) * 1000"
proof -
  from assms(1) obtain token where acq: "acquire_lease db (partition_key t) r ttl (milliseconds at) = Inr (token, db')"
    unfolding acquire_task_def bnd_def txn_def lift_def by (auto split: sum.splits)
  have tok: "lt_partition_key token = partition_key t" "lt_owner_run_id token = r" "lt_control_epoch token = x"
    "lt_expires_at_ms token = milliseconds at + ttl"
    using acq assms(5) by (auto simp: acquire_lease_def result_simps Let_def token_of_def control_epoch_def)
  show ?thesis
    using assms(1) that [OF acq] tok assms(2-4)
    unfolding acquire_task_def bnd_def txn_def lift_def acq
    by (auto simp: make_TaskLease_def strip_lease_def Let_def lease_token_of_def datetime_of_def milliseconds_def
        split: if_splits)
qed

lemma verify_same_holder:
  assumes "verify_lease db a n" "verify_lease db b m" "lt_partition_key a = lt_partition_key b"
  shows "lt_owner_run_id a = lt_owner_run_id b \<and> lt_control_epoch a = lt_control_epoch b \<and> lt_fencing_token a = lt_fencing_token b"
  using assms by (auto simp: verify_lease_def owns_def split: option.splits)

lemma renew_task_cases:
  "renew_task ttl l at db = (Inl e, db') \<Longrightarrow> db' = db"
  "\<not> verify_lease db (lease_token_of l) (milliseconds at) \<Longrightarrow> \<exists>e. renew_task ttl l at db = (Inl e, db)"
  by (auto simp: renew_task_def bnd_def txn_def give_def renew_lease_def result_simps Let_def split: sum.splits if_splits)

section \<open>Properties\<close>

text \<open>C33: a task lease is fenced. Once another run has checked the task out, the task lease of the run
  before is worth nothing, whatever happens in the control database afterwards: it is not verified,
  cannot be renewed and cannot be bound to another revision of the task.\<close>

theorem stale_task_lease_is_fenced:
  assumes "verify_task lease g v at db" "control_step\<^sup>*\<^sup>* db db1"
    and "acquire_task env ttl (tl_task_id lease) g' v' e' run at1 db1 = (Inr lease', db2)" "run \<noteq> tl_run_id lease"
    and "control_step\<^sup>*\<^sup>* db2 db3"
  shows "\<not> verify_task lease g'' v'' t db3 \<and> \<not> verify_task_revision lease v'' t db3 \<and>
    (\<exists>e. renew_task ttl' lease t db3 = (Inl e, db3)) \<and> rebind_task env lease g'' v'' t db3 = (Inl LeaseRuntimeError, db3)"
proof -
  from assms(3) obtain token where
    "acquire_lease db1 (lt_partition_key (lease_token_of lease)) run ttl (milliseconds at1) = Inr (token, db2)"
    unfolding acquire_task_def bnd_def txn_def lift_def by (auto simp: lease_token_of_def split: sum.splits)
  moreover have "verify_lease db (lease_token_of lease) (milliseconds at)" "lt_owner_run_id (lease_token_of lease) \<noteq> run"
    using assms(1,4) by (auto simp: verify_task_def lease_token_of_def)
  ultimately have "lt_fencing_token (lease_token_of lease) < lease_fence db2 (lt_partition_key (lease_token_of lease))"
    using acquire_by_other control_steps_leases_le [OF assms(2)] by blast
  from control_leases.fenced_out [OF assms(5) this] have "\<not> verify_lease db3 (lease_token_of lease) n" for n .
  then show ?thesis by (simp add: verify_task_def verify_task_revision_def rebind_task_def renew_task_cases)
qed

definition sample_lease_env :: lease_env where
  "sample_lease_env = \<lparr>le_sha = (\<lambda>_. replicate 64 CHR ''a''), le_strip = (\<lambda>s. s)\<rparr>"

definition sample_checkout :: "(lease_error, task_lease) result \<times> control_db" where
  "sample_checkout = acquire_task sample_lease_env 60000 ''task1'' ''gen1'' 1 ''emp1'' ''run1'' 1000 sample_db"

definition sample_lease :: task_lease where
  "sample_lease = projr (fst sample_checkout)"

definition sample_leased :: control_db where
  "sample_leased = snd sample_checkout"

definition sample_later :: "(lease_error, task_lease) result \<times> control_db" where
  "sample_later = acquire_task sample_lease_env 60000 ''task1'' ''gen1'' 1 ''emp2'' ''run2'' 90000000 sample_leased"

lemma sample_checkout_eq: "acquire_task sample_lease_env 60000 ''task1'' ''gen1'' 1 ''emp1'' ''run1'' 1000 sample_db = (Inr sample_lease, sample_leased)"
proof -
  have "isl (fst sample_checkout) = False" by code_simp
  then show ?thesis by (simp add: sample_lease_def sample_leased_def sample_checkout_def prod_eq_iff)
qed

lemma sample_later_ok: "isl (fst sample_later) = False" "verify_task sample_lease ''gen1'' 1 2000 sample_leased"
    "tl_task_id sample_lease = ''task1''" "tl_run_id sample_lease = ''run1''" "db_epoch sample_db = Some ''epoch_e''"
  by code_simp+

theorem stale_task_lease_is_fenced_witness:
  "\<not> verify_task sample_lease ''gen1'' 1 2000 (snd sample_later)"
proof -
  have "acquire_task sample_lease_env 60000 (tl_task_id sample_lease) ''gen1'' 1 ''emp2'' ''run2'' 90000000 sample_leased =
      (Inr (projr (fst sample_later)), snd sample_later)"
    using sample_later_ok by (simp add: sample_later_def prod_eq_iff)
  from stale_task_lease_is_fenced [OF sample_later_ok(2) rtranclp.rtrancl_refl this _ rtranclp.rtrancl_refl]
  show ?thesis by (simp add: sample_later_ok)
qed

text \<open>checking a task out gives a valid lease that is accepted, for the revision it was taken for,
  exactly until its time to live is over; until then every lease of the task that is accepted has the
  same run and the same fencing token, and no other run can check the task out.\<close>

theorem acquired_task_lease_is_exclusive:
  assumes "acquire_task env ttl task g v e run at db = (Inr lease, db')"
    and "le_strip env task = task" "le_strip env run = run" "le_strip env g = g"
    and "db_epoch db = Some epoch" "le_strip env epoch = epoch"
  shows "TaskLease_ok lease \<and> tl_expires_at lease = datetime_of (milliseconds at + ttl) \<and>
    (\<forall>t. verify_task lease g v t db' \<longleftrightarrow> milliseconds t < milliseconds at + ttl) \<and>
    (\<forall>other g' v' t. verify_task other g' v' t db' \<and> tl_task_id other = task \<longrightarrow>
       tl_run_id other = run \<and> tl_fencing_token other = tl_fencing_token lease) \<and>
    (\<forall>run' t. run' \<noteq> run \<and> milliseconds t < milliseconds at + ttl \<longrightarrow>
       fst (acquire_task env ttl task g v e run' t db') = Inl (LeaseControl LeaseBusy))"
proof -
  from acquire_task_Inr [OF assms(1-3,6,5)] obtain token where
    acq: "acquire_lease db (partition_key task) run ttl (milliseconds at) = Inr (token, db')" and tok: "lease_token_of lease = token"
    and l: "tl_status lease = LEASE_ACTIVE" "tl_task_revision lease = v" "tl_task_generation_id lease = le_strip env g"
      "tl_task_id lease = task" "tl_run_id lease = run" "TaskLease_ok lease" "tl_expires_at lease = (milliseconds at + ttl) * 1000"
    by blast
  have ttl: "0 < ttl" and row: "\<exists>r. db_leases db' (partition_key task) = Some r \<and> lr_owner_run_id r = Some run \<and>
      lr_fencing_token r = lt_fencing_token token \<and> lr_expires_at_ms r = milliseconds at + ttl \<and> lr_control_epoch r = lt_control_epoch token"
    and tk: "lt_partition_key token = partition_key task" "lt_owner_run_id token = run" and epoch: "db_epoch db' = Some epoch"
    using acq assms(5) by (auto simp: acquire_lease_def result_simps Let_def token_of_def control_epoch_def)
  then obtain r where r: "db_leases db' (partition_key task) = Some r" "lr_owner_run_id r = Some run"
      "lr_fencing_token r = lt_fencing_token token" "lr_expires_at_ms r = milliseconds at + ttl" "lr_control_epoch r = lt_control_epoch token"
    by blast
  have fence: "tl_fencing_token lease = lt_fencing_token token" using tok by (auto simp: lease_token_of_def)
  have "verify_lease db' token n \<longleftrightarrow> n < milliseconds at + ttl" for n
    using r tk by (auto simp: verify_lease_def owns_def)
  moreover have "tl_run_id other = run \<and> tl_fencing_token other = lt_fencing_token token"
    if "verify_task other g' v' t db' \<and> tl_task_id other = task" for other g' v' t
    using that r by (auto simp: verify_task_def verify_lease_def owns_def lease_token_of_def)
  moreover have "fst (acquire_task env ttl task g v e run' t db') = Inl (LeaseControl LeaseBusy)"
    if "run' \<noteq> run \<and> milliseconds t < milliseconds at + ttl" for run' t
  proof -
    have "acquire_lease db' (partition_key task) run' ttl (milliseconds t) = Inl LeaseBusy"
      using that not_sym [OF conjunct1 [OF that]] r ttl epoch
      by (simp add: acquire_lease_def next_fence_def control_epoch_def result_simps Let_def)
    then show ?thesis by (simp add: acquire_task_def bnd_def txn_def)
  qed
  ultimately show ?thesis
    using l tok fence assms(4) by (auto simp: verify_task_def datetime_of_def)
qed

theorem acquired_task_lease_is_exclusive_witness:
  "verify_task sample_lease ''gen1'' 1 2000 sample_leased"
  using acquired_task_lease_is_exclusive [OF sample_checkout_eq, of "''epoch_e''"]
  by (simp add: sample_lease_env_def sample_later_ok milliseconds_def)

end
