(* ===== verification/Sessions.thy ===== *)
theory Sessions
  imports Execution_Contracts
begin

text \<open>
  Model of \<open>src/raytsystem/execution/sessions.py\<close>: when a session of a runtime may be resumed. The
  fingerprint of a session covers every input a run depends on; \<open>resolve_session\<close> compares the fields a
  session records one by one, to name the first that changed, and then the fingerprint.
\<close>

section \<open>Definitions\<close>

record session_compatibility =
  sc_runtime_adapter_id :: string
  sc_runtime_adapter_sha256 :: string
  sc_provider :: string
  sc_model :: "string option"
  sc_task_id :: string
  sc_employee_id :: string
  sc_employee_configuration_revision :: string
  sc_workspace_id :: string
  sc_workspace_manifest_sha256 :: string
  sc_repository_commit :: string
  sc_graph_snapshot_id :: string
  sc_graph_fingerprint :: string
  sc_context_snapshot_sha256 :: string
  sc_policy_sha256 :: string
  sc_instruction_bundle_sha256 :: string

definition compatibility_json :: "session_compatibility \<Rightarrow> jval" where
  "compatibility_json c = JObj
     [(''runtime_adapter_id'', JStr (sc_runtime_adapter_id c)),
      (''runtime_adapter_sha256'', JStr (sc_runtime_adapter_sha256 c)),
      (''provider'', JStr (sc_provider c)),
      (''model'', jopt JStr (sc_model c)),
      (''task_id'', JStr (sc_task_id c)),
      (''employee_id'', JStr (sc_employee_id c)),
      (''employee_configuration_revision'', JStr (sc_employee_configuration_revision c)),
      (''workspace_id'', JStr (sc_workspace_id c)),
      (''workspace_manifest_sha256'', JStr (sc_workspace_manifest_sha256 c)),
      (''repository_commit'', JStr (sc_repository_commit c)),
      (''graph_snapshot_id'', JStr (sc_graph_snapshot_id c)),
      (''graph_fingerprint'', JStr (sc_graph_fingerprint c)),
      (''context_snapshot_sha256'', JStr (sc_context_snapshot_sha256 c)),
      (''policy_sha256'', JStr (sc_policy_sha256 c)),
      (''instruction_bundle_sha256'', JStr (sc_instruction_bundle_sha256 c))]"

definition session_fingerprint :: "digest \<Rightarrow> session_compatibility \<Rightarrow> string" where
  "session_fingerprint sha c = sha256_hex sha (json_bytes (compatibility_json c))"

record session_resolution =
  srs_compatible :: bool
  srs_reason_code :: "string option"
  srs_compatibility_sha256 :: string

definition identity_pairs :: "execution_session \<Rightarrow> session_compatibility \<Rightarrow> (bool \<times> string) list" where
  "identity_pairs s c =
     [(es_runtime_adapter_id s = sc_runtime_adapter_id c, ''runtime_changed''),
      (es_provider s = sc_provider c, ''provider_changed''),
      (es_model s = sc_model c, ''model_changed''),
      (es_task_id s = sc_task_id c, ''task_changed''),
      (es_employee_id s = sc_employee_id c, ''employee_changed''),
      (es_workspace_id s = sc_workspace_id c, ''workspace_changed''),
      (es_graph_snapshot_id s = sc_graph_snapshot_id c, ''graph_changed''),
      (es_context_snapshot_sha256 s = sc_context_snapshot_sha256 c, ''context_changed'')]"

definition resolve_session :: "digest \<Rightarrow> execution_session option \<Rightarrow> session_compatibility \<Rightarrow> session_resolution" where
  "resolve_session sha existing c =
     (let fingerprint = session_fingerprint sha c;
          refuse = (\<lambda>reason. \<lparr>srs_compatible = False, srs_reason_code = Some reason, srs_compatibility_sha256 = fingerprint\<rparr>)
      in case existing of
           None \<Rightarrow> refuse ''session_missing''
         | Some s \<Rightarrow>
             if es_status s \<notin> {SESSION_ACTIVE, SESSION_PAUSED} then refuse ''session_not_resumable''
             else (case find (\<lambda>p. \<not> fst p) (identity_pairs s c) of
                     Some p \<Rightarrow> refuse (snd p)
                   | None \<Rightarrow>
                       if es_compatibility_sha256 s \<noteq> fingerprint then refuse ''compatibility_fingerprint_changed''
                       else \<lparr>srs_compatible = True, srs_reason_code = None, srs_compatibility_sha256 = fingerprint\<rparr>))"

definition create_session ::
    "digest \<Rightarrow> (string \<Rightarrow> string) \<Rightarrow> session_compatibility \<Rightarrow> datetime \<Rightarrow> string option \<Rightarrow> string option \<Rightarrow>
     (py_error, execution_session) result" where
  "create_session sha strip c started_at provider_session_id previous_run_id =
     (let fingerprint = session_fingerprint sha c;
          identity = JObj [(''compatibility_sha256'', JStr fingerprint), (''started_at'', jtime started_at),
            (''provider_session_id'', jopt JStr provider_session_id), (''previous_run_id'', jopt JStr previous_run_id)]
      in make_ExecutionSession strip
           \<lparr>schema_name = ''ExecutionSessionV1'', schema_version = SCHEMA_VERSION, id_scheme_version = ID_SCHEME_VERSION,
            extensions = [], es_session_id = derive_id sha ''xsession'' identity,
            es_provider_session_id = provider_session_id, es_runtime_adapter_id = sc_runtime_adapter_id c,
            es_provider = sc_provider c, es_model = sc_model c, es_task_id = sc_task_id c,
            es_employee_id = sc_employee_id c, es_workspace_id = sc_workspace_id c,
            es_graph_snapshot_id = sc_graph_snapshot_id c, es_context_snapshot_sha256 = sc_context_snapshot_sha256 c,
            es_compatibility_sha256 = fingerprint, es_started_at = started_at, es_last_resumed_at = None,
            es_status = SESSION_ACTIVE, es_previous_run_id = previous_run_id, es_usage_totals = zero_usage,
            es_incompatibility_reason = None\<rparr>)"

definition add_cost :: "int option \<Rightarrow> int option \<Rightarrow> int option" where
  "add_cost a b = (if a = None \<and> b = None then None
     else Some ((case a of None \<Rightarrow> 0 | Some x \<Rightarrow> x) + (case b of None \<Rightarrow> 0 | Some x \<Rightarrow> x)))"

definition add_usage :: "execution_usage \<Rightarrow> execution_usage \<Rightarrow> (py_error, execution_usage) result" where
  "add_usage left right =
     (let u = \<lparr>schema_name = ''ExecutionUsageV1'', schema_version = SCHEMA_VERSION, id_scheme_version = ID_SCHEME_VERSION,
        extensions = [], eu_input_tokens = eu_input_tokens left + eu_input_tokens right,
        eu_output_tokens = eu_output_tokens left + eu_output_tokens right,
        eu_cached_tokens = eu_cached_tokens left + eu_cached_tokens right,
        eu_estimated_cost_micros = add_cost (eu_estimated_cost_micros left) (eu_estimated_cost_micros right),
        eu_actual_cost_micros = add_cost (eu_actual_cost_micros left) (eu_actual_cost_micros right)\<rparr>
      in if ExecutionUsage_ok u then Inr u else Inl ValueError)"

section \<open>Lemmas\<close>

lemma jopt_JStr_inject: "jopt JStr a = jopt JStr b \<longleftrightarrow> a = b"
  by (auto simp: jopt_def split: option.splits)

lemma compatibility_wf [simp]: "wf_json (compatibility_json c)"
  by (simp add: compatibility_json_def jopt_def split: option.split)

lemma jnorm_jopt_JStr: "jnorm (jopt JStr a) = jopt JStr a"
  by (simp add: jopt_def split: option.split)

lemma compatibility_inject:
  assumes "jnorm (compatibility_json c) = jnorm (compatibility_json d)"
  shows "c = d"
proof -
  have "sc_runtime_adapter_id c = sc_runtime_adapter_id d" "sc_runtime_adapter_sha256 c = sc_runtime_adapter_sha256 d"
    "sc_provider c = sc_provider d" "sc_model c = sc_model d" "sc_task_id c = sc_task_id d"
    "sc_employee_id c = sc_employee_id d" "sc_employee_configuration_revision c = sc_employee_configuration_revision d"
    "sc_workspace_id c = sc_workspace_id d" "sc_workspace_manifest_sha256 c = sc_workspace_manifest_sha256 d"
    "sc_repository_commit c = sc_repository_commit d" "sc_graph_snapshot_id c = sc_graph_snapshot_id d"
    "sc_graph_fingerprint c = sc_graph_fingerprint d" "sc_context_snapshot_sha256 c = sc_context_snapshot_sha256 d"
    "sc_policy_sha256 c = sc_policy_sha256 d" "sc_instruction_bundle_sha256 c = sc_instruction_bundle_sha256 d"
    using assms by (simp_all add: compatibility_json_def jnorm_jopt_JStr jopt_JStr_inject)
  then show ?thesis by (cases c, cases d) simp
qed

lemma fingerprint_inject:
  assumes "inj_on sha {json_bytes (compatibility_json c), json_bytes (compatibility_json d)}"
  shows "session_fingerprint sha c = session_fingerprint sha d \<longleftrightarrow> c = d"
proof
  assume "session_fingerprint sha c = session_fingerprint sha d"
  then have "sha (json_bytes (compatibility_json c)) = sha (json_bytes (compatibility_json d))"
    by (simp only: session_fingerprint_def sha256_hex_def)
  from inj_onD [OF assms this] have "json_bytes (compatibility_json c) = json_bytes (compatibility_json d)" by blast
  then have "jnorm (compatibility_json c) = jnorm (compatibility_json d)" by (simp only: json_bytes_eq_iff [OF compatibility_wf compatibility_wf])
  then show "c = d" by (rule compatibility_inject)
qed simp

text \<open>Stripping the white space of the recorded fields changes nothing.\<close>

definition stripped :: "digest \<Rightarrow> (string \<Rightarrow> string) \<Rightarrow> session_compatibility \<Rightarrow> bool" where
  "stripped sha strip c \<longleftrightarrow>
     list_all (\<lambda>x. strip x = x)
       [sc_runtime_adapter_id c, sc_provider c, sc_task_id c, sc_employee_id c, sc_workspace_id c, sc_graph_snapshot_id c,
        sc_context_snapshot_sha256 c, session_fingerprint sha c] \<and>
     map_option strip (sc_model c) = sc_model c"

lemma created_session:
  assumes "create_session sha strip c at prov prev = Inr s" "stripped sha strip c"
  shows "es_compatibility_sha256 s = session_fingerprint sha c" "list_all fst (identity_pairs s c)" "es_status s = SESSION_ACTIVE"
    "ExecutionSession_ok s"
proof -
  from assms(1) have ok: "ExecutionSession_ok s" and fields: "es_compatibility_sha256 s = strip (session_fingerprint sha c)"
      "es_status s = SESSION_ACTIVE" "es_runtime_adapter_id s = strip (sc_runtime_adapter_id c)"
      "es_provider s = strip (sc_provider c)" "es_model s = map_option strip (sc_model c)" "es_task_id s = strip (sc_task_id c)"
      "es_employee_id s = strip (sc_employee_id c)" "es_workspace_id s = strip (sc_workspace_id c)"
      "es_graph_snapshot_id s = strip (sc_graph_snapshot_id c)"
      "es_context_snapshot_sha256 s = strip (sc_context_snapshot_sha256 c)"
    unfolding create_session_def make_ExecutionSession_def strip_session_def Let_def
    by (simp_all only: sum.inject sum.distinct split: if_split_asm) (clarify; simp)+
  show "es_compatibility_sha256 s = session_fingerprint sha c" "list_all fst (identity_pairs s c)" "es_status s = SESSION_ACTIVE"
    "ExecutionSession_ok s"
    using ok fields assms(2) by (simp_all add: stripped_def identity_pairs_def)
qed

lemma resolve_compatible:
  "srs_compatible (resolve_session sha (Some s) c) \<longleftrightarrow>
     es_status s \<in> {SESSION_ACTIVE, SESSION_PAUSED} \<and> list_all fst (identity_pairs s c) \<and>
     es_compatibility_sha256 s = session_fingerprint sha c"
proof (cases "find (\<lambda>p. \<not> fst p) (identity_pairs s c)")
  case None
  then have "list_all fst (identity_pairs s c)" by (auto simp: find_None_iff list_all_iff)
  with None show ?thesis by (simp add: resolve_session_def Let_def)
next
  case (Some p)
  then have "\<not> list_all fst (identity_pairs s c)" by (auto simp: find_Some_iff list_all_iff dest: nth_mem)
  with Some show ?thesis by (simp add: resolve_session_def Let_def)
qed

text \<open>Usage adds up like the numbers in it.\<close>

lemma add_cost_assoc: "add_cost (add_cost a b) c = add_cost a (add_cost b c)"
  by (auto simp: add_cost_def)

lemma add_usage_commute: "add_usage a b = add_usage b a"
  by (simp add: add_usage_def add_cost_def algebra_simps)

lemma add_usage_total:
  assumes "ExecutionUsage_ok a" "ExecutionUsage_ok b"
  obtains u where "add_usage a b = Inr u" "ExecutionUsage_ok u"
    "eu_input_tokens u = eu_input_tokens a + eu_input_tokens b"
    "eu_actual_cost_micros u = add_cost (eu_actual_cost_micros a) (eu_actual_cost_micros b)"
proof -
  let ?u = "\<lparr>schema_name = ''ExecutionUsageV1'', schema_version = SCHEMA_VERSION, id_scheme_version = ID_SCHEME_VERSION,
        extensions = [], eu_input_tokens = eu_input_tokens a + eu_input_tokens b,
        eu_output_tokens = eu_output_tokens a + eu_output_tokens b,
        eu_cached_tokens = eu_cached_tokens a + eu_cached_tokens b,
        eu_estimated_cost_micros = add_cost (eu_estimated_cost_micros a) (eu_estimated_cost_micros b),
        eu_actual_cost_micros = add_cost (eu_actual_cost_micros a) (eu_actual_cost_micros b)\<rparr>"
  have "versioned_ok ''ExecutionUsageV1'' ?u"
    using assms(1) by (simp add: versioned_ok_def ) code_simp
  then have "ExecutionUsage_ok ?u"
    using assms by (auto simp: ExecutionUsage_ok_def add_cost_def opt_ok_def split: option.splits)
  then show ?thesis by (intro that [of ?u]) (simp_all add: add_usage_def Let_def)
qed

section \<open>Properties\<close>


definition sample_compatibility :: session_compatibility where
  "sample_compatibility = \<lparr>sc_runtime_adapter_id = ''codex'', sc_runtime_adapter_sha256 = replicate 64 CHR ''b'',
     sc_provider = ''openai'', sc_model = None, sc_task_id = ''task1'', sc_employee_id = ''emp1'',
     sc_employee_configuration_revision = ''rev1'', sc_workspace_id = ''ws1'', sc_workspace_manifest_sha256 = ''m'',
     sc_repository_commit = ''c'', sc_graph_snapshot_id = ''graph1'', sc_graph_fingerprint = ''f'',
     sc_context_snapshot_sha256 = replicate 64 CHR ''c'', sc_policy_sha256 = ''p'', sc_instruction_bundle_sha256 = ''i''\<rparr>"

definition sample_session :: "(py_error, execution_session) result" where
  "sample_session = create_session (\<lambda>_. replicate 64 CHR ''a'') (\<lambda>s. s) sample_compatibility 0 None None"


end
