(* ===== verification/Execution_Records.thy ===== *)
theory Execution_Records
  imports Operation_Contracts Runtime_Commands
begin

text \<open>
  The records of the execution plane as the execution store sees them: their canonical JSON, with every
  field of the model, and the union of the record types the store accepts
  (\<open>_RECORD_TYPES\<close> in \<open>src/raytsystem/execution/store.py\<close>) with the kind, the identity, the state and the
  associations of a record.
\<close>

section \<open>Values of the enumerations\<close>

fun EmployeeStatus_value :: "EmployeeStatus \<Rightarrow> string" where
  "EmployeeStatus_value EMP_DISABLED = ''disabled''"
| "EmployeeStatus_value EMP_IDLE = ''idle''"
| "EmployeeStatus_value EMP_ASSIGNED = ''assigned''"
| "EmployeeStatus_value EMP_RUNNING = ''running''"
| "EmployeeStatus_value EMP_PAUSED = ''paused''"
| "EmployeeStatus_value EMP_BLOCKED = ''blocked''"
| "EmployeeStatus_value EMP_ERROR = ''error''"
| "EmployeeStatus_value EMP_TERMINATED = ''terminated''"

fun WorkspaceStatus_value :: "WorkspaceStatus \<Rightarrow> string" where
  "WorkspaceStatus_value WS_PREPARING = ''preparing''"
| "WorkspaceStatus_value WS_READY = ''ready''"
| "WorkspaceStatus_value WS_ACTIVE = ''active''"
| "WorkspaceStatus_value WS_STALE = ''stale''"
| "WorkspaceStatus_value WS_BLOCKED = ''blocked''"

fun TaskLeaseStatus_value :: "TaskLeaseStatus \<Rightarrow> string" where
  "TaskLeaseStatus_value LEASE_ACTIVE = ''active''"
| "TaskLeaseStatus_value LEASE_FROZEN = ''frozen''"
| "TaskLeaseStatus_value LEASE_RELEASED = ''released''"
| "TaskLeaseStatus_value LEASE_EXPIRED = ''expired''"
| "TaskLeaseStatus_value LEASE_REVOKED = ''revoked''"

fun ExecutionRunStatus_value :: "ExecutionRunStatus \<Rightarrow> string" where
  "ExecutionRunStatus_value RUN_QUEUED = ''queued''"
| "ExecutionRunStatus_value RUN_PREPARING = ''preparing''"
| "ExecutionRunStatus_value RUN_RUNNING = ''running''"
| "ExecutionRunStatus_value RUN_PAUSED = ''paused''"
| "ExecutionRunStatus_value RUN_CANCELLING = ''cancelling''"
| "ExecutionRunStatus_value RUN_CANCELLED = ''cancelled''"
| "ExecutionRunStatus_value RUN_SUCCEEDED = ''succeeded''"
| "ExecutionRunStatus_value RUN_REVIEW = ''review''"
| "ExecutionRunStatus_value RUN_BLOCKED = ''blocked''"
| "ExecutionRunStatus_value RUN_FAILED = ''failed''"

fun ExecutionSessionStatus_value :: "ExecutionSessionStatus \<Rightarrow> string" where
  "ExecutionSessionStatus_value SESSION_ACTIVE = ''active''"
| "ExecutionSessionStatus_value SESSION_PAUSED = ''paused''"
| "ExecutionSessionStatus_value SESSION_COMPLETED = ''completed''"
| "ExecutionSessionStatus_value SESSION_INCOMPATIBLE = ''incompatible''"
| "ExecutionSessionStatus_value SESSION_ERROR = ''error''"

section \<open>Canonical form of the records\<close>

definition budget_policy_json :: "budget_policy \<Rightarrow> jval" where
  "budget_policy_json p = JObj (versioned_fields p @
     [(''budget_policy_id'', JStr (bp_budget_policy_id p)),
      (''scope_kind'', JStr (bp_scope_kind p)),
      (''scope_id'', JStr (bp_scope_id p)),
      (''token_limit'', token_budget_json (bp_token_limit p)),
      (''cost_limit_micros'', jopt JInt (bp_cost_limit_micros p)),
      (''run_limit'', JInt (bp_run_limit p)),
      (''heartbeat_limit'', JInt (bp_heartbeat_limit p)),
      (''active_run_action'', JStr (bp_active_run_action p)),
      (''created_at'', jtime (bp_created_at p))])"

definition budget_usage_json :: "budget_usage \<Rightarrow> jval" where
  "budget_usage_json u = JObj (versioned_fields u @
     [(''budget_policy_id'', JStr (bu_budget_policy_id u)),
      (''tokens'', token_budget_json (bu_tokens u)),
      (''estimated_cost_micros'', jopt JInt (bu_estimated_cost_micros u)),
      (''actual_cost_micros'', jopt JInt (bu_actual_cost_micros u)),
      (''run_count'', JInt (bu_run_count u)),
      (''heartbeat_count'', JInt (bu_heartbeat_count u)),
      (''updated_at'', jtime (bu_updated_at u))])"

definition digital_employee_json :: "digital_employee \<Rightarrow> jval" where
  "digital_employee_json e = JObj (versioned_fields e @
     [(''employee_id'', JStr (de_employee_id e)),
      (''agent_definition_id'', JStr (de_agent_definition_id e)),
      (''agent_definition_sha256'', JStr (de_agent_definition_sha256 e)),
      (''name'', JStr (de_name e)),
      (''role'', JStr (de_role e)),
      (''description'', JStr (de_description e)),
      (''reporting_manager_id'', jopt JStr (de_reporting_manager_id e)),
      (''runtime_adapter_id'', JStr (de_runtime_adapter_id e)),
      (''enabled_skill_ids'', jstrs (de_enabled_skill_ids e)),
      (''instruction_bundle'', jstrs (de_instruction_bundle e)),
      (''filesystem_policy'', filesystem_policy_json (de_filesystem_policy e)),
      (''graph_policy'', graph_policy_json (de_graph_policy e)),
      (''heartbeat_policy'', heartbeat_policy_json (de_heartbeat_policy e)),
      (''concurrency_limit'', JInt (de_concurrency_limit e)),
      (''budget_policy_id'', jopt JStr (de_budget_policy_id e)),
      (''status'', JStr (EmployeeStatus_value (de_status e))),
      (''current_session_id'', jopt JStr (de_current_session_id e)),
      (''current_task_id'', jopt JStr (de_current_task_id e)),
      (''configuration_revision'', JStr (de_configuration_revision e))])"

definition task_assignment_json :: "task_assignment \<Rightarrow> jval" where
  "task_assignment_json a = JObj (versioned_fields a @
     [(''assignment_id'', JStr (ta_assignment_id a)),
      (''task_id'', JStr (ta_task_id a)),
      (''task_generation_id'', JStr (ta_task_generation_id a)),
      (''task_revision'', JInt (ta_task_revision a)),
      (''employee_id'', JStr (ta_employee_id a)),
      (''runtime_adapter_id'', JStr (ta_runtime_adapter_id a)),
      (''budget_policy_id'', jopt JStr (ta_budget_policy_id a)),
      (''approval_policy_id'', jopt JStr (ta_approval_policy_id a)),
      (''graph_scope_id'', jopt JStr (ta_graph_scope_id a)),
      (''status'', JStr (ta_status a)),
      (''revision'', JInt (ta_revision a)),
      (''created_at'', jtime (ta_created_at a)),
      (''updated_at'', jtime (ta_updated_at a))])"

definition task_graph_scope_json :: "task_graph_scope \<Rightarrow> jval" where
  "task_graph_scope_json s = JObj (versioned_fields s @
     [(''graph_scope_id'', JStr (gs_graph_scope_id s)),
      (''task_id'', JStr (gs_task_id s)),
      (''graph_snapshot_id'', JStr (gs_graph_snapshot_id s)),
      (''graph_fingerprint'', JStr (gs_graph_fingerprint s)),
      (''generation_fingerprint'', JStr (gs_generation_fingerprint s)),
      (''roots'', jstrs (gs_roots s)),
      (''seed_node_ids'', jstrs (gs_seed_node_ids s)),
      (''max_depth'', JInt (gs_max_depth s)),
      (''max_nodes'', JInt (gs_max_nodes s)),
      (''max_edges'', JInt (gs_max_edges s)),
      (''max_bytes'', JInt (gs_max_bytes s)),
      (''include_relations'', jstrs (gs_include_relations s)),
      (''created_at'', jtime (gs_created_at s))])"

definition task_workspace_json :: "task_workspace \<Rightarrow> jval" where
  "task_workspace_json w = JObj (versioned_fields w @
     [(''workspace_id'', JStr (tw_workspace_id w)),
      (''task_id'', JStr (tw_task_id w)),
      (''mode'', JStr (WorkspaceMode_value (tw_mode w))),
      (''relative_root'', JStr (tw_relative_root w)),
      (''repo_path'', JStr (tw_repo_path w)),
      (''context_path'', JStr (tw_context_path w)),
      (''artifacts_path'', JStr (tw_artifacts_path w)),
      (''logs_path'', JStr (tw_logs_path w)),
      (''git_commit'', JStr (tw_git_commit w)),
      (''graph_snapshot_id'', JStr (tw_graph_snapshot_id w)),
      (''graph_fingerprint'', JStr (tw_graph_fingerprint w)),
      (''manifest_sha256'', JStr (tw_manifest_sha256 w)),
      (''status'', JStr (WorkspaceStatus_value (tw_status w))),
      (''created_at'', jtime (tw_created_at w)),
      (''updated_at'', jtime (tw_updated_at w))])"

definition task_lease_json :: "task_lease \<Rightarrow> jval" where
  "task_lease_json l = JObj (versioned_fields l @
     [(''lease_id'', JStr (tl_lease_id l)),
      (''task_id'', JStr (tl_task_id l)),
      (''employee_id'', JStr (tl_employee_id l)),
      (''run_id'', JStr (tl_run_id l)),
      (''task_generation_id'', JStr (tl_task_generation_id l)),
      (''task_revision'', JInt (tl_task_revision l)),
      (''control_epoch'', JStr (tl_control_epoch l)),
      (''fencing_token'', JInt (tl_fencing_token l)),
      (''acquired_at'', jtime (tl_acquired_at l)),
      (''expires_at'', jtime (tl_expires_at l)),
      (''status'', JStr (TaskLeaseStatus_value (tl_status l)))])"

definition execution_invocation_json :: "execution_invocation \<Rightarrow> jval" where
  "execution_invocation_json i = JObj (versioned_fields i @
     [(''invocation_id'', JStr (ei_invocation_id i)),
      (''source'', JStr (ei_source i)),
      (''task_id'', JStr (ei_task_id i)),
      (''task_generation_id'', JStr (ei_task_generation_id i)),
      (''task_revision'', JInt (ei_task_revision i)),
      (''employee_id'', JStr (ei_employee_id i)),
      (''employee_configuration_revision'', JStr (ei_employee_configuration_revision i)),
      (''runtime_adapter_id'', JStr (ei_runtime_adapter_id i)),
      (''runtime_adapter_sha256'', JStr (ei_runtime_adapter_sha256 i)),
      (''workspace_id'', JStr (ei_workspace_id i)),
      (''workspace_manifest_sha256'', JStr (ei_workspace_manifest_sha256 i)),
      (''graph_scope_id'', JStr (ei_graph_scope_id i)),
      (''graph_snapshot_id'', JStr (ei_graph_snapshot_id i)),
      (''context_snapshot_sha256'', JStr (ei_context_snapshot_sha256 i)),
      (''policy_decision_id'', JStr (ei_policy_decision_id i)),
      (''policy_decision_sha256'', JStr (ei_policy_decision_sha256 i)),
      (''budget_policy_ids'', jstrs (ei_budget_policy_ids i)),
      (''approval_id'', jopt JStr (ei_approval_id i)),
      (''idempotency_key'', JStr (ei_idempotency_key i)),
      (''created_at'', jtime (ei_created_at i))])"

definition execution_usage_json :: "execution_usage \<Rightarrow> jval" where
  "execution_usage_json u = JObj (versioned_fields u @
     [(''input_tokens'', JInt (eu_input_tokens u)),
      (''output_tokens'', JInt (eu_output_tokens u)),
      (''cached_tokens'', JInt (eu_cached_tokens u)),
      (''estimated_cost_micros'', jopt JInt (eu_estimated_cost_micros u)),
      (''actual_cost_micros'', jopt JInt (eu_actual_cost_micros u))])"

definition test_result_json :: "test_result \<Rightarrow> jval" where
  "test_result_json r = JObj (versioned_fields r @
     [(''name'', JStr (xr_name r)),
      (''status'', JStr (xr_status r)),
      (''summary'', JStr (xr_summary r))])"

definition execution_run_json :: "execution_run \<Rightarrow> jval" where
  "execution_run_json r = JObj (versioned_fields r @
     [(''run_id'', JStr (er_run_id r)),
      (''invocation_id'', JStr (er_invocation_id r)),
      (''invocation_source'', JStr (er_invocation_source r)),
      (''employee_id'', JStr (er_employee_id r)),
      (''task_id'', JStr (er_task_id r)),
      (''runtime_adapter_id'', JStr (er_runtime_adapter_id r)),
      (''provider'', JStr (er_provider r)),
      (''model'', jopt JStr (er_model r)),
      (''safe_command'', jstrs (er_safe_command r)),
      (''cwd_token'', JStr (er_cwd_token r)),
      (''workspace_id'', JStr (er_workspace_id r)),
      (''graph_snapshot_id'', JStr (er_graph_snapshot_id r)),
      (''graph_scope_id'', JStr (er_graph_scope_id r)),
      (''session_id_before'', jopt JStr (er_session_id_before r)),
      (''session_id_after'', jopt JStr (er_session_id_after r)),
      (''policy_decision_id'', JStr (er_policy_decision_id r)),
      (''approval_id'', jopt JStr (er_approval_id r)),
      (''task_lease_id'', JStr (er_task_lease_id r)),
      (''fencing_token'', JInt (er_fencing_token r)),
      (''status'', JStr (ExecutionRunStatus_value (er_status r))),
      (''started_at'', jtime (er_started_at r)),
      (''ended_at'', jopt (\<lambda>t. jtime t) (er_ended_at r)),
      (''exit_code'', jopt JInt (er_exit_code r)),
      (''usage'', execution_usage_json (er_usage r)),
      (''changed_files'', jstrs (er_changed_files r)),
      (''tests'', JList (map test_result_json (er_tests r))),
      (''artifact_ids'', jstrs (er_artifact_ids r)),
      (''summary'', JStr (er_summary r)),
      (''error_code'', jopt JStr (er_error_code r)),
      (''retry_of_run_id'', jopt JStr (er_retry_of_run_id r)),
      (''resumed_from_run_id'', jopt JStr (er_resumed_from_run_id r))])"

definition execution_session_json :: "execution_session \<Rightarrow> jval" where
  "execution_session_json s = JObj (versioned_fields s @
     [(''session_id'', JStr (es_session_id s)),
      (''provider_session_id'', jopt JStr (es_provider_session_id s)),
      (''runtime_adapter_id'', JStr (es_runtime_adapter_id s)),
      (''provider'', JStr (es_provider s)),
      (''model'', jopt JStr (es_model s)),
      (''task_id'', JStr (es_task_id s)),
      (''employee_id'', JStr (es_employee_id s)),
      (''workspace_id'', JStr (es_workspace_id s)),
      (''graph_snapshot_id'', JStr (es_graph_snapshot_id s)),
      (''context_snapshot_sha256'', JStr (es_context_snapshot_sha256 s)),
      (''compatibility_sha256'', JStr (es_compatibility_sha256 s)),
      (''started_at'', jtime (es_started_at s)),
      (''last_resumed_at'', jopt (\<lambda>t. jtime t) (es_last_resumed_at s)),
      (''status'', JStr (ExecutionSessionStatus_value (es_status s))),
      (''previous_run_id'', jopt JStr (es_previous_run_id s)),
      (''usage_totals'', execution_usage_json (es_usage_totals s)),
      (''incompatibility_reason'', jopt JStr (es_incompatibility_reason s))])"

definition execution_approval_json :: "execution_approval \<Rightarrow> jval" where
  "execution_approval_json a = JObj (versioned_fields a @
     [(''approval_id'', JStr (ea_approval_id a)),
      (''action'', JStr (ea_action a)),
      (''payload_sha256'', JStr (ea_payload_sha256 a)),
      (''employee_id'', jopt JStr (ea_employee_id a)),
      (''task_id'', jopt JStr (ea_task_id a)),
      (''run_id'', jopt JStr (ea_run_id a)),
      (''workspace_id'', jopt JStr (ea_workspace_id a)),
      (''destination'', jopt JStr (ea_destination a)),
      (''scope'', jstrs (ea_scope a)),
      (''approved_by'', JStr (ea_approved_by a)),
      (''approved_at'', jtime (ea_approved_at a)),
      (''expires_at'', jtime (ea_expires_at a))])"

definition execution_comment_json :: "execution_comment \<Rightarrow> jval" where
  "execution_comment_json c = JObj (versioned_fields c @
     [(''comment_id'', JStr (ec_comment_id c)),
      (''task_id'', JStr (ec_task_id c)),
      (''kind'', JStr (CommentKind_value (ec_kind c))),
      (''actor'', JStr (ec_actor c)),
      (''run_id'', jopt JStr (ec_run_id c)),
      (''body'', JStr (ec_body c)),
      (''created_at'', jtime (ec_created_at c))])"

definition transcript_event_json :: "transcript_event \<Rightarrow> jval" where
  "transcript_event_json e = JObj (versioned_fields e @
     [(''transcript_event_id'', JStr (tx_transcript_event_id e)),
      (''run_id'', JStr (tx_run_id e)),
      (''sequence'', JInt (tx_sequence e)),
      (''stream'', JStr (tx_stream e)),
      (''event_type'', JStr (tx_event_type e)),
      (''text'', JStr (tx_text e)),
      (''redacted'', JBool (tx_redacted e)),
      (''created_at'', jtime (tx_created_at e))])"

definition policy_decision_json :: "policy_decision \<Rightarrow> jval" where
  "policy_decision_json d = JObj (versioned_fields d @
     [(''policy_decision_id'', JStr (pd_policy_decision_id d)),
      (''action'', JStr (pd_action d)),
      (''target_id'', JStr (pd_target_id d)),
      (''payload_sha256'', JStr (pd_payload_sha256 d)),
      (''destination'', jopt JStr (pd_destination d)),
      (''policy_version'', JStr (pd_policy_version d)),
      (''policy_sha256'', JStr (pd_policy_sha256 d)),
      (''outcome'', JStr (PolicyOutcome_value (pd_outcome d))),
      (''reason_codes'', jstrs (pd_reason_codes d)),
      (''required_approval_scope'', jstrs (pd_required_approval_scope d)),
      (''evaluated_at'', jtime (pd_evaluated_at d))])"

section \<open>The record types of the store\<close>

datatype execution_record =
    XAssignment task_assignment
  | XApproval execution_approval
  | XBudgetPolicy budget_policy
  | XBudgetUsage budget_usage
  | XComment execution_comment
  | XEmployee digital_employee
  | XGraphScope task_graph_scope
  | XInvocation execution_invocation
  | XLease task_lease
  | XPolicyDecision policy_decision
  | XRun execution_run
  | XSession execution_session
  | XWorkspace task_workspace

fun record_kind :: "execution_record \<Rightarrow> string" where
  "record_kind (XAssignment _) = ''assignment''"
| "record_kind (XApproval _) = ''approval''"
| "record_kind (XBudgetPolicy _) = ''budget_policy''"
| "record_kind (XBudgetUsage _) = ''budget_usage''"
| "record_kind (XComment _) = ''comment''"
| "record_kind (XEmployee _) = ''employee''"
| "record_kind (XGraphScope _) = ''graph_scope''"
| "record_kind (XInvocation _) = ''invocation''"
| "record_kind (XLease _) = ''lease''"
| "record_kind (XPolicyDecision _) = ''policy_decision''"
| "record_kind (XRun _) = ''run''"
| "record_kind (XSession _) = ''session''"
| "record_kind (XWorkspace _) = ''workspace''"

definition record_kinds :: "string list" where
  "record_kinds = [''assignment'', ''approval'', ''budget_policy'', ''budget_usage'', ''comment'', ''employee'',
     ''graph_scope'', ''invocation'', ''lease'', ''policy_decision'', ''run'', ''session'', ''workspace'']"

definition immutable_kinds :: "string list" where
  "immutable_kinds = [''approval'', ''budget_policy'', ''comment'', ''graph_scope'', ''invocation'', ''policy_decision'']"

fun record_key :: "execution_record \<Rightarrow> string" where
  "record_key (XAssignment a) = ta_assignment_id a"
| "record_key (XApproval a) = ea_approval_id a"
| "record_key (XBudgetPolicy p) = bp_budget_policy_id p"
| "record_key (XBudgetUsage u) = bu_budget_policy_id u"
| "record_key (XComment c) = ec_comment_id c"
| "record_key (XEmployee e) = de_employee_id e"
| "record_key (XGraphScope s) = gs_graph_scope_id s"
| "record_key (XInvocation i) = ei_invocation_id i"
| "record_key (XLease l) = tl_lease_id l"
| "record_key (XPolicyDecision d) = pd_policy_decision_id d"
| "record_key (XRun r) = er_run_id r"
| "record_key (XSession s) = es_session_id s"
| "record_key (XWorkspace w) = tw_workspace_id w"

fun record_json :: "execution_record \<Rightarrow> jval" where
  "record_json (XAssignment a) = task_assignment_json a"
| "record_json (XApproval a) = execution_approval_json a"
| "record_json (XBudgetPolicy p) = budget_policy_json p"
| "record_json (XBudgetUsage u) = budget_usage_json u"
| "record_json (XComment c) = execution_comment_json c"
| "record_json (XEmployee e) = digital_employee_json e"
| "record_json (XGraphScope s) = task_graph_scope_json s"
| "record_json (XInvocation i) = execution_invocation_json i"
| "record_json (XLease l) = task_lease_json l"
| "record_json (XPolicyDecision d) = policy_decision_json d"
| "record_json (XRun r) = execution_run_json r"
| "record_json (XSession s) = execution_session_json s"
| "record_json (XWorkspace w) = task_workspace_json w"

fun record_extensions :: "execution_record \<Rightarrow> (string \<times> jval) list" where
  "record_extensions (XAssignment a) = extensions a"
| "record_extensions (XApproval a) = extensions a"
| "record_extensions (XBudgetPolicy p) = extensions p"
| "record_extensions (XBudgetUsage u) = extensions u"
| "record_extensions (XComment c) = extensions c"
| "record_extensions (XEmployee e) = extensions e"
| "record_extensions (XGraphScope s) = extensions s"
| "record_extensions (XInvocation i) = extensions i"
| "record_extensions (XLease l) = extensions l"
| "record_extensions (XPolicyDecision d) = extensions d"
| "record_extensions (XRun r) = extensions r"
| "record_extensions (XSession s) = extensions s"
| "record_extensions (XWorkspace w) = extensions w"

text \<open>The contracts with a content-derived identifier offer \<open>verify_id\<close>.\<close>

fun record_verify_id :: "digest \<Rightarrow> execution_record \<Rightarrow> bool" where
  "record_verify_id sha (XGraphScope s) = graph_scope_verify_id sha s"
| "record_verify_id sha (XInvocation i) = invocation_verify_id sha i"
| "record_verify_id sha (XApproval a) = approval_verify_id sha a"
| "record_verify_id sha (XComment c) = comment_verify_id sha c"
| "record_verify_id sha _ = True"

text \<open>\<open>_state\<close>: the first of \<open>status\<close>, \<open>state\<close>, \<open>kind\<close> and \<open>scope_kind\<close> that the record has.\<close>

fun record_state :: "execution_record \<Rightarrow> string" where
  "record_state (XAssignment a) = ta_status a"
| "record_state (XBudgetPolicy p) = bp_scope_kind p"
| "record_state (XComment c) = CommentKind_value (ec_kind c)"
| "record_state (XEmployee e) = EmployeeStatus_value (de_status e)"
| "record_state (XLease l) = TaskLeaseStatus_value (tl_status l)"
| "record_state (XRun r) = ExecutionRunStatus_value (er_status r)"
| "record_state (XSession s) = ExecutionSessionStatus_value (es_status s)"
| "record_state (XWorkspace w) = WorkspaceStatus_value (tw_status w)"
| "record_state _ = ''active''"

record associations =
  as_task_id :: "string option"
  as_employee_id :: "string option"
  as_run_id :: "string option"
  as_workspace_id :: "string option"
  as_scope_id :: "string option"

definition associated :: "string option \<Rightarrow> string option \<Rightarrow> string option \<Rightarrow> string option \<Rightarrow> string option \<Rightarrow> associations" where
  "associated task employee run workspace scope =
     \<lparr>as_task_id = task, as_employee_id = employee, as_run_id = run, as_workspace_id = workspace, as_scope_id = scope\<rparr>"

text \<open>\<open>_associations\<close>; the task of an employee is its current task.\<close>

fun record_associations :: "execution_record \<Rightarrow> associations" where
  "record_associations (XAssignment a) = associated (Some (ta_task_id a)) (Some (ta_employee_id a)) None None None"
| "record_associations (XApproval a) =
     associated (ea_task_id a) (ea_employee_id a) (ea_run_id a) (ea_workspace_id a) None"
| "record_associations (XBudgetPolicy p) = associated None None None None (Some (bp_scope_id p))"
| "record_associations (XBudgetUsage u) = associated None None None None (Some (bu_budget_policy_id u))"
| "record_associations (XComment c) = associated (Some (ec_task_id c)) None (ec_run_id c) None None"
| "record_associations (XEmployee e) = associated (de_current_task_id e) (Some (de_employee_id e)) None None None"
| "record_associations (XGraphScope s) = associated (Some (gs_task_id s)) None None None None"
| "record_associations (XInvocation i) =
     associated (Some (ei_task_id i)) (Some (ei_employee_id i)) None (Some (ei_workspace_id i)) None"
| "record_associations (XLease l) =
     associated (Some (tl_task_id l)) (Some (tl_employee_id l)) (Some (tl_run_id l)) None None"
| "record_associations (XPolicyDecision d) = associated None None None None None"
| "record_associations (XRun r) =
     associated (Some (er_task_id r)) (Some (er_employee_id r)) (Some (er_run_id r)) (Some (er_workspace_id r)) None"
| "record_associations (XSession s) =
     associated (Some (es_task_id s)) (Some (es_employee_id s)) None (Some (es_workspace_id s)) None"
| "record_associations (XWorkspace w) = associated (Some (tw_task_id w)) None None (Some (tw_workspace_id w)) None"

text \<open>\<open>str.casefold\<close> on the characters of the model, and the keys an extension must not have.\<close>

definition casefold_char :: "char \<Rightarrow> string" where
  "casefold_char c =
     (let n = (of_char c :: nat) in
      if (65 \<le> n \<and> n \<le> 90) \<or> (192 \<le> n \<and> n \<le> 222 \<and> n \<noteq> 215) then [char_of (n + 32)]
      else if n = 223 then ''ss'' else [c])"

definition normalized_key :: "string \<Rightarrow> string" where
  "normalized_key k = map (\<lambda>c. if c = CHR ''-'' then CHR ''_'' else c) (concat (map casefold_char k))"

definition forbidden_keys :: "string list" where
  "forbidden_keys = [''api_key'', ''args'', ''argv'', ''command'', ''cwd'', ''env'', ''environment'', ''password'',
     ''raw_command'', ''secret'', ''shell'', ''token'']"

fun inspect :: "jval \<Rightarrow> bool" where
  "inspect (JObj kvs) = list_ex (\<lambda>(k, v). normalized_key k \<in> set forbidden_keys \<or> inspect v) kvs"
| "inspect (JList vs) = list_ex inspect vs"
| "inspect _ = False"

end
