(* ===== verification/Execution_Store.thy ===== *)
theory Execution_Store
  imports Execution_Records Platform_Store
begin

text \<open>
  Model of \<open>ExecutionStore\<close> (\<open>src/raytsystem/execution/store.py\<close>): the typed records of the execution
  plane with a head per record, the transcripts of the runs and the idempotency receipts, as tables of
  the control database. A write is one transaction (\<open>BEGIN IMMEDIATE\<close>): it returns its result with the
  tables it commits, or an error after \<open>ROLLBACK\<close>. What reads a stored text back is the validation
  library (\<open>model_validate_json\<close>), a parameter of the environment, as is the secret scanner. The current
  time is an argument. Connection setup, pragmas and the check of the write-ahead log are left out.
\<close>

section \<open>Definitions\<close>

datatype xstore_error = ExecutionStoreError | ExecutionStoreConflict | ExecutionStoreUnavailable
  | XStoreValueError | XStoreIntegrityError

record execution_row =
  xw_kind :: string
  xw_record_id :: string
  xw_revision :: int
  xw_payload_json :: string
  xw_payload_sha256 :: string
  xw_state :: string
  xw_associations :: associations
  xw_created_at :: string

record transcript_row =
  xt_run_id :: string
  xt_sequence :: int
  xt_event_id :: string
  xt_payload_json :: string
  xt_payload_sha256 :: string
  xt_created_at :: string

record idempotency_row =
  xi_scope :: string
  xi_idempotency_key :: string
  xi_request_sha256 :: string
  xi_receipt_json :: string
  xi_receipt_sha256 :: string
  xi_created_at :: string

record execution_db =
  xd_tables :: "string list"
  xd_schema_version :: "string option"
  xd_records :: "execution_row list"
  xd_heads :: "head_row list"
  xd_transcripts :: "transcript_row list"
  xd_idempotency :: "idempotency_row list"

record xstore_env =
  xe_sha :: digest
  xe_blocks :: "bytes \<Rightarrow> bool"
  xe_decode :: "string \<Rightarrow> string \<Rightarrow> execution_record option"
  xe_decode_event :: "string \<Rightarrow> transcript_event option"
  xe_writable :: bool

type_synonym 'a xstore_txn = "(xstore_error, 'a \<times> execution_db) result"

subsection \<open>The schema\<close>

definition XSTORE_SCHEMA_VERSION :: string where "XSTORE_SCHEMA_VERSION = ''1''"

definition xstore_tables :: "string list" where
  "xstore_tables = [''execution_meta'', ''execution_records'', ''execution_record_heads'',
     ''execution_transcript_events'', ''execution_idempotency'']"

definition empty_control_db :: execution_db where
  "empty_control_db = \<lparr>xd_tables = [], xd_schema_version = None, xd_records = [], xd_heads = [],
     xd_transcripts = [], xd_idempotency = []\<rparr>"

text \<open>\<open>name LIKE 'execution_%'\<close>: the comparison ignores case and the underscore stands for any character.\<close>

definition like_execution :: "string \<Rightarrow> bool" where
  "like_execution name \<longleftrightarrow>
     10 \<le> length name \<and>
     map (\<lambda>c. let n = (of_char c :: nat) in if 65 \<le> n \<and> n \<le> 90 then char_of (n + 32) else c) (take 9 name) = ''execution''"

definition verify_execution_schema :: "execution_db \<Rightarrow> (xstore_error, unit) result" where
  "verify_execution_schema db =
     (if \<not> set xstore_tables \<subseteq> set (xd_tables db) then Inl ExecutionStoreUnavailable
      else if xd_schema_version db \<noteq> Some XSTORE_SCHEMA_VERSION then Inl ExecutionStoreUnavailable
      else Inr ())"

definition initialize_execution_schema :: "execution_db \<Rightarrow> (xstore_error, execution_db) result" where
  "initialize_execution_schema db =
     (let prefixed = filter like_execution (xd_tables db) in
      rbind (if prefixed \<noteq> [] \<and> ''execution_meta'' \<notin> set prefixed then Inl ExecutionStoreUnavailable
             else if prefixed \<noteq> [] \<and> xd_schema_version db \<noteq> Some XSTORE_SCHEMA_VERSION then Inl ExecutionStoreUnavailable
             else Inr ()) (\<lambda>_.
      let db' = db\<lparr>xd_tables := xd_tables db @ filter (\<lambda>t. t \<notin> set (xd_tables db)) xstore_tables,
                   xd_schema_version := (case xd_schema_version db of None \<Rightarrow> Some XSTORE_SCHEMA_VERSION | Some v \<Rightarrow> Some v)\<rparr>
      in rbind (verify_execution_schema db') (\<lambda>_. Inr db')))"

subsection \<open>What may be stored\<close>

definition ascii_letter :: "char \<Rightarrow> bool" where
  "ascii_letter c \<longleftrightarrow> (let n = of_char c :: nat in (65 \<le> n \<and> n \<le> 90) \<or> (97 \<le> n \<and> n \<le> 122))"

definition is_store_key :: "string \<Rightarrow> bool" where
  "is_store_key s \<longleftrightarrow>
     (case s of
        [] \<Rightarrow> False
      | c # r \<Rightarrow> ascii_letter c \<and> 1 \<le> length r \<and> length r \<le> 255 \<and>
          list_all (\<lambda>x. ascii_letter x \<or> decimal_digit x \<or> x \<in> set ''_:.@/-'') r)"

definition validate_key :: "string \<Rightarrow> (xstore_error, unit) result" where
  "validate_key s = ensure (is_store_key s) XStoreValueError"

definition dangerous_markers :: "bytes list" where
  "dangerous_markers = [''--dangerously-bypass-approvals-and-sandbox'', ''--dangerously-skip-permissions'',
     ''bypassPermissions'']"

definition has_substring :: "bytes \<Rightarrow> bytes \<Rightarrow> bool" where
  "has_substring rendered marker \<longleftrightarrow> list_ex (\<lambda>s. starts_with s marker) (suffixes rendered)"

definition safe_bytes :: "xstore_env \<Rightarrow> bytes \<Rightarrow> bool" where
  "safe_bytes env rendered \<longleftrightarrow> \<not> list_ex (has_substring rendered) dangerous_markers \<and> \<not> xe_blocks env rendered"

definition validate_persisted_payload :: "xstore_env \<Rightarrow> bytes \<Rightarrow> (xstore_error, unit) result" where
  "validate_persisted_payload env rendered = ensure (safe_bytes env rendered) ExecutionStoreError"

definition record_shape :: "execution_record \<Rightarrow> bool" where
  "record_shape record \<longleftrightarrow>
     \<not> inspect (JObj (record_extensions record)) \<and>
     (case record of
        XRun r \<Rightarrow> validate_safe_command_argv (er_runtime_adapter_id r) (er_safe_command r) = Inr ()
      | XApproval a \<Rightarrow>
          \<not> (ea_action a = ''execute_runtime'' \<and>
             None \<in> {ea_employee_id a, ea_task_id a, ea_run_id a, ea_workspace_id a, ea_destination a})
      | _ \<Rightarrow> True)"

definition validate_record_shape :: "execution_record \<Rightarrow> (xstore_error, unit) result" where
  "validate_record_shape record = ensure (record_shape record) ExecutionStoreError"

definition begin_write :: "xstore_env \<Rightarrow> (xstore_error, unit) result" where
  "begin_write env = ensure (xe_writable env) ExecutionStoreError"

text \<open>\<open>isoformat(timespec="milliseconds")\<close> of a UTC time.\<close>

definition iso_offset :: "datetime \<Rightarrow> string" where
  "iso_offset t = butlast (iso_millis t) @ ''+00:00''"

subsection \<open>Records\<close>

definition find_xhead :: "execution_db \<Rightarrow> string \<Rightarrow> string \<Rightarrow> head_row option" where
  "find_xhead db kind i = find (\<lambda>h. (hr_kind h, hr_record_id h) = (kind, i)) (xd_heads db)"

definition find_xrow :: "execution_db \<Rightarrow> string \<Rightarrow> string \<Rightarrow> int \<Rightarrow> execution_row option" where
  "find_xrow db kind i revision =
     find (\<lambda>r. (xw_kind r, xw_record_id r, xw_revision r) = (kind, i, revision)) (xd_records db)"

text \<open>\<open>_decode\<close> on a row of \<open>execution_records\<close>.\<close>

definition decode_row :: "xstore_env \<Rightarrow> string \<Rightarrow> execution_row \<Rightarrow> (xstore_error, execution_record) result" where
  "decode_row env kind row =
     (if sha256_hex (xe_sha env) (utf8 (xw_payload_json row)) \<noteq> xw_payload_sha256 row then Inl ExecutionStoreError
      else case xe_decode env kind (xw_payload_json row) of
        None \<Rightarrow> Inl ExecutionStoreError
      | Some r \<Rightarrow>
          if \<not> record_verify_id (xe_sha env) r then Inl ExecutionStoreError
          else if record_key r \<noteq> xw_record_id row then Inl ExecutionStoreError
          else if xw_associations row \<noteq> record_associations r then Inl ExecutionStoreError
          else Inr r)"

text \<open>The head a writer finds: the join with its row, checked and decoded.\<close>

definition checked_head :: "xstore_env \<Rightarrow> execution_db \<Rightarrow> string \<Rightarrow> string \<Rightarrow> (xstore_error, head_row option) result" where
  "checked_head env db kind i =
     (case find_xhead db kind i of
        None \<Rightarrow> Inr None
      | Some h \<Rightarrow>
          (case find_xrow db kind i (hr_revision h) of
             None \<Rightarrow> Inl ExecutionStoreError
           | Some row \<Rightarrow>
               if hr_payload_sha256 h \<noteq> xw_payload_sha256 row then Inl ExecutionStoreError
               else rbind (decode_row env kind row) (\<lambda>_. Inr (Some h))))"

definition assignment_revision_ok :: "execution_record \<Rightarrow> int \<Rightarrow> bool" where
  "assignment_revision_ok record revision \<longleftrightarrow> (case record of XAssignment a \<Rightarrow> ta_revision a = revision | _ \<Rightarrow> True)"

definition insert_record :: "xstore_env \<Rightarrow> datetime \<Rightarrow> execution_record \<Rightarrow> int \<Rightarrow> execution_db \<Rightarrow> int xstore_txn" where
  "insert_record env now record revision db =
     (let digest = sha256_hex (xe_sha env) (json_bytes (record_json record)) in
      if find_xrow db (record_kind record) (record_key record) revision \<noteq> None then Inl XStoreIntegrityError
      else Inr (revision, db\<lparr>
        xd_records := xd_records db @
          [\<lparr>xw_kind = record_kind record, xw_record_id = record_key record, xw_revision = revision,
            xw_payload_json = dumps (record_json record), xw_payload_sha256 = digest, xw_state = record_state record,
            xw_associations = record_associations record, xw_created_at = iso_offset now\<rparr>],
        xd_heads := upsert_head \<lparr>hr_kind = record_kind record, hr_record_id = record_key record,
          hr_revision = revision, hr_payload_sha256 = digest\<rparr> (xd_heads db)\<rparr>))"

definition put_record :: "xstore_env \<Rightarrow> datetime \<Rightarrow> execution_record \<Rightarrow> int option \<Rightarrow> execution_db \<Rightarrow> int xstore_txn" where
  "put_record env now record expected_revision db =
     rbind (ensure (record_verify_id (xe_sha env) record) ExecutionStoreConflict) (\<lambda>_.
     rbind (validate_record_shape record) (\<lambda>_.
     rbind (validate_persisted_payload env (json_bytes (record_json record))) (\<lambda>_.
     rbind (begin_write env) (\<lambda>_.
     rbind (checked_head env db (record_kind record) (record_key record)) (\<lambda>found.
     let digest = sha256_hex (xe_sha env) (json_bytes (record_json record));
         observed = map_option hr_revision found;
         revision = (case observed of None \<Rightarrow> 1 | Some n \<Rightarrow> n + 1)
     in if map_option hr_payload_sha256 found = Some digest then Inr (the observed, db)
        else if record_kind record \<in> set immutable_kinds \<and> found \<noteq> None then Inl ExecutionStoreConflict
        else if expected_revision \<noteq> observed then Inl ExecutionStoreConflict
        else if \<not> assignment_revision_ok record revision then Inl ExecutionStoreConflict
        else insert_record env now record revision db)))))"

definition get_record :: "xstore_env \<Rightarrow> string \<Rightarrow> string \<Rightarrow> execution_db \<Rightarrow> (xstore_error, execution_record option) result" where
  "get_record env kind i db =
     rbind (validate_key i) (\<lambda>_.
     case find_xhead db kind i of
       None \<Rightarrow> Inr None
     | Some h \<Rightarrow>
         (case find_xrow db kind i (hr_revision h) of
            None \<Rightarrow> Inr None
          | Some row \<Rightarrow> rbind (decode_row env kind row) (\<lambda>r. Inr (Some r))))"

definition head_revision :: "string \<Rightarrow> string \<Rightarrow> execution_db \<Rightarrow> (xstore_error, int option) result" where
  "head_revision kind i db = rbind (validate_key i) (\<lambda>_. Inr (map_option hr_revision (find_xhead db kind i)))"

record record_filter =
  rf_state :: "string option"
  rf_associations :: associations

definition matches_filter :: "record_filter \<Rightarrow> execution_row \<Rightarrow> bool" where
  "matches_filter q row \<longleftrightarrow>
     (let wanted = (\<lambda>want have. want = None \<or> have = want);
          w = rf_associations q; a = xw_associations row
      in (rf_state q = None \<or> rf_state q = Some (xw_state row)) \<and> wanted (as_task_id w) (as_task_id a) \<and>
         wanted (as_employee_id w) (as_employee_id a) \<and> wanted (as_run_id w) (as_run_id a) \<and>
         wanted (as_workspace_id w) (as_workspace_id a) \<and> wanted (as_scope_id w) (as_scope_id a))"

definition filter_keys :: "record_filter \<Rightarrow> string list" where
  "filter_keys q = List.map_filter id
     [rf_state q, as_task_id (rf_associations q), as_employee_id (rf_associations q), as_run_id (rf_associations q),
      as_workspace_id (rf_associations q), as_scope_id (rf_associations q)]"

text \<open>\<open>ORDER BY created_at DESC, record_id\<close>: a stable sort by the second key, then by the first.\<close>

definition list_records ::
    "xstore_env \<Rightarrow> string \<Rightarrow> record_filter \<Rightarrow> int \<Rightarrow> int \<Rightarrow> execution_db \<Rightarrow> (xstore_error, execution_record list) result" where
  "list_records env kind q limit offset db =
     rbind (ensure (1 \<le> limit \<and> limit \<le> 500 \<and> 0 \<le> offset \<and> offset \<le> 1000000) XStoreValueError) (\<lambda>_.
     rbind (rmap validate_key (filter_keys q)) (\<lambda>_.
     let joined = List.map_filter (\<lambda>h. find_xrow db kind (hr_record_id h) (hr_revision h))
                    (filter (\<lambda>h. hr_kind h = kind) (xd_heads db));
         ordered = rev (sort_key xw_created_at (rev (sort_key xw_record_id (filter (matches_filter q) joined))))
     in rmap (decode_row env kind) (take (nat limit) (drop (nat offset) ordered))))"

subsection \<open>Transcripts\<close>

definition run_transcript :: "execution_db \<Rightarrow> string \<Rightarrow> transcript_row list" where
  "run_transcript db run_id = filter (\<lambda>r. xt_run_id r = run_id) (xd_transcripts db)"

definition last_sequence :: "execution_db \<Rightarrow> string \<Rightarrow> int option" where
  "last_sequence db run_id =
     (case run_transcript db run_id of [] \<Rightarrow> None | rs \<Rightarrow> Some (Max (set (map xt_sequence rs))))"

definition same_event :: "xstore_env \<Rightarrow> transcript_event \<Rightarrow> transcript_row \<Rightarrow> bool" where
  "same_event env event row \<longleftrightarrow>
     xt_run_id row = tx_run_id event \<and> xt_sequence row = tx_sequence event \<and>
     xt_payload_sha256 row = sha256_hex (xe_sha env) (json_bytes (transcript_event_json event))"

definition append_transcript :: "xstore_env \<Rightarrow> transcript_event \<Rightarrow> execution_db \<Rightarrow> bool xstore_txn" where
  "append_transcript env event db =
     rbind (validate_persisted_payload env (json_bytes (transcript_event_json event))) (\<lambda>_.
     rbind (begin_write env) (\<lambda>_.
     rbind (ensure (case find (\<lambda>r. xt_event_id r = tx_transcript_event_id event) (xd_transcripts db) of
                      None \<Rightarrow> True | Some row \<Rightarrow> same_event env event row) ExecutionStoreConflict) (\<lambda>_.
     case find (\<lambda>r. xt_run_id r = tx_run_id event \<and> xt_sequence r = tx_sequence event) (xd_transcripts db) of
       Some row \<Rightarrow>
         (if xt_event_id row = tx_transcript_event_id event \<and> same_event env event row then Inr (False, db)
          else Inl ExecutionStoreConflict)
     | None \<Rightarrow>
         (if tx_sequence event \<noteq> (case last_sequence db (tx_run_id event) of None \<Rightarrow> 0 | Some n \<Rightarrow> n + 1)
          then Inl ExecutionStoreConflict
          else Inr (True, db\<lparr>xd_transcripts := xd_transcripts db @
            [\<lparr>xt_run_id = tx_run_id event, xt_sequence = tx_sequence event, xt_event_id = tx_transcript_event_id event,
              xt_payload_json = dumps (transcript_event_json event),
              xt_payload_sha256 = sha256_hex (xe_sha env) (json_bytes (transcript_event_json event)),
              xt_created_at = iso_offset (tx_created_at event)\<rparr>]\<rparr>)))))"

definition decode_event :: "xstore_env \<Rightarrow> transcript_row \<Rightarrow> (xstore_error, transcript_event) result" where
  "decode_event env row =
     (if sha256_hex (xe_sha env) (utf8 (xt_payload_json row)) \<noteq> xt_payload_sha256 row then Inl ExecutionStoreError
      else case xe_decode_event env (xt_payload_json row) of
        None \<Rightarrow> Inl ExecutionStoreError
      | Some e \<Rightarrow>
          if tx_run_id e \<noteq> xt_run_id row \<or> tx_sequence e \<noteq> xt_sequence row \<or> tx_transcript_event_id e \<noteq> xt_event_id row
          then Inl ExecutionStoreError else Inr e)"

definition list_transcript ::
    "xstore_env \<Rightarrow> string \<Rightarrow> int \<Rightarrow> int \<Rightarrow> execution_db \<Rightarrow> (xstore_error, transcript_event list) result" where
  "list_transcript env run_id after_sequence limit db =
     rbind (validate_key run_id) (\<lambda>_.
     rbind (ensure (- 1 \<le> after_sequence \<and> after_sequence \<le> 10000000 \<and> 1 \<le> limit \<and> limit \<le> 1000) XStoreValueError) (\<lambda>_.
     rmap (decode_event env) (take (nat limit)
       (sort_key xt_sequence (filter (\<lambda>r. after_sequence < xt_sequence r) (run_transcript db run_id))))))"

subsection \<open>Receipts\<close>

definition find_idempotency :: "execution_db \<Rightarrow> string \<Rightarrow> string \<Rightarrow> idempotency_row option" where
  "find_idempotency db scope key = find (\<lambda>r. (xi_scope r, xi_idempotency_key r) = (scope, key)) (xd_idempotency db)"

definition store_receipt ::
    "xstore_env \<Rightarrow> datetime \<Rightarrow> string \<Rightarrow> string \<Rightarrow> dict \<Rightarrow> dict \<Rightarrow> execution_db \<Rightarrow> bool xstore_txn" where
  "store_receipt env now scope key request receipt db =
     rbind (validate_key scope) (\<lambda>_.
     rbind (validate_key key) (\<lambda>_.
     let request_sha256 = sha256_hex (xe_sha env) (json_bytes (JObj request));
         receipt_json = dumps (JObj receipt);
         receipt_sha256 = sha256_hex (xe_sha env) (json_bytes (JObj receipt)) in
     rbind (validate_persisted_payload env (json_bytes (JObj request))) (\<lambda>_.
     rbind (validate_persisted_payload env (json_bytes (JObj receipt))) (\<lambda>_.
     rbind (begin_write env) (\<lambda>_.
     case find_idempotency db scope key of
       Some row \<Rightarrow>
         (if xi_request_sha256 row = request_sha256 \<and> xi_receipt_json row = receipt_json \<and>
             xi_receipt_sha256 row = receipt_sha256 then Inr (False, db)
          else Inl ExecutionStoreConflict)
     | None \<Rightarrow> Inr (True, db\<lparr>xd_idempotency := xd_idempotency db @
         [\<lparr>xi_scope = scope, xi_idempotency_key = key, xi_request_sha256 = request_sha256, xi_receipt_json = receipt_json,
           xi_receipt_sha256 = receipt_sha256, xi_created_at = iso_offset now\<rparr>]\<rparr>))))))"

definition stored_receipt :: "xstore_env \<Rightarrow> string \<Rightarrow> string \<Rightarrow> dict \<Rightarrow> execution_db \<Rightarrow> (xstore_error, dict option) result" where
  "stored_receipt env scope key request db =
     rbind (validate_key scope) (\<lambda>_.
     rbind (validate_key key) (\<lambda>_.
     rbind (validate_persisted_payload env (json_bytes (JObj request))) (\<lambda>_.
     case find_idempotency db scope key of
       None \<Rightarrow> Inr None
     | Some row \<Rightarrow>
         (if xi_request_sha256 row \<noteq> sha256_hex (xe_sha env) (json_bytes (JObj request)) then Inl ExecutionStoreConflict
          else if sha256_hex (xe_sha env) (utf8 (xi_receipt_json row)) \<noteq> xi_receipt_sha256 row then Inl ExecutionStoreError
          else case loads (xi_receipt_json row) of
                 None \<Rightarrow> Inl XStoreValueError
               | Some (JObj d) \<Rightarrow> Inr (Some d)
               | Some _ \<Rightarrow> Inl ExecutionStoreError))))"

end
