(* ===== verification/Execution_Store_Properties.thy ===== *)
theory Execution_Store_Properties
  imports Execution_Store
begin

text \<open>
  What the execution store guarantees. \<open>xstore_ok\<close> is the invariant of its tables: every row is the
  rendering of a record that passed the checks of \<open>put\<close>, the revisions of a record count from one and
  its head is the last of them, the events of a run count from zero. Every write keeps it and only
  extends the log of a record (\<open>xlog\<close>) and the transcript of a run.
\<close>

section \<open>The invariant of the tables\<close>

definition xrows :: "execution_db \<Rightarrow> string \<Rightarrow> string \<Rightarrow> execution_row list" where
  "xrows db kind i = filter (\<lambda>r. (xw_kind r, xw_record_id r) = (kind, i)) (xd_records db)"

text \<open>A row is the rendering of a record that passed every check of \<open>put\<close>.\<close>

definition admitted :: "xstore_env \<Rightarrow> execution_record \<Rightarrow> bool" where
  "admitted env r \<longleftrightarrow> record_verify_id (xe_sha env) r \<and> record_shape r \<and> safe_bytes env (json_bytes (record_json r))"

definition row_of :: "xstore_env \<Rightarrow> execution_record \<Rightarrow> execution_row \<Rightarrow> bool" where
  "row_of env r row \<longleftrightarrow>
     xw_kind row = record_kind r \<and> xw_record_id row = record_key r \<and> xw_payload_json row = dumps (record_json r) \<and>
     xw_payload_sha256 row = sha256_hex (xe_sha env) (utf8 (xw_payload_json row)) \<and> xw_state row = record_state r \<and>
     xw_associations row = record_associations r"

definition event_row_of :: "xstore_env \<Rightarrow> transcript_event \<Rightarrow> transcript_row \<Rightarrow> bool" where
  "event_row_of env e row \<longleftrightarrow>
     xt_run_id row = tx_run_id e \<and> xt_sequence row = tx_sequence e \<and> xt_event_id row = tx_transcript_event_id e \<and>
     xt_payload_json row = dumps (transcript_event_json e) \<and>
     xt_payload_sha256 row = sha256_hex (xe_sha env) (utf8 (xt_payload_json row)) \<and> safe_bytes env (utf8 (xt_payload_json row))"

definition head_for :: "string \<Rightarrow> string \<Rightarrow> execution_row list \<Rightarrow> head_row option" where
  "head_for kind i rows =
     (if rows = [] then None
      else Some \<lparr>hr_kind = kind, hr_record_id = i, hr_revision = int (length rows), hr_payload_sha256 = xw_payload_sha256 (last rows)\<rparr>)"

definition xrecords_ok :: "xstore_env \<Rightarrow> execution_db \<Rightarrow> bool" where
  "xrecords_ok env db \<longleftrightarrow>
     (\<forall>row\<in>set (xd_records db). \<exists>r. row_of env r row \<and> admitted env r) \<and>
     (\<forall>kind i. map xw_revision (xrows db kind i) = map (\<lambda>n. int n + 1) [0..<length (xrows db kind i)] \<and>
        find_xhead db kind i = head_for kind i (xrows db kind i) \<and>
        (kind \<in> set immutable_kinds \<longrightarrow> length (xrows db kind i) \<le> 1))"

definition xtranscripts_ok :: "xstore_env \<Rightarrow> execution_db \<Rightarrow> bool" where
  "xtranscripts_ok env db \<longleftrightarrow>
     (\<forall>row\<in>set (xd_transcripts db). \<exists>e. event_row_of env e row) \<and> distinct (map xt_event_id (xd_transcripts db)) \<and>
     (\<forall>run. map xt_sequence (run_transcript db run) = map int [0..<length (run_transcript db run)])"

definition xreceipts_ok :: "xstore_env \<Rightarrow> execution_db \<Rightarrow> bool" where
  "xreceipts_ok env db \<longleftrightarrow>
     (\<forall>row\<in>set (xd_idempotency db). safe_bytes env (utf8 (xi_receipt_json row)) \<and>
        xi_receipt_sha256 row = sha256_hex (xe_sha env) (utf8 (xi_receipt_json row))) \<and>
     distinct (map (\<lambda>r. (xi_scope r, xi_idempotency_key r)) (xd_idempotency db))"

definition xstore_ok :: "xstore_env \<Rightarrow> execution_db \<Rightarrow> bool" where
  "xstore_ok env db \<longleftrightarrow> xrecords_ok env db \<and> xtranscripts_ok env db \<and> xreceipts_ok env db"

text \<open>Writes of the store, and its schema.\<close>

inductive xstore_step :: "xstore_env \<Rightarrow> execution_db \<Rightarrow> execution_db \<Rightarrow> bool" for env where
  Initialized: "initialize_execution_schema db = Inr db' \<Longrightarrow> xstore_step env db db'"
| Put: "put_record env now record expected db = Inr (n, db') \<Longrightarrow> xstore_step env db db'"
| Appended: "append_transcript env event db = Inr (b, db') \<Longrightarrow> xstore_step env db db'"
| Receipt: "store_receipt env now scope key request receipt db = Inr (b, db') \<Longrightarrow> xstore_step env db db'"

section \<open>Operations\<close>

lemma find_xrow_rows: "find_xrow db kind i n = find (\<lambda>r. xw_revision r = n) (xrows db kind i)"
  unfolding find_xrow_def xrows_def find_conj [symmetric] by (simp add: conj_assoc)

lemma xrows_snoc:
  "xd_records db' = xd_records db @ [row] \<Longrightarrow>
     xrows db' kind i = xrows db kind i @ (if (xw_kind row, xw_record_id row) = (kind, i) then [row] else [])"
  by (simp add: xrows_def)

lemma put_cases:
  assumes "put_record env now record expected db = Inr (n, db')"
  obtains (Same) h where "db' = db" "find_xhead db (record_kind record) (record_key record) = Some h" "n = hr_revision h"
      "hr_payload_sha256 h = sha256_hex (xe_sha env) (json_bytes (record_json record))"
      "admitted env record"
  | (Inserted) found where "find_xhead db (record_kind record) (record_key record) = found"
      "expected = map_option hr_revision found" "record_kind record \<in> set immutable_kinds \<longrightarrow> found = None"
      "n = (case expected of None \<Rightarrow> 1 | Some m \<Rightarrow> m + 1)" "insert_record env now record n db = Inr (n, db')"
      "admitted env record"
proof -
  let ?digest = "sha256_hex (xe_sha env) (json_bytes (record_json record))"
  from assms obtain found where adm: "admitted env record" and head: "checked_head env db (record_kind record) (record_key record) = Inr found"
    and rest: "(let observed = map_option hr_revision found; revision = (case observed of None \<Rightarrow> 1 | Some n \<Rightarrow> n + 1)
     in if map_option hr_payload_sha256 found = Some ?digest then Inr (the observed, db)
        else if record_kind record \<in> set immutable_kinds \<and> found \<noteq> None then Inl ExecutionStoreConflict
        else if expected \<noteq> observed then Inl ExecutionStoreConflict
        else if \<not> assignment_revision_ok record revision then Inl ExecutionStoreConflict
        else insert_record env now record revision db) = Inr (n, db')"
    unfolding put_record_def validate_record_shape_def validate_persisted_payload_def Let_def
    by (auto simp: result_simps admitted_def)
  have found: "find_xhead db (record_kind record) (record_key record) = found"
    using head by (auto simp: checked_head_def result_simps split: option.splits if_splits)
  show ?thesis
  proof (cases "map_option hr_payload_sha256 found = Some ?digest")
    case True
    then obtain h where "found = Some h" "hr_payload_sha256 h = ?digest" by auto
    with True rest Same adm found show ?thesis by (simp add: Let_def)
  next
    case False
    have "n = (case map_option hr_revision found of None \<Rightarrow> 1 | Some m \<Rightarrow> m + 1)"
      using rest False by (auto simp: Let_def insert_record_def split: if_splits)
    then show ?thesis using rest False Inserted [OF found] adm by (auto simp: Let_def split: if_splits)
  qed
qed

lemma insert_record_frame:
  assumes "insert_record env now record n db = Inr (m, db')"
  shows "m = n" "xd_transcripts db' = xd_transcripts db" "xd_idempotency db' = xd_idempotency db"
    "\<exists>row. row_of env record row \<and> xw_revision row = n \<and> xd_records db' = xd_records db @ [row] \<and>
       xd_heads db' = upsert_head \<lparr>hr_kind = record_kind record, hr_record_id = record_key record, hr_revision = n,
         hr_payload_sha256 = xw_payload_sha256 row\<rparr> (xd_heads db)"
  using assms by (auto simp: insert_record_def row_of_def json_bytes_def Let_def split: if_splits)

lemma xrecords_okD:
  assumes "xrecords_ok env db"
  shows "map xw_revision (xrows db kind i) = map (\<lambda>n. int n + 1) [0..<length (xrows db kind i)]"
    "find_xhead db kind i = head_for kind i (xrows db kind i)"
    "kind \<in> set immutable_kinds \<Longrightarrow> length (xrows db kind i) \<le> 1"
    "row \<in> set (xrows db kind i) \<Longrightarrow> \<exists>r. row_of env r row \<and> admitted env r"
  using assms by (auto simp: xrecords_ok_def xrows_def)

lemma insert_record_ok:
  assumes ok: "xrecords_ok env db" and ins: "insert_record env now record n db = Inr (m, db')" and adm: "admitted env record"
    and n: "n = int (length (xrows db (record_kind record) (record_key record))) + 1"
    and immutable: "record_kind record \<in> set immutable_kinds \<Longrightarrow> xrows db (record_kind record) (record_key record) = []"
  shows "xrecords_ok env db'"
proof -
  let ?k = "record_kind record" and ?i = "record_key record"
  from insert_record_frame(4) [OF ins] obtain row where row: "row_of env record row" "xw_revision row = n"
    and recs: "xd_records db' = xd_records db @ [row]"
    and heads: "xd_heads db' = upsert_head \<lparr>hr_kind = ?k, hr_record_id = ?i, hr_revision = n, hr_payload_sha256 = xw_payload_sha256 row\<rparr> (xd_heads db)"
    by blast
  have key: "xw_kind row = ?k" "xw_record_id row = ?i" using row(1) by (simp_all add: row_of_def)
  have rows: "xrows db' kind i = xrows db kind i @ (if (kind, i) = (?k, ?i) then [row] else [])" for kind i
    using xrows_snoc [OF recs, of kind i] key by auto
  have "map xw_revision (xrows db' kind i) = map (\<lambda>n. int n + 1) [0..<length (xrows db' kind i)]" for kind i
    using xrecords_okD(1) [OF ok, of kind i] n row(2) by (auto simp: rows)
  moreover have "find_xhead db' kind i = head_for kind i (xrows db' kind i)" for kind i
  proof (cases "(kind, i) = (?k, ?i)")
    case True
    have "find (\<lambda>h. (hr_kind h, hr_record_id h) = (?k, ?i)) (xd_heads db) = head_for ?k ?i (xrows db ?k ?i)"
      using xrecords_okD(2) [OF ok, of ?k ?i] by (simp add: find_xhead_def)
    then show ?thesis
      using True n rows [of ?k ?i] unfolding find_xhead_def heads find_upsert_head
      by (auto simp: head_for_def split: if_splits)
  next
    case False
    then show ?thesis
      using xrecords_okD(2) [OF ok, of kind i] rows [of kind i] unfolding find_xhead_def heads find_upsert_head by auto
  qed
  moreover have "length (xrows db' kind i) \<le> 1" if "kind \<in> set immutable_kinds" for kind i
    using xrecords_okD(3) [OF ok that, of i] immutable that by (auto simp: rows)
  moreover have "\<exists>r. row_of env r w \<and> admitted env r" if "w \<in> set (xd_records db')" for w
    using that row(1) adm ok recs by (auto simp: xrecords_ok_def)
  ultimately show ?thesis unfolding xrecords_ok_def by blast
qed

lemma found_head:
  assumes "xrecords_ok env db" "find_xhead db kind i = found"
  shows "map_option hr_revision found = expected_for (length (xrows db kind i))"
    "found = None \<longleftrightarrow> xrows db kind i = []"
  using xrecords_okD(2) [OF assms(1), of kind i] assms(2) by (auto simp: head_for_def expected_for_def)

text \<open>What \<open>put\<close> does to the log of a record.\<close>

definition xlog :: "execution_db \<Rightarrow> string \<Rightarrow> string \<Rightarrow> string list" where
  "xlog db kind i = map xw_payload_json (xrows db kind i)"

lemma length_xlog [simp]: "length (xlog db kind i) = length (xrows db kind i)"
  by (simp add: xlog_def)

lemma xput_log:
  assumes ok: "xrecords_ok env db" and put: "put_record env now record expected db = Inr (n, db')"
  shows "xrecords_ok env db'" "xd_transcripts db' = xd_transcripts db" "xd_idempotency db' = xd_idempotency db"
    "db' = db \<and> xlog db (record_kind record) (record_key record) \<noteq> [] \<and>
       n = int (length (xlog db (record_kind record) (record_key record))) \<and>
       sha256_hex (xe_sha env) (utf8 (last (xlog db (record_kind record) (record_key record)))) =
         sha256_hex (xe_sha env) (json_bytes (record_json record))
     \<or> (\<forall>kind i. xlog db' kind i = xlog db kind i @
         (if (kind, i) = (record_kind record, record_key record) then [dumps (record_json record)] else [])) \<and>
       expected = expected_for (length (xlog db (record_kind record) (record_key record))) \<and>
       n = int (length (xlog db (record_kind record) (record_key record))) + 1 \<and>
       (record_kind record \<in> set immutable_kinds \<longrightarrow> xlog db (record_kind record) (record_key record) = [])"
proof -
  let ?k = "record_kind record" and ?i = "record_key record"
  have "xrecords_ok env db' \<and> xd_transcripts db' = xd_transcripts db \<and> xd_idempotency db' = xd_idempotency db \<and>
    (db' = db \<and> xlog db ?k ?i \<noteq> [] \<and> n = int (length (xlog db ?k ?i)) \<and>
       sha256_hex (xe_sha env) (utf8 (last (xlog db ?k ?i))) = sha256_hex (xe_sha env) (json_bytes (record_json record))
     \<or> (\<forall>kind i. xlog db' kind i = xlog db kind i @ (if (kind, i) = (?k, ?i) then [dumps (record_json record)] else [])) \<and>
       expected = expected_for (length (xlog db ?k ?i)) \<and> n = int (length (xlog db ?k ?i)) + 1 \<and>
       (?k \<in> set immutable_kinds \<longrightarrow> xlog db ?k ?i = []))"
    using put
  proof (cases rule: put_cases)
    case (Same h)
    from xrecords_okD(2) [OF ok, of ?k ?i] Same(2) have rows: "xrows db ?k ?i \<noteq> []" "hr_revision h = int (length (xrows db ?k ?i))"
      "hr_payload_sha256 h = xw_payload_sha256 (last (xrows db ?k ?i))"
      by (auto simp: head_for_def split: if_splits)
    obtain r where "row_of env r (last (xrows db ?k ?i))" using xrecords_okD(4) [OF ok last_in_set [OF rows(1)]] by blast
    then have "xw_payload_sha256 (last (xrows db ?k ?i)) = sha256_hex (xe_sha env) (utf8 (last (xlog db ?k ?i)))"
      using rows(1) by (simp add: row_of_def xlog_def last_map)
    then show ?thesis using Same rows ok by (auto simp: xlog_def)
  next
    case (Inserted found)
    note f = found_head [OF ok Inserted(1)]
    have n: "n = int (length (xrows db ?k ?i)) + 1" using Inserted(2,4) f(1) by (auto simp: expected_for_def)
    have imm: "?k \<in> set immutable_kinds \<Longrightarrow> xrows db ?k ?i = []" using Inserted(3) f(2) by simp
    note frame = insert_record_frame [OF Inserted(5)]
    from frame(4) obtain row where row: "row_of env record row" "xd_records db' = xd_records db @ [row]" by blast
    then have "xlog db' kind i = xlog db kind i @ (if (kind, i) = (?k, ?i) then [dumps (record_json record)] else [])" for kind i
      using xrows_snoc [OF row(2), of kind i] by (auto simp: xlog_def row_of_def)
    with insert_record_ok [OF ok Inserted(5,6) n imm] frame n imm Inserted(2) f(1) show ?thesis
      by (auto simp: xlog_def)
  qed
  then show "xrecords_ok env db'" "xd_transcripts db' = xd_transcripts db" "xd_idempotency db' = xd_idempotency db"
    "db' = db \<and> xlog db ?k ?i \<noteq> [] \<and> n = int (length (xlog db ?k ?i)) \<and>
       sha256_hex (xe_sha env) (utf8 (last (xlog db ?k ?i))) = sha256_hex (xe_sha env) (json_bytes (record_json record))
     \<or> (\<forall>kind i. xlog db' kind i = xlog db kind i @ (if (kind, i) = (?k, ?i) then [dumps (record_json record)] else [])) \<and>
       expected = expected_for (length (xlog db ?k ?i)) \<and> n = int (length (xlog db ?k ?i)) + 1 \<and>
       (?k \<in> set immutable_kinds \<longrightarrow> xlog db ?k ?i = [])"
    by blast+
qed

section \<open>Transcripts and receipts\<close>

lemma case_nonempty: "xs \<noteq> [] \<Longrightarrow> (case xs of [] \<Rightarrow> a | y # ys \<Rightarrow> f (y # ys)) = f xs"
  by (cases xs) simp_all

lemma last_sequence_ok:
  assumes "xtranscripts_ok env db"
  shows "(case last_sequence db run of None \<Rightarrow> 0 | Some n \<Rightarrow> n + 1) = int (length (run_transcript db run))"
proof -
  let ?rows = "run_transcript db run"
  have seqs: "map xt_sequence ?rows = map int [0..<length ?rows]" using assms by (simp add: xtranscripts_ok_def)
  show ?thesis
  proof (cases ?rows rule: rev_cases)
    case Nil
    then show ?thesis by (simp add: last_sequence_def)
  next
    case (snoc rs r)
    have "Max (set (map xt_sequence ?rows)) = int (length rs)"
      unfolding seqs using snoc by (intro Max_eqI) auto
    moreover have "last_sequence db run = Some (Max (set (map xt_sequence ?rows)))"
      unfolding last_sequence_def by (rule case_nonempty) (simp add: snoc)
    ultimately show ?thesis using snoc by simp
  qed
qed

lemma append_transcript_ok:
  assumes ok: "xtranscripts_ok env db" and app: "append_transcript env event db = Inr (b, db')"
  shows "xtranscripts_ok env db'" "xd_records db' = xd_records db" "xd_heads db' = xd_heads db" "xd_idempotency db' = xd_idempotency db"
    "\<not> b \<Longrightarrow> db' = db"
    "b \<Longrightarrow> \<exists>row. event_row_of env event row \<and> xd_transcripts db' = xd_transcripts db @ [row]"
proof -
  have "xtranscripts_ok env db' \<and> xd_records db' = xd_records db \<and> xd_heads db' = xd_heads db \<and> xd_idempotency db' = xd_idempotency db \<and>
    (\<not> b \<longrightarrow> db' = db) \<and> (b \<longrightarrow> (\<exists>row. event_row_of env event row \<and> xd_transcripts db' = xd_transcripts db @ [row]))"
  proof (cases b)
    case False
    then show ?thesis using app ok by (auto simp: append_transcript_def result_simps split: option.splits if_splits)
  next
    case True
    define row where "row = \<lparr>xt_run_id = tx_run_id event, xt_sequence = tx_sequence event, xt_event_id = tx_transcript_event_id event,
              xt_payload_json = dumps (transcript_event_json event),
              xt_payload_sha256 = sha256_hex (xe_sha env) (json_bytes (transcript_event_json event)),
              xt_created_at = iso_offset (tx_created_at event)\<rparr>"
    from app True have safe: "safe_bytes env (json_bytes (transcript_event_json event))"
      and fresh: "find (\<lambda>r. xt_run_id r = tx_run_id event \<and> xt_sequence r = tx_sequence event) (xd_transcripts db) = None"
      and unique: "case find (\<lambda>r. xt_event_id r = tx_transcript_event_id event) (xd_transcripts db) of
                      None \<Rightarrow> True | Some row \<Rightarrow> same_event env event row"
      and seq: "tx_sequence event = (case last_sequence db (tx_run_id event) of None \<Rightarrow> 0 | Some n \<Rightarrow> n + 1)"
      and db': "db' = db\<lparr>xd_transcripts := xd_transcripts db @ [row]\<rparr>"
      unfolding append_transcript_def validate_persisted_payload_def row_def
      by (simp_all add: result_simps split: option.splits if_splits)
    have id: "tx_transcript_event_id event \<notin> set (map xt_event_id (xd_transcripts db))"
    proof
      assume "tx_transcript_event_id event \<in> set (map xt_event_id (xd_transcripts db))"
      then obtain w where "find (\<lambda>r. xt_event_id r = tx_transcript_event_id event) (xd_transcripts db) = Some w"
        using find_None_iff [of "\<lambda>r. xt_event_id r = tx_transcript_event_id event" "xd_transcripts db"] by fastforce
      with unique fresh show False
        by (auto simp: same_event_def find_None_iff find_Some_iff in_set_conv_nth)
    qed
    have ev: "event_row_of env event row" using safe by (simp add: row_def event_row_of_def json_bytes_def)
    have run: "run_transcript db' run = run_transcript db run @ (if run = tx_run_id event then [row] else [])" for run
      by (simp add: run_transcript_def db' row_def)
    have "map xt_sequence (run_transcript db' run) = map int [0..<length (run_transcript db' run)]" for run
      using ok seq last_sequence_ok [OF ok, of "tx_run_id event"] by (auto simp: run xtranscripts_ok_def row_def)
    then have "xtranscripts_ok env db'"
      using ok ev id by (auto simp: xtranscripts_ok_def db' row_def)
    with True ev db' show ?thesis by auto
  qed
  then show "xtranscripts_ok env db'" "xd_records db' = xd_records db" "xd_heads db' = xd_heads db" "xd_idempotency db' = xd_idempotency db"
    "\<not> b \<Longrightarrow> db' = db" "b \<Longrightarrow> \<exists>row. event_row_of env event row \<and> xd_transcripts db' = xd_transcripts db @ [row]"
    by blast+
qed

lemma store_receipt_ok:
  assumes ok: "xreceipts_ok env db" and st: "store_receipt env now scope key request receipt db = Inr (b, db')"
  shows "xreceipts_ok env db'" "xd_records db' = xd_records db" "xd_heads db' = xd_heads db" "xd_transcripts db' = xd_transcripts db"
proof -
  have safe: "safe_bytes env (json_bytes (JObj receipt))"
    using st by (auto simp: store_receipt_def validate_persisted_payload_def result_simps Let_def simp del: dumps.simps)
  have "xreceipts_ok env db' \<and> xd_records db' = xd_records db \<and> xd_heads db' = xd_heads db \<and> xd_transcripts db' = xd_transcripts db"
  proof (cases "find_idempotency db scope key")
    case None
    then have "(scope, key) \<notin> set (map (\<lambda>r. (xi_scope r, xi_idempotency_key r)) (xd_idempotency db))"
      by (auto simp: find_idempotency_def find_None_iff)
    with None st ok safe show ?thesis
      by (auto simp: store_receipt_def result_simps Let_def xreceipts_ok_def json_bytes_def simp del: dumps.simps)
  next
    case (Some row)
    then show ?thesis
      using st ok by (auto simp: store_receipt_def result_simps Let_def simp del: dumps.simps split: if_splits)
  qed
  then show "xreceipts_ok env db'" "xd_records db' = xd_records db" "xd_heads db' = xd_heads db" "xd_transcripts db' = xd_transcripts db"
    by blast+
qed

section \<open>Reachable stores\<close>

text \<open>A store that is opened for the first time, and the stores its writes lead to.\<close>

definition opened_store :: execution_db where
  "opened_store = projr (initialize_execution_schema empty_control_db)"

definition reachable_store :: "xstore_env \<Rightarrow> execution_db \<Rightarrow> bool" where
  "reachable_store env db \<longleftrightarrow> (xstore_step env)\<^sup>*\<^sup>* opened_store db"

lemma opened_store_eq:
  "opened_store = \<lparr>xd_tables = xstore_tables, xd_schema_version = Some XSTORE_SCHEMA_VERSION, xd_records = [], xd_heads = [],
     xd_transcripts = [], xd_idempotency = []\<rparr>"
  by code_simp

lemma opened_store_ok: "xstore_ok env opened_store"
  by (simp add: opened_store_eq xstore_ok_def xrecords_ok_def xtranscripts_ok_def xreceipts_ok_def xrows_def find_xhead_def
      head_for_def run_transcript_def)

definition grown :: "execution_db \<Rightarrow> execution_db \<Rightarrow> bool" where
  "grown db db' \<longleftrightarrow> (\<forall>kind i. prefix (xlog db kind i) (xlog db' kind i)) \<and>
     (\<forall>run. prefix (run_transcript db run) (run_transcript db' run))"

lemma grown_refl [simp]: "grown db db"
  by (simp add: grown_def)

lemma grown_trans: "grown a b \<Longrightarrow> grown b c \<Longrightarrow> grown a c"
  unfolding grown_def by (meson prefix_order.trans)

lemma xframe_ok:
  "xd_records db' = xd_records db \<Longrightarrow> xd_heads db' = xd_heads db \<Longrightarrow> xrecords_ok env db' = xrecords_ok env db"
  "xd_transcripts db' = xd_transcripts db \<Longrightarrow> xtranscripts_ok env db' = xtranscripts_ok env db"
  "xd_idempotency db' = xd_idempotency db \<Longrightarrow> xreceipts_ok env db' = xreceipts_ok env db"
  "xd_records db' = xd_records db \<Longrightarrow> xlog db' kind i = xlog db kind i"
  "xd_transcripts db' = xd_transcripts db \<Longrightarrow> run_transcript db' run = run_transcript db run"
  by (simp_all add: xrecords_ok_def xtranscripts_ok_def xreceipts_ok_def xrows_def find_xhead_def run_transcript_def xlog_def)

lemma initialize_frame:
  assumes "initialize_execution_schema db = Inr db'"
  obtains t v where "db' = db\<lparr>xd_tables := t, xd_schema_version := v\<rparr>"
  using assms unfolding initialize_execution_schema_def Let_def rbind_Inr_iff sum.inject by (elim exE conjE) (rule that, erule sym)

lemma step_keeps:
  assumes "xstore_step env db db'" "xstore_ok env db"
  shows "xstore_ok env db' \<and> grown db db'"
proof -
  note same = xframe_ok(1,2,3)[where db' = db' and db = db] xframe_ok(4,5)[where db' = db' and db = db]
  show ?thesis using assms(1)
proof cases
  case Initialized
  then obtain t v where "db' = db\<lparr>xd_tables := t, xd_schema_version := v\<rparr>" by (rule initialize_frame)
  then have "xd_records db' = xd_records db" "xd_heads db' = xd_heads db" "xd_transcripts db' = xd_transcripts db"
    "xd_idempotency db' = xd_idempotency db"
    by simp_all
  then show ?thesis using assms(2) by (simp add: xstore_ok_def grown_def same)
next
  case (Put now r expected n)
  from assms(2) have ok: "xrecords_ok env db" by (simp add: xstore_ok_def)
  note p = xput_log [OF ok Put]
  from p(4) have "prefix (xlog db kind i) (xlog db' kind i)" for kind i by auto
  then show ?thesis using assms(2) p by (simp add: xstore_ok_def grown_def same)
next
  case (Appended event b)
  from assms(2) have ok: "xtranscripts_ok env db" by (simp add: xstore_ok_def)
  note a = append_transcript_ok [OF ok Appended]
  have "prefix (run_transcript db run) (run_transcript db' run)" for run
    using a(5,6) by (cases b) (auto simp: run_transcript_def)
  then show ?thesis using assms(2) a by (simp add: xstore_ok_def grown_def same)
next
  case (Receipt now scope key request receipt b)
  from assms(2) have ok: "xreceipts_ok env db" by (simp add: xstore_ok_def)
  note r = store_receipt_ok [OF ok Receipt]
  then show ?thesis using assms(2) by (simp add: xstore_ok_def grown_def same)
qed
qed

lemma steps_keep:
  assumes "(xstore_step env)\<^sup>*\<^sup>* db db'" "xstore_ok env db"
  shows "xstore_ok env db' \<and> grown db db'"
  using assms by (induction rule: rtranclp_induct) (auto dest: step_keeps intro: grown_trans)

lemma reachable_ok: "reachable_store env db \<Longrightarrow> xstore_ok env db"
  unfolding reachable_store_def using steps_keep opened_store_ok by blast

text \<open>A page of a transcript is a piece of it.\<close>

lemma page_rows:
  assumes "map xt_sequence rows = map int [0..<length rows]" "- 1 \<le> after"
  shows "sort_key xt_sequence (filter (\<lambda>r. after < xt_sequence r) rows) = drop (nat (after + 1)) rows"
proof -
  have seq: "xt_sequence (rows ! k) = int k" if "k < length rows" for k
    using that arg_cong [OF assms(1), of "\<lambda>xs. xs ! k"] by simp
  have "filter (\<lambda>r. after < xt_sequence r) (take m rows) = drop (nat (after + 1)) (take m rows)" if "m \<le> length rows" for m
    using that
  proof (induction m)
    case (Suc m)
    then have "take (Suc m) rows = take m rows @ [rows ! m]" "xt_sequence (rows ! m) = int m"
      using seq [of m] by (simp_all add: take_Suc_conv_app_nth)
    with Suc show ?case using assms(2) by auto
  qed simp
  from this [of "length rows"] have "filter (\<lambda>r. after < xt_sequence r) rows = drop (nat (after + 1)) rows" by simp
  moreover have "sorted (map xt_sequence (drop (nat (after + 1)) rows))"
    unfolding drop_map [symmetric] assms(1) by (intro sorted_wrt_drop) (simp add: sorted_map)
  ultimately show ?thesis by (simp add: sort_key_id_if_sorted)
qed

lemma rmap_decode_event:
  assumes "rmap (decode_event env) rows = Inr es"
  shows "map tx_sequence es = map xt_sequence rows" "map tx_run_id es = map xt_run_id rows"
proof -
  have "map tx_sequence es = map xt_sequence rows \<and> map tx_run_id es = map xt_run_id rows"
    using assms by (induction rows arbitrary: es) (auto simp: result_simps decode_event_def split: if_splits option.splits)
  then show "map tx_sequence es = map xt_sequence rows" "map tx_run_id es = map xt_run_id rows" by blast+
qed

section \<open>Properties\<close>

text \<open>C35: nothing dangerous is persisted. Whatever is put, appended or receipted, every text in a
  reachable store is free of the markers that lift the sandbox of a runtime and passed the secret
  scanner; every stored run has a command line of the grammar of its adapter without a forbidden
  flag, and every stored approval to execute a runtime names its employee, task, run, workspace and
  destination.\<close>

theorem stored_authority_is_safe:
  assumes "reachable_store env db"
  shows "(\<forall>row\<in>set (xd_records db). safe_bytes env (utf8 (xw_payload_json row)) \<and>
      (\<exists>r. xw_payload_json row = dumps (record_json r) \<and> xw_kind row = record_kind r \<and>
        \<not> inspect (JObj (record_extensions r)) \<and>
        (\<forall>x. r = XRun x \<longrightarrow> validate_safe_command_argv (er_runtime_adapter_id x) (er_safe_command x) = Inr () \<and>
           set forbidden_runtime_flags \<inter> set (er_safe_command x) = {}) \<and>
        (\<forall>a. r = XApproval a \<and> ea_action a = ''execute_runtime'' \<longrightarrow>
           None \<notin> {ea_employee_id a, ea_task_id a, ea_run_id a, ea_workspace_id a, ea_destination a}))) \<and>
    (\<forall>row\<in>set (xd_transcripts db). safe_bytes env (utf8 (xt_payload_json row))) \<and>
    (\<forall>row\<in>set (xd_idempotency db). safe_bytes env (utf8 (xi_receipt_json row)))"
proof -
  from reachable_ok [OF assms] have rec: "xrecords_ok env db" and tr: "xtranscripts_ok env db" and re: "xreceipts_ok env db"
    by (simp_all add: xstore_ok_def)
  have flags: "set forbidden_runtime_flags \<inter> set argv = {}" if "validate_safe_command_argv i argv = Inr ()" for i argv
    using that by (auto simp: validate_safe_command_argv_def split: option.splits if_splits)
  have rows: "safe_bytes env (utf8 (xw_payload_json row)) \<and>
      (\<exists>r. xw_payload_json row = dumps (record_json r) \<and> xw_kind row = record_kind r \<and> \<not> inspect (JObj (record_extensions r)) \<and>
        (\<forall>x. r = XRun x \<longrightarrow> validate_safe_command_argv (er_runtime_adapter_id x) (er_safe_command x) = Inr () \<and>
           set forbidden_runtime_flags \<inter> set (er_safe_command x) = {}) \<and>
        (\<forall>a. r = XApproval a \<and> ea_action a = ''execute_runtime'' \<longrightarrow>
           None \<notin> {ea_employee_id a, ea_task_id a, ea_run_id a, ea_workspace_id a, ea_destination a}))"
    if mem: "row \<in> set (xd_records db)" for row
  proof -
    from rec mem obtain r where r: "row_of env r row" "admitted env r" unfolding xrecords_ok_def by blast
    have shape: "record_shape r" and safe: "safe_bytes env (json_bytes (record_json r))" using r(2) by (simp_all add: admitted_def)
    have json: "xw_payload_json row = dumps (record_json r)" "xw_kind row = record_kind r" using r(1) by (simp_all add: row_of_def)
    have run: "r = XRun x \<Longrightarrow> validate_safe_command_argv (er_runtime_adapter_id x) (er_safe_command x) = Inr ()" for x
      using shape by (simp add: record_shape_def)
    have app: "r = XApproval a \<Longrightarrow> ea_action a = ''execute_runtime'' \<Longrightarrow>
        None \<notin> {ea_employee_id a, ea_task_id a, ea_run_id a, ea_workspace_id a, ea_destination a}" for a
      using shape unfolding record_shape_def by (simp only: execution_record.case) blast
    have ext: "\<not> inspect (JObj (record_extensions r))" using shape unfolding record_shape_def by (rule conjunct1)
    show ?thesis
      using safe json run flags app ext unfolding json json_bytes_def by (intro conjI exI [of _ r]) blast+
  qed
  have "safe_bytes env (utf8 (xt_payload_json row))" if "row \<in> set (xd_transcripts db)" for row
    using tr that by (auto simp: xtranscripts_ok_def event_row_of_def)
  moreover have "safe_bytes env (utf8 (xi_receipt_json row))" if "row \<in> set (xd_idempotency db)" for row
    using re that by (auto simp: xreceipts_ok_def)
  ultimately show ?thesis using rows by blast
qed

definition sample_comment :: execution_comment where
  "sample_comment = \<lparr>schema_name = ''ExecutionCommentV1'', schema_version = SCHEMA_VERSION, id_scheme_version = ID_SCHEME_VERSION,
     extensions = [], ec_comment_id = ''comment_'' @ replicate 64 CHR ''a'', ec_task_id = ''task1'', ec_kind = COMMENT,
     ec_actor = ''emp1'', ec_run_id = None, ec_body = ''done'', ec_created_at = 0\<rparr>"

definition sample_transcript_event :: transcript_event where
  "sample_transcript_event = \<lparr>schema_name = ''TranscriptEventV1'', schema_version = SCHEMA_VERSION, id_scheme_version = ID_SCHEME_VERSION,
     extensions = [], tx_transcript_event_id = ''event0'', tx_run_id = ''run1'', tx_sequence = 0,
     tx_stream = ''stdout'', tx_event_type = ''line'', tx_text = ''ok'', tx_redacted = False, tx_created_at = 0\<rparr>"

definition sample_xstore :: xstore_env where
  "sample_xstore = \<lparr>xe_sha = (\<lambda>_. replicate 64 CHR ''a''), xe_blocks = (\<lambda>_. False),
     xe_decode = (\<lambda>k s. if s = dumps (execution_comment_json sample_comment) then Some (XComment sample_comment) else None),
     xe_decode_event = (\<lambda>s. if s = dumps (transcript_event_json sample_transcript_event) then Some sample_transcript_event else None),
     xe_writable = True\<rparr>"

text \<open>A text without the letters g and P has no marker.\<close>

lemma utf8_mem: "c \<in> set (utf8 s) \<Longrightarrow> (of_char c :: nat) < 128 \<Longrightarrow> c \<in> set s"
proof -
  have high: "\<not> (192 + (of_char x :: nat) div 64) mod 256 < 128" "\<not> (128 + (of_char x :: nat) mod 64) mod 256 < 128" for x :: char
  proof -
    have "(of_char x :: nat) div 64 < 4" by (rule less_mult_imp_div_less) simp
    moreover have "(of_char x :: nat) mod 64 < 64" by simp
    ultimately show "\<not> (192 + (of_char x :: nat) div 64) mod 256 < 128" "\<not> (128 + (of_char x :: nat) mod 64) mod 256 < 128"
      by (simp_all add: mod_less)
  qed
  assume "c \<in> set (utf8 s)" "(of_char c :: nat) < 128"
  then show ?thesis using high by (force simp: utf8_def utf8_char_def Let_def split: if_split_asm)
qed

lemma substring_chars: "has_substring rendered marker \<Longrightarrow> set marker \<subseteq> set rendered"
  by (auto simp: has_substring_def list_ex_iff starts_with_def suffix_def prefix_def)

lemma safe_sample:
  assumes "list_all (\<lambda>c. c \<noteq> CHR ''g'' \<and> c \<noteq> CHR ''P'') (dumps v)"
  shows "safe_bytes sample_xstore (json_bytes v)"
proof -
  have "CHR ''g'' \<notin> set (json_bytes v)" "CHR ''P'' \<notin> set (json_bytes v)"
    using assms utf8_mem [of "CHR ''g''" "dumps v"] utf8_mem [of "CHR ''P''" "dumps v"] by (auto simp: json_bytes_def list_all_iff)
  then have "\<not> has_substring (json_bytes v) m" if "m \<in> set dangerous_markers" for m
    using substring_chars [of "json_bytes v" m] that by (auto simp: dangerous_markers_def)
  then show ?thesis by (simp add: safe_bytes_def sample_xstore_def list_ex_iff)
qed

lemma sample_safe:
  "safe_bytes sample_xstore (json_bytes (execution_comment_json sample_comment))"
  "safe_bytes sample_xstore (json_bytes (transcript_event_json sample_transcript_event))"
  by (rule safe_sample; code_simp)+

definition sample_xdb :: execution_db where
  "sample_xdb = snd (projr (put_record sample_xstore 0 (XComment sample_comment) None opened_store))"

lemma sample_commented_eq: "put_record sample_xstore 0 (XComment sample_comment) None opened_store = Inr (1, sample_xdb)"
proof -
  have "comment_verify_id (xe_sha sample_xstore) sample_comment"
    by (simp add: comment_verify_id_def derive_id_def sha256_hex_def sample_comment_def sample_xstore_def)
  moreover have "record_shape (XComment sample_comment)" by (simp add: record_shape_def sample_comment_def)
  moreover have "xe_writable sample_xstore" by (simp add: sample_xstore_def)
  ultimately have "\<exists>d. put_record sample_xstore 0 (XComment sample_comment) None opened_store = Inr (1, d)"
    using sample_safe(1)
    by (simp add: put_record_def validate_record_shape_def validate_persisted_payload_def begin_write_def checked_head_def
        find_xhead_def find_xrow_def opened_store_eq assignment_revision_ok_def insert_record_def Let_def)
  then show ?thesis by (auto simp: sample_xdb_def)
qed

lemma sample_xdb_reachable: "reachable_store sample_xstore sample_xdb"
  unfolding reachable_store_def by (rule r_into_rtranclp, rule xstore_step.Put, rule sample_commented_eq)

theorem stored_authority_is_safe_witness:
  "list_all (\<lambda>row. safe_bytes sample_xstore (utf8 (xw_payload_json row))) (xd_records sample_xdb)"
  using stored_authority_is_safe [OF sample_xdb_reachable] unfolding list_all_iff by blast

text \<open>C36: the pages of a transcript are exact. In a reachable store the events of a run are numbered
  from zero without a gap, and whenever reading after a position succeeds it returns the events of
  that run with exactly the next numbers, as many as there are up to the limit, in order.\<close>

theorem transcript_pages_are_exact:
  assumes "reachable_store env db" "list_transcript env run after limit db = Inr es"
  shows "map tx_sequence es = map int (take (nat limit) [nat (after + 1)..<length (run_transcript db run)]) \<and>
    (\<forall>e\<in>set es. tx_run_id e = run)"
proof -
  let ?rows = "run_transcript db run"
  let ?page = "take (nat limit) (sort_key xt_sequence (filter (\<lambda>r. after < xt_sequence r) ?rows))"
  from assms(2) have bounds: "- 1 \<le> after" and es: "rmap (decode_event env) ?page = Inr es"
    by (auto simp: list_transcript_def result_simps)
  have seqs: "map xt_sequence ?rows = map int [0..<length ?rows]"
    using reachable_ok [OF assms(1)] by (simp add: xstore_ok_def xtranscripts_ok_def)
  have "map tx_sequence es = map xt_sequence ?page" by (rule rmap_decode_event(1) [OF es])
  also have "\<dots> = take (nat limit) (drop (nat (after + 1)) (map xt_sequence ?rows))"
    unfolding page_rows [OF seqs bounds] by (simp only: take_map drop_map)
  also have "\<dots> = map int (take (nat limit) [nat (after + 1)..<length ?rows])"
    unfolding seqs by (simp add: take_map drop_map)
  finally have "map tx_sequence es = map int (take (nat limit) [nat (after + 1)..<length ?rows])" .
  moreover have "tx_run_id e = run" if "e \<in> set es" for e
  proof -
    from that have "tx_run_id e \<in> set (map xt_run_id ?page)" unfolding rmap_decode_event(2) [OF es, symmetric] by simp
    then show ?thesis by (auto simp: run_transcript_def dest: in_set_takeD)
  qed
  ultimately show ?thesis by blast
qed

definition sample_transcript :: execution_db where
  "sample_transcript = snd (projr (append_transcript sample_xstore sample_transcript_event opened_store))"

lemma sample_transcript_eq: "append_transcript sample_xstore sample_transcript_event opened_store = Inr (True, sample_transcript)"
  using sample_safe(2)
  by (simp add: sample_transcript_def append_transcript_def validate_persisted_payload_def begin_write_def opened_store_eq
      last_sequence_def run_transcript_def) (simp add: sample_xstore_def sample_transcript_event_def)

lemma sample_page: "list_transcript sample_xstore ''run1'' (-1) 10 sample_transcript = Inr [sample_transcript_event]"
proof -
  have "is_store_key ''run1''" by code_simp
  moreover from append_transcript_ok(6) [OF _ sample_transcript_eq] opened_store_ok [of sample_xstore]
  obtain row where "event_row_of sample_xstore sample_transcript_event row" "xd_transcripts sample_transcript = [row]"
    by (auto simp: xstore_ok_def opened_store_eq)
  moreover have "tx_run_id sample_transcript_event = ''run1''" "tx_sequence sample_transcript_event = 0" by (simp_all add: sample_transcript_event_def)
  moreover have "xe_decode_event sample_xstore (dumps (transcript_event_json sample_transcript_event)) = Some sample_transcript_event"
    by (simp add: sample_xstore_def)
  ultimately show ?thesis
    by (simp add: list_transcript_def validate_key_def run_transcript_def event_row_of_def decode_event_def)
qed

theorem transcript_pages_are_exact_witness:
  "map tx_sequence [sample_transcript_event] = map int (take 10 [0..<length (run_transcript sample_transcript ''run1'')])"
proof -
  have "reachable_store sample_xstore sample_transcript"
    unfolding reachable_store_def by (rule r_into_rtranclp, rule xstore_step.Appended, rule sample_transcript_eq)
  from transcript_pages_are_exact [OF this sample_page] show ?thesis by simp
qed

text \<open>C37: a put refines an append to the versioned log of the record. In a reachable store it either
  finds the same content at the head and changes nothing, returning the revision of the head, or the
  expected revision was the current one and the content is appended to that log as the next
  revision, which for an immutable kind is the first. No other log changes.\<close>

theorem put_refines_versioned_log:
  assumes "reachable_store env db" "put_record env now r expected db = Inr (n, db')"
  shows "n = int (length (xlog db' (record_kind r) (record_key r))) \<and>
    (\<forall>kind i. (kind, i) \<noteq> (record_kind r, record_key r) \<longrightarrow> xlog db' kind i = xlog db kind i) \<and>
    (db' = db \<and> xe_sha env (utf8 (last (xlog db (record_kind r) (record_key r)))) = xe_sha env (json_bytes (record_json r))
     \<or> xlog db' (record_kind r) (record_key r) = xlog db (record_kind r) (record_key r) @ [dumps (record_json r)] \<and>
       expected = expected_for (length (xlog db (record_kind r) (record_key r))) \<and>
       (record_kind r \<in> set immutable_kinds \<longrightarrow> n = 1))"
proof -
  from reachable_ok [OF assms(1)] have "xrecords_ok env db" by (simp add: xstore_ok_def)
  from xput_log(4) [OF this assms(2)] show ?thesis
    unfolding sha256_hex_def by (elim disjE conjE) (simp_all del: length_xlog)
qed

lemma sample_comment_key: "record_kind (XComment sample_comment) = ''comment''" "record_json (XComment sample_comment) = execution_comment_json sample_comment"
  by simp_all

lemma opened_log: "xlog opened_store kind i = []"
  by (simp add: opened_store_eq xlog_def xrows_def)

theorem put_refines_versioned_log_witness:
  "xlog sample_xdb ''comment'' (ec_comment_id sample_comment) = [dumps (execution_comment_json sample_comment)]"
proof -
  have "reachable_store sample_xstore opened_store" by (simp add: reachable_store_def)
  from put_refines_versioned_log [OF this sample_commented_eq] show ?thesis
    by (auto simp del: length_xlog simp: opened_log)
qed

text \<open>C38: an immutable record is permanent. Once an approval, a budget policy, a comment, a graph scope,
  an invocation or a policy decision is stored, its only revision stays as it is through every later
  write, and a put of another content under its identity is refused.\<close>

theorem immutable_record_is_permanent:
  assumes "reachable_store env db" "(xstore_step env)\<^sup>*\<^sup>* db db'" "kind \<in> set immutable_kinds" "xlog db kind i \<noteq> []"
  shows "xlog db' kind i = xlog db kind i \<and> length (xlog db kind i) = 1 \<and>
    (\<forall>now r expected. record_kind r = kind \<and> record_key r = i \<and>
       xe_sha env (json_bytes (record_json r)) \<noteq> xe_sha env (utf8 (hd (xlog db kind i))) \<longrightarrow>
       isl (put_record env now r expected db'))"
proof -
  have ok: "xrecords_ok env db" using reachable_ok [OF assms(1)] by (simp add: xstore_ok_def)
  from steps_keep [OF assms(2) reachable_ok [OF assms(1)]] have ok': "xrecords_ok env db'" and "prefix (xlog db kind i) (xlog db' kind i)"
    by (simp_all add: xstore_ok_def grown_def)
  moreover have "length (xlog db kind i) \<le> 1" "length (xlog db' kind i) \<le> 1"
    using xrecords_okD(3) [OF ok assms(3)] xrecords_okD(3) [OF ok' assms(3)] by simp_all
  ultimately have one: "length (xlog db kind i) = 1" and same: "xlog db' kind i = xlog db kind i"
    using assms(4) by (auto simp: prefix_def Suc_le_eq simp del: length_xlog) (cases "xlog db kind i"; simp)+
  have "isl (put_record env now r expected db')"
    if r: "record_kind r = kind \<and> record_key r = i \<and> xe_sha env (json_bytes (record_json r)) \<noteq> xe_sha env (utf8 (hd (xlog db kind i)))"
    for now r expected
  proof (rule ccontr)
    assume "\<not> isl (put_record env now r expected db')"
    then obtain n d where put: "put_record env now r expected db' = Inr (n, d)"
      by (cases "put_record env now r expected db'") auto
    have "last (xlog db kind i) = hd (xlog db kind i)" using one by (cases "xlog db kind i") auto
    with xput_log(4) [OF ok' put] r same assms(3,4) show False by (auto simp: sha256_hex_def)
  qed
  with one same show ?thesis by blast
qed

theorem immutable_record_is_permanent_witness:
  "length (xlog sample_xdb ''comment'' (ec_comment_id sample_comment)) = 1"
proof -
  from xput_log(4) [OF _ sample_commented_eq] opened_store_ok [of sample_xstore]
  have "xlog sample_xdb ''comment'' (ec_comment_id sample_comment) \<noteq> []"
    by (auto simp: xstore_ok_def opened_log simp del: length_xlog)
  from immutable_record_is_permanent [OF sample_xdb_reachable rtranclp.rtrancl_refl _ this]
  show ?thesis by (simp add: immutable_kinds_def)
qed

end
