(* ===== verification/Execution_World.thy ===== *)
theory Execution_World
  imports Task_Ledger Emergency Policy Runtime_Commands Task_Leases Sessions Execution_Store
begin

text \<open>
  The world of the execution service (\<open>src/raytsystem/execution/service.py\<close>): the workspace with the
  task ledger, the tables of the control database, the execution store, the platform store and the
  runs that wait for their runtime in this process. An operation is a program on the world. A call of
  a component is lifted to the world and changes only that component; what the service asks from
  outside (the clock, the employee registry, the workspace preparer, git) is a function of the number of
  such questions so far, so every answer may differ from the one before.
\<close>

section \<open>Errors\<close>

datatype service_error =
    ExecutionServiceError | ExecutionAssignmentError | ExecutionConcurrencyError
  | ServiceTask task_error | ServiceStore xstore_error | ServiceControl control_error | ServiceLease lease_error
  | ServiceEmergency emergency_error | ServiceAdapter adapter_error | ServicePolicy policy_error
  | ServiceContract | ServiceValueError | WorkspaceFailure string | OutsideFailure string

fun control_error_name :: "control_error \<Rightarrow> string" where
  "control_error_name LeaseBusy = ''LeaseBusy''"
| "control_error_name ControlValueError = ''ValueError''"
| "control_error_name ControlRuntimeError = ''RuntimeError''"
| "control_error_name ControlKeyError = ''KeyError''"
| "control_error_name ConstraintError = ''IntegrityError''"

text \<open>\<open>type(error).__name__\<close>.\<close>

fun error_name :: "service_error \<Rightarrow> string" where
  "error_name ExecutionServiceError = ''ExecutionServiceError''"
| "error_name ExecutionAssignmentError = ''ExecutionAssignmentError''"
| "error_name ExecutionConcurrencyError = ''ExecutionConcurrencyError''"
| "error_name (ServiceTask e) = (case e of TaskLedgerError \<Rightarrow> ''TaskLedgerError'' | TaskConflict \<Rightarrow> ''TaskConflict''
     | TaskTransitionRejected \<Rightarrow> ''TaskTransitionRejected'' | TaskValidationError \<Rightarrow> ''ValidationError'' | TaskKeyError \<Rightarrow> ''KeyError'')"
| "error_name (ServiceStore e) = (case e of ExecutionStoreError \<Rightarrow> ''ExecutionStoreError''
     | ExecutionStoreConflict \<Rightarrow> ''ExecutionStoreConflict'' | ExecutionStoreUnavailable \<Rightarrow> ''ExecutionStoreUnavailable''
     | XStoreValueError \<Rightarrow> ''ValueError'' | XStoreIntegrityError \<Rightarrow> ''IntegrityError'')"
| "error_name (ServiceControl e) = control_error_name e"
| "error_name (ServiceLease e) = (case e of LeaseControl c \<Rightarrow> control_error_name c | LeaseValueError \<Rightarrow> ''ValueError''
     | LeaseRuntimeError \<Rightarrow> ''RuntimeError'' | LeaseValidationError \<Rightarrow> ''ValidationError'')"
| "error_name (ServiceEmergency e) = (case e of EmergencyError \<Rightarrow> ''EmergencyError''
     | EmergencyStore s \<Rightarrow> (case s of PlatformStoreError \<Rightarrow> ''PlatformStoreError'' | PlatformStoreUnavailable \<Rightarrow> ''PlatformStoreUnavailable''
         | StoreValueError \<Rightarrow> ''ValueError'' | StoreIntegrityError \<Rightarrow> ''IntegrityError'' | StoreOperationalError \<Rightarrow> ''OperationalError'')
     | EmergencyKeyError \<Rightarrow> ''KeyError'' | EmergencyValueError \<Rightarrow> ''ValueError'' | EmergencyValidation \<Rightarrow> ''ValidationError''
     | EmergencyAuthority a \<Rightarrow> ''AuthorityError'')"
| "error_name (ServiceAdapter e) = (case e of AdapterDisabledError \<Rightarrow> ''AdapterDisabledError''
     | InvalidRuntimeRequest \<Rightarrow> ''InvalidRuntimeRequest'' | AdapterLaunchError \<Rightarrow> ''AdapterLaunchError''
     | ContractValidationError \<Rightarrow> ''ValidationError'')"
| "error_name (ServicePolicy e) = (case e of PolicyKeyError \<Rightarrow> ''KeyError'' | PolicyValueError \<Rightarrow> ''ValueError'')"
| "error_name ServiceContract = ''ValidationError''"
| "error_name ServiceValueError = ''ValueError''"
| "error_name (WorkspaceFailure n) = n"
| "error_name (OutsideFailure n) = n"

text \<open>\<open>except (ExecutionServiceError, WorkspaceError)\<close>.\<close>

fun preflight_error :: "service_error \<Rightarrow> bool" where
  "preflight_error ExecutionServiceError = True"
| "preflight_error ExecutionAssignmentError = True"
| "preflight_error ExecutionConcurrencyError = True"
| "preflight_error (WorkspaceFailure _) = True"
| "preflight_error _ = False"

section \<open>Records\<close>

record workspace_preparation =
  wp_workspace :: task_workspace
  wp_graph_scope :: task_graph_scope
  wp_context_snapshot_sha256 :: string
  wp_task_generation_id :: string
  wp_task_revision :: int
  wp_employee_configuration_revision :: string
  wp_git_commit :: string

datatype git_marker = NoMarker | PlainMarker | UnsafeMarker

record process_outcome =
  po_exit_code :: "int option"
  po_stdout :: string
  po_stderr :: string
  po_termination_reason :: string

record run_checkout =
  ck_task_lease :: task_lease
  ck_global_slot :: lease_token
  ck_employee_slot :: lease_token

text \<open>What a suspended heartbeat holds: its local variables and its \<open>_ActiveRun\<close>.\<close>

record active_run =
  ar_operation_key :: string
  ar_key :: string
  ar_request :: dict
  ar_run :: execution_run
  ar_invocation :: execution_invocation
  ar_assignment :: task_assignment
  ar_session :: execution_session
  ar_checkout :: run_checkout
  ar_budget_policy :: "budget_policy option"
  ar_policy_decision :: policy_decision
  ar_cancelled :: bool
  ar_intent :: "string option"
  ar_renewal_error :: "service_error option"

record world =
  w_files :: fs
  w_control :: control_db
  w_store :: execution_db
  w_platform :: "platform_db option"
  w_asked :: nat
  w_active :: "string \<rightharpoonup> active_run"

type_synonym 'a saga = "(world, service_error, 'a) prog"

text \<open>
  The collaborators the service is constructed with. \<open>sv_employees\<close>, \<open>sv_prepare\<close>, \<open>sv_marker\<close>,
  \<open>sv_git\<close> and the clocks answer by the number of questions asked before; \<open>sv_json_line\<close> is
  \<open>json.loads\<close> on one line of the output of a runtime.
\<close>

record service_env =
  sv_tasks :: task_env
  sv_leases :: lease_env
  sv_store :: xstore_env
  sv_emergency :: emergency_env
  sv_config :: execution_config
  sv_strip :: "string \<Rightarrow> string"
  sv_root :: "string list"
  sv_adapters :: "string \<Rightarrow> adapter option"
  sv_implementation :: "adapter \<Rightarrow> string"
  sv_resolver :: "string \<Rightarrow> string option"
  sv_probe :: "string list \<Rightarrow> string option"
  sv_employees :: "nat \<Rightarrow> (service_error, digital_employee list) result"
  sv_prepare :: "nat \<Rightarrow> string \<Rightarrow> string \<Rightarrow> string \<Rightarrow> bool \<Rightarrow> string option \<Rightarrow> (service_error, workspace_preparation) result"
  sv_marker :: "nat \<Rightarrow> string \<Rightarrow> git_marker"
  sv_git :: "nat \<Rightarrow> task_workspace \<Rightarrow> bool \<Rightarrow> (int \<times> bytes)"
  sv_utf8 :: "bytes \<Rightarrow> string option"
  sv_json_line :: "string \<Rightarrow> jval option"
  sv_clock :: "nat \<Rightarrow> datetime"
  sv_wall_clock :: "nat \<Rightarrow> datetime"

abbreviation sv_sha :: "service_env \<Rightarrow> digest" where "sv_sha env \<equiv> xe_sha (sv_store env)"

section \<open>Programs on the world\<close>

text \<open>\<open>try: m except: h else: k\<close>, and \<open>try: m finally: f\<close>.\<close>

definition attempt :: "('s, 'e, 'a) prog \<Rightarrow> ('e \<Rightarrow> ('s, 'e, 'b) prog) \<Rightarrow> ('a \<Rightarrow> ('s, 'e, 'b) prog) \<Rightarrow> ('s, 'e, 'b) prog" where
  "attempt m h k = (\<lambda>s. case m s of (Inl e, s') \<Rightarrow> h e s' | (Inr x, s') \<Rightarrow> k x s')"

definition ensuring :: "('s, 'e, 'a) prog \<Rightarrow> ('s, 'e, unit) prog \<Rightarrow> ('s, 'e, 'a) prog" where
  "ensuring m f = (\<lambda>s. case m s of (r, s') \<Rightarrow> (case f s' of (Inl e, s'') \<Rightarrow> (Inl e, s'') | (Inr _, s'') \<Rightarrow> (r, s'')))"

definition asking :: "(nat \<Rightarrow> (service_error, 'a) result) \<Rightarrow> 'a saga" where
  "asking f = (\<lambda>w. (f (w_asked w), w\<lparr>w_asked := Suc (w_asked w)\<rparr>))"

definition on_files :: "(fs \<Rightarrow> (task_error, 'a) result \<times> fs) \<Rightarrow> 'a saga" where
  "on_files f = (\<lambda>w. case f (w_files w) of (r, fs') \<Rightarrow> (rcatch r ServiceTask, w\<lparr>w_files := fs'\<rparr>))"

definition on_control :: "(control_db \<Rightarrow> 'a txn) \<Rightarrow> 'a saga" where
  "on_control t = (\<lambda>w. case t (w_control w) of
     Inl e \<Rightarrow> (Inl (ServiceControl e), w) | Inr (x, db) \<Rightarrow> (Inr x, w\<lparr>w_control := db\<rparr>))"

definition on_leases :: "'a lease_prog \<Rightarrow> 'a saga" where
  "on_leases m = (\<lambda>w. case m (w_control w) of (r, db) \<Rightarrow> (rcatch r ServiceLease, w\<lparr>w_control := db\<rparr>))"

definition on_store :: "(execution_db \<Rightarrow> 'a xstore_txn) \<Rightarrow> 'a saga" where
  "on_store t = (\<lambda>w. case t (w_store w) of
     Inl e \<Rightarrow> (Inl (ServiceStore e), w) | Inr (x, db) \<Rightarrow> (Inr x, w\<lparr>w_store := db\<rparr>))"

definition ask_store :: "(execution_db \<Rightarrow> (xstore_error, 'a) result) \<Rightarrow> 'a saga" where
  "ask_store q = (\<lambda>w. (rcatch (q (w_store w)) ServiceStore, w))"

definition read_world :: "(world \<Rightarrow> 'a) \<Rightarrow> 'a saga" where
  "read_world g = (\<lambda>w. (Inr (g w), w))"

definition set_active :: "string \<Rightarrow> active_run option \<Rightarrow> unit saga" where
  "set_active run_id a = (\<lambda>w. (Inr (), w\<lparr>w_active := (w_active w)(run_id := a)\<rparr>))"

definition emergency_gate :: "service_env \<Rightarrow> unit saga" where
  "emergency_gate env = (\<lambda>w. (rcatch (assert_runtime_allowed (sv_emergency env) (w_platform w)) ServiceEmergency, w))"

text \<open>\<open>_timestamp(value, floor=floor)\<close>.\<close>

definition timestamp :: "service_env \<Rightarrow> datetime option \<Rightarrow> datetime option \<Rightarrow> datetime saga" where
  "timestamp env value floor =
     bnd (case value of Some t \<Rightarrow> give t | None \<Rightarrow> asking (\<lambda>n. Inr (sv_clock env n))) (\<lambda>t.
     give (case floor of None \<Rightarrow> t | Some f \<Rightarrow> max t f))"

text \<open>The store: it stamps a row with the current time.\<close>

definition put :: "service_env \<Rightarrow> execution_record \<Rightarrow> int option \<Rightarrow> unit saga" where
  "put env record expected =
     bnd (asking (\<lambda>n. Inr (sv_wall_clock env n))) (\<lambda>now.
     bnd (on_store (put_record (sv_store env) now record expected)) (\<lambda>_. give ()))"

definition head_of :: "string \<Rightarrow> string \<Rightarrow> int option saga" where
  "head_of kind i = ask_store (head_revision kind i)"

text \<open>\<open>store.put(record, expected_revision=store.head_revision(type(record), id))\<close>.\<close>

definition put_next :: "service_env \<Rightarrow> execution_record \<Rightarrow> string \<Rightarrow> unit saga" where
  "put_next env record i = bnd (head_of (record_kind record) i) (\<lambda>revision. put env record revision)"

text \<open>
  \<open>store.get(Model, id)\<close>: the validation library builds a record of the model that is asked for, so
  another kind of record is one the reader has refused.
\<close>

definition get :: "service_env \<Rightarrow> string \<Rightarrow> (execution_record \<Rightarrow> 'a option) \<Rightarrow> string \<Rightarrow> 'a option saga" where
  "get env kind select i =
     bnd (ask_store (get_record (sv_store env) kind i)) (\<lambda>found.
     case found of None \<Rightarrow> give None
     | Some r \<Rightarrow> (case select r of None \<Rightarrow> fail (ServiceStore ExecutionStoreError) | Some x \<Rightarrow> give (Some x)))"

definition list_of ::
    "service_env \<Rightarrow> string \<Rightarrow> (execution_record \<Rightarrow> 'a option) \<Rightarrow> record_filter \<Rightarrow> int \<Rightarrow> 'a list saga" where
  "list_of env kind select q limit =
     bnd (ask_store (list_records (sv_store env) kind q limit 0)) (\<lambda>rs.
     lift (rmap (\<lambda>r. of_option (ServiceStore ExecutionStoreError) (select r)) rs))"

fun as_run :: "execution_record \<Rightarrow> execution_run option" where "as_run (XRun r) = Some r" | "as_run _ = None"
fun as_assignment :: "execution_record \<Rightarrow> task_assignment option" where "as_assignment (XAssignment a) = Some a" | "as_assignment _ = None"
fun as_session :: "execution_record \<Rightarrow> execution_session option" where "as_session (XSession s) = Some s" | "as_session _ = None"
fun as_lease :: "execution_record \<Rightarrow> task_lease option" where "as_lease (XLease l) = Some l" | "as_lease _ = None"

end
