(* ===== verification/Execution_Service.thy ===== *)
theory Execution_Service
  imports Execution_Saga
begin

text \<open>
  The operations of \<open>ExecutionService\<close>: see \<open>Execution_Saga\<close> for the parts they are built from. An
  exception of the code between the checkout and the wait is caught together with the local variables
  that are bound at that point; the \<open>attempt\<close> of each stage carries them to its handler.
\<close>

section \<open>Assignment\<close>

record assignment_result =
  an_assignment :: task_assignment
  an_no_op :: bool

definition assignment_request :: "string option \<Rightarrow> string option \<Rightarrow> string \<Rightarrow> string \<Rightarrow> string \<Rightarrow> dict" where
  "assignment_request approval budget employee generation task =
     [(''approval_policy_id'', jopt JStr approval), (''budget_policy_id'', jopt JStr budget),
      (''employee_id'', JStr employee), (''expected_generation_id'', JStr generation), (''task_id'', JStr task)]"

definition assignment_from_receipt :: "service_env \<Rightarrow> dict \<Rightarrow> assignment_result saga" where
  "assignment_from_receipt env receipt =
     (case map_of receipt ''assignment_id'' of
        Some (JStr i) \<Rightarrow>
          bnd (get env ''assignment'' as_assignment i) (\<lambda>found.
          case found of None \<Rightarrow> fail ExecutionServiceError
          | Some a \<Rightarrow> give \<lparr>an_assignment = a, an_no_op = True\<rparr>)
      | _ \<Rightarrow> fail ExecutionServiceError)"

fun as_budget_policy :: "execution_record \<Rightarrow> budget_policy option" where "as_budget_policy (XBudgetPolicy p) = Some p" | "as_budget_policy _ = None"
fun as_budget_usage :: "execution_record \<Rightarrow> budget_usage option" where "as_budget_usage (XBudgetUsage u) = Some u" | "as_budget_usage _ = None"
fun as_approval :: "execution_record \<Rightarrow> execution_approval option" where "as_approval (XApproval a) = Some a" | "as_approval _ = None"
fun as_invocation :: "execution_record \<Rightarrow> execution_invocation option" where "as_invocation (XInvocation i) = Some i" | "as_invocation _ = None"
fun as_decision :: "execution_record \<Rightarrow> policy_decision option" where "as_decision (XPolicyDecision d) = Some d" | "as_decision _ = None"
fun as_workspace :: "execution_record \<Rightarrow> task_workspace option" where "as_workspace (XWorkspace x) = Some x" | "as_workspace _ = None"

definition same_assignment ::
    "task_assignment \<Rightarrow> task_board_snapshot \<Rightarrow> agent_task \<Rightarrow> digital_employee \<Rightarrow> string option \<Rightarrow> string option \<Rightarrow> bool" where
  "same_assignment a board task employee budget approval \<longleftrightarrow>
     assignment_bound a board task \<and> ta_employee_id a = de_employee_id employee \<and>
     ta_runtime_adapter_id a = de_runtime_adapter_id employee \<and> ta_budget_policy_id a = budget \<and>
     ta_approval_policy_id a = approval \<and> ta_status a = ''active''"

text \<open>The assignment of a task is one record, revised when the task, the employee or a policy changes.\<close>

definition bind_assignment ::
    "service_env \<Rightarrow> task_board_snapshot \<Rightarrow> agent_task \<Rightarrow> digital_employee \<Rightarrow> string option \<Rightarrow> string option \<Rightarrow>
     datetime \<Rightarrow> assignment_result saga" where
  "bind_assignment env board task employee budget approval at =
     (let i = derive_id (sv_sha env) ''assignment'' (JObj [(''task_id'', JStr (at_task_id task))]) in
      bnd (get env ''assignment'' as_assignment i) (\<lambda>current.
      case current of
        Some a \<Rightarrow>
          if same_assignment a board task employee budget approval then give \<lparr>an_assignment = a, an_no_op = True\<rparr>
          else bnd (required_generation board) (\<lambda>generation.
            bnd (make_TaskAssignment env \<lparr>schema_name = ''TaskAssignmentV1'', schema_version = SCHEMA_VERSION,
              id_scheme_version = ID_SCHEME_VERSION, extensions = [], ta_assignment_id = i, ta_task_id = at_task_id task,
              ta_task_generation_id = generation, ta_task_revision = at_revision task,
              ta_employee_id = de_employee_id employee, ta_runtime_adapter_id = de_runtime_adapter_id employee,
              ta_budget_policy_id = budget, ta_approval_policy_id = approval, ta_graph_scope_id = None,
              ta_status = ''active'', ta_revision = ta_revision a + 1, ta_created_at = ta_created_at a,
              ta_updated_at = at\<rparr>) (\<lambda>made.
            bnd (put_next env (XAssignment made) i) (\<lambda>_. give \<lparr>an_assignment = made, an_no_op = False\<rparr>)))
      | None \<Rightarrow>
          bnd (required_generation board) (\<lambda>generation.
          bnd (make_TaskAssignment env \<lparr>schema_name = ''TaskAssignmentV1'', schema_version = SCHEMA_VERSION,
            id_scheme_version = ID_SCHEME_VERSION, extensions = [], ta_assignment_id = i, ta_task_id = at_task_id task,
            ta_task_generation_id = generation, ta_task_revision = at_revision task,
            ta_employee_id = de_employee_id employee, ta_runtime_adapter_id = de_runtime_adapter_id employee,
            ta_budget_policy_id = budget, ta_approval_policy_id = approval, ta_graph_scope_id = None,
            ta_status = ''active'', ta_revision = 1, ta_created_at = at, ta_updated_at = at\<rparr>) (\<lambda>made.
          bnd (put_next env (XAssignment made) i) (\<lambda>_. give \<lparr>an_assignment = made, an_no_op = False\<rparr>)))))"

definition assign_task ::
    "service_env \<Rightarrow> string \<Rightarrow> string \<Rightarrow> string \<Rightarrow> string \<Rightarrow> string option \<Rightarrow> string option \<Rightarrow> datetime option \<Rightarrow>
     assignment_result saga" where
  "assign_task env task_id employee_id expected_generation_id key budget approval now =
     bnd (idempotency_key env ''assignment'' key) (\<lambda>key'.
     let request = assignment_request approval budget employee_id expected_generation_id task_id in
     bnd (ask_store (stored_receipt (sv_store env) ''assignment'' key' request)) (\<lambda>receipt.
     case receipt of Some d \<Rightarrow> assignment_from_receipt env d | None \<Rightarrow>
     bnd (current_task env task_id) (\<lambda>(board, task).
     bnd (check (ts_generation_id board = Some expected_generation_id) ExecutionAssignmentError) (\<lambda>_.
     bnd (check (at_status task \<notin> {DONE, CANCELLED}) ExecutionAssignmentError) (\<lambda>_.
     bnd (employee_named env employee_id) (\<lambda>employee.
     bnd (check (de_status employee \<notin> {EMP_DISABLED, EMP_TERMINATED}) ExecutionAssignmentError) (\<lambda>_.
     bnd (check (sv_adapters env (de_runtime_adapter_id employee) \<noteq> None) ExecutionAssignmentError) (\<lambda>_.
     bnd (case budget of None \<Rightarrow> give ()
          | Some b \<Rightarrow> bnd (get env ''budget_policy'' as_budget_policy b) (\<lambda>found.
              check (found \<noteq> None) ExecutionAssignmentError)) (\<lambda>_.
     bnd (timestamp env now (Some (at_updated_at task))) (\<lambda>at.
     bnd (bind_assignment env board task employee budget approval at) (\<lambda>made.
     bnd (put_next env (XEmployee employee) (de_employee_id employee)) (\<lambda>_.
     bnd (asking (\<lambda>n. Inr (sv_wall_clock env n))) (\<lambda>wall.
     bnd (on_store (store_receipt (sv_store env) wall ''assignment'' key' request
            [(''assignment_id'', JStr (ta_assignment_id (an_assignment made)))])) (\<lambda>_.
     give made))))))))))))))"

section \<open>Workspace preparation\<close>

definition preparation_bound ::
    "workspace_preparation \<Rightarrow> task_assignment \<Rightarrow> agent_task \<Rightarrow> digital_employee \<Rightarrow> bool" where
  "preparation_bound p a task employee \<longleftrightarrow>
     wp_task_generation_id p = ta_task_generation_id a \<and> wp_task_revision p = ta_task_revision a \<and>
     wp_employee_configuration_revision p = de_configuration_revision employee \<and>
     tw_task_id (wp_workspace p) = at_task_id task \<and> tw_mode (wp_workspace p) = fp_mode (de_filesystem_policy employee) \<and>
     gs_task_id (wp_graph_scope p) = at_task_id task \<and>
     gs_graph_snapshot_id (wp_graph_scope p) = tw_graph_snapshot_id (wp_workspace p)"

definition prepare_workspace ::
    "service_env \<Rightarrow> string \<Rightarrow> string \<Rightarrow> bool \<Rightarrow> string option \<Rightarrow> datetime option \<Rightarrow>
     (task_assignment \<times> workspace_preparation) saga" where
  "prepare_workspace env assignment_id run_id fixture_mode fixture_git_commit now =
     bnd (active_assignment env assignment_id) (\<lambda>assignment.
     bnd (current_task env (ta_task_id assignment)) (\<lambda>(board, task).
     bnd (check (assignment_bound assignment board task) ExecutionAssignmentError) (\<lambda>_.
     bnd (employee_named env (ta_employee_id assignment)) (\<lambda>employee.
     bnd (asking (\<lambda>n. sv_prepare env n (at_task_id task) (de_agent_definition_id employee) run_id fixture_mode
            fixture_git_commit)) (\<lambda>prepared.
     bnd (check (preparation_bound prepared assignment task employee) ExecutionServiceError) (\<lambda>_.
     bnd (put env (XGraphScope (wp_graph_scope prepared)) None) (\<lambda>_.
     bnd (put_next env (XWorkspace (wp_workspace prepared)) (tw_workspace_id (wp_workspace prepared))) (\<lambda>_.
     if ta_graph_scope_id assignment = Some (gs_graph_scope_id (wp_graph_scope prepared))
     then give (assignment, prepared)
     else
       bnd (timestamp env now (Some (ta_updated_at assignment))) (\<lambda>at.
       bnd (make_TaskAssignment env (assignment\<lparr>ta_graph_scope_id := Some (gs_graph_scope_id (wp_graph_scope prepared)),
              ta_revision := ta_revision assignment + 1, ta_updated_at := at\<rparr>)) (\<lambda>bound.
       bnd (put_next env (XAssignment bound) (ta_assignment_id bound)) (\<lambda>_.
       give (bound, prepared))))))))))))"

section \<open>Results of heartbeats\<close>

record heartbeat_result =
  hb_run_id :: string
  hb_status :: ExecutionRunStatus
  hb_assignment_id :: string
  hb_run :: "execution_run option"
  hb_invocation :: "execution_invocation option"
  hb_policy_decision :: "policy_decision option"
  hb_approval_required :: bool
  hb_no_op :: bool
  hb_error_code :: "string option"

definition heartbeat_receipt :: "heartbeat_result \<Rightarrow> dict" where
  "heartbeat_receipt r =
     [(''assignment_id'', JStr (hb_assignment_id r)),
      (''error_code'', jopt JStr (hb_error_code r)),
      (''invocation_id'', jopt JStr (map_option ei_invocation_id (hb_invocation r))),
      (''policy_decision_id'', jopt JStr (map_option pd_policy_decision_id (hb_policy_decision r))),
      (''run_id'', JStr (hb_run_id r)),
      (''status'', JStr (ExecutionRunStatus_value (hb_status r)))]"

definition task_filter :: "string \<Rightarrow> record_filter" where
  "task_filter task_id = \<lparr>rf_state = None, rf_associations = associated (Some task_id) None None None None\<rparr>"

definition result_for_run :: "service_env \<Rightarrow> execution_run \<Rightarrow> bool \<Rightarrow> heartbeat_result saga" where
  "result_for_run env run no_op =
     bnd (get env ''invocation'' as_invocation (er_invocation_id run)) (\<lambda>invocation.
     bnd (get env ''policy_decision'' as_decision (er_policy_decision_id run)) (\<lambda>decision.
     bnd (list_of env ''assignment'' as_assignment (task_filter (er_task_id run)) 2) (\<lambda>assignments.
     case assignments of
       [a] \<Rightarrow>
         if invocation = None \<or> decision = None then fail ExecutionServiceError
         else give \<lparr>hb_run_id = er_run_id run, hb_status = er_status run, hb_assignment_id = ta_assignment_id a,
                hb_run = Some run, hb_invocation = invocation, hb_policy_decision = decision,
                hb_approval_required = False, hb_no_op = no_op, hb_error_code = er_error_code run\<rparr>
     | _ \<Rightarrow> fail ExecutionServiceError)))"

definition heartbeat_from_receipt :: "service_env \<Rightarrow> dict \<Rightarrow> bool \<Rightarrow> heartbeat_result saga" where
  "heartbeat_from_receipt env receipt no_op =
     (case (map_of receipt ''run_id'', map_of receipt ''assignment_id'') of
        (Some (JStr run_id), Some (JStr _)) \<Rightarrow>
          bnd (get env ''run'' as_run run_id) (\<lambda>found.
          case found of None \<Rightarrow> fail ExecutionServiceError | Some run \<Rightarrow> result_for_run env run no_op)
      | _ \<Rightarrow> fail ExecutionServiceError)"

definition finalize_receipt ::
    "service_env \<Rightarrow> string \<Rightarrow> string \<Rightarrow> dict \<Rightarrow> heartbeat_result \<Rightarrow> unit saga" where
  "finalize_receipt env op key request r =
     bnd (asking (\<lambda>n. Inr (sv_wall_clock env n))) (\<lambda>wall.
     bnd (on_store (store_receipt (sv_store env) wall ''heartbeat'' key request (heartbeat_receipt r))) (\<lambda>_.
     bnd (timestamp env None None) (\<lambda>now.
     on_control (\<lambda>db. update_operation db op ''complete'' (milliseconds now)
       (Some (JObj (heartbeat_receipt r))) None))))"

definition blocked_preflight ::
    "service_env \<Rightarrow> string \<Rightarrow> string \<Rightarrow> task_assignment \<Rightarrow> string \<Rightarrow> datetime \<Rightarrow> policy_decision option \<Rightarrow> bool \<Rightarrow>
     string option \<Rightarrow> bool \<Rightarrow> heartbeat_result saga" where
  "blocked_preflight env op run_id assignment code at policy approval_required detail transition =
     bnd (if transition then
            bnd (current_task env (ta_task_id assignment)) (\<lambda>(board, task).
            if at_status task \<in> {PLANNED, READY, RUNNING} then
              bnd (transition_blocked env task board run_id code (Some at)) (\<lambda>moved.
              rebind_assignment env assignment (tr_generation_id moved) (tr_task moved) at)
            else give ())
          else give ()) (\<lambda>_.
     bnd (comment env (ta_task_id assignment) run_id (ta_employee_id assignment) CK_BLOCKED
            (case detail of None \<Rightarrow> code | Some d \<Rightarrow> code @ '':'' @ d) at) (\<lambda>_.
     let r = \<lparr>hb_run_id = run_id, hb_status = RUN_BLOCKED, hb_assignment_id = ta_assignment_id assignment,
              hb_run = None, hb_invocation = None, hb_policy_decision = policy,
              hb_approval_required = approval_required, hb_no_op = False, hb_error_code = Some code\<rparr> in
     bnd (on_control (\<lambda>db. update_operation db op ''blocked'' (milliseconds at)
            (Some (JObj (heartbeat_receipt r))) (Some code))) (\<lambda>_.
     give r)))"

section \<open>Checkout\<close>

definition ttl_of :: "service_env \<Rightarrow> int" where
  "ttl_of env = xc_lease_ttl_seconds (sv_config env) * 1000"

definition free_lease :: "lease_token \<Rightarrow> unit saga" where
  "free_lease token = bnd (on_control (\<lambda>db. Inr (release_lease db token))) (\<lambda>_. give ())"

fun slot_loop :: "service_env \<Rightarrow> string \<Rightarrow> string \<Rightarrow> datetime \<Rightarrow> nat list \<Rightarrow> lease_token saga" where
  "slot_loop env name run_id now [] = fail ExecutionConcurrencyError"
| "slot_loop env name run_id now (i # is) =
     attempt (on_control (\<lambda>db. acquire_lease db (name @ '':'' @ show_nat i) run_id (ttl_of env) (milliseconds now)))
       (\<lambda>e. if e = ServiceControl LeaseBusy then slot_loop env name run_id now is else fail e)
       give"

definition slot :: "service_env \<Rightarrow> string \<Rightarrow> int \<Rightarrow> string \<Rightarrow> datetime \<Rightarrow> lease_token saga" where
  "slot env name limit run_id now = slot_loop env name run_id now [0..<nat limit]"

definition checkout ::
    "service_env \<Rightarrow> task_assignment \<Rightarrow> digital_employee \<Rightarrow> task_board_snapshot \<Rightarrow> agent_task \<Rightarrow> string \<Rightarrow> datetime \<Rightarrow>
     run_checkout saga" where
  "checkout env assignment employee board task run_id now =
     bnd (slot env ''execution:global'' (xc_max_concurrent_runs (sv_config env)) run_id now) (\<lambda>overall.
     attempt (slot env (''execution:employee:'' @ de_employee_id employee) (de_concurrency_limit employee) run_id now)
       (\<lambda>e. bnd (free_lease overall) (\<lambda>_. fail e)) (\<lambda>own.
     attempt (bnd (required_generation board) (\<lambda>generation.
              on_leases (acquire_task (sv_leases env) (ttl_of env) (at_task_id task) generation (at_revision task)
                (ta_employee_id assignment) run_id now)))
       (\<lambda>e. bnd (free_lease own) (\<lambda>_. bnd (free_lease overall) (\<lambda>_. fail e))) (\<lambda>lease.
     give \<lparr>ck_task_lease = lease, ck_global_slot = overall, ck_employee_slot = own\<rparr>)))"

definition release_checkout :: "service_env \<Rightarrow> run_checkout \<Rightarrow> unit saga" where
  "release_checkout env ck =
     ensuring
       (bnd (on_leases (release_task (ck_task_lease ck))) (\<lambda>released.
        bnd (head_of ''lease'' (tl_lease_id (ck_task_lease ck))) (\<lambda>revision.
        case revision of None \<Rightarrow> give () | Some n \<Rightarrow> put env (XLease released) (Some n))))
       (bnd (free_lease (ck_employee_slot ck)) (\<lambda>_. free_lease (ck_global_slot ck)))"

definition closing :: "service_env \<Rightarrow> string \<Rightarrow> run_checkout \<Rightarrow> 'a saga \<Rightarrow> 'a saga" where
  "closing env run_id ck m = ensuring m (bnd (set_active run_id None) (\<lambda>_. release_checkout env ck))"

section \<open>Sessions, invocations and budgets\<close>

definition session_context ::
    "service_env \<Rightarrow> task_assignment \<Rightarrow> digital_employee \<Rightarrow> workspace_preparation \<Rightarrow> policy_decision \<Rightarrow> adapter \<Rightarrow> string option \<Rightarrow>
     (execution_session option \<times> session_compatibility) saga" where
  "session_context env assignment employee prepared decision adapter model =
     bnd (list_of env ''session'' as_session
            \<lparr>rf_state = None, rf_associations = associated (Some (ta_task_id assignment)) (Some (de_employee_id employee)) None None None\<rparr> 20)
       (\<lambda>sessions.
     give (find (\<lambda>s. es_status s \<in> {SESSION_ACTIVE, SESSION_PAUSED}) sessions,
       \<lparr>sc_runtime_adapter_id = ta_runtime_adapter_id assignment,
        sc_runtime_adapter_sha256 = adapter_sha256 env adapter,
        sc_provider = provider_of (ta_runtime_adapter_id assignment),
        sc_model = model,
        sc_task_id = ta_task_id assignment,
        sc_employee_id = de_employee_id employee,
        sc_employee_configuration_revision = de_configuration_revision employee,
        sc_workspace_id = tw_workspace_id (wp_workspace prepared),
        sc_workspace_manifest_sha256 = tw_manifest_sha256 (wp_workspace prepared),
        sc_repository_commit = wp_git_commit prepared,
        sc_graph_snapshot_id = tw_graph_snapshot_id (wp_workspace prepared),
        sc_graph_fingerprint = tw_graph_fingerprint (wp_workspace prepared),
        sc_context_snapshot_sha256 = wp_context_snapshot_sha256 prepared,
        sc_policy_sha256 = pd_policy_sha256 decision,
        sc_instruction_bundle_sha256 = sha256_hex (sv_sha env) (json_bytes (jstrs (de_instruction_bundle employee)))\<rparr>))"

definition mark_session_incompatible :: "service_env \<Rightarrow> execution_session \<Rightarrow> string option \<Rightarrow> unit saga" where
  "mark_session_incompatible env s reason =
     bnd (make_Session env (s\<lparr>es_status := SESSION_INCOMPATIBLE,
            es_incompatibility_reason := Some (case reason of None \<Rightarrow> ''compatibility_changed''
              | Some r \<Rightarrow> if r = [] then ''compatibility_changed'' else r)\<rparr>)) (\<lambda>updated.
     put_next env (XSession updated) (es_session_id s))"

definition make_invocation ::
    "service_env \<Rightarrow> string \<Rightarrow> task_assignment \<Rightarrow> digital_employee \<Rightarrow> workspace_preparation \<Rightarrow> policy_decision \<Rightarrow> adapter \<Rightarrow>
     execution_approval option \<Rightarrow> datetime \<Rightarrow> string \<Rightarrow> execution_invocation saga" where
  "make_invocation env key assignment employee prepared decision adapter approval created_at source =
     bnd (validated ExecutionInvocation_ok (strip_invocation (sv_strip env)
       \<lparr>schema_name = ''ExecutionInvocationV1'', schema_version = SCHEMA_VERSION, id_scheme_version = ID_SCHEME_VERSION,
        extensions = [], ei_invocation_id = ''xinv_pending'', ei_source = source, ei_task_id = ta_task_id assignment,
        ei_task_generation_id = ta_task_generation_id assignment, ei_task_revision = ta_task_revision assignment,
        ei_employee_id = de_employee_id employee, ei_employee_configuration_revision = de_configuration_revision employee,
        ei_runtime_adapter_id = ta_runtime_adapter_id assignment, ei_runtime_adapter_sha256 = adapter_sha256 env adapter,
        ei_workspace_id = tw_workspace_id (wp_workspace prepared),
        ei_workspace_manifest_sha256 = tw_manifest_sha256 (wp_workspace prepared),
        ei_graph_scope_id = gs_graph_scope_id (wp_graph_scope prepared),
        ei_graph_snapshot_id = tw_graph_snapshot_id (wp_workspace prepared),
        ei_context_snapshot_sha256 = wp_context_snapshot_sha256 prepared,
        ei_policy_decision_id = pd_policy_decision_id decision,
        ei_policy_decision_sha256 = sha256_hex (sv_sha env) (json_bytes (policy_decision_json decision)),
        ei_budget_policy_ids = (case ta_budget_policy_id assignment of None \<Rightarrow> [] | Some b \<Rightarrow> [b]),
        ei_approval_id = map_option ea_approval_id approval, ei_idempotency_key = key, ei_created_at = created_at\<rparr>)) (\<lambda>seed.
     give (seed\<lparr>ei_invocation_id := derive_id (sv_sha env) ''xinv'' (invocation_identity_payload seed)\<rparr>))"

definition budget_for :: "service_env \<Rightarrow> task_assignment \<Rightarrow> (budget_policy option \<times> budget_usage option) saga" where
  "budget_for env assignment =
     (case ta_budget_policy_id assignment of
        None \<Rightarrow> give (None, None)
      | Some i \<Rightarrow>
          bnd (get env ''budget_policy'' as_budget_policy i) (\<lambda>policy.
          case policy of
            None \<Rightarrow> fail ExecutionServiceError
          | Some p \<Rightarrow>
              bnd (get env ''budget_usage'' as_budget_usage (bp_budget_policy_id p)) (\<lambda>usage. give (Some p, usage))))"

definition zero_tokens :: token_budget where
  "zero_tokens = \<lparr>schema_name = ''TokenBudgetV1'', schema_version = SCHEMA_VERSION, id_scheme_version = ID_SCHEME_VERSION,
     extensions = [], tb_input_tokens = 0, tb_output_tokens = 0, tb_cached_tokens = 0\<rparr>"

definition reserve_budget :: "service_env \<Rightarrow> budget_policy option \<Rightarrow> budget_usage option \<Rightarrow> datetime \<Rightarrow> unit saga" where
  "reserve_budget env policy usage now =
     (case policy of None \<Rightarrow> give () | Some p \<Rightarrow>
        bnd (case usage of Some u \<Rightarrow> give u
             | None \<Rightarrow> make_BudgetUsage env \<lparr>schema_name = ''BudgetUsageV1'', schema_version = SCHEMA_VERSION,
                 id_scheme_version = ID_SCHEME_VERSION, extensions = [], bu_budget_policy_id = bp_budget_policy_id p,
                 bu_tokens = zero_tokens, bu_estimated_cost_micros = None, bu_actual_cost_micros = None, bu_run_count = 0,
                 bu_heartbeat_count = 0, bu_updated_at = now\<rparr>) (\<lambda>current.
        bnd (make_BudgetUsage env (current\<lparr>bu_heartbeat_count := bu_heartbeat_count current + 1,
               bu_run_count := bu_run_count current + 1, bu_updated_at := now\<rparr>)) (\<lambda>reserved.
        put_next env (XBudgetUsage reserved) (bp_budget_policy_id p))))"

definition add_budget_usage :: "service_env \<Rightarrow> budget_policy option \<Rightarrow> execution_usage \<Rightarrow> datetime \<Rightarrow> unit saga" where
  "add_budget_usage env policy usage now =
     (case policy of None \<Rightarrow> give () | Some p \<Rightarrow>
        bnd (get env ''budget_usage'' as_budget_usage (bp_budget_policy_id p)) (\<lambda>found.
        case found of None \<Rightarrow> fail ExecutionServiceError | Some current \<Rightarrow>
        bnd (validated TokenBudget_ok (zero_tokens\<lparr>
               tb_input_tokens := tb_input_tokens (bu_tokens current) + eu_input_tokens usage,
               tb_output_tokens := tb_output_tokens (bu_tokens current) + eu_output_tokens usage,
               tb_cached_tokens := tb_cached_tokens (bu_tokens current) + eu_cached_tokens usage\<rparr>)) (\<lambda>tokens.
        bnd (make_BudgetUsage env (current\<lparr>bu_tokens := tokens,
               bu_estimated_cost_micros := add_cost (bu_estimated_cost_micros current) (eu_estimated_cost_micros usage),
               bu_actual_cost_micros := add_cost (bu_actual_cost_micros current) (eu_actual_cost_micros usage),
               bu_updated_at := now\<rparr>)) (\<lambda>updated.
        put_next env (XBudgetUsage updated) (bp_budget_policy_id p)))))"

section \<open>The heartbeat up to the wait\<close>

record heartbeat_request =
  hq_assignment_id :: string
  hq_idempotency_key :: string
  hq_approval_id :: "string option"
  hq_model :: "string option"
  hq_fixture_mode :: bool
  hq_fixture_git_commit :: "string option"
  hq_now :: "datetime option"
  hq_resumed_from_run_id :: "string option"

datatype heartbeat_reply = Answered heartbeat_result | Launched string

definition answer :: "heartbeat_result saga \<Rightarrow> heartbeat_reply saga" where
  "answer m = bnd m (\<lambda>r. give (Answered r))"

definition heartbeat_source :: "heartbeat_request \<Rightarrow> string" where
  "heartbeat_source q = (if hq_resumed_from_run_id q = None then ''manual'' else ''resume'')"

definition heartbeat_dict :: "heartbeat_request \<Rightarrow> dict" where
  "heartbeat_dict q =
     [(''assignment_id'', JStr (hq_assignment_id q)), (''model'', jopt JStr (hq_model q)),
      (''resumed_from_run_id'', jopt JStr (hq_resumed_from_run_id q)), (''source'', JStr (heartbeat_source q))]"

definition run_id_for :: "service_env \<Rightarrow> string \<Rightarrow> heartbeat_request \<Rightarrow> string" where
  "run_id_for env key q = derive_id (sv_sha env) ''xrun''
     (JObj [(''idempotency_key'', JStr key), (''request'', JObj (heartbeat_dict q))])"

definition operation_for :: "service_env \<Rightarrow> string \<Rightarrow> string" where
  "operation_for env key = derive_id (sv_sha env) ''xop''
     (JObj [(''scope'', JStr ''heartbeat''), (''idempotency_key'', JStr key)])"

text \<open>The local variables of a heartbeat, as far as they are bound before the policy is asked and after.\<close>

record bound_heartbeat =
  bh_request :: heartbeat_request
  bh_key :: string
  bh_run_id :: string
  bh_operation :: string
  bh_started_at :: datetime
  bh_assignment :: task_assignment
  bh_board :: task_board_snapshot
  bh_task :: agent_task
  bh_employee :: digital_employee
  bh_prepared :: workspace_preparation

record approved_heartbeat = bound_heartbeat +
  bh_adapter :: adapter
  bh_budget_policy :: "budget_policy option"
  bh_budget_usage :: "budget_usage option"
  bh_approval :: "execution_approval option"
  bh_decision :: policy_decision

record planned_heartbeat = approved_heartbeat +
  bh_existing_session :: "execution_session option"
  bh_compatibility :: session_compatibility
  bh_plan :: command_plan

abbreviation bh_blocked ::
    "service_env \<Rightarrow> 'z bound_heartbeat_scheme \<Rightarrow> string \<Rightarrow> policy_decision option \<Rightarrow> bool \<Rightarrow> string option \<Rightarrow> bool \<Rightarrow> heartbeat_reply saga" where
  "bh_blocked env h code policy approval_required detail transition \<equiv>
     answer (blocked_preflight env (bh_operation h) (bh_run_id h) (bh_assignment h) code (bh_started_at h) policy
       approval_required detail transition)"

definition usable_session :: "service_env \<Rightarrow> planned_heartbeat \<Rightarrow> execution_session option" where
  "usable_session env h =
     (if srs_compatible (resolve_session (sv_sha env) (bh_existing_session h) (bh_compatibility h))
      then bh_existing_session h else None)"

end
