(* ===== verification/Execution_Heartbeat.thy ===== *)
theory Execution_Heartbeat
  imports Execution_Service
begin

text \<open>
  The heartbeat of \<open>ExecutionService\<close>: \<open>heartbeat\<close> is \<open>manual_heartbeat\<close> up to the wait for the runtime,
  \<open>renew_tick\<close> one round of the renewal task, \<open>collect\<close> the rest of \<open>manual_heartbeat\<close> with what the
  adapter has returned or raised, and the operations on runs: \<open>pause_run\<close>, \<open>cancel_run\<close>, \<open>resume_run\<close>
  and \<open>recover_stale_runs\<close>.
\<close>

section \<open>Ending a run\<close>

definition ascii_lower :: "string \<Rightarrow> string" where
  "ascii_lower s = map (\<lambda>c. let n = (of_char c :: nat) in if 65 \<le> n \<and> n \<le> 90 then char_of (n + 32) else c) s"

definition terminalize_exception :: "service_env \<Rightarrow> execution_run \<Rightarrow> task_assignment \<Rightarrow> string \<Rightarrow> execution_run saga" where
  "terminalize_exception env run assignment code =
     bnd (timestamp env None (Some (er_started_at run))) (\<lambda>ended.
     bnd (make_ExecutionRun env (run\<lparr>er_ended_at := Some ended, er_error_code := Some (take 255 code), er_status := RUN_FAILED,
            er_summary := ''Execution failed closed during orchestration.''\<rparr>)) (\<lambda>failed.
     bnd (put_next env (XRun failed) (er_run_id run)) (\<lambda>_.
     bnd (current_task env (er_task_id run)) (\<lambda>(board, task).
     bnd (if at_status task = RUNNING then
            bnd (transition_blocked env task board (er_run_id run) code (Some ended)) (\<lambda>moved.
            rebind_assignment env assignment (tr_generation_id moved) (tr_task moved) ended)
          else give ()) (\<lambda>_.
     give failed)))))"

definition run_failed :: "service_env \<Rightarrow> execution_run \<Rightarrow> task_assignment \<Rightarrow> service_error \<Rightarrow> heartbeat_result saga" where
  "run_failed env run assignment e =
     bnd (terminalize_exception env run assignment (''runtime_'' @ ascii_lower (error_name e))) (\<lambda>failed.
     result_for_run env failed False)"

text \<open>The marker \<open>.git\<close> of the workspace: it must be a file with one link, when there is one.\<close>

definition changed_names :: "service_env \<Rightarrow> task_workspace \<Rightarrow> bool \<Rightarrow> string list saga" where
  "changed_names env workspace untracked =
     bnd (asking (\<lambda>n. Inr (sv_git env n workspace untracked))) (\<lambda>(status, output).
     bnd (check (\<not> (status \<noteq> 0 \<or> length output > 1024 * 1024)) ExecutionServiceError) (\<lambda>_.
     bnd (lift (of_option ExecutionServiceError (sv_utf8 env output))) (\<lambda>decoded.
     lift (rmap (\<lambda>name. rbind (rcatch (validate_relative_path name) (\<lambda>_. ServiceValueError)) (\<lambda>normalized.
       if normalized \<noteq> name then Inl ExecutionServiceError else Inr name))
       (filter (\<lambda>name. name \<noteq> []) (splitc (CHR 0x00) decoded))))))"

definition changed_files :: "service_env \<Rightarrow> task_workspace option \<Rightarrow> string list saga" where
  "changed_files env found =
     (case found of None \<Rightarrow> fail ExecutionServiceError | Some workspace \<Rightarrow>
        bnd (asking (\<lambda>n. Inr (sv_marker env n (tw_repo_path workspace)))) (\<lambda>marker.
        case marker of
          NoMarker \<Rightarrow> give []
        | UnsafeMarker \<Rightarrow> fail ExecutionServiceError
        | PlainMarker \<Rightarrow>
            bnd (changed_names env workspace False) (\<lambda>tracked.
            bnd (changed_names env workspace True) (\<lambda>untracked.
            let names = sorted_set (tracked @ untracked) in
            bnd (check (length names \<le> 2000) ExecutionServiceError) (\<lambda>_. give names)))))"

record run_verdict =
  rv_status :: ExecutionRunStatus
  rv_error_code :: "string option"
  rv_target :: TaskStatus
  rv_blocked_reason :: "string option"
  rv_session_status :: ExecutionSessionStatus

definition verdict :: "string \<Rightarrow> string option \<Rightarrow> process_outcome \<Rightarrow> run_verdict" where
  "verdict run_id intent outcome =
     (if intent = Some ''emergency'' then
        \<lparr>rv_status = RUN_CANCELLED, rv_error_code = Some ''emergency_stop'', rv_target = BLOCKED,
         rv_blocked_reason = Some (''emergency_stop:'' @ run_id), rv_session_status = SESSION_PAUSED\<rparr>
      else if intent = Some ''pause'' then
        \<lparr>rv_status = RUN_CANCELLED, rv_error_code = Some ''paused_by_user'', rv_target = BLOCKED,
         rv_blocked_reason = Some (''execution_paused:'' @ run_id), rv_session_status = SESSION_PAUSED\<rparr>
      else if intent = Some ''cancel'' \<or> po_termination_reason outcome = ''cancelled'' then
        \<lparr>rv_status = RUN_CANCELLED, rv_error_code = Some ''cancelled_by_user'', rv_target = CANCELLED,
         rv_blocked_reason = None, rv_session_status = SESSION_COMPLETED\<rparr>
      else if process_ok outcome then
        \<lparr>rv_status = RUN_REVIEW, rv_error_code = None, rv_target = REVIEW,
         rv_blocked_reason = None, rv_session_status = SESSION_ACTIVE\<rparr>
      else
        \<lparr>rv_status = RUN_FAILED, rv_error_code = Some (''runtime_'' @ po_termination_reason outcome), rv_target = BLOCKED,
         rv_blocked_reason = Some (''runtime_'' @ po_termination_reason outcome), rv_session_status = SESSION_ERROR\<rparr>)"

definition close_session ::
    "service_env \<Rightarrow> active_run \<Rightarrow> process_outcome \<Rightarrow> ExecutionSessionStatus \<Rightarrow> datetime \<Rightarrow> unit saga" where
  "close_session env a outcome status ended =
     (let s = ar_session a in
      bnd (lift (rcatch (add_usage (es_usage_totals s) (usage_of env outcome)) (\<lambda>_. ServiceContract))) (\<lambda>totals.
      bnd (make_Session env (s\<lparr>
             es_last_resumed_at := (if er_session_id_before (ar_run a) \<noteq> None then Some ended else es_last_resumed_at s),
             es_provider_session_id := (case provider_session_id env outcome of
                 Some v \<Rightarrow> Some v | None \<Rightarrow> es_provider_session_id s),
             es_previous_run_id := Some (er_run_id (ar_run a)), es_status := status, es_usage_totals := totals\<rparr>)) (\<lambda>final.
      put_next env (XSession final) (es_session_id s))))"

text \<open>\<open>_finish_run\<close>: nothing is collected for a run whose lease no longer covers the task.\<close>

definition deliver_run ::
    "service_env \<Rightarrow> active_run \<Rightarrow> process_outcome \<Rightarrow> datetime \<Rightarrow> task_board_snapshot \<Rightarrow> agent_task \<Rightarrow> string list \<Rightarrow>
     heartbeat_result saga" where
  "deliver_run env a outcome ended board task files =
     (let run = ar_run a; v = verdict (er_run_id run) (ar_intent a) outcome in
      bnd (required_generation board) (\<lambda>generation.
      bnd (move_task env (at_task_id task) (rv_target v) (''employee:'' @ er_employee_id run)
             (transition_key env (er_run_id run) (TaskStatus_value (rv_target v))) generation (rv_blocked_reason v)
             (max ended (at_updated_at task))) (\<lambda>moved.
      bnd (rebind_assignment env (ar_assignment a) (tr_generation_id moved) (tr_task moved) ended) (\<lambda>_.
      bnd (make_ExecutionRun env (run\<lparr>er_changed_files := files, er_ended_at := Some ended, er_error_code := rv_error_code v,
             er_exit_code := po_exit_code outcome, er_status := rv_status v,
             er_summary := run_summary (rv_status v) outcome, er_usage := usage_of env outcome\<rparr>)) (\<lambda>final.
      bnd (put_next env (XRun final) (er_run_id run)) (\<lambda>_.
      bnd (close_session env a outcome (rv_session_status v) ended) (\<lambda>_.
      bnd (add_budget_usage env (ar_budget_policy a) (usage_of env outcome) ended) (\<lambda>_.
      bnd (comment env (er_task_id run) (er_run_id run) (er_employee_id run)
             (if rv_status v = RUN_REVIEW then CK_REVIEW else CK_BLOCKED) (run_summary (rv_status v) outcome) ended) (\<lambda>_.
      let r = \<lparr>hb_run_id = er_run_id run, hb_status = rv_status v, hb_assignment_id = ta_assignment_id (ar_assignment a),
               hb_run = Some final, hb_invocation = Some (ar_invocation a), hb_policy_decision = Some (ar_policy_decision a),
               hb_approval_required = False, hb_no_op = False, hb_error_code = rv_error_code v\<rparr> in
      bnd (finalize_receipt env (ar_operation_key a) (ar_key a) (ar_request a) r) (\<lambda>_. give r))))))))))"

definition finish_run :: "service_env \<Rightarrow> active_run \<Rightarrow> process_outcome \<Rightarrow> datetime \<Rightarrow> heartbeat_result saga" where
  "finish_run env a outcome ended =
     bnd (current_task env (er_task_id (ar_run a))) (\<lambda>(board, task).
     bnd (read_world (\<lambda>w. verify_task_revision (ck_task_lease (ar_checkout a)) (at_revision task) ended (w_control w))) (\<lambda>held.
     bnd (check held ExecutionServiceError) (\<lambda>_.
     bnd (append_outcome_transcript env (er_run_id (ar_run a)) outcome ended) (\<lambda>_.
     bnd (if process_ok outcome \<and> ar_intent a = None
          then bnd (get env ''workspace'' as_workspace (er_workspace_id (ar_run a))) (changed_files env)
          else give []) (\<lambda>files.
     deliver_run env a outcome ended board task files)))))"

section \<open>Launching\<close>

definition launch_failed :: "service_env \<Rightarrow> planned_heartbeat \<Rightarrow> service_error \<Rightarrow> heartbeat_reply saga" where
  "launch_failed env h e =
     bnd (timestamp env None (Some (bh_started_at h))) (\<lambda>at.
     answer (blocked_preflight env (bh_operation h) (bh_run_id h) (bh_assignment h) ''checkout_failed'' at
       (Some (bh_decision h)) False (Some (error_name e)) True))"

definition take_checkout :: "service_env \<Rightarrow> planned_heartbeat \<Rightarrow> run_checkout saga" where
  "take_checkout env h =
     bnd (emergency_gate env) (\<lambda>_.
     checkout env (bh_assignment h) (bh_employee h) (bh_board h) (bh_task h) (bh_run_id h) (bh_started_at h))"

definition claim_task :: "service_env \<Rightarrow> planned_heartbeat \<Rightarrow> run_checkout \<Rightarrow> task_lease saga" where
  "claim_task env h ck =
     bnd (required_generation (bh_board h)) (\<lambda>generation.
     bnd (move_task env (at_task_id (bh_task h)) RUNNING (''employee:'' @ de_employee_id (bh_employee h))
            (transition_key env (bh_run_id h) ''running'') generation None (bh_started_at h)) (\<lambda>moved.
     on_leases (rebind_task (sv_leases env) (ck_task_lease ck) (tr_generation_id moved) (at_revision (tr_task moved))
       (bh_started_at h))))"

definition record_run ::
    "service_env \<Rightarrow> planned_heartbeat \<Rightarrow> task_lease \<Rightarrow> (execution_invocation \<times> execution_session \<times> execution_run) saga" where
  "record_run env h lease =
     (let a = bh_assignment h; prepared = bh_prepared h;
          resolution = resolve_session (sv_sha env) (bh_existing_session h) (bh_compatibility h) in
      bnd (put env (XLease lease) None) (\<lambda>_.
      bnd (make_invocation env (bh_key h) a (bh_employee h) prepared (bh_decision h) (bh_adapter h) (bh_approval h)
             (bh_started_at h) (heartbeat_source (bh_request h))) (\<lambda>invocation.
      bnd (put env (XInvocation invocation) None) (\<lambda>_.
      bnd (case bh_existing_session h of
             Some s \<Rightarrow> if srs_compatible resolution then give () else mark_session_incompatible env s (srs_reason_code resolution)
           | None \<Rightarrow> give ()) (\<lambda>_.
      bnd (case usable_session env h of
             Some s \<Rightarrow> give s
           | None \<Rightarrow> lift (rcatch (create_session (sv_sha env) (sv_strip env) (bh_compatibility h) (bh_started_at h) None None)
                (\<lambda>_. ServiceContract))) (\<lambda>session.
      bnd (put_next env (XSession session) (es_session_id session)) (\<lambda>_.
      bnd (make_ExecutionRun env
        \<lparr>schema_name = ''ExecutionRunV1'', schema_version = SCHEMA_VERSION, id_scheme_version = ID_SCHEME_VERSION,
         extensions = [], er_run_id = bh_run_id h, er_invocation_id = ei_invocation_id invocation,
         er_invocation_source = ei_source invocation, er_employee_id = de_employee_id (bh_employee h),
         er_task_id = at_task_id (bh_task h), er_runtime_adapter_id = ta_runtime_adapter_id a,
         er_provider = provider_of (ta_runtime_adapter_id a), er_model = hq_model (bh_request h),
         er_safe_command = cp_argv (bh_plan h), er_cwd_token = tw_repo_path (wp_workspace prepared),
         er_workspace_id = tw_workspace_id (wp_workspace prepared),
         er_graph_snapshot_id = tw_graph_snapshot_id (wp_workspace prepared),
         er_graph_scope_id = gs_graph_scope_id (wp_graph_scope prepared),
         er_session_id_before = map_option es_session_id (usable_session env h),
         er_session_id_after = Some (es_session_id session),
         er_policy_decision_id = pd_policy_decision_id (bh_decision h),
         er_approval_id = map_option ea_approval_id (bh_approval h), er_task_lease_id = tl_lease_id lease,
         er_fencing_token = tl_fencing_token lease, er_status = RUN_RUNNING, er_started_at = bh_started_at h,
         er_ended_at = None, er_exit_code = None, er_usage = zero_usage, er_changed_files = [], er_tests = [],
         er_artifact_ids = [], er_summary = [], er_error_code = None, er_retry_of_run_id = None,
         er_resumed_from_run_id = hq_resumed_from_run_id (bh_request h)\<rparr>) (\<lambda>run.
      give (invocation, session, run)))))))))"

definition start_run ::
    "service_env \<Rightarrow> planned_heartbeat \<Rightarrow> run_checkout \<Rightarrow> execution_invocation \<Rightarrow> execution_session \<Rightarrow> execution_run \<Rightarrow> unit saga" where
  "start_run env h ck invocation session run =
     bnd (put env (XRun run) None) (\<lambda>_.
     bnd (append_run_event env (bh_run_id h) 0 ''system'' ''runtime_started'' ''Runtime started'' (bh_started_at h) False) (\<lambda>_.
     bnd (reserve_budget env (bh_budget_policy h) (bh_budget_usage h) (bh_started_at h)) (\<lambda>_.
     set_active (bh_run_id h) (Some
       \<lparr>ar_operation_key = bh_operation h, ar_key = bh_key h, ar_request = heartbeat_dict (bh_request h), ar_run = run,
        ar_invocation = invocation, ar_assignment = bh_assignment h, ar_session = session, ar_checkout = ck,
        ar_budget_policy = bh_budget_policy h, ar_policy_decision = bh_decision h, ar_cancelled = False, ar_intent = None,
        ar_renewal_error = None\<rparr>))))"

definition launch :: "service_env \<Rightarrow> planned_heartbeat \<Rightarrow> heartbeat_reply saga" where
  "launch env h =
     attempt (take_checkout env h)
       (\<lambda>e. ensuring (launch_failed env h e) (set_active (bh_run_id h) None)) (\<lambda>ck.
     attempt (claim_task env h ck)
       (\<lambda>e. closing env (bh_run_id h) ck (launch_failed env h e)) (\<lambda>lease.
     let ck' = ck\<lparr>ck_task_lease := lease\<rparr> in
     attempt (record_run env h lease)
       (\<lambda>e. closing env (bh_run_id h) ck' (launch_failed env h e)) (\<lambda>(invocation, session, run).
     attempt (start_run env h ck' invocation session run)
       (\<lambda>e. closing env (bh_run_id h) ck' (answer (run_failed env run (bh_assignment h) e))) (\<lambda>_.
     give (Launched (bh_run_id h))))))"

section \<open>The gates\<close>

definition plan_run :: "service_env \<Rightarrow> approved_heartbeat \<Rightarrow> heartbeat_reply saga" where
  "plan_run env h =
     bnd (lift (rcatch (health_check (sv_strip env) (sv_resolver env) (sv_probe env) (bh_adapter h) (bh_started_at h)) ServiceAdapter)) (\<lambda>health.
     if rh_status health \<noteq> HEALTH_AVAILABLE then
       bh_blocked env h ''runtime_adapter_unhealthy'' (Some (bh_decision h)) False None False
     else
       bnd (lift (rcatch (make_ManagedCwd (sv_root env) (tw_repo_path (wp_workspace (bh_prepared h)))
              (tw_mode (wp_workspace (bh_prepared h)))) ServiceAdapter)) (\<lambda>cwd.
       bnd (session_context env (bh_assignment h) (bh_employee h) (bh_prepared h) (bh_decision h) (bh_adapter h)
              (hq_model (bh_request h))) (\<lambda>(existing, compatibility).
       let resolution = resolve_session (sv_sha env) existing compatibility in
       bnd (lift (rcatch (make_RuntimeRequest
              \<lparr>rq_prompt = prompt_for (bh_task h) (bh_prepared h), rq_cwd = cwd,
               rq_filesystem_policy = de_filesystem_policy (bh_employee h), rq_model = hq_model (bh_request h),
               rq_provider_session_id = (if srs_compatible resolution then Option.bind existing es_provider_session_id else None)\<rparr>)
              ServiceAdapter)) (\<lambda>request.
       bnd (lift (rcatch (build_command (sv_resolver env) (bh_adapter h) request) ServiceAdapter)) (\<lambda>plan.
       launch env (approved_heartbeat.extend h (planned_heartbeat.fields existing compatibility plan)))))))"

definition payload_sha256 :: "service_env \<Rightarrow> bound_heartbeat \<Rightarrow> adapter \<Rightarrow> string" where
  "payload_sha256 env h adapter =
     (let a = bh_assignment h; p = bh_prepared h in
      sha256_hex (sv_sha env) (json_bytes (JObj
        [(''adapter_sha256'', JStr (adapter_sha256 env adapter)),
         (''assignment_id'', JStr (ta_assignment_id a)),
         (''employee_configuration_revision'', JStr (de_configuration_revision (bh_employee h))),
         (''graph_scope_id'', JStr (gs_graph_scope_id (wp_graph_scope p))),
         (''model'', jopt JStr (hq_model (bh_request h))),
         (''prompt_sha256'', JStr (sha256_hex (sv_sha env) (utf8 (prompt_for (bh_task h) p)))),
         (''run_id'', JStr (bh_run_id h)),
         (''task_generation_id'', JStr (ta_task_generation_id a)),
         (''task_revision'', JInt (ta_task_revision a)),
         (''workspace_id'', JStr (tw_workspace_id (wp_workspace p))),
         (''workspace_manifest_sha256'', JStr (tw_manifest_sha256 (wp_workspace p)))])))"

definition runtime_policy_request ::
    "service_env \<Rightarrow> bound_heartbeat \<Rightarrow> adapter \<Rightarrow> budget_policy option \<Rightarrow> budget_usage option \<Rightarrow> execution_approval option \<Rightarrow>
     policy_request" where
  "runtime_policy_request env h adapter budget usage approval =
     \<lparr>pq_target_id = bh_run_id h, pq_payload_sha256 = payload_sha256 env h adapter,
      pq_adapter_id = ta_runtime_adapter_id (bh_assignment h),
      pq_filesystem_policy = de_filesystem_policy (bh_employee h), pq_sensitivity = at_sensitivity (bh_task h),
      pq_graph_current = True, pq_graph_required = ff_code_graph_enabled (xc_features (sv_config env)),
      pq_employee_id = Some (de_employee_id (bh_employee h)), pq_task_id = Some (at_task_id (bh_task h)),
      pq_run_id = Some (bh_run_id h), pq_workspace_id = Some (tw_workspace_id (wp_workspace (bh_prepared h))),
      pq_budget_policy = budget, pq_budget_usage = usage, pq_approval = map_option RuntimeApproval approval,
      pq_scheduled_wake = False\<rparr>"

definition authorize_run :: "service_env \<Rightarrow> bound_heartbeat \<Rightarrow> heartbeat_reply saga" where
  "authorize_run env h =
     (case sv_adapters env (ta_runtime_adapter_id (bh_assignment h)) of
        None \<Rightarrow> bh_blocked env h ''runtime_adapter_unavailable'' None False None False
      | Some adapter \<Rightarrow>
     bnd (budget_for env (bh_assignment h)) (\<lambda>(budget, usage).
     bnd (case hq_approval_id (bh_request h) of
            None \<Rightarrow> give None
          | Some i \<Rightarrow> get env ''approval'' as_approval i) (\<lambda>approval.
     if hq_approval_id (bh_request h) \<noteq> None \<and> approval = None then
       bh_blocked env h ''approval_missing'' None False None False
     else
       bnd (lift (rcatch (evaluate_execution_policy (sv_sha env) (sv_strip env)
              (runtime_policy_request env h adapter budget usage approval) (xc_features (sv_config env)) (bh_started_at h))
              ServicePolicy)) (\<lambda>decision.
       bnd (put env (XPolicyDecision decision) None) (\<lambda>_.
       if pd_outcome decision \<noteq> ALLOW then
         (let required = pd_outcome decision = REQUIRE_APPROVAL in
          bh_blocked env h (if required then ''approval_required'' else ''policy_denied'') (Some decision) required None (\<not> required))
       else plan_run env (bound_heartbeat.extend h (approved_heartbeat.fields adapter budget usage approval decision)))))))"

text \<open>The \<open>try\<close> block that binds the assignment to the task, the employee and the workspace.\<close>

definition bind_run ::
    "service_env \<Rightarrow> heartbeat_request \<Rightarrow> string \<Rightarrow> task_assignment \<Rightarrow> datetime \<Rightarrow>
     (task_board_snapshot \<times> agent_task \<times> digital_employee \<times> task_assignment \<times> workspace_preparation) saga" where
  "bind_run env q run_id assignment started =
     bnd (current_task env (ta_task_id assignment)) (\<lambda>(board, task).
     bnd (check (assignment_bound assignment board task) ExecutionAssignmentError) (\<lambda>_.
     bnd (check (at_status task \<in> {READY, BLOCKED}) ExecutionServiceError) (\<lambda>_.
     bnd (employee_named env (ta_employee_id assignment)) (\<lambda>employee.
     bnd (prepare_workspace env (ta_assignment_id assignment) run_id (hq_fixture_mode q) (hq_fixture_git_commit q)
            (Some started)) (\<lambda>(bound, prepared).
     give (board, task, employee, bound, prepared))))))"

definition gated_heartbeat :: "service_env \<Rightarrow> heartbeat_request \<Rightarrow> string \<Rightarrow> heartbeat_reply saga" where
  "gated_heartbeat env q key =
     (let run_id = run_id_for env key q; op = operation_for env key; flags = xc_features (sv_config env) in
      bnd (timestamp env (hq_now q) None) (\<lambda>started.
      bnd (active_assignment env (hq_assignment_id q)) (\<lambda>assignment.
      let blocked = (\<lambda>code detail transition.
            answer (blocked_preflight env op run_id assignment code started None False detail transition)) in
      if \<not> ff_heartbeats_enabled flags then blocked ''heartbeats_disabled'' None False
      else if \<not> ff_runtime_execution_enabled flags then blocked ''runtime_execution_disabled'' None False
      else attempt (emergency_gate env)
        (\<lambda>e. if e = ServiceEmergency EmergencyError then blocked ''emergency_runtime_disabled'' None False else fail e) (\<lambda>_.
      attempt (bind_run env q run_id assignment started)
        (\<lambda>e. if preflight_error e then blocked ''workspace_preflight_failed'' (Some (error_name e)) True else fail e)
        (\<lambda>(board, task, employee, bound, prepared).
      authorize_run env \<lparr>bh_request = q, bh_key = key, bh_run_id = run_id, bh_operation = op, bh_started_at = started,
        bh_assignment = bound, bh_board = board, bh_task = task, bh_employee = employee, bh_prepared = prepared\<rparr>)))))"

text \<open>\<open>manual_heartbeat\<close>: a key that was used before is answered from the receipt or the run it led to.\<close>

definition replay_run :: "service_env \<Rightarrow> heartbeat_request \<Rightarrow> string \<Rightarrow> execution_run \<Rightarrow> heartbeat_result saga" where
  "replay_run env q key run =
     bnd (result_for_run env run True) (\<lambda>r.
     bnd (if terminal_run (er_status run) then finalize_receipt env (operation_for env key) key (heartbeat_dict q) r
          else give ()) (\<lambda>_. give r))"

definition heartbeat :: "service_env \<Rightarrow> heartbeat_request \<Rightarrow> heartbeat_reply saga" where
  "heartbeat env q =
     bnd (idempotency_key env ''heartbeat'' (hq_idempotency_key q)) (\<lambda>key.
     bnd (ask_store (stored_receipt (sv_store env) ''heartbeat'' key (heartbeat_dict q))) (\<lambda>receipt.
     case receipt of Some d \<Rightarrow> answer (heartbeat_from_receipt env d True) | None \<Rightarrow>
     bnd (timestamp env (hq_now q) None) (\<lambda>now.
     bnd (on_control (\<lambda>db. claim_operation db (operation_for env key) (run_id_for env key q) ''heartbeat''
            (''assignment:'' @ hq_assignment_id q) (milliseconds now))) (\<lambda>claimed.
     bnd (check (oc_run_id claimed = run_id_for env key q) (ServiceStore ExecutionStoreConflict)) (\<lambda>_.
     bnd (get env ''run'' as_run (run_id_for env key q)) (\<lambda>existing.
     case existing of
       Some run \<Rightarrow> answer (replay_run env q key run)
     | None \<Rightarrow> gated_heartbeat env q key))))))"

section \<open>While the runtime works\<close>

definition renew_tick_body :: "service_env \<Rightarrow> string \<Rightarrow> active_run \<Rightarrow> unit saga" where
  "renew_tick_body env run_id a =
     (let ck = ar_checkout a;
          keep = (\<lambda>c. set_active run_id (Some (a\<lparr>ar_checkout := c\<rparr>))) in
      bnd (emergency_gate env) (\<lambda>_.
      bnd (timestamp env None (Some (er_started_at (ar_run a)))) (\<lambda>now.
      bnd (on_leases (renew_task (ttl_of env) (ck_task_lease ck) now)) (\<lambda>lease.
      bnd (keep (ck\<lparr>ck_task_lease := lease\<rparr>)) (\<lambda>_.
      bnd (put_next env (XLease lease) (tl_lease_id lease)) (\<lambda>_.
      bnd (on_control (\<lambda>db. renew_lease db (ck_global_slot ck) (ttl_of env) (milliseconds now))) (\<lambda>overall.
      bnd (keep (ck\<lparr>ck_task_lease := lease, ck_global_slot := overall\<rparr>)) (\<lambda>_.
      bnd (on_control (\<lambda>db. renew_lease db (ck_employee_slot ck) (ttl_of env) (milliseconds now))) (\<lambda>own.
      keep (ck\<lparr>ck_task_lease := lease, ck_global_slot := overall, ck_employee_slot := own\<rparr>))))))))))"

definition update_active :: "string \<Rightarrow> (active_run \<Rightarrow> active_run) \<Rightarrow> unit saga" where
  "update_active run_id f = (\<lambda>w. (Inr (), w\<lparr>w_active := (w_active w)(run_id := map_option f (w_active w run_id))\<rparr>))"

text \<open>The renewal task ends with its first error, so a run that has one is not renewed again.\<close>

definition renew_tick :: "service_env \<Rightarrow> string \<Rightarrow> unit saga" where
  "renew_tick env run_id =
     bnd (read_world (\<lambda>w. w_active w run_id)) (\<lambda>found.
     case found of
       None \<Rightarrow> give ()
     | Some a \<Rightarrow>
         if ar_renewal_error a \<noteq> None then give ()
         else attempt (renew_tick_body env run_id a)
           (\<lambda>e. update_active run_id (\<lambda>a. a\<lparr>ar_renewal_error := Some e, ar_cancelled := True,
              ar_intent := (if e = ServiceEmergency EmergencyError then Some ''emergency'' else ar_intent a)\<rparr>))
           give)"

definition returned_outcome :: "active_run \<Rightarrow> (service_error, process_outcome) result \<Rightarrow> process_outcome saga" where
  "returned_outcome a returned =
     bnd (lift returned) (\<lambda>outcome.
     case ar_renewal_error a of
       None \<Rightarrow> give outcome
     | Some e \<Rightarrow> if e = ServiceEmergency EmergencyError then give outcome else fail ExecutionServiceError)"

definition collect :: "service_env \<Rightarrow> string \<Rightarrow> (service_error, process_outcome) result \<Rightarrow> heartbeat_result saga" where
  "collect env run_id returned =
     bnd (read_world (\<lambda>w. w_active w run_id)) (\<lambda>found.
     case found of
       None \<Rightarrow> fail ExecutionServiceError
     | Some a \<Rightarrow>
         closing env run_id (ar_checkout a)
           (attempt (bnd (returned_outcome a returned) (\<lambda>outcome.
                     bnd (timestamp env None (Some (er_started_at (ar_run a)))) (\<lambda>ended.
                     finish_run env a outcome ended)))
             (run_failed env (ar_run a) (ar_assignment a)) give))"

text \<open>The process is shut down while it waits (\<open>asyncio.CancelledError\<close>).\<close>

definition collect_cancelled :: "service_env \<Rightarrow> string \<Rightarrow> heartbeat_result saga" where
  "collect_cancelled env run_id =
     bnd (read_world (\<lambda>w. w_active w run_id)) (\<lambda>found.
     case found of
       None \<Rightarrow> fail ExecutionServiceError
     | Some a \<Rightarrow>
         closing env run_id (ar_checkout a)
           (bnd (terminalize_exception env (ar_run a) (ar_assignment a) ''service_cancelled'') (\<lambda>_.
            fail (OutsideFailure ''CancelledError''))))"

definition cancellable_run :: "service_env \<Rightarrow> string \<Rightarrow> execution_run saga" where
  "cancellable_run env run_id =
     bnd (get env ''run'' as_run run_id) (\<lambda>found.
     case found of
       None \<Rightarrow> fail ExecutionServiceError
     | Some run \<Rightarrow> if er_status run \<notin> {RUN_RUNNING, RUN_CANCELLING} then fail ExecutionServiceError else give run)"

definition stop_run :: "service_env \<Rightarrow> string \<Rightarrow> string \<Rightarrow> execution_run saga" where
  "stop_run env intent run_id =
     bnd (cancellable_run env run_id) (\<lambda>run.
     bnd (read_world (\<lambda>w. w_active w run_id)) (\<lambda>found.
     bnd (check (found \<noteq> None) ExecutionServiceError) (\<lambda>_.
     bnd (update_active run_id (\<lambda>a. a\<lparr>ar_intent := Some intent, ar_cancelled := True\<rparr>)) (\<lambda>_.
     bnd (make_ExecutionRun env (run\<lparr>er_status := RUN_CANCELLING\<rparr>)) (\<lambda>cancelling.
     bnd (put_next env (XRun cancelling) run_id) (\<lambda>_. give cancelling))))))"

definition pause_run :: "service_env \<Rightarrow> string \<Rightarrow> execution_run saga" where
  "pause_run env run_id = stop_run env ''pause'' run_id"

definition cancel_run :: "service_env \<Rightarrow> string \<Rightarrow> execution_run saga" where
  "cancel_run env run_id = stop_run env ''cancel'' run_id"

definition resume_run ::
    "service_env \<Rightarrow> string \<Rightarrow> string \<Rightarrow> string option \<Rightarrow> string option \<Rightarrow> bool \<Rightarrow> string option \<Rightarrow> heartbeat_reply saga" where
  "resume_run env run_id key approval_id model fixture_mode fixture_git_commit =
     bnd (get env ''run'' as_run run_id) (\<lambda>found.
     case found of
       None \<Rightarrow> fail ExecutionServiceError
     | Some previous \<Rightarrow>
         bnd (check (er_error_code previous = Some ''paused_by_user'') ExecutionServiceError) (\<lambda>_.
         bnd (list_of env ''assignment'' as_assignment (task_filter (er_task_id previous)) 2) (\<lambda>assignments.
         case assignments of
           [a] \<Rightarrow> heartbeat env \<lparr>hq_assignment_id = ta_assignment_id a, hq_idempotency_key = key,
                   hq_approval_id = approval_id, hq_model = model, hq_fixture_mode = fixture_mode,
                   hq_fixture_git_commit = fixture_git_commit, hq_now = None, hq_resumed_from_run_id = Some run_id\<rparr>
         | _ \<Rightarrow> fail ExecutionServiceError)))"

section \<open>Recovery\<close>

definition recover_run :: "service_env \<Rightarrow> datetime \<Rightarrow> execution_run \<Rightarrow> execution_run list saga" where
  "recover_run env observed run =
     bnd (get env ''lease'' as_lease (er_task_lease_id run)) (\<lambda>lease.
     bnd (current_task env (er_task_id run)) (\<lambda>(board, task).
     bnd (read_world (\<lambda>w. case lease of None \<Rightarrow> False
            | Some l \<Rightarrow> verify_task_revision l (at_revision task) observed (w_control w))) (\<lambda>valid.
     if valid then give []
     else
       bnd (update_active (er_run_id run) (\<lambda>a. a\<lparr>ar_intent := Some ''cancel'', ar_cancelled := True\<rparr>)) (\<lambda>_.
       bnd (make_ExecutionRun env (run\<lparr>er_status := RUN_FAILED, er_ended_at := Some (max observed (er_started_at run)),
              er_error_code := Some ''stale_lease_recovered'',
              er_summary := ''Recovered after the execution lease became stale.''\<rparr>)) (\<lambda>failed.
       bnd (put_next env (XRun failed) (er_run_id run)) (\<lambda>_.
       bnd (case lease of
              Some l \<Rightarrow> if tl_status l = LEASE_ACTIVE
                then bnd (lift (rcatch (make_TaskLease (sv_strip env) (l\<lparr>tl_status := LEASE_EXPIRED\<rparr>)) ServiceLease)) (\<lambda>stale.
                     put_next env (XLease stale) (tl_lease_id l))
                else give ()
            | None \<Rightarrow> give ()) (\<lambda>_.
       bnd (if at_status task = RUNNING
            then bnd (transition_blocked env task board (er_run_id run) ''stale_execution_lease'' None) (\<lambda>_. give ())
            else give ()) (\<lambda>_.
       give [failed]))))))))"

fun recover_all :: "service_env \<Rightarrow> datetime \<Rightarrow> execution_run list \<Rightarrow> execution_run list saga" where
  "recover_all env observed [] = give []"
| "recover_all env observed (run # rest) =
     bnd (recover_run env observed run) (\<lambda>xs. bnd (recover_all env observed rest) (\<lambda>ys. give (xs @ ys)))"

fun recover_states :: "service_env \<Rightarrow> datetime \<Rightarrow> ExecutionRunStatus list \<Rightarrow> execution_run list saga" where
  "recover_states env observed [] = give []"
| "recover_states env observed (s # rest) =
     bnd (list_of env ''run'' as_run
            \<lparr>rf_state = Some (ExecutionRunStatus_value s), rf_associations = associated None None None None None\<rparr> 500) (\<lambda>runs.
     bnd (recover_all env observed runs) (\<lambda>xs.
     bnd (recover_states env observed rest) (\<lambda>ys. give (xs @ ys))))"

definition recover_stale_runs :: "service_env \<Rightarrow> datetime option \<Rightarrow> execution_run list saga" where
  "recover_stale_runs env now =
     bnd (timestamp env now None) (\<lambda>observed.
     recover_states env observed [RUN_QUEUED, RUN_PREPARING, RUN_RUNNING, RUN_CANCELLING])"

end
