(* ===== verification/Execution_Frames.thy ===== *)
theory Execution_Frames
  imports Execution_Heartbeat
begin

text \<open>
  Programs of the execution service that are \<open>gentle\<close>: they may write records and files, but leases, active
  runs and the platform store stay as they are and no stored record disappears. The rules in
  \<open>gentleI\<close> prove it for every helper of the service by following the shape of its definition.
\<close>

section \<open>Frames\<close>

definition stored :: "execution_db \<Rightarrow> string \<Rightarrow> string \<Rightarrow> bool" where
  "stored db kind i \<longleftrightarrow> (\<exists>h. find_xhead db kind i = Some h \<and> find_xrow db kind i (hr_revision h) \<noteq> None)"

text \<open>Nothing but tables and files that a run does not hold: leases and active runs stay, stored runs stay stored.\<close>

definition checkouts :: "world \<Rightarrow> string \<Rightarrow> run_checkout option" where
  "checkouts w run = map_option ar_checkout (w_active w run)"

definition beside :: "world \<Rightarrow> world \<Rightarrow> bool" where
  "beside w w' \<longleftrightarrow> checkouts w' = checkouts w \<and> w_platform w' = w_platform w \<and>
     (\<forall>kind i. stored (w_store w) kind i \<longrightarrow> stored (w_store w') kind i)"

text \<open>A run whose result must not be delivered: it was paused, cancelled or stopped by the emergency, or its
  renewal failed. An active run that was stopped stays so.\<close>

definition run_stopped :: "active_run \<Rightarrow> bool" where
  "run_stopped a \<longleftrightarrow> ar_intent a \<in> {Some ''pause'', Some ''cancel'', Some ''emergency''} \<or>
     (case ar_renewal_error a of None \<Rightarrow> False | Some e \<Rightarrow> e \<noteq> ServiceEmergency EmergencyError)"

definition halted :: "string \<Rightarrow> world \<Rightarrow> bool" where
  "halted run w \<longleftrightarrow> (\<forall>a. w_active w run = Some a \<longrightarrow> run_stopped a)"

definition mild :: "world \<Rightarrow> world \<Rightarrow> bool" where
  "mild w w' \<longleftrightarrow> beside w w' \<and>
     db_leases (w_control w') = db_leases (w_control w) \<and> db_epoch (w_control w') = db_epoch (w_control w) \<and>
     (\<forall>run. halted run w \<longrightarrow> halted run w')"

definition gentle :: "'a saga \<Rightarrow> bool" where
  "gentle m \<longleftrightarrow> (\<forall>w. mild w (snd (m w)))"

named_theorems gentleI \<open>programs that leave leases and active runs alone\<close>

lemma beside_refl [simp, intro]: "beside w w" by (simp add: beside_def)
lemma beside_trans: "beside a b \<Longrightarrow> beside b c \<Longrightarrow> beside a c" by (simp add: beside_def)
lemma mild_refl [simp, intro]: "mild w w" by (simp add: mild_def)
lemma mild_trans: "mild a b \<Longrightarrow> mild b c \<Longrightarrow> mild a c" by (auto simp: mild_def intro: beside_trans)
lemmas mild_simps = mild_def beside_def checkouts_def halted_def fun_eq_iff

lemma gentleD: "gentle m \<Longrightarrow> m w = (r, w') \<Longrightarrow> mild w w'"
  by (metis gentle_def snd_conv)

lemma gentle_give [gentleI]: "gentle (give x)" by (simp add: gentle_def give_def)
lemma gentle_fail [gentleI]: "gentle (fail e)" by (simp add: gentle_def fail_def)
lemma gentle_lift [gentleI]: "gentle (lift r)" by (simp add: gentle_def lift_def)
lemma gentle_check [gentleI]: "gentle (check b e)" by (simp add: check_def gentle_give gentle_fail)
lemma gentle_validated [gentleI]: "gentle (validated ok x)" by (simp add: validated_def gentle_give gentle_fail)
lemma gentle_read [gentleI]: "gentle (read_world g)" by (simp add: gentle_def read_world_def)
lemma gentle_ask_store [gentleI]: "gentle (ask_store q)" by (simp add: gentle_def ask_store_def)
lemma gentle_gate [gentleI]: "gentle (emergency_gate env)" by (simp add: gentle_def emergency_gate_def)
lemma gentle_asking [gentleI]: "gentle (asking f)" by (simp add: gentle_def asking_def mild_simps)
lemma gentle_on_files [gentleI]: "gentle (on_files f)"
  by (simp add: gentle_def on_files_def mild_simps split: prod.split)

lemma gentle_attempt [gentleI]:
  assumes "gentle m" "\<And>e. gentle (h e)" "\<And>x. gentle (k x)"
  shows "gentle (attempt m h k)"
  unfolding gentle_def
proof
  fix w
  obtain r w' where m: "m w = (r, w')" by fastforce
  have 1: "mild w w'" using gentleD [OF assms(1) m] .
  have "mild w' (snd (case r of Inl e \<Rightarrow> h e w' | Inr x \<Rightarrow> k x w'))"
    using assms(2,3) by (simp add: gentle_def split: sum.split)
  with 1 have "mild w (snd (case r of Inl e \<Rightarrow> h e w' | Inr x \<Rightarrow> k x w'))" by (rule mild_trans)
  then show "mild w (snd (attempt m h k w))" by (simp add: attempt_def m split: sum.splits)
qed

lemma bnd_attempt: "bnd m f = attempt m fail f"
  by (rule ext) (simp add: bnd_def attempt_def fail_def split: prod.splits sum.splits)

lemma gentle_bnd [gentleI]: "gentle m \<Longrightarrow> (\<And>x. gentle (f x)) \<Longrightarrow> gentle (bnd m f)"
  unfolding bnd_attempt by (intro gentle_attempt gentle_fail)

lemma gentle_ensuring [gentleI]:
  assumes "gentle m" "gentle f"
  shows "gentle (ensuring m f)"
  unfolding gentle_def
proof
  fix w
  obtain r w' where m: "m w = (r, w')" by fastforce
  obtain q w'' where f: "f w' = (q, w'')" by fastforce
  have "mild w w''" using gentleD [OF assms(1) m] gentleD [OF assms(2) f] by (rule mild_trans)
  then show "mild w (snd (ensuring m f w))" by (simp add: ensuring_def m f split: sum.splits)
qed

lemma gentle_if [gentleI]: "gentle m \<Longrightarrow> gentle n \<Longrightarrow> gentle (if b then m else n)" by simp
lemma gentle_option [gentleI]: "gentle m \<Longrightarrow> (\<And>y. gentle (f y)) \<Longrightarrow> gentle (case x of None \<Rightarrow> m | Some y \<Rightarrow> f y)"
  by (cases x) simp_all
lemma gentle_prod [gentleI]: "(\<And>a b. gentle (f a b)) \<Longrightarrow> gentle (case p of (a, b) \<Rightarrow> f a b)" by (cases p) simp
lemma gentle_list [gentleI]: "gentle m \<Longrightarrow> (\<And>a l. gentle (f a l)) \<Longrightarrow> gentle (case xs of [] \<Rightarrow> m | a # l \<Rightarrow> f a l)"
  by (cases xs) simp_all
lemma gentle_jval [gentleI]:
  "gentle a \<Longrightarrow> (\<And>x. gentle (b x)) \<Longrightarrow> (\<And>x. gentle (c x)) \<Longrightarrow> (\<And>x. gentle (d x)) \<Longrightarrow> (\<And>x. gentle (e x)) \<Longrightarrow>
   (\<And>x. gentle (f x)) \<Longrightarrow>
   gentle (case v of JNull \<Rightarrow> a | JBool x \<Rightarrow> b x | JInt x \<Rightarrow> c x | JStr x \<Rightarrow> d x | JList x \<Rightarrow> e x | JObj x \<Rightarrow> f x)"
  by (cases v) simp_all
lemma gentle_let [gentleI]: "(\<And>y. gentle (f y)) \<Longrightarrow> gentle (let y = v in f y)" by simp

lemma stored_insert:
  assumes "insert_record env now r n db = Inr (x, db')" "stored db kind i"
  shows "stored db' kind i"
proof -
  from assms(1) have heads: "xd_heads db' = upsert_head \<lparr>hr_kind = record_kind r, hr_record_id = record_key r, hr_revision = n,
      hr_payload_sha256 = sha256_hex (xe_sha env) (json_bytes (record_json r))\<rparr> (xd_heads db)"
    and rows: "\<exists>row. xd_records db' = xd_records db @ [row] \<and> xw_kind row = record_kind r \<and> xw_record_id row = record_key r \<and> xw_revision row = n"
    by (auto simp: insert_record_def Let_def split: if_splits)
  from assms(2) obtain h where h: "find_xhead db kind i = Some h" "find_xrow db kind i (hr_revision h) \<noteq> None"
    by (auto simp: stored_def)
  obtain row where row: "xd_records db' = xd_records db @ [row]" "xw_kind row = record_kind r" "xw_record_id row = record_key r" "xw_revision row = n"
    using rows by blast
  show ?thesis
  proof (cases "(kind, i) = (record_kind r, record_key r)")
    case True
    then show ?thesis
      using row unfolding stored_def find_xhead_def find_xrow_def heads find_upsert_head
      by (auto simp: find_append split: option.splits)
  next
    case False
    then show ?thesis
      using row h unfolding stored_def find_xhead_def find_xrow_def heads find_upsert_head
      by (auto simp: find_append split: option.splits)
  qed
qed

lemma stored_put: "put_record env now r e db = Inr (x, db') \<Longrightarrow> stored db kind i \<Longrightarrow> stored db' kind i"
  by (auto simp: put_record_def result_simps Let_def split: if_splits intro: stored_insert)

lemma stored_same_records:
  "xd_records db' = xd_records db \<Longrightarrow> xd_heads db' = xd_heads db \<Longrightarrow> stored db' kind i = stored db kind i"
  by (simp add: stored_def find_xhead_def find_xrow_def)


lemma gentle_on_store:
  assumes "\<And>db x db' kind i. t db = Inr (x, db') \<Longrightarrow> stored db kind i \<Longrightarrow> stored db' kind i"
  shows "gentle (on_store t)"
  unfolding gentle_def
proof
  fix w
  show "mild w (snd (on_store t w))"
  proof (cases "t (w_store w)")
    case (Inr p)
    obtain x db where "p = (x, db)" by fastforce
    with Inr show ?thesis using assms [of "w_store w" x db] by (simp add: on_store_def mild_simps)
  qed (simp add: on_store_def)
qed

lemma gentle_update_active [gentleI]:
  assumes "\<And>a. ar_checkout (f a) = ar_checkout a" "\<And>a. run_stopped a \<Longrightarrow> run_stopped (f a)"
  shows "gentle (update_active run f)"
  using assms by (auto simp: gentle_def update_active_def mild_simps option.map_comp comp_def)

lemma gentle_timestamp [gentleI]: "gentle (timestamp env v f)"
  unfolding timestamp_def by (intro gentleI)

lemma gentle_put_record [gentleI]: "gentle (on_store (put_record env now r e))"
  by (rule gentle_on_store) (erule (1) stored_put)

lemma gentle_put [gentleI]: "gentle (put env r e)"
  unfolding put_def by (intro gentleI)

lemma gentle_put_next [gentleI]: "gentle (put_next env r i)"
  unfolding put_next_def head_of_def by (intro gentleI)

lemma gentle_get [gentleI]: "gentle (get env kind select i)"
  unfolding get_def by (intro gentleI)

lemma gentle_list_of [gentleI]: "gentle (list_of env kind select q n)"
  unfolding list_of_def by (intro gentleI)

lemma gentle_receipt [gentleI]: "gentle (on_store (store_receipt env now scope key request receipt))"
  by (rule gentle_on_store, subst stored_same_records)
    (auto simp: store_receipt_def result_simps Let_def split: option.splits if_splits)

lemma gentle_transcript [gentleI]: "gentle (on_store (append_transcript env event))"
  by (rule gentle_on_store, subst stored_same_records)
    (auto simp: append_transcript_def result_simps split: option.splits if_splits)

lemma gentle_claim [gentleI]: "gentle (on_control (\<lambda>db. claim_operation db op run stage p n))"
  by (auto simp: gentle_def on_control_def mild_simps claim_operation_def result_simps Let_def split: sum.split option.splits)

lemma gentle_update_operation [gentleI]: "gentle (on_control (\<lambda>db. update_operation db op s n r c))"
  by (auto simp: gentle_def on_control_def mild_simps update_operation_def result_simps Let_def split: sum.split option.splits)

lemma gentle_make [gentleI]:
  "gentle (make_TaskAssignment env a)" "gentle (make_ExecutionRun env r)" "gentle (make_Session env s)" "gentle (make_BudgetUsage env u)"
  unfolding make_TaskAssignment_def make_ExecutionRun_def make_Session_def make_BudgetUsage_def by (intro gentleI)+

lemma gentle_lookups [gentleI]:
  "gentle (current_task env t)" "gentle (employee_named env e)" "gentle (active_assignment env i)" "gentle (required_generation board)"
  "gentle (idempotency_key env scope value)"
  unfolding current_task_def employee_named_def active_assignment_def required_generation_def idempotency_key_def
  by (intro gentleI)+

lemma gentle_events [gentleI]: "gentle (append_run_event env run n stream ty body at red)"
  unfolding append_run_event_def Let_def by (intro gentleI)

lemma gentle_chunks [gentleI]: "gentle (append_chunks env run stream red at n cs)"
  by (induction cs arbitrary: n) (auto intro!: gentleI)

lemma gentle_outcome_transcript [gentleI]: "gentle (append_outcome_transcript env run outcome at)"
  unfolding append_outcome_transcript_def append_stream_def Let_def by (intro gentleI)

lemma gentle_comment [gentleI]: "gentle (comment env t r e k b c)"
  unfolding comment_def by (intro gentleI)

lemma gentle_moves [gentleI]:
  "gentle (move_task env t target actor key generation reason at)"
  "gentle (transition_blocked env task' board run why at')"
  "gentle (rebind_assignment env assignment generation task at)"
  unfolding move_task_def transition_blocked_def rebind_assignment_def by (intro gentleI)+

lemma gentle_results [gentleI]: "gentle (result_for_run env run no_op)"
  unfolding result_for_run_def by (intro gentleI)

lemma gentle_from_receipt [gentleI]: "gentle (heartbeat_from_receipt env d no_op)"
  unfolding heartbeat_from_receipt_def by (intro gentleI)

lemma gentle_finalize [gentleI]: "gentle (finalize_receipt env op key request r)"
  unfolding finalize_receipt_def by (intro gentleI)

lemma gentle_blocked [gentleI]: "gentle (blocked_preflight env op run_id assignment code at policy required detail transition)"
  unfolding blocked_preflight_def by (intro gentleI)

end
