(* ===== verification/Execution_Leases.thy ===== *)
theory Execution_Leases
  imports Execution_Frames Ledger_Commands
begin

text \<open>
  The leases of the execution service. \<open>covered L db\<close>: every lease of the database that has an owner is
  owned through one of the tokens \<open>L\<close>. The lemmas follow \<open>L\<close> through the acquisition of the slots and the
  task lease, the compensation of a checkout that fails half way, and the release. \<open>accounted\<close> is the
  invariant of the service: the tokens of the active runs cover the database, each belongs to its run,
  and each active run is stored.
\<close>

section \<open>Leases are accounted for\<close>

definition tokens :: "run_checkout \<Rightarrow> lease_token set" where
  "tokens ck = {lease_token_of (ck_task_lease ck), ck_global_slot ck, ck_employee_slot ck}"

text \<open>Its three leases belong to the run, and one of them is a slot of the global limit.\<close>

definition global_slot :: "nat \<Rightarrow> string" where
  "global_slot i = ''execution:global:'' @ show_nat i"

definition checkout_ok :: "nat \<Rightarrow> string \<Rightarrow> run_checkout \<Rightarrow> bool" where
  "checkout_ok lim run ck \<longleftrightarrow> (\<forall>tok\<in>tokens ck. lt_owner_run_id tok = run) \<and>
     lt_partition_key (ck_global_slot ck) \<in> global_slot ` {..<lim}"

abbreviation run_limit :: "service_env \<Rightarrow> nat" where
  "run_limit env \<equiv> nat (xc_max_concurrent_runs (sv_config env))"

definition held_by :: "(string \<Rightarrow> run_checkout option) \<Rightarrow> lease_token set" where
  "held_by f = (\<Union>run. case f run of None \<Rightarrow> {} | Some ck \<Rightarrow> tokens ck)"

text \<open>Every lease of the database that has an owner belongs to one of the tokens.\<close>

definition covered :: "lease_token set \<Rightarrow> control_db \<Rightarrow> bool" where
  "covered L db \<longleftrightarrow> (\<forall>p r. db_leases db p = Some r \<and> lr_owner_run_id r \<noteq> None \<longrightarrow>
     (\<exists>tok\<in>L. lt_partition_key tok = p \<and> owns r tok))"

definition same_claim :: "lease_token \<Rightarrow> lease_token \<Rightarrow> bool" where
  "same_claim a b \<longleftrightarrow> lt_partition_key a = lt_partition_key b \<and> lt_control_epoch a = lt_control_epoch b \<and>
     lt_owner_run_id a = lt_owner_run_id b \<and> lt_fencing_token a = lt_fencing_token b"

lemma same_claim_refl [simp]: "same_claim a a" by (simp add: same_claim_def)

lemma coveredD: "covered L db \<Longrightarrow> db_leases db p = Some r \<Longrightarrow> lr_owner_run_id r \<noteq> None \<Longrightarrow>
    \<exists>tok\<in>L. lt_partition_key tok = p \<and> owns r tok"
  unfolding covered_def by blast

lemma covered_claims:
  assumes "covered L db" "\<And>a. a \<in> L \<Longrightarrow> \<exists>b\<in>M. same_claim a b"
  shows "covered M db"
  unfolding covered_def
proof (intro allI impI, elim conjE)
  fix p r
  assume "db_leases db p = Some r" "lr_owner_run_id r \<noteq> None"
  then obtain tok where tok: "tok \<in> L" "lt_partition_key tok = p" "owns r tok" using coveredD [OF assms(1)] by blast
  then obtain b where "b \<in> M" "same_claim tok b" using assms(2) by blast
  with tok show "\<exists>tok\<in>M. lt_partition_key tok = p \<and> owns r tok"
    by (intro bexI [of _ b]) (auto simp: same_claim_def owns_def)
qed

lemma covered_mono: "covered L db \<Longrightarrow> L \<subseteq> M \<Longrightarrow> covered M db"
  unfolding covered_def by blast

lemma covered_leases: "db_leases db' = db_leases db \<Longrightarrow> covered L db' = covered L db"
  by (simp add: covered_def)

lemma covered_acquire:
  assumes "acquire_lease db p run ttl n = Inr (tok, db')" "covered L db"
  shows "covered (insert tok L) db'" "lt_owner_run_id tok = run" "lt_partition_key tok = p" "db_epoch db' = db_epoch db"
    "db_epoch db = Some (lt_control_epoch tok)"
proof -
  from assms(1) obtain row where row: "db_leases db' = (db_leases db)(p \<mapsto> row)" "owns row tok" "lt_partition_key tok = p"
      "lt_owner_run_id tok = run" "db_epoch db' = db_epoch db" "db_epoch db = Some (lt_control_epoch tok)"
    by (auto simp: acquire_lease_def result_simps Let_def token_of_def owns_def control_epoch_def)
  then show "lt_owner_run_id tok = run" "lt_partition_key tok = p" "db_epoch db' = db_epoch db" "db_epoch db = Some (lt_control_epoch tok)"
    by simp_all
  show "covered (insert tok L) db'"
    unfolding covered_def
  proof (intro allI impI, elim conjE)
    fix q r
    assume "db_leases db' q = Some r" "lr_owner_run_id r \<noteq> None"
    then show "\<exists>tok\<in>insert tok L. lt_partition_key tok = q \<and> owns r tok"
      using row coveredD [OF assms(2), of q r] by (cases "q = p") auto
  qed
qed

lemma covered_release:
  assumes "covered (insert tok L) db" "release_lease db tok = (b, db')"
  shows "covered L db'" "db_epoch db' = db_epoch db"
proof -
  show "db_epoch db' = db_epoch db" using assms(2) by (auto simp: release_lease_def split: option.splits if_splits)
  show "covered L db'"
    unfolding covered_def
  proof (intro allI impI, elim conjE)
    fix q r
    assume q: "db_leases db' q = Some r" "lr_owner_run_id r \<noteq> None"
    have "db_leases db q = Some r \<and> \<not> (q = lt_partition_key tok \<and> owns r tok)"
      using q assms(2) by (auto simp: release_lease_def split: option.splits if_splits)
    then show "\<exists>tok\<in>L. lt_partition_key tok = q \<and> owns r tok"
      using coveredD [OF assms(1), of q r] q by auto
  qed
qed

lemma covered_rows:
  assumes "\<And>p. map_option (\<lambda>r. (lr_owner_run_id r, lr_control_epoch r, lr_fencing_token r)) (db_leases db' p) =
      map_option (\<lambda>r. (lr_owner_run_id r, lr_control_epoch r, lr_fencing_token r)) (db_leases db p)" "covered L db"
  shows "covered L db'"
  unfolding covered_def
proof (intro allI impI, elim conjE)
  fix p r
  assume r: "db_leases db' p = Some r" "lr_owner_run_id r \<noteq> None"
  then obtain r' where "db_leases db p = Some r'" "lr_owner_run_id r' = lr_owner_run_id r"
      "lr_control_epoch r' = lr_control_epoch r" "lr_fencing_token r' = lr_fencing_token r"
    using assms(1) [of p] by (auto simp: map_option_case split: option.splits)
  with r(2) show "\<exists>tok\<in>L. lt_partition_key tok = p \<and> owns r tok"
    using coveredD [OF assms(2), of p r'] by (auto simp: owns_def)
qed

lemma covered_extend: "covered L (extend_row db tok e n) = covered L db" "db_epoch (extend_row db tok e n) = db_epoch db"
proof -
  have "map_option (\<lambda>r. (lr_owner_run_id r, lr_control_epoch r, lr_fencing_token r)) (db_leases (extend_row db tok e n) p) =
      map_option (\<lambda>r. (lr_owner_run_id r, lr_control_epoch r, lr_fencing_token r)) (db_leases db p)" for p
    by (simp add: extend_row_def split: option.split)
  note same = this
  show "covered L (extend_row db tok e n) = covered L db"
  proof
    show "covered L (extend_row db tok e n) \<Longrightarrow> covered L db" by (rule covered_rows [OF same [symmetric]])
    show "covered L db \<Longrightarrow> covered L (extend_row db tok e n)" by (rule covered_rows [OF same])
  qed
qed (simp add: extend_row_def split: option.split)

lemma covered_renew:
  assumes "renew_lease db tok ttl n = Inr (tok', db')"
  shows "covered L db' = covered L db" "db_epoch db' = db_epoch db" "same_claim tok tok'"
  using assms by (auto simp: renew_lease_def result_simps Let_def covered_extend same_claim_def)

text \<open>What the control database has to offer for a checkout to be well-formed.\<close>

definition control_ok :: "control_db \<Rightarrow> bool" where
  "control_ok db \<longleftrightarrow> (\<exists>x. db_epoch db = Some x \<and> is_Identifier x) \<and> (\<forall>p r. db_leases db p = Some r \<longrightarrow> 0 < lr_fencing_token r)"

lemma control_ok_leases: "db_leases db' = db_leases db \<Longrightarrow> db_epoch db' = db_epoch db \<Longrightarrow> control_ok db' = control_ok db"
  by (simp add: control_ok_def)

lemma control_ok_acquire:
  assumes "acquire_lease db p run ttl n = Inr (tok, db')" "control_ok db"
  shows "control_ok db'" "0 < lt_fencing_token tok" "is_Identifier (lt_control_epoch tok)" "lt_expires_at_ms tok = n + ttl"
    "lt_partition_key tok = p" "lt_owner_run_id tok = run"
proof -
  from assms(1) obtain fence x where f: "next_fence (db_leases db p) run n = Inr fence" "db_epoch db = Some x"
      "db_leases db' = (db_leases db)(p \<mapsto> \<lparr>lr_control_epoch = x, lr_owner_run_id = Some run, lr_fencing_token = fence,
         lr_expires_at_ms = n + ttl, lr_renewed_at_ms = n\<rparr>)" "tok = token_of p x run fence (n + ttl)" "db_epoch db' = db_epoch db"
    by (auto simp: acquire_lease_def result_simps Let_def control_epoch_def)
  moreover have "0 < fence"
    using f(1) assms(2) by (auto simp: next_fence_def control_ok_def split: option.splits if_splits) fastforce+
  ultimately show "control_ok db'" "0 < lt_fencing_token tok" "is_Identifier (lt_control_epoch tok)" "lt_expires_at_ms tok = n + ttl"
      "lt_partition_key tok = p" "lt_owner_run_id tok = run"
    using assms(2) by (auto simp: control_ok_def token_of_def)
qed

lemma control_ok_release: "release_lease db tok = (b, db') \<Longrightarrow> control_ok db \<Longrightarrow> control_ok db'"
  by (auto simp: release_lease_def control_ok_def split: option.splits if_splits)

lemma control_ok_renew: "renew_lease db tok ttl n = Inr (tok', db') \<Longrightarrow> control_ok db \<Longrightarrow> control_ok db'"
  by (auto simp: renew_lease_def result_simps Let_def extend_row_def control_ok_def split: option.splits if_splits)

section \<open>Checking out\<close>

lemma derived_identifier:
  assumes "is_Sha256 s" "k \<in> {''tlease'', ''xrun''}"
  shows "is_Identifier (k @ ''_'' @ s)"
proof -
  have "list_all (\<lambda>x. lower_letter x \<or> decimal_digit x \<or> x \<in> set ''_:.@/-'') s"
    using sha_char(1) [OF assms(1)] by (auto simp: list_all_iff)
  moreover have "length s = 64" using assms(1) by (simp add: is_Sha256_def)
  ultimately show ?thesis using assms(2) by (auto simp: is_Identifier_def lower_letter_def)
qed

definition service_ok :: "service_env \<Rightarrow> bool" where
  "service_ok env \<longleftrightarrow>
     (\<forall>b. is_Sha256 (sv_sha env b)) \<and> (\<forall>b. is_Sha256 (le_sha (sv_leases env) b)) \<and>
     (\<forall>s. is_Identifier s \<longrightarrow> sv_strip env s = s \<and> le_strip (sv_leases env) s = s) \<and>
     (\<forall>kind s a. xe_decode (sv_store env) kind s = Some (XAssignment a) \<longrightarrow> TaskAssignment_ok a) \<and>
     0 < xc_lease_ttl_seconds (sv_config env)"

text \<open>A task lease of valid parts is valid, so a failed acquisition leaves no lease behind.\<close>

lemma acquire_task_Inl:
  assumes "acquire_task env ttl t g v e run at db = (Inl x, db')" "control_ok db"
    and "is_Identifier t" "is_Identifier g" "1 \<le> v" "is_Identifier e" "is_Identifier run" "0 < ttl"
    and strip: "\<And>s. is_Identifier s \<Longrightarrow> le_strip env s = s" and sha: "\<And>b. is_Sha256 (le_sha env b)"
  shows "db' = db"
proof (cases "acquire_lease db (partition_key t) run ttl (milliseconds at)")
  case (Inl y)
  then show ?thesis using assms(1) by (simp add: acquire_task_def bnd_def txn_def)
next
  case (Inr q)
  then obtain tok db1 where acq: "acquire_lease db (partition_key t) run ttl (milliseconds at) = Inr (tok, db1)"
    by (cases q) auto
  note tok = control_ok_acquire [OF acq assms(2)]
  let ?i = "derive_id (le_sha env) ''tlease'' (lease_identity t e run g v (lt_control_epoch tok) (lt_fencing_token tok))"
  have i: "is_Identifier ?i"
    unfolding derive_id_def sha256_hex_def by (rule derived_identifier) (simp_all add: sha)
  have "at < (milliseconds at + ttl) * 1000"
    using assms(8) by (simp add: milliseconds_def)
  then have "\<exists>l. make_TaskLease (le_strip env) \<lparr>schema_name = ''TaskLeaseV1'', schema_version = SCHEMA_VERSION, id_scheme_version = ID_SCHEME_VERSION,
        extensions = [], tl_lease_id = ?i, tl_task_id = t, tl_employee_id = e, tl_run_id = run,
        tl_task_generation_id = g, tl_task_revision = v, tl_control_epoch = lt_control_epoch tok, tl_fencing_token = lt_fencing_token tok,
        tl_acquired_at = at, tl_expires_at = datetime_of (lt_expires_at_ms tok), tl_status = LEASE_ACTIVE\<rparr> = Inr l"
    using assms(3-7) i tok strip [OF i] strip [OF assms(3)] strip [OF assms(4)] strip [OF assms(6)] strip [OF assms(7)] strip [OF tok(3)]
    by (simp add: make_TaskLease_def strip_lease_def TaskLease_ok_def versioned_ok_def datetime_of_def Let_def current_schema_major_def
        SCHEMA_VERSION_def)
  then show ?thesis using assms(1) by (auto simp: acquire_task_def bnd_def txn_def lift_def acq)
qed

definition lease_state :: "lease_token set \<Rightarrow> world \<Rightarrow> bool" where
  "lease_state L w \<longleftrightarrow> covered L (w_control w) \<and> control_ok (w_control w)"

lemma mild_lease_state: "mild w w' \<Longrightarrow> lease_state L w' = lease_state L w"
  using covered_leases [of "w_control w'" "w_control w" L] control_ok_leases [of "w_control w'" "w_control w"]
  by (simp add: mild_def lease_state_def)

lemma mild_beside: "mild w w' \<Longrightarrow> beside w w'" by (simp add: mild_def)

lemma lease_state_mono: "lease_state L w \<Longrightarrow> L \<subseteq> M \<Longrightarrow> lease_state M w"
  by (auto simp: lease_state_def intro: covered_mono)

lemma beside_control: "beside w (w\<lparr>w_control := db\<rparr>)"
  by (simp add: beside_def checkouts_def fun_eq_iff)

lemma slot_loop_cases:
  "slot_loop env n run now is w = (r, w') \<Longrightarrow>
   (\<exists>e. r = Inl e \<and> w' = w) \<or>
   (\<exists>tok p db. r = Inr tok \<and> p \<in> (\<lambda>i. n @ '':'' @ show_nat i) ` set is \<and> acquire_lease (w_control w) p run (ttl_of env) (milliseconds now) = Inr (tok, db) \<and>
      w' = w\<lparr>w_control := db\<rparr>)"
proof (induction "is")
  case (Cons i "is")
  let ?a = "acquire_lease (w_control w) (n @ '':'' @ show_nat i) run (ttl_of env) (milliseconds now)"
  show ?case
  proof (cases ?a)
    case (Inl e)
    then show ?thesis
      using Cons by (cases "e = LeaseBusy") (auto simp: attempt_def on_control_def fail_def)
  next
    case (Inr q)
    then obtain tok db where "?a = Inr (tok, db)" by (cases q) auto
    then show ?thesis using Cons.prems by (auto simp: attempt_def on_control_def give_def)
  qed
qed (auto simp: fail_def)

lemma slot_state:
  assumes "slot env n k run now w = (r, w')" "lease_state L w"
  shows "beside w w'" "\<And>e. r = Inl e \<Longrightarrow> w' = w"
    "\<And>tok. r = Inr tok \<Longrightarrow> lease_state (insert tok L) w' \<and> lt_owner_run_id tok = run"
    "\<And>tok. r = Inr tok \<Longrightarrow> lt_partition_key tok \<in> (\<lambda>i. n @ '':'' @ show_nat i) ` {..<nat k}"
proof -
  have "slot_loop env n run now [0..<nat k] w = (r, w')" using assms(1) by (simp add: slot_def)
  note c = slot_loop_cases [OF this]
  then show "beside w w'" by (auto simp: beside_control)
  show "\<And>e. r = Inl e \<Longrightarrow> w' = w" using c by auto
  fix tok assume "r = Inr tok"
  then obtain p db where a: "acquire_lease (w_control w) p run (ttl_of env) (milliseconds now) = Inr (tok, db)" "w' = w\<lparr>w_control := db\<rparr>"
      "p \<in> (\<lambda>i. n @ '':'' @ show_nat i) ` set [0..<nat k]"
    using c by blast
  then show "lease_state (insert tok L) w' \<and> lt_owner_run_id tok = run"
    using covered_acquire control_ok_acquire(1,6) assms(2) by (simp add: lease_state_def)
  show "lt_partition_key tok \<in> (\<lambda>i. n @ '':'' @ show_nat i) ` {..<nat k}"
    using covered_acquire(3) [OF a(1), of L] a(3) assms(2) by (simp add: lease_state_def lessThan_atLeast0)
qed

lemma free_lease_state:
  assumes "free_lease tok w = (r, w')" "lease_state (insert tok L) w"
  shows "lease_state L w'" "beside w w'" "r = Inr ()"
proof -
  obtain b db where rel: "release_lease (w_control w) tok = (b, db)" by fastforce
  then have w': "w' = w\<lparr>w_control := db\<rparr>" and r: "r = Inr ()"
    using assms(1) by (auto simp: free_lease_def bnd_def on_control_def give_def)
  show "lease_state L w'"
    using covered_release(1) [OF _ rel] control_ok_release [OF rel] assms(2) w' by (simp add: lease_state_def)
  show "beside w w'" by (simp add: w' beside_control)
  show "r = Inr ()" by (rule r)
qed

lemma ttl_pos: "service_ok env \<Longrightarrow> 0 < ttl_of env"
  by (simp add: service_ok_def ttl_of_def)

lemma task_checkout_state:
  assumes "on_leases (acquire_task (sv_leases env) (ttl_of env) t g v e run at) w = (r, w')" "lease_state L w" "service_ok env"
    and ids: "is_Identifier t" "is_Identifier g" "1 \<le> v" "is_Identifier e" "is_Identifier run"
  shows "beside w w'" "\<And>x. r = Inl x \<Longrightarrow> lease_state L w'"
    "\<And>l. r = Inr l \<Longrightarrow> lease_state (insert (lease_token_of l) L) w' \<and> lt_owner_run_id (lease_token_of l) = run"
proof -
  let ?env = "sv_leases env"
  have strip: "\<And>s. is_Identifier s \<Longrightarrow> le_strip ?env s = s" and sha: "\<And>b. is_Sha256 (le_sha ?env b)"
    using assms(3) by (simp_all add: service_ok_def)
  obtain r' db where run: "acquire_task ?env (ttl_of env) t g v e run at (w_control w) = (r', db)" by fastforce
  then have w': "w' = w\<lparr>w_control := db\<rparr>" and r: "r = rcatch r' ServiceLease"
    using assms(1) by (auto simp: on_leases_def)
  have ok: "control_ok (w_control w)" using assms(2) by (simp add: lease_state_def)
  show "beside w w'" by (simp add: w' beside_control)
  show "lease_state L w'" if "r = Inl x" for x
  proof -
    from that r obtain y where "r' = Inl y" by (cases r') (simp_all add: rcatch_def)
    with run have "acquire_task ?env (ttl_of env) t g v e run at (w_control w) = (Inl y, db)" by simp
    from acquire_task_Inl [OF this ok ids ttl_pos [OF assms(3)] strip sha] have "db = w_control w" by simp
    then show ?thesis using assms(2) by (simp add: w')
  qed
  show "lease_state (insert (lease_token_of l) L) w' \<and> lt_owner_run_id (lease_token_of l) = run" if "r = Inr l" for l
  proof -
    from that r have "r' = Inr l" by (cases r') (simp_all add: rcatch_def)
    with run have acq: "acquire_task ?env (ttl_of env) t g v e run at (w_control w) = (Inr l, db)" by simp
    from ok obtain x where x: "db_epoch (w_control w) = Some x" "is_Identifier x" by (auto simp: control_ok_def)
    from acquire_task_Inr [OF acq strip [OF ids(1)] strip [OF ids(5)] strip [OF x(2)] x(1)] obtain token where
      "acquire_lease (w_control w) (partition_key t) run (ttl_of env) (milliseconds at) = Inr (token, db)" "lease_token_of l = token"
      by blast
    then show ?thesis
      using covered_acquire control_ok_acquire(1,6) assms(2) by (simp add: lease_state_def w')
  qed
qed

lemma bnd_eq: "bnd m f w = (r, w') \<longleftrightarrow>
    (\<exists>e. m w = (Inl e, w') \<and> r = Inl e) \<or> (\<exists>x w1. m w = (Inr x, w1) \<and> f x w1 = (r, w'))"
  by (auto simp: bnd_def split: prod.splits sum.splits)

lemma attempt_eq: "attempt m h k w = (r, w') \<longleftrightarrow>
    (\<exists>e w1. m w = (Inl e, w1) \<and> h e w1 = (r, w')) \<or> (\<exists>x w1. m w = (Inr x, w1) \<and> k x w1 = (r, w'))"
  by (auto simp: attempt_def split: prod.splits sum.splits)

lemma ensuring_eq: "ensuring m f w = (r, w') \<longleftrightarrow>
    (\<exists>r1 w1 r2. m w = (r1, w1) \<and> f w1 = (r2, w') \<and> r = (case r2 of Inl e \<Rightarrow> Inl e | Inr _ \<Rightarrow> r1))"
  by (auto simp: ensuring_def split: prod.splits sum.splits)

lemma give_eq: "give x w = (r, w') \<longleftrightarrow> r = Inr x \<and> w' = w" by (auto simp: give_def)
lemma fail_eq: "fail x w = (r, w') \<longleftrightarrow> r = Inl x \<and> w' = w" by (auto simp: fail_def)

lemma checkout_state:
  assumes "checkout env a employee board task run now w = (r, w')" "lease_state L w" "service_ok env"
    and ids: "is_Identifier (at_task_id task)" "ts_generation_id board = Some g" "is_Identifier g" "1 \<le> at_revision task"
      "is_Identifier (ta_employee_id a)" "is_Identifier run"
  shows "beside w w'" "\<And>e. r = Inl e \<Longrightarrow> lease_state L w'"
    "\<And>ck. r = Inr ck \<Longrightarrow> lease_state (tokens ck \<union> L) w' \<and> checkout_ok (run_limit env) run ck"
proof -
  have "beside w w' \<and> (\<forall>e. r = Inl e \<longrightarrow> lease_state L w') \<and>
    (\<forall>ck. r = Inr ck \<longrightarrow> lease_state (tokens ck \<union> L) w' \<and> checkout_ok (run_limit env) run ck)"
  proof (cases "slot env ''execution:global'' (xc_max_concurrent_runs (sv_config env)) run now w")
    case g: (Pair r1 w1)
    note g' = slot_state [OF g assms(2)]
    show ?thesis
    proof (cases r1)
      case (Inl e)
      then show ?thesis using assms(1,2) g g'(2) by (auto simp: checkout_def bnd_eq)
    next
      case (Inr overall)
      with g' have L1: "lease_state (insert overall L) w1" and o1: "lt_owner_run_id overall = run"
        "lt_partition_key overall \<in> global_slot ` {..<run_limit env}" by (auto simp: global_slot_def)
      obtain r2 w2 where s: "slot env (''execution:employee:'' @ de_employee_id employee) (de_concurrency_limit employee) run now w1 = (r2, w2)"
        by fastforce
      note s' = slot_state [OF s L1]
      show ?thesis
      proof (cases r2)
        case (Inl e)
        with s' have "w2 = w1" by simp
        obtain r3 w3 where f: "free_lease overall w1 = (r3, w3)" by fastforce
        have "r = Inl e" "w' = w3"
          using assms(1) g s Inr Inl f \<open>w2 = w1\<close> free_lease_state(3) [OF f L1]
          by (auto simp: checkout_def bnd_eq attempt_eq fail_eq)
        then show ?thesis
          using free_lease_state(1,2) [OF f L1] g'(1) beside_trans by blast
      next
        case own: (Inr own)
        with s' have L2: "lease_state (insert own (insert overall L)) w2" and o2: "lt_owner_run_id own = run" by auto
        let ?acq = "on_leases (acquire_task (sv_leases env) (ttl_of env) (at_task_id task) g (at_revision task) (ta_employee_id a) run now)"
        obtain r3 w3 where t: "?acq w2 = (r3, w3)" by fastforce
        note t' = task_checkout_state [OF t L2 assms(3) ids(1,3,4,5,6)]
        have b3: "beside w w3" using g'(1) s'(1) t'(1) beside_trans by blast
        have gen: "bnd (required_generation board) (\<lambda>generation. on_leases (acquire_task (sv_leases env) (ttl_of env)
            (at_task_id task) generation (at_revision task) (ta_employee_id a) run now)) w2 = (r3, w3)"
          by (simp add: required_generation_def ids(2) of_option_simps lift_def bnd_def t)
        show ?thesis
        proof (cases r3)
          case (Inl e)
          with t' have L3: "lease_state (insert own (insert overall L)) w3" by simp
          obtain r4 w4 where f4: "free_lease own w3 = (r4, w4)" by fastforce
          note f4' = free_lease_state [OF f4 L3]
          obtain r5 w5 where f5: "free_lease overall w4 = (r5, w5)" by fastforce
          note f5' = free_lease_state [OF f5 f4'(1)]
          have "r = Inl e" "w' = w5"
            using assms(1) g s Inr own f4 f5 f4'(3) f5'(3) gen Inl
            by (auto simp: checkout_def bnd_eq [of "slot _ _ _ _ _"] bnd_eq [of "free_lease _"] attempt_eq fail_eq)
          then show ?thesis using f5'(1,2) f4'(2) b3 beside_trans by blast
        next
          case (Inr lease)
          with t' have L3: "lease_state (insert (lease_token_of lease) (insert own (insert overall L))) w3"
              "lt_owner_run_id (lease_token_of lease) = run" by simp_all
          have "r = Inr \<lparr>ck_task_lease = lease, ck_global_slot = overall, ck_employee_slot = own\<rparr>" "w' = w3"
            using assms(1) g s \<open>r1 = Inr overall\<close> own gen Inr
            by (auto simp: checkout_def bnd_eq [of "slot _ _ _ _ _"] attempt_eq give_eq)
          moreover have "insert (lease_token_of lease) (insert own (insert overall L)) =
              tokens \<lparr>ck_task_lease = lease, ck_global_slot = overall, ck_employee_slot = own\<rparr> \<union> L"
            by (auto simp: tokens_def)
          ultimately show ?thesis using L3 o1 o2 b3 by (auto simp: tokens_def checkout_ok_def)
        qed
      qed
    qed
  qed
  then show "beside w w'" "\<And>e. r = Inl e \<Longrightarrow> lease_state L w'"
    "\<And>ck. r = Inr ck \<Longrightarrow> lease_state (tokens ck \<union> L) w' \<and> checkout_ok (run_limit env) run ck" by blast+
qed

definition keeps_stored :: "world \<Rightarrow> world \<Rightarrow> bool" where
  "keeps_stored w w' \<longleftrightarrow> w_platform w' = w_platform w \<and> (\<forall>kind i. stored (w_store w) kind i \<longrightarrow> stored (w_store w') kind i)"

lemma beside_stored: "beside w w' \<longleftrightarrow> keeps_stored w w' \<and> checkouts w' = checkouts w"
  by (auto simp: beside_def keeps_stored_def)

lemma keeps_stored_trans: "keeps_stored a b \<Longrightarrow> keeps_stored b c \<Longrightarrow> keeps_stored a c"
  by (simp add: keeps_stored_def)

lemma release_checkout_state:
  assumes "release_checkout env ck w = (r, w')" "lease_state (tokens ck \<union> L) w"
  shows "lease_state L w'" "beside w w'"
proof -
  let ?l = "ck_task_lease ck" and ?g = "ck_global_slot ck" and ?e = "ck_employee_slot ck"
  let ?rest = "\<lambda>released. bnd (head_of ''lease'' (tl_lease_id ?l)) (\<lambda>revision.
        case revision of None \<Rightarrow> give () | Some n \<Rightarrow> put env (XLease released) (Some n))"
  obtain b db where rel: "release_lease (w_control w) (lease_token_of ?l) = (b, db)" by fastforce
  let ?w1 = "w\<lparr>w_control := db\<rparr>"
  have sets: "tokens ck \<union> L = insert (lease_token_of ?l) (insert ?e (insert ?g L))" by (auto simp: tokens_def)
  have L1: "lease_state (insert ?e (insert ?g L)) ?w1"
    using covered_release(1) [OF _ rel] control_ok_release [OF rel] assms(2) by (simp add: lease_state_def sets)
  obtain released where step: "on_leases (release_task ?l) w = (Inr released, ?w1)"
    by (simp add: on_leases_def release_task_def rel rcatch_def)
  obtain r2 w2 where rest: "?rest released ?w1 = (r2, w2)" by fastforce
  have "gentle (?rest released)" unfolding head_of_def by (intro gentleI)
  from gentleD [OF this rest] have m: "mild ?w1 w2" .
  have L2: "lease_state (insert ?e (insert ?g L)) w2" using L1 mild_lease_state [OF m] by simp
  obtain r3 w3 where f3: "free_lease ?e w2 = (r3, w3)" by fastforce
  note f3' = free_lease_state [OF f3 L2]
  obtain r4 w4 where f4: "free_lease ?g w3 = (r4, w4)" by fastforce
  note f4' = free_lease_state [OF f4 f3'(1)]
  have inner: "bnd (on_leases (release_task ?l)) ?rest w = (r2, w2)"
    unfolding bnd_eq [of "on_leases (release_task ?l)"] using step rest by blast
  have "bnd (free_lease ?e) (\<lambda>_. free_lease ?g) w2 = (r4, w4)"
    unfolding bnd_eq using f3 f3'(3) f4 by blast
  with inner assms(1) have w': "w' = w4" unfolding release_checkout_def ensuring_eq by auto
  show "lease_state L w'" using f4'(1) w' by simp
  show "beside w w'" using beside_control [of w db] mild_beside [OF m] f3'(2) f4'(2) beside_trans w' by blast
qed

lemma closing_state:
  assumes "closing env run ck m w = (r, w')" "gentle m" "lease_state (tokens ck \<union> L) w"
  shows "lease_state L w'" "keeps_stored w w'" "checkouts w' = (checkouts w)(run := None)"
proof -
  obtain r1 w1 where m: "m w = (r1, w1)" by fastforce
  from gentleD [OF assms(2) m] have m1: "mild w w1" .
  let ?w2 = "w1\<lparr>w_active := (w_active w1)(run := None)\<rparr>"
  obtain r3 w3 where rel: "release_checkout env ck ?w2 = (r3, w3)" by fastforce
  have "lease_state (tokens ck \<union> L) ?w2" using assms(3) mild_lease_state [OF m1] by (simp add: lease_state_def)
  note rel' = release_checkout_state [OF rel this]
  have "bnd (set_active run None) (\<lambda>_. release_checkout env ck) w1 = (r3, w3)"
    unfolding bnd_eq using rel by (simp add: set_active_def)
  with assms(1) m have w': "w' = w3" unfolding closing_def ensuring_eq by auto
  show "lease_state L w'" using rel'(1) w' by simp
  have "keeps_stored w1 ?w2" "checkouts ?w2 = (checkouts w1)(run := None)"
    by (auto simp: keeps_stored_def checkouts_def fun_eq_iff)
  note w2 = this
  show "keeps_stored w w'"
    using w2(1) rel'(2) mild_beside [OF m1] keeps_stored_trans unfolding w' beside_stored by blast
  show "checkouts w' = (checkouts w)(run := None)"
    using w2(2) rel'(2) mild_beside [OF m1] unfolding w' beside_stored by simp
qed

section \<open>The invariant\<close>

definition accounted :: "nat \<Rightarrow> world \<Rightarrow> bool" where
  "accounted lim w \<longleftrightarrow> lease_state (held_by (checkouts w)) w \<and>
     (\<forall>run ck. checkouts w run = Some ck \<longrightarrow> checkout_ok lim run ck \<and> stored (w_store w) ''run'' run)"

lemma mild_accounted: "mild w w' \<Longrightarrow> accounted lim w \<Longrightarrow> accounted lim w'"
  using mild_lease_state [of w w' "held_by (checkouts w)"] by (auto simp: accounted_def mild_def beside_def)

lemma gentle_accounted: "gentle m \<Longrightarrow> m w = (r, w') \<Longrightarrow> accounted lim w \<Longrightarrow> accounted lim w'"
  by (rule mild_accounted [OF gentleD])

lemma held_byI: "f run = Some ck \<Longrightarrow> tok \<in> tokens ck \<Longrightarrow> tok \<in> held_by f"
  unfolding held_by_def by (rule UN_I [of run]) simp_all

lemma held_byE:
  assumes "tok \<in> held_by f"
  obtains run ck where "f run = Some ck" "tok \<in> tokens ck"
  using assms unfolding held_by_def by (auto split: option.splits)

lemma held_upd_None:
  assumes "f run = None \<or> f run = Some ck"
  shows "held_by f \<subseteq> tokens ck \<union> held_by (f(run := None))"
proof
  fix tok assume "tok \<in> held_by f"
  then obtain run' c where c: "f run' = Some c" "tok \<in> tokens c" by (rule held_byE)
  show "tok \<in> tokens ck \<union> held_by (f(run := None))"
    using assms c held_byI [of "f(run := None)" run' c tok] by (cases "run' = run") auto
qed

lemma held_upd_Some: "tokens ck \<union> held_by (f(run := None)) \<subseteq> held_by (f(run := Some ck))"
proof
  fix tok assume "tok \<in> tokens ck \<union> held_by (f(run := None))"
  then show "tok \<in> held_by (f(run := Some ck))"
  proof
    assume "tok \<in> held_by (f(run := None))"
    then obtain run' c where "(f(run := None)) run' = Some c" "tok \<in> tokens c" by (rule held_byE)
    then show ?thesis by (intro held_byI [of _ run' c]) (auto split: if_splits)
  qed (auto intro: held_byI [of _ run ck])
qed

lemma closing_accounted:
  assumes "closing env run ck m w = (r, w')" "gentle m"
    and "lease_state (tokens ck \<union> held_by ((checkouts w)(run := None))) w"
    and others: "\<And>run' c. run' \<noteq> run \<Longrightarrow> checkouts w run' = Some c \<Longrightarrow>
      checkout_ok lim run' c \<and> stored (w_store w) ''run'' run'"
  shows "accounted lim w'" "checkouts w' = (checkouts w)(run := None)" "w_platform w' = w_platform w"
proof -
  note c = closing_state [OF assms(1,2,3)]
  then show "checkouts w' = (checkouts w)(run := None)" "w_platform w' = w_platform w" by (simp_all add: keeps_stored_def)
  show "accounted lim w'"
    using c others by (auto simp: accounted_def keeps_stored_def split: if_splits)
qed

lemma put_record_cases:
  assumes "put_record env now x e db = Inr (n, db')"
  shows "(db' = db \<and> (\<exists>h. checked_head env db (record_kind x) (record_key x) = Inr (Some h))) \<or>
    (\<exists>m. insert_record env now x m db = Inr (n, db'))"
  using assms by (auto simp: put_record_def result_simps Let_def split: if_splits)

lemma stored_by_put:
  assumes "put env x e w = (Inr (), w')"
  shows "stored (w_store w') (record_kind x) (record_key x)"
proof -
  let ?w1 = "w\<lparr>w_asked := Suc (w_asked w)\<rparr>" and ?now = "sv_wall_clock env (w_asked w)"
  from assms obtain n db where put: "put_record (sv_store env) ?now x e (w_store w) = Inr (n, db)" and w': "w_store w' = db"
    by (auto simp: put_def bnd_eq asking_def on_store_def give_eq split: sum.splits)
  show ?thesis
    using put_record_cases [OF put]
  proof (elim disjE conjE exE)
    fix h assume "db = w_store w" "checked_head (sv_store env) (w_store w) (record_kind x) (record_key x) = Inr (Some h)"
    then show ?thesis
      using w' by (auto simp: stored_def checked_head_def result_simps split: option.splits if_splits)
  next
    fix m assume ins: "insert_record (sv_store env) ?now x m (w_store w) = Inr (n, db)"
    have heads: "xd_heads db = upsert_head \<lparr>hr_kind = record_kind x, hr_record_id = record_key x, hr_revision = m,
        hr_payload_sha256 = sha256_hex (xe_sha (sv_store env)) (json_bytes (record_json x))\<rparr> (xd_heads (w_store w))"
      and rows: "\<exists>row. xd_records db = xd_records (w_store w) @ [row] \<and> xw_kind row = record_kind x \<and>
          xw_record_id row = record_key x \<and> xw_revision row = m"
      using ins by (auto simp: insert_record_def Let_def split: if_splits)
    then obtain row where row: "xd_records db = xd_records (w_store w) @ [row]" "xw_kind row = record_kind x"
        "xw_record_id row = record_key x" "xw_revision row = m" by blast
    then show ?thesis
      unfolding w' stored_def find_xhead_def find_xrow_def heads find_upsert_head
      by (auto simp: find_append split: option.splits)
  qed
qed

end
