(* ===== verification/Execution_Launches.thy ===== *)
theory Execution_Launches
  imports Execution_Leases
begin

text \<open>
  A launch either leaves a run active that holds its three leases, or gives back all it has taken, whichever
  stage fails. \<open>launching\<close> and \<open>pulse\<close> carry this through the gates of a heartbeat and through the lookup
  of a run that exists already.
\<close>

lemma gentle_gate_pre: "gentle (launch_failed env h e)"
  unfolding launch_failed_def answer_def by (intro gentleI)

lemma gentle_answer [gentleI]: "gentle m \<Longrightarrow> gentle (answer m)"
  unfolding answer_def by (intro gentleI)

lemma gentle_terminalize [gentleI]: "gentle (terminalize_exception env run a code)"
  unfolding terminalize_exception_def by (intro gentleI)

lemma gentle_run_failed [gentleI]: "gentle (run_failed env run a e)"
  unfolding run_failed_def by (intro gentleI)

lemma gentle_create [gentleI]: "gentle (mark_session_incompatible env s why)" "gentle (make_invocation env key a emp prep dec ad appr at src)"
  "gentle (reserve_budget env policy usage now)" "gentle (add_budget_usage env policy use now)" "gentle (budget_for env a)"
  "gentle (session_context env a emp prep dec ad model)"
  unfolding mark_session_incompatible_def make_invocation_def reserve_budget_def add_budget_usage_def budget_for_def session_context_def
  by (intro gentleI)+

lemma gentle_record_run [gentleI]: "gentle (record_run env h lease)"
  unfolding record_run_def Let_def by (intro gentleI)

lemma gentle_changed [gentleI]: "gentle (changed_files env found)"
  unfolding changed_files_def changed_names_def Let_def
  by (cases found) (auto intro!: gentleI split: git_marker.split)

lemma gentle_finish [gentleI]: "gentle (finish_run env a outcome ended)"
  unfolding finish_run_def deliver_run_def close_session_def Let_def by (intro gentleI)

lemma record_run_id:
  assumes "record_run env h lease w = (Inr (i, s, run), w')"
  shows "er_run_id run = sv_strip env (bh_run_id h)"
  using assms unfolding record_run_def Let_def
  by (auto simp: bnd_eq give_eq make_ExecutionRun_def validated_def fail_eq strip_run_def split: if_splits)

lemma claim_task_state:
  assumes "claim_task env h ck w = (r, w')"
  shows "mild w w'" "r = Inr lease \<Longrightarrow> tokens (ck\<lparr>ck_task_lease := lease\<rparr>) = tokens ck"
    "r = Inr lease \<Longrightarrow> checkout_ok lim run (ck\<lparr>ck_task_lease := lease\<rparr>) = checkout_ok lim run ck"
proof -
  have "gentle (on_leases (rebind_task (sv_leases env) l g v at))" for l g v at
    by (simp add: gentle_def on_leases_def rebind_task_def mild_simps)
  then have "gentle (claim_task env h ck)"
    unfolding claim_task_def by (intro gentleI)
  then show "mild w w'" using assms by (rule gentleD)
  assume "r = Inr lease"
  then have "\<exists>v g i. lease = (ck_task_lease ck)\<lparr>tl_lease_id := i, tl_task_generation_id := g, tl_task_revision := v\<rparr>"
    using assms unfolding claim_task_def bnd_eq
    by (auto simp: on_leases_def rebind_task_def rcatch_def split: if_splits)
  then show "tokens (ck\<lparr>ck_task_lease := lease\<rparr>) = tokens ck"
    by (auto simp: tokens_def lease_token_of_def)
  then show "checkout_ok lim run (ck\<lparr>ck_task_lease := lease\<rparr>) = checkout_ok lim run ck"
    by (simp add: checkout_ok_def)
qed

lemma take_checkout_state:
  assumes "take_checkout env h w = (r, w')" "lease_state L w" "service_ok env"
    and ids: "is_Identifier (at_task_id (bh_task h))" "ts_generation_id (bh_board h) = Some g" "is_Identifier g"
      "1 \<le> at_revision (bh_task h)" "is_Identifier (ta_employee_id (bh_assignment h))" "is_Identifier (bh_run_id h)"
  shows "beside w w'" "\<And>e. r = Inl e \<Longrightarrow> lease_state L w'"
    "\<And>ck. r = Inr ck \<Longrightarrow> lease_state (tokens ck \<union> L) w' \<and> checkout_ok (run_limit env) (bh_run_id h) ck"
    "\<And>ck. r = Inr ck \<Longrightarrow> fst (emergency_gate env w) = Inr ()"
proof -
  have c: "(\<exists>e. r = Inl e \<and> w' = w) \<or>
      (fst (emergency_gate env w) = Inr () \<and>
       checkout env (bh_assignment h) (bh_employee h) (bh_board h) (bh_task h) (bh_run_id h) (bh_started_at h) w = (r, w'))"
    using assms(1) unfolding take_checkout_def bnd_eq by (auto simp: emergency_gate_def)
  note s = checkout_state [OF _ assms(2,3) ids]
  show "beside w w'" using c s(1) by auto
  show "\<And>e. r = Inl e \<Longrightarrow> lease_state L w'" using c s(2) assms(2) by auto
  show "\<And>ck. r = Inr ck \<Longrightarrow> lease_state (tokens ck \<union> L) w' \<and> checkout_ok (run_limit env) (bh_run_id h) ck"
    using c s(3) by auto
  show "\<And>ck. r = Inr ck \<Longrightarrow> fst (emergency_gate env w) = Inr ()" using c by auto
qed

lemma start_run_cases:
  assumes "start_run env h ck i s run w = (r, w')"
  shows "(\<exists>e. r = Inl e \<and> mild w w') \<or>
    (\<exists>w1 a. r = Inr () \<and> mild w w1 \<and> stored (w_store w1) ''run'' (er_run_id run) \<and> ar_checkout a = ck \<and> ar_run a = run \<and>
       w' = w1\<lparr>w_active := (w_active w1)(bh_run_id h \<mapsto> a)\<rparr>)"
proof -
  let ?rest = "bnd (append_run_event env (bh_run_id h) 0 ''system'' ''runtime_started'' ''Runtime started'' (bh_started_at h) False)
     (\<lambda>_. reserve_budget env (bh_budget_policy h) (bh_budget_usage h) (bh_started_at h))"
  obtain r1 w1 where p: "put env (XRun run) None w = (r1, w1)" by fastforce
  have m1: "mild w w1" using gentleD [OF gentle_put p] .
  obtain r2 w2 where q: "?rest w1 = (r2, w2)" by fastforce
  have "gentle ?rest" by (intro gentleI)
  from gentleD [OF this q] have m2: "mild w1 w2" .
  show ?thesis
  proof (cases r1)
    case (Inl e)
    then show ?thesis using assms p m1 unfolding start_run_def bnd_eq by auto
  next
    case (Inr u)
    with stored_by_put p have "stored (w_store w1) ''run'' (er_run_id run)"
      using stored_by_put [of env "XRun run" None w w1] by simp
    with m2 have st: "stored (w_store w2) ''run'' (er_run_id run)" by (simp add: mild_def beside_def)
    show ?thesis
    proof (cases r2)
      case (Inl e)
      then have "r = Inl e \<and> w' = w2"
        using assms p q \<open>r1 = Inr u\<close> unfolding start_run_def bnd_eq by auto
      then show ?thesis using mild_trans [OF m1 m2] by blast
    next
      case (Inr v)
      let ?a = "\<lparr>ar_operation_key = bh_operation h, ar_key = bh_key h, ar_request = heartbeat_dict (bh_request h), ar_run = run,
        ar_invocation = i, ar_assignment = bh_assignment h, ar_session = s, ar_checkout = ck,
        ar_budget_policy = bh_budget_policy h, ar_policy_decision = bh_decision h, ar_cancelled = False, ar_intent = None,
        ar_renewal_error = None\<rparr>"
      have "r = Inr () \<and> w' = w2\<lparr>w_active := (w_active w2)(bh_run_id h \<mapsto> ?a)\<rparr>"
        using assms p q Inr \<open>r1 = Inr u\<close> unfolding start_run_def bnd_eq by (auto simp: set_active_def)
      then show ?thesis using mild_trans [OF m1 m2] st
        by (intro disjI2 exI [of _ w2] exI [of _ ?a]) simp
    qed
  qed
qed

definition plan_ok :: "planned_heartbeat \<Rightarrow> bool" where
  "plan_ok h \<longleftrightarrow> is_Identifier (at_task_id (bh_task h)) \<and>
     (\<exists>g. ts_generation_id (bh_board h) = Some g \<and> is_Identifier g) \<and> 1 \<le> at_revision (bh_task h) \<and>
     is_Identifier (ta_employee_id (bh_assignment h)) \<and> is_Identifier (bh_run_id h)"

lemma lease_state_mild: "mild w w' \<Longrightarrow> lease_state L w \<Longrightarrow> lease_state L w'"
  by (simp add: mild_lease_state)

text \<open>A failed launch gives back what it has checked out; a launched run keeps it.\<close>

definition launch_post :: "nat \<Rightarrow> string \<Rightarrow> world \<Rightarrow> (service_error, heartbeat_reply) result \<Rightarrow> world \<Rightarrow> bool" where
  "launch_post lim run w r w' \<longleftrightarrow> accounted lim w' \<and> w_platform w' = w_platform w \<and>
     (case r of Inr (Launched i) \<Rightarrow> i = run \<and> checkouts w' = (checkouts w)(run := checkouts w' run) \<and> checkouts w' run \<noteq> None
      | _ \<Rightarrow> checkouts w' = checkouts w)"

lemma closing_launch:
  assumes "closing env run ck m w1 = (r, w')" "gentle m" "lease_state (tokens ck \<union> held_by (checkouts w)) w1"
    and "beside w w1" "accounted lim w" "checkouts w run = None" "\<And>i. r \<noteq> Inr (Launched i)"
  shows "launch_post lim run w r w'"
proof -
  have ch: "(checkouts w)(run := None) = checkouts w" using assms(6) by auto
  from assms(4) have w1: "checkouts w1 = checkouts w" "w_platform w1 = w_platform w"
    "\<And>k i. stored (w_store w) k i \<Longrightarrow> stored (w_store w1) k i" by (auto simp: beside_def)
  have others: "checkout_ok lim run' c \<and> stored (w_store w1) ''run'' run'"
    if "run' \<noteq> run" "checkouts w1 run' = Some c" for run' c
    using assms(5) that w1 by (auto simp: accounted_def)
  from closing_accounted [OF assms(1,2) _ others] assms(3) w1 ch
  show ?thesis using assms(7) by (simp add: launch_post_def split: sum.split heartbeat_reply.split)
qed

lemma answer_not_launched: "answer m w = (r, w') \<Longrightarrow> r \<noteq> Inr (Launched i)"
  by (auto simp: answer_def bnd_eq give_eq)

lemma launch_failed_not_launched: "launch_failed env h e w = (r, w') \<Longrightarrow> r \<noteq> Inr (Launched i)"
  unfolding launch_failed_def bnd_eq by (auto dest: answer_not_launched)

lemma ensuring_result: "ensuring m f w = (Inr x, w') \<Longrightarrow> fst (m w) = Inr x"
  unfolding ensuring_eq by (elim exE conjE) (simp split: sum.splits)

lemma closing_not_launched:
  assumes "closing env run ck m w = (r, w')" "\<And>w r w' i. m w = (r, w') \<Longrightarrow> r \<noteq> Inr (Launched i)"
  shows "r \<noteq> Inr (Launched i)"
  using assms ensuring_result [of m _ w "Launched i" w'] unfolding closing_def by (metis prod.collapse)

lemma strip_run_id: "service_ok env \<Longrightarrow> is_Identifier i \<Longrightarrow> sv_strip env i = i" by (simp add: service_ok_def)

lemma launch_state:
  assumes "launch env h w = (r, w')" "accounted (run_limit env) w" "service_ok env" "plan_ok h" "checkouts w (bh_run_id h) = None"
  shows "launch_post (run_limit env) (bh_run_id h) w r w'"
proof -
  let ?run = "bh_run_id h" and ?L = "held_by (checkouts w)"
  from assms(4) obtain g where ids: "is_Identifier (at_task_id (bh_task h))" "ts_generation_id (bh_board h) = Some g" "is_Identifier g"
      "1 \<le> at_revision (bh_task h)" "is_Identifier (ta_employee_id (bh_assignment h))" "is_Identifier ?run"
    by (auto simp: plan_ok_def)
  have L: "lease_state ?L w" using assms(2) by (simp add: accounted_def)
  obtain r1 w1 where t: "take_checkout env h w = (r1, w1)" by fastforce
  note t' = take_checkout_state [OF t L assms(3) ids]
  show ?thesis
  proof (cases r1)
    case (Inl e)
    let ?m = "ensuring (launch_failed env h e) (set_active ?run None)"
    from assms(1) t Inl have run: "?m w1 = (r, w')" unfolding launch_def attempt_eq by auto
    obtain r2 w2 where f: "launch_failed env h e w1 = (r2, w2)" by fastforce
    have m2: "mild w1 w2" using gentleD [OF gentle_gate_pre f] .
    have w': "w' = w2\<lparr>w_active := (w_active w2)(?run := None)\<rparr>" and "r = r2"
      using run f unfolding ensuring_eq by (auto simp: set_active_def)
    have b2: "beside w w2" using t'(1) m2 by (auto simp: mild_def intro: beside_trans)
    have "checkouts w2 ?run = None" using b2 assms(5) by (simp add: beside_def)
    then have "checkouts w' = checkouts w2" by (auto simp: w' checkouts_def fun_eq_iff)
    moreover have "lease_state ?L w'"
      using lease_state_mild [OF m2 t'(2) [OF Inl]] by (simp add: w' lease_state_def)
    moreover have "w_store w' = w_store w2" "w_platform w' = w_platform w2" by (simp_all add: w')
    ultimately show ?thesis
      using b2 assms(2) launch_failed_not_launched [OF f] \<open>r = r2\<close>
      by (auto simp: launch_post_def accounted_def beside_def split: sum.split heartbeat_reply.split)
  next
    case (Inr ck)
    with t' have L1: "lease_state (tokens ck \<union> ?L) w1" and own: "checkout_ok (run_limit env) ?run ck" by auto
    obtain r2 w2 where c: "claim_task env h ck w1 = (r2, w2)" by fastforce
    note m2 = claim_task_state(1) [OF c]
    have b2: "beside w w2" using t'(1) m2 by (auto simp: mild_def intro: beside_trans)
    show ?thesis
    proof (cases r2)
      case (Inl e)
      with assms(1) t c \<open>r1 = Inr ck\<close> have run: "closing env ?run ck (launch_failed env h e) w2 = (r, w')"
        unfolding launch_def attempt_eq by auto
      show ?thesis
        by (rule closing_launch [OF run gentle_gate_pre lease_state_mild [OF m2 L1] b2 assms(2,5)
              closing_not_launched [OF run launch_failed_not_launched]])
    next
      case lease: (Inr lease)
      let ?ck = "ck\<lparr>ck_task_lease := lease\<rparr>"
      have toks: "tokens ?ck = tokens ck" by (rule claim_task_state(2) [OF c lease])
      have L2: "lease_state (tokens ?ck \<union> ?L) w2" unfolding toks by (rule lease_state_mild [OF m2 L1])
      obtain r3 w3 where o: "record_run env h lease w2 = (r3, w3)" by fastforce
      have m3: "mild w2 w3" using gentleD [OF gentle_record_run o] .
      have b3: "beside w w3" using b2 m3 by (auto simp: mild_def intro: beside_trans)
      show ?thesis
      proof (cases r3)
        case (Inl e)
        with assms(1) t c o \<open>r1 = Inr ck\<close> lease have run: "closing env ?run ?ck (launch_failed env h e) w3 = (r, w')"
          unfolding launch_def attempt_eq Let_def by auto
        show ?thesis
          by (rule closing_launch [OF run gentle_gate_pre lease_state_mild [OF m3 L2] b3 assms(2,5)
                closing_not_launched [OF run launch_failed_not_launched]])
      next
        case opened: (Inr q)
        obtain i s run where q: "q = (i, s, run)" by (cases q) auto
        obtain r4 w4 where st: "start_run env h ?ck i s run w3 = (r4, w4)" by fastforce
        have id: "er_run_id run = ?run"
          using record_run_id o opened q strip_run_id [OF assms(3) ids(6)] by simp
        from start_run_cases [OF st] show ?thesis
        proof (elim disjE exE conjE)
          fix e assume e: "r4 = Inl e" and m4: "mild w3 w4"
          with assms(1) t c o \<open>r1 = Inr ck\<close> lease opened q st
          have run: "closing env ?run ?ck (answer (run_failed env run (bh_assignment h) e)) w4 = (r, w')"
            unfolding launch_def attempt_eq Let_def by (auto simp: attempt_eq)
          have b4: "beside w w4" using b3 m4 by (auto simp: mild_def intro: beside_trans)
          show ?thesis
            by (rule closing_launch [OF run gentle_answer [OF gentle_run_failed] lease_state_mild [OF m4 lease_state_mild [OF m3 L2]] b4 assms(2,5)
                closing_not_launched [OF run answer_not_launched]])
        next
          fix w5 a assume a: "r4 = Inr ()" "mild w3 w5" "stored (w_store w5) ''run'' (er_run_id run)" "ar_checkout a = ?ck"
            "w4 = w5\<lparr>w_active := (w_active w5)(?run \<mapsto> a)\<rparr>"
          with assms(1) t c o \<open>r1 = Inr ck\<close> lease opened q st have r: "r = Inr (Launched ?run)" "w' = w4"
            unfolding launch_def attempt_eq Let_def by (auto simp: give_eq attempt_eq)
          have b5: "beside w w5" using b3 a(2) by (auto simp: mild_def intro: beside_trans)
          have ch: "checkouts w' = (checkouts w)(?run \<mapsto> ?ck)"
            using b5 a(4,5) r(2) by (auto simp: beside_def checkouts_def fun_eq_iff)
          have "(checkouts w)(?run := None) = checkouts w" using assms(5) by auto
          then have "tokens ?ck \<union> ?L \<subseteq> held_by (checkouts w')"
            using held_upd_Some [of ?ck "checkouts w" ?run] unfolding ch by simp
          then have "lease_state (held_by (checkouts w')) w5"
            by (rule lease_state_mono [OF lease_state_mild [OF a(2) lease_state_mild [OF m3 L2]]])
          then have L5: "lease_state (held_by (checkouts w')) w'" using a(5) r(2) by (simp add: lease_state_def)
          have st': "w_store w' = w_store w5" "w_platform w' = w_platform w5" using a(5) r(2) by simp_all
          have "checkout_ok (run_limit env) run' x \<and> stored (w_store w') ''run'' run'"
            if "checkouts w' run' = Some x" for run' x
            using that own claim_task_state(3) [OF c lease] a(3) id b5 assms(2) st' unfolding ch by (auto simp: accounted_def beside_def split: if_splits)
          then show ?thesis
            using L5 r(1) st'(2) b5 ch by (auto simp: launch_post_def accounted_def beside_def)
        qed
      qed
    qed
  qed
qed

definition launching :: "nat \<Rightarrow> string \<Rightarrow> heartbeat_reply saga \<Rightarrow> bool" where
  "launching lim run m \<longleftrightarrow> (\<forall>w r w'. accounted lim w \<longrightarrow> checkouts w run = None \<longrightarrow> m w = (r, w') \<longrightarrow> launch_post lim run w r w')"

named_theorems launchI \<open>heartbeats that keep the leases accounted for\<close>

lemma launchingD: "launching lim run m \<Longrightarrow> m w = (r, w') \<Longrightarrow> accounted lim w \<Longrightarrow> checkouts w run = None \<Longrightarrow> launch_post lim run w r w'"
  by (simp add: launching_def)

lemma launch_post_mild: "mild w w1 \<Longrightarrow> launch_post lim run w1 r w' \<Longrightarrow> launch_post lim run w r w'"
  by (simp add: launch_post_def mild_def beside_def split: sum.splits heartbeat_reply.splits)

lemma mild_launch_post: "mild w w' \<Longrightarrow> accounted lim w \<Longrightarrow> (\<And>i. r \<noteq> Inr (Launched i)) \<Longrightarrow> launch_post lim run w r w'"
  using mild_accounted [of w w'] by (simp add: launch_post_def mild_def beside_def split: sum.split heartbeat_reply.split)

lemma launching_answer [launchI]: "gentle m \<Longrightarrow> launching lim run (answer m)"
  unfolding launching_def
  by (intro allI impI, rule mild_launch_post [OF gentleD [OF gentle_answer]]) (assumption | erule answer_not_launched)+

lemma launching_fail [launchI]: "launching lim run (fail e)"
  unfolding launching_def fail_eq by (auto intro!: mild_launch_post)

lemma launching_bnd:
  assumes "gentle m" "\<And>w x w'. m w = (Inr x, w') \<Longrightarrow> launching lim run (f x)"
  shows "launching lim run (bnd m f)"
  unfolding launching_def bnd_eq
proof (intro allI impI, elim disjE exE conjE)
  fix w w' e and r :: "(service_error, heartbeat_reply) result"
  assume "accounted lim w" "m w = (Inl e, w')" "r = Inl e"
  then show "launch_post lim run w r w'" using gentleD [OF assms(1)] by (intro mild_launch_post) simp_all
next
  fix w r w' x w1 assume a: "accounted lim w" "checkouts w run = None" "m w = (Inr x, w1)" "f x w1 = (r, w')"
  have m: "mild w w1" using gentleD [OF assms(1) a(3)] .
  then have "checkouts w1 run = None" using a(2) by (simp add: mild_def beside_def)
  from launchingD [OF assms(2) [OF a(3)] a(4) mild_accounted [OF m a(1)] this] show "launch_post lim run w r w'"
    by (rule launch_post_mild [OF m])
qed

lemma launching_attempt:
  assumes "gentle m" "\<And>e. launching lim run (h e)" "\<And>w x w'. m w = (Inr x, w') \<Longrightarrow> launching lim run (f x)"
  shows "launching lim run (attempt m h f)"
  unfolding launching_def attempt_eq
proof (intro allI impI, elim disjE exE conjE)
  fix w r w' e w1 assume a: "accounted lim w" "checkouts w run = None" "m w = (Inl e, w1)" "h e w1 = (r, w')"
  have m: "mild w w1" using gentleD [OF assms(1) a(3)] .
  then have "checkouts w1 run = None" using a(2) by (simp add: mild_def beside_def)
  from launchingD [OF assms(2) a(4) mild_accounted [OF m a(1)] this] show "launch_post lim run w r w'"
    by (rule launch_post_mild [OF m])
next
  fix w r w' x w1 assume a: "accounted lim w" "checkouts w run = None" "m w = (Inr x, w1)" "f x w1 = (r, w')"
  have m: "mild w w1" using gentleD [OF assms(1) a(3)] .
  then have "checkouts w1 run = None" using a(2) by (simp add: mild_def beside_def)
  from launchingD [OF assms(3) [OF a(3)] a(4) mild_accounted [OF m a(1)] this] show "launch_post lim run w r w'"
    by (rule launch_post_mild [OF m])
qed

lemma launching_prod: "(\<And>a b. p = (a, b) \<Longrightarrow> launching lim run (f a b)) \<Longrightarrow> launching lim run (case p of (a, b) \<Rightarrow> f a b)"
  by (cases p) simp

lemma launching_if: "launching lim run m \<Longrightarrow> launching lim run n \<Longrightarrow> launching lim run (if b then m else n)" by simp

section \<open>What the stages hand on\<close>

lemma bnd_Inr: "bnd m f w = (Inr y, w') \<longleftrightarrow> (\<exists>x w1. m w = (Inr x, w1) \<and> f x w1 = (Inr y, w'))"
  by (simp add: bnd_eq)

lemma check_Inr: "check b e w = (Inr u, w') \<longleftrightarrow> b \<and> w' = w"
  by (auto simp: check_def give_def fail_def)

lemma get_decoded:
  assumes "get env kind select i w = (Inr (Some x), w')"
  shows "\<exists>s r. xe_decode (sv_store env) kind s = Some r \<and> select r = Some x"
  using assms unfolding get_def bnd_Inr
  by (auto simp: ask_store_def rcatch_def get_record_def decode_row_def result_simps give_eq fail_eq of_option_def
      split: option.splits sum.splits if_splits)

lemma active_assignment_ok:
  assumes "active_assignment env i w = (Inr a, w')" "service_ok env"
  shows "TaskAssignment_ok a"
proof -
  from assms(1) obtain w1 where "get env ''assignment'' as_assignment i w = (Inr (Some a), w1)"
    unfolding active_assignment_def bnd_Inr by (auto simp: fail_eq give_eq split: option.splits if_splits)
  from get_decoded [OF this] obtain s r where "xe_decode (sv_store env) ''assignment'' s = Some r" "as_assignment r = Some a" by blast
  then show ?thesis using assms(2) by (cases r) (auto simp: service_ok_def)
qed

lemma checkout_not_missing:
  assumes "accounted lim w" "get env ''run'' as_run run w = (Inr None, w')"
  shows "checkouts w run = None"
proof (rule ccontr)
  assume "checkouts w run \<noteq> None"
  then have "stored (w_store w) ''run'' run" using assms(1) by (auto simp: accounted_def)
  moreover obtain found w1 where found: "ask_store (get_record (sv_store env) ''run'' run) w = (Inr found, w1)"
    and rest: "(case found of None \<Rightarrow> give None | Some r \<Rightarrow>
      (case as_run r of None \<Rightarrow> fail (ServiceStore ExecutionStoreError) | Some x \<Rightarrow> give (Some x))) w1 = (Inr None, w')"
    using assms(2) unfolding get_def bnd_Inr by blast
  moreover have "found = None" using rest by (auto simp: give_eq fail_eq split: option.splits)
  ultimately show False
    by (auto simp: ask_store_def rcatch_def get_record_def stored_def result_simps split: sum.splits)
qed

lemma filter_single: "filter p xs = [x] \<Longrightarrow> p x"
  by (drule arg_cong [where f = set]) (auto simp: set_eq_iff)

lemma current_task_id:
  assumes "current_task env t w = (Inr (board, task), w')"
  shows "at_task_id task = t"
proof -
  from assms obtain b w1 where "(case filter (\<lambda>u. at_task_id u = t) (ts_tasks b) of [u] \<Rightarrow> give (b, u) | _ \<Rightarrow> fail ExecutionServiceError) w1 =
      (Inr (board, task), w')"
    unfolding current_task_def bnd_Inr by blast
  then have "filter (\<lambda>u. at_task_id u = t) (ts_tasks b) = [task]"
    by (cases "filter (\<lambda>u. at_task_id u = t) (ts_tasks b)") (auto simp: give_eq fail_eq split: list.splits)
  then show ?thesis by (rule filter_single)
qed

lemma bound_identifiers:
  assumes "TaskAssignment_ok a" "assignment_bound a board task" "at_task_id task = ta_task_id a"
  shows "is_Identifier (at_task_id task)" "\<exists>g. ts_generation_id board = Some g \<and> is_Identifier g" "1 \<le> at_revision task"
proof -
  have "ts_generation_id board = Some (ta_task_generation_id a)" "at_revision task = ta_task_revision a"
    using assms(2) by (simp_all add: assignment_bound_def)
  then show "is_Identifier (at_task_id task)" "\<exists>g. ts_generation_id board = Some g \<and> is_Identifier g" "1 \<le> at_revision task"
    using assms(1,3) by (simp_all add: TaskAssignment_ok_def)
qed

lemma made_assignment_ok: "make_TaskAssignment env a w = (Inr b, w') \<Longrightarrow> TaskAssignment_ok b"
  by (auto simp: make_TaskAssignment_def validated_def give_eq fail_eq split: if_splits)

lemma prepared_assignment_ok:
  assumes "prepare_workspace env i run fix git now w = (Inr (a, p), w')" "service_ok env"
  shows "TaskAssignment_ok a"
proof -
  from assms(1) obtain a0 w0 m where a0: "active_assignment env i w = (Inr a0, w0)"
    and rest: "a = a0 \<or> (\<exists>x w1 w2. make_TaskAssignment env x w1 = (Inr a, w2))"
    unfolding prepare_workspace_def bnd_Inr
    by (auto simp: bnd_Inr check_Inr give_eq split: prod.splits if_splits)
  show ?thesis
    using rest active_assignment_ok [OF a0 assms(2)] made_assignment_ok by blast
qed

lemma bind_run_ok:
  assumes "bind_run env q run a at w = (Inr (board, task, emp, bound, prepared), w')" "TaskAssignment_ok a" "service_ok env"
  shows "is_Identifier (at_task_id task)" "\<exists>g. ts_generation_id board = Some g \<and> is_Identifier g" "1 \<le> at_revision task"
    "is_Identifier (ta_employee_id bound)"
proof -
  from assms(1) obtain w1 w2 w3 where t: "current_task env (ta_task_id a) w = (Inr (board, task), w1)" "assignment_bound a board task"
    and p: "prepare_workspace env (ta_assignment_id a) run (hq_fixture_mode q) (hq_fixture_git_commit q) (Some at) w2 = (Inr (bound, prepared), w3)"
    unfolding bind_run_def bnd_Inr by (auto simp: bnd_Inr check_Inr give_eq split: prod.splits)
  note b = bound_identifiers [OF assms(2) t(2) current_task_id [OF t(1)]]
  show "is_Identifier (at_task_id task)" by (rule b(1))
  show "\<exists>g. ts_generation_id board = Some g \<and> is_Identifier g" by (rule b(2))
  show "1 \<le> at_revision task" by (rule b(3))
  show "is_Identifier (ta_employee_id bound)" using prepared_assignment_ok [OF p assms(3)] by (simp add: TaskAssignment_ok_def)
qed

lemma run_id_identifier: "service_ok env \<Longrightarrow> is_Identifier (run_id_for env key q)"
  unfolding run_id_for_def derive_id_def sha256_hex_def by (rule derived_identifier) (simp_all add: service_ok_def)

lemma launching_launch:
  "service_ok env \<Longrightarrow> plan_ok h \<Longrightarrow> launching (run_limit env) (bh_run_id h) (launch env h)"
  unfolding launching_def by (intro allI impI launch_state)

definition bound_ok :: "'z bound_heartbeat_scheme \<Rightarrow> bool" where
  "bound_ok h \<longleftrightarrow> is_Identifier (at_task_id (bh_task h)) \<and>
     (\<exists>g. ts_generation_id (bh_board h) = Some g \<and> is_Identifier g) \<and> 1 \<le> at_revision (bh_task h) \<and>
     is_Identifier (ta_employee_id (bh_assignment h)) \<and> is_Identifier (bh_run_id h)"

lemma launching_plan:
  assumes "service_ok env" "bound_ok (h :: approved_heartbeat)"
  shows "launching (run_limit env) (bh_run_id h) (plan_run env h)"
proof -
  have "bh_run_id (approved_heartbeat.extend h (planned_heartbeat.fields e c p)) = bh_run_id h"
    "plan_ok (approved_heartbeat.extend h (planned_heartbeat.fields e c p))" for e c p
    using assms(2) by (simp_all add: bound_ok_def plan_ok_def approved_heartbeat.defs planned_heartbeat.defs)
  note h = this
  have "launching (run_limit env) (bh_run_id h) (launch env (approved_heartbeat.extend h (planned_heartbeat.fields e c p)))" for e c p
    using launching_launch [OF assms(1) h(2)] by (simp only: h(1))
  note launch = this
  show ?thesis
    unfolding plan_run_def Let_def
    apply (rule launching_bnd, rule gentle_lift, rule launching_if, rule launching_answer, rule gentle_blocked)
    apply (rule launching_bnd, rule gentle_lift, rule launching_bnd, rule gentle_create)
    apply (intro launching_prod launching_bnd launch gentle_lift)
    done
qed

lemma launching_authorize:
  assumes "service_ok env" "bound_ok (h :: bound_heartbeat)"
  shows "launching (run_limit env) (bh_run_id h) (authorize_run env h)"
proof -
  have "bh_run_id (bound_heartbeat.extend h (approved_heartbeat.fields ad b u ap d)) = bh_run_id h"
    "bound_ok (bound_heartbeat.extend h (approved_heartbeat.fields ad b u ap d))" for ad b u ap d
    using assms(2) by (simp_all add: bound_ok_def bound_heartbeat.defs approved_heartbeat.defs)
  note h = this
  have "launching (run_limit env) (bh_run_id h) (plan_run env (bound_heartbeat.extend h (approved_heartbeat.fields ad b u ap d)))" for ad b u ap d
    using launching_plan [OF assms(1) h(2)] by (simp only: h(1))
  note plan = this
  have *: "launching (run_limit env) (bh_run_id h)
      (if pd_outcome d \<noteq> ALLOW then
         (let required = pd_outcome d = REQUIRE_APPROVAL in
          bh_blocked env h (if required then ''approval_required'' else ''policy_denied'') (Some d) required None (\<not> required))
       else plan_run env (bound_heartbeat.extend h (approved_heartbeat.fields ad b u ap d)))" for ad b u ap d
    unfolding Let_def by (intro launching_if launching_answer gentle_blocked plan)
  show ?thesis
  proof (cases "sv_adapters env (ta_runtime_adapter_id (bh_assignment h))")
    case None
    then show ?thesis unfolding authorize_run_def by (auto intro!: launching_answer gentle_blocked)
  next
    case (Some adapter)
    have inner: "launching (run_limit env) (bh_run_id h)
        (bnd (case hq_approval_id (bh_request h) of None \<Rightarrow> give None | Some i \<Rightarrow> get env ''approval'' as_approval i) (\<lambda>approval.
     if hq_approval_id (bh_request h) \<noteq> None \<and> approval = None then
       bh_blocked env h ''approval_missing'' None False None False
     else
       bnd (lift (rcatch (evaluate_execution_policy (sv_sha env) (sv_strip env)
              (runtime_policy_request env h adapter budget usage approval) (xc_features (sv_config env)) (bh_started_at h))
              ServicePolicy)) (\<lambda>decision.
       bnd (put env (XPolicyDecision decision) None) (\<lambda>_.
       if pd_outcome decision \<noteq> ALLOW then
         (let required = pd_outcome decision = REQUIRE_APPROVAL in
          bh_blocked env h (if required then ''approval_required'' else ''policy_denied'') (Some decision) required None (\<not> required))
       else plan_run env (bound_heartbeat.extend h (approved_heartbeat.fields adapter budget usage approval decision))))))" for budget usage
      by (intro launching_bnd launching_if launching_answer gentle_blocked gentle_option gentle_give gentle_get gentle_lift gentle_put *)
    show ?thesis
      unfolding authorize_run_def Some option.case by (intro launching_bnd gentle_create launching_prod inner)
  qed
qed

lemma gentle_prepare [gentleI]: "gentle (prepare_workspace env i run fix git now)"
  unfolding prepare_workspace_def by (intro gentleI)

lemma gentle_bind_run [gentleI]: "gentle (bind_run env q run a at)"
  unfolding bind_run_def by (intro gentleI)

lemma launching_gated:
  assumes "service_ok env"
  shows "launching (run_limit env) (run_id_for env key q) (gated_heartbeat env q key)"
proof -
  let ?run = "run_id_for env key q" and ?op = "operation_for env key"
  have auth: "launching (run_limit env) ?run (authorize_run env \<lparr>bh_request = q, bh_key = key, bh_run_id = ?run, bh_operation = ?op, bh_started_at = started,
        bh_assignment = bound, bh_board = board, bh_task = task, bh_employee = emp, bh_prepared = prepared\<rparr>)"
    if "active_assignment env i w1 = (Inr a, w2)" "bind_run env q ?run a started w = (Inr (board, task, emp, bound, prepared), w')"
    for started bound board task emp prepared a w w' w1 w2 i
    using launching_authorize [OF assms, of "\<lparr>bh_request = q, bh_key = key, bh_run_id = ?run, bh_operation = ?op, bh_started_at = started,
        bh_assignment = bound, bh_board = board, bh_task = task, bh_employee = emp, bh_prepared = prepared\<rparr>"]
      bind_run_ok [OF that(2) active_assignment_ok [OF that(1) assms] assms] run_id_identifier [OF assms, of key q]
    by (simp add: bound_ok_def)
  show ?thesis
    unfolding gated_heartbeat_def Let_def
    apply (rule launching_bnd, rule gentle_timestamp, rule launching_bnd, rule gentle_lookups)
    apply (intro launching_if launching_answer gentle_blocked)
    apply (rule launching_attempt, rule gentle_gate, intro launching_if launching_answer gentle_blocked launching_fail)
    apply (rule launching_attempt, rule gentle_bind_run, intro launching_if launching_answer gentle_blocked launching_fail)
    apply (intro launching_prod, hypsubst, rule auth, assumption+)
    done
qed

lemma gentle_replay [gentleI]: "gentle (replay_run env q key run)"
  unfolding replay_run_def by (intro gentleI)

text \<open>A heartbeat keeps the leases accounted for; only a launched run is active afterwards.\<close>

definition pulse_post :: "nat \<Rightarrow> world \<Rightarrow> (service_error, heartbeat_reply) result \<Rightarrow> world \<Rightarrow> bool" where
  "pulse_post lim w r w' \<longleftrightarrow> accounted lim w' \<and> w_platform w' = w_platform w \<and>
     (case r of Inr (Launched i) \<Rightarrow> checkouts w i = None \<and> checkouts w' = (checkouts w)(i := checkouts w' i)
      | _ \<Rightarrow> checkouts w' = checkouts w)"

definition pulse :: "nat \<Rightarrow> heartbeat_reply saga \<Rightarrow> bool" where
  "pulse lim m \<longleftrightarrow> (\<forall>w r w'. accounted lim w \<longrightarrow> m w = (r, w') \<longrightarrow> pulse_post lim w r w')"

lemma pulse_post_mild: "mild w w1 \<Longrightarrow> pulse_post lim w1 r w' \<Longrightarrow> pulse_post lim w r w'"
  by (simp add: pulse_post_def mild_def beside_def split: sum.splits heartbeat_reply.splits)

lemma mild_pulse_post: "mild w w' \<Longrightarrow> accounted lim w \<Longrightarrow> (\<And>i. r \<noteq> Inr (Launched i)) \<Longrightarrow> pulse_post lim w r w'"
  using mild_accounted [of w w'] by (simp add: pulse_post_def mild_def beside_def split: sum.split heartbeat_reply.split)

lemma launch_pulse_post: "launch_post lim run w r w' \<Longrightarrow> checkouts w run = None \<Longrightarrow> pulse_post lim w r w'"
  by (simp add: pulse_post_def launch_post_def split: sum.splits heartbeat_reply.splits)

lemma pulse_answer: "gentle m \<Longrightarrow> pulse lim (answer m)"
  unfolding pulse_def
  by (intro allI impI, rule mild_pulse_post [OF gentleD [OF gentle_answer]]) (assumption | erule answer_not_launched)+

lemma pulse_fail: "pulse lim (fail e)"
  unfolding pulse_def fail_eq by (auto intro!: mild_pulse_post)

lemma pulse_bnd:
  assumes "gentle m" "\<And>x. pulse lim (f x)"
  shows "pulse lim (bnd m f)"
  unfolding pulse_def bnd_eq
proof (intro allI impI, elim disjE exE conjE)
  fix w w' e and r :: "(service_error, heartbeat_reply) result"
  assume "accounted lim w" "m w = (Inl e, w')" "r = Inl e"
  then show "pulse_post lim w r w'" using gentleD [OF assms(1)] by (intro mild_pulse_post) simp_all
next
  fix w r w' x w1 assume a: "accounted lim w" "m w = (Inr x, w1)" "f x w1 = (r, w')"
  have m: "mild w w1" using gentleD [OF assms(1) a(2)] .
  have "pulse_post lim w1 r w'" using assms(2) [of x] a(3) mild_accounted [OF m a(1)] by (simp add: pulse_def)
  then show "pulse_post lim w r w'" by (rule pulse_post_mild [OF m])
qed

lemma pulse_option: "pulse lim m \<Longrightarrow> (\<And>y. pulse lim (f y)) \<Longrightarrow> pulse lim (case x of None \<Rightarrow> m | Some y \<Rightarrow> f y)"
  by (cases x) simp_all

lemma pulse_list: "pulse lim m \<Longrightarrow> (\<And>a l. pulse lim (f a l)) \<Longrightarrow> pulse lim (case xs of [] \<Rightarrow> m | a # l \<Rightarrow> f a l)"
  by (cases xs) simp_all

lemma pulse_existing:
  assumes "launching lim run g" "\<And>x. gentle (f x)"
  shows "pulse lim (bnd (get env ''run'' as_run run) (\<lambda>existing. case existing of Some x \<Rightarrow> answer (f x) | None \<Rightarrow> g))"
  unfolding pulse_def bnd_eq
proof (intro allI impI, elim disjE exE conjE)
  fix w w' e and r :: "(service_error, heartbeat_reply) result"
  assume "accounted lim w" "get env ''run'' as_run run w = (Inl e, w')" "r = Inl e"
  then show "pulse_post lim w r w'" using gentleD [OF gentle_get] by (intro mild_pulse_post) simp_all
next
  fix w r w' x w1
  assume a: "accounted lim w" "get env ''run'' as_run run w = (Inr x, w1)" "(case x of Some x \<Rightarrow> answer (f x) | None \<Rightarrow> g) w1 = (r, w')"
  have m: "mild w w1" using gentleD [OF gentle_get a(2)] .
  note acc = mild_accounted [OF m a(1)]
  show "pulse_post lim w r w'"
  proof (cases x)
    case (Some y)
    with a(3) have "answer (f y) w1 = (r, w')" by simp
    with pulse_answer [OF assms(2)] acc have "pulse_post lim w1 r w'" by (simp add: pulse_def)
    then show ?thesis by (rule pulse_post_mild [OF m])
  next
    case None
    then have "checkouts w run = None" using checkout_not_missing [OF a(1)] a(2) by blast
    then have none: "checkouts w1 run = None" using m by (simp add: mild_def beside_def)
    from a(3) None have "g w1 = (r, w')" by simp
    from launch_pulse_post [OF launchingD [OF assms(1) this acc none] none] show ?thesis by (rule pulse_post_mild [OF m])
  qed
qed

lemma pulse_heartbeat: "service_ok env \<Longrightarrow> pulse (run_limit env) (heartbeat env q)"
  unfolding heartbeat_def
  by (intro pulse_bnd pulse_option pulse_answer pulse_existing launching_gated gentle_replay gentle_lookups gentle_ask_store gentle_from_receipt
      gentle_timestamp gentle_claim gentle_check)

lemma pulse_resume: "service_ok env \<Longrightarrow> pulse (run_limit env) (resume_run env run key ap model fix git)"
  unfolding resume_run_def
  by (intro pulse_bnd pulse_option pulse_list pulse_fail pulse_heartbeat gentle_get gentle_check gentle_list_of)

end
