(* ===== verification/Saga_Frames.thy ===== *)
theory Saga_Frames
  imports Execution_Launches
begin

text \<open>
  Frames of the programs of the execution service. \<open>keeps R m\<close> says that a program keeps the relation \<open>R\<close>
  between the world before and after it on every branch, errors included, and the rules of \<open>keepI\<close> follow the
  shape of a program. \<open>saga_order\<close> asks for a preorder; \<open>saga_frame\<close> is one that only looks at the workspace
  and the records, \<open>service_frame\<close> one that gentle programs and the writes of the service to leases and
  active runs keep, so that its operations keep it.
\<close>

section \<open>Programs\<close>

definition keeps :: "(world \<Rightarrow> world \<Rightarrow> bool) \<Rightarrow> 'a saga \<Rightarrow> bool" where
  "keeps R m \<longleftrightarrow> (\<forall>w. R w (snd (m w)))"

named_theorems keepI \<open>programs that stay inside a frame\<close>

lemma keepsD: "keeps R m \<Longrightarrow> m w = (r, w') \<Longrightarrow> R w w'"
  by (metis keeps_def snd_conv)

locale saga_order =
  fixes R :: "world \<Rightarrow> world \<Rightarrow> bool"
  assumes refl: "R w w" and trans: "R a b \<Longrightarrow> R b c \<Longrightarrow> R a c"
begin

lemma give [keepI]: "keeps R (give x)" by (simp add: keeps_def give_def refl)
lemma fail [keepI]: "keeps R (fail e)" by (simp add: keeps_def fail_def refl)
lemma lift [keepI]: "keeps R (lift r)" by (simp add: keeps_def lift_def refl)
lemma check [keepI]: "keeps R (check b e)" by (simp add: check_def give fail)
lemma validated [keepI]: "keeps R (validated ok x)" by (simp add: validated_def give fail)
lemma read [keepI]: "keeps R (read_world g)" by (simp add: keeps_def read_world_def refl)
lemma ask_store [keepI]: "keeps R (ask_store q)" by (simp add: keeps_def ask_store_def refl)
lemma gate [keepI]: "keeps R (emergency_gate env)" by (simp add: keeps_def emergency_gate_def refl)

lemma attempt [keepI]:
  assumes "keeps R m" "\<And>e. keeps R (h e)" "\<And>w x w'. m w = (Inr x, w') \<Longrightarrow> keeps R (k x)"
  shows "keeps R (attempt m h k)"
  unfolding keeps_def
proof
  fix w
  obtain r w1 where m: "m w = (r, w1)" by fastforce
  have "R w1 (snd (case r of Inl e \<Rightarrow> h e w1 | Inr x \<Rightarrow> k x w1))"
    using assms(2,3) m by (cases r) (simp_all add: keeps_def)
  with keepsD [OF assms(1) m] have "R w (snd (case r of Inl e \<Rightarrow> h e w1 | Inr x \<Rightarrow> k x w1))" by (rule trans)
  then show "R w (snd (attempt m h k w))" by (simp add: attempt_def m split: sum.splits)
qed

lemma bnd [keepI]: "keeps R m \<Longrightarrow> (\<And>w x w'. m w = (Inr x, w') \<Longrightarrow> keeps R (f x)) \<Longrightarrow> keeps R (bnd m f)"
  unfolding bnd_attempt by (rule attempt [OF _ fail])

lemma ensuring [keepI]:
  assumes "keeps R m" "keeps R f"
  shows "keeps R (ensuring m f)"
  unfolding keeps_def
proof
  fix w
  obtain r w1 where m: "m w = (r, w1)" by fastforce
  obtain q w2 where f: "f w1 = (q, w2)" by fastforce
  have "R w w2" using keepsD [OF assms(1) m] keepsD [OF assms(2) f] by (rule trans)
  then show "R w (snd (ensuring m f w))" by (simp add: ensuring_def m f split: sum.splits)
qed

lemma cond [keepI]: "(b \<Longrightarrow> keeps R m) \<Longrightarrow> (\<not> b \<Longrightarrow> keeps R n) \<Longrightarrow> keeps R (if b then m else n)" by simp
lemma option [keepI]: "(x = None \<Longrightarrow> keeps R m) \<Longrightarrow> (\<And>y. x = Some y \<Longrightarrow> keeps R (f y)) \<Longrightarrow>
    keeps R (case x of None \<Rightarrow> m | Some y \<Rightarrow> f y)" by (cases x) simp_all
lemma prod [keepI]: "(\<And>a b. p = (a, b) \<Longrightarrow> keeps R (f a b)) \<Longrightarrow> keeps R (case p of (a, b) \<Rightarrow> f a b)" by (cases p) simp
lemma list [keepI]: "keeps R m \<Longrightarrow> (\<And>a l. keeps R (f a l)) \<Longrightarrow> keeps R (case xs of [] \<Rightarrow> m | a # l \<Rightarrow> f a l)"
  by (cases xs) simp_all
lemma marker [keepI]: "keeps R a \<Longrightarrow> keeps R b \<Longrightarrow> keeps R c \<Longrightarrow>
    keeps R (case x of NoMarker \<Rightarrow> a | PlainMarker \<Rightarrow> b | UnsafeMarker \<Rightarrow> c)" by (cases x) simp_all

end

section \<open>Workspace and records\<close>

locale saga_frame = saga_order +
  assumes quiet: "w_files w' = w_files w \<Longrightarrow> xd_records (w_store w') = xd_records (w_store w) \<Longrightarrow>
      xd_heads (w_store w') = xd_heads (w_store w) \<Longrightarrow> R w w'"
begin

lemma asking [keepI]: "keeps R (asking f)" by (simp add: keeps_def asking_def quiet)
lemma set_active [keepI]: "keeps R (set_active run a)" by (simp add: keeps_def set_active_def quiet)
lemma update_active [keepI]: "keeps R (update_active run f)" by (simp add: keeps_def update_active_def quiet)
lemma on_control [keepI]: "keeps R (on_control t)"
  by (auto simp: keeps_def on_control_def refl intro: quiet split: sum.split)
lemma on_leases [keepI]: "keeps R (on_leases m)"
  by (auto simp: keeps_def on_leases_def intro: quiet split: prod.split)
lemma receipt [keepI]: "keeps R (on_store (store_receipt env now scope key request receipt))"
  by (auto simp: keeps_def on_store_def refl store_receipt_def result_simps Let_def intro!: quiet
      split: sum.split option.splits if_splits)
lemma transcript [keepI]: "keeps R (on_store (append_transcript env event))"
  by (auto simp: keeps_def on_store_def refl append_transcript_def result_simps intro!: quiet
      split: sum.split option.splits if_splits)

lemma timestamp [keepI]: "keeps R (timestamp env v f)"
  unfolding timestamp_def by (intro keepI)
lemma get [keepI]: "keeps R (get env kind select i)"
  unfolding get_def by (intro keepI)
lemma list_of [keepI]: "keeps R (list_of env kind select q n)"
  unfolding list_of_def by (intro keepI)
lemma head_of [keepI]: "keeps R (head_of kind i)"
  unfolding head_of_def by (intro keepI)

lemma current_task [keepI]: "keeps R (current_task env t)"
proof -
  have "keeps R (on_files (\<lambda>fs. (Task_Ledger.snapshot (sv_tasks env) fs, fs)))"
    by (simp add: keeps_def on_files_def quiet)
  then show ?thesis unfolding current_task_def by (intro keepI)
qed

lemma lookups [keepI]:
  "keeps R (employee_named env e)" "keeps R (active_assignment env i)" "keeps R (required_generation board)"
  unfolding employee_named_def active_assignment_def required_generation_def by (intro keepI)+

lemma makers [keepI]:
  "keeps R (make_TaskAssignment env a)" "keeps R (make_ExecutionRun env r)" "keeps R (make_Session env s)" "keeps R (make_BudgetUsage env u)"
  unfolding make_TaskAssignment_def make_ExecutionRun_def make_Session_def make_BudgetUsage_def by (intro keepI)+

lemma event [keepI]: "keeps R (append_run_event env run n stream ty body at red)"
  unfolding append_run_event_def Let_def by (intro keepI)

lemma chunks [keepI]: "keeps R (append_chunks env run stream red at n cs)"
  by (induction cs arbitrary: n) (auto intro!: keepI)

lemma outcome_transcript [keepI]: "keeps R (append_outcome_transcript env run outcome at)"
  unfolding append_outcome_transcript_def append_stream_def Let_def by (intro keepI)

lemma result [keepI]: "keeps R (result_for_run env run no_op)"
  unfolding result_for_run_def by (intro keepI)

lemma finalize [keepI]: "keeps R (finalize_receipt env op key request r)"
  unfolding finalize_receipt_def by (intro keepI)

lemma changed [keepI]: "keeps R (changed_files env found)"
  unfolding changed_files_def changed_names_def Let_def by (intro keepI)

lemma free_lease [keepI]: "keeps R (free_lease tok)"
  unfolding free_lease_def by (intro keepI)

lemma returned [keepI]: "keeps R (returned_outcome a returned)"
  unfolding returned_outcome_def by (intro keepI)

end

section \<open>Leases and active runs\<close>

lemma returned_outcome_gentle [gentleI]: "gentle (returned_outcome a returned)"
  unfolding returned_outcome_def by (intro gentleI)

locale service_frame = saga_order +
  fixes A :: "string set"
  assumes mild: "mild w w' \<Longrightarrow> R w w'"
    and control: "R w (w\<lparr>w_control := db\<rparr>)"
    and active: "x = None \<or> i \<in> A \<Longrightarrow> R w (w\<lparr>w_active := (w_active w)(i := x)\<rparr>)"
begin

lemma gentle: "gentle m \<Longrightarrow> keeps R m"
  by (simp add: gentle_def keeps_def mild)

lemma controls [keepI]: "keeps R (on_control t)" "keeps R (on_leases l)"
  by (auto simp: keeps_def on_control_def on_leases_def refl control split: sum.split prod.split)

lemma clear [keepI]: "keeps R (set_active i None)"
  by (simp add: keeps_def set_active_def active)

lemma set_active: "i \<in> A \<Longrightarrow> keeps R (set_active i x)"
  by (simp add: keeps_def set_active_def active)

lemma slot [keepI]: "keeps R (slot env name n run now)"
proof -
  have "keeps R (slot_loop env name run now xs)" for xs
    by (induction xs) (auto intro!: keepI)
  then show ?thesis by (simp add: slot_def)
qed

lemma free_lease [keepI]: "keeps R (free_lease tok)"
  unfolding free_lease_def by (intro keepI)

lemma checkout [keepI]: "keeps R (checkout env a emp board task run now)"
  unfolding checkout_def by (intro keepI gentle [OF gentle_lookups(4)])

lemma release [keepI]: "keeps R (release_checkout env ck)"
  unfolding release_checkout_def head_of_def by (intro keepI gentle [OF gentle_put])

lemma closing [keepI]: "keeps R m \<Longrightarrow> keeps R (closing env run ck m)"
  unfolding closing_def by (intro keepI)

lemma claim [keepI]: "keeps R (claim_task env h ck)"
  unfolding claim_task_def by (intro keepI gentle [OF gentle_lookups(4)] gentle [OF gentle_moves(1)])

lemma start: "bh_run_id h \<in> A \<Longrightarrow> keeps R (start_run env h ck i s run)"
  unfolding start_run_def
  by (intro keepI set_active gentle [OF gentle_put] gentle [OF gentle_events] gentle [OF gentle_create(3)])

lemma launch: "bh_run_id h \<in> A \<Longrightarrow> keeps R (launch env h)"
  unfolding launch_def take_checkout_def Let_def
  by (intro keepI start gentle [OF gentle_gate_pre] gentle [OF gentle_record_run] gentle [OF gentle_answer [OF gentle_run_failed]])

lemma blocked: "keeps R (bh_blocked env h code d required why moved)"
  by (rule gentle) (intro gentleI)

lemma plan: "bh_run_id h \<in> A \<Longrightarrow> keeps R (plan_run env h)"
  unfolding plan_run_def Let_def
  by (intro keepI blocked launch gentle [OF gentle_create(6)]) (simp add: approved_heartbeat.defs planned_heartbeat.defs)

lemma authorize: "bh_run_id h \<in> A \<Longrightarrow> keeps R (authorize_run env h)"
  unfolding authorize_run_def Let_def
  by (intro keepI blocked plan gentle [OF gentle_create(5)] gentle [OF gentle_get] gentle [OF gentle_put])
    (simp add: bound_heartbeat.defs approved_heartbeat.defs)

lemma gated: "run_id_for env key q \<in> A \<Longrightarrow> keeps R (gated_heartbeat env q key)"
  unfolding gated_heartbeat_def Let_def
  by (intro keepI authorize gentle [OF gentle_timestamp] gentle [OF gentle_lookups(3)] gentle [OF gentle_bind_run]
      gentle [OF gentle_answer [OF gentle_blocked]]) simp

lemma heartbeat:
  assumes "\<And>key. keeps R (bnd (get env ''run'' as_run (run_id_for env key q)) (\<lambda>existing.
      case existing of Some run \<Rightarrow> answer (replay_run env q key run) | None \<Rightarrow> gated_heartbeat env q key))"
  shows "keeps R (heartbeat env q)"
  unfolding heartbeat_def
  by (intro keepI assms gentle [OF gentle_lookups(5)] gentle [OF gentle_timestamp] gentle [OF gentle_answer [OF gentle_from_receipt]])

lemma resume: "(\<And>q. keeps R (heartbeat env q)) \<Longrightarrow> keeps R (resume_run env run key apr model fx git)"
  unfolding resume_run_def by (intro keepI gentle [OF gentle_get] gentle [OF gentle_list_of])

lemma tick_failed: "keeps R (update_active run (\<lambda>a. a\<lparr>ar_renewal_error := Some e, ar_cancelled := True,
     ar_intent := (if e = ServiceEmergency EmergencyError then Some ''emergency'' else ar_intent a)\<rparr>))"
  by (rule gentle, rule gentle_update_active) (auto simp: run_stopped_def)

lemma tick_body: "(\<And>x. keeps R (set_active run (Some (a\<lparr>ar_checkout := x\<rparr>)))) \<Longrightarrow> keeps R (renew_tick_body env run a)"
  unfolding renew_tick_body_def Let_def
  by (intro keepI gentle [OF gentle_timestamp] gentle [OF gentle_put_next])

lemma tick: "run \<in> A \<Longrightarrow> keeps R (renew_tick env run)"
  unfolding renew_tick_def by (intro keepI tick_body tick_failed set_active)

lemma collects: "keeps R (collect env run returned)" "keeps R (collect_cancelled env run)"
  unfolding collect_def collect_cancelled_def
  by (intro keepI gentle [OF returned_outcome_gentle] gentle [OF gentle_timestamp] gentle [OF gentle_finish] gentle [OF gentle_run_failed]
      gentle [OF gentle_terminalize])+

end

end
