(* ===== verification/Execution_Steps.thy ===== *)
theory Execution_Steps
  imports Saga_Frames
begin

text \<open>
  The other operations keep the invariant too: the renewal of the leases of an active run, the collection
  of its outcome, and the operations that only write records. \<open>service_step\<close> is one operation of the
  service or a change by another command; records stay, and a run that is launched was not stored before.
\<close>

section \<open>Renewing, collecting and recovering\<close>

definition claims :: "run_checkout \<Rightarrow> run_checkout \<Rightarrow> bool" where
  "claims c d \<longleftrightarrow> same_claim (lease_token_of (ck_task_lease c)) (lease_token_of (ck_task_lease d)) \<and>
     same_claim (ck_global_slot c) (ck_global_slot d) \<and> same_claim (ck_employee_slot c) (ck_employee_slot d)"

lemma claims_refl [simp]: "claims c c" by (simp add: claims_def)

lemma claims_joint: "claims a b \<Longrightarrow> claims a c \<Longrightarrow> claims b c" by (simp add: claims_def same_claim_def)

lemma claims_tokens: "claims c d \<Longrightarrow> t \<in> tokens c \<Longrightarrow> \<exists>u\<in>tokens d. same_claim t u"
  by (auto simp: claims_def tokens_def)

lemma claims_ok: "claims c d \<Longrightarrow> checkout_ok lim run c \<Longrightarrow> checkout_ok lim run d"
  by (auto simp: claims_def checkout_ok_def tokens_def same_claim_def)

definition tick_inv :: "nat \<Rightarrow> string \<Rightarrow> run_checkout \<Rightarrow> world \<Rightarrow> bool" where
  "tick_inv lim run ck w \<longleftrightarrow> accounted lim w \<and> (\<exists>c. checkouts w run = Some c \<and> claims ck c)"

definition tick_frame :: "string \<Rightarrow> world \<Rightarrow> world \<Rightarrow> bool" where
  "tick_frame run w w' \<longleftrightarrow> w_platform w' = w_platform w \<and> (\<forall>j. j \<noteq> run \<longrightarrow> checkouts w' j = checkouts w j)"

definition ticking :: "nat \<Rightarrow> string \<Rightarrow> run_checkout \<Rightarrow> 'a saga \<Rightarrow> bool" where
  "ticking lim run ck m \<longleftrightarrow> (\<forall>w. tick_inv lim run ck w \<longrightarrow> tick_inv lim run ck (snd (m w)) \<and> tick_frame run w (snd (m w)))"

lemma ticking_gentle: "gentle m \<Longrightarrow> ticking lim run ck m"
  unfolding ticking_def tick_inv_def tick_frame_def gentle_def using mild_accounted by (fastforce simp: mild_def beside_def)

lemma ticking_bnd:
  assumes "ticking lim run ck m" "\<And>w x w'. m w = (Inr x, w') \<Longrightarrow> ticking lim run ck (f x)"
  shows "ticking lim run ck (bnd m f)"
  unfolding ticking_def
proof (intro allI impI)
  fix w assume w: "tick_inv lim run ck w"
  obtain r w1 where m: "m w = (r, w1)" by fastforce
  with w assms(1) have 1: "tick_inv lim run ck w1" "tick_frame run w w1" unfolding ticking_def by (metis snd_conv)+
  show "tick_inv lim run ck (snd (bnd m f w)) \<and> tick_frame run w (snd (bnd m f w))"
  proof (cases r)
    case (Inl e)
    then show ?thesis using m 1 by (simp add: bnd_def)
  next
    case (Inr x)
    with m assms(2) 1 have "tick_inv lim run ck (snd (f x w1)) \<and> tick_frame run w1 (snd (f x w1))" unfolding ticking_def by blast
    then show ?thesis using m Inr 1 by (simp add: bnd_def tick_frame_def)
  qed
qed

lemma tick_control:
  assumes "tick_inv lim run ck w" "\<And>L. covered L db = covered L (w_control w)" "control_ok db"
  shows "tick_inv lim run ck (w\<lparr>w_control := db\<rparr>)" "tick_frame run w (w\<lparr>w_control := db\<rparr>)"
proof -
  have c: "checkouts (w\<lparr>w_control := db\<rparr>) = checkouts w" by (auto simp: checkouts_def fun_eq_iff)
  show "tick_inv lim run ck (w\<lparr>w_control := db\<rparr>)"
    using assms unfolding tick_inv_def accounted_def lease_state_def c by simp
  show "tick_frame run w (w\<lparr>w_control := db\<rparr>)" by (simp add: tick_frame_def c)
qed

lemma ticking_renew: "ticking lim run ck (on_control (\<lambda>db. renew_lease db tok ttl n))"
  unfolding ticking_def
proof (intro allI impI)
  fix w assume w: "tick_inv lim run ck w"
  let ?m = "on_control (\<lambda>db. renew_lease db tok ttl n)"
  show "tick_inv lim run ck (snd (?m w)) \<and> tick_frame run w (snd (?m w))"
  proof (cases "renew_lease (w_control w) tok ttl n")
    case (Inl e)
    then show ?thesis using w by (simp add: on_control_def tick_frame_def)
  next
    case (Inr p)
    then obtain t db where r: "renew_lease (w_control w) tok ttl n = Inr (t, db)" by (cases p) auto
    have "control_ok (w_control w)" using w by (simp add: tick_inv_def accounted_def lease_state_def)
    from tick_control [OF w covered_renew(1) [OF r] control_ok_renew [OF r this]] show ?thesis
      by (simp add: on_control_def r)
  qed
qed

lemma ticking_renew_task: "ticking lim run ck (on_leases (renew_task ttl lease now))"
  unfolding ticking_def
proof (intro allI impI)
  fix w assume w: "tick_inv lim run ck w"
  let ?m = "on_leases (renew_task ttl lease now)"
  show "tick_inv lim run ck (snd (?m w)) \<and> tick_frame run w (snd (?m w))"
  proof (cases "renew_lease (w_control w) (lease_token_of lease) ttl (milliseconds now)")
    case (Inl e)
    then show ?thesis using w by (simp add: on_leases_def renew_task_def bnd_def txn_def tick_frame_def)
  next
    case (Inr p)
    then obtain t db where r: "renew_lease (w_control w) (lease_token_of lease) ttl (milliseconds now) = Inr (t, db)" by (cases p) auto
    have "control_ok (w_control w)" using w by (simp add: tick_inv_def accounted_def lease_state_def)
    from tick_control [OF w covered_renew(1) [OF r] control_ok_renew [OF r this]] show ?thesis
      by (simp add: on_leases_def renew_task_def bnd_def txn_def give_def r)
  qed
qed

lemma renew_claim: "on_control (\<lambda>db. renew_lease db tok ttl n) w = (Inr t, w') \<Longrightarrow> same_claim tok t"
  by (auto simp: on_control_def split: sum.splits dest: covered_renew(3))

lemma renew_task_claim: "on_leases (renew_task ttl lease now) w = (Inr l, w') \<Longrightarrow> same_claim (lease_token_of lease) (lease_token_of l)"
  by (auto simp: on_leases_def renew_task_def bnd_def txn_def give_def rcatch_def same_claim_def lease_token_of_def split: sum.splits prod.splits)

lemma ticking_keep:
  assumes "claims ck (ar_checkout a)"
  shows "ticking lim run ck (set_active run (Some a))"
  unfolding ticking_def
proof (intro allI impI)
  fix w assume "tick_inv lim run ck w"
  then obtain c where w: "accounted lim w" "checkouts w run = Some c" "claims ck c" by (auto simp: tick_inv_def)
  let ?w = "w\<lparr>w_active := (w_active w)(run \<mapsto> a)\<rparr>" and ?d = "ar_checkout a"
  have cd: "claims c ?d" using w(3) assms by (rule claims_joint)
  have ch: "checkouts ?w = (checkouts w)(run \<mapsto> ?d)" by (auto simp: checkouts_def fun_eq_iff)
  have "covered (held_by (checkouts ?w)) (w_control w)"
  proof (rule covered_claims)
    show "covered (held_by (checkouts w)) (w_control w)" using w(1) by (simp add: accounted_def lease_state_def)
    fix t assume "t \<in> held_by (checkouts w)"
    then obtain j e where t: "checkouts w j = Some e" "t \<in> tokens e" by (rule held_byE)
    show "\<exists>u\<in>held_by (checkouts ?w). same_claim t u"
    proof (cases "j = run")
      case True
      then obtain u where "u \<in> tokens ?d" "same_claim t u" using claims_tokens [OF cd] t w(2) by auto
      then show ?thesis using held_byI [of "checkouts ?w" run ?d u] ch by auto
    next
      case False
      then show ?thesis using t held_byI [of "checkouts ?w" j e t] ch by (intro bexI [of _ t]) auto
    qed
  qed
  moreover have "checkout_ok lim run ?d" "stored (w_store w) ''run'' run"
    using claims_ok [OF cd] w(1,2) by (auto simp: accounted_def)
  ultimately have "accounted lim ?w" using w(1) unfolding accounted_def ch lease_state_def by (auto split: if_splits)
  then show "tick_inv lim run ck (snd (set_active run (Some a) w)) \<and> tick_frame run w (snd (set_active run (Some a) w))"
    using ch assms by (simp add: set_active_def tick_inv_def tick_frame_def)
qed

lemma ticking_body: "ticking lim run (ar_checkout a) (renew_tick_body env run a)"
  unfolding renew_tick_body_def Let_def
  apply (rule ticking_bnd, rule ticking_gentle, rule gentle_gate)
  apply (rule ticking_bnd, rule ticking_gentle, rule gentle_timestamp)
  apply (rule ticking_bnd, rule ticking_renew_task)
  apply (drule renew_task_claim)
  apply (rule ticking_bnd, rule ticking_keep, simp add: claims_def)
  apply (rule ticking_bnd, rule ticking_gentle, rule gentle_put_next)
  apply (rule ticking_bnd, rule ticking_renew)
  apply (drule renew_claim)
  apply (rule ticking_bnd, rule ticking_keep, simp add: claims_def)
  apply (rule ticking_bnd, rule ticking_renew)
  apply (drule renew_claim)
  apply (rule ticking_keep, simp add: claims_def)
  done

lemma renew_tick_state:
  assumes "renew_tick env run w = (r, w')" "accounted lim w"
  shows "accounted lim w'" "w_platform w' = w_platform w" "checkouts w' j = None \<longleftrightarrow> checkouts w j = None"
proof -
  have "accounted lim w' \<and> w_platform w' = w_platform w \<and> (checkouts w' j = None \<longleftrightarrow> checkouts w j = None)"
  proof (cases "w_active w run")
    case None
    then show ?thesis using assms by (auto simp: renew_tick_def bnd_def read_world_def give_def)
  next
    case (Some a)
    show ?thesis
    proof (cases "ar_renewal_error a = None")
      case False
      then show ?thesis using assms Some by (auto simp: renew_tick_def bnd_def read_world_def give_def)
    next
      case True
      obtain r1 w1 where b: "renew_tick_body env run a w = (r1, w1)" by fastforce
      have ck: "checkouts w run = Some (ar_checkout a)" by (simp add: checkouts_def Some)
      have "tick_inv lim run (ar_checkout a) w" using assms(2) ck by (simp add: tick_inv_def)
      then have 1: "tick_inv lim run (ar_checkout a) w1" "tick_frame run w w1"
        using ticking_body [of lim run a env] b unfolding ticking_def by (metis snd_conv)+
      have w': "mild w1 w'"
      proof (cases r1)
        case (Inl e)
        let ?h = "update_active run (\<lambda>a. a\<lparr>ar_renewal_error := Some e, ar_cancelled := True,
              ar_intent := (if e = ServiceEmergency EmergencyError then Some ''emergency'' else ar_intent a)\<rparr>)"
        have "?h w1 = (r, w')"
          using assms(1) b Some True Inl by (simp add: renew_tick_def bnd_def read_world_def attempt_eq)
        moreover have "gentle ?h" by (rule gentle_update_active) (auto simp: run_stopped_def)
        ultimately show ?thesis by (blast intro: gentleD)
      next
        case (Inr u)
        then have "w' = w1" using assms(1) b Some True by (simp add: renew_tick_def bnd_def read_world_def attempt_eq give_eq)
        then show ?thesis by simp
      qed
      show ?thesis
        using 1 w' mild_accounted [OF w'] ck unfolding tick_inv_def tick_frame_def
        by (cases "j = run") (auto simp: mild_def beside_def)
    qed
  qed
  then show "accounted lim w'" "w_platform w' = w_platform w" "checkouts w' j = None \<longleftrightarrow> checkouts w j = None" by auto
qed

lemma closing_active:
  assumes "closing env run (ar_checkout a) m w = (r, w')" "gentle m" "accounted lim w" "w_active w run = Some a"
  shows "accounted lim w'" "checkouts w' = (checkouts w)(run := None)" "w_platform w' = w_platform w" "keeps_stored w w'"
proof -
  have ck: "checkouts w run = Some (ar_checkout a)" using assms(4) by (simp add: checkouts_def)
  have "lease_state (held_by (checkouts w)) w" using assms(3) by (simp add: accounted_def)
  then have L: "lease_state (tokens (ar_checkout a) \<union> held_by ((checkouts w)(run := None))) w"
    by (rule lease_state_mono) (rule held_upd_None, simp add: ck)
  have others: "checkout_ok lim run' c \<and> stored (w_store w) ''run'' run'" if "checkouts w run' = Some c" for run' c
    using assms(3) that unfolding accounted_def by blast
  show "accounted lim w'" "checkouts w' = (checkouts w)(run := None)" "w_platform w' = w_platform w"
    using closing_accounted [OF assms(1,2) L others] by simp_all
  show "keeps_stored w w'" using closing_state(2) [OF assms(1,2) L] .
qed

lemma gentle_service [gentleI]:
  "gentle (assign_task env t e g key b ap now)" "gentle (pause_run env run)" "gentle (cancel_run env run)" "gentle (recover_run env at run')"
proof -
  have bind: "gentle (bind_assignment env board task employee b ap at)" for board task employee at
    unfolding bind_assignment_def Let_def by (intro gentleI)
  have receipt: "gentle (assignment_from_receipt env d)" for d
    unfolding assignment_from_receipt_def by (intro gentleI)
  show "gentle (assign_task env t e g key b ap now)"
    unfolding assign_task_def Let_def by (intro gentleI bind receipt)
  have "gentle (update_active run (\<lambda>a. a\<lparr>ar_intent := Some x, ar_cancelled := y\<rparr>))" if "x \<in> {''pause'', ''cancel''}" for run x y
    by (rule gentle_update_active) (use that in \<open>auto simp: run_stopped_def\<close>)
  then have active: "gentle (update_active run (\<lambda>a. a\<lparr>ar_intent := Some ''pause'', ar_cancelled := y\<rparr>))"
      "gentle (update_active run (\<lambda>a. a\<lparr>ar_intent := Some ''cancel'', ar_cancelled := y\<rparr>))" for run y
    by simp_all
  show "gentle (pause_run env run)" "gentle (cancel_run env run)"
    unfolding pause_run_def cancel_run_def stop_run_def cancellable_run_def by (intro gentleI active)+
  show "gentle (recover_run env at run')"
    unfolding recover_run_def by (intro gentleI active)
qed

lemma gentle_recover_all: "gentle (recover_all env at runs)"
  by (induction runs) (auto intro!: gentleI)

lemma gentle_recover_states: "gentle (recover_states env at ss)"
  by (induction ss) (auto intro!: gentleI gentle_recover_all)

lemma gentle_recover: "gentle (recover_stale_runs env now)"
  unfolding recover_stale_runs_def by (intro gentleI gentle_recover_states)

section \<open>Steps\<close>

text \<open>
  The service runs one operation up to its next suspension point at a time; between operations the other
  commands change the files, the platform store and the records, never the leases.
\<close>

inductive service_step :: "service_env \<Rightarrow> world \<Rightarrow> world \<Rightarrow> bool" for env where
  assign: "assign_task env t e g key b ap now w = (ra, w') \<Longrightarrow> service_step env w w'"
| prepare: "prepare_workspace env i run fix git now w = (rp, w') \<Longrightarrow> service_step env w w'"
| beat: "heartbeat env q w = (rh, w') \<Longrightarrow> service_step env w w'"
| resume: "resume_run env run key apr model fix git w = (rh, w') \<Longrightarrow> service_step env w w'"
| tick: "renew_tick env run w = (ru, w') \<Longrightarrow> service_step env w w'"
| collect: "collect env run returned w = (rc, w') \<Longrightarrow> service_step env w w'"
| shut_down: "collect_cancelled env run w = (rc, w') \<Longrightarrow> service_step env w w'"
| pause: "pause_run env run w = (rs, w') \<Longrightarrow> service_step env w w'"
| cancel: "cancel_run env run w = (rs, w') \<Longrightarrow> service_step env w w'"
| recover: "recover_stale_runs env now w = (rr, w') \<Longrightarrow> service_step env w w'"
| edit: "service_step env w (w\<lparr>w_files := fs\<rparr>)"
| override: "service_step env w (w\<lparr>w_platform := db\<rparr>)"
| store: "put env x n w = (ru, w') \<Longrightarrow> service_step env w w'"

definition keeps_runs :: "world \<Rightarrow> world \<Rightarrow> bool" where
  "keeps_runs w w' \<longleftrightarrow> (\<forall>kind i. stored (w_store w) kind i \<longrightarrow> stored (w_store w') kind i)"

lemma gentle_step: "gentle m \<Longrightarrow> m w = (r, w') \<Longrightarrow> accounted lim w \<Longrightarrow> accounted lim w'"
  by (rule gentle_accounted)

lemma collect_state:
  assumes "collect env run returned w = (r, w')" "accounted lim w"
  shows "accounted lim w'"
proof (cases "w_active w run")
  case None
  then show ?thesis using assms by (auto simp: collect_def bnd_eq read_world_def fail_eq)
next
  case (Some a)
  from assms(1) Some have "closing env run (ar_checkout a)
      (attempt (bnd (returned_outcome a returned) (\<lambda>outcome.
                     bnd (timestamp env None (Some (er_started_at (ar_run a)))) (\<lambda>ended.
                     finish_run env a outcome ended)))
             (run_failed env (ar_run a) (ar_assignment a)) give) w = (r, w')"
    unfolding collect_def bnd_eq [of "read_world _"] by (auto simp: read_world_def)
  from closing_active(1) [OF this _ assms(2) Some] show ?thesis by (blast intro: gentleI)
qed

lemma collect_cancelled_state:
  assumes "collect_cancelled env run w = (r, w')" "accounted lim w"
  shows "accounted lim w'"
proof (cases "w_active w run")
  case None
  then show ?thesis using assms by (auto simp: collect_cancelled_def bnd_eq read_world_def fail_eq)
next
  case (Some a)
  from assms(1) Some have "closing env run (ar_checkout a)
           (bnd (terminalize_exception env (ar_run a) (ar_assignment a) ''service_cancelled'') (\<lambda>_.
            fail (OutsideFailure ''CancelledError''))) w = (r, w')"
    unfolding collect_cancelled_def bnd_eq [of "read_world _"] by (auto simp: read_world_def)
  from closing_active(1) [OF this _ assms(2) Some] show ?thesis by (blast intro: gentleI)
qed

lemma accounted_files: "accounted lim (w\<lparr>w_files := fs\<rparr>) = accounted lim w" "accounted lim (w\<lparr>w_platform := db\<rparr>) = accounted lim w"
  by (simp_all add: accounted_def lease_state_def checkouts_def [abs_def])

lemma step_accounted:
  assumes "service_ok env"
  shows "service_step env w w' \<Longrightarrow> accounted (run_limit env) w \<Longrightarrow> accounted (run_limit env) w'"
proof (induction rule: service_step.induct)
  case (beat q w rh w')
  then show ?case using pulse_heartbeat [OF assms] by (simp add: pulse_def pulse_post_def)
next
  case (resume run key apr model fx git w rh w')
  then show ?case using pulse_resume [OF assms] by (simp add: pulse_def pulse_post_def)
next
  case (tick run w ru w')
  then show ?case using renew_tick_state(1) by blast
next
  case (collect run returned w rc w')
  then show ?case by (rule collect_state)
next
  case (shut_down run w rc w')
  then show ?case by (rule collect_cancelled_state)
next
  case (pause run w rs w')
  then show ?case by (blast intro: gentle_step gentleI)
next
  case (cancel run w rs w')
  then show ?case by (blast intro: gentle_step gentleI)
next
  case (recover now w rr w')
  then show ?case by (blast intro: gentle_step gentle_recover)
qed (simp_all add: accounted_files, (blast intro: gentle_step gentleI)+)

abbreviation service_reach :: "service_env \<Rightarrow> world \<Rightarrow> world \<Rightarrow> bool" where
  "service_reach env \<equiv> (service_step env)\<^sup>*\<^sup>*"

lemma reach_accounted:
  assumes "service_reach env w w'" "service_ok env" "accounted (run_limit env) w"
  shows "accounted (run_limit env) w'"
  using assms(1,3) by (induction rule: rtranclp_induct) (auto intro: step_accounted [OF assms(2)])

text \<open>A process starts with no active run and with no lease in the way.\<close>

definition fresh_world :: "world \<Rightarrow> bool" where
  "fresh_world w \<longleftrightarrow> w_active w = Map.empty \<and> control_ok (w_control w) \<and>
     (\<forall>p row. db_leases (w_control w) p = Some row \<longrightarrow> lr_owner_run_id row = None)"

lemma fresh_accounted: "fresh_world w \<Longrightarrow> accounted lim w"
  by (auto simp: fresh_world_def accounted_def lease_state_def covered_def checkouts_def held_by_def)

section \<open>Records stay\<close>

lemma keeps_runs_refl [simp]: "keeps_runs w w" by (simp add: keeps_runs_def)
lemma keeps_runs_trans: "keeps_runs a b \<Longrightarrow> keeps_runs b c \<Longrightarrow> keeps_runs a c" by (simp add: keeps_runs_def)

interpretation steady: service_frame keeps_runs UNIV
  by standard (auto simp: keeps_runs_def mild_def beside_def)

lemma steady_heartbeat: "keeps keeps_runs (heartbeat env q)"
  by (intro steady.heartbeat keepI steady.gentle [OF gentle_get] steady.gentle [OF gentle_answer [OF gentle_replay]] steady.gated) simp

lemma step_steady: "service_step env w w' \<Longrightarrow> keeps_runs w w'"
proof (induction rule: service_step.induct)
  case (beat q w rh w')
  then show ?case by (rule keepsD [OF steady_heartbeat])
next
  case (resume run key apr model fx git w rh w')
  then show ?case by (rule keepsD [OF steady.resume [OF steady_heartbeat]])
next
  case (tick run w ru w')
  then show ?case by (rule keepsD [OF steady.tick [OF UNIV_I]])
next
  case (collect run returned w rc w')
  then show ?case by (rule keepsD [OF steady.collects(1)])
next
  case (shut_down run w rc w')
  then show ?case by (rule keepsD [OF steady.collects(2)])
next
  case (pause run w rs w')
  then show ?case by (rule keepsD [OF steady.gentle [OF gentle_service(2)]])
next
  case (cancel run w rs w')
  then show ?case by (rule keepsD [OF steady.gentle [OF gentle_service(3)]])
next
  case (recover now w rr w')
  then show ?case by (rule keepsD [OF steady.gentle [OF gentle_recover]])
next
  case (assign t e g key b ap now w ra w')
  then show ?case by (rule keepsD [OF steady.gentle [OF gentle_service(1)]])
next
  case (prepare i run fx git now w rp w')
  then show ?case by (rule keepsD [OF steady.gentle [OF gentle_prepare]])
next
  case (store x n w ru w')
  then show ?case by (rule keepsD [OF steady.gentle [OF gentle_put]])
qed (simp_all add: keeps_runs_def)

lemma reach_steady: "service_reach env w w' \<Longrightarrow> keeps_runs w w'"
  by (induction rule: rtranclp_induct) (auto intro: step_steady keeps_runs_trans)

section \<open>A run is new when it is launched\<close>

definition news :: "nat \<Rightarrow> heartbeat_reply saga \<Rightarrow> bool" where
  "news lim m \<longleftrightarrow> (\<forall>w r w' i. accounted lim w \<longrightarrow> m w = (r, w') \<longrightarrow> r = Inr (Launched i) \<longrightarrow> \<not> stored (w_store w) ''run'' i)"

lemma news_answer: "news lim (answer m)"
  by (auto simp: news_def dest: answer_not_launched)

lemma news_bnd:
  assumes "gentle m" "\<And>x. news lim (f x)"
  shows "news lim (bnd m f)"
  unfolding news_def bnd_eq
proof (intro allI impI, elim disjE exE conjE)
  fix w r w' i x w1 assume a: "accounted lim w" "m w = (Inr x, w1)" "f x w1 = (r, w')" "r = Inr (Launched i)"
  have m: "mild w w1" using gentleD [OF assms(1) a(2)] .
  have "\<not> stored (w_store w1) ''run'' i" using assms(2) a(3,4) mild_accounted [OF m a(1)] unfolding news_def by blast
  then show "\<not> stored (w_store w) ''run'' i" using m by (auto simp: mild_def beside_def)
qed auto

lemma news_option: "news lim m \<Longrightarrow> (\<And>y. news lim (f y)) \<Longrightarrow> news lim (case x of None \<Rightarrow> m | Some y \<Rightarrow> f y)"
  by (cases x) simp_all

lemma get_none: "get env ''run'' as_run run w = (Inr None, w') \<Longrightarrow> \<not> stored (w_store w) ''run'' run"
proof
  assume g: "get env ''run'' as_run run w = (Inr None, w')" and "stored (w_store w) ''run'' run"
  moreover obtain found w1 where "ask_store (get_record (sv_store env) ''run'' run) w = (Inr found, w1)"
    and rest: "(case found of None \<Rightarrow> give None | Some r \<Rightarrow>
      (case as_run r of None \<Rightarrow> fail (ServiceStore ExecutionStoreError) | Some x \<Rightarrow> give (Some x))) w1 = (Inr None, w')"
    using g unfolding get_def bnd_Inr by blast
  moreover have "found = None" using rest by (auto simp: give_eq fail_eq split: option.splits)
  ultimately show False
    by (auto simp: ask_store_def rcatch_def get_record_def stored_def result_simps split: sum.splits)
qed

lemma news_existing:
  assumes "launching lim run g"
  shows "news lim (bnd (get env ''run'' as_run run) (\<lambda>existing. case existing of Some x \<Rightarrow> answer (f x) | None \<Rightarrow> g))"
  unfolding news_def bnd_eq
proof (intro allI impI, elim disjE exE conjE)
  fix w r w' i x w1
  assume a: "accounted lim w" "get env ''run'' as_run run w = (Inr x, w1)" "(case x of Some x \<Rightarrow> answer (f x) | None \<Rightarrow> g) w1 = (r, w')"
    "r = Inr (Launched i)"
  have m: "mild w w1" using gentleD [OF gentle_get a(2)] .
  have "x = None" using a(3,4) by (cases x) (auto dest: answer_not_launched)
  with a have none: "checkouts w1 run = None" "\<not> stored (w_store w) ''run'' run" "g w1 = (r, w')"
    using checkout_not_missing [OF a(1)] get_none m by (auto simp: mild_def beside_def)
  have "launch_post lim run w1 r w'" using launchingD [OF assms none(3) mild_accounted [OF m a(1)] none(1)] .
  then have "i = run" using a(4) by (simp add: launch_post_def)
  with none(2) show "\<not> stored (w_store w) ''run'' i" by simp
qed auto

lemma news_heartbeat: "service_ok env \<Longrightarrow> news (run_limit env) (heartbeat env q)"
  unfolding heartbeat_def
  by (intro news_bnd news_option news_answer news_existing launching_gated gentle_lookups gentle_ask_store
      gentle_timestamp gentle_claim gentle_check)

end
