(* ===== verification/Execution_Outcomes.thy ===== *)
theory Execution_Outcomes
  imports Execution_Steps
begin

text \<open>
  What the programs of the execution service write, in two frames of \<open>Saga_Frames\<close>: \<open>tamed\<close> bounds the task
  commands and the run records that are written, and \<open>spares\<close> says of which kinds no record is written. With
  them: what collecting a run that was stopped, or has lost its lease, can do, and that such a run stays stopped
  through all operations.
\<close>

section \<open>What is written\<close>

text \<open>One task command of the service that satisfies \<open>P\<close>.\<close>

definition commanded :: "service_env \<Rightarrow> (transition_request \<Rightarrow> bool) \<Rightarrow> fs \<Rightarrow> fs \<Rightarrow> bool" where
  "commanded env P fs fs' \<longleftrightarrow> (\<exists>q. P q \<and> fs' = snd (transition_task (sv_tasks env) fs q))"

text \<open>The workspace changed by task commands that satisfy \<open>P\<close> only, the records were only added to, and every
  record of a run among them has a status of \<open>S\<close>.\<close>

definition tamed :: "service_env \<Rightarrow> (transition_request \<Rightarrow> bool) \<Rightarrow> ExecutionRunStatus set \<Rightarrow> world \<Rightarrow> world \<Rightarrow> bool" where
  "tamed env P S w w' \<longleftrightarrow> (commanded env P)\<^sup>*\<^sup>* (w_files w) (w_files w') \<and>
     (\<exists>rows. xd_records (w_store w') = xd_records (w_store w) @ rows \<and>
        (\<forall>row\<in>set rows. xw_kind row = ''run'' \<longrightarrow> xw_state row \<in> ExecutionRunStatus_value ` S))"

interpretation tame: saga_frame "tamed env P S" for env P S
proof
  fix a b c assume "tamed env P S a b" "tamed env P S b c"
  then obtain r1 r2 where r: "xd_records (w_store b) = xd_records (w_store a) @ r1" "xd_records (w_store c) = xd_records (w_store b) @ r2"
      "\<forall>row\<in>set r1. xw_kind row = ''run'' \<longrightarrow> xw_state row \<in> ExecutionRunStatus_value ` S"
      "\<forall>row\<in>set r2. xw_kind row = ''run'' \<longrightarrow> xw_state row \<in> ExecutionRunStatus_value ` S"
    and f: "(commanded env P)\<^sup>*\<^sup>* (w_files a) (w_files b)" "(commanded env P)\<^sup>*\<^sup>* (w_files b) (w_files c)"
    unfolding tamed_def by blast
  have "xd_records (w_store c) = xd_records (w_store a) @ r1 @ r2" using r(1,2) by simp
  moreover have "\<forall>row\<in>set (r1 @ r2). xw_kind row = ''run'' \<longrightarrow> xw_state row \<in> ExecutionRunStatus_value ` S"
    using r(3,4) by auto
  ultimately show "tamed env P S a c"
    unfolding tamed_def using rtranclp_trans [OF f] by blast
qed (auto simp: tamed_def)

text \<open>No record of a kind of \<open>K\<close> is written.\<close>

definition spares :: "string set \<Rightarrow> world \<Rightarrow> world \<Rightarrow> bool" where
  "spares K w w' \<longleftrightarrow> (\<forall>kind\<in>K. \<forall>i. find_xhead (w_store w') kind i = find_xhead (w_store w) kind i \<and>
     (\<forall>n. find_xrow (w_store w') kind i n = find_xrow (w_store w) kind i n))"

interpretation spare: saga_frame "spares K" for K
  by standard (simp_all add: spares_def find_xhead_def find_xrow_def)

text \<open>The records a put may write.\<close>

lemma put_world:
  assumes "put env x e w = (r, w')"
  shows "w_files w' = w_files w" "w_store w' = w_store w \<or> (\<exists>now m n. insert_record (sv_store env) now x m (w_store w) = Inr (n, w_store w'))"
proof -
  have "w_files w' = w_files w \<and> (w_store w' = w_store w \<or> (\<exists>now m n. insert_record (sv_store env) now x m (w_store w) = Inr (n, w_store w')))"
    using assms put_record_cases [of "sv_store env" _ x e "w_store w"] unfolding put_def bnd_eq
    by (auto simp: asking_def on_store_def give_eq split: sum.splits; blast)
  then show "w_files w' = w_files w" "w_store w' = w_store w \<or> (\<exists>now m n. insert_record (sv_store env) now x m (w_store w) = Inr (n, w_store w'))"
    by simp_all
qed

lemma inserted_row:
  assumes "insert_record env now x m db = Inr (n, db')"
  shows "\<exists>row. xd_records db' = xd_records db @ [row] \<and> xw_kind row = record_kind x \<and> xw_record_id row = record_key x \<and>
      xw_revision row = m \<and> xw_state row = record_state x"
    "xd_heads db' = upsert_head \<lparr>hr_kind = record_kind x, hr_record_id = record_key x, hr_revision = m,
       hr_payload_sha256 = sha256_hex (xe_sha env) (json_bytes (record_json x))\<rparr> (xd_heads db)"
  using assms by (auto simp: insert_record_def Let_def split: if_splits)

lemma tame_put [keepI]:
  assumes "record_kind x = ''run'' \<Longrightarrow> record_state x \<in> ExecutionRunStatus_value ` S"
  shows "keeps (tamed env P S) (put env x e)"
  unfolding keeps_def
proof
  fix w
  obtain r w' where put: "put env x e w = (r, w')" by fastforce
  note p = put_world [OF put]
  from p(2) have "tamed env P S w w'"
  proof (elim disjE exE)
    fix now m n assume "insert_record (sv_store env) now x m (w_store w) = Inr (n, w_store w')"
    from inserted_row(1) [OF this] obtain row where "xd_records (w_store w') = xd_records (w_store w) @ [row]"
        "xw_kind row = record_kind x" "xw_state row = record_state x" by blast
    then show ?thesis using assms p(1) unfolding tamed_def by (intro conjI exI [of _ "[row]"]) auto
  qed (simp add: tame.quiet p(1))
  then show "tamed env P S w (snd (put env x e w))" by (simp add: put)
qed

lemma spare_put [keepI]:
  assumes "record_kind x \<notin> K"
  shows "keeps (spares K) (put env x e)"
  unfolding keeps_def
proof
  fix w
  obtain r w' where put: "put env x e w = (r, w')" by fastforce
  note p = put_world [OF put]
  from p(2) have "spares K w w'"
  proof (elim disjE exE)
    fix now m n assume ins: "insert_record (sv_store env) now x m (w_store w) = Inr (n, w_store w')"
    from inserted_row(1) [OF ins] obtain row where "xd_records (w_store w') = xd_records (w_store w) @ [row]"
        "xw_kind row = record_kind x" by blast
    then show ?thesis
      unfolding spares_def find_xhead_def find_xrow_def inserted_row(2) [OF ins] find_upsert_head
      using assms p(1) by (auto simp: find_append split: option.split)
  qed (simp add: spare.quiet p(1))
  then show "spares K w (snd (put env x e w))" by (simp add: put)
qed

lemma put_nexts [keepI]:
  "(record_kind x = ''run'' \<Longrightarrow> record_state x \<in> ExecutionRunStatus_value ` S) \<Longrightarrow> keeps (tamed env P S) (put_next env x i)"
  "record_kind x \<notin> K \<Longrightarrow> keeps (spares K) (put_next env x i)"
  unfolding put_next_def by (intro keepI; assumption)+

lemma spare_move [keepI]: "keeps (spares K) (move_task env t target actor key generation reason at)"
  by (simp add: keeps_def move_task_def on_files_def spares_def find_xhead_def find_xrow_def split: prod.split)

lemma spare_blocked [keepI]: "keeps (spares K) (transition_blocked env task board run why at)"
  unfolding transition_blocked_def by (intro keepI)

text \<open>A put that succeeds leaves the record as the head of its kind and key.\<close>

definition recorded :: "service_env \<Rightarrow> execution_record \<Rightarrow> world \<Rightarrow> bool" where
  "recorded env x w \<longleftrightarrow> (\<exists>h. find_xhead (w_store w) (record_kind x) (record_key x) = Some h \<and>
     hr_payload_sha256 h = sha256_hex (sv_sha env) (json_bytes (record_json x)))"

lemma put_recorded:
  assumes "put env x e w = (Inr (), w')"
  shows "recorded env x w'"
proof -
  from assms obtain now n db where p: "put_record (sv_store env) now x e (w_store w) = Inr (n, db)" "w_store w' = db"
    unfolding put_def bnd_Inr by (auto simp: asking_def on_store_def give_eq split: sum.splits)
  from p(1) consider (same) h where "db = w_store w" "checked_head (sv_store env) (w_store w) (record_kind x) (record_key x) = Inr (Some h)"
      "hr_payload_sha256 h = sha256_hex (sv_sha env) (json_bytes (record_json x))"
    | (new) m where "insert_record (sv_store env) now x m (w_store w) = Inr (n, db)"
    by (auto simp: put_record_def result_simps Let_def split: if_splits)
  then show ?thesis
  proof cases
    case same
    then show ?thesis using p(2)
      by (auto simp: recorded_def checked_head_def result_simps split: option.splits if_splits)
  next
    case new
    then show ?thesis
      unfolding recorded_def find_xhead_def p(2) inserted_row(2) [OF new] find_upsert_head by (simp split: option.split)
  qed
qed

lemma put_next_recorded:
  assumes "put_next env x i w = (Inr (), w')"
  shows "recorded env x w'"
proof -
  from assms obtain n w1 where "put env x n w1 = (Inr (), w')" unfolding put_next_def bnd_Inr by blast
  then show ?thesis by (rule put_recorded)
qed

lemma spare_recorded: "spares {record_kind x} w w' \<Longrightarrow> recorded env x w \<Longrightarrow> recorded env x w'"
  by (simp add: recorded_def spares_def)

lemma tame_move [keepI]:
  assumes "\<And>q. xr_task_id q = t \<Longrightarrow> xr_target q = target \<Longrightarrow> P q"
  shows "keeps (tamed env P S) (move_task env t target actor key generation reason at)"
proof -
  have "commanded env P fs (snd (transition_task (sv_tasks env) fs \<lparr>xr_task_id = t, xr_target = target, xr_actor = actor,
      xr_idempotency_key = key, xr_expected_generation_id = generation, xr_blocked_reason = reason, xr_now = (True, at)\<rparr>))" for fs
    unfolding commanded_def by (rule exI, rule conjI [OF _ refl]) (rule assms; simp)
  then show ?thesis
    by (auto simp: keeps_def move_task_def on_files_def tamed_def split: prod.split)
      (metis r_into_rtranclp snd_conv)
qed

section \<open>Ending a run\<close>

text \<open>The commands that move the task \<open>t\<close> to a status of \<open>T\<close>.\<close>

definition moves :: "string \<Rightarrow> TaskStatus set \<Rightarrow> transition_request \<Rightarrow> bool" where
  "moves t T q \<longleftrightarrow> xr_task_id q = t \<and> xr_target q \<in> T"

lemma made_run:
  assumes "make_ExecutionRun env x w = (Inr run, w')"
  shows "run = strip_run (sv_strip env) x" "er_status run = er_status x"
  using assms by (auto simp: make_ExecutionRun_def validated_def give_eq fail_eq strip_run_def split: if_splits)

lemma tame_rebind [keepI]: "keeps (tamed env P S) (rebind_assignment env a g task at)"
  unfolding rebind_assignment_def by (intro keepI) simp

lemma tame_comment [keepI]: "keeps (tamed env P S) (comment env t run emp kind body at)"
  unfolding comment_def by (intro keepI) simp

lemma tame_session [keepI]: "keeps (tamed env P S) (close_session env a outcome status ended)"
  unfolding close_session_def Let_def by (intro keepI) simp

lemma tame_usage [keepI]: "keeps (tamed env P S) (add_budget_usage env policy usage now)"
  unfolding add_budget_usage_def by (intro keepI) simp

lemma tame_release [keepI]: "keeps (tamed env P S) (release_checkout env ck)"
  unfolding release_checkout_def by (intro keepI) simp

lemma tame_closing [keepI]: "keeps (tamed env P S) m \<Longrightarrow> keeps (tamed env P S) (closing env run ck m)"
  unfolding closing_def by (intro keepI)

lemma tame_blocked [keepI]:
  assumes "BLOCKED \<in> T" "at_task_id task = t"
  shows "keeps (tamed env (moves t T) S) (transition_blocked env task board run why at)"
  unfolding transition_blocked_def by (intro keepI) (use assms in \<open>auto simp: moves_def\<close>)

lemma tame_terminalize [keepI]:
  assumes "BLOCKED \<in> T" "er_task_id run = t" "RUN_FAILED \<in> S"
  shows "keeps (tamed env (moves t T) S) (terminalize_exception env run a code)"
  unfolding terminalize_exception_def
  by (intro keepI) (use assms in \<open>auto dest!: made_run(2) dest: current_task_id\<close>)

lemma tame_run_failed [keepI]:
  assumes "BLOCKED \<in> T" "er_task_id run = t" "RUN_FAILED \<in> S"
  shows "keeps (tamed env (moves t T) S) (run_failed env run a e)"
  unfolding run_failed_def by (intro keepI assms)

lemma tame_deliver:
  assumes "rv_target (verdict (er_run_id (ar_run a)) (ar_intent a) outcome) \<in> T" "at_task_id task = t"
    "rv_status (verdict (er_run_id (ar_run a)) (ar_intent a) outcome) \<in> S"
  shows "keeps (tamed env (moves t T) S) (deliver_run env a outcome ended board task files)"
  unfolding deliver_run_def Let_def
  by (intro keepI) (use assms in \<open>auto simp: moves_def dest!: made_run(2)\<close>)

lemma tame_finish:
  assumes "rv_target (verdict (er_run_id (ar_run a)) (ar_intent a) outcome) \<in> T"
    "rv_status (verdict (er_run_id (ar_run a)) (ar_intent a) outcome) \<in> S"
  shows "keeps (tamed env (moves (er_task_id (ar_run a)) T) S) (finish_run env a outcome ended)"
  unfolding finish_run_def
  by (intro keepI tame_deliver) (use assms in \<open>auto dest: current_task_id\<close>)

text \<open>A run whose lease has another owner is not finished.\<close>

definition fence_held :: "world \<Rightarrow> active_run \<Rightarrow> bool" where
  "fence_held w a \<longleftrightarrow>
     (let tok = lease_token_of (ck_task_lease (ar_checkout a)) in
      case db_leases (w_control w) (lt_partition_key tok) of None \<Rightarrow> False | Some row \<Rightarrow> owns row tok)"

lemma fence_mild: "mild w w' \<Longrightarrow> fence_held w' a = fence_held w a"
  by (simp add: fence_held_def mild_def)

lemma bnd_read: "bnd (read_world g) f w = f (g w) w" by (simp add: bnd_def read_world_def)
lemma bnd_fail: "bnd (fail e) f w = (Inl e, w)" by (simp add: bnd_def fail_def)

lemma finish_fenced:
  assumes "finish_run env a outcome ended w = (r, w')" "\<not> fence_held w a"
  shows "tamed env P S w w'" "\<exists>e. r = Inl e"
proof -
  have "tamed env P S w w' \<and> (\<exists>e. r = Inl e)"
    using assms(1) unfolding finish_run_def bnd_eq [of "current_task _ _"]
  proof (elim disjE exE conjE)
    fix e assume "current_task env (er_task_id (ar_run a)) w = (Inl e, w')" "r = Inl e"
    then show ?thesis using keepsD [OF tame.current_task] by blast
  next
    fix x w1 assume t: "current_task env (er_task_id (ar_run a)) w = (Inr x, w1)"
      and rest: "(case x of (board, task) \<Rightarrow> bnd (read_world (\<lambda>w. verify_task_revision (ck_task_lease (ar_checkout a))
          (at_revision task) ended (w_control w))) (\<lambda>held. bnd (check held ExecutionServiceError) (\<lambda>_.
            bnd (append_outcome_transcript env (er_run_id (ar_run a)) outcome ended) (\<lambda>_.
            bnd (if process_ok outcome \<and> ar_intent a = None
                 then bnd (get env ''workspace'' as_workspace (er_workspace_id (ar_run a))) (changed_files env) else give [])
              (\<lambda>files. deliver_run env a outcome ended board task files))))) w1 = (r, w')"
    have "\<not> fence_held w1 a" using assms(2) fence_mild [OF gentleD [OF gentle_lookups(1) t]] by simp
    then have "\<not> verify_task_revision (ck_task_lease (ar_checkout a)) v ended (w_control w1)" for v
      by (auto simp: verify_task_revision_def verify_lease_def fence_held_def Let_def split: option.splits)
    then have "r = Inl ExecutionServiceError" "w' = w1"
      using rest by (cases x; simp add: bnd_read bnd_fail check_def)+
    then show ?thesis using keepsD [OF tame.current_task t] by blast
  qed
  then show "tamed env P S w w'" "\<exists>e. r = Inl e" by auto
qed

section \<open>What becomes of a run that was stopped\<close>

lemma bnd_gate: "bnd (emergency_gate env) f w =
    (case assert_runtime_allowed (sv_emergency env) (w_platform w) of Inl e \<Rightarrow> (Inl (ServiceEmergency e), w) | Inr _ \<Rightarrow> f () w)"
  by (simp add: bnd_def emergency_gate_def rcatch_def split: sum.split)

lemma single_result: "(case xs of [] \<Rightarrow> fail e | [a] \<Rightarrow> f a | a # b # l \<Rightarrow> fail e) w = (Inr r, w') \<Longrightarrow> \<exists>a. xs = [a] \<and> f a w = (Inr r, w')"
  by (auto simp: fail_eq split: list.splits)

lemma result_status: "result_for_run env run no_op w = (Inr r, w') \<Longrightarrow> hb_status r = er_status run"
  unfolding result_for_run_def bnd_Inr by (auto dest!: single_result simp: give_eq fail_eq split: if_splits)

lemma run_failed_status:
  assumes "run_failed env run a e w = (Inr r, w')"
  shows "hb_status r = RUN_FAILED"
proof -
  from assms obtain failed w1 where t: "terminalize_exception env run a (''runtime_'' @ ascii_lower (error_name e)) w = (Inr failed, w1)"
    and r: "result_for_run env failed False w1 = (Inr r, w')"
    unfolding run_failed_def bnd_Inr by blast
  from t have "er_status failed = RUN_FAILED"
    unfolding terminalize_exception_def bnd_Inr
    by (auto simp: bnd_Inr give_eq make_ExecutionRun_def validated_def fail_eq strip_run_def split: if_splits prod.splits)
  with result_status [OF r] show ?thesis by simp
qed

lemma finish_run_status:
  assumes "finish_run env a outcome ended w = (Inr r, w')"
  shows "hb_status r = rv_status (verdict (er_run_id (ar_run a)) (ar_intent a) outcome)" "fence_held w a"
proof -
  from assms obtain board task w1 held w2 w3 w4 files w5 where
      t: "current_task env (er_task_id (ar_run a)) w = (Inr (board, task), w1)"
    and h: "verify_task_revision (ck_task_lease (ar_checkout a)) (at_revision task) ended (w_control w1)"
    and d: "deliver_run env a outcome ended board task files w5 = (Inr r, w')"
    unfolding finish_run_def bnd_Inr by (auto simp: bnd_Inr check_Inr read_world_def split: prod.splits)
  from d show "hb_status r = rv_status (verdict (er_run_id (ar_run a)) (ar_intent a) outcome)"
    unfolding deliver_run_def Let_def by (auto simp: bnd_Inr give_eq)
  have "mild w w1" using gentleD [OF gentle_lookups(1) t] .
  then have "db_leases (w_control w1) = db_leases (w_control w)" by (simp add: mild_def)
  with h show "fence_held w a"
    by (auto simp: verify_task_revision_def verify_lease_def fence_held_def Let_def split: option.splits)
qed

lemma verdict_status: "rv_status (verdict i intent outcome) \<in> {RUN_CANCELLED, RUN_REVIEW, RUN_FAILED}"
  "intent \<in> {Some ''pause'', Some ''cancel'', Some ''emergency''} \<Longrightarrow> rv_status (verdict i intent outcome) = RUN_CANCELLED"
  by (auto simp: verdict_def)

definition outcome_of :: "(service_error, heartbeat_result) result \<Rightarrow> ExecutionRunStatus option" where
  "outcome_of r = (case r of Inl _ \<Rightarrow> None | Inr h \<Rightarrow> Some (hb_status h))"

lemma collect_outcome:
  assumes "w_active w run = Some a" "run_stopped a \<or> \<not> fence_held w a"
  shows "outcome_of (fst (collect env run returned w)) \<in> {None, Some RUN_CANCELLED, Some RUN_FAILED}"
proof (cases "fst (collect env run returned w)")
  case (Inr r)
  let ?m = "bnd (returned_outcome a returned) (\<lambda>outcome.
              bnd (timestamp env None (Some (er_started_at (ar_run a)))) (\<lambda>ended. finish_run env a outcome ended))"
  let ?body = "attempt ?m (run_failed env (ar_run a) (ar_assignment a)) give"
  have "collect env run returned w = closing env run (ar_checkout a) ?body w"
    by (simp add: collect_def bnd_read assms(1))
  then have "closing env run (ar_checkout a) ?body w = (Inr r, snd (collect env run returned w))"
    using Inr by (metis prod.collapse)
  then have "fst (?body w) = Inr r" unfolding closing_def by (rule ensuring_result)
  then obtain w1 where "?body w = (Inr r, w1)" by (metis prod.collapse)
  then consider (failed) e w2 where "run_failed env (ar_run a) (ar_assignment a) e w2 = (Inr r, w1)"
    | (finished) "?m w = (Inr r, w1)"
    unfolding attempt_eq by (auto simp: give_eq)
  then show ?thesis
  proof cases
    case failed
    then show ?thesis using run_failed_status by (simp add: Inr outcome_of_def)
  next
    case finished
    then obtain outcome w2 ended w3 where o: "returned_outcome a returned w = (Inr outcome, w2)"
        "timestamp env None (Some (er_started_at (ar_run a))) w2 = (Inr ended, w3)" "finish_run env a outcome ended w3 = (Inr r, w1)"
      unfolding bnd_Inr by blast
    note f = finish_run_status [OF o(3)]
    have "mild w w3"
      using gentleD [OF returned_outcome_gentle o(1)] gentleD [OF gentle_timestamp o(2)] by (rule mild_trans)
    then have "fence_held w a" using f(2) by (simp add: mild_def fence_held_def)
    moreover have "ar_renewal_error a = None \<or> ar_renewal_error a = Some (ServiceEmergency EmergencyError)"
      using o(1) unfolding returned_outcome_def bnd_Inr
      by (cases "ar_renewal_error a") (auto simp: give_eq fail_eq split: if_splits)
    ultimately have "ar_intent a \<in> {Some ''pause'', Some ''cancel'', Some ''emergency''}"
      using assms(2) by (auto simp: run_stopped_def)
    then show ?thesis using f(1) verdict_status(2) by (simp add: Inr outcome_of_def)
  qed
qed (simp add: outcome_of_def)

lemma verdict_target: "intent \<in> {Some ''pause'', Some ''cancel'', Some ''emergency''} \<Longrightarrow>
    rv_target (verdict i intent outcome) \<in> {BLOCKED, CANCELLED}"
  by (auto simp: verdict_def)

text \<open>Collecting the result of a run delivers nothing: it fails or answers with a cancelled or failed run, it moves
  no task but the run's, and this one only to blocked or cancelled, and it records no run but as cancelled or failed.\<close>

definition not_delivered :: "service_env \<Rightarrow> string \<Rightarrow> (service_error, process_outcome) result \<Rightarrow> world \<Rightarrow> bool" where
  "not_delivered env run returned w \<longleftrightarrow>
     (case (w_active w run, collect env run returned w) of
        (None, (r, w')) \<Rightarrow> r = Inl ExecutionServiceError \<and> w' = w
      | (Some a, (r, w')) \<Rightarrow> outcome_of r \<in> {None, Some RUN_CANCELLED, Some RUN_FAILED} \<and>
          tamed env (moves (er_task_id (ar_run a)) {BLOCKED, CANCELLED}) {RUN_CANCELLED, RUN_FAILED} w w')"

lemma collect_tamed:
  assumes "w_active w run = Some a" "run_stopped a \<or> \<not> fence_held w a"
  shows "tamed env (moves (er_task_id (ar_run a)) {BLOCKED, CANCELLED}) {RUN_CANCELLED, RUN_FAILED} w (snd (collect env run returned w))"
proof -
  let ?R = "tamed env (moves (er_task_id (ar_run a)) {BLOCKED, CANCELLED}) {RUN_CANCELLED, RUN_FAILED}"
  let ?m = "bnd (returned_outcome a returned) (\<lambda>outcome.
              bnd (timestamp env None (Some (er_started_at (ar_run a)))) (\<lambda>ended. finish_run env a outcome ended))"
  let ?k = "run_failed env (ar_run a) (ar_assignment a)"
  have failed: "keeps ?R (?k e)" for e by (rule tame_run_failed) simp_all
  have m: "?R w (snd (?m w))"
  proof (cases "ar_intent a \<in> {Some ''pause'', Some ''cancel'', Some ''emergency''}")
    case True
    have "keeps ?R (finish_run env a outcome ended)" for outcome ended
      using verdict_target [OF True] verdict_status(2) [OF True] by (intro tame_finish) simp_all
    then have "keeps ?R ?m" by (intro keepI)
    then show ?thesis by (simp add: keeps_def)
  next
    case intent: False
    obtain r w1 where m: "?m w = (r, w1)" by fastforce
    have "?R w w1"
      using m unfolding bnd_eq
    proof (elim disjE exE conjE)
      fix outcome ended w2 w3
      assume o: "returned_outcome a returned w = (Inr outcome, w2)"
        and t: "timestamp env None (Some (er_started_at (ar_run a))) w2 = (Inr ended, w3)"
        and f: "finish_run env a outcome ended w3 = (r, w1)"
      have "mild w w3"
        using gentleD [OF returned_outcome_gentle o] gentleD [OF gentle_timestamp t] by (rule mild_trans)
      moreover have "ar_renewal_error a = None \<or> ar_renewal_error a = Some (ServiceEmergency EmergencyError)"
        using o unfolding returned_outcome_def bnd_Inr
        by (cases "ar_renewal_error a") (auto simp: give_eq fail_eq split: if_splits)
      then have "\<not> fence_held w a" using assms(2) intent by (auto simp: run_stopped_def)
      ultimately have "\<not> fence_held w3 a" by (simp add: fence_mild)
      from finish_fenced(1) [OF f this] show ?thesis
        by (rule tame.trans [OF keepsD [OF tame.returned o] tame.trans [OF keepsD [OF tame.timestamp t]]])
    next
      fix outcome w2 e
      assume o: "returned_outcome a returned w = (Inr outcome, w2)"
        and t: "timestamp env None (Some (er_started_at (ar_run a))) w2 = (Inl e, w1)"
      show ?thesis by (rule tame.trans [OF keepsD [OF tame.returned o] keepsD [OF tame.timestamp t]])
    next
      fix e assume "returned_outcome a returned w = (Inl e, w1)"
      then show ?thesis by (rule keepsD [OF tame.returned])
    qed
    then show ?thesis by (simp add: m)
  qed
  obtain r1 w1 where b: "attempt ?m ?k give w = (r1, w1)" by fastforce
  then have 1: "?R w w1"
    unfolding attempt_eq
  proof (elim disjE exE conjE)
    fix e w2 assume e: "?m w = (Inl e, w2)" "?k e w2 = (r1, w1)"
    have "?R w w2" using m e(1) by simp
    then show ?thesis using keepsD [OF failed e(2)] by (rule tame.trans)
  qed (use m in \<open>auto simp: give_eq\<close>)
  have "keeps ?R (bnd (set_active run None) (\<lambda>_. release_checkout env (ar_checkout a)))" by (intro keepI)
  then have 2: "?R w1 (snd (bnd (set_active run None) (\<lambda>_. release_checkout env (ar_checkout a)) w1))" by (simp add: keeps_def)
  have "collect env run returned w = closing env run (ar_checkout a) (attempt ?m ?k give) w"
    by (simp add: collect_def bnd_read assms(1))
  then have "snd (collect env run returned w) = snd (bnd (set_active run None) (\<lambda>_. release_checkout env (ar_checkout a)) w1)"
    by (simp add: closing_def ensuring_def b split: prod.split sum.split)
  then show ?thesis using tame.trans [OF 1 2] by simp
qed

lemma stopped_not_delivered:
  assumes "\<And>a. w_active w run = Some a \<Longrightarrow> run_stopped a \<or> \<not> fence_held w a"
  shows "not_delivered env run returned w"
proof (cases "w_active w run")
  case None
  then show ?thesis by (simp add: not_delivered_def collect_def bnd_read fail_def)
next
  case (Some a)
  note stopped = assms [OF Some]
  show ?thesis
    using collect_outcome [OF Some stopped, of env returned] collect_tamed [OF Some stopped, of env returned]
    by (cases "collect env run returned w") (simp add: not_delivered_def Some)
qed

section \<open>A stopped run stays stopped\<close>

text \<open>A recorded run that was stopped is recorded and stopped afterwards.\<close>

definition holds :: "string \<Rightarrow> world \<Rightarrow> world \<Rightarrow> bool" where
  "holds run w w' \<longleftrightarrow> (stored (w_store w) ''run'' run \<and> halted run w \<longrightarrow> stored (w_store w') ''run'' run \<and> halted run w')"

interpretation hold: service_frame "holds run" "- {run}" for run
proof
  show "holds run w w" for w by (simp add: holds_def)
  show "holds run a c" if "holds run a b" "holds run b c" for a b c using that by (simp add: holds_def)
  show "holds run w w'" if "mild w w'" for w w' using that unfolding mild_def beside_def holds_def by blast
  show "holds run w (w\<lparr>w_control := db\<rparr>)" for w db by (simp add: holds_def halted_def)
  show "holds run w (w\<lparr>w_active := (w_active w)(i := x)\<rparr>)" if "x = None \<or> i \<in> - {run}" for w i x
    using that by (auto simp: holds_def halted_def)
qed

lemma hold_existing:
  "keeps (holds run) (bnd (get env ''run'' as_run (run_id_for env key q)) (\<lambda>existing.
     case existing of Some r \<Rightarrow> answer (replay_run env q key r) | None \<Rightarrow> gated_heartbeat env q key))"
proof (cases "run_id_for env key q = run")
  case False
  then show ?thesis
    by (intro keepI hold.gentle [OF gentle_get] hold.gentle [OF gentle_answer [OF gentle_replay]] hold.gated) simp
next
  case True
  let ?f = "\<lambda>existing. case existing of Some r \<Rightarrow> answer (replay_run env q key r) | None \<Rightarrow> gated_heartbeat env q key"
  show ?thesis
    unfolding keeps_def True
  proof
    fix w
    obtain r w' where m: "bnd (get env ''run'' as_run run) ?f w = (r, w')" by fastforce
    have "holds run w w'"
      using m unfolding bnd_eq
    proof (elim disjE exE conjE)
      fix x w1 assume g: "get env ''run'' as_run run w = (Inr x, w1)" and f: "?f x w1 = (r, w')"
      have 1: "holds run w w1" using keepsD [OF hold.gentle [OF gentle_get] g] .
      show ?thesis
      proof (cases x)
        case None
        then have "\<not> stored (w_store w) ''run'' run" using get_none g by blast
        then show ?thesis by (simp add: holds_def)
      next
        case (Some found)
        with f have "answer (replay_run env q key found) w1 = (r, w')" by simp
        from hold.trans [OF 1 keepsD [OF hold.gentle [OF gentle_answer [OF gentle_replay]] this]] show ?thesis .
      qed
    qed (rule keepsD [OF hold.gentle [OF gentle_get]])
    then show "holds run w (snd (bnd (get env ''run'' as_run run) ?f w))" by (simp add: m)
  qed
qed

lemma hold_heartbeat: "keeps (holds run) (heartbeat env q)"
  by (intro hold.heartbeat hold_existing)

lemma hold_tick: "keeps (holds run) (renew_tick env i)"
proof (cases "i = run")
  case True
  show ?thesis
    unfolding keeps_def True
  proof
    fix w
    show "holds run w (snd (renew_tick env run w))"
    proof (cases "w_active w run")
      case None
      then show ?thesis by (simp add: renew_tick_def bnd_read hold.refl give_def)
    next
      case (Some a)
      show ?thesis
      proof (cases "run_stopped a")
        case False
        then have "\<not> halted run w" using Some by (simp add: halted_def)
        then show ?thesis by (simp add: holds_def)
      next
        case True
        have "keeps (holds run) (set_active run (Some (a\<lparr>ar_checkout := c\<rparr>)))" for c
          using True by (simp add: keeps_def set_active_def holds_def halted_def run_stopped_def)
        then have "keeps (holds run) (if ar_renewal_error a \<noteq> None then give ()
            else attempt (renew_tick_body env run a) (\<lambda>e. update_active run (\<lambda>a. a\<lparr>ar_renewal_error := Some e, ar_cancelled := True,
              ar_intent := (if e = ServiceEmergency EmergencyError then Some ''emergency'' else ar_intent a)\<rparr>)) give)"
          by (intro keepI hold.tick_body hold.tick_failed)
        then show ?thesis by (simp add: keeps_def renew_tick_def bnd_read Some)
      qed
    qed
  qed
qed (simp add: hold.tick)

lemma step_holds: "service_step env w w' \<Longrightarrow> holds run w w'"
proof (induction rule: service_step.induct)
  case (beat q w rh w')
  then show ?case by (rule keepsD [OF hold_heartbeat])
next
  case (resume i key apr model fx git w rh w')
  then show ?case by (rule keepsD [OF hold.resume [OF hold_heartbeat]])
next
  case (tick i w ru w')
  then show ?case by (rule keepsD [OF hold_tick])
next
  case (collect i returned w rc w')
  then show ?case by (rule keepsD [OF hold.collects(1)])
next
  case (shut_down i w rc w')
  then show ?case by (rule keepsD [OF hold.collects(2)])
next
  case (pause i w rs w')
  then show ?case by (rule keepsD [OF hold.gentle [OF gentle_service(2)]])
next
  case (cancel i w rs w')
  then show ?case by (rule keepsD [OF hold.gentle [OF gentle_service(3)]])
next
  case (recover now w rr w')
  then show ?case by (rule keepsD [OF hold.gentle [OF gentle_recover]])
next
  case (assign t e g key b ap now w ra w')
  then show ?case by (rule keepsD [OF hold.gentle [OF gentle_service(1)]])
next
  case (prepare i r fx git now w rp w')
  then show ?case by (rule keepsD [OF hold.gentle [OF gentle_prepare]])
next
  case (store x n w ru w')
  then show ?case by (rule keepsD [OF hold.gentle [OF gentle_put]])
qed (simp_all add: holds_def halted_def)

lemma reach_holds: "service_reach env w w' \<Longrightarrow> holds run w w'"
  by (induction rule: rtranclp_induct) (auto intro: step_holds hold.refl hold.trans)

lemma reach_not_delivered:
  assumes "service_reach env w w'" "stored (w_store w) ''run'' run" "halted run w"
  shows "not_delivered env run returned w'"
  using reach_holds [OF assms(1), of run] assms(2,3)
  by (intro stopped_not_delivered) (simp add: holds_def halted_def)


section \<open>Recovering a run\<close>

lemma get_world: "snd (get env kind select i w) = w"
  by (simp add: get_def bnd_def ask_store_def give_def fail_def split: sum.split option.split)

lemma current_task_world: "snd (current_task env t w) = w"
  by (simp add: current_task_def bnd_def on_files_def give_def fail_def split: sum.split list.split)

text \<open>The recorded lease of a run is valid for the current revision of its task.\<close>

definition lease_current :: "service_env \<Rightarrow> datetime \<Rightarrow> execution_run \<Rightarrow> world \<Rightarrow> bool" where
  "lease_current env observed run w \<longleftrightarrow>
     (case (fst (get env ''lease'' as_lease (er_task_lease_id run) w), fst (current_task env (er_task_id run) w)) of
        (Inr (Some l), Inr (board, task)) \<Rightarrow> verify_task_revision l (at_revision task) observed (w_control w)
      | _ \<Rightarrow> False)"

text \<open>The run is ended: a failed revision of it is the head of its record, a runtime of this process that still
  works on it is told to stop, and its task, when it was running, was moved to blocked by one command.\<close>

definition run_ended :: "service_env \<Rightarrow> execution_run \<Rightarrow> execution_run \<Rightarrow> world \<Rightarrow> world \<Rightarrow> bool" where
  "run_ended env run failed w w' \<longleftrightarrow>
     er_run_id failed = sv_strip env (er_run_id run) \<and> er_status failed = RUN_FAILED \<and>
     er_error_code failed = Some (sv_strip env ''stale_lease_recovered'') \<and> recorded env (XRun failed) w' \<and>
     halted (er_run_id run) w' \<and>
     (case fst (current_task env (er_task_id run) w) of
        Inl _ \<Rightarrow> False
      | Inr (board, task) \<Rightarrow>
          if at_status task = RUNNING
          then \<exists>q. moves (er_task_id run) {BLOCKED} q \<and> is_ok (fst (transition_task (sv_tasks env) (w_files w) q)) \<and>
                 w_files w' = snd (transition_task (sv_tasks env) (w_files w) q)
          else w_files w' = w_files w)"

text \<open>What recovery does to a run whose lease is not valid.\<close>

definition end_stale ::
    "service_env \<Rightarrow> datetime \<Rightarrow> execution_run \<Rightarrow> task_lease option \<Rightarrow> task_board_snapshot \<Rightarrow> agent_task \<Rightarrow> execution_run list saga" where
  "end_stale env observed run lease board task =
     bnd (update_active (er_run_id run) (\<lambda>a. a\<lparr>ar_intent := Some ''cancel'', ar_cancelled := True\<rparr>)) (\<lambda>_.
     bnd (make_ExecutionRun env (run\<lparr>er_status := RUN_FAILED, er_ended_at := Some (max observed (er_started_at run)),
            er_error_code := Some ''stale_lease_recovered'',
            er_summary := ''Recovered after the execution lease became stale.''\<rparr>)) (\<lambda>failed.
     bnd (put_next env (XRun failed) (er_run_id run)) (\<lambda>_.
     bnd (case lease of
            Some l \<Rightarrow> if tl_status l = LEASE_ACTIVE
              then bnd (lift (rcatch (make_TaskLease (sv_strip env) (l\<lparr>tl_status := LEASE_EXPIRED\<rparr>)) ServiceLease)) (\<lambda>stale.
                   put_next env (XLease stale) (tl_lease_id l))
              else give ()
          | None \<Rightarrow> give ()) (\<lambda>_.
     bnd (if at_status task = RUNNING
          then bnd (transition_blocked env task board (er_run_id run) ''stale_execution_lease'' None) (\<lambda>_. give ())
          else give ()) (\<lambda>_.
     give [failed])))))"

lemma recover_run_parts:
  "recover_run env observed run =
     bnd (get env ''lease'' as_lease (er_task_lease_id run)) (\<lambda>lease.
     bnd (current_task env (er_task_id run)) (\<lambda>(board, task).
     bnd (read_world (\<lambda>w. case lease of None \<Rightarrow> False
            | Some l \<Rightarrow> verify_task_revision l (at_revision task) observed (w_control w))) (\<lambda>valid.
     if valid then give [] else end_stale env observed run lease board task)))"
  unfolding recover_run_def end_stale_def ..

lemma tame_end_stale [keepI]:
  assumes "at_task_id task = er_task_id run"
  shows "keeps (tamed env (moves (er_task_id run) {BLOCKED}) {RUN_FAILED}) (end_stale env observed run lease board task)"
  unfolding end_stale_def by (intro keepI) (use assms in \<open>auto dest!: made_run(2)\<close>)

lemma tame_recover: "keeps (tamed env (moves (er_task_id run) {BLOCKED}) {RUN_FAILED}) (recover_run env observed run)"
  unfolding recover_run_parts by (intro keepI) (auto dest: current_task_id)

lemma blocked_moved:
  assumes "transition_blocked env task board run why at w = (Inr m, w')"
  shows "\<exists>q. moves (at_task_id task) {BLOCKED} q \<and> is_ok (fst (transition_task (sv_tasks env) (w_files w) q)) \<and>
     w_files w' = snd (transition_task (sv_tasks env) (w_files w) q)"
proof -
  from assms obtain g w1 now w2 where g: "required_generation board w = (Inr g, w1)"
    and t: "timestamp env at (Some (at_updated_at task)) w1 = (Inr now, w2)"
    and m: "move_task env (at_task_id task) BLOCKED ''raytsystem:execution'' (transition_key env run ''blocked'')
       g (Some (take 4096 why)) now w2 = (Inr m, w')"
    unfolding transition_blocked_def bnd_Inr by blast
  have "w_files w2 = w_files w"
    using g t by (auto simp: required_generation_def lift_def timestamp_def bnd_eq asking_def give_eq split: option.splits)
  with m show ?thesis
    by (auto simp: move_task_def on_files_def moves_def rcatch_def is_ok_iff split: prod.splits sum.splits)
      (metis (no_types, lifting) fst_conv snd_conv transition_request.select_convs(1,2))
qed

lemma no_command: "tamed env (\<lambda>_. False) S w w' \<Longrightarrow> w_files w' = w_files w"
proof -
  have "(commanded env (\<lambda>_. False))\<^sup>*\<^sup>* fs fs' \<Longrightarrow> fs' = fs" for fs fs'
    by (induction rule: rtranclp_induct) (simp_all add: commanded_def)
  then show "tamed env (\<lambda>_. False) S w w' \<Longrightarrow> w_files w' = w_files w" by (simp add: tamed_def)
qed

lemma end_stale_ended:
  assumes "end_stale env observed run lease board task w = (Inr recovered, w')"
    and "fst (current_task env (er_task_id run) w) = Inr (board, task)"
  shows "\<exists>failed. recovered = [failed] \<and> run_ended env run failed w w'"
proof -
  let ?i = "er_run_id run" and ?f = "\<lambda>a. a\<lparr>ar_intent := Some ''cancel'', ar_cancelled := True\<rparr>"
  let ?lease = "case lease of
        Some l \<Rightarrow> if tl_status l = LEASE_ACTIVE
          then bnd (lift (rcatch (make_TaskLease (sv_strip env) (l\<lparr>tl_status := LEASE_EXPIRED\<rparr>)) ServiceLease)) (\<lambda>stale.
               put_next env (XLease stale) (tl_lease_id l))
          else give ()
      | None \<Rightarrow> give ()"
  let ?move = "if at_status task = RUNNING
      then bnd (transition_blocked env task board ?i ''stale_execution_lease'' None) (\<lambda>_. give ()) else give ()"
  let ?made = "make_ExecutionRun env (run\<lparr>er_status := RUN_FAILED, er_ended_at := Some (max observed (er_started_at run)),
      er_error_code := Some ''stale_lease_recovered'',
      er_summary := ''Recovered after the execution lease became stale.''\<rparr>)"
  from assms(1) obtain w1 failed w2 w3 w4 where
      u: "update_active ?i ?f w = (Inr (), w1)" and f: "?made w1 = (Inr failed, w2)"
    and p: "put_next env (XRun failed) ?i w2 = (Inr (), w3)" and l: "?lease w3 = (Inr (), w4)"
    and m: "?move w4 = (Inr (), w')" and r: "recovered = [failed]"
    unfolding end_stale_def bnd_Inr give_eq by auto
  have task: "at_task_id task = er_task_id run"
    using assms(2) current_task_id [of env "er_task_id run" w board task] by (metis prod.collapse)
  have "keeps (spares {''run''}) ?lease" "keeps (spares {''run''}) ?move" by (intro keepI; simp)+
  then have "spares {''run''} w3 w'" using keepsD l m spare.trans by blast
  then have rec: "recorded env (XRun failed) w'"
    using put_next_recorded [OF p] spare_recorded [of "XRun failed" w3 w'] by simp
  have calm: "keeps (tamed env (\<lambda>_. False) UNIV) (update_active ?i ?f)" "keeps (tamed env (\<lambda>_. False) UNIV) ?made"
    "keeps (tamed env (\<lambda>_. False) UNIV) (put_next env (XRun failed) ?i)" "keeps (tamed env (\<lambda>_. False) UNIV) ?lease"
    by (intro keepI; simp)+
  have files: "w_files w4 = w_files w"
    using keepsD [OF calm(1) u, THEN no_command] keepsD [OF calm(2) f, THEN no_command] keepsD [OF calm(3) p, THEN no_command]
      keepsD [OF calm(4) l, THEN no_command] by simp
  have moved: "if at_status task = RUNNING
      then \<exists>q. moves (er_task_id run) {BLOCKED} q \<and> is_ok (fst (transition_task (sv_tasks env) (w_files w) q)) \<and>
         w_files w' = snd (transition_task (sv_tasks env) (w_files w) q)
      else w_files w' = w_files w"
  proof (cases "at_status task = RUNNING")
    case True
    then obtain x where "transition_blocked env task board ?i ''stale_execution_lease'' None w4 = (Inr x, w')"
      using m by (auto simp: bnd_Inr give_eq)
    from blocked_moved [OF this] True show ?thesis by (simp add: task files)
  qed (use m files in \<open>simp add: give_eq\<close>)
  have "halted ?i w1" using u by (auto simp: update_active_def halted_def run_stopped_def)
  moreover have "gentle ?lease" "gentle ?move" by (intro gentleI)+
  note g = this
  have "mild w1 w'"
    by (rule mild_trans [OF gentleD [OF gentle_make(2) f] mild_trans [OF gentleD [OF gentle_put_next p]
          mild_trans [OF gentleD [OF g(1) l] gentleD [OF g(2) m]]]])
  ultimately have "halted ?i w'" unfolding mild_def by blast
  then have "run_ended env run failed w w'"
    using made_run [OF f] rec moved by (simp add: run_ended_def strip_run_def assms(2))
  then show ?thesis using r by simp
qed

lemma recover_run_effect:
  assumes "recover_run env observed run w = (r, w')"
  shows "lease_current env observed run w \<Longrightarrow> r = Inr [] \<and> w' = w"
    "\<not> lease_current env observed run w \<Longrightarrow> r = Inr recovered \<Longrightarrow> \<exists>failed. recovered = [failed] \<and> run_ended env run failed w w'"
proof -
  have get: "get env ''lease'' as_lease (er_task_lease_id run) w = (fst (get env ''lease'' as_lease (er_task_lease_id run) w), w)"
    and task: "current_task env (er_task_id run) w = (fst (current_task env (er_task_id run) w), w)"
    using get_world current_task_world by (metis prod.collapse)+
  note parts = assms [unfolded recover_run_parts bnd_eq [of "get env ''lease'' as_lease (er_task_lease_id run)"]
      bnd_eq [of "current_task env (er_task_id run)"]]
  show "r = Inr [] \<and> w' = w" if "lease_current env observed run w"
    using that parts get task
    by (auto simp: lease_current_def bnd_read give_eq split: sum.splits option.splits prod.splits)
  show "\<exists>failed. recovered = [failed] \<and> run_ended env run failed w w'"
    if stale: "\<not> lease_current env observed run w" and r: "r = Inr recovered"
  proof -
    obtain lease board task where found: "fst (get env ''lease'' as_lease (er_task_lease_id run) w) = Inr lease"
        "fst (current_task env (er_task_id run) w) = Inr (board, task)"
      and rest: "(if (case lease of None \<Rightarrow> False | Some l \<Rightarrow> verify_task_revision l (at_revision task) observed (w_control w)) then give []
         else end_stale env observed run lease board task) w = (Inr recovered, w')"
      using parts get task r by (auto simp: bnd_read)
    then have "end_stale env observed run lease board task w = (Inr recovered, w')"
      using stale by (auto simp: lease_current_def split: option.splits if_splits)
    then show ?thesis using found(2) by (rule end_stale_ended)
  qed
qed

end
