(* ===== verification/Execution_Service_Properties.thy ===== *)
theory Execution_Service_Properties
  imports Execution_Outcomes Emergency_Properties Ledger_Properties Execution_Store_Properties
begin

text \<open>
  What the execution service promises: no lease is leaked, the number of runs with a valid slot is
  bounded, nothing is launched behind a closed gate, a run is launched at most once, a run that was
  stopped or has lost its lease is not delivered for review, and only stale runs are recovered.
\<close>

section \<open>Closed gates\<close>

text \<open>What keeps every runtime from being launched.\<close>

definition gates_closed :: "service_env \<Rightarrow> platform_db option \<Rightarrow> bool" where
  "gates_closed env db \<longleftrightarrow>
     \<not> ff_heartbeats_enabled (xc_features (sv_config env)) \<or>
     \<not> ff_runtime_execution_enabled (xc_features (sv_config env)) \<or>
     assert_runtime_allowed (sv_emergency env) db \<noteq> Inr () \<or>
     (\<forall>q at d. evaluate_execution_policy (sv_sha env) (sv_strip env) q (xc_features (sv_config env)) at = Inr d \<longrightarrow> pd_outcome d \<noteq> ALLOW) \<or>
     (\<forall>adapter at health. health_check (sv_strip env) (sv_resolver env) (sv_probe env) adapter at = Inr health \<longrightarrow>
        rh_status health \<noteq> HEALTH_AVAILABLE)"

definition silent :: "platform_db option \<Rightarrow> heartbeat_reply saga \<Rightarrow> bool" where
  "silent db m \<longleftrightarrow> (\<forall>w r w' i. w_platform w = db \<longrightarrow> m w = (r, w') \<longrightarrow> r \<noteq> Inr (Launched i))"

lemma silentD: "silent db m \<Longrightarrow> m w = (r, w') \<Longrightarrow> w_platform w = db \<Longrightarrow> r \<noteq> Inr (Launched i)"
  unfolding silent_def by blast

lemma silent_answer: "silent db (answer m)" by (auto simp: silent_def dest: answer_not_launched)

lemma silent_fail: "silent db (fail e)" by (simp add: silent_def fail_def)

lemma silent_bnd:
  assumes "gentle m" "\<And>w x w'. w_platform w = db \<Longrightarrow> m w = (Inr x, w') \<Longrightarrow> silent db (f x)"
  shows "silent db (bnd m f)"
  unfolding silent_def bnd_eq
proof (intro allI impI notI, elim disjE exE conjE)
  fix w r w' i x w1 assume a: "w_platform w = db" "m w = (Inr x, w1)" "f x w1 = (r, w')" "r = Inr (Launched i)"
  have "w_platform w1 = db" using gentleD [OF assms(1) a(2)] a(1) by (simp add: mild_def beside_def)
  then have "r \<noteq> Inr (Launched i)" by (rule silentD [OF assms(2) [OF a(1,2)] a(3)])
  with a(4) show False by simp
qed simp

lemma silent_attempt:
  assumes "gentle m" "\<And>e. silent db (h e)" "\<And>w x w'. w_platform w = db \<Longrightarrow> m w = (Inr x, w') \<Longrightarrow> silent db (f x)"
  shows "silent db (attempt m h f)"
  unfolding silent_def attempt_eq
proof (intro allI impI notI, elim disjE exE conjE)
  fix w r w' i x w1 assume a: "w_platform w = db" "m w = (Inr x, w1)" "f x w1 = (r, w')" "r = Inr (Launched i)"
  have "w_platform w1 = db" using gentleD [OF assms(1) a(2)] a(1) by (simp add: mild_def beside_def)
  then have "r \<noteq> Inr (Launched i)" by (rule silentD [OF assms(3) [OF a(1,2)] a(3)])
  with a(4) show False by simp
next
  fix w r w' i e w1 assume a: "w_platform w = db" "m w = (Inl e, w1)" "h e w1 = (r, w')" "r = Inr (Launched i)"
  have "w_platform w1 = db" using gentleD [OF assms(1) a(2)] a(1) by (simp add: mild_def beside_def)
  then have "r \<noteq> Inr (Launched i)" by (rule silentD [OF assms(2) a(3)])
  with a(4) show False by simp
qed

lemma silent_if: "(b \<Longrightarrow> silent db m) \<Longrightarrow> (\<not> b \<Longrightarrow> silent db n) \<Longrightarrow> silent db (if b then m else n)" by simp
lemma silent_option: "silent db m \<Longrightarrow> (\<And>y. silent db (f y)) \<Longrightarrow> silent db (case x of None \<Rightarrow> m | Some y \<Rightarrow> f y)"
  by (cases x) simp_all
lemma silent_prod: "(\<And>a b. silent db (f a b)) \<Longrightarrow> silent db (case p of (a, b) \<Rightarrow> f a b)" by (cases p) simp

lemma lift_Inr: "lift (rcatch v h) w = (Inr x, w') \<Longrightarrow> v = Inr x"
  by (cases v) (simp_all add: lift_def rcatch_def)

lemma silent_plan:
  assumes "\<And>adapter at health. health_check (sv_strip env) (sv_resolver env) (sv_probe env) adapter at = Inr health \<Longrightarrow>
        rh_status health \<noteq> HEALTH_AVAILABLE"
  shows "silent db (plan_run env h)"
  unfolding plan_run_def
proof (rule silent_bnd [OF gentle_lift], drule lift_Inr)
  fix w w' health assume "health_check (sv_strip env) (sv_resolver env) (sv_probe env) (bh_adapter h) (bh_started_at h) = Inr health"
  from assms [OF this] show "silent db
     (if rh_status health \<noteq> HEALTH_AVAILABLE then bh_blocked env h ''runtime_adapter_unhealthy'' (Some (bh_decision h)) False None False
      else bnd (lift (rcatch (make_ManagedCwd (sv_root env) (tw_repo_path (wp_workspace (bh_prepared h)))
              (tw_mode (wp_workspace (bh_prepared h)))) ServiceAdapter)) (\<lambda>cwd.
       bnd (session_context env (bh_assignment h) (bh_employee h) (bh_prepared h) (bh_decision h) (bh_adapter h)
              (hq_model (bh_request h))) (\<lambda>(existing, compatibility).
       let resolution = resolve_session (sv_sha env) existing compatibility in
       bnd (lift (rcatch (make_RuntimeRequest
              \<lparr>rq_prompt = prompt_for (bh_task h) (bh_prepared h), rq_cwd = cwd,
               rq_filesystem_policy = de_filesystem_policy (bh_employee h), rq_model = hq_model (bh_request h),
               rq_provider_session_id = (if srs_compatible resolution then Option.bind existing es_provider_session_id else None)\<rparr>)
              ServiceAdapter)) (\<lambda>request.
       bnd (lift (rcatch (build_command (sv_resolver env) (bh_adapter h) request) ServiceAdapter)) (\<lambda>plan.
       launch env (approved_heartbeat.extend h (planned_heartbeat.fields existing compatibility plan)))))))"
    by (simp add: silent_answer)
qed

lemma silent_authorize:
  assumes "(\<forall>q at d. evaluate_execution_policy (sv_sha env) (sv_strip env) q (xc_features (sv_config env)) at = Inr d \<longrightarrow> pd_outcome d \<noteq> ALLOW) \<or>
     (\<forall>adapter at health. health_check (sv_strip env) (sv_resolver env) (sv_probe env) adapter at = Inr health \<longrightarrow>
        rh_status health \<noteq> HEALTH_AVAILABLE)"
  shows "silent db (authorize_run env h)"
proof (cases "\<forall>adapter at health. health_check (sv_strip env) (sv_resolver env) (sv_probe env) adapter at = Inr health \<longrightarrow>
        rh_status health \<noteq> HEALTH_AVAILABLE")
  case True
  then show ?thesis
    unfolding authorize_run_def Let_def
    by (intro silent_option silent_answer silent_bnd silent_prod silent_if silent_plan gentle_create gentle_lift gentle_put gentle_option
        gentle_give gentle_get) blast
next
  case False
  with assms have deny: "evaluate_execution_policy (sv_sha env) (sv_strip env) q (xc_features (sv_config env)) at = Inr d \<Longrightarrow> pd_outcome d \<noteq> ALLOW"
    for q at d by blast
  have last: "silent db (if pd_outcome d \<noteq> ALLOW then m d else n d)"
    if "lift (rcatch (evaluate_execution_policy (sv_sha env) (sv_strip env) q (xc_features (sv_config env)) at) ServicePolicy) w = (Inr d, w')"
      "silent db (m d)" for m n q at d w w'
    using deny [OF lift_Inr [OF that(1)]] that(2) by simp
  show ?thesis
    unfolding authorize_run_def Let_def
    by (intro silent_option silent_answer silent_prod silent_bnd gentle_create gentle_lift gentle_put gentle_option gentle_give gentle_get
        silent_if [of "_ \<and> _"]) (erule last, rule silent_answer)
qed

lemma silent_gated:
  assumes "gates_closed env db"
  shows "silent db (gated_heartbeat env q key)"
proof -
  consider (flags) "\<not> ff_heartbeats_enabled (xc_features (sv_config env)) \<or> \<not> ff_runtime_execution_enabled (xc_features (sv_config env))"
    | (gate) "assert_runtime_allowed (sv_emergency env) db \<noteq> Inr ()"
    | (late) "(\<forall>q at d. evaluate_execution_policy (sv_sha env) (sv_strip env) q (xc_features (sv_config env)) at = Inr d \<longrightarrow> pd_outcome d \<noteq> ALLOW) \<or>
     (\<forall>adapter at health. health_check (sv_strip env) (sv_resolver env) (sv_probe env) adapter at = Inr health \<longrightarrow>
        rh_status health \<noteq> HEALTH_AVAILABLE)"
    using assms unfolding gates_closed_def by blast
  then show ?thesis
  proof cases
    case flags
    then show ?thesis
      unfolding gated_heartbeat_def Let_def
      by (intro silent_bnd silent_if silent_answer gentle_timestamp gentle_lookups) simp_all
  next
    case gate
    have no: "emergency_gate env w \<noteq> (Inr x, w')" if "w_platform w = db" for w x w'
      using gate that by (cases "assert_runtime_allowed (sv_emergency env) db") (simp_all add: emergency_gate_def rcatch_def)
    have "silent db (attempt (emergency_gate env) h k)" if "\<And>e. silent db (h e)" for h k
      by (rule silent_attempt [OF gentle_gate that]) (simp add: no)
    note stop = this
    show ?thesis
      unfolding gated_heartbeat_def Let_def
      by (intro silent_bnd silent_if silent_answer silent_fail stop gentle_timestamp gentle_lookups)
  next
    case late
    then show ?thesis
      unfolding gated_heartbeat_def Let_def
      by (intro silent_bnd silent_if silent_answer silent_fail silent_attempt silent_prod silent_authorize gentle_timestamp gentle_lookups gentle_gate
          gentle_bind_run)
  qed
qed

lemma silent_heartbeat: "gates_closed env db \<Longrightarrow> silent db (heartbeat env q)"
  unfolding heartbeat_def
  by (intro silent_bnd silent_option silent_answer silent_gated gentle_lookups gentle_ask_store gentle_timestamp gentle_claim gentle_check gentle_get)

definition lease_owners :: "control_db \<Rightarrow> string set" where
  "lease_owners db = {run. \<exists>p row. db_leases db p = Some row \<and> lr_owner_run_id row = Some run}"

lemma accounted_owners:
  assumes "accounted lim w"
  shows "lease_owners (w_control w) \<subseteq> dom (w_active w)"
proof
  fix run assume "run \<in> lease_owners (w_control w)"
  then obtain p row where row: "db_leases (w_control w) p = Some row" "lr_owner_run_id row = Some run"
    by (auto simp: lease_owners_def)
  have "covered (held_by (checkouts w)) (w_control w)" using assms by (simp add: accounted_def lease_state_def)
  from coveredD [OF this row(1)] row(2) obtain tok where tok: "tok \<in> held_by (checkouts w)" "owns row tok" by auto
  from tok(1) obtain run' ck where ck: "checkouts w run' = Some ck" "tok \<in> tokens ck" by (rule held_byE)
  then have "lt_owner_run_id tok = run'" using assms by (auto simp: accounted_def checkout_ok_def)
  with tok(2) row(2) ck(1) show "run \<in> dom (w_active w)" by (auto simp: owns_def checkouts_def)
qed

text \<open>C3: In every state that a process can reach by operations of the execution service, interleaved with
  each other, with the renewals of running runtimes and with changes of other commands, every lease that has an owner
  belongs to an active run: whatever stage of a checkout, launch or collection fails, its slots and its task lease are
  given back.\<close>

theorem no_lease_is_leaked:
  assumes "service_ok env" "fresh_world start" "service_reach env start w"
  shows "lease_owners (w_control w) \<subseteq> dom (w_active w)"
  by (rule accounted_owners [OF reach_accounted [OF assms(3,1) fresh_accounted [OF assms(2)]]])

definition valid_slots :: "world \<Rightarrow> int \<Rightarrow> string set" where
  "valid_slots w t = {run. \<exists>a. w_active w run = Some a \<and> verify_lease (w_control w) (ck_global_slot (ar_checkout a)) t}"

lemma accounted_slots:
  assumes "accounted lim w"
  shows "card (valid_slots w t) \<le> lim"
proof -
  let ?p = "\<lambda>run. lt_partition_key (ck_global_slot (ar_checkout (the (w_active w run))))"
  have slot: "checkout_ok lim run (ar_checkout a)" if "w_active w run = Some a" for run a
    using assms that by (auto simp: accounted_def checkouts_def)
  have owner: "\<exists>row. db_leases (w_control w) (?p run) = Some row \<and> lr_owner_run_id row = Some run" if "run \<in> valid_slots w t" for run
  proof -
    from that obtain a where a: "w_active w run = Some a" "verify_lease (w_control w) (ck_global_slot (ar_checkout a)) t"
      by (auto simp: valid_slots_def)
    then obtain row where "db_leases (w_control w) (?p run) = Some row" "owns row (ck_global_slot (ar_checkout a))"
      by (auto simp: verify_lease_def split: option.splits)
    moreover have "lt_owner_run_id (ck_global_slot (ar_checkout a)) = run" using slot [OF a(1)] by (simp add: checkout_ok_def tokens_def)
    ultimately show ?thesis by (auto simp: owns_def)
  qed
  have "inj_on ?p (valid_slots w t)"
  proof (rule inj_onI)
    fix r s assume r: "r \<in> valid_slots w t" and s: "s \<in> valid_slots w t" and "?p r = ?p s"
    then show "r = s" using owner [OF r] owner [OF s] by auto
  qed
  moreover have "?p ` valid_slots w t \<subseteq> global_slot ` {..<lim}"
    using slot by (auto simp: valid_slots_def checkout_ok_def)
  ultimately have "card (valid_slots w t) \<le> card (global_slot ` {..<lim})" by (rule card_inj_on_le) simp
  also have "\<dots> \<le> lim" using card_image_le [of "{..<lim}" global_slot] by simp
  finally show ?thesis .
qed

text \<open>C7: In every reachable state at most \<open>max_concurrent_runs\<close> active runs hold a valid global slot.\<close>

theorem concurrent_runs_are_limited:
  assumes "service_ok env" "fresh_world start" "service_reach env start w"
  shows "card (valid_slots w t) \<le> nat (xc_max_concurrent_runs (sv_config env))"
  by (rule accounted_slots [OF reach_accounted [OF assms(3,1) fresh_accounted [OF assms(2)]]])


text \<open>C4: A run that is active or recorded is never launched again, by no heartbeat with whatever key and
  after any further operations: repeating a request cannot execute it twice.\<close>

theorem run_is_launched_at_most_once:
  assumes "service_ok env" "fresh_world start" "service_reach env start w" "service_reach env w w'"
    and "stored (w_store w) ''run'' i \<or> w_active w i \<noteq> None"
  shows "fst (heartbeat env q w') \<noteq> Inr (Launched i)"
proof
  assume launched: "fst (heartbeat env q w') = Inr (Launched i)"
  note acc = reach_accounted [OF assms(3,1) fresh_accounted [OF assms(2)]]
  have "stored (w_store w) ''run'' i" using assms(5) acc by (auto simp: accounted_def checkouts_def)
  then have "stored (w_store w') ''run'' i" using reach_steady [OF assms(4)] by (simp add: keeps_runs_def)
  moreover have "heartbeat env q w' = (Inr (Launched i), snd (heartbeat env q w'))" using launched by (simp add: prod_eq_iff)
  ultimately show False
    using news_heartbeat [OF assms(1)] reach_accounted [OF assms(4,1) acc] unfolding news_def by blast
qed

section \<open>Review\<close>

text \<open>C5: A run that was paused, cancelled or stopped by the emergency, whose renewal failed, or whose task lease has
  passed to another owner is not delivered, whatever the runtime has returned: collecting it fails, or answers with a
  cancelled or failed run; no task is moved but the run's, and this one only to blocked or cancelled, never to review;
  and the store gains no record of a run but as cancelled or failed.\<close>

theorem stopped_or_fenced_run_is_not_delivered:
  assumes "w_active w run = Some a" "run_stopped a \<or> \<not> fence_held w a"
  shows "case collect env run returned w of (r, w') \<Rightarrow>
    outcome_of r \<in> {None, Some RUN_CANCELLED, Some RUN_FAILED} \<and>
    tamed env (moves (er_task_id (ar_run a)) {BLOCKED, CANCELLED}) {RUN_CANCELLED, RUN_FAILED} w w'"
  using stopped_not_delivered [of w run env returned] assms by (simp add: not_delivered_def split: prod.splits)

lemma gate_tick:
  assumes "w_active w run = Some a" "ar_renewal_error a = None" "assert_runtime_allowed (sv_emergency env) (w_platform w) = Inl e"
  shows "w_active (snd (renew_tick env run w)) run =
    Some (a\<lparr>ar_renewal_error := Some (ServiceEmergency e), ar_cancelled := True,
      ar_intent := (if e = EmergencyError then Some ''emergency'' else ar_intent a)\<rparr>)"
  using assms by (simp add: renew_tick_def bnd_read attempt_def renew_tick_body_def Let_def bnd_gate update_active_def)

text \<open>C39: When the emergency gate is closed or cannot be read at a renewal, the active run is cancelled, and its result
  is not delivered at any later time: whatever operations of the service and changes of other commands come between the
  renewal and the collection, and even if the gate is opened again, the run does not reach review.\<close>

theorem emergency_stops_active_run:
  assumes "w_active w run = Some a" "stored (w_store w) ''run'' run" "ar_renewal_error a = None"
    and "assert_runtime_allowed (sv_emergency env) (w_platform w) \<noteq> Inr ()"
    and "service_reach env (snd (renew_tick env run w)) w'"
  shows "map_option ar_cancelled (w_active (snd (renew_tick env run w)) run) = Some True \<and>
    not_delivered env run returned w'"
proof
  from assms(4) obtain e where e: "assert_runtime_allowed (sv_emergency env) (w_platform w) = Inl e"
    by (cases "assert_runtime_allowed (sv_emergency env) (w_platform w)") auto
  note tick = gate_tick [OF assms(1,3) e]
  show "map_option ar_cancelled (w_active (snd (renew_tick env run w)) run) = Some True" by (simp add: tick)
  have "stored (w_store (snd (renew_tick env run w))) ''run'' run"
    using step_steady [OF service_step.tick [OF prod.collapse [symmetric]]] assms(2) by (simp add: keeps_runs_def)
  then show "not_delivered env run returned w'"
    by (rule reach_not_delivered [OF assms(5)]) (simp add: halted_def tick run_stopped_def)
qed

section \<open>Recovery\<close>

text \<open>C40: Recovery leaves a run alone, and changes nothing, when its recorded lease is valid for the current
  revision of its task. When it answers for any other run, it has ended it: a failed revision is the head of the record,
  a runtime of this process that still works on it is told to stop, and its task, when it was running, was moved to
  blocked by one successful command, while the workspace is otherwise untouched. When it fails on the way, it has at most
  moved this task to blocked and recorded failed runs.\<close>

theorem only_stale_runs_are_recovered:
  "case recover_run env observed run w of (r, w') \<Rightarrow>
    if lease_current env observed run w then r = Inr [] \<and> w' = w
    else tamed env (moves (er_task_id run) {BLOCKED}) {RUN_FAILED} w w' \<and>
      (case r of Inl e \<Rightarrow> True | Inr recovered \<Rightarrow> \<exists>failed. recovered = [failed] \<and> run_ended env run failed w w')"
proof (cases "recover_run env observed run w")
  case (Pair r w')
  note effect = recover_run_effect [OF Pair]
  from effect keepsD [OF tame_recover Pair] show ?thesis by (simp add: Pair split: sum.split)
qed

section \<open>Sample\<close>

definition sample_config :: execution_config where
  "sample_config = \<lparr>xc_features = sample_flags, xc_control_db = ''ops/control.sqlite'', xc_workspaces_root = ''ops/workspaces'',
     xc_lease_ttl_seconds = 60, xc_lease_renewal_seconds = 20, xc_max_run_seconds = 900, xc_cancel_grace_seconds = 5,
     xc_max_output_bytes = 65536, xc_max_transcript_events = 100, xc_max_context_bytes = 65536, xc_max_concurrent_runs = 2\<rparr>"

definition sample_service :: service_env where
  "sample_service = \<lparr>sv_tasks = sample_env, sv_leases = sample_lease_env, sv_store = sample_xstore, sv_emergency = sample_emergency,
     sv_config = sample_config, sv_strip = (\<lambda>s. s), sv_root = [], sv_adapters = (\<lambda>_. Some (FakeAdapter True)),
     sv_implementation = (\<lambda>_. ''fake''), sv_resolver = (\<lambda>_. None), sv_probe = (\<lambda>_. None), sv_employees = (\<lambda>_. Inr []),
     sv_prepare = (\<lambda>_ _ _ _ _ _. Inl (WorkspaceFailure ''WorkspaceError'')), sv_marker = (\<lambda>_ _. NoMarker),
     sv_git = (\<lambda>_ _ _. (0, [])), sv_utf8 = (\<lambda>_. Some []), sv_json_line = (\<lambda>_. None), sv_clock = (\<lambda>n. int n),
     sv_wall_clock = (\<lambda>n. int n)\<rparr>"

text \<open>A store that holds the record of a run, and a process that has just started.\<close>

definition run_row :: execution_row where
  "run_row = \<lparr>xw_kind = ''run'', xw_record_id = ''xrun_1'', xw_revision = 1, xw_payload_json = ''{}'',
     xw_payload_sha256 = replicate 64 CHR ''a'', xw_state = ''review'', xw_associations = associated None None None None None,
     xw_created_at = []\<rparr>"

definition run_head :: head_row where
  "run_head = \<lparr>hr_kind = ''run'', hr_record_id = ''xrun_1'', hr_revision = 1, hr_payload_sha256 = replicate 64 CHR ''a''\<rparr>"

definition started_world :: world where
  "started_world = \<lparr>w_files = Map.empty, w_control = sample_db, w_store = opened_store\<lparr>xd_records := [run_row], xd_heads := [run_head]\<rparr>,
     w_platform = None, w_asked = 0, w_active = Map.empty\<rparr>"

definition sample_heartbeat :: heartbeat_request where
  "sample_heartbeat = \<lparr>hq_assignment_id = ''assignment_1'', hq_idempotency_key = ''key'', hq_approval_id = None, hq_model = None,
     hq_fixture_mode = True, hq_fixture_git_commit = None, hq_now = None, hq_resumed_from_run_id = None\<rparr>"

definition later_world :: world where
  "later_world = snd (heartbeat sample_service sample_heartbeat started_world)"

lemma sample_service_ok: "service_ok sample_service"
proof -
  have "is_Sha256 (replicate 64 CHR ''a'')" by code_simp
  then show ?thesis
    by (simp add: service_ok_def sample_service_def sample_lease_env_def sample_xstore_def sample_config_def)
qed

lemma started_fresh: "fresh_world started_world"
proof -
  have "is_Identifier ''epoch_e''" by code_simp
  then show ?thesis
    by (simp add: fresh_world_def started_world_def control_ok_def sample_db_def create_schema_def empty_db_def)
qed

lemma started_gate: "assert_runtime_allowed (sv_emergency sample_service) (w_platform started_world) = Inl EmergencyError"
  by (simp add: assert_runtime_allowed_def Emergency.snapshot_def open_platform_store_read_only_def started_world_def result_simps)

lemma started_step: "service_reach sample_service started_world later_world"
  unfolding later_world_def by (rule r_into_rtranclp, rule service_step.beat [OF prod.collapse [symmetric]])

lemma started_stored: "stored (w_store started_world) ''run'' ''xrun_1''"
  by (simp add: stored_def started_world_def find_xhead_def find_xrow_def run_row_def run_head_def)

lemma started_closed: "gates_closed sample_service (w_platform started_world)"
  using started_gate by (simp add: gates_closed_def)

theorem no_lease_is_leaked_witness: "lease_owners (w_control later_world) \<subseteq> dom (w_active later_world)"
  by (rule no_lease_is_leaked [OF sample_service_ok started_fresh started_step])

theorem concurrent_runs_are_limited_witness: "card (valid_slots later_world 5) \<le> 2"
  using concurrent_runs_are_limited [OF sample_service_ok started_fresh started_step, of 5]
  by (simp add: sample_service_def sample_config_def)


theorem run_is_launched_at_most_once_witness: "fst (heartbeat sample_service sample_heartbeat later_world) \<noteq> Inr (Launched ''xrun_1'')"
  by (rule run_is_launched_at_most_once [OF sample_service_ok started_fresh rtranclp.rtrancl_refl started_step])
    (simp add: started_stored)

definition waiting_run :: active_run where
  "waiting_run = \<lparr>ar_operation_key = ''xop_1'', ar_key = ''idem_1'', ar_request = [],
     ar_run = \<lparr>schema_name = ''ExecutionRunV1'', schema_version = SCHEMA_VERSION, id_scheme_version = ID_SCHEME_VERSION,
         extensions = [], er_run_id = ''xrun_1'', er_invocation_id = ''xinv_1'', er_invocation_source = ''manual'',
         er_employee_id = ''emp1'', er_task_id = ''task1'', er_runtime_adapter_id = ''adapter_fake'', er_provider = ''fake'',
         er_model = None, er_safe_command = [''fake''], er_cwd_token = ''ws/repo'', er_workspace_id = ''ws1'',
         er_graph_snapshot_id = ''graph1'', er_graph_scope_id = ''scope1'', er_session_id_before = None,
         er_session_id_after = Some ''session1'', er_policy_decision_id = ''policy1'', er_approval_id = None,
         er_task_lease_id = ''tlease_1'', er_fencing_token = 1, er_status = RUN_RUNNING, er_started_at = 0,
         er_ended_at = None, er_exit_code = None, er_usage = zero_usage, er_changed_files = [], er_tests = [],
         er_artifact_ids = [], er_summary = [], er_error_code = None, er_retry_of_run_id = None, er_resumed_from_run_id = None\<rparr>,
     ar_invocation = \<lparr>schema_name = ''ExecutionInvocationV1'', schema_version = SCHEMA_VERSION, id_scheme_version = ID_SCHEME_VERSION,
         extensions = [], ei_invocation_id = ''xinv_1'', ei_source = ''manual'', ei_task_id = ''task1'',
         ei_task_generation_id = ''gen1'', ei_task_revision = 1, ei_employee_id = ''emp1'', ei_employee_configuration_revision = ''rev1'',
         ei_runtime_adapter_id = ''adapter_fake'', ei_runtime_adapter_sha256 = replicate 64 CHR ''a'', ei_workspace_id = ''ws1'',
         ei_workspace_manifest_sha256 = replicate 64 CHR ''a'', ei_graph_scope_id = ''scope1'', ei_graph_snapshot_id = ''graph1'',
         ei_context_snapshot_sha256 = replicate 64 CHR ''a'', ei_policy_decision_id = ''policy1'',
         ei_policy_decision_sha256 = replicate 64 CHR ''a'', ei_budget_policy_ids = [], ei_approval_id = None,
         ei_idempotency_key = ''idem_1'', ei_created_at = 0\<rparr>,
     ar_assignment = \<lparr>schema_name = ''TaskAssignmentV1'', schema_version = SCHEMA_VERSION, id_scheme_version = ID_SCHEME_VERSION,
         extensions = [], ta_assignment_id = ''assignment_1'', ta_task_id = ''task1'', ta_task_generation_id = ''gen1'',
         ta_task_revision = 1, ta_employee_id = ''emp1'', ta_runtime_adapter_id = ''adapter_fake'', ta_budget_policy_id = None,
         ta_approval_policy_id = None, ta_graph_scope_id = None, ta_status = ''active'', ta_revision = 1, ta_created_at = 0,
         ta_updated_at = 0\<rparr>,
     ar_session = projr sample_session,
     ar_checkout = \<lparr>ck_task_lease = sample_lease, ck_global_slot = fst sample_held, ck_employee_slot = fst sample_held\<rparr>,
     ar_budget_policy = None,
     ar_policy_decision = \<lparr>schema_name = ''PolicyDecisionV1'', schema_version = SCHEMA_VERSION, id_scheme_version = ID_SCHEME_VERSION,
         extensions = [], pd_policy_decision_id = ''policy1'', pd_action = ''runtime.execute'', pd_target_id = ''xrun_1'',
         pd_payload_sha256 = replicate 64 CHR ''a'', pd_destination = None, pd_policy_version = ''1'',
         pd_policy_sha256 = replicate 64 CHR ''a'', pd_outcome = ALLOW, pd_reason_codes = [], pd_required_approval_scope = [],
         pd_evaluated_at = 0\<rparr>,
     ar_cancelled = False, ar_intent = None, ar_renewal_error = None\<rparr>"

text \<open>The run waits, and another process has taken its leases: the table is empty.\<close>

definition waiting_world :: world where
  "waiting_world = started_world\<lparr>w_active := [''xrun_1'' \<mapsto> waiting_run]\<rparr>"

definition clean_exit :: process_outcome where
  "clean_exit = \<lparr>po_exit_code = Some 0, po_stdout = [], po_stderr = [], po_termination_reason = ''completed''\<rparr>"

theorem stopped_or_fenced_run_is_not_delivered_witness:
  "case collect sample_service ''xrun_1'' (Inr clean_exit) waiting_world of (r, w') \<Rightarrow>
    outcome_of r \<in> {None, Some RUN_CANCELLED, Some RUN_FAILED} \<and>
    tamed sample_service (moves (er_task_id (ar_run waiting_run)) {BLOCKED, CANCELLED}) {RUN_CANCELLED, RUN_FAILED} waiting_world w'"
proof (rule stopped_or_fenced_run_is_not_delivered)
  show "w_active waiting_world ''xrun_1'' = Some waiting_run" by (simp add: waiting_world_def)
  show "run_stopped waiting_run \<or> \<not> fence_held waiting_world waiting_run"
    by (simp add: fence_held_def waiting_world_def started_world_def sample_db_def create_schema_def empty_db_def Let_def)
qed

text \<open>After the renewal behind the closed gate another heartbeat runs, and the gate is opened.\<close>

definition stopped_world :: world where
  "stopped_world = (snd (heartbeat sample_service sample_heartbeat (snd (renew_tick sample_service ''xrun_1'' waiting_world))))
     \<lparr>w_platform := Some sample_store\<rparr>"

theorem emergency_stops_active_run_witness:
  "map_option ar_cancelled (w_active (snd (renew_tick sample_service ''xrun_1'' waiting_world)) ''xrun_1'') = Some True \<and>
   not_delivered sample_service ''xrun_1'' (Inr clean_exit) stopped_world"
proof (rule emergency_stops_active_run)
  show "w_active waiting_world ''xrun_1'' = Some waiting_run" by (simp add: waiting_world_def)
  show "stored (w_store waiting_world) ''run'' ''xrun_1''" using started_stored by (simp add: waiting_world_def)
  show "ar_renewal_error waiting_run = None" by (simp add: waiting_run_def)
  show "assert_runtime_allowed (sv_emergency sample_service) (w_platform waiting_world) \<noteq> Inr ()"
    using started_gate by (simp add: waiting_world_def)
  show "service_reach sample_service (snd (renew_tick sample_service ''xrun_1'' waiting_world)) stopped_world"
    unfolding stopped_world_def
    by (rule converse_rtranclp_into_rtranclp, rule service_step.beat [OF prod.collapse [symmetric]],
        rule r_into_rtranclp, rule service_step.override)
qed

end
