(* ===== verification/Spec2Isabelle.thy ===== *)
theory Spec2Isabelle
  imports Ledger_Properties Platform_Store Control Operation_Contracts Execution_Contracts Configuration Policy
    Runtime_Commands Workflow_Properties Task_Leases Sessions Execution_Store_Properties Execution_Service_Properties
begin

text \<open>
  Verification of the control plane of raytsystem (\<open>src/src/raytsystem\<close>): the program that lets agents
  work on a repository. Its own logic is a set of ledgers and stores with services over them. All data
  that is identified or compared is first put into one canonical JSON form and hashed; every ledger
  entry, record, approval and decision carries an identifier derived that way. File names below are
  relative to \<open>src/src/raytsystem\<close>.
\<close>

section \<open>The program and its model\<close>

text \<open>
  \<^bold>\<open>Foundations.\<close> \<open>Prelude\<close> has results (\<open>'e + 'a\<close>: \<open>Inl\<close> is a raised exception), the Python idioms and
  the locale \<open>row_order\<close> of rows that only advance. \<open>Canonical\<close> models \<open>contracts/base.py\<close>: Python values
  (\<open>pyval\<close>), \<open>_canonical_value\<close>, \<open>canonical_json_bytes\<close> down to the escaped text, \<open>derive_id\<close>,
  \<open>validate_relative_path\<close> and the base record of all contracts. \<open>Json_Text\<close> is the reader \<open>json.loads\<close> on
  the texts the stores keep. \<open>Files\<close> models \<open>security/paths.py\<close>, \<open>io.py\<close> and \<open>storage.py\<close> on a file tree:
  contained and bounded reads, immutable publication, the generation pointer.

  \<^bold>\<open>Task ledger.\<close> \<open>Task_Contracts\<close> (\<open>contracts/agentic.py\<close>), \<open>Task_Graph\<close> (the dependency check) and
  \<open>Task_Ledger\<close> (\<open>tasking.py\<close>: every command and query of \<open>TaskService\<close>, on the files of the workspace).
  A command is a function of the file tree that returns its result and the tree it leaves, also when it
  raises. \<open>Task_Board\<close> is what the ledger promises, a map from task ids to tasks that changes by legal
  transitions; \<open>Ledger_Growth\<close>, \<open>Ledger_Commands\<close> and \<open>Ledger_Properties\<close> show that the files implement it.

  \<^bold>\<open>Stores.\<close> \<open>Platform_Store\<close> (\<open>platform_store.py\<close>: revisioned records with heads, hash chained audit
  streams, receipts), \<open>Control\<close> (\<open>control.py\<close>: operation claims, fenced leases, promotions, outbox) and
  \<open>Execution_Store\<close> (\<open>execution/store.py\<close>: the records of the execution plane, transcripts, receipts) model
  SQLite tables as lists of rows or maps and a transaction as a function that returns an error, after
  which nothing has changed, or its result with the committed tables. \<open>Store_Program\<close> has the programs of
  the services over a store, which keep what they committed when they raise later, with a weakest
  precondition calculus and the locale \<open>logged_store\<close> of its store operations.

  \<^bold>\<open>Policy and authority.\<close> \<open>Configuration\<close> (\<open>execution/config.py\<close>, \<open>features.py\<close>), \<open>Policy\<close>
  (\<open>policy_simulator/engine.py\<close>, \<open>execution/policy.py\<close>), \<open>Authority\<close> (\<open>authority.py\<close>: approvals and recorded
  decisions), \<open>Emergency\<close> and \<open>Emergency_Properties\<close> (\<open>emergency/service.py\<close>: the emergency stop and the
  circuit breakers), \<open>Operation_Contracts\<close> and \<open>Execution_Contracts\<close> (the records with the checks of their
  constructors).

  \<^bold>\<open>Workflow engine.\<close> \<open>Workflow_Contracts\<close>, \<open>Workflow_Dag\<close> (\<open>validate_dag\<close>) and \<open>Workflow_Engine\<close>
  (\<open>workflows/service.py\<close>: every operation). \<open>Workflow_Machine\<close> is the abstract engine, a transition system
  on runs and steps; \<open>Workflow_Refinement\<close> and \<open>Workflow_Calls\<close> show that every call of the service on a
  sound store is a sequence of its transitions, and \<open>Workflow_Properties\<close> draws the consequences.

  \<^bold>\<open>Runtime.\<close> \<open>Runtime_Commands\<close> (\<open>execution/adapters.py\<close>: the command lines, their grammar, the working
  directory, the output buffer), \<open>Task_Leases\<close> (\<open>execution/leases.py\<close> over \<open>Control\<close>), \<open>Sessions\<close>
  (\<open>execution/sessions.py\<close>), \<open>Execution_Records\<close> and \<open>Execution_Store_Properties\<close>.

  \<^bold>\<open>Execution service.\<close> \<open>execution/service.py\<close> is where the parts meet: the saga that runs an assigned task.
  \<open>Execution_World\<close> has the world it works on (workspace files, control tables, execution store, platform
  store, the runs that wait for their runtime) and lifts the operations of the other theories to it;
  \<open>Execution_Saga\<close>, \<open>Execution_Service\<close> and \<open>Execution_Heartbeat\<close> have the operations: assignment, workspace
  preparation, the heartbeat with its gates, checkout and launch, the renewal ticks, collection, pause,
  cancel, resume and recovery. The heartbeat of the code is one coroutine; its model is cut at the only
  point where it waits, so that \<open>collect\<close> continues what \<open>heartbeat\<close> has launched and other operations may
  come in between. \<open>Execution_Frames\<close> and \<open>Execution_Leases\<close> show which programs leave leases and runs alone
  and follow the leases through the others, \<open>Execution_Launches\<close> and \<open>Execution_Steps\<close> establish the invariant
  of the service for all interleavings, and \<open>Execution_Service_Properties\<close> states what it promises.
\<close>

section \<open>What is shown\<close>

text \<open>
  Each theory proves its operations against its own contract, on every branch: what a result means, what
  an error leaves behind. Abstract specifications are refined where there is one: the ledger files refine
  the board, the record tables of both stores refine versioned logs, the workflow service refines the
  abstract engine. State machines are inductive step relations (\<open>board_step\<close>, \<open>control_step\<close>,
  \<open>store_step\<close>, \<open>xstore_step\<close>, \<open>emergency_step\<close>, \<open>engine_step\<close>, \<open>workflow_call\<close>, \<open>service_step\<close>), their
  properties invariants of all reachable states. The interfaces are locales, each interpreted on the model:
  \<open>row_order\<close> (promotions and outbox), \<open>fenced_table\<close> (the leases), \<open>versioned_log\<close> (the record store)
  and \<open>logged_store\<close> (the store as the services use it).
\<close>

section \<open>Parameters, bounds and fuel\<close>

text \<open>
  Code that is not part of the repository is an argument: SHA-256 (\<open>digest\<close>, assumed to return 64 hex
  digits where a theorem says so, and injective on the texts in play where tampering is concerned),
  pydantic's string stripping and its readers (\<open>model_validate_json\<close>), the secret scanner's verdict, and
  the clock, whose values are arguments. The execution service is given its collaborators as the code
  takes them (\<open>service_env\<close>): the employee registry, the workspace preparer, git and the clocks answer by
  the number of questions asked before, so that no two answers need agree; \<open>service_ok\<close> says what the
  theorems assume of them (digests of 64 hex digits, stripping that leaves identifiers alone, a reader
  that returns valid assignments, a positive lease time). What the runtime returns or raises is an
  argument of \<open>collect\<close>. A Python \<open>str\<close> is a list of characters below 256. The reader
  of JSON text needs no fuel beyond the length of the text plus one, which \<open>loads_dumps\<close> shows to be
  enough. The walks along the ledger keep the limits of the code (10000 events, 100000 visited events)
  and are total functions by these limits. The retry loop of the workflow engine ends by the number of
  attempts left. Lease times are milliseconds rounded down, which the float arithmetic of the code does
  exactly for times between 2004 and 2038.
\<close>

section \<open>Not modelled\<close>

text \<open>
  Left out inside modelled components: descriptor flags and fsync, the advisory lock of the ledger and the
  SQLite locks (taken as atomicity of a command or transaction), connection setup and pragmas, and the
  process handling of the adapters. The leases are those of one service process: a process that dies
  keeps them until they expire, which is what recovery is for. The workspace manager and the employee
  catalog, which the service takes as protocols, are not modelled. Left out as a whole: ingestion, extraction and full text search
  (third party decoders and SQLite FTS), the markdown and code indexes (parsers and git), the tool hub,
  authoring of skills and packages, backup and migration (file system and archives), the web application
  and the command line (routing and text). \<open>PROJECT.json\<close> lists them with their sources.
\<close>

end
